(* ===== verification/Ieee.thy ===== *)
theory Ieee
  imports Complex_Main Prelude
begin

text \<open>
  The floating-point types \<open>f32\<close> and \<open>f64\<close> of the program: IEEE 754 binary formats with
  round-to-nearest-even, as Rust specifies for its primitive operations. A value is NaN, a signed
  infinity or a rational; the two zeros are one value, which no comparison of the program tells
  apart. Every operation is the exact rational operation followed by one rounding in the format.
  All definitions compute. The lemmas show that rounding is monotone and keeps representable
  values, from which the components derive their bounds on scores.
\<close>

datatype fp = NaN | Infinity bool | Finite rat

datatype format = F32 | F64

fun precision :: "format \<Rightarrow> int" where
  "precision F32 = 24"
| "precision F64 = 53"

fun min_exp :: "format \<Rightarrow> int" where
  "min_exp F32 = -149"
| "min_exp F64 = -1074"

fun max_exp :: "format \<Rightarrow> int" where
  "max_exp F32 = 128"
| "max_exp F64 = 1024"

section \<open>Rounding\<close>

definition pow2 :: "int \<Rightarrow> rat" where
  "pow2 e = (if 0 \<le> e then 2 ^ nat e else 1 / 2 ^ nat (- e))"

fun bit_length :: "nat \<Rightarrow> nat" where
  "bit_length n = (if n = 0 then 0 else Suc (bit_length (n div 2)))"

declare bit_length.simps [simp del]

definition ilog2 :: "rat \<Rightarrow> int" where
  "ilog2 x = (let (n, d) = quotient_of x;
                  k = int (bit_length (nat n)) - int (bit_length (nat d))
              in if pow2 k \<le> x then k else k - 1)"

definition round_half_even :: "rat \<Rightarrow> int" where
  "round_half_even x = (let f = \<lfloor>x\<rfloor>; r = x - of_int f in
     if r < 1 / 2 then f else if 1 / 2 < r then f + 1 else if even f then f else f + 1)"

definition quantum_exp :: "format \<Rightarrow> rat \<Rightarrow> int" where
  "quantum_exp fmt x = max (ilog2 x - (precision fmt - 1)) (min_exp fmt)"

definition round_mag :: "format \<Rightarrow> rat \<Rightarrow> rat" where
  "round_mag fmt x = (if x = 0 then 0 else
     (let q = pow2 (quantum_exp fmt x) in of_int (round_half_even (x / q)) * q))"

definition rnd :: "format \<Rightarrow> rat \<Rightarrow> fp" where
  "rnd fmt x = (let m = round_mag fmt \<bar>x\<bar> in
     if pow2 (max_exp fmt) \<le> m then Infinity (x < 0)
     else Finite (if x < 0 then - m else m))"

section \<open>Predicates and comparisons\<close>

fun is_finite :: "fp \<Rightarrow> bool" where
  "is_finite (Finite _) = True"
| "is_finite _ = False"

fun is_nan :: "fp \<Rightarrow> bool" where
  "is_nan NaN = True"
| "is_nan _ = False"

fun fp_le :: "fp \<Rightarrow> fp \<Rightarrow> bool" where
  "fp_le NaN _ = False"
| "fp_le _ NaN = False"
| "fp_le (Infinity True) _ = True"
| "fp_le _ (Infinity True) = False"
| "fp_le _ (Infinity False) = True"
| "fp_le (Infinity False) _ = False"
| "fp_le (Finite a) (Finite b) = (a \<le> b)"

fun fp_lt :: "fp \<Rightarrow> fp \<Rightarrow> bool" where
  "fp_lt NaN _ = False"
| "fp_lt _ NaN = False"
| "fp_lt _ (Infinity True) = False"
| "fp_lt (Infinity True) _ = True"
| "fp_lt (Infinity False) _ = False"
| "fp_lt _ (Infinity False) = True"
| "fp_lt (Finite a) (Finite b) = (a < b)"

definition fp_eq :: "fp \<Rightarrow> fp \<Rightarrow> bool" where
  "fp_eq a b = (fp_le a b \<and> fp_le b a)"

definition fp_in :: "rat \<Rightarrow> rat \<Rightarrow> fp \<Rightarrow> bool" where
  "fp_in lo hi x = (fp_le (Finite lo) x \<and> fp_le x (Finite hi))"

section \<open>Operations\<close>

fun fp_neg :: "fp \<Rightarrow> fp" where
  "fp_neg NaN = NaN"
| "fp_neg (Infinity s) = Infinity (\<not> s)"
| "fp_neg (Finite a) = Finite (- a)"

fun fp_abs :: "fp \<Rightarrow> fp" where
  "fp_abs NaN = NaN"
| "fp_abs (Infinity _) = Infinity False"
| "fp_abs (Finite a) = Finite \<bar>a\<bar>"

fun fp_add :: "format \<Rightarrow> fp \<Rightarrow> fp \<Rightarrow> fp" where
  "fp_add fmt (Finite a) (Finite b) = rnd fmt (a + b)"
| "fp_add fmt NaN _ = NaN"
| "fp_add fmt _ NaN = NaN"
| "fp_add fmt (Infinity s) (Infinity t) = (if s = t then Infinity s else NaN)"
| "fp_add fmt (Infinity s) (Finite _) = Infinity s"
| "fp_add fmt (Finite _) (Infinity s) = Infinity s"

definition fp_sub :: "format \<Rightarrow> fp \<Rightarrow> fp \<Rightarrow> fp" where
  "fp_sub fmt a b = fp_add fmt a (fp_neg b)"

fun fp_sgn :: "fp \<Rightarrow> rat" where
  "fp_sgn NaN = 0"
| "fp_sgn (Infinity s) = (if s then -1 else 1)"
| "fp_sgn (Finite a) = sgn a"

definition signed_inf :: "rat \<Rightarrow> fp" where
  "signed_inf s = (if s = 0 then NaN else Infinity (s < 0))"

fun fp_mul :: "format \<Rightarrow> fp \<Rightarrow> fp \<Rightarrow> fp" where
  "fp_mul fmt (Finite a) (Finite b) = rnd fmt (a * b)"
| "fp_mul fmt NaN _ = NaN"
| "fp_mul fmt _ NaN = NaN"
| "fp_mul fmt a b = signed_inf (fp_sgn a * fp_sgn b)"

text \<open>
  Division by zero yields an infinity of the sign of the dividend: the program divides by a value
  that may be zero only where the result is rejected unless it is finite.
\<close>

fun fp_div :: "format \<Rightarrow> fp \<Rightarrow> fp \<Rightarrow> fp" where
  "fp_div fmt NaN _ = NaN"
| "fp_div fmt _ NaN = NaN"
| "fp_div fmt (Finite a) (Finite b) =
     (if b = 0 then signed_inf (sgn a) else rnd fmt (a / b))"
| "fp_div fmt (Finite a) (Infinity _) = Finite 0"
| "fp_div fmt (Infinity s) (Infinity _) = NaN"
| "fp_div fmt (Infinity s) (Finite b) = Infinity (if b < 0 then \<not> s else s)"

text \<open>\<open>a.mul_add(b, c)\<close>: one rounding.\<close>

fun fp_fma :: "format \<Rightarrow> fp \<Rightarrow> fp \<Rightarrow> fp \<Rightarrow> fp" where
  "fp_fma fmt (Finite a) (Finite b) (Finite c) = rnd fmt (a * b + c)"
| "fp_fma fmt a b c =
     (case (a, b) of
        (Finite _, Finite _) \<Rightarrow> c
      | _ \<Rightarrow> (case fp_mul fmt a b of
                NaN \<Rightarrow> NaN
              | p \<Rightarrow> fp_add fmt p c))"

text \<open>\<open>f32::min\<close>, \<open>f32::max\<close>: a NaN argument is ignored.\<close>

definition fp_min :: "fp \<Rightarrow> fp \<Rightarrow> fp" where
  "fp_min a b = (if is_nan a then b else if is_nan b then a else if fp_le a b then a else b)"

definition fp_max :: "fp \<Rightarrow> fp \<Rightarrow> fp" where
  "fp_max a b = (if is_nan a then b else if is_nan b then a else if fp_le b a then a else b)"

definition fp_clamp :: "rat \<Rightarrow> rat \<Rightarrow> fp \<Rightarrow> fp" where
  "fp_clamp lo hi x =
     (if fp_lt x (Finite lo) then Finite lo else if fp_lt (Finite hi) x then Finite hi else x)"

fun fp_floor :: "fp \<Rightarrow> fp" where
  "fp_floor (Finite a) = Finite (of_int \<lfloor>a\<rfloor>)"
| "fp_floor x = x"

fun fp_ceil :: "fp \<Rightarrow> fp" where
  "fp_ceil (Finite a) = Finite (of_int \<lceil>a\<rceil>)"
| "fp_ceil x = x"

text \<open>\<open>f32::EPSILON\<close>; conversion of a wider value with \<open>as f32\<close>.\<close>

definition f32_epsilon :: fp where
  "f32_epsilon = Finite (1 / 8388608)"

fun fp_cast :: "format \<Rightarrow> fp \<Rightarrow> fp" where
  "fp_cast fmt (Finite a) = rnd fmt a"
| "fp_cast fmt x = x"

definition fp_of_int :: "int \<Rightarrow> fp" where
  "fp_of_int n = Finite (of_int n)"

section \<open>Powers of two and the binary logarithm\<close>

lemma pow2_pos [simp]: "0 < pow2 e"
  by (simp add: pow2_def)

lemma pow2_nonneg [simp]: "0 \<le> pow2 e"
  by (simp add: less_imp_le)

lemma pow2_nonzero [simp]: "pow2 e \<noteq> 0"
  using pow2_pos [of e] by linarith

lemma pow2_0 [simp]: "pow2 0 = 1"
  by (simp add: pow2_def)

lemma pow2_powi: "pow2 e = 2 powi e"
  by (simp add: pow2_def power_int_def field_simps power_inverse)

lemma pow2_add: "pow2 (a + b) = pow2 a * pow2 b"
  by (simp add: pow2_powi power_int_add)

lemma pow2_diff: "pow2 (a - b) = pow2 a / pow2 b"
  by (simp add: pow2_powi power_int_diff)

lemma pow2_strict_mono: "a < b \<Longrightarrow> pow2 a < pow2 b"
  by (simp add: pow2_powi power_int_strict_increasing)

lemma pow2_strict_mono_iff [simp]: "pow2 a < pow2 b \<longleftrightarrow> a < b"
  using pow2_strict_mono [of a b] pow2_strict_mono [of b a]
  by (cases a b rule: linorder_cases) auto

lemma pow2_mono_iff [simp]: "pow2 a \<le> pow2 b \<longleftrightarrow> a \<le> b"
  by (simp flip: not_less)

lemma pow2_nat: "0 \<le> e \<Longrightarrow> pow2 e = of_int (2 ^ nat e)"
  by (simp add: pow2_def)

lemma bit_length_bounds: "0 < n \<Longrightarrow> 2 ^ (bit_length n - 1) \<le> n \<and> n < 2 ^ bit_length n \<and> 0 < bit_length n"
proof (induction n rule: bit_length.induct)
  case (1 n)
  show ?case
  proof (cases "n = 1")
    case True
    then show ?thesis by (simp add: bit_length.simps)
  next
    case False
    with "1.prems" have half: "0 < n div 2" by auto
    let ?h = "n div 2"
    from "1.IH" [OF _ half] "1.prems"
    have IH: "2 ^ (bit_length ?h - 1) \<le> ?h" "?h < 2 ^ bit_length ?h" "0 < bit_length ?h"
      by auto
    have step: "bit_length n = Suc (bit_length ?h)"
      using "1.prems" by (subst bit_length.simps) simp
    obtain b where b: "bit_length ?h = Suc b" using IH(3) by (cases "bit_length ?h") auto
    from IH(1) b have "2 * 2 ^ b \<le> n" by simp
    moreover from IH(2) have "n < 2 * 2 ^ bit_length ?h" by auto
    ultimately show ?thesis by (simp add: step b)
  qed
qed

lemma ilog2_bounds:
  assumes "0 < x"
  shows "pow2 (ilog2 x) \<le> x" and "x < pow2 (ilog2 x + 1)"
proof -
  obtain n d where q: "quotient_of x = (n, d)" by (cases "quotient_of x")
  have d: "0 < d" using q by (rule quotient_of_denom_pos)
  have x: "x = of_int n / of_int d" using q by (rule quotient_of_div)
  have n: "0 < n" using assms x d by (simp add: zero_less_divide_iff)
  define bn where "bn = bit_length (nat n)"
  define bd where "bd = bit_length (nat d)"
  have pn: "0 < nat n" and pd: "0 < nat d" using n d by auto
  note N = bit_length_bounds [OF pn, folded bn_def] and D = bit_length_bounds [OF pd, folded bd_def]
  have pw: "pow2 (int k) = of_nat (2 ^ k)" for k by (simp add: pow2_def)
  have "rat_of_nat (nat n) < of_nat (2 ^ bn)" using N by (simp only: of_nat_less_iff)
  then have nu: "of_int n < pow2 (int bn)" using n by (simp add: pw)
  have "rat_of_nat (2 ^ (bn - 1)) \<le> of_nat (nat n)" using N by (simp only: of_nat_le_iff)
  then have nl: "pow2 (int bn - 1) \<le> of_int n"
    using n N pw [of "bn - 1"] by (simp add: of_nat_diff)
  have "rat_of_nat (nat d) < of_nat (2 ^ bd)" using D by (simp only: of_nat_less_iff)
  then have du: "of_int d < pow2 (int bd)" using d by (simp add: pw)
  have "rat_of_nat (2 ^ (bd - 1)) \<le> of_nat (nat d)" using D by (simp only: of_nat_le_iff)
  then have dl: "pow2 (int bd - 1) \<le> of_int d"
    using d D pw [of "bd - 1"] by (simp add: of_nat_diff)
  have d0: "(0::rat) < of_int d" using d by simp
  define k where "k = int bn - int bd"
  have "x < pow2 (int bn) / pow2 (int bd - 1)"
    unfolding x by (rule frac_less) (use nu dl n d0 pow2_pos in auto)
  then have up: "x < pow2 (k + 1)" by (simp add: k_def flip: pow2_diff add: algebra_simps)
  have "pow2 (int bn - 1) / pow2 (int bd) \<le> x"
    unfolding x by (rule frac_le) (use nl du d0 n in auto)
  then have lo: "pow2 (k - 1) \<le> x" by (simp add: k_def flip: pow2_diff add: algebra_simps)
  have il: "ilog2 x = (if pow2 k \<le> x then k else k - 1)"
    by (simp add: ilog2_def q k_def bn_def bd_def Let_def)
  show "pow2 (ilog2 x) \<le> x" using lo by (simp add: il)
  show "x < pow2 (ilog2 x + 1)" using up by (simp add: il not_le)
qed

lemma ilog2_mono: "0 < x \<Longrightarrow> x \<le> y \<Longrightarrow> ilog2 x \<le> ilog2 y"
proof -
  assume "0 < x" "x \<le> y"
  then have "pow2 (ilog2 x) < pow2 (ilog2 y + 1)"
    using ilog2_bounds [of x] ilog2_bounds [of y] by linarith
  then show ?thesis by simp
qed

lemma ilog2_less: "0 < x \<Longrightarrow> x < pow2 k \<Longrightarrow> ilog2 x < k"
proof -
  assume "0 < x" "x < pow2 k"
  then have "pow2 (ilog2 x) < pow2 k" using ilog2_bounds(1) [of x] by linarith
  then show ?thesis by simp
qed

section \<open>Rounding is monotone and keeps representable values\<close>

lemma round_half_even_of_int [simp]: "round_half_even (of_int n) = n"
  by (simp add: round_half_even_def)

lemma round_half_even_mono:
  assumes "x \<le> y"
  shows "round_half_even x \<le> round_half_even y"
proof (cases "\<lfloor>x\<rfloor> = \<lfloor>y\<rfloor>")
  case True
  then show ?thesis using assms by (auto simp: round_half_even_def Let_def)
next
  case False
  then have "\<lfloor>x\<rfloor> + 1 \<le> \<lfloor>y\<rfloor>" using floor_mono [OF assms] by linarith
  moreover have "round_half_even x \<le> \<lfloor>x\<rfloor> + 1" "\<lfloor>y\<rfloor> \<le> round_half_even y"
    by (auto simp: round_half_even_def Let_def)
  ultimately show ?thesis by linarith
qed

lemma round_half_even_nonneg: "0 \<le> x \<Longrightarrow> 0 \<le> round_half_even x"
  using round_half_even_mono [of 0 x] round_half_even_of_int [of 0] by simp

lemma round_mag_nonneg: "0 \<le> x \<Longrightarrow> 0 \<le> round_mag fmt x"
  by (auto simp: round_mag_def Let_def intro!: mult_nonneg_nonneg round_half_even_nonneg divide_nonneg_nonneg)

lemma quantum_exp_mono: "0 < x \<Longrightarrow> x \<le> y \<Longrightarrow> quantum_exp fmt x \<le> quantum_exp fmt y"
  using ilog2_mono [of x y] by (auto simp: quantum_exp_def)

lemma pow2_ratio_int: "e \<le> k \<Longrightarrow> pow2 k / pow2 e = of_int (2 ^ nat (k - e))"
  by (simp flip: pow2_diff add: pow2_nat)

lemma round_to_grid_le:
  assumes "x \<le> pow2 k" and "e \<le> k"
  shows "of_int (round_half_even (x / pow2 e)) * pow2 e \<le> pow2 k"
proof -
  have "x / pow2 e \<le> of_int (2 ^ nat (k - e))"
    unfolding pow2_ratio_int [OF assms(2), symmetric] using assms(1) by (simp add: divide_right_mono)
  from round_half_even_mono [OF this]
  have "round_half_even (x / pow2 e) \<le> 2 ^ nat (k - e)" by (simp only: round_half_even_of_int)
  then have "(of_int (round_half_even (x / pow2 e)) :: rat) \<le> pow2 k / pow2 e"
    using assms(2) by (simp only: pow2_ratio_int of_int_le_iff)
  then show ?thesis by (simp add: field_simps)
qed

lemma round_to_grid_ge:
  assumes "pow2 k \<le> x" and "e \<le> k"
  shows "pow2 k \<le> of_int (round_half_even (x / pow2 e)) * pow2 e"
proof -
  have "of_int (2 ^ nat (k - e)) \<le> x / pow2 e"
    unfolding pow2_ratio_int [OF assms(2), symmetric] using assms(1) by (simp add: divide_right_mono)
  from round_half_even_mono [OF this]
  have "2 ^ nat (k - e) \<le> round_half_even (x / pow2 e)" by (simp only: round_half_even_of_int)
  then have "pow2 k / pow2 e \<le> (of_int (round_half_even (x / pow2 e)) :: rat)"
    using assms(2) by (simp only: pow2_ratio_int of_int_le_iff)
  then show ?thesis by (simp add: field_simps)
qed

lemma precision_pos: "1 < precision fmt"
  by (cases fmt) simp_all

lemma round_mag_mono:
  assumes "0 \<le> x" and "x \<le> y"
  shows "round_mag fmt x \<le> round_mag fmt y"
proof (cases "x = 0")
  case True
  then show ?thesis using assms round_mag_nonneg [of y fmt] by (simp add: round_mag_def)
next
  case False
  with assms have x: "0 < x" and y: "0 < y" by auto
  let ?ex = "quantum_exp fmt x" and ?ey = "quantum_exp fmt y"
  have rx: "round_mag fmt x = of_int (round_half_even (x / pow2 ?ex)) * pow2 ?ex"
    and ry: "round_mag fmt y = of_int (round_half_even (y / pow2 ?ey)) * pow2 ?ey"
    using x y by (simp_all add: round_mag_def Let_def)
  show ?thesis
  proof (cases "?ex = ?ey")
    case True
    have "x / pow2 ?ey \<le> y / pow2 ?ey" using assms(2) by (simp add: divide_right_mono)
    from round_half_even_mono [OF this] show ?thesis
      unfolding rx ry True by (simp add: mult_right_mono)
  next
    case False
    with quantum_exp_mono [OF x assms(2), of fmt] have lt: "?ex < ?ey" by simp
    let ?k = "ilog2 y"
    have ey: "?ey = ?k - (precision fmt - 1)"
      using lt by (auto simp: quantum_exp_def max_def split: if_splits)
    have "ilog2 x < ilog2 y"
      using lt ey by (auto simp: quantum_exp_def)
    then have "pow2 (ilog2 x + 1) \<le> pow2 ?k" by simp
    with ilog2_bounds(2) [OF x] have xk: "x \<le> pow2 ?k" by linarith
    have "round_mag fmt x \<le> pow2 ?k"
      unfolding rx using xk lt ey precision_pos [of fmt] by (intro round_to_grid_le) auto
    also have "pow2 ?k \<le> round_mag fmt y"
      unfolding ry using ilog2_bounds(1) [OF y] ey precision_pos [of fmt]
      by (intro round_to_grid_ge) auto
    finally show ?thesis .
  qed
qed

lemma round_mag_exact:
  assumes "0 \<le> m" and "m < 2 ^ nat (precision fmt)" and "min_exp fmt \<le> e"
  shows "round_mag fmt (of_int m * pow2 e) = of_int m * pow2 e"
proof (cases "m = 0")
  case True
  then show ?thesis by (simp add: round_mag_def)
next
  case False
  let ?x = "of_int m * pow2 e"
  have x: "0 < ?x" using False assms(1) by simp
  have "(of_int m :: rat) < of_int (2 ^ nat (precision fmt))"
    using assms(2) by (simp only: of_int_less_iff)
  then have "(of_int m :: rat) < pow2 (precision fmt)"
    using precision_pos [of fmt] by (simp add: pow2_nat)
  then have "?x < pow2 (precision fmt + e)" by (simp add: pow2_add)
  then have "ilog2 ?x < precision fmt + e" using x by (rule ilog2_less [rotated])
  then have q: "quantum_exp fmt ?x \<le> e" using assms(3) by (simp add: quantum_exp_def)
  have "?x / pow2 (quantum_exp fmt ?x) = of_int (m * 2 ^ nat (e - quantum_exp fmt ?x))"
    by (simp only: times_divide_eq_right [symmetric] pow2_ratio_int [OF q] of_int_mult)
  then have "round_half_even (?x / pow2 (quantum_exp fmt ?x)) = m * 2 ^ nat (e - quantum_exp fmt ?x)"
    by (simp only: round_half_even_of_int)
  then have "round_mag fmt ?x = of_int m * (pow2 e / pow2 (quantum_exp fmt ?x)) * pow2 (quantum_exp fmt ?x)"
    using x pow2_ratio_int [OF q] by (simp add: round_mag_def Let_def)
  then show ?thesis by simp
qed

lemma rnd_mono:
  assumes "x \<le> y"
  shows "fp_le (rnd fmt x) (rnd fmt y)"
proof -
  consider "0 \<le> x" | "x < 0" "0 \<le> y" | "x < 0" "y < 0" by linarith
  then show ?thesis
  proof cases
    case 1
    then have "round_mag fmt \<bar>x\<bar> \<le> round_mag fmt \<bar>y\<bar>" using assms by (simp add: round_mag_mono)
    then show ?thesis using 1 assms by (auto simp: rnd_def Let_def)
  next
    case 2
    have "0 \<le> round_mag fmt \<bar>x\<bar>" "0 \<le> round_mag fmt \<bar>y\<bar>" by (simp_all add: round_mag_nonneg)
    then show ?thesis using 2 by (auto simp: rnd_def Let_def)
  next
    case 3
    then have "round_mag fmt \<bar>y\<bar> \<le> round_mag fmt \<bar>x\<bar>" using assms by (simp add: round_mag_mono)
    then show ?thesis using 3 by (auto simp: rnd_def Let_def)
  qed
qed

lemma rnd_exact_nonneg:
  assumes "0 \<le> m" and "m < 2 ^ nat (precision fmt)" and "min_exp fmt \<le> e"
    and "of_int m * pow2 e < pow2 (max_exp fmt)"
  shows "rnd fmt (of_int m * pow2 e) = Finite (of_int m * pow2 e)"
proof -
  define x where "x = of_int m * pow2 e"
  have "0 \<le> x" and "round_mag fmt x = x" and "x < pow2 (max_exp fmt)"
    using assms round_mag_exact [OF assms(1-3)] by (simp_all add: x_def)
  then show ?thesis unfolding x_def [symmetric] by (simp add: rnd_def Let_def)
qed

lemma rnd_neg: "0 < x \<Longrightarrow> rnd fmt (- x) = fp_neg (rnd fmt x)"
  by (auto simp: rnd_def Let_def)

lemma rnd_of_nat_small:
  assumes "n < 2 ^ nat (precision fmt)"
  shows "rnd fmt (of_nat n) = Finite (of_nat n)"
proof -
  have "(of_int (int n) :: rat) < of_int (2 ^ nat (precision fmt))"
    using assms by (simp only: of_int_less_iff) (simp flip: of_nat_less_iff)
  also have "\<dots> = pow2 (precision fmt)" using precision_pos [of fmt] by (simp add: pow2_nat)
  also have "\<dots> < pow2 (max_exp fmt)" by (cases fmt) simp_all
  finally have "of_int (int n) * pow2 0 < pow2 (max_exp fmt)" by simp
  then show ?thesis using rnd_exact_nonneg [of "int n" fmt 0] assms
    by (cases fmt) (simp_all flip: of_nat_less_iff)
qed

lemma rnd_0 [simp]: "rnd fmt 0 = Finite 0"
  using rnd_of_nat_small [of 0 fmt] by simp

lemma rnd_1 [simp]: "rnd fmt 1 = Finite 1"
  using rnd_of_nat_small [of 1 fmt] by (cases fmt) simp_all

lemma rnd_nonneg: "0 \<le> x \<Longrightarrow> fp_le (Finite 0) (rnd fmt x)"
  using rnd_mono [of 0 x fmt] by simp

lemma rnd_between:
  assumes "rnd fmt lo = Finite lo" and "rnd fmt hi = Finite hi" and "lo \<le> x" and "x \<le> hi"
  obtains r where "rnd fmt x = Finite r" and "lo \<le> r" and "r \<le> hi"
proof -
  have "fp_le (Finite lo) (rnd fmt x)" using rnd_mono [OF assms(3), of fmt] assms(1) by simp
  moreover have "fp_le (rnd fmt x) (Finite hi)" using rnd_mono [OF assms(4), of fmt] assms(2) by simp
  ultimately obtain r where "rnd fmt x = Finite r" "lo \<le> r" "r \<le> hi"
    by (cases "rnd fmt x" rule: fp_le.cases [of "(_, Finite hi)"]) (auto elim: fp_le.elims)
  then show ?thesis by (rule that)
qed

section \<open>Order facts\<close>

lemma fp_in_Finite: "fp_in lo hi x \<longleftrightarrow> (\<exists>r. x = Finite r \<and> lo \<le> r \<and> r \<le> hi)"
proof (cases x)
  case (Infinity s)
  then show ?thesis by (cases s) (simp_all add: fp_in_def)
qed (auto simp: fp_in_def)

lemma fp_in_finite: "fp_in lo hi x \<Longrightarrow> is_finite x"
  by (auto simp: fp_in_Finite)

lemma rnd_fp_in:
  assumes "rnd fmt lo = Finite lo" and "rnd fmt hi = Finite hi" and "lo \<le> x" and "x \<le> hi"
  shows "fp_in lo hi (rnd fmt x)"
  using rnd_between [OF assms] by (metis fp_in_Finite)

lemma rnd_unit: "0 \<le> x \<Longrightarrow> x \<le> 1 \<Longrightarrow> fp_in 0 1 (rnd fmt x)"
  by (rule rnd_fp_in) simp_all

lemma is_finiteE: "is_finite x \<Longrightarrow> (\<And>r. x = Finite r \<Longrightarrow> P) \<Longrightarrow> P"
  by (cases x) auto

lemma fp_clamp_in:
  assumes "\<not> is_nan x" and "lo \<le> hi"
  shows "fp_in lo hi (fp_clamp lo hi x)"
proof (cases x)
  case (Infinity s)
  then show ?thesis using assms by (cases s) (auto simp: fp_clamp_def fp_in_def)
qed (use assms in \<open>auto simp: fp_clamp_def fp_in_def\<close>)

lemma fp_min_in: "fp_in lo hi a \<Longrightarrow> fp_in lo hi b \<Longrightarrow> fp_in lo hi (fp_min a b)"
  by (auto simp: fp_in_Finite fp_min_def)

lemma fp_max_in: "fp_in lo hi a \<Longrightarrow> fp_in lo hi b \<Longrightarrow> fp_in lo hi (fp_max a b)"
  by (auto simp: fp_in_Finite fp_max_def)

lemma fp_lt_not_le: "\<not> is_nan a \<Longrightarrow> \<not> is_nan b \<Longrightarrow> fp_lt a b \<longleftrightarrow> \<not> fp_le b a"
proof (induction a b rule: fp_lt.induct)
qed auto

lemma fp_lt_irrefl [simp]: "\<not> fp_lt x x"
proof (cases x)
  case (Infinity s)
  then show ?thesis by (cases s) simp_all
qed simp_all

end
