(* ===== verification/Protocol.thy ===== *)
theory Protocol
  imports Prelude
begin

text \<open>
  The messages of \<open>crates/faceauth-protocol/src/lib.rs\<close>: the versioned envelope, transaction
  identifiers, validated service names, requests, responses and their closed codes. Identifiers are
  the 128 bits of a UUID; the operating system's random source is an argument of the operations
  that draw one. Strings are lists of bytes, so \<open>length\<close> is the encoded length the code counts.
\<close>

section \<open>Envelope\<close>

definition PROTOCOL_VERSION :: u16 where
  "PROTOCOL_VERSION = 2"

definition MAX_SERVICE_NAME_LENGTH :: nat where
  "MAX_SERVICE_NAME_LENGTH = 64"

record 'a Envelope =
  protocol_version :: u16
  message :: 'a

datatype ProtocolError = UnsupportedVersion (received: u16) (supported: u16)

definition envelope_current :: "'a \<Rightarrow> 'a Envelope" where
  "envelope_current m = \<lparr>protocol_version = PROTOCOL_VERSION, message = m\<rparr>"

definition validate_version :: "'a Envelope \<Rightarrow> ProtocolError + unit" where
  "validate_version e =
     (if protocol_version e = PROTOCOL_VERSION then Inr ()
      else Inl (UnsupportedVersion (protocol_version e) PROTOCOL_VERSION))"

lemma validate_version_current [simp]: "validate_version (envelope_current m) = Inr ()"
  by (simp add: validate_version_def envelope_current_def)

section \<open>Identifiers and service names\<close>

datatype TransactionId = TransactionId "128 word"

text \<open>
  \<open>Uuid::new_v4\<close> sets the version and variant bits of 16 random bytes; the random bytes are the
  argument. Of the 128 bits (most significant byte first) byte 6 keeps its low nibble under
  version 4 and byte 8 its low six bits under the RFC variant.
\<close>

definition uuid_v4 :: "128 word \<Rightarrow> 128 word" where
  "uuid_v4 r = (r AND NOT (push_bit 76 15) AND NOT (push_bit 62 3)) OR push_bit 78 1 OR push_bit 63 1"

definition transaction_generate :: "128 word \<Rightarrow> TransactionId" where
  "transaction_generate r = TransactionId (uuid_v4 r)"

datatype ServiceName = ServiceName string

fun service_as_str :: "ServiceName \<Rightarrow> string" where
  "service_as_str (ServiceName s) = s"

datatype ServiceNameError =
  SN_Empty
| SN_TooLong (actual: nat) (maximum: nat)
| SN_InvalidCharacter

definition is_ascii_alphanumeric :: "char \<Rightarrow> bool" where
  "is_ascii_alphanumeric c =
     (let n = (of_char c :: nat) in (48 \<le> n \<and> n \<le> 57) \<or> (65 \<le> n \<and> n \<le> 90) \<or> (97 \<le> n \<and> n \<le> 122))"

definition service_byte_allowed :: "char \<Rightarrow> bool" where
  "service_byte_allowed c = (is_ascii_alphanumeric c \<or> c \<in> set ''._-'')"

definition service_parse :: "string \<Rightarrow> ServiceNameError + ServiceName" where
  "service_parse v =
     (if v = [] then Inl SN_Empty
      else if length v > MAX_SERVICE_NAME_LENGTH
        then Inl (SN_TooLong (length v) MAX_SERVICE_NAME_LENGTH)
      else if \<not> list_all service_byte_allowed v then Inl SN_InvalidCharacter
      else Inr (ServiceName v))"

definition service_into_string :: "ServiceName \<Rightarrow> string" where
  "service_into_string s = service_as_str s"

definition service_wf :: "ServiceName \<Rightarrow> bool" where
  "service_wf s \<longleftrightarrow>
     (let v = service_as_str s in v \<noteq> [] \<and> length v \<le> 64 \<and> list_all service_byte_allowed v)"

lemma service_parse_ok:
  "service_parse v = Inr s \<longleftrightarrow> s = ServiceName v \<and> service_wf s"
  by (auto simp: service_parse_def service_wf_def MAX_SERVICE_NAME_LENGTH_def Let_def)

section \<open>Requests and responses\<close>

datatype AuthenticationPurpose = Test | ScreenUnlock | Login | Polkit | Sudo

record RequestContext =
  transaction_id :: TransactionId
  target_uid :: u32
  service :: ServiceName
  purpose :: AuthenticationPurpose

datatype Request =
  Authenticate RequestContext
| Cancel TransactionId

datatype DecisionCode =
  DC_Accepted
| DC_InfraredMissing
| DC_VisibleMissing
| DC_InsufficientQuality
| DC_PassiveLivenessFailed
| DC_ActiveChallengeFailed
| DC_FaceMismatch
| DC_Cancelled
| DC_TimedOut
| DC_InternalError

definition decision_is_accepted :: "DecisionCode \<Rightarrow> bool" where
  "decision_is_accepted d = (case d of DC_Accepted \<Rightarrow> True | _ \<Rightarrow> False)"

datatype RejectionCode =
  UnauthorizedPeer
| ServiceNotAllowed
| NotEnrolled
| CameraUnavailable
| RC_Busy
| ServiceUnavailable

datatype ProgressCode =
  PC_PositionFace
| PC_HoldStill
| PC_Blink
| PC_TurnLeft
| PC_TurnRight
| PC_ReturnToCenter
| PC_Processing

datatype Response =
  Started TransactionId
| Progress TransactionId ProgressCode
| Completed TransactionId DecisionCode
| Rejected "TransactionId option" RejectionCode

fun response_id :: "Response \<Rightarrow> TransactionId option" where
  "response_id (Started t) = Some t"
| "response_id (Progress t _) = Some t"
| "response_id (Completed t _) = Some t"
| "response_id (Rejected t _) = t"

lemma decision_is_accepted_iff [simp]: "decision_is_accepted d \<longleftrightarrow> d = DC_Accepted"
  by (cases d) (simp_all add: decision_is_accepted_def)

text \<open>
  A service name parsed from a string is the string itself and is never outside the
  allowlist; parsing the text of a parsed name gives the same name back, and a string is refused
  exactly when it is empty, longer than 64 bytes or has a byte outside the allowlist.
\<close>

theorem service_name_roundtrip:
  "(case service_parse v of
      Inr s \<Rightarrow> service_into_string s = v \<and> service_wf s \<and> service_parse (service_into_string s) = Inr s
    | Inl SN_Empty \<Rightarrow> v = []
    | Inl (SN_TooLong n m) \<Rightarrow> n = length v \<and> m = 64 \<and> 64 < n
    | Inl SN_InvalidCharacter \<Rightarrow> \<not> list_all service_byte_allowed v)"
proof (cases "service_parse v")
  case (Inr s)
  with service_parse_ok [of v s] show ?thesis by (auto simp: service_into_string_def)
next
  case (Inl e)
  then show ?thesis
    by (auto simp: service_parse_def MAX_SERVICE_NAME_LENGTH_def split: if_splits)
qed

end
