(* ===== verification/CorePolicy.thy ===== *)
theory CorePolicy
  imports Ieee Protocol
begin

text \<open>
  \<open>crates/faceauth-core/src/policy.rs\<close>: the capture policy, which decides whether two camera
  timestamps are one observation, and the authentication policy, which turns a set of evidence
  into one decision with a stable reason.
\<close>

section \<open>Capture policy\<close>

datatype CaptureModality = Infrared | Visible

record CapturePair =
  infrared_timestamp_micros :: u64
  visible_timestamp_micros :: "u64 option"

record CapturePolicy =
  require_infrared :: bool
  require_visible :: bool
  max_pair_skew_micros :: u64

datatype PolicyError =
  InfraredRequired
| PairSkewMustBePositive
| VisibleFrameRequired
| FramePairTooFarApart u64 u64
| InvalidUnitScore string
| PasswordFallbackRequired

definition capture_policy_default :: CapturePolicy where
  "capture_policy_default =
     \<lparr>require_infrared = True, require_visible = True, max_pair_skew_micros = 100000\<rparr>"

definition capture_validate :: "CapturePolicy \<Rightarrow> PolicyError + unit" where
  "capture_validate p =
     (if \<not> require_infrared p then Inl InfraredRequired
      else if max_pair_skew_micros p = 0 then Inl PairSkewMustBePositive
      else Inr ())"

definition capture_accepts :: "CapturePolicy \<Rightarrow> CapturePair \<Rightarrow> PolicyError + unit" where
  "capture_accepts p pair = try_bind (capture_validate p) (\<lambda>_.
     case visible_timestamp_micros pair of
       None \<Rightarrow> if require_visible p then Inl VisibleFrameRequired else Inr ()
     | Some v \<Rightarrow>
         let skew = abs_diff (infrared_timestamp_micros pair) v in
         if skew > max_pair_skew_micros p
           then Inl (FramePairTooFarApart skew (max_pair_skew_micros p))
           else Inr ())"

section \<open>Authentication policy\<close>

datatype LivenessLevel = Passive | PassiveAndActive

record AuthPolicy =
  capture :: CapturePolicy
  liveness :: LivenessLevel
  minimum_similarity :: fp
  minimum_quality :: fp
  password_fallback :: bool

datatype ObservationStatus = Missing | Observed

datatype CheckStatus = NotPerformed | Failed | Passed

record AuthenticationEvidence =
  similarity :: fp
  quality :: fp
  infrared :: ObservationStatus
  visible :: ObservationStatus
  passive_liveness :: CheckStatus
  active_challenge :: CheckStatus

datatype DecisionReason =
  Accepted
| InfraredMissing
| VisibleMissing
| InsufficientQuality
| PassiveLivenessFailed
| ActiveChallengeFailed
| FaceMismatch

record AuthenticationDecision =
  accepted :: bool
  reason :: DecisionReason

definition auth_policy_default :: AuthPolicy where
  "auth_policy_default =
     \<lparr>capture = capture_policy_default, liveness = PassiveAndActive,
      minimum_similarity = rnd F32 (55 / 100), minimum_quality = rnd F32 (65 / 100),
      password_fallback = True\<rparr>"

definition validate_unit_score :: "string \<Rightarrow> fp \<Rightarrow> PolicyError + unit" where
  "validate_unit_score field v =
     (if is_finite v \<and> fp_in 0 1 v then Inr () else Inl (InvalidUnitScore field))"

definition policy_validate :: "AuthPolicy \<Rightarrow> PolicyError + unit" where
  "policy_validate p =
     try_bind (capture_validate (capture p)) (\<lambda>_.
     try_bind (validate_unit_score ''minimum_similarity'' (minimum_similarity p)) (\<lambda>_.
     try_bind (validate_unit_score ''minimum_quality'' (minimum_quality p)) (\<lambda>_.
     if \<not> password_fallback p then Inl PasswordFallbackRequired else Inr ())))"

definition decision_reason :: "AuthPolicy \<Rightarrow> AuthenticationEvidence \<Rightarrow> DecisionReason" where
  "decision_reason p e =
     (if infrared e \<noteq> Observed then InfraredMissing
      else if require_visible (capture p) \<and> visible e \<noteq> Observed then VisibleMissing
      else if fp_lt (quality e) (minimum_quality p) then InsufficientQuality
      else if passive_liveness e \<noteq> Passed then PassiveLivenessFailed
      else if liveness p = PassiveAndActive \<and> active_challenge e \<noteq> Passed
        then ActiveChallengeFailed
      else if fp_lt (similarity e) (minimum_similarity p) then FaceMismatch
      else Accepted)"

definition policy_evaluate ::
  "AuthPolicy \<Rightarrow> AuthenticationEvidence \<Rightarrow> PolicyError + AuthenticationDecision" where
  "policy_evaluate p e =
     try_bind (policy_validate p) (\<lambda>_.
     try_bind (validate_unit_score ''similarity'' (similarity e)) (\<lambda>_.
     try_bind (validate_unit_score ''quality'' (quality e)) (\<lambda>_.
     let r = decision_reason p e in
     Inr \<lparr>accepted = (r = Accepted), reason = r\<rparr>)))"

section \<open>Facts\<close>

lemma capture_validate_ok:
  "capture_validate p = Inr u \<longleftrightarrow> require_infrared p \<and> max_pair_skew_micros p \<noteq> 0"
  by (simp add: capture_validate_def)

lemma unit_score_ok: "validate_unit_score f v = Inr u \<longleftrightarrow> fp_in 0 1 v"
  using fp_in_finite by (auto simp: validate_unit_score_def)

lemma policy_validate_ok:
  "policy_validate p = Inr u \<longleftrightarrow>
     require_infrared (capture p) \<and> max_pair_skew_micros (capture p) \<noteq> 0 \<and>
     fp_in 0 1 (minimum_similarity p) \<and> fp_in 0 1 (minimum_quality p) \<and> password_fallback p"
  by (auto simp: policy_validate_def result_simps unit_score_ok capture_validate_ok)

lemma capture_accepts_paired:
  "capture_accepts p pair = Inr u \<Longrightarrow> require_visible p \<Longrightarrow>
     \<exists>v. visible_timestamp_micros pair = Some v \<and>
         abs_diff (infrared_timestamp_micros pair) v \<le> max_pair_skew_micros p"
  by (auto simp: capture_accepts_def result_simps Let_def not_less split: option.splits if_splits)

lemma unit_score_order:
  "fp_in 0 1 a \<Longrightarrow> fp_in 0 1 b \<Longrightarrow> fp_lt a b \<longleftrightarrow> \<not> fp_le b a"
  by (auto simp: fp_in_Finite)

lemma decision_reason_accepted:
  "decision_reason p e = Accepted \<longleftrightarrow>
     infrared e = Observed \<and> (require_visible (capture p) \<longrightarrow> visible e = Observed) \<and>
     \<not> fp_lt (quality e) (minimum_quality p) \<and> passive_liveness e = Passed \<and>
     (liveness p = PassiveAndActive \<longrightarrow> active_challenge e = Passed) \<and>
     \<not> fp_lt (similarity e) (minimum_similarity p)"
  by (auto simp: decision_reason_def)

text \<open>
  The policy accepts only with all its evidence: an accepting decision of \<open>evaluate\<close> has an
  infrared observation, the visible one when required, a quality and a similarity score at or above
  their thresholds, passive liveness passed and, at the level \<open>PassiveAndActive\<close>, the active
  challenge passed; and it comes only from a policy that is valid, so that keeps the password
  fallback and requires infrared. Conversely all that evidence is accepted.
\<close>

theorem policy_accepts_iff:
  "(\<exists>d. policy_evaluate p e = Inr d \<and> accepted d) \<longleftrightarrow>
     policy_validate p = Inr () \<and> password_fallback p \<and> require_infrared (capture p) \<and>
     fp_in 0 1 (similarity e) \<and> fp_in 0 1 (quality e) \<and>
     infrared e = Observed \<and> (if require_visible (capture p) then visible e = Observed else True) \<and>
     passive_liveness e = Passed \<and>
     (if liveness p = PassiveAndActive then active_challenge e = Passed else True) \<and>
     fp_le (minimum_quality p) (quality e) \<and> fp_le (minimum_similarity p) (similarity e)"
proof -
  have "(\<exists>d. policy_evaluate p e = Inr d \<and> accepted d) \<longleftrightarrow>
     policy_validate p = Inr () \<and> fp_in 0 1 (similarity e) \<and> fp_in 0 1 (quality e) \<and>
     decision_reason p e = Accepted"
    by (auto simp: policy_evaluate_def result_simps Let_def unit_score_ok)
  then show ?thesis
    by (auto simp: policy_validate_ok decision_reason_accepted unit_score_order)
qed

end
