(* ===== verification/OneShot.thy ===== *)
theory OneShot
  imports Prelude
begin

text \<open>
  The contract of a single-capacity transaction slot. The authentication session manager, the
  management coordinator and the desktop experience model each own at most one operation, open it
  once, update it under its identifier and close it once. A component states which of its outputs
  open, update or close an operation; the laws of the locale tie these events to the identifier
  the state holds; the trace theorems are proved here once.
\<close>

datatype 'i slot_event = Opened 'i | Updated 'i | Closed 'i

fun bracketed :: "'i option \<Rightarrow> 'i slot_event list \<Rightarrow> bool" where
  "bracketed cur [] = True"
| "bracketed None (Opened i # es) = bracketed (Some i) es"
| "bracketed (Some i) (Updated j # es) = (i = j \<and> bracketed (Some i) es)"
| "bracketed (Some i) (Closed j # es) = (i = j \<and> bracketed None es)"
| "bracketed _ _ = False"

text \<open>A sequence of operations, with the outputs in order.\<close>

fun run_ops :: "('s \<Rightarrow> 'op \<Rightarrow> 's \<times> 'out) \<Rightarrow> 's \<Rightarrow> 'op list \<Rightarrow> 's \<times> 'out list" where
  "run_ops step s [] = (s, [])"
| "run_ops step s (x # xs) =
     (let (s', out) = step s x; (t, outs) = run_ops step s' xs in (t, out # outs))"

lemma run_ops_Cons [simp]:
  "run_ops step s (x # xs) =
     (fst (run_ops step (fst (step s x)) xs), snd (step s x) # snd (run_ops step (fst (step s x)) xs))"
  by (simp add: Let_def split: prod.splits)

declare run_ops.simps(2) [simp del]

lemma run_ops_snoc [simp]:
  "run_ops step s (xs @ [x]) =
     (fst (step (fst (run_ops step s xs)) x),
      snd (run_ops step s xs) @ [snd (step (fst (run_ops step s xs)) x)])"
  by (induction xs arbitrary: s) simp_all

lemma run_ops_append:
  "fst (run_ops step s (xs @ ys)) = fst (run_ops step (fst (run_ops step s xs)) ys)"
  by (induction xs arbitrary: s) simp_all

lemma run_ops_invariant:
  assumes "P s" and "\<And>s x. P s \<Longrightarrow> P (fst (step s x))"
  shows "P (fst (run_ops step s xs))"
  using assms(1)
proof (induction xs arbitrary: s)
  case Nil
  then show ?case by simp
next
  case (Cons x xs)
  from Cons.IH [OF assms(2) [OF Cons.prems, of x]] show ?case by simp
qed

definition slot_events :: "('out \<Rightarrow> 'i slot_event option) \<Rightarrow> 'out list \<Rightarrow> 'i slot_event list" where
  "slot_events event outs = List.map_filter event outs"

lemma slot_events_simps [simp]:
  "slot_events ev [] = []"
  "slot_events ev (x # xs) = (case ev x of None \<Rightarrow> slot_events ev xs | Some e \<Rightarrow> e # slot_events ev xs)"
  by (simp_all add: slot_events_def map_filter_simps split: option.splits)

locale oneshot_slot =
  fixes step :: "'s \<Rightarrow> 'op \<Rightarrow> 's \<times> 'out"
    and owner :: "'s \<Rightarrow> 'i option"
    and event :: "'out \<Rightarrow> 'i slot_event option"
  assumes opens: "step s x = (s', out) \<Longrightarrow> event out = Some (Opened i) \<Longrightarrow>
      owner s = None \<and> owner s' = Some i"
    and updates: "step s x = (s', out) \<Longrightarrow> event out = Some (Updated i) \<Longrightarrow>
      owner s = Some i \<and> owner s' = Some i"
    and closes: "step s x = (s', out) \<Longrightarrow> event out = Some (Closed i) \<Longrightarrow>
      owner s = Some i \<and> owner s' = None"
    and silent: "step s x = (s', out) \<Longrightarrow> event out = None \<Longrightarrow> owner s' = owner s"
begin

lemma run_bracketed: "bracketed (owner s) (slot_events event (snd (run_ops step s xs)))"
proof (induction xs arbitrary: s)
  case Nil
  then show ?case by simp
next
  case (Cons x xs)
  obtain s' out where so: "step s x = (s', out)" by (cases "step s x")
  note IH = Cons.IH [of s']
  show ?case
  proof (cases "event out")
    case None
    then show ?thesis using IH silent [OF so] by (simp add: so)
  next
    case (Some e)
    then show ?thesis using IH opens [OF so] updates [OF so] closes [OF so]
      by (cases e) (simp_all add: so)
  qed
qed

end

text \<open>Consequences of bracketing: an operation is closed at most as often as it was opened.\<close>

lemma bracketed_closed_le_opened:
  "bracketed cur es \<Longrightarrow>
     count_list es (Closed i) \<le> count_list es (Opened i) + (if cur = Some i then 1 else 0)"
  by (induction cur es rule: bracketed.induct) (auto split: if_splits)

lemma bracketed_between:
  "bracketed cur (xs @ Closed i # ys) \<Longrightarrow> cur \<noteq> Some i \<Longrightarrow> Opened i \<in> set xs"
proof (induction cur xs rule: bracketed.induct)
  case (1 cur)
  then show ?case by (cases cur) auto
qed auto

end
