(* ===== verification/Authz.thy ===== *)
theory Authz
  imports Protocol
begin

text \<open>
  \<open>crates/faceauth-authz/src/lib.rs\<close>: executable evidence of a connected peer, the validated
  authorization policy and the grants it issues. The operating system's answers (the text of
  \<open>fdinfo\<close>, the opened executable's metadata) are arguments, one for each time the code asks.
\<close>

definition MAX_AUTHORIZATION_RULES :: nat where
  "MAX_AUTHORIZATION_RULES = 64"

definition MAX_EXECUTABLES_PER_RULE :: nat where
  "MAX_EXECUTABLES_PER_RULE = 32"

section \<open>Peers and executables\<close>

text \<open>\<open>PeerIdentity\<close> of \<open>crates/faceauth-transport/src/lib.rs\<close>.\<close>

record PeerIdentity =
  peer_pid :: u32
  peer_uid :: u32
  peer_gid :: u32

record ExecutableFingerprint =
  device :: u64
  inode :: u64

record VerifiedExecutable =
  fingerprint :: ExecutableFingerprint

record FileMetadata =
  md_is_file :: bool
  md_uid :: u32
  md_mode :: u32
  md_dev :: u64
  md_ino :: u64

datatype ExecutableError =
  EE_Io IoError
| EE_NotRegularFile
| EE_NotRootOwned u32
| EE_WritableByUntrustedUser u32
| EE_NotExecutable u32
| EE_InvalidPidfd
| EE_PeerExited
| EE_PeerPidMismatch u32 u32

fun find_map :: "('a \<Rightarrow> 'b option) \<Rightarrow> 'a list \<Rightarrow> 'b option" where
  "find_map f [] = None"
| "find_map f (x # xs) = (case f x of Some y \<Rightarrow> Some y | None \<Rightarrow> find_map f xs)"

definition verify_pidfd :: "u32 \<Rightarrow> IoError + string \<Rightarrow> ExecutableError + unit" where
  "verify_pidfd expected fdinfo =
     try_bind (map_err EE_Io fdinfo) (\<lambda>info.
     try_bind (ok_or (find_map (\<lambda>l. map_option trim (strip_prefix ''Pid:'' l)) (str_lines info))
                 EE_InvalidPidfd) (\<lambda>field.
     try_bind (ok_or (parse_i64 field) EE_InvalidPidfd) (\<lambda>pid.
     if pid < 0 then Inl EE_PeerExited
     else if 2 ^ 32 \<le> pid then Inl EE_InvalidPidfd
     else let actual = (word_of_int pid :: u32) in
       if actual \<noteq> expected then Inl (EE_PeerPidMismatch expected actual) else Inr ())))"

definition from_verified_file :: "IoError + FileMetadata \<Rightarrow> ExecutableError + VerifiedExecutable" where
  "from_verified_file metadata =
     try_bind (map_err EE_Io metadata) (\<lambda>m.
     if \<not> md_is_file m then Inl EE_NotRegularFile
     else if md_uid m \<noteq> 0 then Inl (EE_NotRootOwned (md_uid m))
     else let mode = md_mode m AND 0x1FF in
       if mode AND 0x12 \<noteq> 0 then Inl (EE_WritableByUntrustedUser mode)
       else if mode AND 0x49 = 0 then Inl (EE_NotExecutable mode)
       else Inr \<lparr>fingerprint = \<lparr>device = md_dev m, inode = md_ino m\<rparr>\<rparr>)"

text \<open>
  \<open>from_peer\<close> reads the pidfd, opens \<open>/proc/<pid>/exe\<close>, reads the pidfd again and then inspects
  the open file.
\<close>

definition from_peer ::
  "PeerIdentity \<Rightarrow> IoError + string \<Rightarrow> IoError + unit \<Rightarrow> IoError + string \<Rightarrow>
   IoError + FileMetadata \<Rightarrow> ExecutableError + VerifiedExecutable" where
  "from_peer peer fdinfo_before opened fdinfo_after metadata =
     try_bind (verify_pidfd (peer_pid peer) fdinfo_before) (\<lambda>_.
     try_bind (map_err EE_Io opened) (\<lambda>_.
     try_bind (verify_pidfd (peer_pid peer) fdinfo_after) (\<lambda>_.
     from_verified_file metadata)))"

section \<open>Rules and policy\<close>

datatype CallerRelation = RootOnly | TargetUser | RootOrTargetUser

fun caller_accepts :: "CallerRelation \<Rightarrow> u32 \<Rightarrow> u32 \<Rightarrow> bool" where
  "caller_accepts RootOnly p t = (p = 0)"
| "caller_accepts TargetUser p t = (p = t)"
| "caller_accepts RootOrTargetUser p t = (p = 0 \<or> p = t)"

record AuthorizationRule =
  rule_service :: ServiceName
  rule_purpose :: AuthenticationPurpose
  rule_caller :: CallerRelation
  rule_executables :: "ExecutableFingerprint list"

record AuthorizationPolicy =
  rules :: "AuthorizationRule list"

datatype AuthzPolicyError =
  AP_InvalidRuleCount nat
| AP_InvalidExecutableCount ServiceName nat
| AP_DuplicateRule ServiceName AuthenticationPurpose
| AP_DuplicateExecutable ServiceName ExecutableFingerprint
| AP_SudoMustBeRootOnly

definition rule_check :: "AuthorizationRule list \<Rightarrow> AuthorizationRule \<Rightarrow> AuthzPolicyError + unit" where
  "rule_check seen r =
     (if rule_executables r = [] \<or> length (rule_executables r) > MAX_EXECUTABLES_PER_RULE
        then Inl (AP_InvalidExecutableCount (rule_service r) (length (rule_executables r)))
      else if rule_purpose r = Sudo \<and> rule_caller r \<noteq> RootOnly then Inl AP_SudoMustBeRootOnly
      else if list_ex (\<lambda>x. rule_service x = rule_service r \<and> rule_purpose x = rule_purpose r) seen
        then Inl (AP_DuplicateRule (rule_service r) (rule_purpose r))
      else try_each_prefix (\<lambda>fs f. if f \<in> set fs
                               then Inl (AP_DuplicateExecutable (rule_service r) f) else Inr ())
             [] (rule_executables r))"

definition policy_new :: "AuthorizationRule list \<Rightarrow> AuthzPolicyError + AuthorizationPolicy" where
  "policy_new rs =
     (if rs = [] \<or> length rs > MAX_AUTHORIZATION_RULES then Inl (AP_InvalidRuleCount (length rs))
      else try_bind (try_each_prefix rule_check [] rs) (\<lambda>_. Inr \<lparr>rules = rs\<rparr>))"

section \<open>Grants\<close>

record AuthorizationGrant =
  grant_transaction_id :: TransactionId
  grant_peer :: PeerIdentity
  grant_target_uid :: u32
  grant_service :: ServiceName
  grant_purpose :: AuthenticationPurpose
  grant_executable :: ExecutableFingerprint

datatype AuthorizationError =
  AE_ServiceNotAllowed
| AE_PeerTargetMismatch u32 u32
| AE_ExecutableEvidenceRequired
| AE_ExecutableNotAllowed

definition authorize ::
  "AuthorizationPolicy \<Rightarrow> PeerIdentity \<Rightarrow> VerifiedExecutable option \<Rightarrow> RequestContext \<Rightarrow>
   AuthorizationError + AuthorizationGrant" where
  "authorize pol peer executable req =
     try_bind (ok_or (find (\<lambda>r. rule_service r = service req \<and> rule_purpose r = purpose req)
                       (rules pol)) AE_ServiceNotAllowed) (\<lambda>r.
     if \<not> caller_accepts (rule_caller r) (peer_uid peer) (target_uid req)
       then Inl (AE_PeerTargetMismatch (peer_uid peer) (target_uid req))
     else try_bind (ok_or executable AE_ExecutableEvidenceRequired) (\<lambda>ex.
       if fingerprint ex \<notin> set (rule_executables r) then Inl AE_ExecutableNotAllowed
       else Inr \<lparr>grant_transaction_id = transaction_id req, grant_peer = peer,
                 grant_target_uid = target_uid req, grant_service = service req,
                 grant_purpose = purpose req, grant_executable = fingerprint ex\<rparr>))"

record BoundAuthorizationIssuer =
  issuer_policy :: AuthorizationPolicy
  issuer_peer :: PeerIdentity
  issuer_executable :: VerifiedExecutable
  issuer_service :: ServiceName
  issuer_purpose :: AuthenticationPurpose

text \<open>\<open>issue\<close> draws a fresh transaction identifier from the random argument.\<close>

definition issue ::
  "BoundAuthorizationIssuer \<Rightarrow> 128 word \<Rightarrow> u32 \<Rightarrow> AuthorizationError + AuthorizationGrant" where
  "issue i random uid =
     authorize (issuer_policy i) (issuer_peer i) (Some (issuer_executable i))
       \<lparr>transaction_id = transaction_generate random, target_uid = uid,
        service = issuer_service i, purpose = issuer_purpose i\<rparr>"

section \<open>Facts\<close>

lemma prefix_distinct:
  "try_each_prefix (\<lambda>fs f. if f \<in> set fs then Inl (e f) else Inr ()) seen xs = Inr () \<longleftrightarrow>
     distinct xs \<and> set seen \<inter> set xs = {}"
  by (induction xs arbitrary: seen) (auto simp: result_simps)

definition rule_wf :: "AuthorizationRule \<Rightarrow> bool" where
  "rule_wf r \<longleftrightarrow> rule_executables r \<noteq> [] \<and> length (rule_executables r) \<le> 32 \<and>
     distinct (rule_executables r) \<and> (rule_purpose r = Sudo \<longrightarrow> rule_caller r = RootOnly)"

definition rule_key :: "AuthorizationRule \<Rightarrow> ServiceName \<times> AuthenticationPurpose" where
  "rule_key r = (rule_service r, rule_purpose r)"

definition policy_wf :: "AuthorizationPolicy \<Rightarrow> bool" where
  "policy_wf p \<longleftrightarrow> rules p \<noteq> [] \<and> length (rules p) \<le> 64 \<and>
     distinct (map rule_key (rules p)) \<and> list_all rule_wf (rules p)"

lemma rule_check_ok:
  "rule_check seen r = Inr () \<longleftrightarrow> rule_wf r \<and> rule_key r \<notin> rule_key ` set seen"
  by (auto simp: rule_check_def rule_wf_def rule_key_def prefix_distinct list_ex_iff not_less
      MAX_EXECUTABLES_PER_RULE_def image_iff eq_commute [of "rule_service r"]
      eq_commute [of "rule_purpose r"])

lemma rules_check_ok:
  "try_each_prefix rule_check seen rs = Inr () \<longleftrightarrow>
     list_all rule_wf rs \<and> distinct (map rule_key rs) \<and> rule_key ` set seen \<inter> rule_key ` set rs = {}"
proof (induction rs arbitrary: seen)
  case Nil
  then show ?case by simp
next
  case (Cons r rs)
  show ?case unfolding try_each_prefix_Cons_ok rule_check_ok Cons.IH by auto
qed

text \<open>
  The policy constructor accepts exactly the well-formed rule sets (1 to 64 rules, a distinct
  service and purpose in each, 1 to 32 distinct executables in each, sudo only for root callers)
  and keeps the rules unchanged.
\<close>

theorem policy_new_exact:
  "policy_new rs = Inr p \<longleftrightarrow> p = \<lparr>rules = rs\<rparr> \<and> policy_wf p"
  by (auto simp: policy_new_def result_simps rules_check_ok policy_wf_def MAX_AUTHORIZATION_RULES_def)

lemma find_key_unique:
  assumes "distinct (map rule_key rs)"
  shows "find (\<lambda>r. rule_service r = s \<and> rule_purpose r = q) rs = Some r \<longleftrightarrow>
           r \<in> set rs \<and> rule_service r = s \<and> rule_purpose r = q"
  using assms
proof (induction rs)
  case Nil
  then show ?case by simp
next
  case (Cons x rs)
  then show ?case by (auto simp: rule_key_def)
qed

lemma find_map_SomeD: "find_map f xs = Some y \<Longrightarrow> \<exists>x \<in> set xs. f x = Some y"
  by (induction xs) (auto split: option.splits)

text \<open>
  C11. Exact-match authorization: under a validated policy a grant is issued exactly when a rule of
  the policy has the request's service and purpose, allows the relation between the peer's and the
  target's uid and lists the executable whose evidence was supplied; the grant then repeats the
  request and the peer and nothing else.
\<close>

theorem authorize_exact:
  assumes "policy_wf pol"
  shows "authorize pol peer ex req = Inr g \<longleftrightarrow>
    (\<exists>r v. r \<in> set (rules pol) \<and> rule_service r = service req \<and> rule_purpose r = purpose req \<and>
       caller_accepts (rule_caller r) (peer_uid peer) (target_uid req) \<and>
       ex = Some v \<and> fingerprint v \<in> set (rule_executables r) \<and>
       g = \<lparr>grant_transaction_id = transaction_id req, grant_peer = peer,
            grant_target_uid = target_uid req, grant_service = service req,
            grant_purpose = purpose req, grant_executable = fingerprint v\<rparr>)"
  using assms unfolding authorize_def policy_wf_def
  by (auto simp: result_simps find_key_unique split: if_splits)

lemma authorize_rule:
  "authorize pol peer ex req = Inr g \<Longrightarrow> policy_wf pol \<Longrightarrow>
     \<exists>r \<in> set (rules pol). rule_wf r \<and> rule_purpose r = purpose req \<and>
       caller_accepts (rule_caller r) (peer_uid peer) (target_uid req)"
  unfolding authorize_def policy_wf_def
  by (auto simp: result_simps find_key_unique list_all_iff split: if_splits)

text \<open>
  Sudo stays root-only end to end: no policy the constructor accepts ever grants a sudo
  request to a peer other than uid 0, whatever target uid and executable it names.
\<close>

theorem sudo_grant_is_root:
  assumes "policy_new rs = Inr pol" and "authorize pol peer ex req = Inr g"
    and "grant_purpose g = Sudo"
  shows "peer_uid (grant_peer g) = 0"
proof -
  have wf: "policy_wf pol" using assms(1) by (auto simp: policy_new_def result_simps rules_check_ok
      policy_wf_def MAX_AUTHORIZATION_RULES_def split: if_splits)
  obtain r where r: "rule_wf r" "rule_purpose r = purpose req"
      "caller_accepts (rule_caller r) (peer_uid peer) (target_uid req)"
    using authorize_rule [OF assms(2) wf] by blast
  have "grant_purpose g = purpose req" "grant_peer g = peer"
    using assms(2) by (auto simp: authorize_def result_simps split: if_splits)
  then show ?thesis using r assms(3) by (simp add: rule_wf_def)
qed

lemma from_verified_file_ok:
  "from_verified_file m = Inr v \<Longrightarrow>
     \<exists>x. m = Inr x \<and> md_is_file x \<and> md_uid x = 0 \<and> md_mode x AND 0x12 = 0 \<and>
       fingerprint v = \<lparr>device = md_dev x, inode = md_ino x\<rparr>"
  by (auto simp: from_verified_file_def result_simps Let_def and.assoc split: if_splits)

definition ex_rule :: AuthorizationRule where
  "ex_rule = \<lparr>rule_service = ServiceName ''sudo'', rule_purpose = Sudo, rule_caller = RootOnly,
     rule_executables = [\<lparr>device = 1, inode = 2\<rparr>]\<rparr>"

definition ex_request :: RequestContext where
  "ex_request = \<lparr>transaction_id = TransactionId 1, target_uid = 1000,
     service = ServiceName ''sudo'', purpose = Sudo\<rparr>"

lemma ex_rule_authorized:
  "authorize \<lparr>rules = [ex_rule]\<rparr> \<lparr>peer_pid = 7, peer_uid = 0, peer_gid = 0\<rparr>
     (Some \<lparr>fingerprint = \<lparr>device = 1, inode = 2\<rparr>\<rparr>) ex_request =
   Inr \<lparr>grant_transaction_id = TransactionId 1,
        grant_peer = \<lparr>peer_pid = 7, peer_uid = 0, peer_gid = 0\<rparr>, grant_target_uid = 1000,
        grant_service = ServiceName ''sudo'', grant_purpose = Sudo,
        grant_executable = \<lparr>device = 1, inode = 2\<rparr>\<rparr>"
  by (simp add: authorize_def ex_rule_def ex_request_def)

theorem authorize_exact_witness:
  "policy_wf \<lparr>rules = [ex_rule]\<rparr> \<and>
   (\<exists>r. r \<in> set [ex_rule] \<and> rule_purpose r = Sudo \<and>
      \<lparr>device = 1, inode = 2\<rparr> \<in> set (rule_executables r))"
proof -
  have wf: "policy_wf \<lparr>rules = [ex_rule]\<rparr>" by (simp add: policy_wf_def rule_wf_def ex_rule_def)
  from authorize_exact [OF wf, THEN iffD1, OF ex_rule_authorized] wf show ?thesis
    by (auto simp: ex_request_def)
qed

theorem sudo_grant_is_root_witness:
  "peer_uid \<lparr>peer_pid = 7, peer_uid = 0, peer_gid = 0\<rparr> = 0"
proof -
  have "policy_new [ex_rule] = Inr \<lparr>rules = [ex_rule]\<rparr>"
    by (simp add: policy_new_def rule_check_def ex_rule_def MAX_AUTHORIZATION_RULES_def
        MAX_EXECUTABLES_PER_RULE_def)
  from sudo_grant_is_root [OF this ex_rule_authorized] show ?thesis by simp
qed

end
