(* ===== verification/Session.thy ===== *)
theory Session
  imports OneShot Authz
begin

text \<open>
  \<open>crates/faceauth-session/src/lib.rs\<close>: the single-capacity authentication transaction manager.
  A cancellation token is a reference to an atomic flag shared with the workers that hold a clone
  of it; the model keeps the flags in the list \<open>sm_cells\<close> and a token is an index into it, so
  cancelling through the manager is seen by every clone.
\<close>

definition DEFAULT_TRANSACTION_DURATION_MICROS :: u64 where
  "DEFAULT_TRANSACTION_DURATION_MICROS = 15000000"

definition MAX_TRANSACTION_DURATION_MICROS :: u64 where
  "MAX_TRANSACTION_DURATION_MICROS = 60000000"

datatype ConnectionToken = ConnectionToken "u8 list"

datatype CancellationToken = CancellationToken nat

record SessionConfig =
  transaction_duration_micros :: u64

record ActiveSession =
  as_grant :: AuthorizationGrant
  as_connection :: ConnectionToken
  as_deadline_micros :: u64
  as_cancellation :: CancellationToken

record SessionManager =
  sm_config :: SessionConfig
  sm_active :: "ActiveSession option"
  sm_cells :: "bool list"

datatype SessionError =
  SE_InvalidConfig
| SE_Random
| SE_DeadlineOverflow
| SE_Busy
| SE_NoActiveTransaction
| SE_WrongConnection
| SE_WrongTransaction
| SE_ReservedDecision

text \<open>\<open>getrandom\<close>'s answer is the argument.\<close>

definition connection_generate :: "u8 list option \<Rightarrow> SessionError + ConnectionToken" where
  "connection_generate random = try_bind (ok_or random SE_Random) (\<lambda>bytes. Inr (ConnectionToken bytes))"

section \<open>Tokens\<close>

definition token_new :: "bool list \<Rightarrow> CancellationToken \<times> bool list" where
  "token_new cells = (CancellationToken (length cells), cells @ [False])"

fun is_cancelled :: "bool list \<Rightarrow> CancellationToken \<Rightarrow> bool" where
  "is_cancelled cells (CancellationToken i) = (i < length cells \<and> cells ! i)"

fun token_cancel :: "bool list \<Rightarrow> CancellationToken \<Rightarrow> bool list" where
  "token_cancel cells (CancellationToken i) = cells[i := True]"

section \<open>Manager operations\<close>

definition session_config_validate :: "SessionConfig \<Rightarrow> SessionError + unit" where
  "session_config_validate c =
     (if transaction_duration_micros c < 1000000 \<or>
         transaction_duration_micros c > MAX_TRANSACTION_DURATION_MICROS
      then Inl SE_InvalidConfig else Inr ())"

definition session_config_default :: SessionConfig where
  "session_config_default = \<lparr>transaction_duration_micros = DEFAULT_TRANSACTION_DURATION_MICROS\<rparr>"

definition session_new :: "SessionConfig \<Rightarrow> SessionError + SessionManager" where
  "session_new c = try_bind (session_config_validate c) (\<lambda>_.
     Inr \<lparr>sm_config = c, sm_active = None, sm_cells = []\<rparr>)"

definition session_start ::
  "SessionManager \<Rightarrow> AuthorizationGrant \<Rightarrow> ConnectionToken \<Rightarrow> u64 \<Rightarrow>
   SessionManager \<times> (SessionError + Response)" where
  "session_start m grant conn now =
     (if sm_active m \<noteq> None then (m, Inl SE_Busy)
      else case checked_add now (transaction_duration_micros (sm_config m)) of
        None \<Rightarrow> (m, Inl SE_DeadlineOverflow)
      | Some deadline \<Rightarrow>
          let (token, cells) = token_new (sm_cells m) in
          (m\<lparr>sm_active := Some \<lparr>as_grant = grant, as_connection = conn,
               as_deadline_micros = deadline, as_cancellation = token\<rparr>, sm_cells := cells\<rparr>,
           Inr (Started (grant_transaction_id grant))))"

definition verify_binding ::
  "SessionManager \<Rightarrow> ConnectionToken \<Rightarrow> TransactionId \<Rightarrow> SessionError + unit" where
  "verify_binding m conn tid = try_bind (ok_or (sm_active m) SE_NoActiveTransaction) (\<lambda>a.
     if as_connection a \<noteq> conn then Inl SE_WrongConnection
     else if grant_transaction_id (as_grant a) \<noteq> tid then Inl SE_WrongTransaction
     else Inr ())"

definition deadline_reached :: "SessionManager \<Rightarrow> u64 \<Rightarrow> SessionError + bool" where
  "deadline_reached m now =
     ok_or (map_option (\<lambda>a. as_deadline_micros a \<le> now) (sm_active m)) SE_NoActiveTransaction"

definition take_terminal ::
  "SessionManager \<Rightarrow> DecisionCode \<Rightarrow> SessionManager \<times> (SessionError + Response)" where
  "take_terminal m decision =
     (case sm_active m of
        None \<Rightarrow> (m, Inl SE_NoActiveTransaction)
      | Some a \<Rightarrow>
          (m\<lparr>sm_active := None, sm_cells := token_cancel (sm_cells m) (as_cancellation a)\<rparr>,
           Inr (Completed (grant_transaction_id (as_grant a)) decision)))"

definition session_progress ::
  "SessionManager \<Rightarrow> ConnectionToken \<Rightarrow> TransactionId \<Rightarrow> ProgressCode \<Rightarrow> u64 \<Rightarrow>
   SessionManager \<times> (SessionError + Response)" where
  "session_progress m conn tid code now =
     (case verify_binding m conn tid of Inl e \<Rightarrow> (m, Inl e)
      | Inr _ \<Rightarrow> (case deadline_reached m now of Inl e \<Rightarrow> (m, Inl e)
        | Inr reached \<Rightarrow> if reached then take_terminal m DC_TimedOut
                       else (m, Inr (Progress tid code))))"

definition session_complete ::
  "SessionManager \<Rightarrow> ConnectionToken \<Rightarrow> TransactionId \<Rightarrow> DecisionCode \<Rightarrow> u64 \<Rightarrow>
   SessionManager \<times> (SessionError + Response)" where
  "session_complete m conn tid decision now =
     (if decision = DC_Cancelled \<or> decision = DC_TimedOut then (m, Inl SE_ReservedDecision)
      else case verify_binding m conn tid of Inl e \<Rightarrow> (m, Inl e)
      | Inr _ \<Rightarrow> (case deadline_reached m now of Inl e \<Rightarrow> (m, Inl e)
        | Inr reached \<Rightarrow> take_terminal m (if reached then DC_TimedOut else decision)))"

definition session_cancel ::
  "SessionManager \<Rightarrow> ConnectionToken \<Rightarrow> TransactionId \<Rightarrow> u64 \<Rightarrow>
   SessionManager \<times> (SessionError + Response)" where
  "session_cancel m conn tid now =
     (case verify_binding m conn tid of Inl e \<Rightarrow> (m, Inl e)
      | Inr _ \<Rightarrow>
        let m' = (case sm_active m of None \<Rightarrow> m
                  | Some a \<Rightarrow> m\<lparr>sm_cells := token_cancel (sm_cells m) (as_cancellation a)\<rparr>) in
        (case deadline_reached m' now of Inl e \<Rightarrow> (m', Inl e)
         | Inr reached \<Rightarrow> take_terminal m' (if reached then DC_TimedOut else DC_Cancelled)))"

definition session_expire :: "SessionManager \<Rightarrow> u64 \<Rightarrow> SessionManager \<times> Response option" where
  "session_expire m now =
     (if (case sm_active m of None \<Rightarrow> False | Some a \<Rightarrow> as_deadline_micros a \<le> now)
      then (let (m', r) = take_terminal m DC_TimedOut in
              (m', case r of Inl _ \<Rightarrow> None | Inr x \<Rightarrow> Some x))
      else (m, None))"

definition session_is_busy :: "SessionManager \<Rightarrow> bool" where
  "session_is_busy m = (sm_active m \<noteq> None)"

definition session_target_uid ::
  "SessionManager \<Rightarrow> ConnectionToken \<Rightarrow> TransactionId \<Rightarrow> SessionError + u32" where
  "session_target_uid m conn tid = try_bind (verify_binding m conn tid) (\<lambda>_.
     ok_or (map_option (\<lambda>a. grant_target_uid (as_grant a)) (sm_active m)) SE_NoActiveTransaction)"

definition session_cancellation_token ::
  "SessionManager \<Rightarrow> ConnectionToken \<Rightarrow> TransactionId \<Rightarrow> SessionError + CancellationToken" where
  "session_cancellation_token m conn tid = try_bind (verify_binding m conn tid) (\<lambda>_.
     ok_or (map_option as_cancellation (sm_active m)) SE_NoActiveTransaction)"

section \<open>The manager as a state machine\<close>

datatype session_op =
  OpStart AuthorizationGrant ConnectionToken u64
| OpProgress ConnectionToken TransactionId ProgressCode u64
| OpComplete ConnectionToken TransactionId DecisionCode u64
| OpCancel ConnectionToken TransactionId u64
| OpExpire u64

text \<open>The output of \<open>expire\<close> without a response is \<open>Inr None\<close>.\<close>

fun session_step :: "SessionManager \<Rightarrow> session_op \<Rightarrow> SessionManager \<times> (SessionError + Response option)" where
  "session_step m (OpStart g c now) = apsnd (map_sum id Some) (session_start m g c now)"
| "session_step m (OpProgress c t p now) = apsnd (map_sum id Some) (session_progress m c t p now)"
| "session_step m (OpComplete c t d now) = apsnd (map_sum id Some) (session_complete m c t d now)"
| "session_step m (OpCancel c t now) = apsnd (map_sum id Some) (session_cancel m c t now)"
| "session_step m (OpExpire now) = apsnd Inr (session_expire m now)"

definition session_owner :: "SessionManager \<Rightarrow> TransactionId option" where
  "session_owner m = map_option (\<lambda>a. grant_transaction_id (as_grant a)) (sm_active m)"

fun session_event :: "SessionError + Response option \<Rightarrow> TransactionId slot_event option" where
  "session_event (Inr (Some (Started t))) = Some (Opened t)"
| "session_event (Inr (Some (Progress t _))) = Some (Updated t)"
| "session_event (Inr (Some (Completed t _))) = Some (Closed t)"
| "session_event _ = None"

lemmas session_op_defs =
  session_start_def session_progress_def session_complete_def session_cancel_def session_expire_def
  verify_binding_def deadline_reached_def take_terminal_def token_new_def

lemma session_step_effect:
  "session_step m x = (m', out) \<Longrightarrow>
     (case session_event out of
        Some (Opened t) \<Rightarrow> session_owner m = None \<and> session_owner m' = Some t
      | Some (Updated t) \<Rightarrow> session_owner m = Some t \<and> session_owner m' = Some t
      | Some (Closed t) \<Rightarrow> session_owner m = Some t \<and> session_owner m' = None
      | None \<Rightarrow> session_owner m' = session_owner m)"
  by (cases x; cases "sm_active m")
     (auto simp: session_op_defs session_owner_def Let_def split: if_splits option.splits)

interpretation session_slot: oneshot_slot session_step session_owner session_event
  by unfold_locales (auto dest: session_step_effect)

section \<open>Invariant\<close>

text \<open>
  The flags that are still clear are exactly the flag of the active transaction; and the active
  transaction was opened by a start in the past whose instant plus the configured duration is its
  deadline.
\<close>

definition session_inv :: "SessionManager \<Rightarrow> bool" where
  "session_inv m \<longleftrightarrow>
     (\<forall>i < length (sm_cells m). \<not> sm_cells m ! i \<longleftrightarrow>
        map_option as_cancellation (sm_active m) = Some (CancellationToken i)) \<and>
     (\<forall>a. sm_active m = Some a \<longrightarrow> (\<exists>i < length (sm_cells m). as_cancellation a = CancellationToken i))"

lemma session_inv_new: "session_new c = Inr m \<Longrightarrow> session_inv m \<and> sm_active m = None \<and> sm_config m = c"
  by (auto simp: session_new_def session_inv_def result_simps)

lemma session_inv_active:
  "session_inv m \<Longrightarrow> sm_active m = Some a \<Longrightarrow>
     \<exists>i < length (sm_cells m). as_cancellation a = CancellationToken i \<and> \<not> sm_cells m ! i \<and>
       (\<forall>j < length (sm_cells m). j \<noteq> i \<longrightarrow> sm_cells m ! j)"
  by (fastforce simp: session_inv_def)

lemma take_terminal_inv: "session_inv m \<Longrightarrow> session_inv (fst (take_terminal m d))"
  by (cases "sm_active m")
     (auto simp: take_terminal_def session_inv_def nth_list_update split: if_splits)

lemma take_terminal_cancelled:
  "take_terminal (m\<lparr>sm_cells := token_cancel (sm_cells m) t\<rparr>) d = take_terminal m d"
  if "sm_active m = Some a" "as_cancellation a = t"
  using that by (cases t) (simp add: take_terminal_def)

lemma session_cancel_eq:
  "session_cancel m conn tid now =
     (case verify_binding m conn tid of Inl e \<Rightarrow> (m, Inl e)
      | Inr _ \<Rightarrow> (case deadline_reached m now of Inl e \<Rightarrow> (m, Inl e)
        | Inr reached \<Rightarrow> take_terminal m (if reached then DC_TimedOut else DC_Cancelled)))"
  by (cases "sm_active m")
     (auto simp: session_cancel_def verify_binding_def deadline_reached_def take_terminal_cancelled)

lemma session_start_inv: "session_inv m \<Longrightarrow> session_inv (fst (session_start m g c now))"
  by (auto simp: session_start_def token_new_def session_inv_def nth_append less_Suc_eq Let_def
      split: option.splits)

lemma session_expire_inv: "session_inv m \<Longrightarrow> session_inv (fst (session_expire m now))"
  using take_terminal_inv [of m DC_TimedOut]
  by (auto simp: session_expire_def split: prod.splits)

lemma session_step_inv: "session_inv m \<Longrightarrow> session_inv (fst (session_step m x))"
  by (cases x)
     (auto simp: session_start_inv session_expire_inv session_progress_def session_complete_def
        session_cancel_eq take_terminal_inv split: sum.splits)

lemma session_step_config: "sm_config (fst (session_step m x)) = sm_config m"
  by (cases x; cases "sm_active m")
     (auto simp: session_op_defs Let_def split: option.splits)

lemma session_step_active:
  "sm_active (fst (session_step m x)) = Some a \<Longrightarrow>
     sm_active m = Some a \<or>
     (\<exists>now. x = OpStart (as_grant a) (as_connection a) now \<and>
       unat (as_deadline_micros a) = unat now + unat (transaction_duration_micros (sm_config m)))"
  by (cases x; cases "sm_active m")
     (auto simp: session_op_defs Let_def checked_add_unat split: option.splits if_splits)

lemma session_active_origin:
  assumes "sm_active m = None"
  shows "sm_active (fst (run_ops session_step m ops)) = Some a \<Longrightarrow>
    \<exists>pre now post. ops = pre @ OpStart (as_grant a) (as_connection a) now # post \<and>
      unat (as_deadline_micros a) = unat now + unat (transaction_duration_micros (sm_config m))"
proof (induction ops rule: rev_induct)
  case Nil
  with assms show ?case by simp
next
  case (snoc x ops)
  have cfg: "sm_config (fst (run_ops session_step m ops)) = sm_config m"
    by (rule run_ops_invariant [where P = "\<lambda>t. sm_config t = sm_config m"])
       (simp_all add: session_step_config)
  from snoc.prems session_step_active [of "fst (run_ops session_step m ops)" x a]
  consider "sm_active (fst (run_ops session_step m ops)) = Some a"
    | now where "x = OpStart (as_grant a) (as_connection a) now"
        "unat (as_deadline_micros a) = unat now + unat (transaction_duration_micros (sm_config m))"
    by (auto simp: cfg)
  then show ?case
  proof cases
    case 1
    with snoc.IH obtain pre now post
      where "ops = pre @ OpStart (as_grant a) (as_connection a) now # post"
        "unat (as_deadline_micros a) = unat now + unat (transaction_duration_micros (sm_config m))"
      by blast
    then show ?thesis by (intro exI [of _ pre] exI [of _ now] exI [of _ "post @ [x]"]) simp
  next
    case 2
    then show ?thesis by (intro exI [of _ ops] exI [of _ now] exI [of _ "[]"]) simp
  qed
qed

lemma session_completed_by:
  "session_step m x = (m', Inr (Some (Completed t d))) \<Longrightarrow>
     d \<noteq> DC_TimedOut \<Longrightarrow> d \<noteq> DC_Cancelled \<Longrightarrow>
     \<exists>a now. sm_active m = Some a \<and> x = OpComplete (as_connection a) t d now \<and>
       grant_transaction_id (as_grant a) = t \<and> now < as_deadline_micros a"
  by (cases x; cases "sm_active m")
     (auto simp: session_op_defs Let_def not_le split: if_splits option.splits)

text \<open>
  One terminal response per transaction: in every run of operations on a new manager the
  responses are bracketed (a transaction is started, then only its own progress, then at most one
  completion, before the next start), so no identifier is completed more often than it was started.
\<close>

theorem session_single_terminal:
  assumes "session_new c = Inr m"
  shows "bracketed None (slot_events session_event (snd (run_ops session_step m ops))) \<and>
    count_list (slot_events session_event (snd (run_ops session_step m ops))) (Closed t) \<le>
    count_list (slot_events session_event (snd (run_ops session_step m ops))) (Opened t)"
proof -
  have "session_owner m = None" using session_inv_new [OF assms] by (simp add: session_owner_def)
  then have "bracketed None (slot_events session_event (snd (run_ops session_step m ops)))"
    using session_slot.run_bracketed [of m ops] by simp
  with bracketed_closed_le_opened [OF this, of t] show ?thesis by simp
qed

text \<open>
  Where a success can come from: after any run on a new manager, the response that reports
  transaction \<open>t\<close> as accepted is the answer to a \<open>complete\<close> call with \<open>Accepted\<close> for \<open>t\<close>, made on
  the connection that earlier started an authorized grant of that identifier, at an instant
  strictly before that start plus the configured duration.
\<close>

theorem session_accept_provenance:
  assumes "session_new c = Inr m0" and "fst (run_ops session_step m0 ops) = m"
    and "session_step m x = (m', Inr (Some (Completed t DC_Accepted)))"
  shows "\<exists>g conn start now pre post.
    ops = pre @ OpStart g conn start # post \<and> grant_transaction_id g = t \<and>
    x = OpComplete conn t DC_Accepted now \<and>
    unat now < unat start + unat (transaction_duration_micros c)"
proof -
  obtain a now where a: "sm_active m = Some a" "x = OpComplete (as_connection a) t DC_Accepted now"
      "grant_transaction_id (as_grant a) = t" "now < as_deadline_micros a"
    using session_completed_by [OF assms(3)] by auto
  have new: "sm_active m0 = None" "sm_config m0 = c" using session_inv_new [OF assms(1)] by auto
  obtain pre start post where "ops = pre @ OpStart (as_grant a) (as_connection a) start # post"
      "unat (as_deadline_micros a) = unat start + unat (transaction_duration_micros c)"
    using session_active_origin [OF new(1), of ops a] a(1) assms(2) new(2) by auto
  then show ?thesis using a by (force simp: word_less_nat_alt)
qed

lemma session_reachable_inv:
  assumes "session_new c = Inr m"
  shows "session_inv (fst (run_ops session_step m ops))"
  by (rule run_ops_invariant [where P = session_inv])
     (use session_inv_new [OF assms] session_step_inv in auto)

lemma length_token_cancel [simp]: "length (token_cancel cells t) = length cells"
  by (cases t) simp

lemma session_step_cells: "length (sm_cells m) \<le> length (sm_cells (fst (session_step m x)))"
  by (cases x; cases "sm_active m") (auto simp: session_op_defs Let_def split: option.splits)

lemma session_run_cells:
  "length (sm_cells m) \<le> length (sm_cells (fst (run_ops session_step m ops)))"
  by (rule run_ops_invariant [where P = "\<lambda>t. length (sm_cells m) \<le> length (sm_cells t)"])
     (use session_step_cells order_trans in blast)+

lemma session_token_of_active:
  "session_cancellation_token m conn tid = Inr tok \<Longrightarrow>
     \<exists>a. sm_active m = Some a \<and> as_cancellation a = tok \<and> as_connection a = conn \<and>
         grant_transaction_id (as_grant a) = tid"
  by (auto simp: session_cancellation_token_def verify_binding_def result_simps split: if_splits)

text \<open>
  Cancellation reaches every worker: a token handed out for the active transaction reads as
  cancelled, at any later point of any run, exactly when that transaction is no longer the one the
  manager holds; so no worker of a finished transaction keeps running, and none of a live
  transaction is stopped by the end of another.
\<close>

theorem session_token_cancelled_iff:
  assumes "session_new c = Inr m0"
    and "m1 = fst (run_ops session_step m0 pre)"
    and "session_cancellation_token m1 conn tid = Inr tok"
    and "m2 = fst (run_ops session_step m1 post)"
  shows "is_cancelled (sm_cells m2) tok \<longleftrightarrow> map_option as_cancellation (sm_active m2) \<noteq> Some tok"
proof -
  have inv1: "session_inv m1" using session_reachable_inv [OF assms(1)] assms(2) by simp
  have "m2 = fst (run_ops session_step m0 (pre @ post))"
    using assms(2,4) by (simp add: run_ops_append)
  then have inv2: "session_inv m2" using session_reachable_inv [OF assms(1)] by simp
  obtain i where i: "tok = CancellationToken i" "i < length (sm_cells m1)"
    using session_token_of_active [OF assms(3)] inv1 by (auto simp: session_inv_def)
  have "i < length (sm_cells m2)"
    using i(2) session_run_cells [of m1 post] assms(4) by simp
  then show ?thesis using inv2 i(1) by (auto simp: session_inv_def)
qed

text \<open>
  What each call on the active transaction does, errors included: a call with a foreign
  connection or identifier (or a reserved decision) changes nothing and reports which; a bound call
  at or after the deadline consumes the transaction with \<open>TimedOut\<close>; before it, \<open>progress\<close> keeps
  the transaction, \<open>complete\<close> ends it with the decision and \<open>cancel\<close> with \<open>Cancelled\<close>.
\<close>

theorem session_call_outcomes:
  assumes "sm_active m = Some a" and "t = grant_transaction_id (as_grant a)"
    and "ended = m\<lparr>sm_active := None, sm_cells := token_cancel (sm_cells m) (as_cancellation a)\<rparr>"
  shows "session_progress m conn tid p now =
           (if conn \<noteq> as_connection a then (m, Inl SE_WrongConnection)
            else if tid \<noteq> t then (m, Inl SE_WrongTransaction)
            else if as_deadline_micros a \<le> now then (ended, Inr (Completed t DC_TimedOut))
            else (m, Inr (Progress t p))) \<and>
    session_complete m conn tid d now =
           (if d = DC_Cancelled \<or> d = DC_TimedOut then (m, Inl SE_ReservedDecision)
            else if conn \<noteq> as_connection a then (m, Inl SE_WrongConnection)
            else if tid \<noteq> t then (m, Inl SE_WrongTransaction)
            else (ended, Inr (Completed t (if as_deadline_micros a \<le> now then DC_TimedOut else d)))) \<and>
    session_cancel m conn tid now =
           (if conn \<noteq> as_connection a then (m, Inl SE_WrongConnection)
            else if tid \<noteq> t then (m, Inl SE_WrongTransaction)
            else (ended, Inr (Completed t (if as_deadline_micros a \<le> now then DC_TimedOut else DC_Cancelled)))) \<and>
    session_expire m now =
           (if as_deadline_micros a \<le> now then (ended, Some (Completed t DC_TimedOut)) else (m, None)) \<and>
    session_start m g conn now = (m, Inl SE_Busy)"
  using assms
  by (auto simp: session_progress_def session_complete_def session_cancel_eq session_expire_def
      session_start_def verify_binding_def deadline_reached_def take_terminal_def)

section \<open>Witnesses\<close>

text \<open>A concrete run: one grant, started at instant 5 and completed or cancelled.\<close>

definition ex_peer :: PeerIdentity where
  "ex_peer = \<lparr>peer_pid = 7, peer_uid = 0, peer_gid = 0\<rparr>"

definition ex_grant :: AuthorizationGrant where
  "ex_grant = \<lparr>grant_transaction_id = TransactionId 1, grant_peer = ex_peer,
     grant_target_uid = 1000, grant_service = ServiceName ''kde'', grant_purpose = ScreenUnlock,
     grant_executable = \<lparr>device = 1, inode = 2\<rparr>\<rparr>"

definition ex_config :: SessionConfig where
  "ex_config = \<lparr>transaction_duration_micros = 15000000\<rparr>"

definition ex_manager :: SessionManager where
  "ex_manager = \<lparr>sm_config = ex_config, sm_active = None, sm_cells = []\<rparr>"

lemma ex_manager_new: "session_new ex_config = Inr ex_manager"
  by (simp add: session_new_def session_config_validate_def ex_config_def ex_manager_def
      MAX_TRANSACTION_DURATION_MICROS_def)

lemmas ex_session = ex_manager_def ex_config_def ex_grant_def session_op_defs checked_add_def

theorem session_single_terminal_witness:
  "bracketed None (slot_events session_event (snd (run_ops session_step ex_manager
      [OpStart ex_grant (ConnectionToken []) 5, OpExpire 15000005]))) \<and>
   slot_events session_event (snd (run_ops session_step ex_manager
      [OpStart ex_grant (ConnectionToken []) 5, OpExpire 15000005])) =
     [Opened (TransactionId 1), Closed (TransactionId 1)]"
  using session_single_terminal [OF ex_manager_new, of "[OpStart ex_grant (ConnectionToken []) 5, OpExpire 15000005]"]
  by (simp add: ex_session)

theorem session_accept_provenance_witness:
  "\<exists>g conn start now pre post.
     [OpStart ex_grant (ConnectionToken []) 5] = pre @ OpStart g conn start # post \<and>
     grant_transaction_id g = TransactionId 1 \<and>
     OpComplete (ConnectionToken []) (TransactionId 1) DC_Accepted 9 =
       OpComplete conn (TransactionId 1) DC_Accepted now \<and>
     unat now < unat start + unat (transaction_duration_micros ex_config)"
proof -
  let ?m = "fst (run_ops session_step ex_manager [OpStart ex_grant (ConnectionToken []) 5])"
  let ?x = "OpComplete (ConnectionToken []) (TransactionId 1) DC_Accepted 9"
  have "session_step ?m ?x = (fst (session_step ?m ?x), Inr (Some (Completed (TransactionId 1) DC_Accepted)))"
    by (simp add: ex_session)
  from session_accept_provenance [OF ex_manager_new refl this] show ?thesis .
qed

theorem session_token_cancelled_iff_witness:
  "is_cancelled (sm_cells (fst (run_ops session_step
      (fst (run_ops session_step ex_manager [OpStart ex_grant (ConnectionToken []) 5]))
      [OpCancel (ConnectionToken []) (TransactionId 1) 6]))) (CancellationToken 0)"
proof -
  let ?m = "fst (run_ops session_step ex_manager [OpStart ex_grant (ConnectionToken []) 5])"
  have "session_cancellation_token ?m (ConnectionToken []) (TransactionId 1) = Inr (CancellationToken 0)"
    by (simp add: ex_session session_cancellation_token_def)
  from session_token_cancelled_iff [OF ex_manager_new refl this refl,
      of "[OpCancel (ConnectionToken []) (TransactionId 1) 6]"]
  show ?thesis by (simp add: ex_session)
qed

theorem session_call_outcomes_witness:
  "snd (session_cancel (fst (session_start ex_manager ex_grant (ConnectionToken []) 5))
      (ConnectionToken []) (TransactionId 1) 15000005) = Inr (Completed (TransactionId 1) DC_TimedOut)"
proof -
  let ?m = "fst (session_start ex_manager ex_grant (ConnectionToken []) 5)"
  have "sm_active ?m = Some \<lparr>as_grant = ex_grant, as_connection = ConnectionToken [],
      as_deadline_micros = 15000005, as_cancellation = CancellationToken 0\<rparr>"
    by (simp add: ex_session)
  from session_call_outcomes [OF this refl refl] show ?thesis
    by (simp add: ex_grant_def)
qed

end
