(* ===== verification/Management.thy ===== *)
theory Management
  imports OneShot Authz
begin

text \<open>
  \<open>crates/faceauth-management/src/lib.rs\<close>: the authorization of an enrollment, the single-capacity
  coordinator of management operations and its public updates.
\<close>

definition MAX_OPERATION_DURATION_MICROS :: u64 where
  "MAX_OPERATION_DURATION_MICROS = 120000000"

definition ENROLLMENT_SERVICE :: string where
  "ENROLLMENT_SERVICE = ''faceauth-enroll''"

datatype OperationId = OperationId "128 word"

record AuthorizedEnrollment =
  ae_target_uid :: u32

datatype ManagementProgress =
  MP_Preparing
| MP_PositionFace
| MP_HoldStill
| MP_ActiveChallenge
| MP_Blink
| MP_TurnLeft
| MP_TurnRight
| MP_ReturnToCenter
| MP_Processing

datatype ManagementResult = MR_Completed | MR_Cancelled | MR_TimedOut | MR_Failed

datatype ManagementUpdate =
  MU_Progress OperationId ManagementProgress
| MU_Completed OperationId ManagementResult

record ManagementConfig =
  operation_duration_micros :: u64

record ActiveOperation =
  op_id :: OperationId
  op_uid :: u32
  op_deadline_micros :: u64

record ManagementCoordinator =
  mc_config :: ManagementConfig
  mc_active :: "ActiveOperation option"

datatype ManagementError =
  ME_Unauthorized
| ME_InvalidConfig
| ME_DeadlineOverflow
| ME_Busy
| ME_NoActiveOperation
| ME_WrongUid
| ME_WrongOperation
| ME_InvalidOperationId
| ME_ReservedResult

section \<open>Operations\<close>

definition enrollment_from_grant :: "AuthorizationGrant \<Rightarrow> ManagementError + AuthorizedEnrollment" where
  "enrollment_from_grant g =
     (if peer_uid (grant_peer g) \<noteq> 0 \<or> service_as_str (grant_service g) \<noteq> ENROLLMENT_SERVICE \<or>
         grant_purpose g \<noteq> Polkit
      then Inl ME_Unauthorized else Inr \<lparr>ae_target_uid = grant_target_uid g\<rparr>)"

definition operation_generate :: "128 word \<Rightarrow> OperationId" where
  "operation_generate r = OperationId (uuid_v4 r)"

text \<open>\<open>Uuid::parse_str\<close> is an argument.\<close>

definition operation_parse ::
  "(string \<Rightarrow> 128 word option) \<Rightarrow> string \<Rightarrow> ManagementError + OperationId" where
  "operation_parse uuid_parse v = ok_or (map_option OperationId (uuid_parse v)) ME_InvalidOperationId"

definition management_config_validate :: "ManagementConfig \<Rightarrow> ManagementError + unit" where
  "management_config_validate c =
     (if operation_duration_micros c < 5000000 \<or>
         operation_duration_micros c > MAX_OPERATION_DURATION_MICROS
      then Inl ME_InvalidConfig else Inr ())"

definition management_config_default :: ManagementConfig where
  "management_config_default = \<lparr>operation_duration_micros = 120000000\<rparr>"

definition management_new :: "ManagementConfig \<Rightarrow> ManagementError + ManagementCoordinator" where
  "management_new c = try_bind (management_config_validate c) (\<lambda>_.
     Inr \<lparr>mc_config = c, mc_active = None\<rparr>)"

definition management_start ::
  "ManagementCoordinator \<Rightarrow> AuthorizedEnrollment \<Rightarrow> u64 \<Rightarrow> 128 word \<Rightarrow>
   ManagementCoordinator \<times> (ManagementError + ManagementUpdate)" where
  "management_start m auth now random =
     (if mc_active m \<noteq> None then (m, Inl ME_Busy)
      else case checked_add now (operation_duration_micros (mc_config m)) of
        None \<Rightarrow> (m, Inl ME_DeadlineOverflow)
      | Some deadline \<Rightarrow>
          let i = operation_generate random in
          (m\<lparr>mc_active := Some \<lparr>op_id = i, op_uid = ae_target_uid auth, op_deadline_micros = deadline\<rparr>\<rparr>,
           Inr (MU_Progress i MP_Preparing)))"

definition management_verify ::
  "ManagementCoordinator \<Rightarrow> u32 \<Rightarrow> OperationId \<Rightarrow> ManagementError + unit" where
  "management_verify m uid i = try_bind (ok_or (mc_active m) ME_NoActiveOperation) (\<lambda>a.
     if op_uid a \<noteq> uid then Inl ME_WrongUid
     else if op_id a \<noteq> i then Inl ME_WrongOperation
     else Inr ())"

definition management_deadline_reached :: "ManagementCoordinator \<Rightarrow> u64 \<Rightarrow> ManagementError + bool" where
  "management_deadline_reached m now =
     ok_or (map_option (\<lambda>a. op_deadline_micros a \<le> now) (mc_active m)) ME_NoActiveOperation"

definition management_take_terminal ::
  "ManagementCoordinator \<Rightarrow> ManagementResult \<Rightarrow>
   ManagementCoordinator \<times> (ManagementError + ManagementUpdate)" where
  "management_take_terminal m result =
     (case mc_active m of
        None \<Rightarrow> (m, Inl ME_NoActiveOperation)
      | Some a \<Rightarrow> (m\<lparr>mc_active := None\<rparr>, Inr (MU_Completed (op_id a) result)))"

definition management_progress ::
  "ManagementCoordinator \<Rightarrow> u32 \<Rightarrow> OperationId \<Rightarrow> ManagementProgress \<Rightarrow> u64 \<Rightarrow>
   ManagementCoordinator \<times> (ManagementError + ManagementUpdate)" where
  "management_progress m uid i p now =
     (case management_verify m uid i of Inl e \<Rightarrow> (m, Inl e)
      | Inr _ \<Rightarrow> (case management_deadline_reached m now of Inl e \<Rightarrow> (m, Inl e)
        | Inr reached \<Rightarrow> if reached then management_take_terminal m MR_TimedOut
                       else (m, Inr (MU_Progress i p))))"

definition management_cancel ::
  "ManagementCoordinator \<Rightarrow> u32 \<Rightarrow> OperationId \<Rightarrow> u64 \<Rightarrow>
   ManagementCoordinator \<times> (ManagementError + ManagementUpdate)" where
  "management_cancel m uid i now =
     (case management_verify m uid i of Inl e \<Rightarrow> (m, Inl e)
      | Inr _ \<Rightarrow> (case management_deadline_reached m now of Inl e \<Rightarrow> (m, Inl e)
        | Inr reached \<Rightarrow> management_take_terminal m (if reached then MR_TimedOut else MR_Cancelled)))"

definition management_complete ::
  "ManagementCoordinator \<Rightarrow> u32 \<Rightarrow> OperationId \<Rightarrow> ManagementResult \<Rightarrow> u64 \<Rightarrow>
   ManagementCoordinator \<times> (ManagementError + ManagementUpdate)" where
  "management_complete m uid i result now =
     (if result = MR_Cancelled \<or> result = MR_TimedOut then (m, Inl ME_ReservedResult)
      else case management_verify m uid i of Inl e \<Rightarrow> (m, Inl e)
      | Inr _ \<Rightarrow> (case management_deadline_reached m now of Inl e \<Rightarrow> (m, Inl e)
        | Inr reached \<Rightarrow> management_take_terminal m (if reached then MR_TimedOut else result)))"

definition management_expire ::
  "ManagementCoordinator \<Rightarrow> u64 \<Rightarrow> ManagementCoordinator \<times> ManagementUpdate option" where
  "management_expire m now =
     (if (case mc_active m of None \<Rightarrow> False | Some a \<Rightarrow> op_deadline_micros a \<le> now)
      then (let (m', r) = management_take_terminal m MR_TimedOut in
              (m', case r of Inl _ \<Rightarrow> None | Inr x \<Rightarrow> Some x))
      else (m, None))"

definition management_is_busy :: "ManagementCoordinator \<Rightarrow> bool" where
  "management_is_busy m = (mc_active m \<noteq> None)"

section \<open>The coordinator as a state machine\<close>

datatype management_op =
  MStart AuthorizedEnrollment u64 "128 word"
| MProgress u32 OperationId ManagementProgress u64
| MCancel u32 OperationId u64
| MComplete u32 OperationId ManagementResult u64
| MExpire u64

text \<open>
  \<open>start\<close> and \<open>progress\<close> share one update constructor; the trace records which call answered.
\<close>

datatype management_out =
  OutStarted "ManagementError + ManagementUpdate"
| OutUpdate "ManagementError + ManagementUpdate"
| OutExpired "ManagementUpdate option"

fun management_step :: "ManagementCoordinator \<Rightarrow> management_op \<Rightarrow> ManagementCoordinator \<times> management_out" where
  "management_step m (MStart a now r) = apsnd OutStarted (management_start m a now r)"
| "management_step m (MProgress u i p now) = apsnd OutUpdate (management_progress m u i p now)"
| "management_step m (MCancel u i now) = apsnd OutUpdate (management_cancel m u i now)"
| "management_step m (MComplete u i r now) = apsnd OutUpdate (management_complete m u i r now)"
| "management_step m (MExpire now) = apsnd OutExpired (management_expire m now)"

definition management_owner :: "ManagementCoordinator \<Rightarrow> OperationId option" where
  "management_owner m = map_option op_id (mc_active m)"

fun management_event :: "management_out \<Rightarrow> OperationId slot_event option" where
  "management_event (OutStarted (Inr (MU_Progress i _))) = Some (Opened i)"
| "management_event (OutUpdate (Inr (MU_Progress i _))) = Some (Updated i)"
| "management_event (OutUpdate (Inr (MU_Completed i _))) = Some (Closed i)"
| "management_event (OutExpired (Some (MU_Completed i _))) = Some (Closed i)"
| "management_event _ = None"

lemmas management_op_defs =
  management_start_def management_progress_def management_cancel_def management_complete_def
  management_expire_def management_verify_def management_deadline_reached_def
  management_take_terminal_def

lemma management_step_effect:
  "management_step m x = (m', out) \<Longrightarrow>
     (case management_event out of
        Some (Opened t) \<Rightarrow> management_owner m = None \<and> management_owner m' = Some t
      | Some (Updated t) \<Rightarrow> management_owner m = Some t \<and> management_owner m' = Some t
      | Some (Closed t) \<Rightarrow> management_owner m = Some t \<and> management_owner m' = None
      | None \<Rightarrow> management_owner m' = management_owner m)"
  by (cases x; cases "mc_active m")
     (auto simp: management_op_defs management_owner_def Let_def split: if_splits option.splits)

interpretation management_slot: oneshot_slot management_step management_owner management_event
  by unfold_locales (auto dest: management_step_effect)

section \<open>Properties\<close>

lemma management_new_ok:
  "management_new c = Inr m \<Longrightarrow> mc_config m = c \<and> mc_active m = None \<and>
     5000000 \<le> operation_duration_micros c \<and> operation_duration_micros c \<le> 120000000"
  by (auto simp: management_new_def management_config_validate_def MAX_OPERATION_DURATION_MICROS_def
      result_simps not_less split: if_splits)

lemma management_step_config: "mc_config (fst (management_step m x)) = mc_config m"
  by (cases x; cases "mc_active m") (auto simp: management_op_defs Let_def split: option.splits)

lemma management_step_active:
  "mc_active (fst (management_step m x)) = Some a \<Longrightarrow>
     mc_active m = Some a \<or>
     (\<exists>auth now r. x = MStart auth now r \<and> op_uid a = ae_target_uid auth \<and> op_id a = operation_generate r \<and>
       unat (op_deadline_micros a) = unat now + unat (operation_duration_micros (mc_config m)))"
  by (cases x; cases "mc_active m")
     (auto simp: management_op_defs Let_def checked_add_unat split: option.splits if_splits)

text \<open>
  One terminal update per management operation: in every run on a new coordinator the updates
  are bracketed by operation identifier, so an operation is completed at most as often as it was
  started.
\<close>

theorem management_single_terminal:
  assumes "management_new c = Inr m"
  shows "bracketed None (slot_events management_event (snd (run_ops management_step m ops))) \<and>
    count_list (slot_events management_event (snd (run_ops management_step m ops))) (Closed i) \<le>
    count_list (slot_events management_event (snd (run_ops management_step m ops))) (Opened i)"
proof -
  have "management_owner m = None" using management_new_ok [OF assms] by (simp add: management_owner_def)
  then have "bracketed None (slot_events management_event (snd (run_ops management_step m ops)))"
    using management_slot.run_bracketed [of m ops] by simp
  with bracketed_closed_le_opened [OF this, of i] show ?thesis by simp
qed

lemma management_active_origin:
  assumes "mc_active m = None"
  shows "mc_active (fst (run_ops management_step m ops)) = Some a \<Longrightarrow>
    \<exists>auth now r. MStart auth now r \<in> set ops \<and> op_uid a = ae_target_uid auth \<and>
      op_id a = operation_generate r \<and>
      unat (op_deadline_micros a) = unat now + unat (operation_duration_micros (mc_config m))"
proof (induction ops rule: rev_induct)
  case Nil
  with assms show ?case by simp
next
  case (snoc x ops)
  have "mc_config (fst (run_ops management_step m ops)) = mc_config m"
    by (rule run_ops_invariant [where P = "\<lambda>t. mc_config t = mc_config m"])
       (simp_all add: management_step_config)
  with snoc management_step_active [of "fst (run_ops management_step m ops)" x a]
  show ?case by auto
qed

lemma management_completed_by:
  "management_step m x = (m', OutUpdate (Inr (MU_Completed i MR_Completed))) \<Longrightarrow>
     \<exists>a now. mc_active m = Some a \<and> x = MComplete (op_uid a) i MR_Completed now \<and> op_id a = i \<and>
       now < op_deadline_micros a"
  by (cases x; cases "mc_active m")
     (auto simp: management_op_defs Let_def not_le split: if_splits option.splits)

text \<open>
  A template commit is only ever reported for the account the root Polkit broker authorized:
  when the coordinator answers that an operation completed, an enrollment started it under that
  identifier for the calling uid before, and the call came before the deadline of that start.
\<close>

theorem management_commit_provenance:
  assumes "management_new c = Inr m0" and "fst (run_ops management_step m0 ops) = m"
    and "management_step m x = (m', OutUpdate (Inr (MU_Completed i MR_Completed)))"
  shows "\<exists>auth start r now. MStart auth start r \<in> set ops \<and> i = operation_generate r \<and>
    x = MComplete (ae_target_uid auth) i MR_Completed now \<and>
    unat now < unat start + unat (operation_duration_micros c)"
proof -
  obtain a now where a: "mc_active m = Some a" "x = MComplete (op_uid a) i MR_Completed now"
      "op_id a = i" "now < op_deadline_micros a"
    using management_completed_by [OF assms(3)] by auto
  show ?thesis
    using management_active_origin [of m0 ops a] management_new_ok [OF assms(1)] assms(2) a
    by (force simp: word_less_nat_alt)
qed

lemma enrollment_from_grant_ok:
  "enrollment_from_grant g = Inr e \<longleftrightarrow>
     peer_uid (grant_peer g) = 0 \<and> grant_service g = ServiceName ''faceauth-enroll'' \<and>
     grant_purpose g = Polkit \<and> e = \<lparr>ae_target_uid = grant_target_uid g\<rparr>"
  by (cases "grant_service g") (auto simp: enrollment_from_grant_def ENROLLMENT_SERVICE_def)

section \<open>Witnesses\<close>

definition ex_coordinator :: ManagementCoordinator where
  "ex_coordinator = \<lparr>mc_config = management_config_default, mc_active = None\<rparr>"

lemma ex_coordinator_new: "management_new management_config_default = Inr ex_coordinator"
  by (simp add: management_new_def management_config_validate_def management_config_default_def
      ex_coordinator_def MAX_OPERATION_DURATION_MICROS_def)

lemmas ex_management = ex_coordinator_def management_config_default_def management_op_defs checked_add_def Let_def

theorem management_single_terminal_witness:
  "bracketed None (slot_events management_event (snd (run_ops management_step ex_coordinator
     [MStart \<lparr>ae_target_uid = 1000\<rparr> 5 0, MExpire 120000005]))) \<and>
   slot_events management_event (snd (run_ops management_step ex_coordinator
     [MStart \<lparr>ae_target_uid = 1000\<rparr> 5 0, MExpire 120000005])) =
   [Opened (operation_generate 0), Closed (operation_generate 0)]"
  using management_single_terminal [OF ex_coordinator_new,
      of "[MStart \<lparr>ae_target_uid = 1000\<rparr> 5 0, MExpire 120000005]"]
  by (simp add: ex_management)

theorem management_commit_provenance_witness:
  "\<exists>auth start r now. MStart auth start r \<in> set [MStart \<lparr>ae_target_uid = 1000\<rparr> 5 0] \<and>
     operation_generate 0 = operation_generate r \<and>
     MComplete 1000 (operation_generate 0) MR_Completed 9 =
       MComplete (ae_target_uid auth) (operation_generate 0) MR_Completed now \<and>
     unat now < unat start + unat (operation_duration_micros management_config_default)"
proof -
  let ?m = "fst (run_ops management_step ex_coordinator [MStart \<lparr>ae_target_uid = 1000\<rparr> 5 0])"
  let ?x = "MComplete 1000 (operation_generate 0) MR_Completed 9"
  have "management_step ?m ?x =
      (fst (management_step ?m ?x), OutUpdate (Inr (MU_Completed (operation_generate 0) MR_Completed)))"
    by (simp add: ex_management)
  from management_commit_provenance [OF ex_coordinator_new refl this] show ?thesis .
qed

end
