(* ===== verification/Liveness.thy ===== *)
theory Liveness
  imports CorePolicy
begin

text \<open>
  \<open>crates/faceauth-liveness/src/lib.rs\<close>: the randomized active-liveness challenge. A session moves
  from the baseline through the requested action and the recovery to \<open>Passed\<close>; every observation is
  checked for pairing, freshness, order and budget before it can move the phase.
\<close>

datatype ChallengeAction = Blink | TurnLeft | TurnRight

record ChallengeConfig =
  cc_max_pair_skew_micros :: u64
  cc_duration_micros :: u64
  cc_max_observations :: u16
  cc_open_eye_threshold :: fp
  cc_closed_eye_threshold :: fp
  cc_neutral_yaw_degrees :: fp
  cc_turn_yaw_degrees :: fp
  cc_action_consecutive_observations :: u8
  cc_minimum_action_duration_micros :: u64
  cc_recovery_consecutive_observations :: u8

record ChallengeObservation =
  co_timing :: CapturePair
  co_infrared_sequence :: u32
  co_visible_sequence :: u32
  co_face_count :: u8
  co_eye_openness :: fp
  co_yaw_degrees :: fp

datatype ChallengeProgress =
  CP_BaselineRequired
| CP_ActionRequired ChallengeAction
| CP_RecoveryRequired
| CP_Passed

datatype Phase = Baseline | Action | Recovery | PhasePassed

record ChallengeSession =
  cs_config :: ChallengeConfig
  cs_action :: ChallengeAction
  cs_issued_at_micros :: u64
  cs_deadline_micros :: u64
  cs_observations :: u16
  cs_last_timestamp_micros :: "u64 option"
  cs_last_sequences :: "(u32 \<times> u32) option"
  cs_phase :: Phase
  cs_action_streak :: u8
  cs_action_streak_started_at_micros :: "u64 option"
  cs_recovery_streak :: u8

datatype ChallengeError =
  CE_InvalidConfig
| CE_Cancelled
| CE_DeadlineOverflow
| CE_Random
| CE_VisibleFrameRequired
| CE_InvalidFramePair
| CE_SingleFaceRequired u8
| CE_InvalidMeasurement
| CE_NonIncreasingTimestamp
| CE_PredatesChallenge
| CE_RepeatedCameraFrame
| CE_Expired
| CE_ObservationBudgetExhausted
| CE_AlreadyCompleted

section \<open>The random action\<close>

text \<open>
  The rejection loop over the random source: each list element is one answer of \<open>getrandom\<close> (a
  failure or a byte). \<open>None\<close> is a loop that has not returned after these answers.
\<close>

fun action_random :: "u8 option list \<Rightarrow> (ChallengeError + ChallengeAction) option" where
  "action_random [] = None"
| "action_random (None # _) = Some (Inl CE_Random)"
| "action_random (Some byte # rest) =
     (if byte < 255
      then Some (Inr (if byte mod 3 = 0 then Blink else if byte mod 3 = 1 then TurnLeft else TurnRight))
      else action_random rest)"

section \<open>Configuration and observations\<close>

definition u16_of :: "u8 \<Rightarrow> u16" where
  "u16_of w = ucast w"

definition challenge_config_validate :: "ChallengeConfig \<Rightarrow> ChallengeError + unit" where
  "challenge_config_validate c =
     (let scores_valid = is_finite (cc_open_eye_threshold c) \<and> is_finite (cc_closed_eye_threshold c) \<and>
            fp_in 0 1 (cc_open_eye_threshold c) \<and> fp_in 0 1 (cc_closed_eye_threshold c) \<and>
            fp_lt (cc_closed_eye_threshold c) (cc_open_eye_threshold c);
          yaw_valid = is_finite (cc_neutral_yaw_degrees c) \<and> is_finite (cc_turn_yaw_degrees c) \<and>
            fp_in 0 45 (cc_neutral_yaw_degrees c) \<and> fp_in 5 75 (cc_turn_yaw_degrees c) \<and>
            fp_lt (cc_neutral_yaw_degrees c) (cc_turn_yaw_degrees c)
      in if cc_max_pair_skew_micros c = 0
          \<or> \<not> in_range 1000000 30000000 (cc_duration_micros c)
          \<or> \<not> in_range 3 300 (cc_max_observations c)
          \<or> \<not> in_range 2 15 (cc_action_consecutive_observations c)
          \<or> \<not> in_range 2 15 (cc_recovery_consecutive_observations c)
          \<or> \<not> in_range 20000 2000000 (cc_minimum_action_duration_micros c)
          \<or> cc_minimum_action_duration_micros c \<ge> cc_duration_micros c
          \<or> u16_of (cc_action_consecutive_observations c)
              + u16_of (cc_recovery_consecutive_observations c) + 1 > cc_max_observations c
          \<or> \<not> scores_valid \<or> \<not> yaw_valid
         then Inl CE_InvalidConfig else Inr ())"

definition observation_timestamp :: "ChallengeObservation \<Rightarrow> ChallengeError + u64" where
  "observation_timestamp ob =
     try_bind (ok_or (visible_timestamp_micros (co_timing ob)) CE_VisibleFrameRequired) (\<lambda>v.
     Inr (max (infrared_timestamp_micros (co_timing ob)) v))"

definition observation_validate :: "ChallengeObservation \<Rightarrow> u64 \<Rightarrow> ChallengeError + unit" where
  "observation_validate ob skew =
     try_bind (map_err (\<lambda>_. CE_InvalidFramePair)
       (capture_accepts \<lparr>require_infrared = True, require_visible = True, max_pair_skew_micros = skew\<rparr>
          (co_timing ob))) (\<lambda>_.
     if co_face_count ob \<noteq> 1 then Inl (CE_SingleFaceRequired (co_face_count ob))
     else if \<not> is_finite (co_eye_openness ob) \<or> \<not> fp_in 0 1 (co_eye_openness ob)
         \<or> \<not> is_finite (co_yaw_degrees ob) \<or> \<not> fp_in (-90) 90 (co_yaw_degrees ob)
       then Inl CE_InvalidMeasurement
     else Inr ())"

section \<open>Sessions\<close>

definition challenge_with_action ::
  "ChallengeConfig \<Rightarrow> u64 \<Rightarrow> ChallengeAction \<Rightarrow> ChallengeError + ChallengeSession" where
  "challenge_with_action c issued act =
     try_bind (challenge_config_validate c) (\<lambda>_.
     try_bind (ok_or (checked_add issued (cc_duration_micros c)) CE_DeadlineOverflow) (\<lambda>deadline.
     Inr \<lparr>cs_config = c, cs_action = act, cs_issued_at_micros = issued, cs_deadline_micros = deadline,
          cs_observations = 0, cs_last_timestamp_micros = None, cs_last_sequences = None,
          cs_phase = Baseline, cs_action_streak = 0, cs_action_streak_started_at_micros = None,
          cs_recovery_streak = 0\<rparr>))"

definition challenge_begin ::
  "ChallengeConfig \<Rightarrow> u64 \<Rightarrow> u8 option list \<Rightarrow> (ChallengeError + ChallengeSession) option" where
  "challenge_begin c issued random =
     map_option (\<lambda>r. try_bind r (challenge_with_action c issued)) (action_random random)"

definition challenge_progress :: "ChallengeSession \<Rightarrow> ChallengeProgress" where
  "challenge_progress s =
     (case cs_phase s of
        Baseline \<Rightarrow> CP_BaselineRequired
      | Action \<Rightarrow> CP_ActionRequired (cs_action s)
      | Recovery \<Rightarrow> CP_RecoveryRequired
      | PhasePassed \<Rightarrow> CP_Passed)"

definition action_matches :: "ChallengeConfig \<Rightarrow> ChallengeAction \<Rightarrow> ChallengeObservation \<Rightarrow> bool" where
  "action_matches c a ob =
     (case a of
        Blink \<Rightarrow> fp_le (co_eye_openness ob) (cc_closed_eye_threshold c)
      | TurnLeft \<Rightarrow> fp_le (co_yaw_degrees ob) (fp_neg (cc_turn_yaw_degrees c))
      | TurnRight \<Rightarrow> fp_le (cc_turn_yaw_degrees c) (co_yaw_degrees ob))"

definition action_observed :: "ChallengeSession \<Rightarrow> ChallengeObservation \<Rightarrow> bool" where
  "action_observed s ob = action_matches (cs_config s) (cs_action s) ob"

definition observation_neutral :: "ChallengeConfig \<Rightarrow> ChallengeObservation \<Rightarrow> bool" where
  "observation_neutral c ob =
     (fp_le (cc_open_eye_threshold c) (co_eye_openness ob) \<and>
      fp_le (fp_abs (co_yaw_degrees ob)) (cc_neutral_yaw_degrees c))"

definition observe_action :: "ChallengeSession \<Rightarrow> ChallengeObservation \<Rightarrow> u64 \<Rightarrow> ChallengeSession" where
  "observe_action s ob timestamp =
     (if \<not> action_observed s ob
      then s\<lparr>cs_action_streak := 0, cs_action_streak_started_at_micros := None\<rparr>
      else let started = (case cs_action_streak_started_at_micros s of None \<Rightarrow> timestamp | Some t \<Rightarrow> t);
               streak = saturating_add (cs_action_streak s) 1;
               s' = s\<lparr>cs_action_streak_started_at_micros := Some started, cs_action_streak := streak\<rparr>
           in if streak \<ge> cc_action_consecutive_observations (cs_config s) \<and>
                 saturating_sub timestamp started \<ge> cc_minimum_action_duration_micros (cs_config s)
              then s'\<lparr>cs_phase := Recovery, cs_recovery_streak := 0\<rparr>
              else s')"

definition observe_recovery :: "ChallengeSession \<Rightarrow> bool \<Rightarrow> ChallengeSession" where
  "observe_recovery s neutral =
     (if \<not> neutral then s\<lparr>cs_recovery_streak := 0\<rparr>
      else let streak = saturating_add (cs_recovery_streak s) 1;
               s' = s\<lparr>cs_recovery_streak := streak\<rparr>
           in if streak \<ge> cc_recovery_consecutive_observations (cs_config s)
              then s'\<lparr>cs_phase := PhasePassed\<rparr> else s')"

text \<open>The part of \<open>observe_cancellable\<close> after all checks passed: record the frame, move the phase.\<close>

definition observe_admitted :: "ChallengeSession \<Rightarrow> ChallengeObservation \<Rightarrow> u64 \<Rightarrow> ChallengeSession" where
  "observe_admitted s0 ob timestamp =
     (let s = s0\<lparr>cs_last_timestamp_micros := Some timestamp,
                cs_last_sequences := Some (co_infrared_sequence ob, co_visible_sequence ob)\<rparr>;
          neutral = observation_neutral (cs_config s) ob
      in case cs_phase s of
           Baseline \<Rightarrow> if neutral then s\<lparr>cs_phase := Action\<rparr> else s
         | Action \<Rightarrow> observe_action s ob timestamp
         | Recovery \<Rightarrow> observe_recovery s neutral
         | PhasePassed \<Rightarrow> s)"

definition observe_cancellable ::
  "ChallengeSession \<Rightarrow> ChallengeObservation \<Rightarrow> bool \<Rightarrow> ChallengeSession \<times> (ChallengeError + ChallengeProgress)" where
  "observe_cancellable s ob should_cancel =
     (if should_cancel then (s, Inl CE_Cancelled)
      else if cs_phase s = PhasePassed then (s, Inl CE_AlreadyCompleted)
      else case observation_validate ob (cc_max_pair_skew_micros (cs_config s)) of Inl e \<Rightarrow> (s, Inl e)
      | Inr _ \<Rightarrow> (case observation_timestamp ob of Inl e \<Rightarrow> (s, Inl e)
      | Inr timestamp \<Rightarrow>
        if timestamp < cs_issued_at_micros s then (s, Inl CE_PredatesChallenge)
        else if timestamp > cs_deadline_micros s then (s, Inl CE_Expired)
        else if (case cs_last_timestamp_micros s of None \<Rightarrow> False | Some l \<Rightarrow> timestamp \<le> l)
          then (s, Inl CE_NonIncreasingTimestamp)
        else if (case cs_last_sequences s of None \<Rightarrow> False
                 | Some (i, v) \<Rightarrow> i = co_infrared_sequence ob \<or> v = co_visible_sequence ob)
          then (s, Inl CE_RepeatedCameraFrame)
        else case checked_add (cs_observations s) 1 of
          None \<Rightarrow> (s, Inl CE_ObservationBudgetExhausted)
        | Some n \<Rightarrow>
            let s' = s\<lparr>cs_observations := n\<rparr> in
            if n > cc_max_observations (cs_config s) then (s', Inl CE_ObservationBudgetExhausted)
            else let s'' = observe_admitted s' ob timestamp in (s'', Inr (challenge_progress s''))))"

definition observe :: "ChallengeSession \<Rightarrow> ChallengeObservation \<Rightarrow> ChallengeSession \<times> (ChallengeError + ChallengeProgress)" where
  "observe s ob = observe_cancellable s ob False"

text \<open>
  A run over observations, each with the answer of the cancellation callback; the session goes on
  after an error as the code lets it. The second component lists the observations answered \<open>Ok\<close>.
\<close>

fun observe_run ::
  "ChallengeSession \<Rightarrow> (ChallengeObservation \<times> bool) list \<Rightarrow> ChallengeSession \<times> ChallengeObservation list" where
  "observe_run s [] = (s, [])"
| "observe_run s ((ob, cancel) # xs) =
     (let (s', r) = observe_cancellable s ob cancel; (t, acc) = observe_run s' xs
      in (t, if is_ok r then ob # acc else acc))"

section \<open>What a passed challenge has seen\<close>

definition obs_time :: "ChallengeObservation \<Rightarrow> u64" where
  "obs_time ob = max (infrared_timestamp_micros (co_timing ob))
     (case visible_timestamp_micros (co_timing ob) of None \<Rightarrow> 0 | Some v \<Rightarrow> v)"

definition observation_admissible :: "ChallengeConfig \<Rightarrow> ChallengeObservation \<Rightarrow> bool" where
  "observation_admissible c ob \<longleftrightarrow> co_face_count ob = 1 \<and>
     fp_in 0 1 (co_eye_openness ob) \<and> fp_in (-90) 90 (co_yaw_degrees ob) \<and>
     (\<exists>v. visible_timestamp_micros (co_timing ob) = Some v \<and>
        abs_diff (infrared_timestamp_micros (co_timing ob)) v \<le> cc_max_pair_skew_micros c)"

text \<open>
  Evidence of the action: a neutral baseline frame and, later, an unbroken run of frames that show
  the action, long enough in frames and in time.
\<close>

definition action_evidence :: "ChallengeConfig \<Rightarrow> ChallengeAction \<Rightarrow> ChallengeObservation list \<Rightarrow> bool" where
  "action_evidence c a acc \<longleftrightarrow> (\<exists>pre b mid streak.
     acc = pre @ b # mid @ streak \<and> observation_neutral c b \<and> streak \<noteq> [] \<and>
     list_all (action_matches c a) streak \<and>
     unat (cc_action_consecutive_observations c) \<le> length streak \<and>
     unat (cc_minimum_action_duration_micros c) \<le> unat (obs_time (last streak)) - unat (obs_time (hd streak)))"

definition challenge_evidence :: "ChallengeConfig \<Rightarrow> ChallengeAction \<Rightarrow> ChallengeObservation list \<Rightarrow> bool" where
  "challenge_evidence c a acc \<longleftrightarrow> (\<exists>xs mid rs.
     acc = xs @ mid @ rs \<and> action_evidence c a xs \<and> list_all (observation_neutral c) rs \<and>
     unat (cc_recovery_consecutive_observations c) \<le> length rs)"

definition phase_inv :: "ChallengeSession \<Rightarrow> ChallengeObservation list \<Rightarrow> bool" where
  "phase_inv s acc \<longleftrightarrow> (let c = cs_config s; a = cs_action s in
     case cs_phase s of
       Baseline \<Rightarrow> cs_action_streak s = 0 \<and> cs_action_streak_started_at_micros s = None
     | Action \<Rightarrow> (\<exists>pre b mid streak. acc = pre @ b # mid @ streak \<and> observation_neutral c b \<and>
          list_all (action_matches c a) streak \<and> unat (cs_action_streak s) \<le> length streak \<and>
          cs_action_streak_started_at_micros s =
            (if streak = [] then None else Some (obs_time (hd streak))))
     | Recovery \<Rightarrow> (\<exists>xs mid rs. acc = xs @ mid @ rs \<and> action_evidence c a xs \<and>
          list_all (observation_neutral c) rs \<and> unat (cs_recovery_streak s) \<le> length rs)
     | PhasePassed \<Rightarrow> challenge_evidence c a acc)"

definition order_inv :: "ChallengeSession \<Rightarrow> ChallengeObservation list \<Rightarrow> bool" where
  "order_inv s acc \<longleftrightarrow>
     sorted_wrt (<) (map obs_time acc) \<and>
     (\<forall>ob \<in> set acc. observation_admissible (cs_config s) ob \<and>
        cs_issued_at_micros s \<le> obs_time ob \<and> obs_time ob \<le> cs_deadline_micros s) \<and>
     cs_last_timestamp_micros s = (if acc = [] then None else Some (obs_time (last acc))) \<and>
     length acc \<le> unat (cs_observations s) \<and>
     length acc \<le> unat (cc_max_observations (cs_config s))"

lemma observation_validate_ok:
  "observation_validate ob (cc_max_pair_skew_micros c) = Inr u \<Longrightarrow> observation_admissible c ob"
  by (auto simp: observation_validate_def observation_admissible_def result_simps split: if_splits
      dest: capture_accepts_paired)

lemma observation_timestamp_ok: "observation_timestamp ob = Inr t \<Longrightarrow> t = obs_time ob"
  by (auto simp: observation_timestamp_def obs_time_def result_simps)

lemma streak_step: "unat (saturating_add w (1::u8)) \<le> Suc (unat w)"
  by (simp add: unat_saturating_add)

lemma phase_inv_ActionI:
  assumes "cs_phase s = Action" and "acc = pre @ b # mid @ streak"
    and "observation_neutral (cs_config s) b"
    and "list_all (action_matches (cs_config s) (cs_action s)) streak"
    and "unat (cs_action_streak s) \<le> length streak"
    and "cs_action_streak_started_at_micros s = (if streak = [] then None else Some (obs_time (hd streak)))"
  shows "phase_inv s acc"
  unfolding phase_inv_def Let_def assms(1) Phase.case
  by (rule exI [of _ pre], rule exI [of _ b], rule exI [of _ mid], rule exI [of _ streak])
     (use assms(2-) in simp)

lemma phase_inv_RecoveryI:
  assumes "cs_phase s = Recovery" and "acc = xs @ mid @ rs"
    and "action_evidence (cs_config s) (cs_action s) xs"
    and "list_all (observation_neutral (cs_config s)) rs"
    and "unat (cs_recovery_streak s) \<le> length rs"
  shows "phase_inv s acc"
  unfolding phase_inv_def Let_def assms(1) Phase.case
  by (rule exI [of _ xs], rule exI [of _ mid], rule exI [of _ rs]) (use assms(2-) in simp)

lemma phase_inv_action:
  assumes "phase_inv s acc" and "cs_phase s = Action"
  shows "phase_inv (observe_action s ob (obs_time ob)) (acc @ [ob])"
proof -
  let ?c = "cs_config s" and ?a = "cs_action s"
  obtain pre b mid streak where st: "acc = pre @ b # mid @ streak" "observation_neutral ?c b"
      "list_all (action_matches ?c ?a) streak" "unat (cs_action_streak s) \<le> length streak"
      "cs_action_streak_started_at_micros s = (if streak = [] then None else Some (obs_time (hd streak)))"
    using assms by (auto simp: phase_inv_def Let_def)
  show ?thesis
  proof (cases "action_observed s ob")
    case False
    then show ?thesis using st(1,2) assms(2)
      by (intro phase_inv_ActionI [where pre = pre and b = b and mid = "mid @ streak @ [ob]" and streak = "[]"])
         (simp_all add: observe_action_def)
  next
    case True
    let ?streak = "streak @ [ob]"
    have eq: "acc @ [ob] = pre @ b # mid @ ?streak" using st(1) by simp
    have all: "list_all (action_matches ?c ?a) ?streak" using st(3) True by (simp add: action_observed_def)
    have len: "unat (saturating_add (cs_action_streak s) 1) \<le> length ?streak"
      using streak_step [of "cs_action_streak s"] st(4) by simp
    have hd: "(case cs_action_streak_started_at_micros s of None \<Rightarrow> obs_time ob | Some t \<Rightarrow> t) =
        obs_time (hd ?streak)"
      using st(5) by (simp add: hd_append)
    show ?thesis
    proof (cases "cs_phase (observe_action s ob (obs_time ob)) = Recovery")
      case True
      then have c: "saturating_add (cs_action_streak s) 1 \<ge> cc_action_consecutive_observations ?c"
          "saturating_sub (obs_time ob) (obs_time (hd ?streak)) \<ge> cc_minimum_action_duration_micros ?c"
        using \<open>action_observed s ob\<close> assms(2) hd
        by (auto simp: observe_action_def Let_def split: if_splits)
      have "unat (cc_action_consecutive_observations ?c) \<le> length ?streak"
        using c(1) len by (simp add: word_le_nat_alt)
      moreover have "unat (cc_minimum_action_duration_micros ?c) \<le>
          unat (obs_time (last ?streak)) - unat (obs_time (hd ?streak))"
        using c(2) by (simp add: word_le_nat_alt unat_saturating_sub)
      ultimately have "action_evidence ?c ?a (acc @ [ob])"
        unfolding action_evidence_def using eq st(2) all
        by (intro exI [of _ pre] exI [of _ b] exI [of _ mid] exI [of _ ?streak]) auto
      then show ?thesis using True \<open>action_observed s ob\<close> assms(2)
        by (intro phase_inv_RecoveryI [where xs = "acc @ [ob]" and mid = "[]" and rs = "[]"])
           (auto simp: observe_action_def Let_def split: if_splits)
    next
      case False
      then show ?thesis using \<open>action_observed s ob\<close> assms(2) eq all len hd st(2)
        by (intro phase_inv_ActionI [where pre = pre and b = b and mid = mid and streak = ?streak])
           (auto simp: observe_action_def Let_def split: if_splits)
    qed
  qed
qed

lemma phase_inv_recovery:
  assumes "phase_inv s acc" and "cs_phase s = Recovery"
  shows "phase_inv (observe_recovery s (observation_neutral (cs_config s) ob)) (acc @ [ob])"
proof -
  let ?c = "cs_config s" and ?a = "cs_action s"
  obtain xs mid rs where st: "acc = xs @ mid @ rs" "action_evidence ?c ?a xs"
      "list_all (observation_neutral ?c) rs" "unat (cs_recovery_streak s) \<le> length rs"
    using assms by (auto simp: phase_inv_def Let_def)
  show ?thesis
  proof (cases "observation_neutral ?c ob")
    case False
    then show ?thesis using st(1,2) assms(2)
      by (intro phase_inv_RecoveryI [where xs = xs and mid = "mid @ rs @ [ob]" and rs = "[]"])
         (simp_all add: observe_recovery_def)
  next
    case True
    let ?n = "saturating_add (cs_recovery_streak s) 1"
    have len: "unat ?n \<le> length (rs @ [ob])"
      using streak_step [of "cs_recovery_streak s"] st(4) by simp
    have all: "list_all (observation_neutral ?c) (rs @ [ob])" using st(3) True by simp
    show ?thesis
    proof (cases "cc_recovery_consecutive_observations ?c \<le> ?n")
      case reached: True
      have "challenge_evidence ?c ?a (xs @ mid @ (rs @ [ob]))"
        unfolding challenge_evidence_def using st(2) all len reached
        by (intro exI [of _ xs] exI [of _ mid] exI [of _ "rs @ [ob]"]) (simp add: word_le_nat_alt)
      then show ?thesis using True reached st(1)
        by (simp add: observe_recovery_def phase_inv_def Let_def)
    next
      case False
      then show ?thesis using True assms(2) st(1,2) all len
        by (intro phase_inv_RecoveryI [where xs = xs and mid = mid and rs = "rs @ [ob]"])
           (simp_all add: observe_recovery_def Let_def)
    qed
  qed
qed

lemma observe_action_frame [simp]:
  "cs_config (observe_action s ob t) = cs_config s" "cs_action (observe_action s ob t) = cs_action s"
  "cs_issued_at_micros (observe_action s ob t) = cs_issued_at_micros s"
  "cs_deadline_micros (observe_action s ob t) = cs_deadline_micros s"
  "cs_observations (observe_action s ob t) = cs_observations s"
  "cs_last_timestamp_micros (observe_action s ob t) = cs_last_timestamp_micros s"
  by (simp_all add: observe_action_def Let_def)

lemma observe_recovery_frame [simp]:
  "cs_config (observe_recovery s n) = cs_config s" "cs_action (observe_recovery s n) = cs_action s"
  "cs_issued_at_micros (observe_recovery s n) = cs_issued_at_micros s"
  "cs_deadline_micros (observe_recovery s n) = cs_deadline_micros s"
  "cs_observations (observe_recovery s n) = cs_observations s"
  "cs_last_timestamp_micros (observe_recovery s n) = cs_last_timestamp_micros s"
  by (simp_all add: observe_recovery_def Let_def)

lemma observe_admitted_frame [simp]:
  "cs_config (observe_admitted s ob t) = cs_config s" "cs_action (observe_admitted s ob t) = cs_action s"
  "cs_issued_at_micros (observe_admitted s ob t) = cs_issued_at_micros s"
  "cs_deadline_micros (observe_admitted s ob t) = cs_deadline_micros s"
  "cs_observations (observe_admitted s ob t) = cs_observations s"
  "cs_last_timestamp_micros (observe_admitted s ob t) = Some t"
  by (simp_all add: observe_admitted_def Let_def split: Phase.splits)

lemma phase_inv_cong:
  "cs_config s = cs_config s' \<Longrightarrow> cs_action s = cs_action s' \<Longrightarrow> cs_phase s = cs_phase s' \<Longrightarrow>
   cs_action_streak s = cs_action_streak s' \<Longrightarrow>
   cs_action_streak_started_at_micros s = cs_action_streak_started_at_micros s' \<Longrightarrow>
   cs_recovery_streak s = cs_recovery_streak s' \<Longrightarrow> phase_inv s acc = phase_inv s' acc"
  by (simp only: phase_inv_def Let_def)

lemma phase_inv_admitted:
  assumes "phase_inv s acc" and "cs_phase s \<noteq> PhasePassed"
  shows "phase_inv (observe_admitted s ob (obs_time ob)) (acc @ [ob])"
proof -
  let ?s = "s\<lparr>cs_last_timestamp_micros := Some (obs_time ob),
      cs_last_sequences := Some (co_infrared_sequence ob, co_visible_sequence ob)\<rparr>"
  have inv: "phase_inv ?s acc" using assms(1) phase_inv_cong [of ?s s acc] by simp
  show ?thesis
  proof (cases "cs_phase s")
    case Baseline
    show ?thesis
    proof (cases "observation_neutral (cs_config s) ob")
      case True
      then show ?thesis using Baseline assms(1)
        by (intro phase_inv_ActionI [where pre = acc and b = ob and mid = "[]" and streak = "[]"])
           (simp_all add: observe_admitted_def phase_inv_def)
    next
      case False
      then show ?thesis using Baseline assms(1) by (simp add: observe_admitted_def phase_inv_def)
    qed
  next
    case Action
    then show ?thesis using phase_inv_action [OF inv, of ob] by (simp add: observe_admitted_def Let_def)
  next
    case Recovery
    then show ?thesis using phase_inv_recovery [OF inv, of ob] by (simp add: observe_admitted_def Let_def)
  next
    case PhasePassed
    with assms(2) show ?thesis by simp
  qed
qed

definition liveness_inv :: "ChallengeSession \<Rightarrow> ChallengeObservation list \<Rightarrow> bool" where
  "liveness_inv s acc \<longleftrightarrow> order_inv s acc \<and> phase_inv s acc"

lemma order_inv_frame:
  "order_inv s acc \<Longrightarrow> cs_config t = cs_config s \<Longrightarrow> cs_issued_at_micros t = cs_issued_at_micros s \<Longrightarrow>
   cs_deadline_micros t = cs_deadline_micros s \<Longrightarrow>
   cs_last_timestamp_micros t = cs_last_timestamp_micros s \<Longrightarrow>
   cs_observations s \<le> cs_observations t \<Longrightarrow> order_inv t acc"
  by (auto simp: order_inv_def word_le_nat_alt)

lemma sorted_snoc:
  "sorted_wrt (<) xs \<Longrightarrow> (xs \<noteq> [] \<Longrightarrow> last xs < y) \<Longrightarrow> sorted_wrt (<) (xs @ [y :: u64])"
proof (induction xs)
  case Nil
  then show ?case by simp
next
  case (Cons x xs)
  then show ?case by (cases "xs = []") (auto dest: bspec [OF _ last_in_set])
qed

lemma order_inv_snoc:
  assumes "order_inv s acc" and "observation_admissible (cs_config s) ob"
    and "cs_issued_at_micros s \<le> obs_time ob" and "obs_time ob \<le> cs_deadline_micros s"
    and "case cs_last_timestamp_micros s of None \<Rightarrow> True | Some l \<Rightarrow> l < obs_time ob"
    and "unat n = Suc (unat (cs_observations s))" and "n \<le> cc_max_observations (cs_config s)"
    and "cs_config t = cs_config s" and "cs_issued_at_micros t = cs_issued_at_micros s"
    and "cs_deadline_micros t = cs_deadline_micros s" and "cs_observations t = n"
    and "cs_last_timestamp_micros t = Some (obs_time ob)"
  shows "order_inv t (acc @ [ob])"
proof -
  have "sorted_wrt (<) (map obs_time acc @ [obs_time ob])"
    using assms(1,5) by (intro sorted_snoc) (auto simp: order_inv_def last_map split: if_splits)
  moreover have "length (acc @ [ob]) \<le> unat n" "unat n \<le> unat (cc_max_observations (cs_config s))"
    using assms(1,6,7) by (auto simp: order_inv_def word_le_nat_alt)
  ultimately show ?thesis using assms by (auto simp: order_inv_def)
qed

lemma observe_ok_inversion:
  assumes "observe_cancellable s ob cancel = (s', Inr p)"
  obtains n where "\<not> cancel" "cs_phase s \<noteq> PhasePassed"
      "observation_validate ob (cc_max_pair_skew_micros (cs_config s)) = Inr ()"
      "cs_issued_at_micros s \<le> obs_time ob" "obs_time ob \<le> cs_deadline_micros s"
      "case cs_last_timestamp_micros s of None \<Rightarrow> True | Some l \<Rightarrow> l < obs_time ob"
      "checked_add (cs_observations s) 1 = Some n" "n \<le> cc_max_observations (cs_config s)"
      "s' = observe_admitted (s\<lparr>cs_observations := n\<rparr>) ob (obs_time ob)"
proof -
  from assms have c: "\<not> cancel" "cs_phase s \<noteq> PhasePassed"
    by (auto simp: observe_cancellable_def split: if_splits)
  from assms c obtain v where v: "observation_validate ob (cc_max_pair_skew_micros (cs_config s)) = Inr v"
    by (cases "observation_validate ob (cc_max_pair_skew_micros (cs_config s))")
       (auto simp: observe_cancellable_def)
  from assms c v obtain t where t: "observation_timestamp ob = Inr t"
    by (cases "observation_timestamp ob") (auto simp: observe_cancellable_def)
  note t' = observation_timestamp_ok [OF t]
  from assms c v t have o: "\<not> obs_time ob < cs_issued_at_micros s" "\<not> cs_deadline_micros s < obs_time ob"
      "\<not> (case cs_last_timestamp_micros s of None \<Rightarrow> False | Some l \<Rightarrow> obs_time ob \<le> l)"
      "\<not> (case cs_last_sequences s of None \<Rightarrow> False
         | Some (i, v) \<Rightarrow> i = co_infrared_sequence ob \<or> v = co_visible_sequence ob)"
    unfolding t' by (auto simp: observe_cancellable_def split: if_splits)
  from assms c v t o obtain n where n: "checked_add (cs_observations s) 1 = Some n"
    unfolding t' by (cases "checked_add (cs_observations s) 1") (simp_all add: observe_cancellable_def)
  from assms c v t o n have "\<not> cc_max_observations (cs_config s) < n"
      "s' = observe_admitted (s\<lparr>cs_observations := n\<rparr>) ob (obs_time ob)"
    unfolding t' by (simp_all add: observe_cancellable_def Let_def split: if_splits)
  then show ?thesis using c v o n
    by (intro that [of n]) (auto simp: not_less not_le split: option.splits)
qed

lemma observe_err_inversion:
  assumes "observe_cancellable s ob cancel = (s', Inl e)"
  shows "s' = s \<or> (\<exists>n. checked_add (cs_observations s) 1 = Some n \<and> s' = s\<lparr>cs_observations := n\<rparr>)"
  using assms unfolding observe_cancellable_def
  by (simp add: Let_def split: if_splits sum.splits option.splits)

lemma observe_step_inv:
  assumes "liveness_inv s acc" and "observe_cancellable s ob cancel = (s', r)"
  shows "liveness_inv s' (if is_ok r then acc @ [ob] else acc)"
proof (cases r)
  case (Inr p)
  with assms(2) have "observe_cancellable s ob cancel = (s', Inr p)" by simp
  then obtain n where ok: "\<not> cancel" "cs_phase s \<noteq> PhasePassed"
      "observation_validate ob (cc_max_pair_skew_micros (cs_config s)) = Inr ()"
      "cs_issued_at_micros s \<le> obs_time ob" "obs_time ob \<le> cs_deadline_micros s"
      "case cs_last_timestamp_micros s of None \<Rightarrow> True | Some l \<Rightarrow> l < obs_time ob"
      "checked_add (cs_observations s) 1 = Some n" "n \<le> cc_max_observations (cs_config s)"
      "s' = observe_admitted (s\<lparr>cs_observations := n\<rparr>) ob (obs_time ob)"
    by (rule observe_ok_inversion)
  have n: "unat n = Suc (unat (cs_observations s))" using checked_add_unat [OF ok(7)] by simp
  have "order_inv s acc" "phase_inv s acc" using assms(1) by (simp_all add: liveness_inv_def)
  have "order_inv s' (acc @ [ob])"
    by (rule order_inv_snoc [where n = n, OF \<open>order_inv s acc\<close>])
       (use ok n observation_validate_ok [OF ok(3)] in simp_all)
  moreover have "phase_inv (s\<lparr>cs_observations := n\<rparr>) acc"
    using \<open>phase_inv s acc\<close> phase_inv_cong [of "s\<lparr>cs_observations := n\<rparr>" s acc] by simp
  ultimately show ?thesis
    using Inr phase_inv_admitted [of "s\<lparr>cs_observations := n\<rparr>" acc ob] ok(2,9)
    by (simp add: liveness_inv_def)
next
  case (Inl e)
  with assms(2) have "observe_cancellable s ob cancel = (s', Inl e)" by simp
  note observe_err_inversion [OF this]
  then show ?thesis
  proof
    assume "s' = s"
    then show ?thesis using assms(1) Inl by simp
  next
    assume "\<exists>n. checked_add (cs_observations s) 1 = Some n \<and> s' = s\<lparr>cs_observations := n\<rparr>"
    then obtain n where n: "checked_add (cs_observations s) 1 = Some n" "s' = s\<lparr>cs_observations := n\<rparr>" by blast
    have "phase_inv s' acc \<longleftrightarrow> phase_inv s acc" using n(2) by (intro phase_inv_cong) simp_all
    moreover have "order_inv s acc \<Longrightarrow> order_inv s' acc"
      by (rule order_inv_frame) (use n checked_add_ge [OF n(1)] in simp_all)
    ultimately show ?thesis using assms(1) Inl by (simp add: liveness_inv_def)
  qed
qed

lemma observe_run_inv:
  "liveness_inv s acc \<Longrightarrow> observe_run s xs = (t, acc') \<Longrightarrow> liveness_inv t (acc @ acc')"
proof (induction xs arbitrary: s acc acc')
  case Nil
  then show ?case by simp
next
  case (Cons x xs)
  obtain ob cancel where x: "x = (ob, cancel)" by (cases x)
  obtain s' r where sr: "observe_cancellable s ob cancel = (s', r)" by force
  obtain acc2 where run: "observe_run s' xs = (t, acc2)" and acc': "acc' = (if is_ok r then ob # acc2 else acc2)"
    using Cons.prems(2) by (auto simp: x sr Let_def split: prod.splits)
  from Cons.IH [OF observe_step_inv [OF Cons.prems(1) sr] run] acc' show ?case
    by (auto split: if_splits)
qed

lemma observe_cancellable_frame:
  "observe_cancellable s ob cancel = (s', r) \<Longrightarrow>
     cs_config s' = cs_config s \<and> cs_action s' = cs_action s \<and>
     cs_issued_at_micros s' = cs_issued_at_micros s \<and> cs_deadline_micros s' = cs_deadline_micros s"
  by (auto simp: observe_cancellable_def Let_def split: if_splits sum.splits option.splits)

lemma observe_run_frame:
  "observe_run s xs = (t, acc) \<Longrightarrow>
     cs_config t = cs_config s \<and> cs_action t = cs_action s \<and>
     cs_issued_at_micros t = cs_issued_at_micros s \<and> cs_deadline_micros t = cs_deadline_micros s"
proof (induction xs arbitrary: s acc)
  case (Cons x xs)
  obtain ob cancel where x: "x = (ob, cancel)" by (cases x)
  obtain s' r where sr: "observe_cancellable s ob cancel = (s', r)" by force
  obtain acc2 where "observe_run s' xs = (t, acc2)"
    using Cons.prems by (auto simp: x sr Let_def split: prod.splits)
  from Cons.IH [OF this] observe_cancellable_frame [OF sr] show ?case by simp
qed simp

lemma observe_run_live:
  "observe_run s xs = (t, acc) \<Longrightarrow> ob \<in> set acc \<Longrightarrow> (ob, False) \<in> set xs"
proof (induction xs arbitrary: s acc)
  case (Cons x xs)
  obtain ob' cancel where x: "x = (ob', cancel)" by (cases x)
  obtain s' r where sr: "observe_cancellable s ob' cancel = (s', r)" by force
  obtain acc2 where run: "observe_run s' xs = (t, acc2)" and acc: "acc = (if is_ok r then ob' # acc2 else acc2)"
    using Cons.prems by (auto simp: x sr Let_def split: prod.splits)
  have "is_ok r \<Longrightarrow> \<not> cancel" using sr by (auto simp: observe_cancellable_def)
  with Cons.IH [OF run] Cons.prems(2) acc x show ?case by (auto split: if_splits)
qed simp

lemma with_action_ok:
  "challenge_with_action c issued a = Inr s \<Longrightarrow>
     cs_config s = c \<and> cs_action s = a \<and> cs_issued_at_micros s = issued \<and>
     unat (cs_deadline_micros s) = unat issued + unat (cc_duration_micros c) \<and> liveness_inv s []"
  by (auto simp: challenge_with_action_def result_simps checked_add_unat liveness_inv_def
      order_inv_def phase_inv_def)

lemma passed_run_evidence:
  assumes "challenge_with_action c issued a = Inr s0" and "observe_run s0 xs = (s, acc)"
    and "challenge_progress s = CP_Passed"
  shows "challenge_evidence c a acc \<and> sorted_wrt (<) (map obs_time acc) \<and>
    (\<forall>ob. ob \<in> set acc \<longrightarrow> observation_admissible c ob \<and> issued \<le> obs_time ob \<and>
       unat (obs_time ob) \<le> unat issued + unat (cc_duration_micros c) \<and> (ob, False) \<in> set xs) \<and>
    length acc \<le> unat (cc_max_observations c)"
proof -
  note init = with_action_ok [OF assms(1)]
  have "liveness_inv s acc" using observe_run_inv [of s0 "[]" xs s acc] init assms(2) by simp
  moreover have "cs_config s = c" "cs_action s = a" "cs_issued_at_micros s = issued"
      "cs_deadline_micros s = cs_deadline_micros s0"
    using observe_run_frame [OF assms(2)] init by simp_all
  moreover have "cs_phase s = PhasePassed"
    using assms(3) by (simp add: challenge_progress_def split: Phase.splits)
  ultimately show ?thesis
    using init observe_run_live [OF assms(2)]
    by (force simp: liveness_inv_def phase_inv_def order_inv_def word_le_nat_alt)
qed

text \<open>
  C14. A passed challenge saw the whole temporal sequence: whatever observations are fed in
  (malformed, repeated, cancelled ones included), when the session reports \<open>Passed\<close>, the
  observations it admitted contain a neutral baseline, later an unbroken run of the requested
  action of at least the configured number of frames and duration, later an unbroken neutral
  recovery; they were all taken in strictly increasing time between the issuing and the deadline,
  each a skew-bounded infrared and visible pair of exactly one face, within the frame budget, and
  none of them after a cancellation.
\<close>

theorem challenge_passed_evidence:
  assumes "challenge_with_action c issued a = Inr s0" and "observe_run s0 xs = (s, acc)"
    and "challenge_progress s = CP_Passed"
  shows "challenge_evidence c a acc \<and> sorted_wrt (<) (map obs_time acc) \<and>
    (\<forall>ob. ob \<in> set acc \<longrightarrow> observation_admissible c ob \<and> issued \<le> obs_time ob \<and>
       unat (obs_time ob) \<le> unat issued + unat (cc_duration_micros c) \<and> (ob, False) \<in> set xs) \<and>
    length acc \<le> unat (cc_max_observations c)"
  by (rule passed_run_evidence [OF assms])

lemma action_random_nat:
  assumes "n < 256"
  shows "action_random [Some (word_of_nat n)] =
    (if n < 255 then Some (Inr (if n mod 3 = 0 then Blink else if n mod 3 = 1 then TurnLeft else TurnRight))
     else None)"
proof -
  have u: "unat (word_of_nat n :: u8) = n" using assms by (simp add: unat_of_nat)
  have "word_of_nat n < (255 :: u8) \<longleftrightarrow> n < 255" by (simp add: word_less_nat_alt u)
  moreover have "unat (word_of_nat n mod (3 :: u8)) = n mod 3" by (simp add: unat_mod_distrib u)
  then have "word_of_nat n mod (3 :: u8) = 0 \<longleftrightarrow> n mod 3 = 0"
    "word_of_nat n mod (3 :: u8) = 1 \<longleftrightarrow> n mod 3 = 1"
    by (metis unat_eq_zero, metis unat_1 word_unat_eq_iff)
  ultimately show ?thesis by simp
qed

lemma filter_cong_set: "(\<And>x. x \<in> set xs \<Longrightarrow> P x = Q x) \<Longrightarrow> filter P xs = filter Q xs"
  by (rule filter_cong) auto

lemma upt_three: "[0..<Suc (Suc (Suc k))] = [0..<k] @ [k, Suc k, Suc (Suc k)]"
  by simp

lemma count_residue:
  assumes "k < 3"
  shows "length (filter (\<lambda>n. n mod 3 = k) [0..<3 * m]) = m"
proof (induction m)
  case (Suc m)
  have e: "3 * Suc m = Suc (Suc (Suc (3 * m)))" by simp
  have r: "(3 * m) mod 3 = 0" "Suc (3 * m) mod 3 = 1" "Suc (Suc (3 * m)) mod 3 = 2" by presburger+
  from assms consider "k = 0" | "k = 1" | "k = 2" by linarith
  then show ?case
    unfolding e upt_three filter_append length_append Suc.IH filter.simps r by cases simp_all
qed simp

definition residue_action :: "nat \<Rightarrow> ChallengeAction" where
  "residue_action k = (if k = 0 then Blink else if k = 1 then TurnLeft else TurnRight)"

lemma action_count:
  "length (filter (\<lambda>b. action_random [Some (word_of_nat b)] = Some (Inr (residue_action k))) [0..<256]) = 85"
  if "k < 3"
proof -
  have split: "[0..<256] = [0..<3 * 85] @ [255::nat]"
    using upt_Suc_append [of 0 255] by simp
  have "filter (\<lambda>b. action_random [Some (word_of_nat b)] = Some (Inr (residue_action k))) [0..<256] =
        filter (\<lambda>n. n < 255 \<and> n mod 3 = k) [0..<256]"
    using that by (intro filter_cong_set) (auto simp: action_random_nat residue_action_def simp del: action_random.simps split: if_splits)
  also have "\<dots> = filter (\<lambda>n. n mod 3 = k) [0..<3 * 85]"
    unfolding split filter_append by simp (rule filter_cong_set; auto)
  finally show ?thesis using count_residue [OF that, of 85] by simp
qed

text \<open>
  The requested action is uniform over the accepted random bytes: of the 256 byte values, 85
  lead to each action and the remaining one draws again.
\<close>

theorem challenge_action_uniform:
  "length (filter (\<lambda>b. action_random [Some (word_of_nat b)] = Some (Inr Blink)) [0..<256]) = 85 \<and>
   length (filter (\<lambda>b. action_random [Some (word_of_nat b)] = Some (Inr TurnLeft)) [0..<256]) = 85 \<and>
   length (filter (\<lambda>b. action_random [Some (word_of_nat b)] = Some (Inr TurnRight)) [0..<256]) = 85 \<and>
   action_random (Some 255 # rest) = action_random rest"
  using action_count [of 0] action_count [of 1] action_count [of 2] by (simp add: residue_action_def)

section \<open>Witness\<close>

text \<open>A blink challenge passed with five frames.\<close>

definition ex_challenge :: ChallengeConfig where
  "ex_challenge = \<lparr>cc_max_pair_skew_micros = 100, cc_duration_micros = 1000000,
     cc_max_observations = 10, cc_open_eye_threshold = Finite (1/2),
     cc_closed_eye_threshold = Finite (1/4), cc_neutral_yaw_degrees = Finite 10,
     cc_turn_yaw_degrees = Finite 20, cc_action_consecutive_observations = 2,
     cc_minimum_action_duration_micros = 20000, cc_recovery_consecutive_observations = 2\<rparr>"

definition ex_frame :: "u64 \<Rightarrow> u32 \<Rightarrow> rat \<Rightarrow> ChallengeObservation" where
  "ex_frame t n eye = \<lparr>co_timing = \<lparr>infrared_timestamp_micros = t, visible_timestamp_micros = Some t\<rparr>,
     co_infrared_sequence = n, co_visible_sequence = n, co_face_count = 1,
     co_eye_openness = Finite eye, co_yaw_degrees = Finite 0\<rparr>"

definition ex_frames :: "ChallengeObservation list" where
  "ex_frames = [ex_frame 1000 1 1, ex_frame 2000 2 0, ex_frame 30000 3 0, ex_frame 40000 4 1, ex_frame 50000 5 1]"

definition ex_session :: ChallengeSession where
  "ex_session = \<lparr>cs_config = ex_challenge, cs_action = Blink, cs_issued_at_micros = 0,
     cs_deadline_micros = 1000000, cs_observations = 0, cs_last_timestamp_micros = None,
     cs_last_sequences = None, cs_phase = Baseline, cs_action_streak = 0,
     cs_action_streak_started_at_micros = None, cs_recovery_streak = 0\<rparr>"

lemma ex_session_begin: "challenge_with_action ex_challenge 0 Blink = Inr ex_session"
  by (simp add: challenge_with_action_def challenge_config_validate_def ex_challenge_def ex_session_def
      checked_add_def in_range_def fp_in_def u16_of_def Let_def)

lemmas ex_observe = observe_cancellable_def observation_validate_def observation_timestamp_def
  capture_accepts_def capture_validate_def observe_admitted_def observe_action_def
  observe_recovery_def observation_neutral_def action_observed_def action_matches_def
  ex_challenge_def ex_frame_def checked_add_def saturating_add_def saturating_sub_def
  fp_in_def Let_def challenge_progress_def

lemma ex_run:
  "cs_phase (fst (observe_run ex_session (map (\<lambda>f. (f, False)) ex_frames))) = PhasePassed \<and>
   snd (observe_run ex_session (map (\<lambda>f. (f, False)) ex_frames)) = ex_frames"
proof -
  have "\<not> (2 :: u8) \<le> 1" by (simp add: word_le_nat_alt)
  then show ?thesis by (simp add: ex_frames_def ex_session_def ex_observe)
qed

theorem challenge_passed_evidence_witness:
  "challenge_evidence ex_challenge Blink ex_frames"
proof -
  let ?r = "observe_run ex_session (map (\<lambda>f. (f, False)) ex_frames)"
  have "challenge_progress (fst ?r) = CP_Passed" using ex_run by (simp add: challenge_progress_def)
  from challenge_passed_evidence [OF ex_session_begin prod.collapse [symmetric] this] ex_run
  show ?thesis by simp
qed

end
