(* ===== verification/Presence.thy ===== *)
theory Presence
  imports Prelude
begin

text \<open>
  \<open>crates/faceauth-presence/src/lib.rs\<close>: the presence cache and the reference-counted registry of
  capture activity. A mutex is its value and whether a panic poisoned it; leases are the live
  scoped guards, each dropped once by its owner.
\<close>

record 'a Mutex =
  mx_value :: 'a
  mx_poisoned :: bool

record PresenceSnapshot =
  ps_available :: bool
  ps_present :: bool
  ps_raw_value :: i32
  ps_observed_at_micros :: u64

datatype PresenceError =
  PE_Dbus
| PE_InvalidState
| PE_StaleObservation
| PE_InvalidFreshness
| PE_ClockRollback
| PE_StatePoisoned
| PE_InvalidActivity
| PE_ActivityOverflow

definition mutex_lock :: "'a Mutex \<Rightarrow> PresenceError + 'a" where
  "mutex_lock m = (if mx_poisoned m then Inl PE_StatePoisoned else Inr (mx_value m))"

section \<open>Presence cache\<close>

definition snapshot_validate :: "PresenceSnapshot \<Rightarrow> PresenceError + unit" where
  "snapshot_validate s =
     (if \<not> (- 1000000 \<le> sint (ps_raw_value s) \<and> sint (ps_raw_value s) \<le> 1000000)
      then Inl PE_InvalidState else Inr ())"

text \<open>The reply of \<open>GetState\<close> on the system bus is an argument.\<close>

definition get_state :: "(PresenceError + bool \<times> bool \<times> i32) \<Rightarrow> u64 \<Rightarrow> PresenceError + PresenceSnapshot" where
  "get_state reply now = try_bind reply (\<lambda>(a, p, raw).
     let s = \<lparr>ps_available = a, ps_present = p, ps_raw_value = raw, ps_observed_at_micros = now\<rparr> in
     try_bind (snapshot_validate s) (\<lambda>_. Inr s))"

type_synonym PresenceCache = "PresenceSnapshot option Mutex"

definition cache_update :: "PresenceCache \<Rightarrow> PresenceSnapshot \<Rightarrow> PresenceCache \<times> (PresenceError + unit)" where
  "cache_update c s =
     (case try_bind (snapshot_validate s) (\<lambda>_. mutex_lock c) of
        Inl e \<Rightarrow> (c, Inl e)
      | Inr state \<Rightarrow>
          if (case state of None \<Rightarrow> False
              | Some prev \<Rightarrow> ps_observed_at_micros s \<le> ps_observed_at_micros prev)
          then (c, Inl PE_StaleObservation)
          else (c\<lparr>mx_value := Some s\<rparr>, Inr ()))"

definition cache_clear :: "PresenceCache \<Rightarrow> PresenceCache \<times> (PresenceError + unit)" where
  "cache_clear c =
     (case mutex_lock c of Inl e \<Rightarrow> (c, Inl e) | Inr _ \<Rightarrow> (c\<lparr>mx_value := None\<rparr>, Inr ()))"

definition should_prewarm :: "PresenceCache \<Rightarrow> u64 \<Rightarrow> u64 \<Rightarrow> PresenceError + bool" where
  "should_prewarm c now maximum_age =
     (if maximum_age = 0 \<or> maximum_age > 60000000 then Inl PE_InvalidFreshness
      else try_bind (mutex_lock c) (\<lambda>state.
        case state of None \<Rightarrow> Inr False
        | Some s \<Rightarrow>
            try_bind (ok_or (checked_sub now (ps_observed_at_micros s)) PE_ClockRollback) (\<lambda>age.
            Inr (ps_available s \<and> ps_present s \<and> age \<le> maximum_age))))"

section \<open>Capture activity\<close>

datatype CaptureActivity = Idle | Authentication | Enrollment

record ActivityCounts =
  ac_authentication :: nat
  ac_enrollment :: nat

type_synonym CaptureActivityRegistry = "ActivityCounts Mutex"

definition activity_acquire ::
  "CaptureActivityRegistry \<Rightarrow> CaptureActivity \<Rightarrow> CaptureActivityRegistry \<times> (PresenceError + CaptureActivity)" where
  "activity_acquire r a =
     (if a = Idle then (r, Inl PE_InvalidActivity)
      else case mutex_lock r of Inl e \<Rightarrow> (r, Inl e)
      | Inr counts \<Rightarrow>
          (case a of
             Authentication \<Rightarrow>
               (case usize_checked_add (ac_authentication counts) 1 of
                  None \<Rightarrow> (r, Inl PE_ActivityOverflow)
                | Some n \<Rightarrow> (r\<lparr>mx_value := counts\<lparr>ac_authentication := n\<rparr>\<rparr>, Inr a))
           | Enrollment \<Rightarrow>
               (case usize_checked_add (ac_enrollment counts) 1 of
                  None \<Rightarrow> (r, Inl PE_ActivityOverflow)
                | Some n \<Rightarrow> (r\<lparr>mx_value := counts\<lparr>ac_enrollment := n\<rparr>\<rparr>, Inr a))
           | Idle \<Rightarrow> (r, Inl PE_InvalidActivity)))"

definition activity_current :: "CaptureActivityRegistry \<Rightarrow> PresenceError + CaptureActivity" where
  "activity_current r = try_bind (mutex_lock r) (\<lambda>counts.
     Inr (if ac_enrollment counts > 0 then Enrollment
          else if ac_authentication counts > 0 then Authentication else Idle))"

text \<open>\<open>Drop for CaptureActivityLease\<close>; natural subtraction saturates as \<open>saturating_sub\<close> does.\<close>

definition lease_drop :: "CaptureActivityRegistry \<Rightarrow> CaptureActivity \<Rightarrow> CaptureActivityRegistry" where
  "lease_drop r a =
     (case mutex_lock r of Inl _ \<Rightarrow> r
      | Inr counts \<Rightarrow>
          (case a of
             Authentication \<Rightarrow> r\<lparr>mx_value := counts\<lparr>ac_authentication := ac_authentication counts - 1\<rparr>\<rparr>
           | Enrollment \<Rightarrow> r\<lparr>mx_value := counts\<lparr>ac_enrollment := ac_enrollment counts - 1\<rparr>\<rparr>
           | Idle \<Rightarrow> r))"

section \<open>Leases over time\<close>

text \<open>
  The registry together with the live leases, in order of acquisition; \<open>DropLease i\<close> drops the
  \<open>i\<close>-th live one (an index past the end names no lease and does nothing).
\<close>

datatype lease_op = Acquire CaptureActivity | DropLease nat

fun lease_step ::
  "CaptureActivityRegistry \<times> CaptureActivity list \<Rightarrow> lease_op \<Rightarrow> CaptureActivityRegistry \<times> CaptureActivity list" where
  "lease_step (r, live) (Acquire a) =
     (case activity_acquire r a of (r', Inl _) \<Rightarrow> (r', live) | (r', Inr l) \<Rightarrow> (r', live @ [l]))"
| "lease_step (r, live) (DropLease i) =
     (if i < length live then (lease_drop r (live ! i), take i live @ drop (Suc i) live) else (r, live))"

definition registry_default :: CaptureActivityRegistry where
  "registry_default = \<lparr>mx_value = \<lparr>ac_authentication = 0, ac_enrollment = 0\<rparr>, mx_poisoned = False\<rparr>"

definition lease_inv :: "CaptureActivityRegistry \<times> CaptureActivity list \<Rightarrow> bool" where
  "lease_inv w \<longleftrightarrow> (case w of (r, live) \<Rightarrow>
     \<not> mx_poisoned r \<and> Idle \<notin> set live \<and>
     ac_authentication (mx_value r) = count_list live Authentication \<and>
     ac_enrollment (mx_value r) = count_list live Enrollment)"

lemma count_list_remove:
  "i < length xs \<Longrightarrow>
     count_list (take i xs @ drop (Suc i) xs) y = count_list xs y - (if xs ! i = y then 1 else 0)"
proof -
  assume i: "i < length xs"
  have "count_list xs y = count_list (take i xs @ xs ! i # drop (Suc i) xs) y"
    using id_take_nth_drop [OF i] by simp
  then show ?thesis by simp
qed

lemma count_list_pos: "0 < count_list xs y \<longleftrightarrow> y \<in> set xs"
  using count_list_0_iff [of xs y] by (cases "count_list xs y") auto

lemma lease_step_inv: "lease_inv w \<Longrightarrow> lease_inv (lease_step w x)"
proof (cases x)
  case (Acquire a)
  moreover assume "lease_inv w"
  ultimately show ?thesis
    by (cases w; cases a)
       (auto simp: lease_inv_def activity_acquire_def mutex_lock_def usize_checked_add_def)
next
  case (DropLease i)
  assume inv: "lease_inv w"
  obtain r live where w: "w = (r, live)" by (cases w)
  show ?thesis
  proof (cases "i < length live")
    case True
    have sub: "set (take i live @ drop (Suc i) live) \<subseteq> set live"
      using set_take_subset [of i live] set_drop_subset [of "Suc i" live] by auto
    from inv True w have "live ! i \<noteq> Idle" by (auto simp: lease_inv_def dest: nth_mem)
    with inv True sub show ?thesis
      unfolding w DropLease lease_inv_def
      by (cases "live ! i")
         (auto simp: lease_drop_def mutex_lock_def count_list_remove simp del: count_list_append)
  next
    case False
    with inv show ?thesis by (simp add: w DropLease)
  qed
qed

lemma lease_run_inv: "lease_inv w \<Longrightarrow> lease_inv (foldl lease_step w ops)"
  by (induction ops arbitrary: w) (auto simp: lease_step_inv)

text \<open>
  The activity shown to the desktop is the activity of the live leases: after any sequence of
  acquisitions and drops from an empty registry, \<open>current\<close> is \<open>Enrollment\<close> exactly while an
  enrollment lease is live, otherwise \<open>Authentication\<close> exactly while an authentication lease is,
  otherwise \<open>Idle\<close>; no reference count is lost or left behind.
\<close>

theorem activity_matches_leases:
  assumes "foldl lease_step (registry_default, []) ops = (r, live)"
  shows "activity_current r = Inr (if Enrollment \<in> set live then Enrollment
           else if Authentication \<in> set live then Authentication else Idle)"
proof -
  have "lease_inv (registry_default, [])" by (simp add: lease_inv_def registry_default_def)
  from lease_run_inv [OF this, of ops] assms have "lease_inv (r, live)" by simp
  then show ?thesis
    by (simp add: lease_inv_def activity_current_def mutex_lock_def count_list_pos)
qed

theorem activity_matches_leases_witness:
  "activity_current (fst (foldl lease_step (registry_default, [])
     [Acquire Enrollment, Acquire Authentication, DropLease 0])) = Inr Authentication"
proof -
  let ?w = "foldl lease_step (registry_default, []) [Acquire Enrollment, Acquire Authentication, DropLease 0]"
  have "snd ?w = [Authentication]"
    by (simp add: registry_default_def activity_acquire_def mutex_lock_def usize_checked_add_def lease_drop_def)
  with activity_matches_leases [OF prod.collapse [of ?w, symmetric]] show ?thesis by simp
qed

text \<open>
  A cached snapshot only ever advances: an update that is accepted is newer than what it replaces,
  and a refused one leaves the cache as it was.
\<close>

lemma cache_update_monotone:
  "cache_update c s = (c', r) \<Longrightarrow>
     (case r of
        Inl _ \<Rightarrow> c' = c
      | Inr _ \<Rightarrow> mx_value c' = Some s \<and>
          (\<forall>p. mx_value c = Some p \<longrightarrow> ps_observed_at_micros p < ps_observed_at_micros s))"
  by (auto simp: cache_update_def mutex_lock_def not_le result_simps split: sum.splits if_splits option.splits)

lemma should_prewarm_fresh:
  "should_prewarm c now age = Inr True \<Longrightarrow>
     \<exists>s. mx_value c = Some s \<and> ps_available s \<and> ps_present s \<and>
       unat now \<le> unat (ps_observed_at_micros s) + unat age \<and> ps_observed_at_micros s \<le> now"
  by (auto simp: should_prewarm_def mutex_lock_def result_simps checked_sub_Some word_le_nat_alt unat_sub_le
      split: if_splits option.splits)

end
