(* ===== verification/Camera.thy ===== *)
theory Camera
  imports Prelude "HOL-Library.List_Lexorder" "HOL-Library.Char_ord"
begin

text \<open>
  \<open>crates/faceauth-camera/src/lib.rs\<close>: the camera inventory and the resolution of the two
  configured selectors. A path is its list of components. udev's answers are arguments.
\<close>

record UsbIdentity =
  usb_vendor_id :: string
  usb_product_id :: string
  usb_serial :: "string option"

record CameraDevice =
  cd_node :: "string list"
  cd_name :: string
  cd_usb :: "UsbIdentity option"
  cd_physical_path :: "string option"
  cd_capture_capable :: bool

record CameraSelector =
  sel_vendor_id :: string
  sel_product_id :: string
  sel_serial :: "string option"
  sel_physical_path :: "string option"

record CameraPairSelector =
  cps_infrared :: CameraSelector
  cps_visible :: CameraSelector

datatype CameraRole = RoleInfrared | RoleVisible

record ResolvedCameraPair =
  rcp_infrared :: CameraDevice
  rcp_visible :: CameraDevice

datatype SelectionError =
  SEL_NotFound CameraRole
| SEL_Ambiguous CameraRole nat
| SEL_SameDevice

definition ascii_lower :: "char \<Rightarrow> char" where
  "ascii_lower c = (let n = (of_char c :: nat) in if 65 \<le> n \<and> n \<le> 90 then char_of (n + 32) else c)"

definition eq_ignore_ascii_case :: "string \<Rightarrow> string \<Rightarrow> bool" where
  "eq_ignore_ascii_case a b = (map ascii_lower a = map ascii_lower b)"

text \<open>\<open>Option::is_none_or(|expected| actual == Some(expected))\<close>.\<close>

definition unconstrained_or :: "'a option \<Rightarrow> 'a option \<Rightarrow> bool" where
  "unconstrained_or expected actual = (case expected of None \<Rightarrow> True | Some e \<Rightarrow> actual = Some e)"

definition device_matches :: "CameraDevice \<Rightarrow> CameraSelector \<Rightarrow> bool" where
  "device_matches d s =
     (case cd_usb d of None \<Rightarrow> False
      | Some usb \<Rightarrow>
          eq_ignore_ascii_case (usb_vendor_id usb) (sel_vendor_id s) \<and>
          eq_ignore_ascii_case (usb_product_id usb) (sel_product_id s) \<and>
          unconstrained_or (sel_serial s) (usb_serial usb) \<and>
          unconstrained_or (sel_physical_path s) (cd_physical_path d))"

definition device_selector :: "CameraDevice \<Rightarrow> CameraSelector option" where
  "device_selector d = map_option (\<lambda>usb.
     \<lparr>sel_vendor_id = usb_vendor_id usb, sel_product_id = usb_product_id usb,
      sel_serial = usb_serial usb, sel_physical_path = cd_physical_path d\<rparr>) (cd_usb d)"

definition resolve_one :: "CameraDevice list \<Rightarrow> CameraSelector \<Rightarrow> CameraRole \<Rightarrow> SelectionError + CameraDevice" where
  "resolve_one devices s role =
     (let matches = filter (\<lambda>d. cd_capture_capable d \<and> device_matches d s) devices in
      case matches of
        [] \<Rightarrow> Inl (SEL_NotFound role)
      | [d] \<Rightarrow> Inr d
      | _ \<Rightarrow> Inl (SEL_Ambiguous role (length matches)))"

definition resolve_pair :: "CameraDevice list \<Rightarrow> CameraPairSelector \<Rightarrow> SelectionError + ResolvedCameraPair" where
  "resolve_pair devices s =
     try_bind (resolve_one devices (cps_infrared s) RoleInfrared) (\<lambda>i.
     try_bind (resolve_one devices (cps_visible s) RoleVisible) (\<lambda>v.
     if cd_node i = cd_node v then Inl SEL_SameDevice
     else Inr \<lparr>rcp_infrared = i, rcp_visible = v\<rparr>))"

text \<open>What udev reports of one device; an attribute that is not UTF-8 is absent, as in the code.\<close>

record UdevDevice =
  ud_devnode :: "string list option"
  ud_name :: "string option"
  ud_property :: "string \<Rightarrow> string option"

definition camera_from_udev :: "UdevDevice \<Rightarrow> CameraDevice option" where
  "camera_from_udev u =
     (case ud_devnode u of None \<Rightarrow> None
      | Some node \<Rightarrow>
          let usb = (case (ud_property u ''ID_VENDOR_ID'', ud_property u ''ID_MODEL_ID'') of
                       (Some v, Some p) \<Rightarrow>
                         Some \<lparr>usb_vendor_id = v, usb_product_id = p,
                           usb_serial = (case ud_property u ''ID_SERIAL_SHORT'' of
                             Some s \<Rightarrow> Some s | None \<Rightarrow> ud_property u ''ID_SERIAL'')\<rparr>
                     | _ \<Rightarrow> None);
              capabilities = (case ud_property u ''ID_V4L_CAPABILITIES'' of None \<Rightarrow> [] | Some c \<Rightarrow> c)
          in Some \<lparr>cd_node = node,
                   cd_name = (case ud_name u of None \<Rightarrow> ''unknown video device'' | Some n \<Rightarrow> n),
                   cd_usb = usb, cd_physical_path = ud_property u ''ID_PATH'',
                   cd_capture_capable = (''capture'' \<in> set (split_at (CHR '':'') capabilities))\<rparr>)"

definition discover :: "IoError + UdevDevice list \<Rightarrow> IoError + CameraDevice list" where
  "discover scan = try_bind scan (\<lambda>us. Inr (sort_key cd_node (List.map_filter camera_from_udev us)))"

section \<open>Properties\<close>

lemma resolve_one_ok:
  "resolve_one devices s role = Inr d \<longleftrightarrow>
     filter (\<lambda>d. cd_capture_capable d \<and> device_matches d s) devices = [d]"
  by (auto simp: resolve_one_def Let_def split: list.splits)

lemma unconstrained_or_self [simp]: "unconstrained_or x x"
  by (simp add: unconstrained_or_def split: option.splits)

text \<open>
  A resolved camera pair is unambiguous: the pair is returned exactly when, of the inventory,
  one single capture-capable device matches the infrared selector, one single one matches the
  visible selector, and their nodes differ; the pair holds those two.
\<close>

theorem resolve_pair_exact:
  "resolve_pair devices s = Inr p \<longleftrightarrow>
     filter (\<lambda>d. cd_capture_capable d \<and> device_matches d (cps_infrared s)) devices = [rcp_infrared p] \<and>
     filter (\<lambda>d. cd_capture_capable d \<and> device_matches d (cps_visible s)) devices = [rcp_visible p] \<and>
     cd_node (rcp_infrared p) \<noteq> cd_node (rcp_visible p)"
  by (cases p) (auto simp: resolve_pair_def result_simps resolve_one_ok)

text \<open>
  The selector a device produces matches that device: storing the persistent selector of a
  capture-capable USB camera and resolving it in an inventory that holds the device finds it, or
  reports an ambiguity, never that it is missing.
\<close>

theorem selector_roundtrip:
  assumes "device_selector d = Some s" and "cd_capture_capable d" and "d \<in> set devices"
  shows "device_matches d s \<and>
    (resolve_one devices s role = Inr d \<or>
     (\<exists>n. resolve_one devices s role = Inl (SEL_Ambiguous role n) \<and> 2 \<le> n))"
proof -
  have m: "device_matches d s"
    using assms(1) by (auto simp: device_selector_def device_matches_def eq_ignore_ascii_case_def)
  let ?f = "filter (\<lambda>d. cd_capture_capable d \<and> device_matches d s) devices"
  have "d \<in> set ?f" using assms m by simp
  then show ?thesis using m
    by (cases ?f; cases "tl ?f") (auto simp: resolve_one_def Let_def)
qed

theorem selector_roundtrip_witness:
  "device_matches \<lparr>cd_node = [''dev'', ''video0''], cd_name = ''ir'',
      cd_usb = Some \<lparr>usb_vendor_id = ''04f2'', usb_product_id = ''b769'', usb_serial = None\<rparr>,
      cd_physical_path = None, cd_capture_capable = True\<rparr>
    \<lparr>sel_vendor_id = ''04f2'', sel_product_id = ''b769'', sel_serial = None, sel_physical_path = None\<rparr>"
proof -
  let ?d = "\<lparr>cd_node = [''dev'', ''video0''], cd_name = ''ir'',
      cd_usb = Some \<lparr>usb_vendor_id = ''04f2'', usb_product_id = ''b769'', usb_serial = None\<rparr>,
      cd_physical_path = None, cd_capture_capable = True\<rparr>"
  have "device_selector ?d = Some \<lparr>sel_vendor_id = ''04f2'', sel_product_id = ''b769'',
      sel_serial = None, sel_physical_path = None\<rparr>" "cd_capture_capable ?d" "?d \<in> set [?d]"
    by (simp_all add: device_selector_def)
  from selector_roundtrip [OF this] show ?thesis by blast
qed

lemma discover_sorted: "discover scan = Inr ds \<Longrightarrow> sorted (map cd_node ds)"
  by (auto simp: discover_def result_simps)

end
