(* ===== verification/Capture.thy ===== *)
theory Capture
  imports CorePolicy
begin

text \<open>
  \<open>crates/faceauth-capture/src/lib.rs\<close>: capture specifications, negotiation, the frame checks of a
  V4L2 stream and the pairing of infrared and visible frames. The trait \<open>FrameSource\<close> is a state
  and a function that returns the next state and frame; the cancellation callback is asked with the
  number of its earlier calls. The answers of V4L2 are arguments.
\<close>

datatype PixelFormat = Gray8 | Yuyv | Mjpeg

fun fourcc :: "PixelFormat \<Rightarrow> string" where
  "fourcc Gray8 = ''GREY''"
| "fourcc Yuyv = ''YUYV''"
| "fourcc Mjpeg = ''MJPG''"

record CaptureSpec =
  sp_width :: u32
  sp_height :: u32
  sp_pixel_format :: PixelFormat
  sp_frames_per_second :: u32
  sp_buffer_count :: u32
  sp_warmup_frames :: u8
  sp_frame_timeout_millis :: u32
  sp_max_frame_bytes :: nat

record NegotiatedFormat =
  nf_width :: u32
  nf_height :: u32
  nf_pixel_format :: PixelFormat
  nf_frames_per_second :: u32

record FrameSummary =
  fs_modality :: CaptureModality
  fs_timestamp_micros :: u64
  fs_sequence :: u32
  fs_bytes :: nat
  fs_format :: NegotiatedFormat

record CapturedFrame =
  cf_summary :: FrameSummary
  cf_data :: "u8 list"

record PairedFrames =
  pf_infrared :: CapturedFrame
  pf_visible :: CapturedFrame

record PairingPolicy =
  pp_max_skew_micros :: u64
  pp_max_replacements :: u8

datatype CaptureError =
  CAP_InvalidSpec
| CAP_Cancelled
| CAP_NegotiatedFormatMismatch
| CAP_NegotiatedFrameRateMismatch
| CAP_FrameTimeout
| CAP_CorruptFrame
| CAP_NonMonotonicTimestamp
| CAP_FrameSizeInvalid
| CAP_InvalidTimestamp
| CAP_WrongModality CaptureModality CaptureModality
| CAP_PairingBudgetExhausted u64
| CAP_Io IoError

section \<open>Specifications and negotiation\<close>

definition spec_validate :: "CaptureSpec \<Rightarrow> CaptureModality \<Rightarrow> CaptureError + unit" where
  "spec_validate s modality =
     (let valid_format = (case modality of
            Infrared \<Rightarrow> sp_pixel_format s = Gray8
          | Visible \<Rightarrow> sp_pixel_format s = Yuyv \<or> sp_pixel_format s = Mjpeg)
      in if sp_width s = 0 \<or> sp_height s = 0 \<or> sp_frames_per_second s = 0
            \<or> \<not> in_range 2 16 (sp_buffer_count s) \<or> sp_warmup_frames s > 30
            \<or> sp_frame_timeout_millis s = 0 \<or> sp_max_frame_bytes s = 0 \<or> \<not> valid_format
         then Inl CAP_InvalidSpec else Inr ())"

definition paired_timing :: "PairedFrames \<Rightarrow> CapturePair" where
  "paired_timing p =
     \<lparr>infrared_timestamp_micros = fs_timestamp_micros (cf_summary (pf_infrared p)),
      visible_timestamp_micros = Some (fs_timestamp_micros (cf_summary (pf_visible p)))\<rparr>"

definition pairing_validate :: "PairingPolicy \<Rightarrow> CaptureError + unit" where
  "pairing_validate p =
     (if pp_max_skew_micros p = 0 \<or> pp_max_replacements p = 0 then Inl CAP_InvalidSpec else Inr ())"

text \<open>V4L2's answers to opening the node, setting the format and setting the interval.\<close>

record V4l2Format =
  vf_width :: u32
  vf_height :: u32
  vf_fourcc :: string

definition u64_of :: "u32 \<Rightarrow> u64" where
  "u64_of w = ucast w"

definition device_open ::
  "CaptureModality \<Rightarrow> CaptureSpec \<Rightarrow> IoError + unit \<Rightarrow> IoError + V4l2Format \<Rightarrow> IoError + unit \<Rightarrow>
   IoError + u32 \<times> u32 \<Rightarrow> CaptureError + NegotiatedFormat" where
  "device_open modality spec opened set_format get_params set_params =
     try_bind (spec_validate spec modality) (\<lambda>_.
     try_bind (map_err CAP_Io opened) (\<lambda>_.
     try_bind (map_err CAP_Io set_format) (\<lambda>actual.
     if vf_width actual \<noteq> sp_width spec \<or> vf_height actual \<noteq> sp_height spec
        \<or> vf_fourcc actual \<noteq> fourcc (sp_pixel_format spec)
     then Inl CAP_NegotiatedFormatMismatch
     else
     try_bind (map_err CAP_Io get_params) (\<lambda>_.
     try_bind (map_err CAP_Io set_params) (\<lambda>(numerator32, denominator32).
     let numerator = u64_of numerator32; denominator = u64_of denominator32 in
     if numerator = 0 then Inl CAP_NegotiatedFrameRateMismatch
     else try_bind (ok_or (checked_mul numerator (u64_of (sp_frames_per_second spec))) CAP_InvalidSpec) (\<lambda>expected.
     if denominator \<noteq> expected then Inl CAP_NegotiatedFrameRateMismatch
     else Inr \<lparr>nf_width = vf_width actual, nf_height = vf_height actual,
               nf_pixel_format = sp_pixel_format spec,
               nf_frames_per_second = sp_frames_per_second spec\<rparr>))))))"

section \<open>Frames\<close>

definition timestamp_micros :: "i64 \<Rightarrow> i64 \<Rightarrow> CaptureError + u64" where
  "timestamp_micros sec usec =
     (if sint sec < 0 then Inl CAP_InvalidTimestamp
      else if sint usec < 0 then Inl CAP_InvalidTimestamp
      else let seconds = (sec :: u64); microseconds = (usec :: u64) in
      if microseconds \<ge> 1000000 then Inl CAP_InvalidTimestamp
      else (case checked_mul seconds 1000000 of None \<Rightarrow> Inl CAP_InvalidTimestamp
            | Some v \<Rightarrow> ok_or (checked_add v microseconds) CAP_InvalidTimestamp))"

text \<open>One dequeued V4L2 buffer with its metadata.\<close>

record BufferMeta =
  bm_error :: bool
  bm_monotonic :: bool
  bm_bytesused :: u32
  bm_sec :: i64
  bm_usec :: i64
  bm_sequence :: u32

definition v4l2_next_frame ::
  "CaptureModality \<Rightarrow> NegotiatedFormat \<Rightarrow> nat \<Rightarrow> IoError + u8 list \<times> BufferMeta \<Rightarrow> CaptureError + CapturedFrame" where
  "v4l2_next_frame modality negotiated max_frame_bytes dequeued =
     try_bind (map_err (\<lambda>e. if e = IoTimedOut then CAP_FrameTimeout else CAP_Io e) dequeued) (\<lambda>(buffer, meta).
     if bm_error meta then Inl CAP_CorruptFrame
     else if \<not> bm_monotonic meta then Inl CAP_NonMonotonicTimestamp
     else let bytes_used = unat (bm_bytesused meta) in
     if bytes_used = 0 \<or> bytes_used > length buffer \<or> bytes_used > max_frame_bytes
       then Inl CAP_FrameSizeInvalid
     else try_bind (timestamp_micros (bm_sec meta) (bm_usec meta)) (\<lambda>t.
     Inr \<lparr>cf_summary = \<lparr>fs_modality = modality, fs_timestamp_micros = t, fs_sequence = bm_sequence meta,
                        fs_bytes = bytes_used, fs_format = negotiated\<rparr>,
          cf_data = take bytes_used buffer\<rparr>))"

text \<open>
  \<open>V4l2CaptureDevice::stream\<close> discards the warmup frames; the stream is a frame source.
\<close>

fun stream_warmup :: "('s \<Rightarrow> 's \<times> (CaptureError + CapturedFrame)) \<Rightarrow> nat \<Rightarrow> 's \<Rightarrow> 's \<times> (CaptureError + unit)" where
  "stream_warmup next_frame 0 s = (s, Inr ())"
| "stream_warmup next_frame (Suc n) s =
     (case next_frame s of (s', Inl e) \<Rightarrow> (s', Inl e) | (s', Inr _) \<Rightarrow> stream_warmup next_frame n s')"

section \<open>Pairing\<close>

definition ensure_modality :: "CapturedFrame \<Rightarrow> CaptureModality \<Rightarrow> CaptureError + unit" where
  "ensure_modality f expected =
     (if fs_modality (cf_summary f) = expected then Inr ()
      else Inl (CAP_WrongModality expected (fs_modality (cf_summary f))))"

abbreviation frame_time :: "CapturedFrame \<Rightarrow> u64" where
  "frame_time f \<equiv> fs_timestamp_micros (cf_summary f)"

text \<open>
  The state of a pairing: the two sources, the number of polls of the cancellation callback and the
  number of frames read so far (the last is only counted, never tested).
\<close>

record ('i, 'v) pairing =
  pr_infrared :: 'i
  pr_visible :: 'v
  pr_polls :: nat
  pr_reads :: nat

type_synonym ('i, 'v, 'a) capturing = "('i, 'v) pairing \<Rightarrow> ('i, 'v) pairing \<times> (CaptureError + 'a)"

definition cap_bind :: "('i, 'v, 'a) capturing \<Rightarrow> ('a \<Rightarrow> ('i, 'v, 'b) capturing) \<Rightarrow> ('i, 'v, 'b) capturing" where
  "cap_bind m f w = (case m w of (w', Inl e) \<Rightarrow> (w', Inl e) | (w', Inr x) \<Rightarrow> f x w')"

definition cap_result :: "CaptureError + 'a \<Rightarrow> ('i, 'v, 'a) capturing" where
  "cap_result r w = (w, r)"

definition check_cancelled :: "(nat \<Rightarrow> bool) \<Rightarrow> ('i, 'v, unit) capturing" where
  "check_cancelled should_cancel w =
     (w\<lparr>pr_polls := Suc (pr_polls w)\<rparr>,
      if should_cancel (pr_polls w) then Inl CAP_Cancelled else Inr ())"

definition read_infrared ::
  "('i \<Rightarrow> 'i \<times> (CaptureError + CapturedFrame)) \<Rightarrow> ('i, 'v, CapturedFrame) capturing" where
  "read_infrared next_frame w = (let (s, r) = next_frame (pr_infrared w) in
     (w\<lparr>pr_infrared := s, pr_reads := Suc (pr_reads w)\<rparr>, r))"

definition read_visible ::
  "('v \<Rightarrow> 'v \<times> (CaptureError + CapturedFrame)) \<Rightarrow> ('i, 'v, CapturedFrame) capturing" where
  "read_visible next_frame w = (let (s, r) = next_frame (pr_visible w) in
     (w\<lparr>pr_visible := s, pr_reads := Suc (pr_reads w)\<rparr>, r))"

text \<open>
  The loop \<open>for replacement in 0..=max_replacements\<close>; the first argument is the number of
  replacements left, so \<open>0\<close> is the iteration with \<open>replacement == max_replacements\<close>.
\<close>

fun pair_loop ::
  "nat \<Rightarrow> ('i \<Rightarrow> 'i \<times> (CaptureError + CapturedFrame)) \<Rightarrow> ('v \<Rightarrow> 'v \<times> (CaptureError + CapturedFrame)) \<Rightarrow>
   u64 \<Rightarrow> (nat \<Rightarrow> bool) \<Rightarrow> CapturedFrame \<Rightarrow> CapturedFrame \<Rightarrow> ('i, 'v, PairedFrames) capturing" where
  "pair_loop left nir nvis max_skew cancel ir vis =
     cap_bind (check_cancelled cancel) (\<lambda>_.
     let skew = abs_diff (frame_time ir) (frame_time vis) in
     if skew \<le> max_skew then cap_result (Inr \<lparr>pf_infrared = ir, pf_visible = vis\<rparr>)
     else (case left of
         0 \<Rightarrow> cap_result (Inl (CAP_PairingBudgetExhausted skew))
       | Suc left' \<Rightarrow>
          cap_bind (check_cancelled cancel) (\<lambda>_.
          if frame_time ir < frame_time vis
          then cap_bind (read_infrared nir) (\<lambda>ir'.
               cap_bind (cap_result (ensure_modality ir' Infrared)) (\<lambda>_.
               pair_loop left' nir nvis max_skew cancel ir' vis))
          else cap_bind (read_visible nvis) (\<lambda>vis'.
               cap_bind (cap_result (ensure_modality vis' Visible)) (\<lambda>_.
               pair_loop left' nir nvis max_skew cancel ir vis')))))"

definition capture_pair_cancellable ::
  "('i \<Rightarrow> 'i \<times> (CaptureError + CapturedFrame)) \<Rightarrow> ('v \<Rightarrow> 'v \<times> (CaptureError + CapturedFrame)) \<Rightarrow>
   PairingPolicy \<Rightarrow> (nat \<Rightarrow> bool) \<Rightarrow> ('i, 'v, PairedFrames) capturing" where
  "capture_pair_cancellable nir nvis policy cancel =
     cap_bind (cap_result (pairing_validate policy)) (\<lambda>_.
     cap_bind (check_cancelled cancel) (\<lambda>_.
     cap_bind (read_infrared nir) (\<lambda>ir.
     cap_bind (check_cancelled cancel) (\<lambda>_.
     cap_bind (read_visible nvis) (\<lambda>vis.
     cap_bind (cap_result (ensure_modality ir Infrared)) (\<lambda>_.
     cap_bind (cap_result (ensure_modality vis Visible)) (\<lambda>_.
     pair_loop (unat (pp_max_replacements policy)) nir nvis (pp_max_skew_micros policy) cancel ir vis)))))))"

definition capture_pair ::
  "('i \<Rightarrow> 'i \<times> (CaptureError + CapturedFrame)) \<Rightarrow> ('v \<Rightarrow> 'v \<times> (CaptureError + CapturedFrame)) \<Rightarrow>
   PairingPolicy \<Rightarrow> ('i, 'v, PairedFrames) capturing" where
  "capture_pair nir nvis policy = capture_pair_cancellable nir nvis policy (\<lambda>_. False)"

declare pair_loop.simps [simp del]

section \<open>Properties\<close>

lemma cap_bind_ok:
  "cap_bind m f w = (w', Inr y) \<longleftrightarrow> (\<exists>w1 x. m w = (w1, Inr x) \<and> f x w1 = (w', Inr y))"
  by (auto simp: cap_bind_def split: prod.splits sum.splits)

lemma cap_result_simps [simp]: "cap_result r w = (w', r') \<longleftrightarrow> w' = w \<and> r' = r"
  by (auto simp: cap_result_def)

lemma ensure_modality_ok:
  "ensure_modality f m = Inr u \<longleftrightarrow> fs_modality (cf_summary f) = m"
  "Inr u = ensure_modality f m \<longleftrightarrow> fs_modality (cf_summary f) = m"
  by (auto simp: ensure_modality_def)

lemma check_cancelled_ok:
  "check_cancelled c w = (w', Inr u) \<longleftrightarrow>
     w' = w\<lparr>pr_polls := Suc (pr_polls w)\<rparr> \<and> \<not> c (pr_polls w)"
  by (auto simp: check_cancelled_def)

lemma read_ok:
  "read_infrared n w = (w', Inr f) \<Longrightarrow> pr_polls w' = pr_polls w \<and> pr_reads w' = Suc (pr_reads w)"
  "read_visible m w = (w', Inr f) \<Longrightarrow> pr_polls w' = pr_polls w \<and> pr_reads w' = Suc (pr_reads w)"
  by (auto simp: read_infrared_def read_visible_def Let_def split: prod.splits)

lemma pair_loop_within:
  assumes "pair_loop left nir nvis skew cancel ir vis w = (w', Inr p)"
    and "abs_diff (frame_time ir) (frame_time vis) \<le> skew"
  shows "p = \<lparr>pf_infrared = ir, pf_visible = vis\<rparr> \<and> w' = w\<lparr>pr_polls := Suc (pr_polls w)\<rparr> \<and>
     \<not> cancel (pr_polls w)"
  using assms(1) [unfolded pair_loop.simps [of left nir nvis skew cancel ir vis]] assms(2)
  by (auto simp: cap_bind_ok check_cancelled_ok Let_def)

lemma pair_loop_beyond:
  assumes "pair_loop left nir nvis skew cancel ir vis w = (w', Inr p)"
    and "\<not> abs_diff (frame_time ir) (frame_time vis) \<le> skew"
    and "fs_modality (cf_summary ir) = Infrared" "fs_modality (cf_summary vis) = Visible"
  obtains left' ir' vis' w3 where "left = Suc left'"
    "\<not> cancel (pr_polls w)" "\<not> cancel (Suc (pr_polls w))"
    "fs_modality (cf_summary ir') = Infrared" "fs_modality (cf_summary vis') = Visible"
    "pr_polls w3 = Suc (Suc (pr_polls w))" "pr_reads w3 = Suc (pr_reads w)"
    "pair_loop left' nir nvis skew cancel ir' vis' w3 = (w', Inr p)"
proof (cases left)
  case 0
  note unfolded = assms(1) [unfolded 0, unfolded pair_loop.simps [of 0 nir nvis skew cancel ir vis]]
  from unfolded assms(2) have False by (simp add: cap_bind_ok Let_def)
  then show thesis ..
next
  case (Suc left')
  note unfolded = assms(1) [unfolded Suc, unfolded pair_loop.simps [of "Suc left'" nir nvis skew cancel ir vis]]
  show thesis
  proof (cases "frame_time ir < frame_time vis")
    case True
    then obtain f w3 where
      "read_infrared nir (w\<lparr>pr_polls := Suc (Suc (pr_polls w))\<rparr>) = (w3, Inr f)"
      "fs_modality (cf_summary f) = Infrared" "\<not> cancel (pr_polls w)" "\<not> cancel (Suc (pr_polls w))"
      "pair_loop left' nir nvis skew cancel f vis w3 = (w', Inr p)"
      using unfolded assms(2) by (auto simp: cap_bind_ok check_cancelled_ok ensure_modality_ok Let_def)
    then show thesis using that [OF Suc, of f vis w3] assms(4) by (auto dest: read_ok)
  next
    case False
    then obtain f w3 where
      "read_visible nvis (w\<lparr>pr_polls := Suc (Suc (pr_polls w))\<rparr>) = (w3, Inr f)"
      "fs_modality (cf_summary f) = Visible" "\<not> cancel (pr_polls w)" "\<not> cancel (Suc (pr_polls w))"
      "pair_loop left' nir nvis skew cancel ir f w3 = (w', Inr p)"
      using unfolded assms(2) by (auto simp: cap_bind_ok check_cancelled_ok ensure_modality_ok Let_def)
    then show thesis using that [OF Suc, of ir f w3] assms(3) by (auto dest: read_ok)
  qed
qed

definition pair_good :: "u64 \<Rightarrow> PairedFrames \<Rightarrow> bool" where
  "pair_good max_skew p \<longleftrightarrow>
     fs_modality (cf_summary (pf_infrared p)) = Infrared \<and>
     fs_modality (cf_summary (pf_visible p)) = Visible \<and>
     abs_diff (frame_time (pf_infrared p)) (frame_time (pf_visible p)) \<le> max_skew"

lemma pair_loop_ok:
  assumes "pair_loop left nir nvis skew cancel ir vis w = (w', Inr p)"
    and "fs_modality (cf_summary ir) = Infrared" and "fs_modality (cf_summary vis) = Visible"
  shows "pair_good skew p \<and> pr_reads w' \<le> pr_reads w + left \<and> pr_polls w \<le> pr_polls w' \<and>
     polls_clear cancel (pr_polls w) (pr_polls w')"
  using assms
proof (induction left arbitrary: ir vis w)
  case 0
  then have "abs_diff (frame_time ir) (frame_time vis) \<le> skew"
    using pair_loop_beyond [OF 0(1) _ 0(2,3)] by blast
  with 0 show ?case by (auto simp: pair_good_def dest!: pair_loop_within)
next
  case (Suc left)
  show ?case
  proof (cases "abs_diff (frame_time ir) (frame_time vis) \<le> skew")
    case True
    with Suc.prems show ?thesis by (auto simp: pair_good_def dest!: pair_loop_within)
  next
    case False
    from pair_loop_beyond [OF Suc.prems(1) False Suc.prems(2,3)]
    obtain ir' vis' w3 where st: "\<not> cancel (pr_polls w)" "\<not> cancel (Suc (pr_polls w))"
        "fs_modality (cf_summary ir') = Infrared" "fs_modality (cf_summary vis') = Visible"
        "pr_polls w3 = Suc (Suc (pr_polls w))" "pr_reads w3 = Suc (pr_reads w)"
        "pair_loop left nir nvis skew cancel ir' vis' w3 = (w', Inr p)"
      by (metis nat.inject)
    have "polls_clear cancel (pr_polls w) (pr_polls w3)"
      using st(1,2,5) polls_clear_trans [of cancel "pr_polls w" "Suc (pr_polls w)" "pr_polls w3"] by simp
    with Suc.IH [OF st(7,3,4)] st(5,6) show ?thesis by auto
  qed
qed

lemma capture_pair_ok:
  assumes "capture_pair_cancellable nir nvis policy cancel w = (w', Inr p)"
  shows "pp_max_skew_micros policy \<noteq> 0 \<and> pp_max_replacements policy \<noteq> 0 \<and>
     pair_good (pp_max_skew_micros policy) p \<and>
     pr_reads w' \<le> pr_reads w + 2 + unat (pp_max_replacements policy) \<and>
     polls_clear cancel (pr_polls w) (pr_polls w')"
proof -
  from assms obtain ir vis w1 w2 where
    valid: "pairing_validate policy = Inr ()" and clear: "\<not> cancel (pr_polls w)" "\<not> cancel (pr_polls w1)" and
    reads: "read_infrared nir (w\<lparr>pr_polls := Suc (pr_polls w)\<rparr>) = (w1, Inr ir)"
      "read_visible nvis (w1\<lparr>pr_polls := Suc (pr_polls w1)\<rparr>) = (w2, Inr vis)" and
    modality: "fs_modality (cf_summary ir) = Infrared" "fs_modality (cf_summary vis) = Visible" and
    loop: "pair_loop (unat (pp_max_replacements policy)) nir nvis (pp_max_skew_micros policy) cancel ir vis w2
           = (w', Inr p)"
    by (auto simp: capture_pair_cancellable_def cap_bind_ok check_cancelled_ok ensure_modality_ok
        intro: sym)
  have counts: "pr_polls w2 = Suc (Suc (pr_polls w))" "pr_reads w2 = Suc (Suc (pr_reads w))"
      "pr_polls w1 = Suc (pr_polls w)"
    using reads by (auto dest!: read_ok)
  have "polls_clear cancel (pr_polls w) (pr_polls w2)"
    using clear counts polls_clear_trans [of cancel "pr_polls w" "Suc (pr_polls w)" "pr_polls w2"] by simp
  with pair_loop_ok [OF loop modality] counts valid show ?thesis
    by (auto simp: pairing_validate_def split: if_splits)
qed

text \<open>
  C37. When the pairing of two streams returns a pair: the pairing policy was valid, the frames have
  the right modalities, their timestamps differ by at most the configured skew, at most
  \<open>2 + max_replacements\<close> frames were read, and no poll of the cancellation callback made by this call
  answered true.
\<close>

theorem capture_pair_sound:
  assumes "capture_pair_cancellable nir nvis policy cancel w = (w', Inr p)"
  shows "pp_max_skew_micros policy \<noteq> 0 \<and> pp_max_replacements policy \<noteq> 0 \<and>
     pair_good (pp_max_skew_micros policy) p \<and>
     pr_reads w' \<le> pr_reads w + 2 + unat (pp_max_replacements policy) \<and>
     polls_clear cancel (pr_polls w) (pr_polls w')"
  by (rule capture_pair_ok [OF assms])

definition sample_frame :: "CaptureModality \<Rightarrow> u64 \<Rightarrow> CapturedFrame" where
  "sample_frame m t = \<lparr>cf_summary = \<lparr>fs_modality = m, fs_timestamp_micros = t, fs_sequence = 1, fs_bytes = 1,
      fs_format = \<lparr>nf_width = 1, nf_height = 1, nf_pixel_format = Gray8, nf_frames_per_second = 15\<rparr>\<rparr>,
    cf_data = [7]\<rparr>"

text \<open>The first infrared frame is 100 ms too early, its replacement is in time.\<close>

definition sample_source :: "CaptureModality \<Rightarrow> u64 list \<Rightarrow> u64 list \<times> (CaptureError + CapturedFrame)" where
  "sample_source m ts = (case ts of [] \<Rightarrow> ([], Inl CAP_FrameTimeout) | t # r \<Rightarrow> (r, Inr (sample_frame m t)))"

lemma sample_pairing:
  "capture_pair_cancellable (sample_source Infrared) (sample_source Visible)
     \<lparr>pp_max_skew_micros = 40000, pp_max_replacements = 2\<rparr> (\<lambda>k. 9 < k)
     \<lparr>pr_infrared = [0, 110000], pr_visible = [100000], pr_polls = 0, pr_reads = 0\<rparr>
   = (\<lparr>pr_infrared = [], pr_visible = [], pr_polls = 5, pr_reads = 3\<rparr>,
      Inr \<lparr>pf_infrared = sample_frame Infrared 110000, pf_visible = sample_frame Visible 100000\<rparr>)"
  by code_simp

theorem capture_pair_sound_witness:
  "pair_good 40000 \<lparr>pf_infrared = sample_frame Infrared 110000, pf_visible = sample_frame Visible 100000\<rparr>"
  using capture_pair_sound [OF sample_pairing] by simp

lemma unat_sint:
  assumes "0 \<le> sint (w :: i64)"
  shows "int (unat w) = sint w"
proof -
  have "sint w < 2 ^ 63" using sint_lt [of w] by simp
  with assms show ?thesis by (simp add: uint_sint take_bit_int_eq_self)
qed

lemma word_less_million: "\<not> (1000000 :: u64) \<le> w \<longleftrightarrow> unat w < 1000000"
  by (simp add: word_le_nat_alt not_le)

lemma timestamp_bound_int:
  "int b < 1000000 \<and> int a * 1000000 + int b < 2 ^ 64 \<longleftrightarrow> b < 1000000 \<and> a * 1000000 + b < 2 ^ 64"
  by (simp, intro conj_cong refl, linarith)

lemma timestamp_micros_unat:
  assumes "0 \<le> sint sec" "0 \<le> sint usec"
  shows "timestamp_micros sec usec =
     (if unat usec < 1000000 \<and> unat sec * 1000000 + unat usec < 2 ^ 64
      then Inr (sec * 1000000 + usec) else Inl CAP_InvalidTimestamp)"
proof (cases "unat sec * 1000000 < (2::nat) ^ 64")
  case True
  then have "checked_mul sec (1000000 :: u64) = Some (sec * 1000000)"
    and "unat (sec * 1000000 :: u64) = unat sec * 1000000"
    by (simp_all add: checked_mul_def unat_word_ariths)
  with assms show ?thesis
    by (auto simp: timestamp_micros_def Let_def checked_add_def ok_or_def word_le_nat_alt)
next
  case False
  then have "checked_mul sec (1000000 :: u64) = None" by (simp add: checked_mul_def)
  with assms False show ?thesis by (auto simp: timestamp_micros_def Let_def)
qed

text \<open>
  The conversion of a V4L2 timestamp returns \<open>seconds * 1000000 + microseconds\<close> exactly when both
  numbers are nonnegative, the microseconds are below one million and the sum fits 64 bits; every
  other timestamp is an error, so no timestamp wraps.
\<close>

theorem timestamp_micros_exact:
  "timestamp_micros sec usec =
     (if 0 \<le> sint sec \<and> 0 \<le> sint usec \<and> sint usec < 1000000
         \<and> sint sec * 1000000 + sint usec < 2 ^ 64
      then Inr (word_of_int (sint sec * 1000000 + sint usec)) else Inl CAP_InvalidTimestamp)"
proof (cases "0 \<le> sint sec \<and> 0 \<le> sint usec")
  case False
  then show ?thesis by (auto simp: timestamp_micros_def)
next
  case True
  then have v: "sint sec = int (unat sec)" "sint usec = int (unat usec)"
    by (simp_all only: unat_sint)
  have "sint usec < 1000000 \<and> sint sec * 1000000 + sint usec < 2 ^ 64 \<longleftrightarrow>
      unat usec < 1000000 \<and> unat sec * 1000000 + unat usec < 2 ^ 64"
    unfolding v by (rule timestamp_bound_int)
  moreover have "word_of_int (sint sec * 1000000 + sint usec) = (sec * 1000000 + usec :: u64)"
    by (simp flip: wi_hom_syms)
  ultimately show ?thesis using True timestamp_micros_unat [of sec usec] by presburger
qed

end
