(* ===== verification/UiModel.thy ===== *)
theory UiModel
  imports Management
begin

text \<open>
  \<open>crates/faceauth-ui-model/src/lib.rs\<close>: the experience state machine of the desktop clients, its
  guidance cues, its sanitized outcomes and the presentation tokens. It is the third single-capacity
  slot of the program. The \<open>&'static str\<close> values are strings.
\<close>

datatype ExperienceFlow =
  FlowAuthentication TransactionId
| FlowAuthenticationRejection "TransactionId option"
| FlowEnrollment OperationId

datatype ExperienceCue =
  CuePreparing
| CuePositionFace
| CueHoldStill
| CueFollowChallenge
| CueBlink
| CueTurnLeft
| CueTurnRight
| CueReturnToCenter
| CueProcessing

datatype ExperienceOutcome = EO_Succeeded | EO_TryAgain | EO_Cancelled | EO_TimedOut | EO_Unavailable

datatype ExperienceState =
  ExIdle
| ExActive (ex_flow: ExperienceFlow) ExperienceCue
| ExTerminal (ex_flow: ExperienceFlow) ExperienceOutcome

record ExperiencePresentation =
  ep_token :: string
  ep_title_key :: string
  ep_icon_name :: string
  ep_busy :: bool
  ep_show_password_fallback :: bool

record ExperienceModel =
  em_state :: ExperienceState

datatype ExperienceError = EX_Busy | EX_Idle | EX_WrongFlow | EX_Terminal

section \<open>Tokens\<close>

fun cue_token :: "ExperienceCue \<Rightarrow> string" where
  "cue_token CuePreparing = ''preparing''"
| "cue_token CuePositionFace = ''position-face''"
| "cue_token CueHoldStill = ''hold-still''"
| "cue_token CueFollowChallenge = ''active-challenge''"
| "cue_token CueBlink = ''blink''"
| "cue_token CueTurnLeft = ''turn-left''"
| "cue_token CueTurnRight = ''turn-right''"
| "cue_token CueReturnToCenter = ''return-to-center''"
| "cue_token CueProcessing = ''processing''"

fun cue_icon_name :: "ExperienceCue \<Rightarrow> string" where
  "cue_icon_name CuePreparing = ''view-refresh''"
| "cue_icon_name CueProcessing = ''view-refresh''"
| "cue_icon_name CuePositionFace = ''edit-image-face-recognize''"
| "cue_icon_name CueHoldStill = ''media-playback-pause''"
| "cue_icon_name CueFollowChallenge = ''system-run''"
| "cue_icon_name CueBlink = ''face-smile''"
| "cue_icon_name CueTurnLeft = ''go-previous''"
| "cue_icon_name CueTurnRight = ''go-next''"
| "cue_icon_name CueReturnToCenter = ''go-home''"

fun cue_title_key :: "ExperienceCue \<Rightarrow> string" where
  "cue_title_key CuePreparing = ''faceauth.cue.preparing.title''"
| "cue_title_key CuePositionFace = ''faceauth.cue.position-face.title''"
| "cue_title_key CueHoldStill = ''faceauth.cue.hold-still.title''"
| "cue_title_key CueFollowChallenge = ''faceauth.cue.active-challenge.title''"
| "cue_title_key CueBlink = ''faceauth.cue.blink.title''"
| "cue_title_key CueTurnLeft = ''faceauth.cue.turn-left.title''"
| "cue_title_key CueTurnRight = ''faceauth.cue.turn-right.title''"
| "cue_title_key CueReturnToCenter = ''faceauth.cue.return-to-center.title''"
| "cue_title_key CueProcessing = ''faceauth.cue.processing.title''"

fun outcome_title_key :: "ExperienceOutcome \<Rightarrow> string" where
  "outcome_title_key EO_Succeeded = ''faceauth.outcome.succeeded.title''"
| "outcome_title_key EO_TryAgain = ''faceauth.outcome.try-again.title''"
| "outcome_title_key EO_Cancelled = ''faceauth.outcome.cancelled.title''"
| "outcome_title_key EO_TimedOut = ''faceauth.outcome.timed-out.title''"
| "outcome_title_key EO_Unavailable = ''faceauth.outcome.unavailable.title''"

fun outcome_icon_name :: "ExperienceOutcome \<Rightarrow> string" where
  "outcome_icon_name EO_Succeeded = ''dialog-ok-apply''"
| "outcome_icon_name EO_TryAgain = ''data-warning''"
| "outcome_icon_name EO_Cancelled = ''dialog-cancel''"
| "outcome_icon_name EO_TimedOut = ''chronometer''"
| "outcome_icon_name EO_Unavailable = ''dialog-error''"

fun authentication_cue :: "ProgressCode \<Rightarrow> ExperienceCue" where
  "authentication_cue PC_PositionFace = CuePositionFace"
| "authentication_cue PC_HoldStill = CueHoldStill"
| "authentication_cue PC_Blink = CueBlink"
| "authentication_cue PC_TurnLeft = CueTurnLeft"
| "authentication_cue PC_TurnRight = CueTurnRight"
| "authentication_cue PC_ReturnToCenter = CueReturnToCenter"
| "authentication_cue PC_Processing = CueProcessing"

fun management_cue :: "ManagementProgress \<Rightarrow> ExperienceCue" where
  "management_cue MP_Preparing = CuePreparing"
| "management_cue MP_PositionFace = CuePositionFace"
| "management_cue MP_HoldStill = CueHoldStill"
| "management_cue MP_ActiveChallenge = CueFollowChallenge"
| "management_cue MP_Blink = CueBlink"
| "management_cue MP_TurnLeft = CueTurnLeft"
| "management_cue MP_TurnRight = CueTurnRight"
| "management_cue MP_ReturnToCenter = CueReturnToCenter"
| "management_cue MP_Processing = CueProcessing"

fun authentication_outcome :: "DecisionCode \<Rightarrow> ExperienceOutcome" where
  "authentication_outcome DC_Accepted = EO_Succeeded"
| "authentication_outcome DC_Cancelled = EO_Cancelled"
| "authentication_outcome DC_TimedOut = EO_TimedOut"
| "authentication_outcome DC_InternalError = EO_Unavailable"
| "authentication_outcome DC_InfraredMissing = EO_Unavailable"
| "authentication_outcome DC_VisibleMissing = EO_Unavailable"
| "authentication_outcome DC_InsufficientQuality = EO_TryAgain"
| "authentication_outcome DC_PassiveLivenessFailed = EO_TryAgain"
| "authentication_outcome DC_ActiveChallengeFailed = EO_TryAgain"
| "authentication_outcome DC_FaceMismatch = EO_TryAgain"

fun management_outcome :: "ManagementResult \<Rightarrow> ExperienceOutcome" where
  "management_outcome MR_Completed = EO_Succeeded"
| "management_outcome MR_Cancelled = EO_Cancelled"
| "management_outcome MR_TimedOut = EO_TimedOut"
| "management_outcome MR_Failed = EO_Unavailable"

section \<open>Operations\<close>

definition experience_default :: ExperienceModel where
  "experience_default = \<lparr>em_state = ExIdle\<rparr>"

definition require_active :: "ExperienceModel \<Rightarrow> ExperienceFlow \<Rightarrow> ExperienceError + unit" where
  "require_active m expected =
     (case em_state m of
        ExIdle \<Rightarrow> Inl EX_Idle
      | ExTerminal _ _ \<Rightarrow> Inl EX_Terminal
      | ExActive flow _ \<Rightarrow> if flow = expected then Inr () else Inl EX_WrongFlow)"

type_synonym experience_result = "ExperienceModel \<times> (ExperienceError + unit)"

definition experience_begin :: "ExperienceModel \<Rightarrow> ExperienceFlow \<Rightarrow> experience_result" where
  "experience_begin m flow =
     (if em_state m \<noteq> ExIdle then (m, Inl EX_Busy)
      else (m\<lparr>em_state := ExActive flow CuePreparing\<rparr>, Inr ()))"

definition begin_authentication :: "ExperienceModel \<Rightarrow> TransactionId \<Rightarrow> experience_result" where
  "begin_authentication m t = experience_begin m (FlowAuthentication t)"

definition begin_enrollment :: "ExperienceModel \<Rightarrow> OperationId \<Rightarrow> experience_result" where
  "begin_enrollment m i = experience_begin m (FlowEnrollment i)"

text \<open>The two assignments after \<open>self.require_active(flow)?\<close>.\<close>

definition if_active :: "ExperienceModel \<Rightarrow> ExperienceFlow \<Rightarrow> ExperienceState \<Rightarrow> experience_result" where
  "if_active m flow new =
     (case require_active m flow of Inl e \<Rightarrow> (m, Inl e) | Inr _ \<Rightarrow> (m\<lparr>em_state := new\<rparr>, Inr ()))"

definition authentication_progress :: "ExperienceModel \<Rightarrow> TransactionId \<Rightarrow> ProgressCode \<Rightarrow> experience_result" where
  "authentication_progress m t progress =
     (let flow = FlowAuthentication t
      in if_active m flow (ExActive flow (authentication_cue progress)))"

definition authentication_completed :: "ExperienceModel \<Rightarrow> TransactionId \<Rightarrow> DecisionCode \<Rightarrow> experience_result" where
  "authentication_completed m t decision =
     (let flow = FlowAuthentication t
      in if_active m flow (ExTerminal flow (authentication_outcome decision)))"

definition authentication_rejected ::
  "ExperienceModel \<Rightarrow> TransactionId option \<Rightarrow> RejectionCode \<Rightarrow> experience_result" where
  "authentication_rejected m t reason =
     (if em_state m \<noteq> ExIdle then (m, Inl EX_Busy)
      else (m\<lparr>em_state := ExTerminal (FlowAuthenticationRejection t) EO_Unavailable\<rparr>, Inr ()))"

fun management_update :: "ExperienceModel \<Rightarrow> ManagementUpdate \<Rightarrow> experience_result" where
  "management_update m (MU_Progress i progress) =
     (let flow = FlowEnrollment i in if_active m flow (ExActive flow (management_cue progress)))"
| "management_update m (MU_Completed i result) =
     (let flow = FlowEnrollment i in if_active m flow (ExTerminal flow (management_outcome result)))"

definition experience_reset :: "ExperienceModel \<Rightarrow> experience_result" where
  "experience_reset m =
     (case em_state m of
        ExActive _ _ \<Rightarrow> (m, Inl EX_Busy)
      | _ \<Rightarrow> (m\<lparr>em_state := ExIdle\<rparr>, Inr ()))"

fun is_authentication :: "ExperienceFlow \<Rightarrow> bool" where
  "is_authentication (FlowAuthentication _) = True"
| "is_authentication _ = False"

fun is_authentication_or_rejection :: "ExperienceFlow \<Rightarrow> bool" where
  "is_authentication_or_rejection (FlowAuthentication _) = True"
| "is_authentication_or_rejection (FlowAuthenticationRejection _) = True"
| "is_authentication_or_rejection _ = False"

definition presentation :: "ExperienceModel \<Rightarrow> ExperiencePresentation" where
  "presentation m =
     (case em_state m of
        ExIdle \<Rightarrow>
          \<lparr>ep_token = ''idle'', ep_title_key = ''faceauth.idle.title'', ep_icon_name = ''edit-image-face-recognize'',
           ep_busy = False, ep_show_password_fallback = False\<rparr>
      | ExActive flow cue \<Rightarrow>
          \<lparr>ep_token = cue_token cue, ep_title_key = cue_title_key cue, ep_icon_name = cue_icon_name cue,
           ep_busy = True, ep_show_password_fallback = is_authentication flow\<rparr>
      | ExTerminal flow outcome \<Rightarrow>
          \<lparr>ep_token = (case outcome of EO_Succeeded \<Rightarrow> ''succeeded'' | EO_TryAgain \<Rightarrow> ''try-again''
              | EO_Cancelled \<Rightarrow> ''cancelled'' | EO_TimedOut \<Rightarrow> ''timed-out'' | EO_Unavailable \<Rightarrow> ''unavailable''),
           ep_title_key = outcome_title_key outcome, ep_icon_name = outcome_icon_name outcome, ep_busy = False,
           ep_show_password_fallback = (is_authentication_or_rejection flow \<and> outcome \<noteq> EO_Succeeded)\<rparr>)"

section \<open>Runs\<close>

datatype ui_op =
  BeginAuthentication TransactionId
| BeginEnrollment OperationId
| AuthenticationProgress TransactionId ProgressCode
| AuthenticationCompleted TransactionId DecisionCode
| AuthenticationRejected "TransactionId option" RejectionCode
| UpdateManagement ManagementUpdate
| ResetExperience

fun ui_call :: "ExperienceModel \<Rightarrow> ui_op \<Rightarrow> experience_result" where
  "ui_call m (BeginAuthentication t) = begin_authentication m t"
| "ui_call m (BeginEnrollment i) = begin_enrollment m i"
| "ui_call m (AuthenticationProgress t p) = authentication_progress m t p"
| "ui_call m (AuthenticationCompleted t d) = authentication_completed m t d"
| "ui_call m (AuthenticationRejected t r) = authentication_rejected m t r"
| "ui_call m (UpdateManagement u) = management_update m u"
| "ui_call m ResetExperience = experience_reset m"

definition ui_step :: "ExperienceModel \<Rightarrow> ui_op \<Rightarrow> ExperienceModel \<times> (ui_op \<times> (ExperienceError + unit))" where
  "ui_step m x = (let (m', r) = ui_call m x in (m', (x, r)))"

text \<open>A successful call opens, updates or closes the flow it names; a failed one does nothing.\<close>

fun op_event :: "ui_op \<Rightarrow> ExperienceFlow slot_event option" where
  "op_event (BeginAuthentication t) = Some (Opened (FlowAuthentication t))"
| "op_event (BeginEnrollment i) = Some (Opened (FlowEnrollment i))"
| "op_event (AuthenticationProgress t _) = Some (Updated (FlowAuthentication t))"
| "op_event (AuthenticationCompleted t _) = Some (Closed (FlowAuthentication t))"
| "op_event (AuthenticationRejected _ _) = None"
| "op_event (UpdateManagement (MU_Progress i _)) = Some (Updated (FlowEnrollment i))"
| "op_event (UpdateManagement (MU_Completed i _)) = Some (Closed (FlowEnrollment i))"
| "op_event ResetExperience = None"

definition ui_event :: "ui_op \<times> (ExperienceError + unit) \<Rightarrow> ExperienceFlow slot_event option" where
  "ui_event out = (if is_ok (snd out) then op_event (fst out) else None)"

definition ui_owner :: "ExperienceModel \<Rightarrow> ExperienceFlow option" where
  "ui_owner m = (case em_state m of ExActive flow _ \<Rightarrow> Some flow | _ \<Rightarrow> None)"

lemmas ui_defs = begin_authentication_def begin_enrollment_def experience_begin_def
  authentication_progress_def authentication_completed_def authentication_rejected_def
  experience_reset_def if_active_def require_active_def

lemma ui_step_simps [simp]:
  "fst (ui_step m x) = fst (ui_call m x)" "snd (ui_step m x) = (x, snd (ui_call m x))"
  by (simp_all add: ui_step_def split: prod.splits)

lemma ui_call_effect:
  "ui_call m x = (m', r) \<Longrightarrow>
     (case ui_event (x, r) of
        Some (Opened i) \<Rightarrow> ui_owner m = None \<and> ui_owner m' = Some i
      | Some (Updated i) \<Rightarrow> ui_owner m = Some i \<and> ui_owner m' = Some i
      | Some (Closed i) \<Rightarrow> ui_owner m = Some i \<and> ui_owner m' = None
      | None \<Rightarrow> ui_owner m' = ui_owner m)"
  by (cases x rule: op_event.cases; cases "em_state m")
     (auto simp: ui_defs ui_event_def ui_owner_def Let_def split: if_splits)

lemma ui_step_effect:
  "ui_step m x = (m', out) \<Longrightarrow>
     (case ui_event out of
        Some (Opened i) \<Rightarrow> ui_owner m = None \<and> ui_owner m' = Some i
      | Some (Updated i) \<Rightarrow> ui_owner m = Some i \<and> ui_owner m' = Some i
      | Some (Closed i) \<Rightarrow> ui_owner m = Some i \<and> ui_owner m' = None
      | None \<Rightarrow> ui_owner m' = ui_owner m)"
  using ui_call_effect [of m x m'] by (auto simp: ui_step_def split: prod.splits)

interpretation ui_slot: oneshot_slot ui_step ui_owner ui_event
  by unfold_locales (auto dest: ui_step_effect)

section \<open>Properties\<close>

text \<open>
  The experience shown to the user is one operation at a time: in every run the successful
  events are bracketed by the exact flow, an update or a result for another flow changes nothing,
  and a flow is closed at most as often as it was opened.
\<close>

theorem ui_single_terminal:
  "bracketed None (slot_events ui_event (snd (run_ops ui_step experience_default ops))) \<and>
   count_list (slot_events ui_event (snd (run_ops ui_step experience_default ops))) (Closed flow) \<le>
   count_list (slot_events ui_event (snd (run_ops ui_step experience_default ops))) (Opened flow)"
proof -
  have "ui_owner experience_default = None" by (simp add: ui_owner_def experience_default_def)
  then have "bracketed None (slot_events ui_event (snd (run_ops ui_step experience_default ops)))"
    using ui_slot.run_bracketed [of experience_default ops] by simp
  with bracketed_closed_le_opened [OF this, of flow] show ?thesis by simp
qed

subsection \<open>Where a success comes from\<close>

fun begin_op :: "ExperienceFlow \<Rightarrow> ui_op option" where
  "begin_op (FlowAuthentication t) = Some (BeginAuthentication t)"
| "begin_op (FlowEnrollment i) = Some (BeginEnrollment i)"
| "begin_op (FlowAuthenticationRejection _) = None"

fun success_op :: "ExperienceFlow \<Rightarrow> ui_op option" where
  "success_op (FlowAuthentication t) = Some (AuthenticationCompleted t DC_Accepted)"
| "success_op (FlowEnrollment i) = Some (UpdateManagement (MU_Completed i MR_Completed))"
| "success_op (FlowAuthenticationRejection _) = None"

definition begun :: "ExperienceFlow \<Rightarrow> ui_op list \<Rightarrow> bool" where
  "begun flow ops \<longleftrightarrow> (\<exists>b. begin_op flow = Some b \<and> b \<in> set ops)"

definition succeeded_after :: "ExperienceFlow \<Rightarrow> ui_op list \<Rightarrow> bool" where
  "succeeded_after flow ops \<longleftrightarrow>
     (\<exists>xs c ys. ops = xs @ c # ys \<and> success_op flow = Some c \<and> begun flow xs)"

definition success_inv :: "ExperienceModel \<Rightarrow> ui_op list \<Rightarrow> bool" where
  "success_inv m ops \<longleftrightarrow>
     (\<forall>flow cue. em_state m = ExActive flow cue \<longrightarrow> begun flow ops) \<and>
     (\<forall>flow. em_state m = ExTerminal flow EO_Succeeded \<longrightarrow> succeeded_after flow ops)"

lemma begun_snoc [intro]: "begun flow ops \<Longrightarrow> begun flow (ops @ [x])"
  by (auto simp: begun_def)

lemma succeeded_after_snoc [intro]: "succeeded_after flow ops \<Longrightarrow> succeeded_after flow (ops @ [x])"
  by (fastforce simp: succeeded_after_def)

lemma succeeded_now: "begun flow ops \<Longrightarrow> success_op flow = Some c \<Longrightarrow> succeeded_after flow (ops @ [c])"
  by (auto simp: succeeded_after_def)

lemma outcome_success [simp]:
  "authentication_outcome d = EO_Succeeded \<longleftrightarrow> d = DC_Accepted"
  "EO_Succeeded = authentication_outcome d \<longleftrightarrow> d = DC_Accepted"
  "management_outcome r = EO_Succeeded \<longleftrightarrow> r = MR_Completed"
  "EO_Succeeded = management_outcome r \<longleftrightarrow> r = MR_Completed"
  by (cases d; simp)+ (cases r; simp)+

lemma if_active_cases:
  "if_active m flow new = (m', r) \<Longrightarrow>
     (m' = m \<and> r \<noteq> Inr ()) \<or> (\<exists>cue. em_state m = ExActive flow cue \<and> em_state m' = new \<and> r = Inr ())"
  by (auto simp: if_active_def require_active_def split: sum.splits ExperienceState.splits if_splits)

lemmas if_active_cases' = if_active_cases [OF sym]

lemma success_inv_step:
  assumes "success_inv m ops" and "ui_call m x = (m', r)"
  shows "success_inv m' (ops @ [x])"
proof (cases "m' = m")
  case True
  with assms(1) show ?thesis by (auto simp: success_inv_def)
next
  case False
  with assms show ?thesis
    by (cases x rule: op_event.cases)
       (auto simp: success_inv_def ui_defs(1-3,6,7) authentication_progress_def authentication_completed_def
          begun_def Let_def split: if_splits ExperienceState.splits
          dest!: if_active_cases if_active_cases' intro!: succeeded_now)
qed

lemma success_inv_run: "success_inv (fst (run_ops ui_step experience_default ops)) ops"
proof (induction ops rule: rev_induct)
  case Nil
  then show ?case by (simp add: success_inv_def experience_default_def)
next
  case (snoc x ops)
  then show ?case
    using success_inv_step [of _ ops x] by (cases "ui_call (fst (run_ops ui_step experience_default ops)) x") auto
qed

text \<open>
  The experience shows success only for a success: if after any run the presented token is the
  success token, then the run has a call that reports the accepted decision of an authentication,
  or the completed result of an enrollment, and this very flow was begun before that call.
\<close>

theorem ui_success_provenance:
  assumes "ep_token (presentation (fst (run_ops ui_step experience_default ops))) = ''succeeded''"
  shows "\<exists>flow xs c ys. ops = xs @ c # ys \<and> success_op flow = Some c \<and> begun flow xs"
proof -
  let ?m = "fst (run_ops ui_step experience_default ops)"
  obtain flow where "em_state ?m = ExTerminal flow EO_Succeeded"
    using assms by (auto simp: presentation_def split: ExperienceState.splits ExperienceOutcome.splits
        elim: cue_token.elims)
  with success_inv_run [of ops] have "succeeded_after flow ops" by (auto simp: success_inv_def)
  then show ?thesis by (auto simp: succeeded_after_def)
qed

subsection \<open>The password path\<close>

definition password_visible :: "TransactionId \<Rightarrow> ExperienceModel \<Rightarrow> bool" where
  "password_visible t m \<longleftrightarrow>
     (case em_state m of
        ExActive flow _ \<Rightarrow> flow = FlowAuthentication t
      | ExTerminal flow outcome \<Rightarrow> flow = FlowAuthentication t \<and> outcome \<noteq> EO_Succeeded
      | ExIdle \<Rightarrow> False)"

lemma password_visible_step:
  assumes "password_visible t m" and "x \<noteq> ResetExperience" and "x \<noteq> AuthenticationCompleted t DC_Accepted"
  shows "password_visible t (fst (ui_call m x))"
  using assms
  by (cases x rule: op_event.cases; cases "em_state m")
     (auto simp: ui_defs password_visible_def Let_def)

text \<open>
  The password path stays visible: once an authentication was begun, the presentation shows
  the password fallback after every further sequence of calls, valid or stale, until that very
  authentication is reported accepted or the experience is reset.
\<close>

theorem ui_password_fallback:
  assumes "begin_authentication m t = (m', Inr ())"
    and "ResetExperience \<notin> set ops" and "AuthenticationCompleted t DC_Accepted \<notin> set ops"
  shows "ep_show_password_fallback (presentation (fst (run_ops ui_step m' ops)))"
proof -
  have "password_visible t m'"
    using assms(1) by (auto simp: password_visible_def begin_authentication_def experience_begin_def split: if_splits)
  then have "password_visible t (fst (run_ops ui_step m' ops))"
    using assms(2,3)
    by (induction ops arbitrary: m') (auto simp: password_visible_step)
  then show ?thesis
    by (auto simp: password_visible_def presentation_def split: ExperienceState.splits)
qed

subsection \<open>What the experience hides\<close>

text \<open>
  The public class of a decision: every failed check of the biometric evidence is the same
  failure, every broken capture the same unavailability; a rejection has one class.
\<close>

fun public_decision :: "DecisionCode \<Rightarrow> DecisionCode" where
  "public_decision DC_PassiveLivenessFailed = DC_FaceMismatch"
| "public_decision DC_ActiveChallengeFailed = DC_FaceMismatch"
| "public_decision DC_InsufficientQuality = DC_FaceMismatch"
| "public_decision DC_InfraredMissing = DC_InternalError"
| "public_decision DC_VisibleMissing = DC_InternalError"
| "public_decision d = d"

fun public_op :: "ui_op \<Rightarrow> ui_op" where
  "public_op (AuthenticationCompleted t d) = AuthenticationCompleted t (public_decision d)"
| "public_op (AuthenticationRejected t _) = AuthenticationRejected t ServiceUnavailable"
| "public_op x = x"

lemma public_outcome: "authentication_outcome (public_decision d) = authentication_outcome d"
  by (cases d) simp_all

lemma public_call: "ui_call m (public_op x) = ui_call m x"
  by (cases "(m, x)" rule: ui_call.cases)
     (simp_all add: authentication_completed_def authentication_rejected_def public_outcome)

text \<open>
  The experience does not depend on biometric detail: replacing every decision of a run by its
  public class, and every rejection reason by one fixed reason, leaves the state after the run and
  the result of every call unchanged, so no client can tell which check failed or why a request was
  rejected.
\<close>

theorem ui_outcome_private:
  "fst (run_ops ui_step m (map public_op ops)) = fst (run_ops ui_step m ops) \<and>
   map snd (snd (run_ops ui_step m (map public_op ops))) = map snd (snd (run_ops ui_step m ops))"
  by (induction ops arbitrary: m) (simp_all add: public_call)

section \<open>Witnesses\<close>

abbreviation ex_tx :: TransactionId where
  "ex_tx \<equiv> TransactionId 7"

lemmas ui_eval = experience_default_def ui_defs presentation_def

theorem ui_success_provenance_witness:
  "\<exists>flow xs c ys. [BeginAuthentication ex_tx, AuthenticationCompleted ex_tx DC_Accepted] = xs @ c # ys \<and>
     success_op flow = Some c \<and> begun flow xs"
  by (rule ui_success_provenance) (simp add: ui_eval)

theorem ui_password_fallback_witness:
  "ep_show_password_fallback (presentation (fst (run_ops ui_step
     \<lparr>em_state = ExActive (FlowAuthentication ex_tx) CuePreparing\<rparr>
     [AuthenticationProgress ex_tx PC_Blink, AuthenticationCompleted (TransactionId 8) DC_Accepted,
      AuthenticationCompleted ex_tx DC_FaceMismatch])))"
  by (rule ui_password_fallback [of experience_default]) (simp_all add: ui_eval, code_simp)

end
