(* ===== verification/Bytes.thy ===== *)
theory Bytes
  imports Prelude
begin

text \<open>
  Big- and little-endian encodings (\<open>to_be_bytes\<close>, \<open>from_be_bytes\<close>, \<open>to_le_bytes\<close>,
  \<open>from_le_bytes\<close>), a byte stream with the kernel's faults, and lemmas on them.
\<close>

fun le_bytes :: "nat \<Rightarrow> nat \<Rightarrow> u8 list" where
  "le_bytes 0 n = []"
| "le_bytes (Suc k) n = word_of_nat (n mod 256) # le_bytes k (n div 256)"

fun of_le_bytes :: "u8 list \<Rightarrow> nat" where
  "of_le_bytes [] = 0"
| "of_le_bytes (b # bs) = unat b + 256 * of_le_bytes bs"

definition be_bytes :: "nat \<Rightarrow> nat \<Rightarrow> u8 list" where
  "be_bytes k n = rev (le_bytes k n)"

definition of_be_bytes :: "u8 list \<Rightarrow> nat" where
  "of_be_bytes bs = of_le_bytes (rev bs)"

lemma length_le_bytes [simp]: "length (le_bytes k n) = k"
  by (induction k arbitrary: n) simp_all

lemma length_be_bytes [simp]: "length (be_bytes k n) = k"
  by (simp add: be_bytes_def)

lemma unat_byte [simp]: "unat (word_of_nat (n mod 256) :: u8) = n mod 256"
  by (simp add: unat_of_nat)

lemma of_le_le_bytes: "n < 256 ^ k \<Longrightarrow> of_le_bytes (le_bytes k n) = n"
  by (induction k arbitrary: n) (simp_all add: less_mult_imp_div_less mult.commute)

lemma of_be_be_bytes: "n < 256 ^ k \<Longrightarrow> of_be_bytes (be_bytes k n) = n"
  by (simp add: of_be_bytes_def be_bytes_def of_le_le_bytes)

lemma of_le_bytes_less: "of_le_bytes bs < 256 ^ length bs"
proof (induction bs)
  case Nil
  then show ?case by simp
next
  case (Cons b bs)
  have "unat b < 256" using unsigned_less [of b, where ?'a = nat] by simp
  with Cons show ?case by simp
qed

lemma of_be_bytes_less: "of_be_bytes bs < 256 ^ length bs"
  using of_le_bytes_less [of "rev bs"] by (simp add: of_be_bytes_def)

lemma le_of_le_bytes: "length bs = k \<Longrightarrow> le_bytes k (of_le_bytes bs) = bs"
proof (induction bs arbitrary: k)
  case Nil
  then show ?case by simp
next
  case (Cons b bs)
  have "unat b < 256" using unsigned_less [of b, where ?'a = nat] by simp
  with Cons show ?case by auto
qed

lemma be_of_be_bytes: "length bs = k \<Longrightarrow> be_bytes k (of_be_bytes bs) = bs"
  by (simp add: be_bytes_def of_be_bytes_def le_of_le_bytes)

section \<open>Streams\<close>

text \<open>
  A connected byte stream. The bytes the peer has sent and what the kernel answers past them
  (end of file or a timeout); the bytes accepted for the peer and, where the kernel stops
  accepting, after how many bytes and with which error.
\<close>

record byte_stream =
  bs_input :: "u8 list"
  bs_input_end :: IoError
  bs_output :: "u8 list"
  bs_output_fault :: "(nat \<times> IoError) option"

definition read_exact :: "nat \<Rightarrow> byte_stream \<Rightarrow> byte_stream \<times> (IoError + u8 list)" where
  "read_exact n s =
     (if n \<le> length (bs_input s)
      then (s\<lparr>bs_input := drop n (bs_input s)\<rparr>, Inr (take n (bs_input s)))
      else (s\<lparr>bs_input := []\<rparr>, Inl (bs_input_end s)))"

definition write_all :: "u8 list \<Rightarrow> byte_stream \<Rightarrow> byte_stream \<times> (IoError + unit)" where
  "write_all bytes s =
     (case bs_output_fault s of
        None \<Rightarrow> (s\<lparr>bs_output := bs_output s @ bytes\<rparr>, Inr ())
      | Some (room, e) \<Rightarrow>
          if length bytes \<le> room
          then (s\<lparr>bs_output := bs_output s @ bytes, bs_output_fault := Some (room - length bytes, e)\<rparr>, Inr ())
          else (s\<lparr>bs_output := bs_output s @ take room bytes, bs_output_fault := Some (0, e)\<rparr>, Inl e))"

lemma read_exact_ok:
  "read_exact n s = (s', Inr bytes) \<longleftrightarrow>
     n \<le> length (bs_input s) \<and> bytes = take n (bs_input s) \<and> s' = s\<lparr>bs_input := drop n (bs_input s)\<rparr>"
  by (auto simp: read_exact_def)

lemma read_exact_append [simp]:
  "length xs = n \<Longrightarrow> read_exact n (s\<lparr>bs_input := xs @ ys\<rparr>) = (s\<lparr>bs_input := ys\<rparr>, Inr xs)"
  by (simp add: read_exact_def)

lemma write_all_ok:
  "write_all bytes s = (s', Inr u) \<Longrightarrow> bs_output s' = bs_output s @ bytes \<and> bs_input s' = bs_input s"
  by (auto simp: write_all_def split: option.splits if_splits)

lemma write_all_prefix:
  "write_all bytes s = (s', r) \<Longrightarrow> \<exists>k. bs_output s' = bs_output s @ take k bytes"
  by (auto simp: write_all_def split: option.splits if_splits) (metis order_refl take_all)+

end
