(* ===== verification/Transport.thy ===== *)
theory Transport
  imports Bytes Authz
begin

text \<open>
  \<open>crates/faceauth-transport/src/lib.rs\<close>: the length-prefixed framing of envelopes on a connected
  stream, the peer identity captured before any byte is read, the stoppable accept loop with its
  failure budget, and the root-owned listener that removes only its own socket. The encoder and
  decoder of serde_json are parameters; the kernel's answers are arguments.
\<close>

definition DEFAULT_MAX_MESSAGE_BYTES :: nat where
  "DEFAULT_MAX_MESSAGE_BYTES = 16 * 1024"

definition ABSOLUTE_MAX_MESSAGE_BYTES :: nat where
  "ABSOLUTE_MAX_MESSAGE_BYTES = 64 * 1024"

text \<open>A \<open>Duration\<close> in nanoseconds, an \<open>Errno\<close> by its number, an error of serde_json by its number.\<close>

type_synonym Duration = nat

definition from_millis :: "nat \<Rightarrow> Duration" where
  "from_millis n = n * 1000000"

definition from_secs :: "nat \<Rightarrow> Duration" where
  "from_secs n = n * 1000000000"

datatype TransportError =
  TE_Poll nat
| TE_InvalidConfig
| TE_InvalidAcceptLoopConfig
| TE_AcceptFailureBudgetExceeded
| TE_InvalidPeer
| TE_EmptyMessage
| TE_MessageTooLarge nat nat
| TE_Io IoError
| TE_PeerCredentials nat
| TE_PeerPidfdUnavailable nat
| TE_Json nat
| TE_Protocol ProtocolError

section \<open>Peer streams\<close>

record TransportConfig =
  tc_max_message_bytes :: nat
  tc_io_timeout :: Duration

definition transport_config_validate :: "TransportConfig \<Rightarrow> TransportError + unit" where
  "transport_config_validate c =
     (if \<not> in_range 1 ABSOLUTE_MAX_MESSAGE_BYTES (tc_max_message_bytes c)
         \<or> \<not> in_range (from_millis 1) (from_secs 30) (tc_io_timeout c)
      then Inl TE_InvalidConfig else Inr ())"

definition transport_config_default :: TransportConfig where
  "transport_config_default =
     \<lparr>tc_max_message_bytes = DEFAULT_MAX_MESSAGE_BYTES, tc_io_timeout = from_secs 2\<rparr>"

record PeerStream =
  ps_stream :: byte_stream
  ps_peer :: PeerIdentity
  ps_peer_pidfd :: nat
  ps_config :: TransportConfig

text \<open>
  An accepted socket with the kernel's answers to the calls of \<open>connect\<close>: the peer's process
  identifier (a signed number), user and group, the pidfd, and the two timeouts.
\<close>

record Incoming =
  in_stream :: byte_stream
  in_credentials :: "nat + int \<times> u32 \<times> u32"
  in_pidfd :: "nat + nat"
  in_read_timeout :: "IoError + unit"
  in_write_timeout :: "IoError + unit"

definition connect :: "Incoming \<Rightarrow> TransportConfig \<Rightarrow> TransportError + PeerStream" where
  "connect conn config =
     try_bind (transport_config_validate config) (\<lambda>_.
     try_bind (map_err TE_PeerCredentials (in_credentials conn)) (\<lambda>(pid, uid, gid).
     if \<not> (0 \<le> pid \<and> pid < 2 ^ 32) then Inl TE_InvalidPeer
     else try_bind (map_err TE_PeerPidfdUnavailable (in_pidfd conn)) (\<lambda>pidfd.
     try_bind (map_err TE_Io (in_read_timeout conn)) (\<lambda>_.
     try_bind (map_err TE_Io (in_write_timeout conn)) (\<lambda>_.
     Inr \<lparr>ps_stream = in_stream conn,
          ps_peer = \<lparr>peer_pid = word_of_int pid, peer_uid = uid, peer_gid = gid\<rparr>,
          ps_peer_pidfd = pidfd, ps_config = config\<rparr>)))))"

text \<open>\<open>poll\<close> answers an error or the events of the descriptor, if it could decode them.\<close>

definition has_pending_input :: "nat + u16 option \<Rightarrow> TransportError + bool" where
  "has_pending_input polled =
     try_bind (map_err TE_Poll polled) (\<lambda>revents.
     Inr (case revents of None \<Rightarrow> False | Some events \<Rightarrow> events \<noteq> 0))"

definition with_stream :: "PeerStream \<Rightarrow> byte_stream \<Rightarrow> PeerStream" where
  "with_stream p s = p\<lparr>ps_stream := s\<rparr>"

definition read_message ::
  "(u8 list \<Rightarrow> nat + 'a Envelope) \<Rightarrow> PeerStream \<Rightarrow> PeerStream \<times> (TransportError + 'a Envelope)" where
  "read_message decode p =
     (case read_exact 4 (ps_stream p) of
        (s, Inl e) \<Rightarrow> (with_stream p s, Inl (TE_Io e))
      | (s, Inr header) \<Rightarrow>
         (let declared = of_be_bytes header; maximum = tc_max_message_bytes (ps_config p) in
          if declared = 0 then (with_stream p s, Inl TE_EmptyMessage)
          else if declared > maximum then (with_stream p s, Inl (TE_MessageTooLarge declared maximum))
          else (case read_exact declared s of
              (s', Inl e) \<Rightarrow> (with_stream p s', Inl (TE_Io e))
            | (s', Inr encoded) \<Rightarrow>
               (with_stream p s',
                try_bind (map_err TE_Json (decode encoded)) (\<lambda>envelope.
                try_bind (map_err TE_Protocol (validate_version envelope)) (\<lambda>_.
                Inr envelope))))))"

definition write_message ::
  "('a Envelope \<Rightarrow> nat + u8 list) \<Rightarrow> PeerStream \<Rightarrow> 'a \<Rightarrow> PeerStream \<times> (TransportError + unit)" where
  "write_message encode p msg =
     (let maximum = tc_max_message_bytes (ps_config p) in
      case encode (envelope_current msg) of
        Inl e \<Rightarrow> (p, Inl (TE_Json e))
      | Inr encoded \<Rightarrow>
         (if encoded = [] then (p, Inl TE_EmptyMessage)
          else if length encoded > maximum then (p, Inl (TE_MessageTooLarge (length encoded) maximum))
          else if \<not> length encoded < 2 ^ 32 then (p, Inl (TE_MessageTooLarge (length encoded) maximum))
          else (case write_all (be_bytes 4 (length encoded)) (ps_stream p) of
              (s, Inl e) \<Rightarrow> (with_stream p s, Inl (TE_Io e))
            | (s, Inr _) \<Rightarrow>
               (case write_all encoded s of
                  (s', Inl e) \<Rightarrow> (with_stream p s', Inl (TE_Io e))
                | (s', Inr _) \<Rightarrow> (with_stream p s', Inr ())))))"

section \<open>The accept loop\<close>

record AcceptLoopConfig =
  al_poll_interval :: Duration
  al_max_connections :: u64
  al_max_consecutive_failures :: u16

definition accept_config_validate :: "AcceptLoopConfig \<Rightarrow> TransportError + unit" where
  "accept_config_validate c =
     (if \<not> in_range (from_millis 1) (from_millis 100) (al_poll_interval c)
         \<or> \<not> in_range 1 1000000 (al_max_connections c)
         \<or> \<not> in_range 1 1000 (al_max_consecutive_failures c)
      then Inl TE_InvalidAcceptLoopConfig else Inr ())"

definition accept_config_default :: AcceptLoopConfig where
  "accept_config_default =
     \<lparr>al_poll_interval = from_millis 25, al_max_connections = 1000000, al_max_consecutive_failures = 32\<rparr>"

record AcceptLoopReport =
  ar_accepted_connections :: u64
  ar_initialization_failures :: u64

definition listener_accept :: "IoError + Incoming \<Rightarrow> TransportConfig \<Rightarrow> TransportError + PeerStream" where
  "listener_accept answer config = try_bind (map_err TE_Io answer) (\<lambda>conn. connect conn config)"

definition try_accept :: "IoError + Incoming \<Rightarrow> TransportConfig \<Rightarrow> TransportError + PeerStream option" where
  "try_accept answer config =
     (case answer of
        Inr conn \<Rightarrow> try_bind (connect conn config) (\<lambda>p. Inr (Some p))
      | Inl e \<Rightarrow> if e = IoWouldBlock then Inr None else Inl (TE_Io e))"

text \<open>
  One iteration consumes one answer of \<open>should_stop\<close> and one of the listener; \<open>None\<close> is a loop that is
  still running after the given answers. The streams passed to the handler are returned in order.
\<close>

fun accept_loop ::
  "TransportConfig \<Rightarrow> AcceptLoopConfig \<Rightarrow> (bool \<times> (IoError + Incoming)) list \<Rightarrow> AcceptLoopReport \<Rightarrow> u16 \<Rightarrow>
   ((TransportError + AcceptLoopReport) \<times> PeerStream list) option" where
  "accept_loop t c [] report failures =
     (if ar_accepted_connections report < al_max_connections c then None else Some (Inr report, []))"
| "accept_loop t c ((should_stop, answer) # rest) report failures =
     (if ar_accepted_connections report < al_max_connections c \<and> \<not> should_stop
      then (case try_accept answer t of
          Inr (Some stream) \<Rightarrow>
            map_option (\<lambda>(r, handled). (r, stream # handled))
              (accept_loop t c rest
                 (report\<lparr>ar_accepted_connections := ar_accepted_connections report + 1\<rparr>) 0)
        | Inr None \<Rightarrow> accept_loop t c rest report failures
        | Inl _ \<Rightarrow>
            (case checked_add failures 1 of
               None \<Rightarrow> Some (Inl TE_AcceptFailureBudgetExceeded, [])
             | Some failures' \<Rightarrow>
                 if failures' \<ge> al_max_consecutive_failures c
                 then Some (Inl TE_AcceptFailureBudgetExceeded, [])
                 else accept_loop t c rest
                    (report\<lparr>ar_initialization_failures := ar_initialization_failures report + 1\<rparr>) failures'))
      else Some (Inr report, []))"

definition run_accept_loop ::
  "TransportConfig \<Rightarrow> AcceptLoopConfig \<Rightarrow> IoError + unit \<Rightarrow> (bool \<times> (IoError + Incoming)) list \<Rightarrow>
   ((TransportError + AcceptLoopReport) \<times> PeerStream list) option" where
  "run_accept_loop t c set_nonblocking answers =
     (case try_bind (transport_config_validate t) (\<lambda>_.
           try_bind (accept_config_validate c) (\<lambda>_. map_err TE_Io set_nonblocking)) of
        Inl e \<Rightarrow> Some (Inl e, [])
      | Inr _ \<Rightarrow> accept_loop t c answers \<lparr>ar_accepted_connections = 0, ar_initialization_failures = 0\<rparr> 0)"

section \<open>The listener\<close>

text \<open>A path is the list of its components below the root.\<close>

type_synonym Path = "string list"

definition path_parent :: "Path \<Rightarrow> Path option" where
  "path_parent p = (if p = [] then None else Some (butlast p))"

datatype FileKind = FkRegular | FkDirectory | FkSymlink | FkSocket

record FsEntry =
  fe_kind :: FileKind
  fe_uid :: u32
  fe_mode :: u32
  fe_device :: u64
  fe_inode :: u64

type_synonym Filesystem = "Path \<Rightarrow> FsEntry option"

datatype ListenerError =
  LE_InvalidSocketMode u32
| LE_MissingParent
| LE_UnsafeParent Path
| LE_PathExists Path
| LE_CreatedPathInvalid Path
| LE_OwnedPathChanged Path
| LE_Io IoError

record SocketIdentity =
  si_device :: u64
  si_inode :: u64

record SecureListener =
  sl_path :: Path
  sl_identity :: SocketIdentity
  sl_cleaned :: bool

text \<open>System calls on the tree; the first argument is a fault of the kernel, if it has one.\<close>

definition symlink_metadata :: "IoError option \<Rightarrow> Filesystem \<Rightarrow> Path \<Rightarrow> IoError + FsEntry" where
  "symlink_metadata fault fs p =
     (case fault of Some e \<Rightarrow> Inl e | None \<Rightarrow> ok_or (fs p) IoNotFound)"

definition remove_file :: "IoError option \<Rightarrow> Filesystem \<Rightarrow> Path \<Rightarrow> Filesystem \<times> (IoError + unit)" where
  "remove_file fault fs p =
     (case fault of Some e \<Rightarrow> (fs, Inl e)
      | None \<Rightarrow> if fs p = None then (fs, Inl IoNotFound) else (fs(p := None), Inr ()))"

definition unix_bind :: "IoError option \<Rightarrow> FsEntry \<Rightarrow> Filesystem \<Rightarrow> Path \<Rightarrow> Filesystem \<times> (IoError + unit)" where
  "unix_bind fault created fs p =
     (case fault of Some e \<Rightarrow> (fs, Inl e)
      | None \<Rightarrow> if fs p = None then (fs(p \<mapsto> created\<lparr>fe_kind := FkSocket\<rparr>), Inr ())
                else (fs, Inl (IoOther 98)))"

definition set_permissions :: "IoError option \<Rightarrow> Filesystem \<Rightarrow> Path \<Rightarrow> u32 \<Rightarrow> Filesystem \<times> (IoError + unit)" where
  "set_permissions fault fs p mode =
     (case fault of Some e \<Rightarrow> (fs, Inl e)
      | None \<Rightarrow> (case fs p of None \<Rightarrow> (fs, Inl IoNotFound)
                 | Some e \<Rightarrow> (fs(p \<mapsto> e\<lparr>fe_mode := mode\<rparr>), Inr ())))"

text \<open>
  What the system does during a bind: the faults of the calls, the new inode, and what other
  processes do to the tree before the created path is inspected.
\<close>

record bind_world =
  bw_parent_fault :: "IoError option"
  bw_path_fault :: "IoError option"
  bw_bind_fault :: "IoError option"
  bw_chmod_fault :: "IoError option"
  bw_created_fault :: "IoError option"
  bw_remove_fault :: "IoError option"
  bw_new_inode :: FsEntry
  bw_others :: "Filesystem \<Rightarrow> Filesystem"

definition bind_owned ::
  "bind_world \<Rightarrow> Filesystem \<Rightarrow> Path \<Rightarrow> u32 \<Rightarrow> u32 \<Rightarrow> Filesystem \<times> (ListenerError + SecureListener)" where
  "bind_owned w fs path mode required_uid =
     (if \<not> (mode = 0x180 \<or> mode = 0x1B0) then (fs, Inl (LE_InvalidSocketMode mode))
      else case path_parent path of None \<Rightarrow> (fs, Inl LE_MissingParent)
      | Some parent \<Rightarrow>
     (case symlink_metadata (bw_parent_fault w) fs parent of Inl e \<Rightarrow> (fs, Inl (LE_Io e))
      | Inr md \<Rightarrow>
      if fe_kind md = FkSymlink \<or> fe_kind md \<noteq> FkDirectory \<or> fe_uid md \<noteq> required_uid
         \<or> fe_mode md AND 0x12 \<noteq> 0
      then (fs, Inl (LE_UnsafeParent parent))
      else case symlink_metadata (bw_path_fault w) fs path of
        Inr _ \<Rightarrow> (fs, Inl (LE_PathExists path))
      | Inl e \<Rightarrow>
      if e \<noteq> IoNotFound then (fs, Inl (LE_Io e))
      else case unix_bind (bw_bind_fault w) (bw_new_inode w) fs path of
        (fs1, Inl e) \<Rightarrow> (fs1, Inl (LE_Io e))
      | (fs1, Inr _) \<Rightarrow>
      (case set_permissions (bw_chmod_fault w) fs1 path mode of
        (fs2, Inl e) \<Rightarrow> (fst (remove_file (bw_remove_fault w) fs2 path), Inl (LE_Io e))
      | (fs2, Inr _) \<Rightarrow>
      (let fs3 = bw_others w fs2 in
       case symlink_metadata (bw_created_fault w) fs3 path of
        Inl e \<Rightarrow> (fs3, Inl (LE_Io e))
      | Inr md \<Rightarrow>
         if fe_kind md \<noteq> FkSocket
         then (fst (remove_file (bw_remove_fault w) fs3 path), Inl (LE_CreatedPathInvalid path))
         else (fs3, Inr \<lparr>sl_path = path,
                         sl_identity = \<lparr>si_device = fe_device md, si_inode = fe_inode md\<rparr>,
                         sl_cleaned = False\<rparr>)))))"

definition bind_root_owned ::
  "bind_world \<Rightarrow> Filesystem \<Rightarrow> Path \<Rightarrow> u32 \<Rightarrow> Filesystem \<times> (ListenerError + SecureListener)" where
  "bind_root_owned w fs path mode = bind_owned w fs path mode 0"

text \<open>One attempt to remove the socket, with the faults of its two calls.\<close>

definition remove_owned_path ::
  "IoError option \<times> IoError option \<Rightarrow> Filesystem \<Rightarrow> SecureListener \<Rightarrow> Filesystem \<times> (ListenerError + unit)" where
  "remove_owned_path faults fs l =
     (case symlink_metadata (fst faults) fs (sl_path l) of
        Inl e \<Rightarrow> (fs, if e = IoNotFound then Inr () else Inl (LE_Io e))
      | Inr md \<Rightarrow>
         if fe_kind md = FkSocket \<and> fe_device md = si_device (sl_identity l)
            \<and> fe_inode md = si_inode (sl_identity l)
         then (case remove_file (snd faults) fs (sl_path l) of (fs', r) \<Rightarrow> (fs', map_err LE_Io r))
         else (fs, Inl (LE_OwnedPathChanged (sl_path l))))"

definition listener_drop :: "IoError option \<times> IoError option \<Rightarrow> Filesystem \<Rightarrow> SecureListener \<Rightarrow> Filesystem" where
  "listener_drop faults fs l =
     (if \<not> sl_cleaned l then fst (remove_owned_path faults fs l) else fs)"

text \<open>\<open>cleanup\<close> consumes the listener: on either way out it is dropped.\<close>

definition listener_cleanup ::
  "IoError option \<times> IoError option \<Rightarrow> IoError option \<times> IoError option \<Rightarrow> Filesystem \<Rightarrow> SecureListener \<Rightarrow>
   Filesystem \<times> (ListenerError + unit)" where
  "listener_cleanup faults drop_faults fs l =
     (case remove_owned_path faults fs l of
        (fs', Inl e) \<Rightarrow> (listener_drop drop_faults fs' l, Inl e)
      | (fs', Inr _) \<Rightarrow> (listener_drop drop_faults fs' (l\<lparr>sl_cleaned := True\<rparr>), Inr ()))"

section \<open>Framing\<close>

lemma with_stream_simps [simp]:
  "ps_stream (with_stream p s) = s" "ps_config (with_stream p s) = ps_config p"
  "with_stream (with_stream p s) s' = with_stream p s'"
  by (simp_all add: with_stream_def)

abbreviation input_of :: "PeerStream \<Rightarrow> u8 list" where
  "input_of p \<equiv> bs_input (ps_stream p)"

abbreviation output_of :: "PeerStream \<Rightarrow> u8 list" where
  "output_of p \<equiv> bs_output (ps_stream p)"

definition with_input :: "PeerStream \<Rightarrow> u8 list \<Rightarrow> PeerStream" where
  "with_input p bytes = with_stream p ((ps_stream p)\<lparr>bs_input := bytes\<rparr>)"

lemma with_input_simps [simp]:
  "ps_stream (with_input p b) = (ps_stream p)\<lparr>bs_input := b\<rparr>" "ps_config (with_input p b) = ps_config p"
  "with_input (with_input p b) b' = with_input p b'"
  by (simp_all add: with_input_def with_stream_def)

definition frame :: "u8 list \<Rightarrow> u8 list" where
  "frame payload = be_bytes 4 (length payload) @ payload"

lemma read_message_frame:
  assumes "payload \<noteq> []" "length payload \<le> tc_max_message_bytes (ps_config p)" "length payload < 2 ^ 32"
    and "decode payload = Inr env" "protocol_version env = PROTOCOL_VERSION"
  shows "read_message decode (with_input p (frame payload @ rest)) = (with_input p rest, Inr env)"
proof -
  have "of_be_bytes (be_bytes 4 (length payload)) = length payload"
    using assms(3) by (intro of_be_be_bytes) simp
  with assms show ?thesis
    by (simp add: read_message_def frame_def Let_def validate_version_def with_input_def with_stream_def)
qed

lemma read_message_ok:
  assumes "read_message decode p = (p', Inr env)"
  shows "\<exists>payload rest. input_of p = frame payload @ rest \<and> payload \<noteq> [] \<and>
     length payload \<le> tc_max_message_bytes (ps_config p) \<and> length payload < 2 ^ 32 \<and>
     decode payload = Inr env \<and> protocol_version env = PROTOCOL_VERSION \<and> p' = with_input p rest"
proof -
  let ?header = "take 4 (input_of p)" and ?after = "drop 4 (input_of p)"
  let ?payload = "take (of_be_bytes ?header) ?after" and ?rest = "drop (of_be_bytes ?header) ?after"
  from assms have facts: "4 \<le> length (input_of p)" "of_be_bytes ?header \<noteq> 0"
      "of_be_bytes ?header \<le> tc_max_message_bytes (ps_config p)"
      "of_be_bytes ?header \<le> length ?after" "decode ?payload = Inr env"
      "protocol_version env = PROTOCOL_VERSION" "p' = with_input p ?rest"
    by (auto simp: read_message_def read_exact_def Let_def result_simps validate_version_def with_input_def
        with_stream_def not_less split: if_splits)
  have "length ?header = 4" using facts(1) by simp
  then have header: "be_bytes 4 (of_be_bytes ?header) = ?header" and less: "of_be_bytes ?header < 2 ^ 32"
    using be_of_be_bytes [of ?header 4] of_be_bytes_less [of ?header] by simp_all
  have len: "length ?payload = of_be_bytes ?header" using facts(4) by simp
  have "input_of p = ?header @ ?payload @ ?rest" by (metis append_take_drop_id)
  then have "input_of p = frame ?payload @ ?rest" by (simp only: frame_def len header append_assoc)
  moreover have "?payload \<noteq> []" using len facts(2) by (metis list.size(3))
  ultimately show ?thesis using facts len less by metis
qed

text \<open>
  A message is read exactly when the peer sent one: \<open>read_message\<close> returns an envelope if and only
  if the pending input starts with the big-endian length of a nonempty payload within the
  configured maximum, followed by the payload, the payload decodes to that envelope and its
  version is the supported one; then exactly this frame is consumed and all later bytes are left.
\<close>

theorem read_message_exact:
  "read_message decode p = (p', Inr env) \<longleftrightarrow>
     (\<exists>payload rest. input_of p = frame payload @ rest \<and> payload \<noteq> [] \<and>
        length payload \<le> tc_max_message_bytes (ps_config p) \<and> length payload < 2 ^ 32 \<and>
        decode payload = Inr env \<and> protocol_version env = PROTOCOL_VERSION \<and> p' = with_input p rest)"
proof
  assume "\<exists>payload rest. input_of p = frame payload @ rest \<and> payload \<noteq> [] \<and>
        length payload \<le> tc_max_message_bytes (ps_config p) \<and> length payload < 2 ^ 32 \<and>
        decode payload = Inr env \<and> protocol_version env = PROTOCOL_VERSION \<and> p' = with_input p rest"
  then obtain payload rest where *: "input_of p = frame payload @ rest" "payload \<noteq> []"
      "length payload \<le> tc_max_message_bytes (ps_config p)" "length payload < 2 ^ 32"
      "decode payload = Inr env" "protocol_version env = PROTOCOL_VERSION" "p' = with_input p rest"
    by blast
  then have "p = with_input p (frame payload @ rest)"
    by (cases p; cases "ps_stream p") (simp add: with_input_def with_stream_def)
  with read_message_frame [of payload p decode env rest] * show "read_message decode p = (p', Inr env)"
    by metis
qed (rule read_message_ok)

text \<open>
  Reading is bounded by the configuration, whatever the peer sends: every call leaves a suffix of
  the input after at most four bytes of header and one maximum payload, and a frame whose declared
  length exceeds the maximum is refused after its header alone.
\<close>

theorem read_message_bounded:
  assumes "read_message decode p = (p', r)"
  shows "\<exists>k. input_of p' = drop k (input_of p) \<and> k \<le> 4 + tc_max_message_bytes (ps_config p) \<and>
     (\<forall>n m. r = Inl (TE_MessageTooLarge n m) \<longrightarrow> k = 4 \<and> m = tc_max_message_bytes (ps_config p) \<and> m < n)"
proof -
  let ?d = "of_be_bytes (take 4 (input_of p))" and ?m = "tc_max_message_bytes (ps_config p)"
  consider "length (input_of p) < 4" | "4 \<le> length (input_of p)" "?d = 0 \<or> ?d > ?m"
    | "4 \<le> length (input_of p)" "?d \<noteq> 0" "?d \<le> ?m" by linarith
  then show ?thesis
  proof cases
    case 1
    with assms show ?thesis
      by (intro exI [of _ 4]) (auto simp: read_message_def read_exact_def)
  next
    case 2
    with assms show ?thesis
      by (intro exI [of _ 4]) (auto simp: read_message_def read_exact_def Let_def split: if_splits)
  next
    case 3
    with assms show ?thesis
      by (intro exI [of _ "4 + ?d"])
         (auto simp: read_message_def read_exact_def Let_def result_simps add.commute split: if_splits)
  qed
qed

subsection \<open>Round trip\<close>

fun write_messages ::
  "('a Envelope \<Rightarrow> nat + u8 list) \<Rightarrow> PeerStream \<Rightarrow> 'a list \<Rightarrow> PeerStream \<times> (TransportError + unit)" where
  "write_messages encode p [] = (p, Inr ())"
| "write_messages encode p (m # ms) =
     (case write_message encode p m of (p', Inl e) \<Rightarrow> (p', Inl e) | (p', Inr _) \<Rightarrow> write_messages encode p' ms)"

fun read_messages ::
  "(u8 list \<Rightarrow> nat + 'a Envelope) \<Rightarrow> nat \<Rightarrow> PeerStream \<Rightarrow> PeerStream \<times> (TransportError + 'a Envelope list)" where
  "read_messages decode 0 p = (p, Inr [])"
| "read_messages decode (Suc n) p =
     (case read_message decode p of (p', Inl e) \<Rightarrow> (p', Inl e)
      | (p', Inr env) \<Rightarrow> (case read_messages decode n p' of (p'', Inl e) \<Rightarrow> (p'', Inl e)
                        | (p'', Inr envs) \<Rightarrow> (p'', Inr (env # envs))))"

lemma write_message_ok:
  assumes "write_message encode p m = (p', Inr u)"
  shows "\<exists>payload. encode (envelope_current m) = Inr payload \<and> payload \<noteq> [] \<and>
     length payload \<le> tc_max_message_bytes (ps_config p) \<and> length payload < 2 ^ 32 \<and>
     output_of p' = output_of p @ frame payload \<and> ps_config p' = ps_config p"
  using assms
  by (auto simp: write_message_def Let_def frame_def not_less split: sum.splits if_splits prod.splits
      dest!: write_all_ok)

lemma write_messages_read_messages:
  assumes "write_messages encode p ms = (p', Inr ())"
    and "tc_max_message_bytes (ps_config p) \<le> tc_max_message_bytes (ps_config q)"
    and codec: "\<And>m payload. encode (envelope_current m) = Inr payload \<Longrightarrow> decode payload = Inr (envelope_current m)"
  shows "\<exists>wire. output_of p' = output_of p @ wire \<and>
     (\<forall>rest. read_messages decode (length ms) (with_input q (wire @ rest)) =
        (with_input q rest, Inr (map envelope_current ms)))"
  using assms(1,2)
proof (induction ms arbitrary: p)
  case Nil
  then show ?case by simp
next
  case (Cons m ms)
  from Cons.prems(1) obtain p1 where w: "write_message encode p m = (p1, Inr ())"
      "write_messages encode p1 ms = (p', Inr ())"
    by (auto split: prod.splits sum.splits)
  from write_message_ok [OF w(1)] obtain payload where
    pl: "encode (envelope_current m) = Inr payload" "payload \<noteq> []" "length payload < 2 ^ 32"
      "length payload \<le> tc_max_message_bytes (ps_config p)"
      "output_of p1 = output_of p @ frame payload" "ps_config p1 = ps_config p" by blast
  from Cons.IH [OF w(2)] Cons.prems(2) pl(6) obtain wire where
    wire: "output_of p' = output_of p1 @ wire"
      "\<And>rest. read_messages decode (length ms) (with_input q (wire @ rest)) =
        (with_input q rest, Inr (map envelope_current ms))" by auto
  have "read_message decode (with_input q (frame payload @ wire @ rest)) =
      (with_input q (wire @ rest), Inr (envelope_current m))" for rest
    using pl Cons.prems(2) codec [OF pl(1)]
    by (intro read_message_frame) (simp_all add: envelope_current_def)
  with wire pl(5) show ?case by (intro exI [of _ "frame payload @ wire"]) simp
qed

text \<open>
  Messages survive the transport: when the codec decodes what it encodes, whatever sequence of
  messages one end wrote without an error, an end with at least the same size limit that receives
  the written bytes reads back exactly these messages, in order, and leaves the bytes after them.
\<close>

theorem transport_roundtrip:
  assumes "write_messages encode p ms = (p', Inr ())" and "output_of p = []"
    and "tc_max_message_bytes (ps_config p) \<le> tc_max_message_bytes (ps_config q)"
    and codec: "\<And>m payload. encode (envelope_current m) = Inr payload \<Longrightarrow> decode payload = Inr (envelope_current m)"
  shows "read_messages decode (length ms) (with_input q (output_of p' @ rest)) =
    (with_input q rest, Inr (map envelope_current ms))"
  using write_messages_read_messages [OF assms(1,3) codec] assms(2) by auto

section \<open>The failure budget\<close>

text \<open>
  The specification counts over the answers of the listener: the streams handed to the handler and
  the failures since the last accepted stream; an empty attempt changes neither.
\<close>

definition accepted_stream :: "TransportConfig \<Rightarrow> IoError + Incoming \<Rightarrow> PeerStream option" where
  "accepted_stream t a = (case try_accept a t of Inr s \<Rightarrow> s | Inl _ \<Rightarrow> None)"

definition accepted_streams :: "TransportConfig \<Rightarrow> (IoError + Incoming) list \<Rightarrow> PeerStream list" where
  "accepted_streams t as = List.map_filter (accepted_stream t) as"

definition failure_streak :: "TransportConfig \<Rightarrow> nat \<Rightarrow> (IoError + Incoming) list \<Rightarrow> nat" where
  "failure_streak t n as =
     foldl (\<lambda>n a. case try_accept a t of Inr (Some _) \<Rightarrow> 0 | Inr None \<Rightarrow> n | Inl _ \<Rightarrow> Suc n) n as"

definition within_budget :: "TransportConfig \<Rightarrow> nat \<Rightarrow> nat \<Rightarrow> (IoError + Incoming) list \<Rightarrow> bool" where
  "within_budget t budget n as \<longleftrightarrow> (\<forall>j \<le> length as. failure_streak t n (take j as) < budget)"

lemma accepted_streams_simps [simp]:
  "accepted_streams t [] = []"
  "accepted_streams t (a # as) =
     (case accepted_stream t a of None \<Rightarrow> accepted_streams t as | Some s \<Rightarrow> s # accepted_streams t as)"
  by (simp_all add: accepted_streams_def map_filter_simps split: option.splits)

lemma failure_streak_simps [simp]:
  "failure_streak t n [] = n"
  "failure_streak t n (a # as) =
     failure_streak t (case try_accept a t of Inr (Some _) \<Rightarrow> 0 | Inr None \<Rightarrow> n | Inl _ \<Rightarrow> Suc n) as"
  by (simp_all add: failure_streak_def)

lemma within_budget_Nil [simp]: "within_budget t b n [] \<longleftrightarrow> n < b"
  by (simp add: within_budget_def)

lemma within_budget_Cons [simp]:
  "within_budget t b n (a # as) \<longleftrightarrow>
     n < b \<and> within_budget t b (case try_accept a t of Inr (Some _) \<Rightarrow> 0 | Inr None \<Rightarrow> n | Inl _ \<Rightarrow> Suc n) as"
  by (simp add: within_budget_def All_less_Suc2 flip: less_Suc_eq_le)

text \<open>What a finished loop has done with the answers it used.\<close>

definition loop_outcome ::
  "TransportConfig \<Rightarrow> AcceptLoopConfig \<Rightarrow> nat \<Rightarrow> nat \<Rightarrow> (IoError + Incoming) list \<Rightarrow>
   TransportError + AcceptLoopReport \<Rightarrow> PeerStream list \<Rightarrow> bool" where
  "loop_outcome t c accepted n used res handled \<longleftrightarrow>
     handled = accepted_streams t used \<and>
     accepted + length handled \<le> unat (al_max_connections c) \<and>
     (case res of
        Inr report \<Rightarrow> unat (ar_accepted_connections report) = accepted + length handled \<and>
                      within_budget t (unat (al_max_consecutive_failures c)) n used
      | Inl e \<Rightarrow> e = TE_AcceptFailureBudgetExceeded \<and> used \<noteq> [] \<and>
                 within_budget t (unat (al_max_consecutive_failures c)) n (butlast used) \<and>
                 failure_streak t n used = unat (al_max_consecutive_failures c))"

lemma loop_outcome_skip:
  assumes "loop_outcome t c accepted m used res handled" and "n < unat (al_max_consecutive_failures c)"
    and "(try_accept a t = Inr None \<and> m = n) \<or> ((\<exists>e. try_accept a t = Inl e) \<and> m = Suc n)"
  shows "loop_outcome t c accepted n (a # used) res handled"
  using assms by (cases res) (auto simp: loop_outcome_def accepted_stream_def)

lemma loop_outcome_handled:
  assumes "loop_outcome t c (Suc accepted) 0 used res handled" and "n < unat (al_max_consecutive_failures c)"
    and "try_accept a t = Inr (Some s)"
  shows "loop_outcome t c accepted n (a # used) res (s # handled)"
  using assms by (cases res) (auto simp: loop_outcome_def accepted_stream_def)

lemma checked_Suc_u16: "unat (f :: u16) < 1000 \<Longrightarrow> checked_add f 1 = Some (f + 1) \<and> unat (f + 1) = Suc (unat f)"
  by (simp add: checked_add_def unat_add_lt)

lemma accept_config_ok:
  "accept_config_validate c = Inr u \<Longrightarrow>
     0 < unat (al_max_consecutive_failures c) \<and> unat (al_max_consecutive_failures c) \<le> 1000 \<and>
     unat (al_max_connections c) \<le> 1000000"
  by (auto simp: accept_config_validate_def in_range_def word_le_nat_alt unat_gt_0 split: if_splits)

lemma unat_u64_inc: "(a :: u64) < b \<Longrightarrow> unat (a + 1) = Suc (unat a)"
  using unsigned_less [of b, where ?'a = nat] by (simp add: unat_word_ariths word_less_nat_alt)

lemma accept_loop_outcome:
  assumes "accept_loop t c answers report failures = Some (res, handled)"
    and "unat failures < unat (al_max_consecutive_failures c)"
    and "unat (al_max_consecutive_failures c) \<le> 1000"
    and "ar_accepted_connections report \<le> al_max_connections c"
  shows "\<exists>k. k \<le> length answers \<and> (\<forall>(stop, a) \<in> set (take k answers). \<not> stop) \<and>
     loop_outcome t c (unat (ar_accepted_connections report)) (unat failures) (map snd (take k answers)) res handled"
  using assms
proof (induction t c answers report failures arbitrary: handled rule: accept_loop.induct)
  case (1 t c report failures)
  then show ?case by (auto simp: loop_outcome_def word_le_nat_alt split: if_splits)
next
  case (2 t c stop answer rest report failures)
  show ?case
  proof (cases "ar_accepted_connections report < al_max_connections c \<and> \<not> stop")
    case False
    with "2.prems" show ?thesis by (intro exI [of _ 0]) (auto simp: loop_outcome_def word_le_nat_alt)
  next
    case True
    note running = True and step = "2.prems"(1) [unfolded accept_loop.simps if_P [OF True]]
    consider (accepted) s where "try_accept answer t = Inr (Some s)" | (empty) "try_accept answer t = Inr None"
      | (failed) e where "try_accept answer t = Inl e" by (cases "try_accept answer t"; auto)
    then show ?thesis
    proof cases
      case accepted
      let ?report = "report\<lparr>ar_accepted_connections := ar_accepted_connections report + 1\<rparr>"
      from step accepted obtain handled' where
        loop: "accept_loop t c rest ?report 0 = Some (res, handled')" and "handled = s # handled'" by auto
      have inc: "unat (ar_accepted_connections ?report) = Suc (unat (ar_accepted_connections report))"
        using running unat_u64_inc [of "ar_accepted_connections report" "al_max_connections c"] by simp
      then have "ar_accepted_connections ?report \<le> al_max_connections c"
        using running by (simp add: word_le_nat_alt word_less_nat_alt)
      moreover have "unat (0::u16) < unat (al_max_consecutive_failures c)" using "2.prems"(2) by simp
      ultimately obtain k where "k \<le> length rest" "\<forall>(stop, a) \<in> set (take k rest). \<not> stop"
          "loop_outcome t c (Suc (unat (ar_accepted_connections report))) 0 (map snd (take k rest)) res handled'"
        using "2.IH"(3) [OF running accepted refl loop _ "2.prems"(3)] inc by auto
      then show ?thesis
        using loop_outcome_handled accepted running "2.prems"(2) \<open>handled = s # handled'\<close>
        by (intro exI [of _ "Suc k"]) auto
    next
      case empty
      with step have loop: "accept_loop t c rest report failures = Some (res, handled)" by simp
      from "2.IH"(2) [OF running empty refl loop "2.prems"(2-4)] obtain k where
          "k \<le> length rest" "\<forall>(stop, a) \<in> set (take k rest). \<not> stop"
          "loop_outcome t c (unat (ar_accepted_connections report)) (unat failures) (map snd (take k rest)) res handled"
        by blast
      then show ?thesis
        using loop_outcome_skip empty running "2.prems"(2) by (intro exI [of _ "Suc k"]) auto
    next
      case failed
      let ?report = "report\<lparr>ar_initialization_failures := ar_initialization_failures report + 1\<rparr>"
      have inc: "checked_add failures 1 = Some (failures + 1)" "unat (failures + 1) = Suc (unat failures)"
        using checked_Suc_u16 [of failures] "2.prems"(2,3) by auto
      show ?thesis
      proof (cases "al_max_consecutive_failures c \<le> failures + 1")
        case True
        with step failed inc have "res = Inl TE_AcceptFailureBudgetExceeded" "handled = []" by auto
        moreover have "Suc (unat failures) = unat (al_max_consecutive_failures c)"
          using True inc(2) "2.prems"(2) by (simp add: word_le_nat_alt)
        ultimately show ?thesis
          using running failed "2.prems"(4)
          by (intro exI [of _ 1]) (auto simp: loop_outcome_def accepted_stream_def word_le_nat_alt)
      next
        case False
        with step failed inc have loop: "accept_loop t c rest ?report (failures + 1) = Some (res, handled)" by simp
        from False have less: "unat (failures + 1) < unat (al_max_consecutive_failures c)"
          by (simp add: word_le_nat_alt)
        from "2.IH"(1) [OF running failed inc(1) False loop less "2.prems"(3)] "2.prems"(4) obtain k where
            "k \<le> length rest" "\<forall>(stop, a) \<in> set (take k rest). \<not> stop"
            "loop_outcome t c (unat (ar_accepted_connections report)) (Suc (unat failures))
               (map snd (take k rest)) res handled"
          using inc(2) by auto
        then show ?thesis
          using loop_outcome_skip failed running "2.prems"(2) by (intro exI [of _ "Suc k"]) auto
      qed
    qed
  qed
qed

text \<open>
  The accept loop keeps its failure budget: when the loop returns, the handler was given exactly
  the streams of the initialized connections, in order, and at most \<open>max_connections\<close> of them. It
  returned a report because no streak of failures reached \<open>max_consecutive_failures\<close>, and the report
  counts the handled connections; or it returned the budget error because the last answer completed
  a streak of exactly that many failures, the first such streak. No used answer of \<open>should_stop\<close> was
  true.
\<close>

theorem accept_loop_budget:
  assumes "run_accept_loop t c (Inr ()) answers = Some (res, handled)"
    and "transport_config_validate t = Inr ()" and "accept_config_validate c = Inr ()"
  shows "\<exists>k \<le> length answers. (\<forall>(stop, a) \<in> set (take k answers). \<not> stop) \<and>
     loop_outcome t c 0 0 (map snd (take k answers)) res handled"
proof -
  note bounds = accept_config_ok [OF assms(3)]
  have "accept_loop t c answers \<lparr>ar_accepted_connections = 0, ar_initialization_failures = 0\<rparr> 0 = Some (res, handled)"
    using assms by (simp add: run_accept_loop_def)
  from accept_loop_outcome [OF this] bounds show ?thesis by auto
qed

section \<open>The listener's path\<close>

text \<open>The parent directory the bind requires.\<close>

definition secure_directory :: "u32 \<Rightarrow> FsEntry \<Rightarrow> bool" where
  "secure_directory uid e \<longleftrightarrow> fe_kind e = FkDirectory \<and> fe_uid e = uid \<and> fe_mode e AND 0x12 = 0"

definition socket_of :: "SecureListener \<Rightarrow> FsEntry \<Rightarrow> bool" where
  "socket_of l e \<longleftrightarrow> fe_kind e = FkSocket \<and> fe_device e = si_device (sl_identity l) \<and>
     fe_inode e = si_inode (sl_identity l)"

text \<open>
  A listener is bound only where it is safe: when \<open>bind_owned\<close> returns a listener, the mode is
  0600 or 0660, the parent was a real directory of the required owner that neither group nor others
  may write, nothing existed at the path, and the path now holds the socket whose device and inode
  the listener recorded; with no interference it has the requested mode and every other path is
  untouched.
\<close>

theorem bind_owned_secure:
  assumes "bind_owned w fs path mode uid = (fs', Inr l)"
  shows "mode \<in> {0x180, 0x1B0} \<and> path \<noteq> [] \<and>
     (\<exists>d. fs (butlast path) = Some d \<and> secure_directory uid d) \<and> fs path = None \<and>
     sl_path l = path \<and> \<not> sl_cleaned l \<and> (\<exists>e. fs' path = Some e \<and> socket_of l e) \<and>
     (bw_others w = id \<longrightarrow> map_option fe_mode (fs' path) = Some mode \<and> (\<forall>p. p \<noteq> path \<longrightarrow> fs' p = fs p))"
proof -
  from assms obtain d e where
    mode: "mode = 0x180 \<or> mode = 0x1B0" and path: "path \<noteq> []" and
    parent: "fs (butlast path) = Some d" "secure_directory uid d" and
    free: "fs path = None" and
    made: "fs' = bw_others w (fs(path \<mapsto> (bw_new_inode w)\<lparr>fe_kind := FkSocket, fe_mode := mode\<rparr>))" and
    entry: "fs' path = Some e" "fe_kind e = FkSocket" and
    l: "l = \<lparr>sl_path = path, sl_identity = \<lparr>si_device = fe_device e, si_inode = fe_inode e\<rparr>, sl_cleaned = False\<rparr>"
    by (auto simp: bind_owned_def path_parent_def symlink_metadata_def unix_bind_def set_permissions_def
        secure_directory_def Let_def result_simps split: if_splits option.splits sum.splits prod.splits)
  from mode path parent free made entry l show ?thesis by (auto simp: socket_of_def)
qed

lemma remove_owned_path_effect:
  assumes "remove_owned_path faults fs l = (fs', r)"
  shows "fs' = fs \<or> (fs' = fs(sl_path l := None) \<and> (\<exists>e. fs (sl_path l) = Some e \<and> socket_of l e))"
  using assms
  by (auto simp: remove_owned_path_def symlink_metadata_def remove_file_def socket_of_def result_simps
      split: option.splits sum.splits prod.splits if_splits)

lemma remove_owned_path_ok:
  "remove_owned_path faults fs l = (fs', Inr u) \<Longrightarrow> fst faults \<noteq> Some IoNotFound \<Longrightarrow> fs' (sl_path l) = None"
  by (auto simp: remove_owned_path_def symlink_metadata_def remove_file_def result_simps
      split: option.splits sum.splits prod.splits if_splits)

lemma listener_drop_effect:
  "listener_drop faults fs l = fs \<or>
   (listener_drop faults fs l = fs(sl_path l := None) \<and> (\<exists>e. fs (sl_path l) = Some e \<and> socket_of l e))"
  using remove_owned_path_effect [OF surjective_pairing, of faults fs l] by (auto simp: listener_drop_def)

text \<open>
  Cleanup removes nothing but the listener's own socket: whatever the tree has become, the
  cleanup and the drop that follows it leave every path as it is, except that the listener's path
  is removed, and then it held a socket with the recorded device and inode. When cleanup succeeds
  (and the kernel does not report an existing entry as missing) the path is gone.
\<close>

theorem listener_cleanup_own:
  assumes "listener_cleanup faults drop_faults fs l = (fs', r)"
  shows "(fs' = fs \<or> (fs' = fs(sl_path l := None) \<and> (\<exists>e. fs (sl_path l) = Some e \<and> socket_of l e))) \<and>
     (is_ok r \<and> fst faults \<noteq> Some IoNotFound \<longrightarrow> fs' (sl_path l) = None)"
proof -
  obtain fs1 r1 where one: "remove_owned_path faults fs l = (fs1, r1)" by (cases "remove_owned_path faults fs l")
  show ?thesis
  proof (cases r1)
    case (Inl e)
    with one assms have "fs' = listener_drop drop_faults fs1 l" "r = Inl e"
      by (auto simp: listener_cleanup_def)
    with remove_owned_path_effect [OF one] listener_drop_effect [of drop_faults fs1 l] show ?thesis
      by (auto simp: fun_upd_idem)
  next
    case (Inr u)
    with one assms have "fs' = fs1" by (auto simp: listener_cleanup_def listener_drop_def)
    with remove_owned_path_effect [OF one] remove_owned_path_ok [of faults fs l fs1 u] one Inr show ?thesis by auto
  qed
qed

section \<open>Witnesses\<close>

definition ex_encode :: "u8 Envelope \<Rightarrow> nat + u8 list" where
  "ex_encode e = Inr [ucast (protocol_version e), message e]"

definition ex_decode :: "u8 list \<Rightarrow> nat + u8 Envelope" where
  "ex_decode bytes = (case bytes of [v, m] \<Rightarrow> Inr \<lparr>protocol_version = ucast v, message = m\<rparr> | _ \<Rightarrow> Inl 1)"

definition ex_peer :: "u8 list \<Rightarrow> PeerStream" where
  "ex_peer input = \<lparr>ps_stream = \<lparr>bs_input = input, bs_input_end = IoTimedOut, bs_output = [], bs_output_fault = None\<rparr>,
     ps_peer = \<lparr>peer_pid = 9, peer_uid = 1000, peer_gid = 1000\<rparr>, ps_peer_pidfd = 3,
     ps_config = transport_config_default\<rparr>"

lemma ex_codec: "ex_encode (envelope_current m) = Inr payload \<Longrightarrow> ex_decode payload = Inr (envelope_current m)"
  by (auto simp: ex_encode_def ex_decode_def envelope_current_def PROTOCOL_VERSION_def)

theorem transport_roundtrip_witness:
  "read_messages ex_decode (length [5, 6 :: u8]) (with_input (ex_peer []) (output_of (fst (write_messages ex_encode (ex_peer []) [5, 6])) @ [9])) =
     (with_input (ex_peer []) [9], Inr (map envelope_current [5, 6]))"
proof -
  have "write_messages ex_encode (ex_peer []) [5, 6] = (fst (write_messages ex_encode (ex_peer []) [5, 6]), Inr ())"
    by (simp add: write_message_def write_all_def ex_encode_def ex_peer_def transport_config_default_def
        DEFAULT_MAX_MESSAGE_BYTES_def with_stream_def Let_def)
  moreover have "output_of (ex_peer []) = []" by (simp add: ex_peer_def)
  ultimately show ?thesis by (rule transport_roundtrip [OF _ _ order_refl ex_codec])
qed

theorem read_message_bounded_witness:
  "\<exists>k. input_of (fst (read_message ex_decode (ex_peer [1, 0, 0, 0, 7]))) = drop k [1, 0, 0, 0, 7] \<and>
     k \<le> 4 + tc_max_message_bytes (ps_config (ex_peer [1, 0, 0, 0, 7])) \<and>
     (\<forall>n m. snd (read_message ex_decode (ex_peer [1, 0, 0, 0, 7])) = Inl (TE_MessageTooLarge n m) \<longrightarrow>
        k = 4 \<and> m = tc_max_message_bytes (ps_config (ex_peer [1, 0, 0, 0, 7])) \<and> m < n)"
  using read_message_bounded [of ex_decode "ex_peer [1, 0, 0, 0, 7]", OF surjective_pairing]
  by (simp add: ex_peer_def)

definition ex_accept_config :: AcceptLoopConfig where
  "ex_accept_config = accept_config_default\<lparr>al_max_consecutive_failures := 2\<rparr>"

definition ex_incoming :: Incoming where
  "ex_incoming = \<lparr>in_stream = ps_stream (ex_peer []), in_credentials = Inr (9, 1000, 1000), in_pidfd = Inr 3,
     in_read_timeout = Inr (), in_write_timeout = Inr ()\<rparr>"

definition ex_answers :: "(bool \<times> (IoError + Incoming)) list" where
  "ex_answers = [(False, Inl (IoOther 24)), (False, Inr ex_incoming), (False, Inl IoWouldBlock),
     (False, Inl (IoOther 24)), (False, Inl IoTimedOut)]"

theorem accept_loop_budget_witness:
  "\<exists>k \<le> length ex_answers. (\<forall>(stop, a) \<in> set (take k ex_answers). \<not> stop) \<and>
     loop_outcome transport_config_default ex_accept_config 0 0 (map snd (take k ex_answers))
       (Inl TE_AcceptFailureBudgetExceeded) [ex_peer []]"
  by (rule accept_loop_budget)
     (simp_all add: run_accept_loop_def transport_config_validate_def transport_config_default_def in_range_def
        accept_config_validate_def ex_accept_config_def accept_config_default_def ex_answers_def ex_incoming_def
        ex_peer_def try_accept_def connect_def checked_add_def from_millis_def from_secs_def
        DEFAULT_MAX_MESSAGE_BYTES_def ABSOLUTE_MAX_MESSAGE_BYTES_def word_le_nat_alt word_less_nat_alt)

definition ex_world :: bind_world where
  "ex_world = \<lparr>bw_parent_fault = None, bw_path_fault = None, bw_bind_fault = None, bw_chmod_fault = None,
     bw_created_fault = None, bw_remove_fault = None,
     bw_new_inode = \<lparr>fe_kind = FkSocket, fe_uid = 0, fe_mode = 0x1ED, fe_device = 4, fe_inode = 11\<rparr>, bw_others = id\<rparr>"

definition ex_fs :: Filesystem where
  "ex_fs = (\<lambda>p. if p = [''run'']
     then Some \<lparr>fe_kind = FkDirectory, fe_uid = 0, fe_mode = 0x41ED, fe_device = 4, fe_inode = 2\<rparr> else None)"

definition ex_listener :: SecureListener where
  "ex_listener = \<lparr>sl_path = [''run'', ''faceauth''], sl_identity = \<lparr>si_device = 4, si_inode = 11\<rparr>, sl_cleaned = False\<rparr>"

lemma ex_bind:
  "bind_owned ex_world ex_fs [''run'', ''faceauth''] 0x1B0 0 =
     (fst (bind_owned ex_world ex_fs [''run'', ''faceauth''] 0x1B0 0), Inr ex_listener)"
  by (simp add: bind_owned_def path_parent_def symlink_metadata_def unix_bind_def set_permissions_def Let_def
      ex_world_def ex_fs_def ex_listener_def)

theorem bind_owned_secure_witness:
  "ex_fs [''run'', ''faceauth''] = None \<and> \<not> sl_cleaned ex_listener"
  using bind_owned_secure [OF ex_bind] by blast

theorem listener_cleanup_own_witness:
  "fst (listener_cleanup (None, None) (None, None) (fst (bind_owned ex_world ex_fs [''run'', ''faceauth''] 0x1B0 0)) ex_listener)
     [''run'', ''faceauth''] = None"
proof -
  let ?c = "listener_cleanup (None, None) (None, None) (fst (bind_owned ex_world ex_fs [''run'', ''faceauth''] 0x1B0 0)) ex_listener"
  have "is_ok (snd ?c)"
    by (simp add: listener_cleanup_def remove_owned_path_def remove_file_def bind_owned_def path_parent_def
        symlink_metadata_def unix_bind_def set_permissions_def Let_def ex_world_def ex_fs_def ex_listener_def)
  with listener_cleanup_own [of "(None, None)" "(None, None)" _ ex_listener, OF surjective_pairing] show ?thesis
    by (simp add: ex_listener_def)
qed

end
