(* ===== verification/Calibration.thy ===== *)
theory Calibration
  imports Ieee
begin

text \<open>
  The configuration side of \<open>crates/faceauth-quality/src/lib.rs\<close>: face geometry, the three kinds of
  calibration with their scores, weights and the validated configuration. The locale \<open>calibration\<close>
  is the contract of a score; the three kinds of the code interpret it.
\<close>

section \<open>Scores\<close>

text \<open>
  A score is a number of the unit interval, unless the arithmetic left the finite numbers: then it
  is NaN or positive infinity, which the assessment rejects at its end.
\<close>

definition unit_score :: "fp \<Rightarrow> bool" where
  "unit_score x \<longleftrightarrow> fp_in 0 1 x"

definition score_like :: "fp \<Rightarrow> bool" where
  "score_like x \<longleftrightarrow> unit_score x \<or> x = NaN \<or> x = Infinity False"

lemma unit_score_Finite: "unit_score x \<longleftrightarrow> (\<exists>r. x = Finite r \<and> 0 \<le> r \<and> r \<le> 1)"
  by (simp add: unit_score_def fp_in_Finite)

lemma score_like_simps [simp]:
  "score_like (Finite r) \<longleftrightarrow> 0 \<le> r \<and> r \<le> 1" "score_like NaN" "score_like (Infinity s) \<longleftrightarrow> \<not> s"
  by (auto simp: score_like_def unit_score_Finite)

lemma score_like_finite: "score_like x \<Longrightarrow> is_finite x \<Longrightarrow> unit_score x"
  by (auto simp: score_like_def)

lemma score_like_min [intro]: "score_like a \<Longrightarrow> score_like b \<Longrightarrow> score_like (fp_min a b)"
  by (auto simp: fp_min_def)

lemma score_like_clamp [intro]: "score_like (fp_clamp 0 1 x)"
  using fp_clamp_in [of x 0 1] by (cases "is_nan x"; cases x) (auto simp: score_like_def unit_score_def fp_clamp_def)

locale calibration =
  fixes valid :: "'c \<Rightarrow> bool" and score :: "'c \<Rightarrow> fp \<Rightarrow> fp"
    and ideal :: "'c \<Rightarrow> rat \<Rightarrow> bool" and rejected :: "'c \<Rightarrow> rat \<Rightarrow> bool"
    and well_scaled :: "'c \<Rightarrow> bool"
  assumes score_like: "valid c \<Longrightarrow> score_like (score c x)"
    and ideal_one: "valid c \<Longrightarrow> well_scaled c \<Longrightarrow> ideal c v \<Longrightarrow> \<bar>v\<bar> \<le> 1000 \<Longrightarrow> score c (Finite v) = Finite 1"
    and rejected_zero: "valid c \<Longrightarrow> well_scaled c \<Longrightarrow> rejected c v \<Longrightarrow> \<bar>v\<bar> \<le> 1000 \<Longrightarrow> score c (Finite v) = Finite 0"
begin

lemma finite_unit: "valid c \<Longrightarrow> is_finite (score c v) \<Longrightarrow> unit_score (score c v)"
  by (rule score_like_finite [OF score_like])

lemma min_score_like: "valid c \<Longrightarrow> score_like s \<Longrightarrow> score_like (fp_min (score c v) s)"
  by (rule score_like_min [OF score_like])

lemma rejected_dominates:
  assumes "valid c" "well_scaled c" "rejected c v" "\<bar>v\<bar> \<le> 1000" "score_like s"
  shows "fp_min (score c (Finite v)) s = Finite 0"
  using assms(5) by (cases s) (auto simp: rejected_zero [OF assms(1-4)] fp_min_def)

lemma ideal_neutral:
  assumes "valid c" "well_scaled c" "ideal c v" "\<bar>v\<bar> \<le> 1000" "unit_score s"
  shows "fp_min (score c (Finite v)) s = s"
  using assms(5) by (auto simp: ideal_one [OF assms(1-4)] fp_min_def unit_score_Finite)

end

section \<open>Rounded differences\<close>

lemma fp_order_Infinity [simp]:
  "fp_le (Finite a) (Infinity s) \<longleftrightarrow> \<not> s" "fp_le (Infinity s) (Finite a) \<longleftrightarrow> s"
  "fp_lt (Finite a) (Infinity s) \<longleftrightarrow> \<not> s" "fp_lt (Infinity s) (Finite a) \<longleftrightarrow> s"
  by (cases s; simp)+

text \<open>A value of the format.\<close>

definition representable :: "format \<Rightarrow> rat \<Rightarrow> bool" where
  "representable fmt x \<longleftrightarrow> rnd fmt x = Finite x"

lemma representable_grid:
  assumes "representable fmt x"
  shows "\<exists>k :: int. x = of_int k * pow2 (min_exp fmt)"
proof -
  let ?q = "quantum_exp fmt \<bar>x\<bar>"
  from assms have "\<bar>x\<bar> = round_mag fmt \<bar>x\<bar>"
    by (auto simp: representable_def rnd_def Let_def split: if_splits)
  then have "\<exists>k :: int. \<bar>x\<bar> = of_int k * pow2 (min_exp fmt)"
  proof (cases "x = 0")
    case False
    have q: "min_exp fmt \<le> ?q" by (simp add: quantum_exp_def)
    obtain n :: int where n: "\<bar>x\<bar> = of_int n * pow2 ?q"
      using \<open>\<bar>x\<bar> = round_mag fmt \<bar>x\<bar>\<close> False by (auto simp: round_mag_def Let_def)
    have "pow2 ?q = of_int (2 ^ nat (?q - min_exp fmt)) * pow2 (min_exp fmt)"
      using pow2_ratio_int [OF q] by (simp add: field_simps)
    with n have "\<bar>x\<bar> = of_int (n * 2 ^ nat (?q - min_exp fmt)) * pow2 (min_exp fmt)"
      by (simp add: mult.assoc)
    then show ?thesis by blast
  qed (auto intro: exI [of _ 0])
  then obtain k where "\<bar>x\<bar> = of_int k * pow2 (min_exp fmt)" by blast
  then show ?thesis by (cases "0 \<le> x") (auto intro: exI [of _ k] exI [of _ "- k"])
qed

lemma rnd_min_pow2: "rnd fmt (pow2 (min_exp fmt)) = Finite (pow2 (min_exp fmt))"
  using rnd_exact_nonneg [of 1 fmt "min_exp fmt"] by (cases fmt) simp_all

lemma rnd_difference_pos:
  assumes "representable fmt a" "representable fmt b" "a < b"
  shows "fp_le (Finite (pow2 (min_exp fmt))) (rnd fmt (b - a))"
proof -
  obtain j k :: int where a: "a = of_int j * pow2 (min_exp fmt)" and b: "b = of_int k * pow2 (min_exp fmt)"
    using representable_grid [OF assms(1)] representable_grid [OF assms(2)] by blast
  with assms(3) have "(of_int j :: rat) < of_int k" by (simp add: mult_less_cancel_right)
  then have "(1 :: rat) \<le> of_int (k - j)" by simp
  then have "pow2 (min_exp fmt) \<le> of_int (k - j) * pow2 (min_exp fmt)"
    using mult_right_mono [of 1 "of_int (k - j)" "pow2 (min_exp fmt)"] by simp
  also have "\<dots> = b - a" by (simp add: a b left_diff_distrib)
  finally show ?thesis using rnd_mono [of "pow2 (min_exp fmt)" "b - a" fmt] by (simp add: rnd_min_pow2)
qed

lemma rnd_2000: "rnd F32 2000 = Finite 2000" "rnd F32 (- 2000) = Finite (- 2000)"
  using rnd_of_nat_small [of 2000 F32] rnd_neg [of 2000 F32] by simp_all

lemma rnd_difference_finite:
  assumes "\<bar>a\<bar> \<le> 1000" "\<bar>b\<bar> \<le> 1000"
  obtains r where "rnd F32 (b - a) = Finite r"
proof -
  have "- 2000 \<le> b - a" "b - a \<le> 2000" using assms by linarith+
  from rnd_between [OF rnd_2000(2,1) this] show thesis by (metis that)
qed

lemma rnd_difference:
  assumes "representable F32 a" "representable F32 b" "a < b" "\<bar>a\<bar> \<le> 1000" "\<bar>b\<bar> \<le> 1000"
  obtains d where "rnd F32 (b - a) = Finite d" "0 < d"
proof -
  obtain d where d: "rnd F32 (b - a) = Finite d" by (rule rnd_difference_finite [OF assms(4,5)])
  moreover have "0 < d" using rnd_difference_pos [OF assms(1-3)] pow2_pos [of "min_exp F32"]
    unfolding d fp_le.simps by linarith
  ultimately show ?thesis by (rule that)
qed

lemma rnd_le_Finite: "x \<le> y \<Longrightarrow> rnd fmt x = Finite r \<Longrightarrow> rnd fmt y = Finite s \<Longrightarrow> r \<le> s"
  using rnd_mono [of x y fmt] by simp

lemma clamp_rnd_ge_one: "1 \<le> x \<Longrightarrow> fp_clamp 0 1 (rnd fmt x) = Finite 1"
  using rnd_mono [of 1 x fmt] by (cases "rnd fmt x") (auto simp: fp_clamp_def)

lemma clamp_rnd_le_zero: "x \<le> 0 \<Longrightarrow> fp_clamp 0 1 (rnd fmt x) = Finite 0"
  using rnd_mono [of x 0 fmt] by (cases "rnd fmt x") (auto simp: fp_clamp_def)

section \<open>Geometry\<close>

datatype QualityError =
  QE_UnsupportedImageFormat
| QE_InvalidYuyvDimensions u32
| QE_InvalidImageDimensions u32 u32
| QE_DimensionOverflow
| QE_AbsoluteImageLimitExceeded nat nat
| QE_ConfiguredImageLimitExceeded nat nat
| QE_ImageLengthMismatch nat nat
| QE_InvalidConfig
| QE_InvalidGeometry
| QE_FaceBoxOutsideImage
| QE_FaceRegionTooSmall nat nat
| QE_Cancelled
| QE_InvalidComputation

record FaceGeometry =
  fg_center_x :: fp
  fg_center_y :: fp
  fg_width :: fp
  fg_height :: fp
  fg_yaw_degrees :: fp
  fg_pitch_degrees :: fp
  fg_roll_degrees :: fp
  fg_landmark_confidence :: fp
  fg_visible_fraction :: fp

definition geometry_validate :: "FaceGeometry \<Rightarrow> QualityError + unit" where
  "geometry_validate g =
     (let values = [fg_center_x g, fg_center_y g, fg_width g, fg_height g, fg_yaw_degrees g,
            fg_pitch_degrees g, fg_roll_degrees g, fg_landmark_confidence g, fg_visible_fraction g]
      in if list_ex (\<lambda>v. \<not> is_finite v) values
            \<or> \<not> fp_in 0 1 (fg_center_x g) \<or> \<not> fp_in 0 1 (fg_center_y g)
            \<or> \<not> fp_in 0 1 (fg_width g) \<or> \<not> fp_in 0 1 (fg_height g)
            \<or> fp_eq (fg_width g) (Finite 0) \<or> fp_eq (fg_height g) (Finite 0)
            \<or> \<not> fp_in 0 1 (fg_landmark_confidence g) \<or> \<not> fp_in 0 1 (fg_visible_fraction g)
            \<or> \<not> fp_in (- 90) 90 (fg_yaw_degrees g) \<or> \<not> fp_in (- 90) 90 (fg_pitch_degrees g)
            \<or> \<not> fp_in (- 180) 180 (fg_roll_degrees g)
         then Inl QE_InvalidGeometry
         else let half_width = fp_div F32 (fg_width g) (Finite 2);
                  half_height = fp_div F32 (fg_height g) (Finite 2)
         in if fp_lt (fg_center_x g) half_width
               \<or> fp_lt (Finite 1) (fp_add F32 (fg_center_x g) half_width)
               \<or> fp_lt (fg_center_y g) half_height
               \<or> fp_lt (Finite 1) (fp_add F32 (fg_center_y g) half_height)
            then Inl QE_FaceBoxOutsideImage else Inr ())"

section \<open>Calibrations\<close>

record BandCalibration =
  bc_reject_below :: fp
  bc_ideal_min :: fp
  bc_ideal_max :: fp
  bc_reject_above :: fp

definition band_validate :: "BandCalibration \<Rightarrow> bool" where
  "band_validate c \<longleftrightarrow>
     list_all is_finite [bc_reject_below c, bc_ideal_min c, bc_ideal_max c, bc_reject_above c]
     \<and> fp_lt (bc_reject_below c) (bc_ideal_min c) \<and> fp_le (bc_ideal_min c) (bc_ideal_max c)
     \<and> fp_lt (bc_ideal_max c) (bc_reject_above c)"

definition band_score :: "BandCalibration \<Rightarrow> fp \<Rightarrow> fp" where
  "band_score c v =
     (if fp_le v (bc_reject_below c) \<or> fp_le (bc_reject_above c) v then Finite 0
      else if fp_lt v (bc_ideal_min c)
      then fp_div F32 (fp_sub F32 v (bc_reject_below c)) (fp_sub F32 (bc_ideal_min c) (bc_reject_below c))
      else if fp_le v (bc_ideal_max c) then Finite 1
      else fp_div F32 (fp_sub F32 (bc_reject_above c) v) (fp_sub F32 (bc_reject_above c) (bc_ideal_max c)))"

record LowerBoundCalibration =
  lb_reject_at_or_below :: fp
  lb_ideal_at_or_above :: fp

definition lower_validate :: "LowerBoundCalibration \<Rightarrow> bool" where
  "lower_validate c \<longleftrightarrow> is_finite (lb_reject_at_or_below c) \<and> is_finite (lb_ideal_at_or_above c)
     \<and> fp_lt (lb_reject_at_or_below c) (lb_ideal_at_or_above c)"

definition lower_score :: "LowerBoundCalibration \<Rightarrow> fp \<Rightarrow> fp" where
  "lower_score c v =
     fp_clamp 0 1 (fp_div F32 (fp_sub F32 v (lb_reject_at_or_below c))
                              (fp_sub F32 (lb_ideal_at_or_above c) (lb_reject_at_or_below c)))"

record DeviationCalibration =
  dc_ideal_at_or_below :: fp
  dc_reject_at_or_above :: fp

definition deviation_validate :: "DeviationCalibration \<Rightarrow> bool" where
  "deviation_validate c \<longleftrightarrow> is_finite (dc_ideal_at_or_below c) \<and> is_finite (dc_reject_at_or_above c)
     \<and> fp_le (Finite 0) (dc_ideal_at_or_below c)
     \<and> fp_lt (dc_ideal_at_or_below c) (dc_reject_at_or_above c)"

definition deviation_score :: "DeviationCalibration \<Rightarrow> fp \<Rightarrow> fp" where
  "deviation_score c v =
     fp_clamp 0 1 (fp_div F32 (fp_sub F32 (dc_reject_at_or_above c) v)
                              (fp_sub F32 (dc_reject_at_or_above c) (dc_ideal_at_or_below c)))"

text \<open>The points of a calibration are single-precision values of the size the configuration admits.\<close>

definition scaled_f32 :: "fp \<Rightarrow> bool" where
  "scaled_f32 x \<longleftrightarrow> (case x of Finite r \<Rightarrow> representable F32 r \<and> \<bar>r\<bar> \<le> 1000 | _ \<Rightarrow> False)"

lemma scaled_f32E: "scaled_f32 x \<Longrightarrow> (\<And>r. x = Finite r \<Longrightarrow> representable F32 r \<Longrightarrow> \<bar>r\<bar> \<le> 1000 \<Longrightarrow> P) \<Longrightarrow> P"
  by (cases x) (auto simp: scaled_f32_def)

definition band_ideal :: "BandCalibration \<Rightarrow> rat \<Rightarrow> bool" where
  "band_ideal c v \<longleftrightarrow> fp_le (bc_ideal_min c) (Finite v) \<and> fp_le (Finite v) (bc_ideal_max c)"

definition band_rejected :: "BandCalibration \<Rightarrow> rat \<Rightarrow> bool" where
  "band_rejected c v \<longleftrightarrow> fp_le (Finite v) (bc_reject_below c) \<or> fp_le (bc_reject_above c) (Finite v)"

definition band_scaled :: "BandCalibration \<Rightarrow> bool" where
  "band_scaled c \<longleftrightarrow> list_all scaled_f32 [bc_reject_below c, bc_ideal_min c, bc_ideal_max c, bc_reject_above c]"

definition lower_ideal :: "LowerBoundCalibration \<Rightarrow> rat \<Rightarrow> bool" where
  "lower_ideal c v \<longleftrightarrow> fp_le (lb_ideal_at_or_above c) (Finite v)"

definition lower_rejected :: "LowerBoundCalibration \<Rightarrow> rat \<Rightarrow> bool" where
  "lower_rejected c v \<longleftrightarrow> fp_le (Finite v) (lb_reject_at_or_below c)"

definition lower_scaled :: "LowerBoundCalibration \<Rightarrow> bool" where
  "lower_scaled c \<longleftrightarrow> scaled_f32 (lb_reject_at_or_below c) \<and> scaled_f32 (lb_ideal_at_or_above c)"

definition deviation_ideal :: "DeviationCalibration \<Rightarrow> rat \<Rightarrow> bool" where
  "deviation_ideal c v \<longleftrightarrow> fp_le (Finite v) (dc_ideal_at_or_below c)"

definition deviation_rejected :: "DeviationCalibration \<Rightarrow> rat \<Rightarrow> bool" where
  "deviation_rejected c v \<longleftrightarrow> fp_le (dc_reject_at_or_above c) (Finite v)"

definition deviation_scaled :: "DeviationCalibration \<Rightarrow> bool" where
  "deviation_scaled c \<longleftrightarrow> scaled_f32 (dc_ideal_at_or_below c) \<and> scaled_f32 (dc_reject_at_or_above c)"

lemma ramp_clamped:
  assumes "representable F32 a" "representable F32 b" "a < b" "\<bar>a\<bar> \<le> 1000" "\<bar>b\<bar> \<le> 1000"
    and n: "rnd F32 n = Finite m"
  shows "b - a \<le> n \<Longrightarrow> fp_clamp 0 1 (fp_div F32 (rnd F32 n) (rnd F32 (b - a))) = Finite 1"
    and "n \<le> 0 \<Longrightarrow> fp_clamp 0 1 (fp_div F32 (rnd F32 n) (rnd F32 (b - a))) = Finite 0"
proof -
  obtain d where d: "rnd F32 (b - a) = Finite d" "0 < d" by (rule rnd_difference [OF assms(1-5)])
  show "fp_clamp 0 1 (fp_div F32 (rnd F32 n) (rnd F32 (b - a))) = Finite 1" if "b - a \<le> n"
    using rnd_le_Finite [OF that d(1) n] d(2) by (simp add: d(1) n clamp_rnd_ge_one)
  show "fp_clamp 0 1 (fp_div F32 (rnd F32 n) (rnd F32 (b - a))) = Finite 0" if "n \<le> 0"
    using rnd_le_Finite [OF that n rnd_0] d(2) by (simp add: d(1) n clamp_rnd_le_zero divide_nonpos_pos)
qed

text \<open>A quotient of a smaller by a larger nonnegative difference scores without clamping.\<close>

lemma ramp_score_like:
  assumes "0 \<le> n" "n \<le> d"
  shows "score_like (fp_div F32 (rnd F32 n) (rnd F32 d))"
proof -
  have n: "fp_le (Finite 0) (rnd F32 n)" using rnd_mono [OF assms(1), of F32] by simp
  have nd: "fp_le (rnd F32 n) (rnd F32 d)" using rnd_mono [OF assms(2)] .
  show ?thesis
  proof (cases "rnd F32 n")
    case (Finite m)
    then show ?thesis
    proof (cases "rnd F32 d")
      case (Finite e)
      with \<open>rnd F32 n = Finite m\<close> n nd have "0 \<le> m" "m \<le> e" by auto
      then have "0 \<le> m / e" "m / e \<le> 1" by (auto simp: divide_le_eq)
      then have "unit_score (rnd F32 (m / e))" unfolding unit_score_def by (rule rnd_unit)
      with \<open>rnd F32 n = Finite m\<close> Finite \<open>0 \<le> m\<close> show ?thesis
        by (auto simp: signed_inf_def score_like_def sgn_if)
    next
      case (Infinity s)
      with \<open>rnd F32 n = Finite m\<close> show ?thesis by simp
    qed (use \<open>rnd F32 n = Finite m\<close> in simp)
  next
    case (Infinity s)
    with nd n have "rnd F32 d = Infinity False" by (cases "rnd F32 d"; cases s) (auto elim: fp_le.elims)
    with Infinity show ?thesis by simp
  qed simp
qed

lemma band_score_like: "band_validate c \<Longrightarrow> score_like (band_score c v)"
proof -
  assume "band_validate c"
  then obtain a b p q where c: "bc_reject_below c = Finite a" "bc_ideal_min c = Finite b"
      "bc_ideal_max c = Finite p" "bc_reject_above c = Finite q" and lt: "a < b" "b \<le> p" "p < q"
    by (auto simp: band_validate_def elim!: is_finiteE)
  show ?thesis
  proof (cases v)
    case (Finite r)
    then show ?thesis
      using lt ramp_score_like [of "r - a" "b - a"] ramp_score_like [of "q - r" "q - p"]
      by (auto simp: band_score_def c fp_sub_def)
  next
    case (Infinity s)
    then show ?thesis by (auto simp: band_score_def c)
  next
    case NaN
    then show ?thesis by (simp add: band_score_def c fp_sub_def)
  qed
qed

interpretation band: calibration band_validate band_score band_ideal band_rejected band_scaled
proof unfold_locales
  fix c x assume "band_validate c" then show "score_like (band_score c x)" by (rule band_score_like)
next
  fix c and v :: rat
  assume "band_validate c" "band_scaled c"
  then obtain a b p q where c: "bc_reject_below c = Finite a" "bc_ideal_min c = Finite b"
      "bc_ideal_max c = Finite p" "bc_reject_above c = Finite q" and lt: "a < b" "b \<le> p" "p < q"
    by (auto simp: band_validate_def elim!: is_finiteE)
  show "band_ideal c v \<Longrightarrow> band_score c (Finite v) = Finite 1"
    using lt by (auto simp: band_ideal_def band_score_def c)
  show "band_rejected c v \<Longrightarrow> band_score c (Finite v) = Finite 0"
    by (auto simp: band_rejected_def band_score_def)
qed

interpretation lower: calibration lower_validate lower_score lower_ideal lower_rejected lower_scaled
proof unfold_locales
  fix c x show "score_like (lower_score c x)" by (auto simp: lower_score_def)
next
  fix c and v :: rat
  assume "lower_validate c" "lower_scaled c" and v: "\<bar>v\<bar> \<le> 1000"
  then obtain a b where c: "lb_reject_at_or_below c = Finite a" "lb_ideal_at_or_above c = Finite b"
    and ab: "representable F32 a" "representable F32 b" "a < b" "\<bar>a\<bar> \<le> 1000" "\<bar>b\<bar> \<le> 1000"
    by (auto simp: lower_validate_def lower_scaled_def elim!: scaled_f32E)
  obtain m where m: "rnd F32 (v - a) = Finite m" by (rule rnd_difference_finite [OF ab(4) v])
  show "lower_ideal c v \<Longrightarrow> lower_score c (Finite v) = Finite 1"
    using ramp_clamped(1) [OF ab m] by (simp add: lower_ideal_def lower_score_def c fp_sub_def)
  show "lower_rejected c v \<Longrightarrow> lower_score c (Finite v) = Finite 0"
    using ramp_clamped(2) [OF ab m] by (simp add: lower_rejected_def lower_score_def c fp_sub_def)
qed

interpretation deviation: calibration deviation_validate deviation_score deviation_ideal deviation_rejected deviation_scaled
proof unfold_locales
  fix c x show "score_like (deviation_score c x)" by (auto simp: deviation_score_def)
next
  fix c and v :: rat
  assume "deviation_validate c" "deviation_scaled c" and v: "\<bar>v\<bar> \<le> 1000"
  then obtain a b where c: "dc_ideal_at_or_below c = Finite a" "dc_reject_at_or_above c = Finite b"
    and ab: "representable F32 a" "representable F32 b" "a < b" "\<bar>a\<bar> \<le> 1000" "\<bar>b\<bar> \<le> 1000"
    by (auto simp: deviation_validate_def deviation_scaled_def elim!: scaled_f32E)
  obtain m where m: "rnd F32 (b - v) = Finite m" by (rule rnd_difference_finite [OF v ab(5)])
  show "deviation_ideal c v \<Longrightarrow> deviation_score c (Finite v) = Finite 1"
    using ramp_clamped(1) [OF ab m] by (simp add: deviation_ideal_def deviation_score_def c fp_sub_def)
  show "deviation_rejected c v \<Longrightarrow> deviation_score c (Finite v) = Finite 0"
    using ramp_clamped(2) [OF ab m] by (simp add: deviation_rejected_def deviation_score_def c fp_sub_def)
qed

text \<open>
  Calibrated scores mean what the calibration says: for points of single precision and the
  magnitudes the configuration admits, every measurement in the ideal range of a validated band,
  lower bound or deviation calibration scores exactly one and every measurement in its reject range
  exactly zero, in spite of the rounding of the quotient; every finite score lies in
  the unit interval.
\<close>

theorem calibration_scores_exact:
  assumes "\<bar>v\<bar> \<le> 1000"
    and "band_validate b" "band_scaled b" "lower_validate l" "lower_scaled l" "deviation_validate d" "deviation_scaled d"
  shows "(band_ideal b v \<longrightarrow> band_score b (Finite v) = Finite 1) \<and>
     (band_rejected b v \<longrightarrow> band_score b (Finite v) = Finite 0) \<and>
     (lower_ideal l v \<longrightarrow> lower_score l (Finite v) = Finite 1) \<and>
     (lower_rejected l v \<longrightarrow> lower_score l (Finite v) = Finite 0) \<and>
     (deviation_ideal d v \<longrightarrow> deviation_score d (Finite v) = Finite 1) \<and>
     (deviation_rejected d v \<longrightarrow> deviation_score d (Finite v) = Finite 0) \<and>
     (\<forall>s \<in> {band_score b (Finite v), lower_score l (Finite v), deviation_score d (Finite v)}.
        is_finite s \<longrightarrow> unit_score s)"
proof -
  have band: "band_ideal b v \<Longrightarrow> band_score b (Finite v) = Finite 1"
      "band_rejected b v \<Longrightarrow> band_score b (Finite v) = Finite 0"
    using band.ideal_one [OF assms(2,3) _ assms(1)] band.rejected_zero [OF assms(2,3) _ assms(1)] by auto
  have lower: "lower_ideal l v \<Longrightarrow> lower_score l (Finite v) = Finite 1"
      "lower_rejected l v \<Longrightarrow> lower_score l (Finite v) = Finite 0"
    using lower.ideal_one [OF assms(4,5) _ assms(1)] lower.rejected_zero [OF assms(4,5) _ assms(1)] by auto
  have dev: "deviation_ideal d v \<Longrightarrow> deviation_score d (Finite v) = Finite 1"
      "deviation_rejected d v \<Longrightarrow> deviation_score d (Finite v) = Finite 0"
    using deviation.ideal_one [OF assms(6,7) _ assms(1)] deviation.rejected_zero [OF assms(6,7) _ assms(1)] by auto
  have "\<forall>s \<in> {band_score b (Finite v), lower_score l (Finite v), deviation_score d (Finite v)}.
      is_finite s \<longrightarrow> unit_score s"
    using band.finite_unit [OF assms(2)] lower.finite_unit [OF assms(4)] deviation.finite_unit [OF assms(6)]
    by auto
  with band lower dev show ?thesis by blast
qed

section \<open>Weights and configuration\<close>

definition ABSOLUTE_MAX_IMAGE_PIXELS :: nat where
  "ABSOLUTE_MAX_IMAGE_PIXELS = 16777216"

definition ABSOLUTE_MAX_IMAGE_DIMENSION :: u32 where
  "ABSOLUTE_MAX_IMAGE_DIMENSION = 8192"

record QualityWeights =
  qw_exposure :: fp
  qw_dynamic_range :: fp
  qw_sharpness :: fp
  qw_face_scale :: fp
  qw_centering :: fp
  qw_pose :: fp
  qw_occlusion :: fp
  qw_landmark_confidence :: fp

definition weight_values :: "QualityWeights \<Rightarrow> fp list" where
  "weight_values w = [qw_exposure w, qw_dynamic_range w, qw_sharpness w, qw_face_scale w,
     qw_centering w, qw_pose w, qw_occlusion w, qw_landmark_confidence w]"

definition weights_validate :: "QualityWeights \<Rightarrow> bool" where
  "weights_validate w \<longleftrightarrow>
     list_all (\<lambda>x. is_finite x \<and> fp_le (rnd F32 (1 / 100)) x \<and> fp_le x (Finite 100)) (weight_values w)"

record QualityConfig =
  qc_max_image_pixels :: nat
  qc_minimum_face_width_pixels :: u32
  qc_minimum_face_height_pixels :: u32
  qc_low_percentile :: u8
  qc_high_percentile :: u8
  qc_exposure :: BandCalibration
  qc_dark_clip_at_or_below :: u8
  qc_bright_clip_at_or_above :: u8
  qc_clipped_fraction :: DeviationCalibration
  qc_dynamic_range :: LowerBoundCalibration
  qc_sharpness :: LowerBoundCalibration
  qc_face_fraction :: BandCalibration
  qc_horizontal_centering :: DeviationCalibration
  qc_vertical_centering :: DeviationCalibration
  qc_yaw :: DeviationCalibration
  qc_pitch :: DeviationCalibration
  qc_roll :: DeviationCalibration
  qc_visibility :: LowerBoundCalibration
  qc_landmark_confidence :: LowerBoundCalibration
  qc_weights :: QualityWeights
  qc_weakest_component_headroom :: fp

text \<open>A decimal literal of type \<open>f32\<close>.\<close>

abbreviation f32 :: "rat \<Rightarrow> fp" where
  "f32 x \<equiv> rnd F32 x"

definition engineering_baseline :: QualityConfig where
  "engineering_baseline =
     \<lparr>qc_max_image_pixels = 8294400,
      qc_minimum_face_width_pixels = 32, qc_minimum_face_height_pixels = 32,
      qc_low_percentile = 5, qc_high_percentile = 95,
      qc_exposure = \<lparr>bc_reject_below = f32 24, bc_ideal_min = f32 72, bc_ideal_max = f32 184, bc_reject_above = f32 240\<rparr>,
      qc_dark_clip_at_or_below = 8, qc_bright_clip_at_or_above = 247,
      qc_clipped_fraction = \<lparr>dc_ideal_at_or_below = f32 (2 / 100), dc_reject_at_or_above = f32 (25 / 100)\<rparr>,
      qc_dynamic_range = \<lparr>lb_reject_at_or_below = f32 12, lb_ideal_at_or_above = f32 96\<rparr>,
      qc_sharpness = \<lparr>lb_reject_at_or_below = f32 (2 / 1000), lb_ideal_at_or_above = f32 (8 / 100)\<rparr>,
      qc_face_fraction = \<lparr>bc_reject_below = f32 (2 / 100), bc_ideal_min = f32 (12 / 100),
        bc_ideal_max = f32 (45 / 100), bc_reject_above = f32 (75 / 100)\<rparr>,
      qc_horizontal_centering = \<lparr>dc_ideal_at_or_below = f32 (5 / 100), dc_reject_at_or_above = f32 (35 / 100)\<rparr>,
      qc_vertical_centering = \<lparr>dc_ideal_at_or_below = f32 (8 / 100), dc_reject_at_or_above = f32 (40 / 100)\<rparr>,
      qc_yaw = \<lparr>dc_ideal_at_or_below = f32 8, dc_reject_at_or_above = f32 35\<rparr>,
      qc_pitch = \<lparr>dc_ideal_at_or_below = f32 8, dc_reject_at_or_above = f32 30\<rparr>,
      qc_roll = \<lparr>dc_ideal_at_or_below = f32 8, dc_reject_at_or_above = f32 30\<rparr>,
      qc_visibility = \<lparr>lb_reject_at_or_below = f32 (45 / 100), lb_ideal_at_or_above = f32 (92 / 100)\<rparr>,
      qc_landmark_confidence = \<lparr>lb_reject_at_or_below = f32 (40 / 100), lb_ideal_at_or_above = f32 (90 / 100)\<rparr>,
      qc_weights = \<lparr>qw_exposure = f32 1, qw_dynamic_range = f32 1, qw_sharpness = f32 (3 / 2), qw_face_scale = f32 1,
        qw_centering = f32 (3 / 4), qw_pose = f32 (5 / 4), qw_occlusion = f32 (3 / 2), qw_landmark_confidence = f32 1\<rparr>,
      qc_weakest_component_headroom = f32 (12 / 100)\<rparr>"

definition quality_config_validate :: "QualityConfig \<Rightarrow> QualityError + unit" where
  "quality_config_validate c =
     (let minimum_face_pixels =
            usize_checked_mul (unat (qc_minimum_face_width_pixels c)) (unat (qc_minimum_face_height_pixels c))
      in if \<not> in_range 9 ABSOLUTE_MAX_IMAGE_PIXELS (qc_max_image_pixels c)
         \<or> \<not> in_range 3 ABSOLUTE_MAX_IMAGE_DIMENSION (qc_minimum_face_width_pixels c)
         \<or> \<not> in_range 3 ABSOLUTE_MAX_IMAGE_DIMENSION (qc_minimum_face_height_pixels c)
         \<or> (case minimum_face_pixels of None \<Rightarrow> True | Some pixels \<Rightarrow> pixels > qc_max_image_pixels c)
         \<or> \<not> in_range 1 49 (qc_low_percentile c)
         \<or> \<not> in_range 51 99 (qc_high_percentile c)
         \<or> qc_low_percentile c \<ge> qc_high_percentile c
         \<or> \<not> band_validate (qc_exposure c)
         \<or> fp_lt (bc_reject_below (qc_exposure c)) (Finite 0)
         \<or> fp_lt (Finite 255) (bc_reject_above (qc_exposure c))
         \<or> qc_dark_clip_at_or_below c \<ge> qc_bright_clip_at_or_above c
         \<or> \<not> deviation_validate (qc_clipped_fraction c)
         \<or> fp_lt (Finite 1) (dc_reject_at_or_above (qc_clipped_fraction c))
         \<or> \<not> lower_validate (qc_dynamic_range c)
         \<or> fp_lt (lb_reject_at_or_below (qc_dynamic_range c)) (Finite 0)
         \<or> fp_lt (Finite 255) (lb_ideal_at_or_above (qc_dynamic_range c))
         \<or> \<not> lower_validate (qc_sharpness c)
         \<or> fp_lt (lb_reject_at_or_below (qc_sharpness c)) (Finite 0)
         \<or> fp_lt (Finite 16) (lb_ideal_at_or_above (qc_sharpness c))
         \<or> \<not> band_validate (qc_face_fraction c)
         \<or> fp_lt (bc_reject_below (qc_face_fraction c)) (Finite 0)
         \<or> fp_lt (Finite 1) (bc_reject_above (qc_face_fraction c))
         \<or> \<not> deviation_validate (qc_horizontal_centering c)
         \<or> fp_lt (Finite (1 / 2)) (dc_reject_at_or_above (qc_horizontal_centering c))
         \<or> \<not> deviation_validate (qc_vertical_centering c)
         \<or> fp_lt (Finite (1 / 2)) (dc_reject_at_or_above (qc_vertical_centering c))
         \<or> \<not> deviation_validate (qc_yaw c)
         \<or> fp_lt (Finite 90) (dc_reject_at_or_above (qc_yaw c))
         \<or> \<not> deviation_validate (qc_pitch c)
         \<or> fp_lt (Finite 90) (dc_reject_at_or_above (qc_pitch c))
         \<or> \<not> deviation_validate (qc_roll c)
         \<or> fp_lt (Finite 180) (dc_reject_at_or_above (qc_roll c))
         \<or> \<not> lower_validate (qc_visibility c)
         \<or> fp_lt (lb_reject_at_or_below (qc_visibility c)) (Finite 0)
         \<or> fp_lt (Finite 1) (lb_ideal_at_or_above (qc_visibility c))
         \<or> \<not> lower_validate (qc_landmark_confidence c)
         \<or> fp_lt (lb_reject_at_or_below (qc_landmark_confidence c)) (Finite 0)
         \<or> fp_lt (Finite 1) (lb_ideal_at_or_above (qc_landmark_confidence c))
         \<or> \<not> weights_validate (qc_weights c)
         \<or> \<not> is_finite (qc_weakest_component_headroom c)
         \<or> \<not> fp_in 0 (1 / 2) (qc_weakest_component_headroom c)
       then Inl QE_InvalidConfig else Inr ())"

section \<open>Witness\<close>

lemma baseline_f32 [simp]:
  "f32 24 = Finite 24" "f32 72 = Finite 72" "f32 184 = Finite 184" "f32 240 = Finite 240"
  "f32 12 = Finite 12" "f32 96 = Finite 96" "f32 8 = Finite 8" "f32 35 = Finite 35"
  using rnd_of_nat_small [of 24 F32] rnd_of_nat_small [of 72 F32] rnd_of_nat_small [of 184 F32]
    rnd_of_nat_small [of 240 F32] rnd_of_nat_small [of 12 F32] rnd_of_nat_small [of 96 F32]
    rnd_of_nat_small [of 8 F32] rnd_of_nat_small [of 35 F32]
  by simp_all

lemmas calibration_eval = engineering_baseline_def band_validate_def band_scaled_def lower_validate_def
  lower_scaled_def deviation_validate_def deviation_scaled_def scaled_f32_def representable_def
  band_ideal_def lower_ideal_def deviation_ideal_def deviation_rejected_def

theorem calibration_scores_exact_witness:
  "band_score (qc_exposure engineering_baseline) (Finite 100) = Finite 1 \<and>
   lower_score (qc_dynamic_range engineering_baseline) (Finite 100) = Finite 1 \<and>
   deviation_score (qc_yaw engineering_baseline) (Finite 100) = Finite 0"
  using calibration_scores_exact [of 100 "qc_exposure engineering_baseline" "qc_dynamic_range engineering_baseline"
      "qc_yaw engineering_baseline"]
  by (simp add: calibration_eval)

end
