(* ===== verification/Quality.thy ===== *)
theory Quality
  imports Calibration "HOL-Library.Code_Target_Nat"
begin

text \<open>
  The assessment side of \<open>crates/faceauth-quality/src/lib.rs\<close>: image views, the pixel region, the luma
  and Laplacian scans, the percentile, the conservative aggregate and the assessment. A computation
  that could panic (an index out of a slice, a checked integer that overflows) returns \<open>None\<close>; the
  cancellation callback is asked with the number of its earlier calls.
\<close>

section \<open>Images\<close>

record view =
  vw_width :: u32
  vw_height :: u32
  vw_pixels :: "u8 list"

datatype ImageView = ImgGray8 view | ImgRgb8 view | ImgYuyv view

definition validate_image_layout :: "u32 \<Rightarrow> u32 \<Rightarrow> nat \<Rightarrow> nat \<Rightarrow> QualityError + unit" where
  "validate_image_layout width height actual_bytes channels =
     (if width = 0 \<or> height = 0 \<or> width > ABSOLUTE_MAX_IMAGE_DIMENSION \<or> height > ABSOLUTE_MAX_IMAGE_DIMENSION
      then Inl (QE_InvalidImageDimensions width height)
      else try_bind (ok_or (usize_checked_mul (unat width) (unat height)) QE_DimensionOverflow) (\<lambda>pixels.
        if pixels > ABSOLUTE_MAX_IMAGE_PIXELS
        then Inl (QE_AbsoluteImageLimitExceeded pixels ABSOLUTE_MAX_IMAGE_PIXELS)
        else try_bind (ok_or (usize_checked_mul pixels channels) QE_DimensionOverflow) (\<lambda>expected_bytes.
        if actual_bytes \<noteq> expected_bytes then Inl (QE_ImageLengthMismatch expected_bytes actual_bytes)
        else Inr ())))"

definition gray8_new :: "u32 \<Rightarrow> u32 \<Rightarrow> u8 list \<Rightarrow> QualityError + ImageView" where
  "gray8_new w h pixels =
     try_bind (validate_image_layout w h (length pixels) 1) (\<lambda>_.
     Inr (ImgGray8 \<lparr>vw_width = w, vw_height = h, vw_pixels = pixels\<rparr>))"

definition rgb8_new :: "u32 \<Rightarrow> u32 \<Rightarrow> u8 list \<Rightarrow> QualityError + ImageView" where
  "rgb8_new w h pixels =
     try_bind (validate_image_layout w h (length pixels) 3) (\<lambda>_.
     Inr (ImgRgb8 \<lparr>vw_width = w, vw_height = h, vw_pixels = pixels\<rparr>))"

definition yuyv_new :: "u32 \<Rightarrow> u32 \<Rightarrow> u8 list \<Rightarrow> QualityError + ImageView" where
  "yuyv_new w h pixels =
     (if w mod 2 \<noteq> 0 then Inl (QE_InvalidYuyvDimensions w)
      else try_bind (validate_image_layout w h (length pixels) 2) (\<lambda>_.
           Inr (ImgYuyv \<lparr>vw_width = w, vw_height = h, vw_pixels = pixels\<rparr>)))"

fun image_dimensions :: "ImageView \<Rightarrow> u32 \<times> u32" where
  "image_dimensions (ImgGray8 v) = (vw_width v, vw_height v)"
| "image_dimensions (ImgRgb8 v) = (vw_width v, vw_height v)"
| "image_dimensions (ImgYuyv v) = (vw_width v, vw_height v)"

text \<open>\<open>pixels[index]\<close>.\<close>

definition slice_index :: "'a list \<Rightarrow> nat \<Rightarrow> 'a option" where
  "slice_index xs i = (if i < length xs then Some (xs ! i) else None)"

definition u32_of_u8 :: "u8 \<Rightarrow> u32" where
  "u32_of_u8 w = ucast w"

fun luma :: "ImageView \<Rightarrow> nat \<Rightarrow> nat \<Rightarrow> u8 option" where
  "luma (ImgGray8 v) x y = slice_index (vw_pixels v) (y * unat (vw_width v) + x)"
| "luma (ImgRgb8 v) x y =
     (let i = (y * unat (vw_width v) + x) * 3 in
      case (slice_index (vw_pixels v) i, slice_index (vw_pixels v) (i + 1), slice_index (vw_pixels v) (i + 2)) of
        (Some r, Some g, Some b) \<Rightarrow>
          (let l = (77 * unat r + 150 * unat g + 29 * unat b + 128) div 256
           in Some (if l < 256 then word_of_nat l else 255))
      | _ \<Rightarrow> None)"
| "luma (ImgYuyv v) x y = slice_index (vw_pixels v) ((y * unat (vw_width v) + x) * 2)"

section \<open>Runs\<close>

text \<open>A run counts the polls of the callback; \<open>None\<close> is a panic.\<close>

type_synonym 'a run = "nat \<Rightarrow> (nat \<times> (QualityError + 'a)) option"

definition run_result :: "QualityError + 'a \<Rightarrow> 'a run" where
  "run_result r n = Some (n, r)"

definition run_bind :: "'a run \<Rightarrow> ('a \<Rightarrow> 'b run) \<Rightarrow> 'b run" where
  "run_bind m f n =
     (case m n of
        None \<Rightarrow> None
      | Some (n', Inl e) \<Rightarrow> Some (n', Inl e)
      | Some (n', Inr x) \<Rightarrow> f x n')"

definition run_unwrap :: "'a option \<Rightarrow> 'a run" where
  "run_unwrap v n = map_option (\<lambda>x. (n, Inr x)) v"

definition quality_check_cancelled :: "(nat \<Rightarrow> bool) \<Rightarrow> unit run" where
  "quality_check_cancelled should_cancel n =
     Some (Suc n, if should_cancel n then Inl QE_Cancelled else Inr ())"

section \<open>The pixel region\<close>

record PixelRegion =
  pr_x_start :: nat
  pr_x_end :: nat
  pr_y_start :: nat
  pr_y_end :: nat

definition f64_of_nat :: "nat \<Rightarrow> fp" where
  "f64_of_nat n = Finite (of_nat n)"

definition bounded_coordinate_to_usize :: "fp \<Rightarrow> u32 \<Rightarrow> QualityError + nat" where
  "bounded_coordinate_to_usize value dimension =
     (case value of
        Finite r \<Rightarrow> if r < 0 \<or> r > of_nat (unat dimension) then Inl QE_InvalidGeometry else Inr (nat \<lfloor>r\<rfloor>)
      | _ \<Rightarrow> Inl QE_InvalidGeometry)"

definition edge :: "(format \<Rightarrow> fp \<Rightarrow> fp \<Rightarrow> fp) \<Rightarrow> fp \<Rightarrow> fp \<Rightarrow> u32 \<Rightarrow> fp" where
  "edge op centre extent dimension =
     fp_mul F64 (op F32 centre (fp_div F32 extent (Finite 2))) (f64_of_nat (unat dimension))"

definition region_from_geometry :: "u32 \<Rightarrow> u32 \<Rightarrow> FaceGeometry \<Rightarrow> QualityError + PixelRegion" where
  "region_from_geometry image_width image_height g =
     (let left = edge fp_sub (fg_center_x g) (fg_width g) image_width;
          right = edge fp_add (fg_center_x g) (fg_width g) image_width;
          top = edge fp_sub (fg_center_y g) (fg_height g) image_height;
          bottom = edge fp_add (fg_center_y g) (fg_height g) image_height in
      try_bind (bounded_coordinate_to_usize (fp_floor left) image_width) (\<lambda>x_start.
      try_bind (bounded_coordinate_to_usize (fp_ceil right) image_width) (\<lambda>x_end.
      try_bind (bounded_coordinate_to_usize (fp_floor top) image_height) (\<lambda>y_start.
      try_bind (bounded_coordinate_to_usize (fp_ceil bottom) image_height) (\<lambda>y_end.
      if x_start \<ge> x_end \<or> y_start \<ge> y_end then Inl QE_InvalidGeometry
      else Inr \<lparr>pr_x_start = x_start, pr_x_end = x_end, pr_y_start = y_start, pr_y_end = y_end\<rparr>)))))"

definition region_width :: "PixelRegion \<Rightarrow> nat" where
  "region_width r = pr_x_end r - pr_x_start r"

definition region_height :: "PixelRegion \<Rightarrow> nat" where
  "region_height r = pr_y_end r - pr_y_start r"

section \<open>The scans\<close>

definition LUMA_LEVELS :: nat where
  "LUMA_LEVELS = 256"

definition CANCEL_CHECK_PIXELS :: nat where
  "CANCEL_CHECK_PIXELS = 4096"

record LumaStatistics =
  ls_histogram :: "u32 list"
  ls_luma_sum :: u32
  ls_pixel_count :: u32

text \<open>The two nested loops visit these points in order.\<close>

definition points :: "nat \<Rightarrow> nat \<Rightarrow> nat \<Rightarrow> nat \<Rightarrow> (nat \<times> nat) list" where
  "points x0 x1 y0 y1 = concat (map (\<lambda>y. map (\<lambda>x. (x, y)) [x0..<x1]) [y0..<y1])"

definition luma_pixel :: "LumaStatistics \<Rightarrow> u8 \<Rightarrow> LumaStatistics option" where
  "luma_pixel s l =
     (case checked_add (ls_histogram s ! unat l) 1 of None \<Rightarrow> None | Some h \<Rightarrow>
      case checked_add (ls_luma_sum s) (u32_of_u8 l) of None \<Rightarrow> None | Some luma_total \<Rightarrow>
      case checked_add (ls_pixel_count s) 1 of None \<Rightarrow> None | Some count \<Rightarrow>
      Some \<lparr>ls_histogram = (ls_histogram s)[unat l := h], ls_luma_sum = luma_total, ls_pixel_count = count\<rparr>)"

fun scan_points ::
  "(nat \<Rightarrow> bool) \<Rightarrow> ('s \<Rightarrow> nat \<times> nat \<Rightarrow> 's option) \<Rightarrow> nat \<Rightarrow> 's \<Rightarrow> (nat \<times> nat) list \<Rightarrow> 's run" where
  "scan_points cancel visit until s [] = run_result (Inr s)"
| "scan_points cancel visit until s (p # ps) =
     run_bind (if until = 0 then quality_check_cancelled cancel else run_result (Inr ())) (\<lambda>_.
     run_bind (run_unwrap (visit s p)) (\<lambda>s'.
     scan_points cancel visit ((if until = 0 then CANCEL_CHECK_PIXELS else until) - 1) s' ps))"

definition visit_luma :: "ImageView \<Rightarrow> LumaStatistics \<Rightarrow> nat \<times> nat \<Rightarrow> LumaStatistics option" where
  "visit_luma img s p = Option.bind (luma img (fst p) (snd p)) (luma_pixel s)"

definition scan_luma :: "ImageView \<Rightarrow> PixelRegion \<Rightarrow> (nat \<Rightarrow> bool) \<Rightarrow> LumaStatistics run" where
  "scan_luma img r cancel =
     scan_points cancel (visit_luma img) 0
       \<lparr>ls_histogram = replicate LUMA_LEVELS 0, ls_luma_sum = 0, ls_pixel_count = 0\<rparr>
       (points (pr_x_start r) (pr_x_end r) (pr_y_start r) (pr_y_end r))"

text \<open>Welford's recurrence: the number of points, the mean and the sum of squared deviations.\<close>

record welford =
  wf_count :: u32
  wf_mean :: fp
  wf_deviation :: fp

definition welford_add :: "welford \<Rightarrow> fp \<Rightarrow> welford option" where
  "welford_add w laplacian =
     (case checked_add (wf_count w) 1 of None \<Rightarrow> None | Some count \<Rightarrow>
      let delta = fp_sub F64 laplacian (wf_mean w);
          mean = fp_add F64 (wf_mean w) (fp_div F64 delta (f64_of_nat (unat count)));
          delta_after_mean = fp_sub F64 laplacian mean
      in Some \<lparr>wf_count = count, wf_mean = mean,
               wf_deviation = fp_add F64 (wf_deviation w) (fp_mul F64 delta delta_after_mean)\<rparr>)"

definition laplacian_at :: "ImageView \<Rightarrow> nat \<times> nat \<Rightarrow> int option" where
  "laplacian_at img p =
     (let (x, y) = p in
      case (luma img x y, luma img (x - 1) y, luma img (x + 1) y, luma img x (y - 1), luma img x (y + 1)) of
        (Some c, Some w, Some e, Some n, Some s) \<Rightarrow>
          Some (4 * int (unat c) - int (unat w) - int (unat e) - int (unat n) - int (unat s))
      | _ \<Rightarrow> None)"

definition visit_laplacian :: "ImageView \<Rightarrow> welford \<Rightarrow> nat \<times> nat \<Rightarrow> welford option" where
  "visit_laplacian img w p = Option.bind (laplacian_at img p) (\<lambda>l. welford_add w (fp_of_int l))"

definition scan_laplacian :: "ImageView \<Rightarrow> PixelRegion \<Rightarrow> (nat \<Rightarrow> bool) \<Rightarrow> fp run" where
  "scan_laplacian img r cancel =
     run_bind (scan_points cancel (visit_laplacian img) 0
         \<lparr>wf_count = 0, wf_mean = Finite 0, wf_deviation = Finite 0\<rparr>
         (points (pr_x_start r + 1) (pr_x_end r - 1) (pr_y_start r + 1) (pr_y_end r - 1))) (\<lambda>w.
     if wf_count w = 0 then run_result (Inl (QE_FaceRegionTooSmall (region_width r) (region_height r)))
     else let variance = fp_div F64 (wf_deviation w) (f64_of_nat (unat (wf_count w))) in
       run_result (if is_finite variance \<and> fp_le (Finite 0) variance then Inr variance
                   else Inl QE_InvalidComputation))"

fun percentile_from :: "u32 \<Rightarrow> u32 \<Rightarrow> nat \<Rightarrow> u32 list \<Rightarrow> u8 option" where
  "percentile_from target cumulative value [] = Some 255"
| "percentile_from target cumulative value (frequency # rest) =
     (case checked_add cumulative frequency of
        None \<Rightarrow> None
      | Some cumulative' \<Rightarrow>
          if cumulative' > target then Some (if value < 256 then word_of_nat value else 255)
          else percentile_from target cumulative' (Suc value) rest)"

definition histogram_percentile :: "u32 list \<Rightarrow> u32 \<Rightarrow> u8 \<Rightarrow> u8 option" where
  "histogram_percentile histogram count percentile =
     (case checked_mul (if count = 0 then 0 else count - 1) (u32_of_u8 percentile) of
        None \<Rightarrow> None
      | Some product \<Rightarrow> percentile_from (product div 100) 0 0 histogram)"

fun checked_sum :: "u32 list \<Rightarrow> u32 option" where
  "checked_sum [] = Some 0"
| "checked_sum (x # xs) = (case checked_sum xs of None \<Rightarrow> None | Some s \<Rightarrow> checked_add x s)"

definition histogram_count_inclusive :: "u32 list \<Rightarrow> u8 \<Rightarrow> u8 \<Rightarrow> u32 option" where
  "histogram_count_inclusive histogram first_level last_level =
     (if unat first_level > unat last_level + 1 \<or> unat last_level \<ge> length histogram then None
      else checked_sum (take (unat last_level + 1 - unat first_level) (drop (unat first_level) histogram)))"

section \<open>The assessment\<close>

record QualityComponents =
  qp_exposure :: fp
  qp_dynamic_range :: fp
  qp_sharpness :: fp
  qp_face_scale :: fp
  qp_centering :: fp
  qp_pose :: fp
  qp_occlusion :: fp
  qp_landmark_confidence :: fp

definition component_values :: "QualityComponents \<Rightarrow> fp list" where
  "component_values c = [qp_exposure c, qp_dynamic_range c, qp_sharpness c, qp_face_scale c,
     qp_centering c, qp_pose c, qp_occlusion c, qp_landmark_confidence c]"

record QualityMeasurements =
  qm_mean_luma :: fp
  qm_clipped_fraction :: fp
  qm_percentile_dynamic_range :: fp
  qm_normalized_laplacian_variance :: fp
  qm_face_fraction :: fp

record QualityReport =
  qr_aggregate :: fp
  qr_components :: QualityComponents
  qr_measurements :: QualityMeasurements

definition f32_max :: rat where
  "f32_max = 16777215 * 2 ^ 104"

definition bounded_f64_to_f32 :: "fp \<Rightarrow> QualityError + fp" where
  "bounded_f64_to_f32 v =
     (if \<not> is_finite v \<or> fp_lt v (Finite (- f32_max)) \<or> fp_lt (Finite f32_max) v
      then Inl QE_InvalidComputation else Inr (fp_cast F32 v))"

definition conservative_aggregate :: "QualityComponents \<Rightarrow> QualityWeights \<Rightarrow> fp \<Rightarrow> QualityError + fp" where
  "conservative_aggregate components weights headroom =
     (let scores = component_values components;
          weakest = fold (\<lambda>s m. fp_min m s) scores (Finite 1) in
      if fp_eq weakest (Finite 0) then Inr (Finite 0)
      else let (weight_sum, reciprocal_sum) =
             fold (\<lambda>(s, w) (ws, rs). (fp_add F64 ws w, fp_add F64 rs (fp_div F64 w s)))
               (zip scores (weight_values weights)) (Finite 0, Finite 0);
             harmonic = fp_div F64 weight_sum reciprocal_sum in
      if \<not> is_finite harmonic then Inl QE_InvalidComputation
      else try_bind (bounded_f64_to_f32 harmonic) (\<lambda>h.
        Inr (fp_min h (fp_min (fp_add F32 weakest headroom) (Finite 1)))))"

definition u8_sub :: "u8 \<Rightarrow> u8 \<Rightarrow> u8" where
  "u8_sub a b = (if a < b then 0 else a - b)"

definition face_components ::
  "QualityConfig \<Rightarrow> FaceGeometry \<Rightarrow> fp \<Rightarrow> fp \<Rightarrow> fp \<Rightarrow> fp \<Rightarrow> fp \<Rightarrow> QualityComponents" where
  "face_components c g mean_luma clipped_fraction dynamic_range variance face_fraction =
     (let horizontal_offset = fp_abs (fp_sub F32 (fg_center_x g) (Finite (1 / 2)));
          vertical_offset = fp_abs (fp_sub F32 (fg_center_y g) (Finite (1 / 2))) in
      \<lparr>qp_exposure = fp_min (band_score (qc_exposure c) mean_luma)
                           (deviation_score (qc_clipped_fraction c) clipped_fraction),
       qp_dynamic_range = lower_score (qc_dynamic_range c) dynamic_range,
       qp_sharpness = lower_score (qc_sharpness c) variance,
       qp_face_scale = band_score (qc_face_fraction c) face_fraction,
       qp_centering = fp_min (deviation_score (qc_horizontal_centering c) horizontal_offset)
                            (deviation_score (qc_vertical_centering c) vertical_offset),
       qp_pose = fp_min (fp_min (deviation_score (qc_yaw c) (fp_abs (fg_yaw_degrees g)))
                                (deviation_score (qc_pitch c) (fp_abs (fg_pitch_degrees g))))
                        (deviation_score (qc_roll c) (fp_abs (fg_roll_degrees g))),
       qp_occlusion = lower_score (qc_visibility c) (fg_visible_fraction g),
       qp_landmark_confidence = lower_score (qc_landmark_confidence c) (fg_landmark_confidence g)\<rparr>)"

text \<open>From the statistics of the scans to the report.\<close>

definition quality_report ::
  "QualityConfig \<Rightarrow> FaceGeometry \<Rightarrow> LumaStatistics \<Rightarrow> fp \<Rightarrow> (QualityError + QualityReport) option" where
  "quality_report c g s laplacian_variance =
     (case histogram_percentile (ls_histogram s) (ls_pixel_count s) (qc_low_percentile c) of None \<Rightarrow> None | Some low \<Rightarrow>
      case histogram_percentile (ls_histogram s) (ls_pixel_count s) (qc_high_percentile c) of None \<Rightarrow> None | Some high \<Rightarrow>
      case histogram_count_inclusive (ls_histogram s) 0 (qc_dark_clip_at_or_below c) of None \<Rightarrow> None | Some dark \<Rightarrow>
      case histogram_count_inclusive (ls_histogram s) (qc_bright_clip_at_or_above c) 255 of None \<Rightarrow> None | Some bright \<Rightarrow>
      case checked_add dark bright of None \<Rightarrow> None | Some clipped_pixels \<Rightarrow>
      (let count = f64_of_nat (unat (ls_pixel_count s));
           mean_luma = fp_div F64 (f64_of_nat (unat (ls_luma_sum s))) count;
           clipped_fraction = fp_div F64 (f64_of_nat (unat clipped_pixels)) count;
           dynamic_range = f64_of_nat (unat (u8_sub high low));
           variance = fp_div F64 laplacian_variance (Finite 65025);
           face_fraction = fp_mul F32 (fg_width g) (fg_height g)
       in Some
         (try_bind (bounded_f64_to_f32 mean_luma) (\<lambda>mean_luma32.
          try_bind (bounded_f64_to_f32 clipped_fraction) (\<lambda>clipped32.
          try_bind (bounded_f64_to_f32 variance) (\<lambda>variance32.
          let components = face_components c g mean_luma32 clipped32 dynamic_range variance32 face_fraction in
          try_bind (conservative_aggregate components (qc_weights c) (qc_weakest_component_headroom c)) (\<lambda>aggregate.
          if list_ex (\<lambda>v. \<not> is_finite v) (component_values components @
               [aggregate, mean_luma32, clipped32, dynamic_range, variance32, face_fraction])
          then Inl QE_InvalidComputation
          else Inr \<lparr>qr_aggregate = aggregate, qr_components = components,
                 qr_measurements = \<lparr>qm_mean_luma = mean_luma32, qm_clipped_fraction = clipped32,
                   qm_percentile_dynamic_range = dynamic_range,
                   qm_normalized_laplacian_variance = variance32, qm_face_fraction = face_fraction\<rparr>\<rparr>)))))))"

definition assess_cancellable ::
  "ImageView \<Rightarrow> FaceGeometry \<Rightarrow> QualityConfig \<Rightarrow> (nat \<Rightarrow> bool) \<Rightarrow> QualityReport run" where
  "assess_cancellable img g c cancel =
     run_bind (quality_check_cancelled cancel) (\<lambda>_.
     run_bind (run_result (quality_config_validate c)) (\<lambda>_.
     run_bind (run_result (geometry_validate g)) (\<lambda>_.
     let (width, height) = image_dimensions img in
     run_bind (run_result (ok_or (usize_checked_mul (unat width) (unat height)) QE_DimensionOverflow)) (\<lambda>image_pixels.
     if image_pixels > qc_max_image_pixels c
     then run_result (Inl (QE_ConfiguredImageLimitExceeded image_pixels (qc_max_image_pixels c)))
     else run_bind (run_result (region_from_geometry width height g)) (\<lambda>region.
     if region_width region < unat (qc_minimum_face_width_pixels c)
        \<or> region_height region < unat (qc_minimum_face_height_pixels c)
     then run_result (Inl (QE_FaceRegionTooSmall (region_width region) (region_height region)))
     else run_bind (scan_luma img region cancel) (\<lambda>statistics.
     run_bind (scan_laplacian img region cancel) (\<lambda>laplacian_variance.
     run_bind (quality_check_cancelled cancel) (\<lambda>_.
     run_bind (run_unwrap (quality_report c g statistics laplacian_variance)) run_result))))))))"

definition assess :: "ImageView \<Rightarrow> FaceGeometry \<Rightarrow> QualityConfig \<Rightarrow> QualityReport run" where
  "assess img g c = assess_cancellable img g c (\<lambda>_. False)"

section \<open>Images are read within their bounds\<close>

fun image_view :: "ImageView \<Rightarrow> view" where
  "image_view (ImgGray8 v) = v"
| "image_view (ImgRgb8 v) = v"
| "image_view (ImgYuyv v) = v"

fun channels :: "ImageView \<Rightarrow> nat" where
  "channels (ImgGray8 _) = 1"
| "channels (ImgRgb8 _) = 3"
| "channels (ImgYuyv _) = 2"

definition image_area :: "ImageView \<Rightarrow> nat" where
  "image_area img = unat (vw_width (image_view img)) * unat (vw_height (image_view img))"

definition image_ok :: "ImageView \<Rightarrow> bool" where
  "image_ok img \<longleftrightarrow> image_area img \<le> ABSOLUTE_MAX_IMAGE_PIXELS \<and>
     length (vw_pixels (image_view img)) = image_area img * channels img"

lemma validate_image_layout_ok:
  "validate_image_layout w h n k = Inr u \<Longrightarrow>
     unat w * unat h \<le> ABSOLUTE_MAX_IMAGE_PIXELS \<and> n = unat w * unat h * k"
  by (auto simp: validate_image_layout_def result_simps usize_checked_mul_def split: if_splits)

lemma image_new_ok:
  "gray8_new w h px = Inr img \<or> rgb8_new w h px = Inr img \<or> yuyv_new w h px = Inr img \<Longrightarrow> image_ok img"
  by (auto simp: gray8_new_def rgb8_new_def yuyv_new_def image_ok_def image_area_def result_simps
      dest!: validate_image_layout_ok split: if_splits)

lemma image_dimensions_view: "image_dimensions img = (vw_width (image_view img), vw_height (image_view img))"
  by (cases img) simp_all

lemma pixel_index:
  assumes "x < w" "y < (h :: nat)"
  shows "y * w + x < w * h"
proof -
  have "y * w + x < y * w + w" using assms(1) by simp
  also have "\<dots> = Suc y * w" by simp
  also have "\<dots> \<le> h * w" using assms(2) by (intro mult_right_mono) simp_all
  finally show ?thesis by (simp add: mult.commute)
qed

lemma luma_total:
  assumes "image_ok img" "x < unat (vw_width (image_view img))" "y < unat (vw_height (image_view img))"
  obtains l where "luma img x y = Some l"
proof -
  have "y * unat (vw_width (image_view img)) + x < image_area img"
    using pixel_index [OF assms(2,3)] by (simp add: image_area_def)
  with assms(1) have "luma img x y \<noteq> None"
    by (cases img) (simp_all add: image_ok_def slice_index_def Let_def)
  then show thesis using that by blast
qed

lemma luma_some:
  "image_ok img \<Longrightarrow> x < unat (vw_width (image_view img)) \<Longrightarrow> y < unat (vw_height (image_view img)) \<Longrightarrow>
     \<exists>l. luma img x y = Some l"
  by (metis luma_total)

section \<open>The loop of a scan\<close>

lemma scan_points_run:
  assumes "\<And>i s p. p \<in> set ps \<Longrightarrow> i < n \<Longrightarrow> P i s \<Longrightarrow> \<exists>s'. visit s p = Some s' \<and> P (Suc i) s'"
    and "P k s" and "k + length ps \<le> n"
  shows "\<exists>m r. scan_points cancel visit until s ps polls = Some (m, r) \<and> polls \<le> m \<and>
     (case r of Inr s' \<Rightarrow> P (k + length ps) s' \<and> polls_clear cancel polls m | Inl e \<Rightarrow> e = QE_Cancelled)"
  using assms
proof (induction ps arbitrary: until s k polls)
  case Nil
  then show ?case by (simp add: run_result_def polls_clear_def)
next
  case (Cons p ps)
  from Cons.prems(1) [of p k s] Cons.prems(2,3) obtain s' where s': "visit s p = Some s'" "P (Suc k) s'"
    by auto
  have IH: "\<exists>m r. scan_points cancel visit until' s' ps polls' = Some (m, r) \<and> polls' \<le> m \<and>
     (case r of Inr t \<Rightarrow> P (Suc k + length ps) t \<and> polls_clear cancel polls' m | Inl e \<Rightarrow> e = QE_Cancelled)"
    for until' polls'
    using Cons.prems(1,3) s'(2) by (intro Cons.IH) auto
  show ?case
  proof (cases "until = 0")
    case False
    with IH [of "until - 1" polls] s' show ?thesis
      by (auto simp: run_bind_def run_result_def run_unwrap_def split: sum.splits)
  next
    case True
    show ?thesis
    proof (cases "cancel polls")
      case True
      with \<open>until = 0\<close> show ?thesis
        by (simp add: run_bind_def quality_check_cancelled_def)
    next
      case False
      from IH [of "CANCEL_CHECK_PIXELS - 1" "Suc polls"] obtain m r where
        m: "scan_points cancel visit (CANCEL_CHECK_PIXELS - 1) s' ps (Suc polls) = Some (m, r)" "Suc polls \<le> m"
        and r: "case r of Inr t \<Rightarrow> P (Suc k + length ps) t \<and> polls_clear cancel (Suc polls) m
            | Inl e \<Rightarrow> e = QE_Cancelled" by blast
      have "scan_points cancel visit until s (p # ps) polls = Some (m, r)"
        using m(1) s' \<open>until = 0\<close> False by (simp add: run_bind_def quality_check_cancelled_def run_unwrap_def)
      moreover have "case r of Inr t \<Rightarrow> P (k + length (p # ps)) t \<and> polls_clear cancel polls m
            | Inl e \<Rightarrow> e = QE_Cancelled"
        using r False polls_clear_trans [of cancel polls "Suc polls" m] by (cases r) auto
      ultimately show ?thesis using m(2) by auto
    qed
  qed
qed

lemma set_points: "p \<in> set (points x0 x1 y0 y1) \<longleftrightarrow> fst p \<in> {x0..<x1} \<and> snd p \<in> {y0..<y1}"
  by (cases p) (auto simp: points_def image_iff)

lemma length_points: "length (points x0 x1 y0 y1) = (x1 - x0) * (y1 - y0)"
  by (simp add: points_def length_concat comp_def sum_list_triv)

definition region_inside :: "PixelRegion \<Rightarrow> ImageView \<Rightarrow> bool" where
  "region_inside r img \<longleftrightarrow> pr_x_start r < pr_x_end r \<and> pr_x_end r \<le> unat (vw_width (image_view img)) \<and>
     pr_y_start r < pr_y_end r \<and> pr_y_end r \<le> unat (vw_height (image_view img))"

lemma nat_floor_le: "x \<le> of_nat n \<Longrightarrow> nat \<lfloor>x\<rfloor> \<le> n"
  using floor_mono [of x "of_nat n"] by simp

lemma bounded_coordinate_le: "bounded_coordinate_to_usize v d = Inr n \<Longrightarrow> n \<le> unat d"
  by (cases v) (auto simp: bounded_coordinate_to_usize_def not_less simp del: of_nat_unat
      intro: nat_floor_le split: if_splits)

lemma region_from_geometry_inside:
  assumes "region_from_geometry (vw_width (image_view img)) (vw_height (image_view img)) g = Inr r"
  shows "region_inside r img"
  using assms
  by (auto simp: region_from_geometry_def region_inside_def Let_def result_simps not_le
      dest!: bounded_coordinate_le split: if_splits)

lemma region_points_le:
  assumes "region_inside r img"
  shows "(pr_x_end r - pr_x_start r) * (pr_y_end r - pr_y_start r) \<le> image_area img"
  unfolding image_area_def using assms by (intro mult_mono) (auto simp: region_inside_def)

section \<open>The luma scan\<close>

definition histogram_total :: "u32 list \<Rightarrow> nat" where
  "histogram_total h = sum_list (map unat h)"

definition statistics_ok :: "nat \<Rightarrow> LumaStatistics \<Rightarrow> bool" where
  "statistics_ok n s \<longleftrightarrow> length (ls_histogram s) = 256 \<and> histogram_total (ls_histogram s) = n \<and>
     unat (ls_pixel_count s) = n \<and> unat (ls_luma_sum s) \<le> 255 * n"

lemma sum_list_nth_le: "i < length xs \<Longrightarrow> xs ! i \<le> (sum_list xs :: nat)"
  by (simp add: elem_le_sum_list)

lemma histogram_nth_le: "i < length h \<Longrightarrow> unat (h ! i) \<le> histogram_total h"
  using sum_list_nth_le [of i "map unat h"] by (simp add: histogram_total_def)

lemma histogram_update:
  assumes "i < length h" "unat v = Suc (unat (h ! i))"
  shows "histogram_total (h[i := v]) = Suc (histogram_total h)"
proof -
  have "sum_list ((map unat h)[i := unat v]) + map unat h ! i = sum_list (map unat h) + unat v"
    using assms(1) sum_list_nth_le [of i "map unat h"] by (simp add: sum_list_update)
  with assms show ?thesis by (simp add: histogram_total_def map_update)
qed

lemma unat_u8_less: "unat (w :: u8) < 256"
  using unsigned_less [of w, where ?'a = nat] by simp

lemma unat_u32_of_u8 [simp]: "unat (u32_of_u8 w) = unat w"
  using unat_u8_less [of w] by (simp add: u32_of_u8_def unsigned_ucast_eq take_bit_nat_eq_self)

lemma luma_pixel_step:
  assumes "statistics_ok n s" "n < 16777216"
  shows "\<exists>s'. luma_pixel s l = Some s' \<and> statistics_ok (Suc n) s'"
proof -
  let ?h = "ls_histogram s"
  have i: "unat l < length ?h" using assms(1) unat_u8_less [of l] by (simp add: statistics_ok_def)
  have h: "unat (?h ! unat l) < 16777216"
    using histogram_nth_le [OF i] assms by (simp add: statistics_ok_def)
  have l: "unat (u32_of_u8 l) = unat l" by (rule unat_u32_of_u8)
  have add: "checked_add (?h ! unat l) 1 = Some (?h ! unat l + 1)" "unat (?h ! unat l + 1) = Suc (unat (?h ! unat l))"
    using h by (simp_all add: checked_add_def unat_add_lt)
  have total: "checked_add (ls_luma_sum s) (u32_of_u8 l) = Some (ls_luma_sum s + u32_of_u8 l)"
      "unat (ls_luma_sum s + u32_of_u8 l) = unat (ls_luma_sum s) + unat l"
    using assms unat_u8_less [of l] l by (simp_all add: checked_add_def unat_add_lt statistics_ok_def)
  have count: "checked_add (ls_pixel_count s) 1 = Some (ls_pixel_count s + 1)" "unat (ls_pixel_count s + 1) = Suc n"
    using assms by (simp_all add: checked_add_def unat_add_lt statistics_ok_def)
  show ?thesis
    using assms(1) add total count unat_u8_less [of l] histogram_update [OF i add(2)]
    by (simp add: luma_pixel_def statistics_ok_def)
qed

lemma scan_luma_run:
  assumes "image_ok img" "region_inside r img"
  shows "\<exists>m res. scan_luma img r cancel polls = Some (m, res) \<and> polls \<le> m \<and>
     (case res of Inr s \<Rightarrow> statistics_ok (region_width r * region_height r) s \<and> polls_clear cancel polls m
      | Inl e \<Rightarrow> e = QE_Cancelled)"
proof -
  let ?ps = "points (pr_x_start r) (pr_x_end r) (pr_y_start r) (pr_y_end r)"
  have n: "length ?ps \<le> 16777216"
    using region_points_le [OF assms(2)] assms(1)
    by (simp add: length_points image_ok_def ABSOLUTE_MAX_IMAGE_PIXELS_def)
  have step: "\<exists>s'. visit_luma img s p = Some s' \<and> statistics_ok (Suc i) s'"
    if "p \<in> set ?ps" "i < 16777216" "statistics_ok i s" for i s p
  proof -
    from that(1) assms(2) have "fst p < unat (vw_width (image_view img))" "snd p < unat (vw_height (image_view img))"
      by (auto simp: set_points region_inside_def)
    then obtain l where "luma img (fst p) (snd p) = Some l" by (rule luma_total [OF assms(1)])
    with luma_pixel_step [OF that(3,2), of l] show ?thesis by (simp add: visit_luma_def)
  qed
  have init: "statistics_ok 0 \<lparr>ls_histogram = replicate LUMA_LEVELS 0, ls_luma_sum = 0, ls_pixel_count = 0\<rparr>"
    by (simp add: statistics_ok_def histogram_total_def LUMA_LEVELS_def)
  have "0 + length ?ps \<le> 16777216" using n by simp
  from scan_points_run [where P = statistics_ok and visit = "visit_luma img" and cancel = cancel and until = 0
      and polls = polls, OF step init this]
  have run: "\<exists>m res. scan_luma img r cancel polls = Some (m, res) \<and> polls \<le> m \<and>
     (case res of Inr s \<Rightarrow> statistics_ok (0 + length ?ps) s \<and> polls_clear cancel polls m | Inl e \<Rightarrow> e = QE_Cancelled)"
    by (simp add: scan_luma_def)
  have count: "0 + length ?ps = region_width r * region_height r"
    by (simp add: length_points region_width_def region_height_def)
  show ?thesis by (rule run [unfolded count])
qed

section \<open>The Laplacian scan\<close>

lemma scan_laplacian_run:
  assumes "image_ok img" "region_inside r img"
  shows "\<exists>m res. scan_laplacian img r cancel polls = Some (m, res) \<and> polls \<le> m \<and>
     (is_ok res \<longrightarrow> polls_clear cancel polls m)"
proof -
  let ?ps = "points (pr_x_start r + 1) (pr_x_end r - 1) (pr_y_start r + 1) (pr_y_end r - 1)"
  let ?w0 = "\<lparr>wf_count = 0, wf_mean = Finite 0, wf_deviation = Finite 0\<rparr>"
  have "length ?ps \<le> (pr_x_end r - pr_x_start r) * (pr_y_end r - pr_y_start r)"
    unfolding length_points by (intro mult_mono) auto
  then have n: "length ?ps \<le> 16777216"
    using region_points_le [OF assms(2)] assms(1) by (simp add: image_ok_def ABSOLUTE_MAX_IMAGE_PIXELS_def)
  have step: "\<exists>s'. visit_laplacian img s p = Some s' \<and> unat (wf_count s') = Suc i"
    if p: "p \<in> set ?ps" and i: "i < 16777216" "unat (wf_count s) = i" for i s p
  proof -
    obtain x y where xy: "p = (x, y)" by (cases p)
    with p assms(2) have "x + 1 < unat (vw_width (image_view img))" "y + 1 < unat (vw_height (image_view img))"
      by (auto simp: set_points region_inside_def)
    note here = luma_some [OF assms(1)] and bounds = this
    have "\<exists>a. luma img x y = Some a" by (rule here) (use bounds in linarith)+
    moreover have "\<exists>a. luma img (x - 1) y = Some a" by (rule here) (use bounds in linarith)+
    moreover have "\<exists>a. luma img (x + 1) y = Some a" by (rule here) (use bounds in linarith)+
    moreover have "\<exists>a. luma img x (y - 1) = Some a" by (rule here) (use bounds in linarith)+
    moreover have "\<exists>a. luma img x (y + 1) = Some a" by (rule here) (use bounds in linarith)+
    ultimately obtain a b c d e where "luma img x y = Some a" "luma img (x - 1) y = Some b" "luma img (x + 1) y = Some c"
        "luma img x (y - 1) = Some d" "luma img x (y + 1) = Some e" by blast
    then have "\<exists>l. laplacian_at img p = Some l" by (simp add: laplacian_at_def xy)
    moreover have "checked_add (wf_count s) 1 = Some (wf_count s + 1)" "unat (wf_count s + 1) = Suc i"
      using i by (simp_all add: checked_add_def unat_add_lt)
    ultimately show ?thesis by (auto simp: visit_laplacian_def welford_add_def Let_def)
  qed
  have "unat (wf_count ?w0) = 0" "0 + length ?ps \<le> 16777216" using n by simp_all
  from scan_points_run [where P = "\<lambda>i w. unat (wf_count w) = i" and visit = "visit_laplacian img" and cancel = cancel
      and until = 0 and polls = polls, OF step this]
  obtain m res where "scan_points cancel (visit_laplacian img) 0 ?w0 ?ps polls = Some (m, res)" "polls \<le> m"
      "case res of Inr s' \<Rightarrow> unat (wf_count s') = 0 + length ?ps \<and> polls_clear cancel polls m | Inl e \<Rightarrow> e = QE_Cancelled"
    by blast
  then show ?thesis
    by (cases res) (auto simp: scan_laplacian_def run_bind_def run_result_def Let_def)
qed

section \<open>The percentile\<close>

lemma percentile_from_exact:
  assumes "unat cumulative + histogram_total h < 2 ^ 32" and "unat cumulative \<le> unat target"
    and "unat target < unat cumulative + histogram_total h" and "value + length h \<le> 256"
  shows "\<exists>i < length h. percentile_from target cumulative value h = Some (word_of_nat (value + i)) \<and>
     unat cumulative + histogram_total (take i h) \<le> unat target \<and>
     unat target < unat cumulative + histogram_total (take (Suc i) h)"
  using assms
proof (induction h arbitrary: cumulative "value")
  case Nil
  then show ?case by (simp add: histogram_total_def)
next
  case (Cons f h)
  let ?c = "cumulative + f"
  have add: "checked_add cumulative f = Some ?c" "unat ?c = unat cumulative + unat f"
    using Cons.prems(1) by (simp_all add: checked_add_def unat_add_lt histogram_total_def)
  show ?case
  proof (cases "?c > target")
    case True
    with add Cons.prems show ?thesis
      by (intro exI [of _ 0]) (simp add: histogram_total_def word_less_nat_alt)
  next
    case False
    with add(2) have "unat cumulative + unat f \<le> unat target" by (simp add: word_less_nat_alt)
    with Cons.IH [of ?c "Suc value"] Cons.prems add(2) obtain i where
      i: "i < length h" "percentile_from target ?c (Suc value) h = Some (word_of_nat (Suc value + i))"
        "unat ?c + histogram_total (take i h) \<le> unat target"
        "unat target < unat ?c + histogram_total (take (Suc i) h)"
      by (auto simp: histogram_total_def)
    with add False show ?thesis
      by (intro exI [of _ "Suc i"]) (simp add: histogram_total_def)
  qed
qed

lemma percentile_rank_le: "p \<le> 99 \<Longrightarrow> n * p div 100 \<le> (n :: nat)"
  using div_le_mono [of "n * p" "n * 100" 100] by simp

lemma percentile_product:
  assumes "unat (count :: u32) \<le> 16777216"
  shows "\<exists>product. checked_mul (if count = 0 then 0 else count - 1) (u32_of_u8 p) = Some product \<and>
     unat product = (unat count - 1) * unat p"
proof -
  let ?a = "if count = 0 then 0 else count - 1"
  have a: "unat ?a = unat count - 1"
    by (auto simp: unat_minus_one unat_gt_0)
  have "(unat count - 1) * unat p \<le> 16777215 * 255"
    using assms unat_u8_less [of p] by (intro mult_mono) auto
  then have "unat ?a * unat (u32_of_u8 p) < 2 ^ 32" unfolding a by simp
  then show ?thesis by (simp add: checked_mul_def a unat_word_ariths)
qed

lemma histogram_percentile_total:
  assumes "length h = 256" "histogram_total h = unat count" "unat count \<le> 16777216" "unat p \<le> 99"
  shows "\<exists>v. histogram_percentile h count p = Some v"
proof (cases "count = 0")
  case True
  have "percentile_from 0 0 value h = Some 255" if "histogram_total h = 0" for "value" h
    using that by (induction h arbitrary: "value") (auto simp: histogram_total_def checked_add_def unat_eq_0)
  moreover obtain product where "checked_mul 0 (u32_of_u8 p) = Some product" "unat product = 0"
    using percentile_product [of 0 p] by auto
  ultimately show ?thesis using True assms(2) by (simp add: histogram_percentile_def unat_eq_0)
next
  case False
  obtain product where pr: "checked_mul (count - 1) (u32_of_u8 p) = Some product"
      "unat product = (unat count - 1) * unat p"
    using percentile_product [OF assms(3), of p] False by auto
  have "unat (product div 100) = unat product div 100" by (simp add: unat_div)
  also have "\<dots> \<le> unat count - 1" unfolding pr(2) by (rule percentile_rank_le [OF assms(4)])
  finally have "unat (product div 100) < histogram_total h"
    using False assms(2) unat_gt_0 [of count] by linarith
  with percentile_from_exact [of 0 h "product div 100" 0] assms show ?thesis
    using pr(1) False by (auto simp: histogram_percentile_def)
qed

text \<open>
  The percentile of a luma histogram is exact: for a histogram of all 256 levels whose counts add
  up to the number of pixels, the result is the one level below which at most the target rank of
  pixels lies and up to which more than the target rank lies, the rank being
  \<open>(count - 1) * percentile / 100\<close>; no intermediate value overflows 32 bits.
\<close>

theorem histogram_percentile_exact:
  assumes "length h = 256" "sum_list (map unat h) = unat count" "0 < unat count" "unat count \<le> 16777216"
    and "unat p \<le> 99"
  shows "\<exists>v. histogram_percentile h count p = Some v \<and>
     sum_list (map unat (take (unat v) h)) \<le> (unat count - 1) * unat p div 100 \<and>
     (unat count - 1) * unat p div 100 < sum_list (map unat (take (Suc (unat v)) h))"
proof -
  have nz: "count \<noteq> 0" using assms(3) by auto
  obtain product where pr: "checked_mul (count - 1) (u32_of_u8 p) = Some product"
      "unat product = (unat count - 1) * unat p"
    using percentile_product [OF assms(4), of p] nz by auto
  have target: "unat (product div 100) = (unat count - 1) * unat p div 100" by (simp add: unat_div pr(2))
  have "(unat count - 1) * unat p div 100 \<le> unat count - 1" by (rule percentile_rank_le [OF assms(5)])
  then have "unat (product div 100) < histogram_total h"
    unfolding target histogram_total_def assms(2) using assms(3) by linarith
  with percentile_from_exact [of 0 h "product div 100" 0] assms(1,2,4) obtain i where
    i: "i < 256" "percentile_from (product div 100) 0 0 h = Some (word_of_nat i)"
      "histogram_total (take i h) \<le> unat (product div 100)"
      "unat (product div 100) < histogram_total (take (Suc i) h)"
    by (auto simp: histogram_total_def)
  have "unat (word_of_nat i :: u8) = i" using i(1) by (simp add: unat_of_nat)
  with i pr(1) nz show ?thesis by (simp add: histogram_percentile_def target histogram_total_def)
qed

section \<open>Counts of clipped pixels\<close>

lemma checked_sum_total: "histogram_total h < 2 ^ 32 \<Longrightarrow> \<exists>v. checked_sum h = Some v \<and> unat v = histogram_total h"
  by (induction h) (auto simp: histogram_total_def checked_add_def unat_add_lt)

lemma histogram_total_slice: "histogram_total (take n (drop m h)) \<le> histogram_total h"
proof -
  have "h = take m h @ take n (drop m h) @ drop n (drop m h)" by (metis append_take_drop_id)
  then have "histogram_total h = histogram_total (take m h) + histogram_total (take n (drop m h)) +
      histogram_total (drop n (drop m h))"
    by (metis (no_types, lifting) add.assoc histogram_total_def map_append sum_list_append)
  then show ?thesis by simp
qed

lemma histogram_count_total:
  assumes "length h = 256" "histogram_total h \<le> 16777216" "unat a \<le> unat b + 1"
  shows "\<exists>v. histogram_count_inclusive h a b = Some v \<and> unat v \<le> 16777216"
  using checked_sum_total [of "take (unat b + 1 - unat a) (drop (unat a) h)"]
    histogram_total_slice [of "unat b + 1 - unat a" "unat a" h] assms unat_u8_less [of b]
  by (auto simp: histogram_count_inclusive_def not_less)

lemma if_error_ok: "(if b then Inl e else Inr v) = Inr u \<longleftrightarrow> \<not> b \<and> v = u"
  by simp

lemma quality_config_ok:
  assumes "quality_config_validate c = Inr u"
  shows "qc_low_percentile c \<le> 49" "qc_high_percentile c \<le> 99"
    and "band_validate (qc_exposure c)" "deviation_validate (qc_clipped_fraction c)"
      "lower_validate (qc_dynamic_range c)" "lower_validate (qc_sharpness c)" "band_validate (qc_face_fraction c)"
      "deviation_validate (qc_horizontal_centering c)" "deviation_validate (qc_vertical_centering c)"
      "deviation_validate (qc_yaw c)" "deviation_validate (qc_pitch c)" "deviation_validate (qc_roll c)"
      "lower_validate (qc_visibility c)" "lower_validate (qc_landmark_confidence c)"
    and "weights_validate (qc_weights c)" "fp_in 0 (1 / 2) (qc_weakest_component_headroom c)"
proof -
  note valid = assms [unfolded quality_config_validate_def Let_def if_error_ok de_Morgan_disj not_not in_range_def]
  show "qc_low_percentile c \<le> 49" "qc_high_percentile c \<le> 99"
    and "band_validate (qc_exposure c)" "deviation_validate (qc_clipped_fraction c)"
      "lower_validate (qc_dynamic_range c)" "lower_validate (qc_sharpness c)" "band_validate (qc_face_fraction c)"
      "deviation_validate (qc_horizontal_centering c)" "deviation_validate (qc_vertical_centering c)"
      "deviation_validate (qc_yaw c)" "deviation_validate (qc_pitch c)" "deviation_validate (qc_roll c)"
      "lower_validate (qc_visibility c)" "lower_validate (qc_landmark_confidence c)"
    and "weights_validate (qc_weights c)" "fp_in 0 (1 / 2) (qc_weakest_component_headroom c)"
    using valid by blast+
qed

lemma quality_report_total:
  assumes "statistics_ok n s" "n \<le> 16777216" "quality_config_validate c = Inr ()"
  shows "\<exists>r. quality_report c g s v = Some r"
proof -
  have p: "unat (qc_low_percentile c) \<le> 99" "unat (qc_high_percentile c) \<le> 99"
    using quality_config_ok(1,2) [OF assms(3)] by (simp_all add: word_le_nat_alt)
  have stats: "length (ls_histogram s) = 256" "histogram_total (ls_histogram s) = unat (ls_pixel_count s)"
      "unat (ls_pixel_count s) \<le> 16777216"
    using assms(1,2) by (simp_all add: statistics_ok_def)
  obtain lo where lo: "histogram_percentile (ls_histogram s) (ls_pixel_count s) (qc_low_percentile c) = Some lo"
    using histogram_percentile_total [OF stats p(1)] by blast
  obtain hi where hi: "histogram_percentile (ls_histogram s) (ls_pixel_count s) (qc_high_percentile c) = Some hi"
    using histogram_percentile_total [OF stats p(2)] by blast
  obtain d where d: "histogram_count_inclusive (ls_histogram s) 0 (qc_dark_clip_at_or_below c) = Some d" "unat d \<le> 16777216"
    using histogram_count_total [of "ls_histogram s" 0 "qc_dark_clip_at_or_below c"] stats by auto
  obtain b where b: "histogram_count_inclusive (ls_histogram s) (qc_bright_clip_at_or_above c) 255 = Some b" "unat b \<le> 16777216"
    using histogram_count_total [of "ls_histogram s" "qc_bright_clip_at_or_above c" 255] stats
      unat_u8_less [of "qc_bright_clip_at_or_above c"] by auto
  have "checked_add d b = Some (d + b)" using d(2) b(2) by (simp add: checked_add_def)
  with lo hi d b show ?thesis by (simp add: quality_report_def Let_def)
qed

lemma assess_total:
  assumes "gray8_new w h px = Inr img \<or> rgb8_new w h px = Inr img \<or> yuyv_new w h px = Inr img"
  shows "\<exists>m r. assess_cancellable img g c cancel n = Some (m, r)"
proof -
  note ok = image_new_ok [OF assms]
  let ?v = "image_view img"
  show ?thesis
  proof (cases "cancel n \<or> quality_config_validate c \<noteq> Inr () \<or> geometry_validate g \<noteq> Inr ()
      \<or> unat (vw_width ?v) * unat (vw_height ?v) > qc_max_image_pixels c
      \<or> \<not> is_ok (region_from_geometry (vw_width ?v) (vw_height ?v) g)")
    case True
    then show ?thesis
      by (cases "quality_config_validate c"; cases "geometry_validate g";
          cases "usize_checked_mul (unat (vw_width ?v)) (unat (vw_height ?v))";
          cases "region_from_geometry (vw_width ?v) (vw_height ?v) g")
         (auto simp: assess_cancellable_def run_bind_def run_result_def quality_check_cancelled_def
            image_dimensions_view usize_checked_mul_def split: if_splits)
  next
    case False
    then obtain r where r: "region_from_geometry (vw_width ?v) (vw_height ?v) g = Inr r"
      by (cases "region_from_geometry (vw_width ?v) (vw_height ?v) g") auto
    note inside = region_from_geometry_inside [OF r]
    from scan_luma_run [OF ok inside, of cancel "Suc n"] obtain m1 r1 where
      luma: "scan_luma img r cancel (Suc n) = Some (m1, r1)" and
      stats: "case r1 of Inr s \<Rightarrow> statistics_ok (region_width r * region_height r) s \<and> polls_clear cancel (Suc n) m1
        | Inl e \<Rightarrow> e = QE_Cancelled" by blast
    from scan_laplacian_run [OF ok inside, of cancel m1] obtain m2 r2 where
      lap: "scan_laplacian img r cancel m1 = Some (m2, r2)" by auto
    have "region_width r * region_height r \<le> 16777216"
      using region_points_le [OF inside] ok
      by (simp add: region_width_def region_height_def image_ok_def ABSOLUTE_MAX_IMAGE_PIXELS_def)
    with stats have rep: "\<exists>q. quality_report c g s v = Some q" if "r1 = Inr s" for s v
      using quality_report_total that False by auto
    have area: "usize_checked_mul (unat (vw_width ?v)) (unat (vw_height ?v)) = Some (image_area img)"
      using ok by (simp add: usize_checked_mul_def image_ok_def image_area_def ABSOLUTE_MAX_IMAGE_PIXELS_def)
    show ?thesis
    proof (cases "\<exists>s v. r1 = Inr s \<and> r2 = Inr v")
      case True
      then obtain s v q where "r1 = Inr s" "r2 = Inr v" "quality_report c g s v = Some q" using rep by blast
      then show ?thesis
        using False r luma lap area
        by (simp add: assess_cancellable_def run_bind_def run_result_def quality_check_cancelled_def run_unwrap_def
            image_dimensions_view image_area_def)
    next
      case no_report: False
      with False r luma lap area show ?thesis
        by (cases r1; cases r2)
           (auto simp: assess_cancellable_def run_bind_def run_result_def quality_check_cancelled_def
              image_dimensions_view image_area_def)
    qed
  qed
qed

text \<open>
  The assessment never panics: for every image accepted by one of the three constructors, every
  geometry, configuration and cancellation behaviour, each slice access of the scans is in bounds
  and no counter or sum overflows its 32 bits, so the assessment returns a report or an error.
\<close>

theorem assess_never_panics:
  assumes "gray8_new w h px = Inr img \<or> rgb8_new w h px = Inr img \<or> yuyv_new w h px = Inr img"
  shows "\<exists>m r. assess_cancellable img g c cancel n = Some (m, r)"
  by (rule assess_total [OF assms])

section \<open>The aggregate\<close>

abbreviation fp_nonneg :: "fp \<Rightarrow> bool" where
  "fp_nonneg x \<equiv> fp_le (Finite 0) x"

lemma fp_add_nonneg: "fp_nonneg a \<Longrightarrow> fp_nonneg b \<Longrightarrow> fp_nonneg (fp_add fmt a b)"
  by (cases "(fmt, a, b)" rule: fp_add.cases) (auto simp: rnd_nonneg)

lemma fp_div_nonneg: "fp_nonneg a \<Longrightarrow> fp_nonneg b \<Longrightarrow> is_finite (fp_div fmt a b) \<Longrightarrow> fp_nonneg (fp_div fmt a b)"
  by (cases "(fmt, a, b)" rule: fp_div.cases) (auto simp: rnd_nonneg signed_inf_def split: if_splits)

lemma fp_div_pos_nonneg: "fp_nonneg a \<Longrightarrow> 0 < r \<Longrightarrow> fp_nonneg (fp_div fmt a (Finite r))"
  by (cases a) (auto simp: rnd_nonneg)

lemma fold_min_scores:
  assumes "list_all unit_score xs" and "0 \<le> m" "m \<le> 1"
  shows "\<exists>w. fold (\<lambda>s m. fp_min m s) xs (Finite m) = Finite w \<and> 0 \<le> w \<and> w \<le> m \<and>
     (\<forall>r. Finite r \<in> set xs \<longrightarrow> w \<le> r)"
  using assms
proof (induction xs arbitrary: m)
  case Nil
  then show ?case by simp
next
  case (Cons x xs)
  then obtain r where x: "x = Finite r" "0 \<le> r" "r \<le> 1" by (auto simp: unit_score_Finite)
  have "fp_min (Finite m) x = Finite (min m r)" by (simp add: x fp_min_def min_def)
  with Cons.IH [of "min m r"] Cons.prems x show ?case by (auto simp: min_le_iff_disj)
qed

lemma reciprocal_sums_nonneg:
  assumes "list_all (\<lambda>(s, w). fp_nonneg w \<and> (\<exists>r > 0. s = Finite r)) zs"
    and "fp_nonneg a" "fp_nonneg b"
    and "fold (\<lambda>(s, w) (ws, rs). (fp_add F64 ws w, fp_add F64 rs (fp_div F64 w s))) zs (a, b) = (ws, rs)"
  shows "fp_nonneg ws \<and> fp_nonneg rs"
  using assms
proof (induction zs arbitrary: a b)
  case Nil
  then show ?case by simp
next
  case (Cons z zs)
  then obtain r w where z: "z = (Finite r, w)" "0 < r" "fp_nonneg w" by (cases z) auto
  with Cons.IH [of "fp_add F64 a w" "fp_add F64 b (fp_div F64 w (Finite r))"] Cons.prems show ?case
    by (simp add: fp_add_nonneg fp_div_pos_nonneg)
qed

lemma weights_nonneg: "weights_validate w \<Longrightarrow> list_all fp_nonneg (weight_values w)"
proof -
  have "fp_nonneg (rnd F32 (1 / 100))" by (simp add: rnd_nonneg)
  then have "fp_nonneg x" if "fp_le (rnd F32 (1 / 100)) x" for x
    using that by (cases "rnd F32 (1 / 100)"; cases x) auto
  then show "weights_validate w \<Longrightarrow> ?thesis" by (auto simp: weights_validate_def list_all_iff)
qed

lemma cast_nonneg: "fp_nonneg x \<Longrightarrow> fp_nonneg (fp_cast fmt x)"
  by (cases x) (simp_all add: rnd_nonneg)

lemma fp_min_Finite_le: "\<not> is_nan x \<Longrightarrow> fp_le (fp_min x (Finite r)) (Finite r)"
  by (cases x) (auto simp: fp_min_def)

text \<open>The contract of the aggregate on eight scores.\<close>

definition aggregate_sound :: "QualityComponents \<Rightarrow> fp \<Rightarrow> fp \<Rightarrow> bool" where
  "aggregate_sound comps headroom a \<longleftrightarrow> unit_score a \<and>
     (\<forall>s \<in> set (component_values comps). fp_le a (fp_add F32 s headroom)) \<and>
     (Finite 0 \<in> set (component_values comps) \<longrightarrow> a = Finite 0)"

lemma rnd_shift_mono: "w \<le> r \<Longrightarrow> fp_le (rnd fmt (w + h)) (rnd fmt (r + h))"
  by (rule rnd_mono) simp

lemma fp_le_Infinity [simp]: "fp_le (Infinity s) (Infinity t) \<longleftrightarrow> s \<or> \<not> t"
  by (cases s; cases t) simp_all

lemma fp_le_NaN [simp]: "\<not> fp_le x NaN"
proof (cases x)
  case (Infinity s)
  then show ?thesis by (cases s) simp_all
qed simp_all

lemma fp_le_trans: "fp_le a b \<Longrightarrow> fp_le b c \<Longrightarrow> fp_le a c"
  by (cases a; cases b; cases c) auto

lemma fp_min_unit:
  assumes "fp_nonneg x" "unit_score y"
  shows "unit_score (fp_min x y) \<and> fp_le (fp_min x y) y"
proof -
  obtain r where "y = Finite r" "0 \<le> r" "r \<le> 1" using assms(2) by (auto simp: unit_score_Finite)
  then show ?thesis using assms(1) by (cases x) (auto simp: fp_min_def unit_score_Finite)
qed

lemma fp_min_one:
  assumes "fp_nonneg x"
  shows "unit_score (fp_min x (Finite 1)) \<and> fp_le (fp_min x (Finite 1)) x"
  using assms by (cases x) (auto simp: fp_min_def unit_score_Finite)

lemma conservative_aggregate_sound:
  assumes scores: "list_all unit_score (component_values comps)" and "weights_validate weights"
    and "fp_in 0 (1 / 2) headroom" and "conservative_aggregate comps weights headroom = Inr a"
  shows "aggregate_sound comps headroom a"
proof -
  obtain h where h: "headroom = Finite h" "0 \<le> h" "h \<le> 1 / 2" using assms(3) by (auto simp: fp_in_Finite)
  obtain w where w: "fold (\<lambda>s m. fp_min m s) (component_values comps) (Finite 1) = Finite w" "0 \<le> w" "w \<le> 1"
      "\<And>r. Finite r \<in> set (component_values comps) \<Longrightarrow> w \<le> r"
    using fold_min_scores [OF scores, of 1] by auto
  have below: "fp_le (rnd F32 (w + h)) (fp_add F32 s headroom)" if "s \<in> set (component_values comps)" for s
    using that scores w(4) by (auto simp: list_all_iff unit_score_Finite h rnd_shift_mono)
  have low: "fp_nonneg (rnd F32 (w + h))" using w(2) h(2) by (simp add: rnd_nonneg)
  show ?thesis
  proof (cases "w = 0")
    case True
    with assms(4) have "a = Finite 0" by (simp add: conservative_aggregate_def w(1) Let_def fp_eq_def)
    with below low show ?thesis
      by (auto simp: aggregate_sound_def unit_score_Finite intro: fp_le_trans)
  next
    case False
    have positive: "\<exists>r > 0. s = Finite r" if s: "s \<in> set (component_values comps)" for s
    proof -
      obtain r where "s = Finite r" using scores s by (auto simp: list_all_iff unit_score_Finite)
      moreover have "0 < r" using w(4) [of r] w(2) False s \<open>s = Finite r\<close> by auto
      ultimately show ?thesis by blast
    qed
    obtain ws rs where sums: "fold (\<lambda>(s, w) (ws, rs). (fp_add F64 ws w, fp_add F64 rs (fp_div F64 w s)))
        (zip (component_values comps) (weight_values weights)) (Finite 0, Finite 0) = (ws, rs)"
      by (meson surj_pair)
    have "list_all (\<lambda>(s, w). fp_nonneg w \<and> (\<exists>r > 0. s = Finite r))
        (zip (component_values comps) (weight_values weights))"
      using weights_nonneg [OF assms(2)] positive
      unfolding list_all_iff by (blast dest: set_zip_leftD set_zip_rightD)
    from reciprocal_sums_nonneg [OF this _ _ sums] have nn: "fp_nonneg ws" "fp_nonneg rs" by simp_all
    from assms(4) False obtain harmonic where
      hm: "harmonic = fp_div F64 ws rs" "is_finite harmonic"
        "a = fp_min (fp_cast F32 harmonic) (fp_min (fp_add F32 (Finite w) headroom) (Finite 1))"
      unfolding conservative_aggregate_def Let_def w(1) sums
      by (simp add: fp_eq_def bounded_f64_to_f32_def result_simps split: if_split_asm)
    have cast: "fp_nonneg (fp_cast F32 harmonic)"
      using cast_nonneg fp_div_nonneg [OF nn] hm(1,2) by simp
    let ?cap = "fp_min (rnd F32 (w + h)) (Finite 1)"
    have cap: "unit_score ?cap" "fp_le ?cap (rnd F32 (w + h))" using fp_min_one [OF low] by blast+
    have "a = fp_min (fp_cast F32 harmonic) ?cap" by (simp only: hm(3) h(1) fp_add.simps)
    then have a: "unit_score a" "fp_le a ?cap" using fp_min_unit [OF cast cap(1)] by simp_all
    have "Finite 0 \<notin> set (component_values comps)" using positive by fastforce
    moreover have "fp_le a (fp_add F32 s headroom)" if "s \<in> set (component_values comps)" for s
      by (rule fp_le_trans [OF fp_le_trans [OF a(2) cap(2)] below [OF that]])
    ultimately show ?thesis using a(1) by (simp add: aggregate_sound_def)
  qed
qed

section \<open>The report\<close>

lemma face_components_scores:
  assumes "quality_config_validate c = Inr ()"
  shows "list_all score_like (component_values (face_components c g mean clipped dynamic variance fraction))"
  using quality_config_ok [OF assms]
  by (simp add: component_values_def face_components_def Let_def band.score_like lower.score_like
      deviation.score_like score_like_min)

definition report_sound :: "QualityConfig \<Rightarrow> QualityReport \<Rightarrow> bool" where
  "report_sound c rep \<longleftrightarrow>
     list_all unit_score (component_values (qr_components rep)) \<and>
     aggregate_sound (qr_components rep) (qc_weakest_component_headroom c) (qr_aggregate rep) \<and>
     list_all is_finite [qm_mean_luma (qr_measurements rep), qm_clipped_fraction (qr_measurements rep),
       qm_percentile_dynamic_range (qr_measurements rep),
       qm_normalized_laplacian_variance (qr_measurements rep), qm_face_fraction (qr_measurements rep)]"

lemma quality_report_sound:
  assumes "quality_config_validate c = Inr ()" and "quality_report c g s v = Some (Inr rep)"
  shows "report_sound c rep"
proof -
  from assms(2) obtain mean clipped dynamic variance fraction aggregate where
    agg: "conservative_aggregate (face_components c g mean clipped dynamic variance fraction) (qc_weights c)
        (qc_weakest_component_headroom c) = Inr aggregate" and
    finite: "list_all is_finite (component_values (face_components c g mean clipped dynamic variance fraction))"
      "list_all is_finite [mean, clipped, dynamic, variance, fraction]" and
    rep: "rep = \<lparr>qr_aggregate = aggregate, qr_components = face_components c g mean clipped dynamic variance fraction,
       qr_measurements = \<lparr>qm_mean_luma = mean, qm_clipped_fraction = clipped, qm_percentile_dynamic_range = dynamic,
         qm_normalized_laplacian_variance = variance, qm_face_fraction = fraction\<rparr>\<rparr>"
    by (auto simp: quality_report_def Let_def result_simps list_ex_iff list_all_iff split: option.splits if_splits)
  have "list_all unit_score (component_values (face_components c g mean clipped dynamic variance fraction))"
    using face_components_scores [OF assms(1), of g mean clipped dynamic variance fraction] finite(1)
    by (auto simp: list_all_iff intro: score_like_finite)
  with conservative_aggregate_sound [OF this quality_config_ok(15,16) [OF assms(1)] agg] finite(2) rep show ?thesis
    by (simp add: report_sound_def)
qed

lemma run_bind_ok:
  "run_bind m f n = Some (k, Inr y) \<longleftrightarrow> (\<exists>n' x. m n = Some (n', Inr x) \<and> f x n' = Some (k, Inr y))"
  by (auto simp: run_bind_def split: option.splits sum.splits prod.splits)

lemma assess_sound:
  assumes "assess_cancellable img g c cancel n = Some (m, Inr rep)"
  shows "quality_config_validate c = Inr () \<and> geometry_validate g = Inr () \<and> report_sound c rep"
proof -
  from assms obtain s v where "quality_config_validate c = Inr ()" "geometry_validate g = Inr ()"
      "quality_report c g s v = Some (Inr rep)"
    by (auto simp: assess_cancellable_def run_bind_ok run_result_def run_unwrap_def split: if_splits prod.splits)
  with quality_report_sound show ?thesis by blast
qed

text \<open>
  C38. A quality report is conservative: every report the assessment returns has all eight component
  scores and the aggregate in the unit interval; the aggregate exceeds no component by more than
  the configured headroom (rounded once) and is zero as soon as one component is zero; all
  measurements are finite; and the configuration and geometry passed validation.
\<close>

theorem assess_report_sound:
  assumes "assess_cancellable img g c cancel n = Some (m, Inr rep)"
  shows "quality_config_validate c = Inr () \<and> geometry_validate g = Inr () \<and> report_sound c rep"
  by (rule assess_sound [OF assms])

section \<open>Witnesses\<close>

lemma rnd_sixteenth:
  assumes "0 \<le> x" "x < 1000000" "x * 16 = of_int \<lfloor>x * 16\<rfloor>"
  shows "rnd fmt x = Finite x"
proof -
  have "\<lfloor>x * 16\<rfloor> < 16000000" using assms(2) by (simp add: floor_less_iff)
  moreover have "0 \<le> \<lfloor>x * 16\<rfloor>" using assms(1) by simp
  moreover have x: "of_int \<lfloor>x * 16\<rfloor> * pow2 (- 4) = x" using assms(3) by (simp add: pow2_def)
  moreover have "pow2 20 < pow2 (max_exp fmt)" by (cases fmt) simp_all
  then have "x < pow2 (max_exp fmt)" using assms(2) by (simp add: pow2_def)
  ultimately show ?thesis using rnd_exact_nonneg [of "\<lfloor>x * 16\<rfloor>" fmt "- 4"] by (cases fmt) simp_all
qed

lemma rnd_sixteenth_neg:
  assumes "0 < x" "x < 1000000" "x * 16 = of_int \<lfloor>x * 16\<rfloor>"
  shows "rnd fmt (- x) = Finite (- x)"
  using rnd_neg [OF assms(1), of fmt] rnd_sixteenth [of x fmt] assms by simp

definition ex_config :: QualityConfig where
  "ex_config =
     \<lparr>qc_max_image_pixels = 64,
      qc_minimum_face_width_pixels = 3, qc_minimum_face_height_pixels = 3,
      qc_low_percentile = 5, qc_high_percentile = 95,
      qc_exposure = \<lparr>bc_reject_below = Finite 24, bc_ideal_min = Finite 72, bc_ideal_max = Finite 184, bc_reject_above = Finite 240\<rparr>,
      qc_dark_clip_at_or_below = 8, qc_bright_clip_at_or_above = 247,
      qc_clipped_fraction = \<lparr>dc_ideal_at_or_below = Finite (1 / 4), dc_reject_at_or_above = Finite (1 / 2)\<rparr>,
      qc_dynamic_range = \<lparr>lb_reject_at_or_below = Finite 12, lb_ideal_at_or_above = Finite 28\<rparr>,
      qc_sharpness = \<lparr>lb_reject_at_or_below = Finite 0, lb_ideal_at_or_above = Finite 1\<rparr>,
      qc_face_fraction = \<lparr>bc_reject_below = Finite 0, bc_ideal_min = Finite (1/4),
        bc_ideal_max = Finite (1/2), bc_reject_above = Finite (3/4)\<rparr>,
      qc_horizontal_centering = \<lparr>dc_ideal_at_or_below = Finite (1/4), dc_reject_at_or_above = Finite (1/2)\<rparr>,
      qc_vertical_centering = \<lparr>dc_ideal_at_or_below = Finite (1/4), dc_reject_at_or_above = Finite (1/2)\<rparr>,
      qc_yaw = \<lparr>dc_ideal_at_or_below = Finite 8, dc_reject_at_or_above = Finite 24\<rparr>,
      qc_pitch = \<lparr>dc_ideal_at_or_below = Finite 8, dc_reject_at_or_above = Finite 24\<rparr>,
      qc_roll = \<lparr>dc_ideal_at_or_below = Finite 8, dc_reject_at_or_above = Finite 24\<rparr>,
      qc_visibility = \<lparr>lb_reject_at_or_below = Finite (1/4), lb_ideal_at_or_above = Finite 1\<rparr>,
      qc_landmark_confidence = \<lparr>lb_reject_at_or_below = Finite (1/4), lb_ideal_at_or_above = Finite 1\<rparr>,
      qc_weights = \<lparr>qw_exposure = Finite 1, qw_dynamic_range = Finite 1, qw_sharpness = Finite 1, qw_face_scale = Finite (7/2),
        qw_centering = Finite 1, qw_pose = Finite 1, qw_occlusion = Finite 1, qw_landmark_confidence = Finite 1\<rparr>,
      qc_weakest_component_headroom = Finite (1 / 8)\<rparr>"

lemma ex_config_valid: "quality_config_validate ex_config = Inr ()" by code_simp

definition ex_geometry :: FaceGeometry where
  "ex_geometry = \<lparr>fg_center_x = Finite (1/2), fg_center_y = Finite (1/2), fg_width = Finite (5/8), fg_height = Finite 1,
    fg_yaw_degrees = Finite 0, fg_pitch_degrees = Finite 0, fg_roll_degrees = Finite 0,
    fg_landmark_confidence = Finite 1, fg_visible_fraction = Finite 1\<rparr>"

lemma ex_geometry_valid: "geometry_validate ex_geometry = Inr ()" by code_simp

definition ex_region :: PixelRegion where
  "ex_region = \<lparr>pr_x_start = 0, pr_x_end = 4, pr_y_start = 0, pr_y_end = 3\<rparr>"

lemma ex_ceiling: "\<lceil>13 / 4 :: rat\<rceil> = 4"
  by (rule ceiling_unique) simp_all

lemma ex_region: "region_from_geometry 4 3 ex_geometry = Inr ex_region"
  by (simp add: region_from_geometry_def ex_geometry_def edge_def fp_sub_def rnd_sixteenth f64_of_nat_def
     bounded_coordinate_to_usize_def ex_region_def ex_ceiling)

definition ex_image :: ImageView where
  "ex_image = ImgGray8 \<lparr>vw_width = 4, vw_height = 3, vw_pixels = [60, 85, 155, 60, 85, 150, 90, 155, 60, 85, 155, 60]\<rparr>"


definition ex_statistics :: LumaStatistics where
  "ex_statistics =
     \<lparr>ls_histogram = replicate 60 0 @ 4 # replicate 24 0 @ 3 # replicate 4 0 @ 1 # replicate 59 0 @ 1 #
        replicate 4 0 @ 3 # replicate 100 0,
      ls_luma_sum = 1200, ls_pixel_count = 12\<rparr>"

lemma update_replicate: "i < n \<Longrightarrow> (replicate n x)[i := y] = replicate i x @ y # replicate (n - i - 1) x"
  by (rule nth_equalityI) (auto simp: nth_list_update nth_append nth_Cons')

lemma nth_replicate_append: "(replicate n x @ h) ! i = (if i < n then x else h ! (i - n))"
  by (simp add: nth_append)

lemma percentile_from_zeros: "c \<le> t \<Longrightarrow> percentile_from t c v (replicate n 0 @ h) = percentile_from t c (v + n) h"
  using unsigned_less [of c, where ?'a = nat]
  by (induction n arbitrary: v) (auto simp: checked_add_def not_le [symmetric])

lemma checked_sum_zeros: "checked_sum (replicate n 0) = Some 0"
  by (induction n) (simp_all add: checked_add_def)

lemma ex_points: "points 0 4 0 3 = [(0,0),(1,0),(2,0),(3,0),(0,1),(1,1),(2,1),(3,1),(0,2),(1,2),(2,2),(3,2)]"
  "points 1 3 1 2 = [(1, 1), (2, 1)]" by code_simp+

lemma ex_luma: "scan_luma ex_image ex_region (\<lambda>_. False) 1 = Some (2, Inr ex_statistics)"
  by (simp add: scan_luma_def ex_region_def ex_points run_bind_def quality_check_cancelled_def run_unwrap_def run_result_def
     visit_luma_def ex_image_def slice_index_def luma_pixel_def checked_add_def LUMA_LEVELS_def CANCEL_CHECK_PIXELS_def u32_of_u8_def
     ex_statistics_def list_update_append nth_append nth_Cons' update_replicate)

lemma ex_visit: "laplacian_at ex_image (1, 1) = Some 255" "laplacian_at ex_image (2, 1) = Some (- 255)" by code_simp+

lemma ex_laplacian: "scan_laplacian ex_image ex_region (\<lambda>_. False) 2 = Some (3, Inr (Finite 65025))"
  by (simp add: scan_laplacian_def ex_region_def ex_points(2) [unfolded One_nat_def] run_bind_def quality_check_cancelled_def run_unwrap_def run_result_def
     visit_laplacian_def ex_visit [unfolded One_nat_def] welford_add_def checked_add_def Let_def fp_of_int_def fp_sub_def rnd_sixteenth rnd_sixteenth_neg f64_of_nat_def CANCEL_CHECK_PIXELS_def)

lemma ex_levels: "histogram_percentile (ls_histogram ex_statistics) 12 5 = Some 60"
 "histogram_percentile (ls_histogram ex_statistics) 12 95 = Some 155"
 "histogram_count_inclusive (ls_histogram ex_statistics) 0 8 = Some 0"
 "histogram_count_inclusive (ls_histogram ex_statistics) 247 255 = Some 0"
  by (simp_all add: histogram_percentile_def ex_statistics_def percentile_from_zeros checked_mul_def checked_add_def u32_of_u8_def 
    histogram_count_inclusive_def checked_sum_zeros)

definition ex_report :: QualityReport where
  "ex_report = \<lparr>qr_aggregate = Finite (5/8),
     qr_components = \<lparr>qp_exposure = Finite 1, qp_dynamic_range = Finite 1, qp_sharpness = Finite 1, qp_face_scale = Finite (1/2),
       qp_centering = Finite 1, qp_pose = Finite 1, qp_occlusion = Finite 1, qp_landmark_confidence = Finite 1\<rparr>,
     qr_measurements = \<lparr>qm_mean_luma = Finite 100, qm_clipped_fraction = Finite 0, qm_percentile_dynamic_range = Finite 95,
       qm_normalized_laplacian_variance = Finite 1, qm_face_fraction = Finite (5/8)\<rparr>\<rparr>"

lemmas ex_rnd = fp_sub_def rnd_sixteenth rnd_sixteenth_neg f64_of_nat_def

lemma ex_components:
  "face_components ex_config ex_geometry (Finite 100) (Finite 0) (Finite 95) (Finite 1) (Finite (5/8)) = qr_components ex_report"
  by (simp add: face_components_def ex_config_def ex_geometry_def ex_report_def band_score_def lower_score_def deviation_score_def
    ex_rnd fp_clamp_def fp_min_def)

lemma ex_aggregate:
  "conservative_aggregate (qr_components ex_report) (qc_weights ex_config) (qc_weakest_component_headroom ex_config) = Inr (Finite (5/8))"
  by (simp add: conservative_aggregate_def component_values_def weight_values_def ex_report_def ex_config_def fp_min_def fp_eq_def ex_rnd
    bounded_f64_to_f32_def f32_max_def Let_def)

lemma ex_quality_report:
  "quality_report ex_config ex_geometry ex_statistics (Finite 65025) = Some (Inr ex_report)"
proof -
  have c: "ls_pixel_count ex_statistics = 12" "ls_luma_sum ex_statistics = 1200" by (simp_all add: ex_statistics_def)
  have q: "qc_low_percentile ex_config = 5" "qc_high_percentile ex_config = 95" "qc_dark_clip_at_or_below ex_config = 8"
    "qc_bright_clip_at_or_above ex_config = 247" "fg_width ex_geometry = Finite (5/8)" "fg_height ex_geometry = Finite 1" by (simp_all add: ex_config_def ex_geometry_def)
  show ?thesis
    by (simp add: quality_report_def c q ex_levels checked_add_def u8_sub_def ex_rnd Let_def bounded_f64_to_f32_def f32_max_def ex_components ex_aggregate)
      (simp add: component_values_def ex_report_def)
qed

lemma ex_assess: "assess_cancellable ex_image ex_geometry ex_config (\<lambda>_. False) 0 = Some (4, Inr ex_report)"
proof -
  have d: "image_dimensions ex_image = (4, 3)" by (simp add: ex_image_def)
  have r: "region_width ex_region = 4" "region_height ex_region = 3" by (simp_all add: ex_region_def region_width_def region_height_def)
  have q: "qc_max_image_pixels ex_config = 64" "qc_minimum_face_width_pixels ex_config = 3" "qc_minimum_face_height_pixels ex_config = 3"
    by (simp_all add: ex_config_def)
  show ?thesis
    by (simp add: assess_cancellable_def run_bind_def quality_check_cancelled_def run_result_def run_unwrap_def ex_config_valid ex_geometry_valid
     d r q usize_checked_mul_def ex_region ex_luma [unfolded One_nat_def] ex_laplacian ex_quality_report)
qed

theorem assess_report_sound_witness: "report_sound ex_config ex_report"
  using assess_report_sound [OF ex_assess] by blast

theorem assess_never_panics_witness:
  "\<exists>m r. assess_cancellable (ImgGray8 \<lparr>vw_width = 2, vw_height = 1, vw_pixels = [7, 9]\<rparr>) ex_geometry ex_config (\<lambda>k. k = 3) 0
     = Some (m, r)"
  by (rule assess_never_panics [of 2 1 "[7, 9]"])
     (simp add: gray8_new_def validate_image_layout_def ABSOLUTE_MAX_IMAGE_DIMENSION_def ABSOLUTE_MAX_IMAGE_PIXELS_def
        usize_checked_mul_def word_le_nat_alt)

theorem histogram_percentile_exact_witness:
  "\<exists>v. histogram_percentile (ls_histogram ex_statistics) 12 95 = Some v \<and>
     sum_list (map unat (take (unat v) (ls_histogram ex_statistics))) \<le> (unat (12 :: u32) - 1) * unat (95 :: u8) div 100 \<and>
     (unat (12 :: u32) - 1) * unat (95 :: u8) div 100 <
       sum_list (map unat (take (Suc (unat v)) (ls_histogram ex_statistics)))"
  by (rule histogram_percentile_exact) (simp_all add: ex_statistics_def)

end
