(* ===== verification/Disk.thy ===== *)
theory Disk
  imports Transport
begin

text \<open>
  The file system as the encrypted template store and its key files use it
  (\<open>crates/faceauth-storage/src/lib.rs\<close>): inodes with their bytes, the system calls the code makes,
  each of which may fail, and the trust checks on directories and files. A computation on the disk
  returns the disk it leaves, also when it fails.

  Paths are absolute and their inner components are not symbolic links: the checks of the program
  inspect every ancestor of a path with \<open>lstat\<close>.
\<close>

section \<open>Computations on the disk\<close>

record Inode = FsEntry +
  in_bytes :: "u8 list"

text \<open>
  The disk: its inodes; the faults of the next system calls (an error number, and how many bytes of
  a write reach the file before it); files that other processes create just before the next
  exclusive creations of this one; where symbolic links resolve; the identity, the file mode mask,
  the random numbers and the unique names this process draws.
\<close>

record Disk =
  dk_files :: "Path \<Rightarrow> Inode option"
  dk_faults :: "(nat \<times> nat) option list"
  dk_races :: "Inode option list"
  dk_resolves :: "Path \<Rightarrow> bool"
  dk_euid :: u32
  dk_umask :: u32
  dk_draws :: nat
  dk_random :: "nat \<Rightarrow> string + (nat \<Rightarrow> u8)"
  dk_uuid :: "nat \<Rightarrow> string"

type_synonym ('e, 'a) disk_op = "Disk \<Rightarrow> Disk \<times> ('e + 'a)"

definition d_lift :: "'e + 'a \<Rightarrow> ('e, 'a) disk_op" where
  "d_lift r d = (d, r)"

definition d_bind :: "('e, 'a) disk_op \<Rightarrow> ('a \<Rightarrow> ('e, 'b) disk_op) \<Rightarrow> ('e, 'b) disk_op" where
  "d_bind m f d = (case m d of (d', Inl e) \<Rightarrow> (d', Inl e) | (d', Inr x) \<Rightarrow> f x d')"

definition d_map_err :: "('e \<Rightarrow> 'f) \<Rightarrow> ('e, 'a) disk_op \<Rightarrow> ('f, 'a) disk_op" where
  "d_map_err g m d = (case m d of (d', r) \<Rightarrow> (d', map_err g r))"

text \<open>A \<open>match\<close> on the result of a call, errors included.\<close>

definition d_match :: "('e, 'a) disk_op \<Rightarrow> ('e + 'a \<Rightarrow> ('f, 'b) disk_op) \<Rightarrow> ('f, 'b) disk_op" where
  "d_match m f d = (case m d of (d', r) \<Rightarrow> f r d')"

section \<open>System calls\<close>

abbreviation IoAlreadyExists :: IoError where
  "IoAlreadyExists \<equiv> IoOther 17"

definition syscall :: "(nat \<Rightarrow> Disk \<Rightarrow> Disk) \<Rightarrow> (IoError, 'a) disk_op \<Rightarrow> (IoError, 'a) disk_op" where
  "syscall damage body d =
     (case dk_faults d of
        [] \<Rightarrow> body d
      | None # fs \<Rightarrow> body (d\<lparr>dk_faults := fs\<rparr>)
      | Some (errno, n) # fs \<Rightarrow> (damage n (d\<lparr>dk_faults := fs\<rparr>), Inl (IoOther errno)))"

abbreviation harmless :: "nat \<Rightarrow> Disk \<Rightarrow> Disk" where
  "harmless \<equiv> (\<lambda>_ d. d)"

definition put_inode :: "Path \<Rightarrow> Inode option \<Rightarrow> Disk \<Rightarrow> Disk" where
  "put_inode p i d = d\<lparr>dk_files := (dk_files d)(p := i)\<rparr>"

definition new_inode :: "FileKind \<Rightarrow> u32 \<Rightarrow> Disk \<Rightarrow> Inode" where
  "new_inode kind mode d =
     \<lparr>fe_kind = kind, fe_uid = dk_euid d, fe_mode = mode AND NOT (dk_umask d),
      fe_device = 0, fe_inode = 0, in_bytes = []\<rparr>"

definition sys_lstat :: "Path \<Rightarrow> (IoError, Inode) disk_op" where
  "sys_lstat p = syscall harmless (\<lambda>d. (d, ok_or (dk_files d p) IoNotFound))"

definition sys_exists :: "Path \<Rightarrow> (IoError, bool) disk_op" where
  "sys_exists p = (\<lambda>d. case syscall harmless (\<lambda>d. (d, Inr (case dk_files d p of
       None \<Rightarrow> False | Some i \<Rightarrow> fe_kind i = FkSymlink \<longrightarrow> dk_resolves d p))) d of
     (d', Inl e) \<Rightarrow> (d', Inr False) | (d', Inr b) \<Rightarrow> (d', Inr b))"

text \<open>\<open>open_read_nofollow\<close>: 40 is \<open>ELOOP\<close>. An open file is identified with its path.\<close>

definition open_read_nofollow :: "Path \<Rightarrow> (IoError, Path) disk_op" where
  "open_read_nofollow p = syscall harmless (\<lambda>d. (d, case dk_files d p of
       None \<Rightarrow> Inl IoNotFound
     | Some i \<Rightarrow> if fe_kind i = FkSymlink then Inl (IoOther 40) else Inr p))"

definition sys_read_to_end :: "Path \<Rightarrow> (IoError, u8 list) disk_op" where
  "sys_read_to_end p = syscall harmless (\<lambda>d. (d, ok_or (map_option in_bytes (dk_files d p)) IoNotFound))"

text \<open>
  \<open>create_new(true)\<close> with mode 0600: fails with \<open>AlreadyExists\<close> when the path is taken, also by a
  process that takes it at the last moment.
\<close>

definition sys_create_new :: "Path \<Rightarrow> (IoError, Path) disk_op" where
  "sys_create_new p = syscall harmless (\<lambda>d.
     (case (dk_files d p, dk_races d) of
        (Some _, _) \<Rightarrow> (d, Inl IoAlreadyExists)
      | (None, Some i # rs) \<Rightarrow> (put_inode p (Some i) (d\<lparr>dk_races := rs\<rparr>), Inl IoAlreadyExists)
      | (None, rs) \<Rightarrow> (put_inode p (Some (new_inode FkRegular 0x180 d)) (d\<lparr>dk_races := tl rs\<rparr>), Inr p)))"

text \<open>\<open>create(true)\<close> with \<open>O_NOFOLLOW\<close> and mode 0600; 21 is \<open>EISDIR\<close>.\<close>

definition sys_open_or_create :: "Path \<Rightarrow> (IoError, Path) disk_op" where
  "sys_open_or_create p = syscall harmless (\<lambda>d.
     (case dk_files d p of
        None \<Rightarrow> (put_inode p (Some (new_inode FkRegular 0x180 d)) d, Inr p)
      | Some i \<Rightarrow> (d, if fe_kind i = FkSymlink then Inl (IoOther 40)
                      else if fe_kind i = FkDirectory then Inl (IoOther 21) else Inr p)))"

definition append_bytes :: "Path \<Rightarrow> u8 list \<Rightarrow> Disk \<Rightarrow> Disk" where
  "append_bytes p bs d =
     put_inode p (map_option (\<lambda>i. i\<lparr>in_bytes := in_bytes i @ bs\<rparr>) (dk_files d p)) d"

definition sys_write_all :: "Path \<Rightarrow> u8 list \<Rightarrow> (IoError, unit) disk_op" where
  "sys_write_all p bs =
     syscall (\<lambda>n. append_bytes p (take n bs)) (\<lambda>d. (append_bytes p bs d, Inr ()))"

text \<open>\<open>metadata\<close> of an open file, \<open>sync_all\<close>, \<open>lock\<close>, and \<open>File::open\<close> of a directory to sync it.\<close>

definition sys_fstat :: "Path \<Rightarrow> (IoError, Inode) disk_op" where
  "sys_fstat p = syscall harmless (\<lambda>d. (d, ok_or (dk_files d p) IoNotFound))"

definition sys_ok :: "(IoError, unit) disk_op" where
  "sys_ok = syscall harmless (\<lambda>d. (d, Inr ()))"

definition sys_open_directory :: "Path \<Rightarrow> (IoError, unit) disk_op" where
  "sys_open_directory p = syscall harmless (\<lambda>d. (d, if dk_files d p = None then Inl IoNotFound else Inr ()))"

text \<open>\<open>rename\<close> replaces the target in one step.\<close>

definition sys_rename :: "Path \<Rightarrow> Path \<Rightarrow> (IoError, unit) disk_op" where
  "sys_rename a b = syscall harmless (\<lambda>d.
     (case dk_files d a of
        None \<Rightarrow> (d, Inl IoNotFound)
      | Some i \<Rightarrow>
          if map_option fe_kind (dk_files d b) = Some FkDirectory then (d, Inl (IoOther 21))
          else (put_inode b (Some i) (put_inode a None d), Inr ())))"

definition sys_remove :: "Path \<Rightarrow> (IoError, unit) disk_op" where
  "sys_remove p = syscall harmless (\<lambda>d.
     if dk_files d p = None then (d, Inl IoNotFound) else (put_inode p None d, Inr ()))"

text \<open>Ancestors of a path, nearest first and the path itself included.\<close>

definition ancestors :: "Path \<Rightarrow> Path list" where
  "ancestors p = map (\<lambda>n. take n p) (rev [0..<Suc (length p)])"

definition make_directory :: "Path \<Rightarrow> Disk \<Rightarrow> Disk" where
  "make_directory p d =
     (if dk_files d p = None then put_inode p (Some (new_inode FkDirectory 0x1FF d)) d else d)"

definition sys_create_dir_all :: "Path \<Rightarrow> (IoError, unit) disk_op" where
  "sys_create_dir_all p =
     syscall (\<lambda>n. fold make_directory (take n (rev (ancestors p))))
       (\<lambda>d. (fold make_directory (rev (ancestors p)) d, Inr ()))"

definition sys_chmod :: "Path \<Rightarrow> u32 \<Rightarrow> (IoError, unit) disk_op" where
  "sys_chmod p mode = syscall harmless (\<lambda>d.
     (case dk_files d p of
        None \<Rightarrow> (d, Inl IoNotFound)
      | Some i \<Rightarrow> (put_inode p (Some (i\<lparr>fe_mode := mode\<rparr>)) d, Inr ())))"

text \<open>\<open>getrandom::fill\<close> and \<open>Uuid::new_v4\<close>.\<close>

definition getrandom :: "nat \<Rightarrow> (string, u8 list) disk_op" where
  "getrandom n d = (d\<lparr>dk_draws := Suc (dk_draws d)\<rparr>,
     (case dk_random d (dk_draws d) of Inl e \<Rightarrow> Inl e | Inr f \<Rightarrow> Inr (map f [0..<n])))"

definition new_uuid :: "('e, string) disk_op" where
  "new_uuid d = (d\<lparr>dk_draws := Suc (dk_draws d)\<rparr>, Inr (dk_uuid d (dk_draws d)))"

section \<open>Trust in directories and files\<close>

record TrustPolicy =
  tp_owner_uid :: u32
  tp_verify_ancestors :: bool

definition trust_root :: TrustPolicy where
  "trust_root = \<lparr>tp_owner_uid = 0, tp_verify_ancestors = True\<rparr>"

datatype TrustViolation =
  TV_Io IoError
| TV_Owner Path u32
| TV_Permissions Path u32
| TV_Type Path

datatype KeyError =
  KE_InvalidLength nat nat
| KE_InvalidPath Path
| KE_InvalidBlob
| KE_Tpm string
| KE_UnsafePermissions Path u32
| KE_UnsafeOwner Path u32 u32
| KE_UnsafePathType Path
| KE_Symlink Path
| KE_Random string
| KE_Io IoError

datatype StorageError =
  SE_Key KeyError
| SE_InvalidRecord string
| SE_IncompatibleTemplate
| SE_StaleGeneration u64 u64
| SE_TemplateNotPresent "u64 option"
| SE_GenerationExhausted
| SE_Serialization nat
| SE_AuthenticationFailed
| SE_Symlink Path
| SE_UnsafePermissions Path u32
| SE_UnsafeOwner Path u32 u32
| SE_UnsafePathType Path
| SE_Random string
| SE_Io IoError

definition mode_bits :: "Inode \<Rightarrow> u32" where
  "mode_bits i = fe_mode i AND 0x1FF"

fun verify_chain :: "TrustPolicy \<Rightarrow> Path list \<Rightarrow> (TrustViolation, unit) disk_op" where
  "verify_chain trust [] = d_lift (Inr ())"
| "verify_chain trust (q # qs) =
     d_bind (d_map_err TV_Io (sys_lstat q)) (\<lambda>md.
       if fe_kind md \<noteq> FkDirectory then d_lift (Inl (TV_Type q))
       else if fe_uid md \<noteq> tp_owner_uid trust then d_lift (Inl (TV_Owner q (fe_uid md)))
       else if mode_bits md AND 0x12 \<noteq> 0 then d_lift (Inl (TV_Permissions q (mode_bits md)))
       else if \<not> tp_verify_ancestors trust then d_lift (Inr ())
       else verify_chain trust qs)"

definition verify_directory_chain :: "Path \<Rightarrow> TrustPolicy \<Rightarrow> (TrustViolation, unit) disk_op" where
  "verify_directory_chain p trust = verify_chain trust (ancestors p)"

fun storage_violation :: "TrustPolicy \<Rightarrow> TrustViolation \<Rightarrow> StorageError" where
  "storage_violation trust (TV_Io e) = SE_Io e"
| "storage_violation trust (TV_Owner p u) = SE_UnsafeOwner p (tp_owner_uid trust) u"
| "storage_violation trust (TV_Permissions p m) = SE_UnsafePermissions p m"
| "storage_violation trust (TV_Type p) = SE_UnsafePathType p"

definition verify_directory_storage :: "Path \<Rightarrow> TrustPolicy \<Rightarrow> (StorageError, unit) disk_op" where
  "verify_directory_storage p trust = d_map_err (storage_violation trust) (verify_directory_chain p trust)"

fun key_violation :: "TrustPolicy \<Rightarrow> TrustViolation \<Rightarrow> KeyError" where
  "key_violation trust (TV_Io e) = KE_Io e"
| "key_violation trust (TV_Owner p u) = KE_UnsafeOwner p (tp_owner_uid trust) u"
| "key_violation trust (TV_Permissions p m) = KE_UnsafePermissions p m"
| "key_violation trust (TV_Type p) = KE_UnsafePathType p"

definition verify_directory_key :: "Path \<Rightarrow> TrustPolicy \<Rightarrow> (KeyError, unit) disk_op" where
  "verify_directory_key p trust = d_map_err (key_violation trust) (verify_directory_chain p trust)"

definition verify_open_key_file :: "Path \<Rightarrow> TrustPolicy \<Rightarrow> (KeyError, unit) disk_op" where
  "verify_open_key_file p trust =
     d_bind (d_map_err KE_Io (sys_fstat p)) (\<lambda>md. d_lift
       (if fe_kind md \<noteq> FkRegular then Inl (KE_UnsafePathType p)
        else if fe_uid md \<noteq> tp_owner_uid trust then Inl (KE_UnsafeOwner p (tp_owner_uid trust) (fe_uid md))
        else if mode_bits md AND 0x3F \<noteq> 0 then Inl (KE_UnsafePermissions p (mode_bits md))
        else Inr ()))"

definition verify_open_storage_file :: "Path \<Rightarrow> TrustPolicy \<Rightarrow> (StorageError, unit) disk_op" where
  "verify_open_storage_file p trust =
     d_bind (d_map_err SE_Io (sys_fstat p)) (\<lambda>md. d_lift
       (if fe_kind md \<noteq> FkRegular then Inl (SE_UnsafePathType p)
        else if fe_uid md \<noteq> tp_owner_uid trust then Inl (SE_UnsafeOwner p (tp_owner_uid trust) (fe_uid md))
        else if mode_bits md AND 0x3F \<noteq> 0 then Inl (SE_UnsafePermissions p (mode_bits md))
        else Inr ()))"

definition verify_replace_target_storage :: "Path \<Rightarrow> TrustPolicy \<Rightarrow> (StorageError, unit) disk_op" where
  "verify_replace_target_storage p trust =
     d_match (sys_lstat p) (\<lambda>r. d_lift (case r of
         Inr md \<Rightarrow>
           if fe_kind md = FkSymlink then Inl (SE_Symlink p)
           else if fe_kind md \<noteq> FkRegular then Inl (SE_UnsafePathType p)
           else if fe_uid md \<noteq> tp_owner_uid trust
                then Inl (SE_UnsafeOwner p (tp_owner_uid trust) (fe_uid md))
           else if mode_bits md AND 0x3F \<noteq> 0 then Inl (SE_UnsafePermissions p (mode_bits md))
           else Inr ()
       | Inl e \<Rightarrow> if e = IoNotFound then Inr () else Inl (SE_Io e)))"

definition verify_replace_target_key :: "Path \<Rightarrow> TrustPolicy \<Rightarrow> (KeyError, unit) disk_op" where
  "verify_replace_target_key p trust =
     d_match (sys_lstat p) (\<lambda>r. d_lift (case r of
         Inr md \<Rightarrow>
           if fe_kind md = FkSymlink then Inl (KE_Symlink p)
           else if fe_kind md \<noteq> FkRegular then Inl (KE_UnsafePathType p)
           else if fe_uid md \<noteq> tp_owner_uid trust
                then Inl (KE_UnsafeOwner p (tp_owner_uid trust) (fe_uid md))
           else if mode_bits md AND 0x3F \<noteq> 0 then Inl (KE_UnsafePermissions p (mode_bits md))
           else Inr ()
       | Inl e \<Rightarrow> if e = IoNotFound then Inr () else Inl (KE_Io e)))"

fun first_existing :: "Path list \<Rightarrow> ('e, Path option) disk_op" where
  "first_existing [] = d_lift (Inr None)"
| "first_existing (q # qs) =
     d_match (sys_exists q) (\<lambda>r. if r = Inr True then d_lift (Inr (Some q)) else first_existing qs)"

definition prepare_directory_storage :: "Path \<Rightarrow> TrustPolicy \<Rightarrow> (StorageError, unit) disk_op" where
  "prepare_directory_storage p trust =
     d_match (sys_lstat p) (\<lambda>r. case r of
         Inr _ \<Rightarrow> verify_directory_storage p trust
       | Inl e \<Rightarrow>
           if e \<noteq> IoNotFound then d_lift (Inl (SE_Io e))
           else (case path_parent p of None \<Rightarrow> d_lift (Inl (SE_UnsafePathType p)) | Some parent \<Rightarrow>
             d_bind (first_existing (ancestors parent)) (\<lambda>existing.
             case existing of None \<Rightarrow> d_lift (Inl (SE_UnsafePathType p)) | Some q \<Rightarrow>
             d_bind (verify_directory_storage q trust) (\<lambda>_.
             d_bind (d_map_err SE_Io (sys_create_dir_all p)) (\<lambda>_.
             d_bind (d_map_err SE_Io (sys_chmod p 0x1C0)) (\<lambda>_.
             verify_directory_storage p trust))))))"

definition prepare_directory_key :: "Path \<Rightarrow> TrustPolicy \<Rightarrow> (KeyError, unit) disk_op" where
  "prepare_directory_key p trust =
     d_match (sys_lstat p) (\<lambda>r. case r of
         Inr _ \<Rightarrow> verify_directory_key p trust
       | Inl e \<Rightarrow>
           if e \<noteq> IoNotFound then d_lift (Inl (KE_Io e))
           else (case path_parent p of None \<Rightarrow> d_lift (Inl (KE_InvalidPath p)) | Some parent \<Rightarrow>
             d_bind (first_existing (ancestors parent)) (\<lambda>existing.
             case existing of None \<Rightarrow> d_lift (Inl (KE_InvalidPath p)) | Some q \<Rightarrow>
             d_bind (verify_directory_key q trust) (\<lambda>_.
             d_bind (d_map_err KE_Io (sys_create_dir_all p)) (\<lambda>_.
             d_bind (d_map_err KE_Io (sys_chmod p 0x1C0)) (\<lambda>_.
             verify_directory_key p trust))))))"

section \<open>What a computation leaves alone\<close>

definition untouched :: "Path \<Rightarrow> ('e, 'a) disk_op \<Rightarrow> bool" where
  "untouched p m \<longleftrightarrow> (\<forall>d. dk_files (fst (m d)) p = dk_files d p)"

text \<open>A budget of surprises: no computation adds to it.\<close>

definition surprises :: "Disk \<Rightarrow> nat" where
  "surprises d = length (dk_faults d) + length (dk_races d)"

definition spends :: "('e, 'a) disk_op \<Rightarrow> bool" where
  "spends m \<longleftrightarrow> (\<forall>d. surprises (fst (m d)) \<le> surprises d)"

named_theorems untouched_intros \<open>computations that leave a path alone\<close>
named_theorems spends_intros \<open>computations that add no surprises\<close>

lemma untouchedD: "untouched p m \<Longrightarrow> m d = (d', r) \<Longrightarrow> dk_files d' p = dk_files d p"
  unfolding untouched_def by (metis fst_conv)

lemma spendsD: "spends m \<Longrightarrow> m d = (d', r) \<Longrightarrow> surprises d' \<le> surprises d"
  unfolding spends_def by (metis fst_conv)

lemma d_bind_ok:
  "d_bind m f d = (d', Inr y) \<longleftrightarrow> (\<exists>d1 x. m d = (d1, Inr x) \<and> f x d1 = (d', Inr y))"
  by (auto simp: d_bind_def split: prod.splits sum.splits)

lemma d_bind_err:
  "d_bind m f d = (d', Inl e) \<longleftrightarrow>
     m d = (d', Inl e) \<or> (\<exists>d1 x. m d = (d1, Inr x) \<and> f x d1 = (d', Inl e))"
  by (auto simp: d_bind_def split: prod.splits sum.splits)

lemma d_map_err_ok: "d_map_err g m d = (d', Inr y) \<longleftrightarrow> m d = (d', Inr y)"
  by (auto simp: d_map_err_def result_simps split: prod.splits)

lemma d_map_err_err: "d_map_err g m d = (d', Inl e) \<longleftrightarrow> (\<exists>e'. m d = (d', Inl e') \<and> e = g e')"
  by (auto simp: d_map_err_def result_simps split: prod.splits)

lemma d_lift_eq: "d_lift r d = (d', r') \<longleftrightarrow> d = d' \<and> r = r'"
  by (auto simp: d_lift_def)

lemma d_match_eq: "d_match m f d = (d', r') \<longleftrightarrow> (\<exists>d1 r. m d = (d1, r) \<and> f r d1 = (d', r'))"
  by (auto simp: d_match_def split: prod.splits)

lemma case_sum_eq:
  "(case r of Inl e \<Rightarrow> f e | Inr x \<Rightarrow> g x) = z \<longleftrightarrow>
     (\<exists>e. r = Inl e \<and> f e = z) \<or> (\<exists>x. r = Inr x \<and> g x = z)"
  by (cases r) auto

lemmas disk_result_simps = case_sum_eq d_bind_ok d_bind_err d_map_err_ok d_map_err_err d_lift_eq d_match_eq

lemma untouched_lift [untouched_intros]: "untouched p (d_lift r)"
  by (simp add: untouched_def d_lift_def)

lemma untouched_bind [untouched_intros]:
  "untouched p m \<Longrightarrow> (\<And>x. untouched p (f x)) \<Longrightarrow> untouched p (d_bind m f)"
  by (auto simp: untouched_def d_bind_def split: prod.splits sum.splits) (metis fst_conv)+

lemma untouched_match [untouched_intros]:
  "untouched p m \<Longrightarrow> (\<And>r. untouched p (f r)) \<Longrightarrow> untouched p (d_match m f)"
  by (auto simp: untouched_def d_match_def split: prod.splits) (metis fst_conv)

lemma untouched_map_err [untouched_intros]: "untouched p m \<Longrightarrow> untouched p (d_map_err g m)"
  by (auto simp: untouched_def d_map_err_def split: prod.splits) (metis fst_conv)

lemma untouched_syscall [untouched_intros]:
  "(\<And>n d. dk_files (damage n d) p = dk_files d p) \<Longrightarrow> (\<And>d. dk_files (fst (body d)) p = dk_files d p) \<Longrightarrow>
   untouched p (syscall damage body)"
  by (auto simp: untouched_def syscall_def split: list.splits option.splits)

lemma spends_lift [spends_intros]: "spends (d_lift r)"
  by (simp add: spends_def d_lift_def)

lemma spends_bind [spends_intros]: "spends m \<Longrightarrow> (\<And>x. spends (f x)) \<Longrightarrow> spends (d_bind m f)"
  by (auto simp: spends_def d_bind_def split: prod.splits sum.splits) (metis fst_conv order_trans)+

lemma spends_match [spends_intros]: "spends m \<Longrightarrow> (\<And>r. spends (f r)) \<Longrightarrow> spends (d_match m f)"
  by (auto simp: spends_def d_match_def split: prod.splits) (metis fst_conv order_trans)

lemma spends_map_err [spends_intros]: "spends m \<Longrightarrow> spends (d_map_err g m)"
  by (auto simp: spends_def d_map_err_def split: prod.splits) (metis fst_conv)

lemma spends_syscall [spends_intros]:
  "(\<And>n d. surprises (damage n d) \<le> surprises d) \<Longrightarrow> (\<And>d. surprises (fst (body d)) \<le> surprises d) \<Longrightarrow>
   spends (syscall damage body)"
  unfolding spends_def
proof
  fix d :: Disk
  assume damage: "\<And>n d. surprises (damage n d) \<le> surprises d"
    and body: "\<And>d. surprises (fst (body d)) \<le> surprises d"
  show "surprises (fst (syscall damage body d)) \<le> surprises d"
  proof (cases "dk_faults d")
    case Nil
    then show ?thesis by (simp add: syscall_def body)
  next
    case (Cons x fs)
    have less: "surprises (d\<lparr>dk_faults := fs\<rparr>) \<le> surprises d"
      using Cons by (simp add: surprises_def)
    show ?thesis
      using Cons order_trans [OF body less] order_trans [OF damage less]
      by (auto simp: syscall_def split: option.splits)
  qed
qed

lemma untouched_if [untouched_intros]:
  "(b \<Longrightarrow> untouched p m) \<Longrightarrow> (\<not> b \<Longrightarrow> untouched p m') \<Longrightarrow> untouched p (if b then m else m')"
  by simp

lemma spends_if [spends_intros]: "spends m \<Longrightarrow> spends m' \<Longrightarrow> spends (if b then m else m')"
  by simp

lemma put_inode_other [simp]: "q \<noteq> p \<Longrightarrow> dk_files (put_inode q i d) p = dk_files d p"
  by (simp add: put_inode_def)

lemma put_inode_same [simp]: "dk_files (put_inode p i d) p = i"
  by (simp add: put_inode_def)

lemma surprises_put_inode [simp]: "surprises (put_inode p i d) = surprises d"
  by (simp add: surprises_def put_inode_def)

lemma untouched_reads [untouched_intros]:
  "untouched p (sys_lstat q)" "untouched p (sys_fstat q)" "untouched p (open_read_nofollow q)"
  "untouched p (sys_read_to_end q)" "untouched p sys_ok" "untouched p (sys_open_directory q)"
  "untouched p (getrandom n)" "untouched p new_uuid"
  by (auto simp: sys_lstat_def sys_fstat_def open_read_nofollow_def sys_read_to_end_def sys_ok_def
      sys_open_directory_def intro!: untouched_intros) (simp_all add: untouched_def getrandom_def new_uuid_def)

lemma untouched_exists [untouched_intros]: "untouched p (sys_exists q)"
  by (auto simp: sys_exists_def untouched_def syscall_def split: list.splits option.splits prod.splits sum.splits)

lemma untouched_writes [untouched_intros]:
  "q \<noteq> p \<Longrightarrow> untouched p (sys_create_new q)" "q \<noteq> p \<Longrightarrow> untouched p (sys_open_or_create q)"
  "q \<noteq> p \<Longrightarrow> untouched p (sys_write_all q bs)" "q \<noteq> p \<Longrightarrow> untouched p (sys_remove q)"
  "q \<noteq> p \<Longrightarrow> untouched p (sys_chmod q mode)"
  "a \<noteq> p \<Longrightarrow> b \<noteq> p \<Longrightarrow> untouched p (sys_rename a b)"
  by (auto simp: sys_create_new_def sys_open_or_create_def sys_write_all_def append_bytes_def sys_remove_def
      sys_chmod_def sys_rename_def intro!: untouched_syscall split: list.splits option.splits)

lemma make_directories_frame:
  "p \<notin> set qs \<Longrightarrow> dk_files (fold make_directory qs d) p = dk_files d p"
  by (induction qs arbitrary: d) (auto simp: make_directory_def)

lemma make_directories_keep:
  "dk_files d p = Some i \<Longrightarrow> dk_files (fold make_directory qs d) p = Some i"
proof (induction qs arbitrary: d)
  case Nil
  then show ?case by simp
next
  case (Cons q qs)
  have "dk_files (make_directory q d) p = Some i"
    using Cons.prems by (cases "q = p") (simp_all add: make_directory_def)
  then show ?case using Cons.IH by simp
qed

lemma surprises_make_directories: "surprises (fold make_directory qs d) = surprises d"
  by (induction qs arbitrary: d) (auto simp: make_directory_def)

lemma untouched_create_dir_all [untouched_intros]:
  "p \<notin> set (ancestors q) \<Longrightarrow> untouched p (sys_create_dir_all q)"
proof -
  assume "p \<notin> set (ancestors q)"
  then have "p \<notin> set (take n (rev (ancestors q)))" for n
    using in_set_takeD [of p n "rev (ancestors q)"] by auto
  with \<open>p \<notin> set (ancestors q)\<close> show ?thesis
    by (auto simp: sys_create_dir_all_def make_directories_frame intro!: untouched_syscall)
qed

lemma spends_calls [spends_intros]:
  "spends (sys_lstat q)" "spends (sys_fstat q)" "spends (open_read_nofollow q)"
  "spends (sys_read_to_end q)" "spends sys_ok" "spends (sys_open_directory q)"
  "spends (sys_create_new q)" "spends (sys_open_or_create q)" "spends (sys_write_all q bs)"
  "spends (sys_remove q)" "spends (sys_chmod q mode)" "spends (sys_rename a b)"
  "spends (sys_create_dir_all q)"
  by (auto simp: sys_lstat_def sys_fstat_def open_read_nofollow_def sys_read_to_end_def sys_ok_def
      sys_open_directory_def sys_create_new_def sys_open_or_create_def sys_write_all_def append_bytes_def
      sys_remove_def sys_chmod_def sys_rename_def sys_create_dir_all_def surprises_make_directories
      intro!: spends_syscall split: list.splits option.splits) (simp_all add: surprises_def put_inode_def)

lemma spends_draws [spends_intros]: "spends (getrandom n)" "spends new_uuid"
  by (simp_all add: spends_def getrandom_def new_uuid_def surprises_def)

lemma untouched_verify_chain [untouched_intros]: "untouched p (verify_chain trust qs)"
  by (induction qs) (auto intro!: untouched_intros)

lemma spends_verify_chain [spends_intros]: "spends (verify_chain trust qs)"
  by (induction qs) (auto intro!: spends_intros)

lemma untouched_verify [untouched_intros]:
  "untouched p (verify_directory_storage q trust)" "untouched p (verify_directory_key q trust)"
  "untouched p (verify_open_key_file q trust)" "untouched p (verify_open_storage_file q trust)"
  "untouched p (verify_replace_target_storage q trust)" "untouched p (verify_replace_target_key q trust)"
  by (auto simp: verify_directory_storage_def verify_directory_key_def verify_directory_chain_def
      verify_open_key_file_def verify_open_storage_file_def verify_replace_target_storage_def
      verify_replace_target_key_def intro!: untouched_intros)

lemma spends_verify [spends_intros]:
  "spends (verify_directory_key q trust)" "spends (verify_open_key_file q trust)"
  "spends (verify_replace_target_key q trust)"
  by (auto simp: verify_directory_key_def verify_directory_chain_def verify_open_key_file_def
      verify_replace_target_key_def intro!: spends_intros)

lemma untouched_first_existing [untouched_intros]: "untouched p (first_existing qs)"
  by (induction qs) (auto intro!: untouched_intros)

lemma untouched_prepare_storage [untouched_intros]:
  assumes "p \<notin> set (ancestors q)"
  shows "untouched p (prepare_directory_storage q trust)"
proof -
  have "q \<noteq> p" using assms by (auto simp: ancestors_def)
  with assms show ?thesis
    by (auto simp: prepare_directory_storage_def intro!: untouched_intros split: sum.split option.split)
qed

lemma untouched_prepare_key [untouched_intros]:
  assumes "p \<notin> set (ancestors q)"
  shows "untouched p (prepare_directory_key q trust)"
proof -
  have "q \<noteq> p" using assms by (auto simp: ancestors_def)
  with assms show ?thesis
    by (auto simp: prepare_directory_key_def intro!: untouched_intros split: sum.split option.split)
qed

section \<open>What the checks establish\<close>

definition trusted_directory :: "TrustPolicy \<Rightarrow> Inode \<Rightarrow> bool" where
  "trusted_directory trust i \<longleftrightarrow>
     fe_kind i = FkDirectory \<and> fe_uid i = tp_owner_uid trust \<and> fe_mode i AND 0x12 = 0"

definition trusted_file :: "TrustPolicy \<Rightarrow> Inode \<Rightarrow> bool" where
  "trusted_file trust i \<longleftrightarrow>
     fe_kind i = FkRegular \<and> fe_uid i = tp_owner_uid trust \<and> fe_mode i AND 0x3F = 0"

lemma syscall_harmless_ok:
  assumes "syscall harmless body d = (d', Inr x)"
  shows "\<exists>fs. body (d\<lparr>dk_faults := fs\<rparr>) = (d', Inr x)"
proof (cases "dk_faults d")
  case Nil
  have same: "d\<lparr>dk_faults := dk_faults d\<rparr> = d" by simp
  have "body d = (d', Inr x)" using Nil assms by (simp add: syscall_def)
  then have "body (d\<lparr>dk_faults := dk_faults d\<rparr>) = (d', Inr x)" unfolding same .
  then show ?thesis ..
next
  case (Cons f fs)
  with assms show ?thesis by (auto simp: syscall_def split: option.splits)
qed

lemma sys_lstat_ok: "sys_lstat p d = (d', Inr i) \<Longrightarrow> dk_files d p = Some i"
  unfolding sys_lstat_def by (drule syscall_harmless_ok) (auto simp: result_simps)

lemma sys_fstat_ok: "sys_fstat p d = (d', Inr i) \<Longrightarrow> dk_files d p = Some i"
  unfolding sys_fstat_def by (drule syscall_harmless_ok) (auto simp: result_simps)

lemma sys_read_ok: "sys_read_to_end p d = (d', Inr bs) \<Longrightarrow> \<exists>i. dk_files d p = Some i \<and> bs = in_bytes i"
  unfolding sys_read_to_end_def by (drule syscall_harmless_ok) (auto simp: result_simps)

lemma open_read_ok: "open_read_nofollow p d = (d', Inr q) \<Longrightarrow>
    q = p \<and> (\<exists>i. dk_files d p = Some i \<and> fe_kind i \<noteq> FkSymlink)"
  unfolding open_read_nofollow_def by (drule syscall_harmless_ok) (auto split: option.splits if_splits)

lemma open_read_absent: "open_read_nofollow p d = (d', Inl IoNotFound) \<Longrightarrow> dk_files d p = None"
  unfolding open_read_nofollow_def
  by (auto simp: syscall_def split: list.splits option.splits if_splits)

lemma sys_rename_ok:
  assumes "sys_rename a b d = (d', Inr u)" and "a \<noteq> b"
  shows "dk_files d' b = dk_files d a \<and> dk_files d a \<noteq> None"
  using assms(1) unfolding sys_rename_def
  by (drule_tac syscall_harmless_ok) (auto split: option.splits if_splits)

lemma sys_rename_err: "sys_rename a b d = (d', Inl e) \<Longrightarrow> dk_files d' = dk_files d"
  by (auto simp: sys_rename_def syscall_def split: list.splits option.splits if_splits)

lemma sys_write_all_ok:
  assumes "sys_write_all p bs d = (d', Inr u)" and "dk_files d p = Some i"
  shows "dk_files d' p = Some (i\<lparr>in_bytes := in_bytes i @ bs\<rparr>)"
  using assms by (auto simp: sys_write_all_def syscall_def append_bytes_def split: list.splits option.splits)

lemma sys_create_new_ok:
  "sys_create_new p d = (d', Inr q) \<Longrightarrow> q = p \<and> (\<exists>i. dk_files d' p = Some i \<and> in_bytes i = [])"
  unfolding sys_create_new_def
  by (drule syscall_harmless_ok) (auto simp: new_inode_def split: option.splits list.splits)

lemma mode_AND_simps [simp]:
  "(m AND 0x1FF) AND (0x12::u32) = m AND 0x12" "(m AND 0x1FF) AND (0x3F::u32) = m AND 0x3F"
  by (simp_all add: and.assoc)

lemma verify_chain_ok:
  "verify_chain trust qs d = (d', Inr u) \<Longrightarrow> tp_verify_ancestors trust \<Longrightarrow> q \<in> set qs \<Longrightarrow>
   \<exists>i. dk_files d q = Some i \<and> trusted_directory trust i"
proof (induction qs arbitrary: d)
  case Nil
  then show ?case by simp
next
  case (Cons p qs)
  obtain d1 i where i: "sys_lstat p d = (d1, Inr i)" "trusted_directory trust i"
      "verify_chain trust qs d1 = (d', Inr u)"
    using Cons.prems(1,2)
    by (auto simp: disk_result_simps trusted_directory_def mode_bits_def split: if_splits)
  have same: "dk_files d1 r = dk_files d r" for r
    using untouched_reads(1) [THEN untouchedD, OF i(1)] .
  show ?case
    using Cons.prems(3) i sys_lstat_ok [OF i(1)] Cons.IH [OF i(3) Cons.prems(2)] by (auto simp: same)
qed

lemma verify_directory_key_ok:
  "verify_directory_key p trust d = (d', Inr u) \<Longrightarrow> tp_verify_ancestors trust \<Longrightarrow> q \<in> set (ancestors p) \<Longrightarrow>
   \<exists>i. dk_files d q = Some i \<and> trusted_directory trust i"
  unfolding verify_directory_key_def verify_directory_chain_def disk_result_simps by (rule verify_chain_ok)

lemma verify_open_key_file_ok:
  "verify_open_key_file p trust d = (d', Inr u) \<Longrightarrow> \<exists>i. dk_files d p = Some i \<and> trusted_file trust i"
  by (auto simp: verify_open_key_file_def disk_result_simps trusted_file_def mode_bits_def
      dest!: sys_fstat_ok split: if_splits)

lemma verify_open_storage_file_ok:
  "verify_open_storage_file p trust d = (d', Inr u) \<Longrightarrow> \<exists>i. dk_files d p = Some i \<and> trusted_file trust i"
  by (auto simp: verify_open_storage_file_def disk_result_simps trusted_file_def mode_bits_def
      dest!: sys_fstat_ok split: if_splits)

end
