(* ===== verification/Keys.thy ===== *)
theory Keys
  imports Disk
begin

text \<open>
  Machine keys (\<open>crates/faceauth-storage/src/lib.rs\<close>, \<open>tpm.rs\<close>): the key file provider, which
  creates its file on first use, and the container of the key the TPM seals. The TPM itself is not
  modelled.

  A key provider is used through the interface \<open>key_provider\<close>: a key it hands out is the one the
  disk holds, it keeps handing out that one, and it touches no file but its own.
\<close>

definition KEY_LENGTH :: nat where
  "KEY_LENGTH = 32"

datatype KeyStrength = TpmBound | RootOnlyFile

type_synonym SecretKey = "u8 list"

definition secret_key_from_slice :: "u8 list \<Rightarrow> KeyError + SecretKey" where
  "secret_key_from_slice bytes =
     (if length bytes = KEY_LENGTH then Inr bytes else Inl (KE_InvalidLength KEY_LENGTH (length bytes)))"

definition same_secret :: "SecretKey \<Rightarrow> SecretKey \<Rightarrow> bool" where
  "same_secret a b = (fold (\<lambda>(l, r) difference. difference OR (l XOR r)) (zip a b) 0 = 0)"

section \<open>The key file\<close>

record FileKeyProvider =
  fkp_path :: Path
  fkp_trust :: TrustPolicy

definition file_key_provider_new :: "Path \<Rightarrow> FileKeyProvider" where
  "file_key_provider_new p = \<lparr>fkp_path = p, fkp_trust = trust_root\<rparr>"

definition file_key_strength :: "FileKeyProvider \<Rightarrow> KeyStrength" where
  "file_key_strength p = RootOnlyFile"

definition read_key_file :: "Path \<Rightarrow> TrustPolicy \<Rightarrow> (KeyError, SecretKey) disk_op" where
  "read_key_file p trust =
     d_bind (verify_open_key_file p trust) (\<lambda>_.
     d_bind (d_map_err KE_Io (sys_read_to_end p)) (\<lambda>bytes.
     d_lift (secret_key_from_slice bytes)))"

text \<open>The head of \<open>load_key\<close>: the open key file, or nothing when it has to be created.\<close>

definition open_key :: "FileKeyProvider \<Rightarrow> (KeyError, Path option) disk_op" where
  "open_key p =
     d_bind (d_lift (ok_or (path_parent (fkp_path p)) (KE_InvalidPath (fkp_path p)))) (\<lambda>parent.
     d_bind (verify_directory_key parent (fkp_trust p)) (\<lambda>_.
     d_bind (verify_replace_target_key (fkp_path p) (fkp_trust p)) (\<lambda>_.
     d_match (open_read_nofollow (fkp_path p)) (\<lambda>r. d_lift (case r of
         Inr file \<Rightarrow> Inr (Some file)
       | Inl e \<Rightarrow> if e = IoNotFound then Inr None else Inl (KE_Io e))))))"

text \<open>The head of \<open>create_key\<close>: fresh key bytes, or nothing when the file has appeared meanwhile.\<close>

definition create_key_file :: "FileKeyProvider \<Rightarrow> (KeyError, (Path \<times> u8 list) option) disk_op" where
  "create_key_file p =
     d_bind (d_map_err KE_Random (getrandom KEY_LENGTH)) (\<lambda>bytes.
     d_match (sys_create_new (fkp_path p)) (\<lambda>r. d_lift (case r of
         Inr file \<Rightarrow> Inr (Some (file, bytes))
       | Inl e \<Rightarrow> if e = IoAlreadyExists then Inr None else Inl (KE_Io e))))"

definition write_key_file :: "Path \<Rightarrow> u8 list \<Rightarrow> TrustPolicy \<Rightarrow> (KeyError, SecretKey) disk_op" where
  "write_key_file file bytes trust =
     d_bind (verify_open_key_file file trust) (\<lambda>_.
     d_bind (d_map_err KE_Io (sys_write_all file bytes)) (\<lambda>_.
     d_bind (d_map_err KE_Io sys_ok) (\<lambda>_.
     d_lift (secret_key_from_slice bytes))))"

lemma open_key_absent:
  assumes "open_key p d = (d1, Inr None)"
  shows "dk_files d1 (fkp_path p) = None \<and> surprises d1 \<le> surprises d"
proof -
  from assms obtain d0 where d0: "open_read_nofollow (fkp_path p) d0 = (d1, Inl IoNotFound)"
    by (auto simp: open_key_def disk_result_simps split: if_splits)
  have "dk_files d1 (fkp_path p) = None"
    using open_read_absent [OF d0] untouched_reads(3) [THEN untouchedD, OF d0] by simp
  moreover have "spends (open_key p)"
    by (auto simp: open_key_def intro!: spends_intros)
  ultimately show ?thesis using spendsD [OF \<open>spends (open_key p)\<close> assms] by blast
qed

lemma create_key_raced:
  assumes "create_key_file p d = (d', Inr None)" and "dk_files d (fkp_path p) = None"
  shows "surprises d' < surprises d"
proof -
  from assms(1) obtain d1 bytes where
    d1: "getrandom KEY_LENGTH d = (d1, Inr bytes)"
        "sys_create_new (fkp_path p) d1 = (d', Inl IoAlreadyExists)"
    by (auto simp: create_key_file_def disk_result_simps split: if_splits)
  have "dk_files d1 (fkp_path p) = None" "surprises d1 = surprises d"
    using d1(1) assms(2) by (auto simp: getrandom_def surprises_def)
  with d1(2) show ?thesis
    by (auto simp: sys_create_new_def syscall_def surprises_def put_inode_def
        split: list.splits option.splits)
qed

text \<open>
  \<open>load_key\<close> with \<open>create_key\<close>, which call each other: it starts over when another process has
  created the file in between.
\<close>

function file_load_key :: "FileKeyProvider \<Rightarrow> (KeyError, SecretKey) disk_op" where
  "file_load_key p d =
     (case open_key p d of
        (d1, Inl e) \<Rightarrow> (d1, Inl e)
      | (d1, Inr (Some file)) \<Rightarrow> read_key_file file (fkp_trust p) d1
      | (d1, Inr None) \<Rightarrow>
          (case create_key_file p d1 of
             (d2, Inl e) \<Rightarrow> (d2, Inl e)
           | (d2, Inr None) \<Rightarrow> file_load_key p d2
           | (d2, Inr (Some (file, bytes))) \<Rightarrow> write_key_file file bytes (fkp_trust p) d2))"
  by pat_completeness auto
termination
proof (relation "measure (\<lambda>(p, d). surprises d)", goal_cases)
  case 1
  show ?case by simp
next
  case 2
  then show ?case 
    by (auto dest!: sym [of _ "open_key _ _"] sym [of _ "create_key_file _ _"] open_key_absent create_key_raced)
qed

declare file_load_key.simps [simp del]

section \<open>The interface of a key provider\<close>

text \<open>
  \<open>load_key\<close> as the template store relies on it; \<open>key_in\<close> reads off the disk which key it holds, and
  \<open>key_path\<close> tells the provider's files.
\<close>

locale key_provider =
  fixes load_key :: "(KeyError, SecretKey) disk_op"
    and key_in :: "Disk \<Rightarrow> SecretKey option"
    and key_path :: "Path \<Rightarrow> bool"
  assumes load_key_sound: "load_key d = (d', Inr k) \<Longrightarrow> key_in d' = Some k"
    and load_key_stable: "load_key d = (d', r) \<Longrightarrow> key_in d = Some k \<Longrightarrow> key_in d' = Some k"
    and load_key_frame: "\<not> key_path p \<Longrightarrow> untouched p load_key"
    and key_in_local: "(\<And>p. key_path p \<Longrightarrow> dk_files d p = dk_files d' p) \<Longrightarrow> key_in d = key_in d'"
begin

lemma load_key_same:
  assumes "load_key d = (d1, Inr k)" and "key_in d2 = key_in d1" and "load_key d2 = (d3, Inr k')"
  shows "k' = k"
  using load_key_sound [OF assms(1)] load_key_stable [OF assms(3), of k] load_key_sound [OF assms(3)] assms(2)
  by simp

end

definition file_key_in :: "FileKeyProvider \<Rightarrow> Disk \<Rightarrow> SecretKey option" where
  "file_key_in p d =
     (case dk_files d (fkp_path p) of
        None \<Rightarrow> None
      | Some i \<Rightarrow> if length (in_bytes i) = KEY_LENGTH then Some (in_bytes i) else None)"

lemma secret_key_from_slice_ok:
  "secret_key_from_slice bs = Inr k \<longleftrightarrow> k = bs \<and> length bs = KEY_LENGTH"
  by (auto simp: secret_key_from_slice_def)

lemma trusted_file_bytes [simp]: "trusted_file trust (i\<lparr>in_bytes := bs\<rparr>) = trusted_file trust i"
  by (simp add: trusted_file_def)

lemma untouched_open_key [untouched_intros]: "untouched q (open_key p)"
  by (auto simp: open_key_def intro!: untouched_intros)

lemma untouched_create_key [untouched_intros]: "fkp_path p \<noteq> q \<Longrightarrow> untouched q (create_key_file p)"
  by (auto simp: create_key_file_def intro!: untouched_intros)

lemma untouched_write_key [untouched_intros]: "p \<noteq> q \<Longrightarrow> untouched q (write_key_file p bs trust)"
  by (auto simp: write_key_file_def intro!: untouched_intros)

lemma untouched_read_key [untouched_intros]: "untouched q (read_key_file p trust)"
  by (auto simp: read_key_file_def intro!: untouched_intros)

lemma open_key_ok:
  assumes "open_key p d = (d1, Inr file)"
  shows "fkp_path p \<noteq> [] \<and> (\<forall>f. file = Some f \<longrightarrow> f = fkp_path p) \<and>
     (tp_verify_ancestors (fkp_trust p) \<longrightarrow>
      (\<forall>q \<in> set (ancestors (butlast (fkp_path p))). \<exists>i. dk_files d1 q = Some i \<and> trusted_directory (fkp_trust p) i))"
proof -
  have same: "dk_files d1 q = dk_files d q" for q
    using untouched_open_key [THEN untouchedD, OF assms] .
  from assms show ?thesis
    by (auto simp: open_key_def disk_result_simps result_simps path_parent_def same
        dest!: verify_directory_key_ok open_read_ok split: if_splits)
qed

lemma create_key_file_ok:
  assumes "create_key_file p d = (d1, Inr (Some (file, bytes)))"
  shows "file = fkp_path p \<and> length bytes = KEY_LENGTH \<and> (\<exists>i. dk_files d1 file = Some i \<and> in_bytes i = [])"
  using assms
  by (auto simp: create_key_file_def disk_result_simps getrandom_def dest!: sys_create_new_ok
      split: if_splits sum.splits)

lemma write_key_file_ok:
  assumes "write_key_file p bytes trust d = (d', Inr k)" and "dk_files d p = Some i" and "in_bytes i = []"
  shows "k = bytes \<and> length k = KEY_LENGTH \<and>
    (\<exists>i. dk_files d' p = Some i \<and> trusted_file trust i \<and> in_bytes i = k)"
proof -
  from assms(1) obtain d1 d2 where
    d1: "verify_open_key_file p trust d = (d1, Inr ())" and
    d2: "sys_write_all p bytes d1 = (d2, Inr ())" and
    d': "sys_ok d2 = (d', Inr ())" and k: "k = bytes" "length bytes = KEY_LENGTH"
    by (auto simp: write_key_file_def disk_result_simps secret_key_from_slice_ok)
  have "dk_files d1 p = Some i" "dk_files d' p = dk_files d2 p"
    using assms(2) untouched_verify(3) [THEN untouchedD, OF d1] untouched_reads(5) [THEN untouchedD, OF d']
    by simp_all
  with sys_write_all_ok [OF d2] verify_open_key_file_ok [OF d1] assms(2,3) k show ?thesis
    by auto
qed

lemma read_key_file_ok:
  assumes "read_key_file p trust d = (d', Inr k)"
  shows "length k = KEY_LENGTH \<and> (\<exists>i. dk_files d' p = Some i \<and> trusted_file trust i \<and> in_bytes i = k)"
proof -
  from assms obtain d1 where
    d1: "verify_open_key_file p trust d = (d1, Inr ())" and
    d': "sys_read_to_end p d1 = (d', Inr k)" and k: "length k = KEY_LENGTH"
    by (auto simp: read_key_file_def disk_result_simps secret_key_from_slice_ok)
  have "dk_files d1 p = dk_files d p" "dk_files d' p = dk_files d p"
    using untouched_verify(3) [THEN untouchedD, OF d1] untouched_reads(4) [THEN untouchedD, OF d'] by simp_all
  with verify_open_key_file_ok [OF d1] sys_read_ok [OF d'] k show ?thesis by auto
qed

lemma ancestors_shorter: "q \<in> set (ancestors p) \<Longrightarrow> length q \<le> length p"
  by (auto simp: ancestors_def)

lemma not_ancestor_of_parent: "p \<noteq> [] \<Longrightarrow> p \<notin> set (ancestors (butlast p))"
  by (cases p) (auto dest!: ancestors_shorter)

text \<open>What a successful \<open>load_key\<close> has established about the disk it leaves.\<close>

definition key_secured :: "FileKeyProvider \<Rightarrow> Disk \<Rightarrow> SecretKey \<Rightarrow> bool" where
  "key_secured p d k \<longleftrightarrow> fkp_path p \<noteq> [] \<and> length k = KEY_LENGTH \<and>
     (\<exists>i. dk_files d (fkp_path p) = Some i \<and> trusted_file (fkp_trust p) i \<and> in_bytes i = k) \<and>
     (tp_verify_ancestors (fkp_trust p) \<longrightarrow>
      (\<forall>q \<in> set (ancestors (butlast (fkp_path p))). \<exists>i. dk_files d q = Some i \<and> trusted_directory (fkp_trust p) i))"

lemma file_load_key_secured: "file_load_key p d = (d', Inr k) \<Longrightarrow> key_secured p d' k"
proof (induction p d rule: file_load_key.induct)
  case (1 p d)
  from "1.prems" obtain d1 o' where d1: "open_key p d = (d1, Inr o')"
    by (subst (asm) file_load_key.simps) (auto split: prod.splits sum.splits)
  note opened = open_key_ok [OF d1]
  show ?case
  proof (cases o')
    case (Some f)
    with "1.prems" d1 opened have read: "read_key_file (fkp_path p) (fkp_trust p) d1 = (d', Inr k)"
      by (subst (asm) file_load_key.simps) simp
    have "dk_files d' q = dk_files d1 q" for q
      using untouched_read_key [THEN untouchedD, OF read] .
    with opened read_key_file_ok [OF read] show ?thesis by (simp add: key_secured_def)
  next
    case None
    with "1.prems" d1 obtain d2 c where d2: "create_key_file p d1 = (d2, Inr c)"
      by (subst (asm) file_load_key.simps) (auto split: prod.splits sum.splits)
    show ?thesis
    proof (cases c)
      case None
      with \<open>o' = None\<close> "1.prems" d1 d2 have "file_load_key p d2 = (d', Inr k)"
        by (subst (asm) file_load_key.simps) simp
      then show ?thesis
        using "1.IH" [OF d1 [symmetric] refl] \<open>o' = None\<close> None d2 by simp
    next
      case (Some fb)
      then obtain f bytes where fb: "c = Some (f, bytes)" by (cases fb) auto
      have wr: "write_key_file (fkp_path p) bytes (fkp_trust p) d2 = (d', Inr k)"
        using \<open>o' = None\<close> "1.prems" d1 d2 fb create_key_file_ok [of p d1 d2 f bytes]
        by (subst (asm) file_load_key.simps) simp
      have "dk_files d' q = dk_files d1 q" if "q \<noteq> fkp_path p" for q
        using that untouched_write_key [THEN untouchedD, OF _ wr, of q]
          untouched_create_key [THEN untouchedD, OF _ d2, of q] by auto
      then show ?thesis
        using opened not_ancestor_of_parent [of "fkp_path p"] create_key_file_ok [of p d1 d2 f bytes]
          write_key_file_ok [OF wr] d2 fb
        by (auto simp: key_secured_def) metis
    qed
  qed
qed

lemma file_load_key_frame:
  "q \<noteq> fkp_path p \<or> (\<exists>i. dk_files d (fkp_path p) = Some i) \<Longrightarrow>
   dk_files (fst (file_load_key p d)) q = dk_files d q"
proof (induction p d rule: file_load_key.induct)
  case (1 p d)
  obtain d1 r1 where d1: "open_key p d = (d1, r1)" by fastforce
  have same: "dk_files d1 q' = dk_files d q'" for q'
    using untouched_open_key [THEN untouchedD, OF d1] .
  show ?case
  proof (cases "r1 = Inr None")
    case False
    moreover have "dk_files (fst (read_key_file f (fkp_trust p) d1)) q = dk_files d q" for f
      using untouched_read_key [of q f "fkp_trust p"] same by (simp add: untouched_def)
    ultimately show ?thesis
      using d1 same by (subst file_load_key.simps) (auto split: sum.splits option.splits)
  next
    case True
    then have other: "q \<noteq> fkp_path p" using "1.prems" open_key_absent [of p d d1] d1 same by auto
    obtain d2 r2 where d2: "create_key_file p d1 = (d2, r2)" by fastforce
    have "dk_files d2 q = dk_files d q"
      using untouched_create_key [THEN untouchedD, OF _ d2, of q] other same by auto
    moreover have "dk_files (fst (write_key_file f bs (fkp_trust p) d2)) q = dk_files d2 q"
      if "r2 = Inr (Some (f, bs))" for f bs
      using untouched_write_key [of f q bs "fkp_trust p"] create_key_file_ok [of p d1 d2 f bs] d2 that other
      by (auto simp: untouched_def)
    moreover have "dk_files (fst (file_load_key p d2)) q = dk_files d2 q" if "r2 = Inr None"
      using "1.IH" [OF d1 [symmetric]] True d2 that other by auto
    ultimately show ?thesis
      using True d1 d2
      by (subst file_load_key.simps) (auto split: sum.splits option.splits)
  qed
qed

interpretation file_key: key_provider "file_load_key p" "file_key_in p" "\<lambda>q. q = fkp_path p"
  for p :: FileKeyProvider
proof (unfold_locales, goal_cases)
  case (1 d d' k)
  then show ?case by (auto simp: file_key_in_def key_secured_def dest!: file_load_key_secured)
next
  case (2 d d' r k)
  then show ?case
    using file_load_key_frame [of "fkp_path p" p d] by (auto simp: file_key_in_def split: option.splits)
next
  case (3 q)
  then show ?case using file_load_key_frame [of q p] by (simp add: untouched_def)
next
  case (4 d d')
  then show ?case by (simp add: file_key_in_def)
qed

section \<open>The container of a TPM-sealed key\<close>

definition BLOB_MAGIC :: "u8 list" where
  "BLOB_MAGIC = [0x46, 0x41, 0x54, 0x4B]"

definition BLOB_VERSION :: u16 where
  "BLOB_VERSION = 1"

definition BLOB_HEADER_LENGTH :: nat where
  "BLOB_HEADER_LENGTH = length BLOB_MAGIC + 2 + 4 + 4"

definition MAX_BLOB_LENGTH :: nat where
  "MAX_BLOB_LENGTH = 64 * 1024"

definition encode_blob :: "u8 list \<Rightarrow> u8 list \<Rightarrow> KeyError + u8 list" where
  "encode_blob pub priv =
     (if \<not> length pub < 2 ^ 32 then Inl KE_InvalidBlob
      else if \<not> length priv < 2 ^ 32 then Inl KE_InvalidBlob
      else case usize_checked_add BLOB_HEADER_LENGTH (length pub) of None \<Rightarrow> Inl KE_InvalidBlob | Some n \<Rightarrow>
     (case usize_checked_add n (length priv) of None \<Rightarrow> Inl KE_InvalidBlob | Some m \<Rightarrow>
      if m > MAX_BLOB_LENGTH then Inl KE_InvalidBlob
      else Inr (BLOB_MAGIC @ le_bytes 2 (unat BLOB_VERSION) @ le_bytes 4 (length pub) @
                le_bytes 4 (length priv) @ pub @ priv)))"

definition slice :: "nat \<Rightarrow> nat \<Rightarrow> 'a list \<Rightarrow> 'a list" where
  "slice a b xs = drop a (take b xs)"

text \<open>The parsing half of \<open>read_blob\<close>, after the file has been read.\<close>

definition decode_blob :: "u8 list \<Rightarrow> KeyError + u8 list \<times> u8 list" where
  "decode_blob encoded =
     (if length encoded < BLOB_HEADER_LENGTH \<or> length encoded > MAX_BLOB_LENGTH then Inl KE_InvalidBlob
      else if take 4 encoded \<noteq> BLOB_MAGIC then Inl KE_InvalidBlob
      else if of_le_bytes (slice 4 6 encoded) \<noteq> unat BLOB_VERSION then Inl KE_InvalidBlob
      else case usize_checked_add BLOB_HEADER_LENGTH (of_le_bytes (slice 6 10 encoded)) of
             None \<Rightarrow> Inl KE_InvalidBlob | Some public_end \<Rightarrow>
           (case usize_checked_add public_end (of_le_bytes (slice 10 14 encoded)) of
             None \<Rightarrow> Inl KE_InvalidBlob | Some private_end \<Rightarrow>
              if private_end \<noteq> length encoded then Inl KE_InvalidBlob
              else Inr (slice BLOB_HEADER_LENGTH public_end encoded, drop public_end encoded)))"

definition read_blob :: "Path \<Rightarrow> TrustPolicy \<Rightarrow> (KeyError, u8 list \<times> u8 list) disk_op" where
  "read_blob p trust =
     d_bind (d_map_err KE_Io (open_read_nofollow p)) (\<lambda>f.
     d_bind (verify_open_key_file f trust) (\<lambda>_.
     d_bind (d_map_err KE_Io (sys_read_to_end f)) (\<lambda>bytes.
     d_lift (decode_blob (take (MAX_BLOB_LENGTH + 1) bytes)))))"

text \<open>The closure whose error makes \<open>atomic_write_blob\<close> remove its temporary file.\<close>

definition write_blob_temporary ::
  "Path \<Rightarrow> Path \<Rightarrow> Path \<Rightarrow> u8 list \<Rightarrow> TrustPolicy \<Rightarrow> (KeyError, unit) disk_op" where
  "write_blob_temporary temporary p directory bytes trust =
     d_bind (d_map_err KE_Io (sys_create_new temporary)) (\<lambda>f.
     d_bind (verify_open_key_file f trust) (\<lambda>_.
     d_bind (d_map_err KE_Io (sys_write_all f bytes)) (\<lambda>_.
     d_bind (d_map_err KE_Io sys_ok) (\<lambda>_.
     d_bind (d_map_err KE_Io (sys_rename temporary p)) (\<lambda>_.
     d_bind (d_map_err KE_Io (sys_open_directory directory)) (\<lambda>_.
     d_map_err KE_Io sys_ok))))))"

definition atomic_write_blob ::
  "Path \<Rightarrow> u8 list \<Rightarrow> Path \<Rightarrow> TrustPolicy \<Rightarrow> (KeyError, unit) disk_op" where
  "atomic_write_blob p bytes directory trust =
     d_bind (verify_directory_key directory trust) (\<lambda>_.
     d_bind (verify_replace_target_key p trust) (\<lambda>_.
     d_bind new_uuid (\<lambda>uuid.
     let temporary = directory @ [''.faceauth-tpm-key.tmp-'' @ uuid] in
     d_match (write_blob_temporary temporary p directory bytes trust) (\<lambda>r.
       if is_err r then d_match (sys_remove temporary) (\<lambda>_. d_lift r) else d_lift r))))"

section \<open>Properties\<close>

text \<open>
  C35. Key release: a key that \<open>load_key\<close> hands out has 32 bytes, is exactly what the key file holds,
  and that file is a regular file of the required owner that nobody else may access, below
  directories that only the owner may write; no other path has changed, and an existing key file
  has not changed at all.
\<close>

theorem key_release_secured:
  assumes "file_load_key p d = (d', Inr k)" and "tp_verify_ancestors (fkp_trust p)"
  shows "length k = 32 \<and>
    (\<exists>i. dk_files d' (fkp_path p) = Some i \<and> trusted_file (fkp_trust p) i \<and> in_bytes i = k) \<and>
    (\<forall>q \<in> set (ancestors (butlast (fkp_path p))).
       \<exists>i. dk_files d' q = Some i \<and> trusted_directory (fkp_trust p) i) \<and>
    (\<forall>q. q \<noteq> fkp_path p \<or> dk_files d (fkp_path p) \<noteq> None \<longrightarrow> dk_files d' q = dk_files d q)"
proof (intro conjI allI impI)
  show "dk_files d' q = dk_files d q" if "q \<noteq> fkp_path p \<or> dk_files d (fkp_path p) \<noteq> None" for q
    using that file_load_key_frame [of q p d] assms(1) by fastforce
qed (use file_load_key_secured [OF assms(1)] assms(2) in \<open>simp_all add: key_secured_def KEY_LENGTH_def\<close>)


lemma same_secret_fold:
  "length a = length b \<Longrightarrow>
   fold (\<lambda>(l, r) acc. acc OR (l XOR r)) (zip a b) acc = (0::u8) \<longleftrightarrow> acc = 0 \<and> a = b"
proof (induction a b arbitrary: acc rule: list_induct2)
  case Nil
  then show ?case by simp
next
  case (Cons x xs y ys)
  have "acc OR (x XOR y) = 0 \<longleftrightarrow> acc = 0 \<and> x = y"
    by (metis or_eq_0_iff xor.assoc xor.left_neutral xor.right_neutral xor_self_eq)
  with Cons.IH show ?case by auto
qed

text \<open>
  The constant-time comparison of two machine keys, which folds the differences of all bytes
  without an early exit, decides equality.
\<close>

theorem same_secret_equality:
  assumes "secret_key_from_slice x = Inr a" and "secret_key_from_slice y = Inr b"
  shows "same_secret a b \<longleftrightarrow> a = b"
  using assms by (simp add: same_secret_def same_secret_fold secret_key_from_slice_ok)

lemma encode_blob_ok:
  assumes "encode_blob pub priv = Inr bs"
  shows "length bs = BLOB_HEADER_LENGTH + length pub + length priv \<and> length bs \<le> MAX_BLOB_LENGTH \<and>
    length pub < 2 ^ 32 \<and> length priv < 2 ^ 32 \<and>
    bs = BLOB_MAGIC @ le_bytes 2 1 @ le_bytes 4 (length pub) @ le_bytes 4 (length priv) @ pub @ priv"
  using assms
  by (auto simp: encode_blob_def usize_checked_add_def BLOB_HEADER_LENGTH_def BLOB_MAGIC_def BLOB_VERSION_def
      split: if_splits option.splits)

lemma decode_encode_blob:
  assumes "encode_blob pub priv = Inr bs"
  shows "decode_blob bs = Inr (pub, priv)"
proof -
  note enc = encode_blob_ok [OF assms]
  have bs: "bs = BLOB_MAGIC @ le_bytes 2 1 @ le_bytes 4 (length pub) @ le_bytes 4 (length priv) @ pub @ priv"
    using enc by blast
  have lens: "length BLOB_MAGIC = 4" "BLOB_HEADER_LENGTH = 14"
    by (simp_all add: BLOB_MAGIC_def BLOB_HEADER_LENGTH_def)
  have parts: "take 4 bs = BLOB_MAGIC" "slice 4 6 bs = le_bytes 2 1"
    "slice 6 10 bs = le_bytes 4 (length pub)" "slice 10 14 bs = le_bytes 4 (length priv)"
    "slice 14 (14 + length pub) bs = pub" "drop (14 + length pub) bs = priv"
    by (simp_all add: bs slice_def lens)
  have "of_le_bytes (le_bytes 4 (length pub)) = length pub" "of_le_bytes (le_bytes 4 (length priv)) = length priv"
    "of_le_bytes (le_bytes 2 1) = 1"
    using enc by (simp_all add: of_le_le_bytes)
  moreover have "length bs = 14 + length pub + length priv" "length bs \<le> 65536"
    using enc by (simp_all add: lens MAX_BLOB_LENGTH_def)
  ultimately show ?thesis
    by (simp add: decode_blob_def parts lens usize_checked_add_def MAX_BLOB_LENGTH_def BLOB_VERSION_def)
qed

lemma write_blob_temporary_ok:
  assumes "write_blob_temporary tmp p dir bs trust d = (d', Inr u)" and "tmp \<noteq> p"
  shows "\<exists>i. dk_files d' p = Some i \<and> trusted_file trust i \<and> in_bytes i = bs"
proof -
  from assms(1) obtain f d1 d2 d3 d4 d5 d6 where
    d1: "sys_create_new tmp d = (d1, Inr f)" and d2: "verify_open_key_file f trust d1 = (d2, Inr ())" and
    d3: "sys_write_all f bs d2 = (d3, Inr ())" and d4: "sys_ok d3 = (d4, Inr ())" and
    d5: "sys_rename tmp p d4 = (d5, Inr ())" and d6: "sys_open_directory dir d5 = (d6, Inr ())" and
    d': "sys_ok d6 = (d', Inr ())"
    by (auto simp: write_blob_temporary_def disk_result_simps)
  obtain i where f: "f = tmp" and i: "dk_files d1 tmp = Some i" "in_bytes i = []"
    using sys_create_new_ok [OF d1] by blast
  have "dk_files d2 tmp = dk_files d1 tmp" "dk_files d4 tmp = dk_files d3 tmp" "dk_files d' p = dk_files d5 p"
    using untouched_verify(3) [THEN untouchedD, OF d2] untouched_reads(5) [THEN untouchedD, OF d4]
      untouched_reads(6) [THEN untouchedD, OF d6] untouched_reads(5) [THEN untouchedD, OF d'] by simp_all
  with sys_write_all_ok [OF d3] verify_open_key_file_ok [OF d2] sys_rename_ok [OF d5 assms(2)] i f show ?thesis
    by auto
qed

text \<open>
  Sealed-key round trip: when \<open>atomic_write_blob\<close> has stored what \<open>encode_blob\<close> made of a public
  and a private part, every \<open>read_blob\<close> of an untampered file that succeeds returns exactly these
  parts; the container is at most 64 KiB, and a successful write leaves a file nobody else may read.
\<close>

theorem sealed_blob_roundtrip:
  assumes "encode_blob pub priv = Inr bytes"
    and "atomic_write_blob p bytes (butlast p) trust d = (d', Inr u)"
    and "\<forall>uuid. p \<noteq> butlast p @ [''.faceauth-tpm-key.tmp-'' @ uuid]"
    and "dk_files d2 p = dk_files d' p" and "read_blob p trust d2 = (d3, Inr parts)"
  shows "parts = (pub, priv) \<and> length bytes \<le> 65536 \<and> (\<exists>i. dk_files d' p = Some i \<and> trusted_file trust i)"
proof -
  from assms(2,3) obtain uuid da where
    "write_blob_temporary (butlast p @ [''.faceauth-tpm-key.tmp-'' @ uuid]) p (butlast p) bytes trust da = (d', Inr ())"
    by (auto simp: atomic_write_blob_def disk_result_simps Let_def is_err_def is_ok_def split: if_splits sum.splits)
  from write_blob_temporary_ok [OF this] assms(3) obtain i where
    i: "dk_files d' p = Some i" "trusted_file trust i" "in_bytes i = bytes" by metis
  from assms(5) obtain db dc f raw where
    op: "open_read_nofollow p d2 = (db, Inr f)" and ver: "verify_open_key_file f trust db = (dc, Inr ())" and
    rd: "sys_read_to_end f dc = (d3, Inr raw)" and dec: "decode_blob (take (MAX_BLOB_LENGTH + 1) raw) = Inr parts"
    by (auto simp: read_blob_def disk_result_simps)
  have "raw = bytes"
    using sys_read_ok [OF rd] open_read_ok [OF op] untouched_verify(3) [THEN untouchedD, OF ver]
      untouched_reads(3) [THEN untouchedD, OF op] i assms(4) by fastforce
  moreover have "length bytes \<le> 65536"
    using encode_blob_ok [OF assms(1), THEN conjunct2, THEN conjunct1] by (simp add: MAX_BLOB_LENGTH_def)
  ultimately show ?thesis
    using dec i decode_encode_blob [OF assms(1)] by (simp add: MAX_BLOB_LENGTH_def)
qed

section \<open>Examples\<close>

definition ex_directory :: Inode where
  "ex_directory = \<lparr>fe_kind = FkDirectory, fe_uid = 0, fe_mode = 0x1ED, fe_device = 0, fe_inode = 0, in_bytes = []\<rparr>"

text \<open>A disk with one empty directory, no faults to come and a constant source of random bytes.\<close>

definition ex_disk :: Disk where
  "ex_disk = \<lparr>dk_files = [[] \<mapsto> ex_directory, [''var''] \<mapsto> ex_directory], dk_faults = [], dk_races = [],
     dk_resolves = (\<lambda>_. False), dk_euid = 0, dk_umask = 0x12, dk_draws = 0,
     dk_random = (\<lambda>n. Inr (\<lambda>_. of_nat n + 7)), dk_uuid = (\<lambda>n. ''u'')\<rparr>"

definition ex_key_provider :: FileKeyProvider where
  "ex_key_provider = file_key_provider_new [''var'', ''key'']"

lemmas disk_eval =
  d_bind_def d_match_def d_map_err_def d_lift_def syscall_def sys_lstat_def sys_fstat_def open_read_nofollow_def
  sys_read_to_end_def sys_create_new_def sys_write_all_def sys_ok_def sys_rename_def sys_open_directory_def
  sys_open_or_create_def
  append_bytes_def put_inode_def new_inode_def getrandom_def new_uuid_def mode_bits_def path_parent_def
  verify_directory_key_def verify_directory_storage_def verify_directory_chain_def
  verify_replace_target_key_def verify_replace_target_storage_def verify_open_key_file_def
  verify_open_storage_file_def trust_root_def ex_disk_def ex_directory_def

lemma ancestors_snoc: "ancestors (xs @ [x]) = (xs @ [x]) # ancestors xs"
  by (auto simp: ancestors_def rev_map)

lemma ancestors_simps [simp]: "ancestors [] = [[]]" "ancestors [a] = [[a], []]" "ancestors [a, b] = [[a, b], [a], []]"
  by (simp_all add: ancestors_def)

lemma ex_load_key: "snd (file_load_key ex_key_provider ex_disk) = Inr (replicate 32 7)"
  by (subst file_load_key.simps) (simp add: open_key_def create_key_file_def write_key_file_def read_key_file_def disk_eval
      ex_key_provider_def file_key_provider_new_def map_replicate_const secret_key_from_slice_def KEY_LENGTH_def)

definition ex_keyed_disk :: Disk where
  "ex_keyed_disk = ex_disk\<lparr>dk_files := (dk_files ex_disk)([''var'', ''key''] \<mapsto>
     ex_directory\<lparr>fe_kind := FkRegular, fe_mode := 0x180, in_bytes := replicate 32 5\<rparr>)\<rparr>"

lemma ex_load_existing:
  "file_load_key ex_key_provider (ex_keyed_disk\<lparr>dk_draws := n\<rparr>) = (ex_keyed_disk\<lparr>dk_draws := n\<rparr>, Inr (replicate 32 5))"
  by (subst file_load_key.simps) (simp add: open_key_def read_key_file_def disk_eval ex_keyed_disk_def
      ex_key_provider_def file_key_provider_new_def secret_key_from_slice_def KEY_LENGTH_def)

theorem key_release_secured_witness:
  "\<exists>i. dk_files (fst (file_load_key ex_key_provider ex_disk)) [''var'', ''key''] = Some i \<and>
     trusted_file trust_root i \<and> in_bytes i = replicate 32 7"
proof -
  obtain d' where d': "file_load_key ex_key_provider ex_disk = (d', Inr (replicate 32 7))"
    using ex_load_key by (metis prod.collapse)
  show ?thesis
    using key_release_secured [OF d'] d'
    by (simp add: ex_key_provider_def file_key_provider_new_def trust_root_def)
qed


theorem same_secret_equality_witness:
  "\<not> same_secret (replicate 32 1) (replicate 31 1 @ [2])"
  using same_secret_equality [of "replicate 32 1" "replicate 32 1" "replicate 31 1 @ [2]" "replicate 31 1 @ [2]"]
  by (simp add: secret_key_from_slice_def KEY_LENGTH_def numeral_eq_Suc)

definition ex_blob :: "u8 list" where
  "ex_blob = BLOB_MAGIC @ le_bytes 2 1 @ le_bytes 4 1 @ le_bytes 4 2 @ [9, 8, 7]"

lemma ex_encode: "encode_blob [9] [8, 7] = Inr ex_blob"
  by (simp add: encode_blob_def ex_blob_def BLOB_HEADER_LENGTH_def BLOB_MAGIC_def BLOB_VERSION_def
      usize_checked_add_def MAX_BLOB_LENGTH_def) (simp add: numeral_2_eq_2)

definition ex_blob_disk :: Disk where
  "ex_blob_disk = fst (atomic_write_blob [''var'', ''tpm''] ex_blob (butlast [''var'', ''tpm'']) trust_root ex_disk)"

lemma ex_blob_written:
  "atomic_write_blob [''var'', ''tpm''] ex_blob (butlast [''var'', ''tpm'']) trust_root ex_disk = (ex_blob_disk, Inr ())"
  by (simp add: ex_blob_disk_def atomic_write_blob_def write_blob_temporary_def disk_eval Let_def)

lemma ex_blob_length: "length ex_blob = 17"
  by (simp add: ex_blob_def BLOB_MAGIC_def)

lemma ex_blob_read: "snd (read_blob [''var'', ''tpm''] trust_root ex_blob_disk) = Inr ([9], [8, 7])"
  using decode_encode_blob [OF ex_encode] ex_blob_length
  by (simp add: ex_blob_disk_def atomic_write_blob_def write_blob_temporary_def read_blob_def disk_eval Let_def
      MAX_BLOB_LENGTH_def)

theorem sealed_blob_roundtrip_witness:
  "length ex_blob \<le> 65536 \<and> (\<exists>i. dk_files ex_blob_disk [''var'', ''tpm''] = Some i \<and> trusted_file trust_root i)"
proof -
  obtain d3 where "read_blob [''var'', ''tpm''] trust_root ex_blob_disk = (d3, Inr ([9], [8, 7]))"
    using ex_blob_read by (metis prod.collapse)
  then show ?thesis
    using sealed_blob_roundtrip [OF ex_encode ex_blob_written, of ex_blob_disk d3] by simp
qed

end
