(* ===== verification/Sqrt.thy ===== *)
theory Sqrt
  imports Ieee
begin

text \<open>
  The square root of the floating-point types: the exact root rounded once to nearest even, found
  through the integer square root of the argument measured in squared units of the last place.
\<close>

fun isqrt :: "nat \<Rightarrow> nat" where
  "isqrt n = (if n = 0 then 0
     else let r = 2 * isqrt (n div 4) in if (r + 1) * (r + 1) \<le> n then r + 1 else r)"

declare isqrt.simps [simp del]

definition round_root :: "rat \<Rightarrow> nat" where
  "round_root t = (let r = isqrt (nat \<lfloor>t\<rfloor>); h = of_nat r + 1 / 2 in
     if h * h < t \<or> (h * h = t \<and> odd r) then r + 1 else r)"

fun fp_sqrt :: "format \<Rightarrow> fp \<Rightarrow> fp" where
  "fp_sqrt fmt NaN = NaN"
| "fp_sqrt fmt (Infinity s) = (if s then NaN else Infinity False)"
| "fp_sqrt fmt (Finite a) =
     (if a < 0 then NaN else if a = 0 then Finite 0
      else let q = pow2 (quantum_exp fmt (pow2 (ilog2 a div 2))) in
           Finite (of_nat (round_root (a / (q * q))) * q))"

lemma isqrt_bounds: "isqrt n * isqrt n \<le> n \<and> n < (isqrt n + 1) * (isqrt n + 1)"
proof (induction n rule: isqrt.induct)
  case (1 n)
  show ?case
  proof (cases "n = 0")
    case True
    then show ?thesis by (simp add: isqrt.simps)
  next
    case False
    define s where "s = isqrt (n div 4)"
    have s: "s * s \<le> n div 4" "n div 4 < (s + 1) * (s + 1)"
      using "1.IH" False by (auto simp: s_def)
    have "4 * (s * s) \<le> n" "n < 4 * ((s + 1) * (s + 1))" using s by presburger+
    moreover have "isqrt n = (if (2 * s + 1) * (2 * s + 1) \<le> n then 2 * s + 1 else 2 * s)"
      using False by (subst isqrt.simps) (simp add: s_def Let_def)
    ultimately show ?thesis by (auto simp: algebra_simps)
  qed
qed

text \<open>The rounded root is within half a unit of the exact one.\<close>

lemma round_root_bounds:
  assumes "0 \<le> t"
  shows "t \<le> (of_nat (round_root t) + 1 / 2) * (of_nat (round_root t) + 1 / 2) \<and>
    (0 < round_root t \<longrightarrow> (of_nat (round_root t) - 1 / 2) * (of_nat (round_root t) - 1 / 2) \<le> t)"
proof -
  define r where "r = isqrt (nat \<lfloor>t\<rfloor>)"
  define x :: rat where "x = of_nat r"
  have fl: "0 \<le> \<lfloor>t\<rfloor>" using assms by simp
  have "of_nat (r * r) \<le> (of_int \<lfloor>t\<rfloor> :: rat)"
    using isqrt_bounds [of "nat \<lfloor>t\<rfloor>"] fl by (metis r_def of_int_of_nat_eq of_int_le_iff of_nat_mono nat_0_le)
  then have lo: "x * x \<le> t" by (simp add: x_def) (meson of_int_floor_le order_trans)
  have "nat \<lfloor>t\<rfloor> + 1 \<le> (r + 1) * (r + 1)" using isqrt_bounds [of "nat \<lfloor>t\<rfloor>"] by (simp add: r_def)
  then have "\<lfloor>t\<rfloor> + 1 \<le> int ((r + 1) * (r + 1))" using fl by linarith
  then have "of_int (\<lfloor>t\<rfloor> + 1) \<le> (of_int (int ((r + 1) * (r + 1))) :: rat)" by (simp only: of_int_le_iff)
  then have hi: "t \<le> (x + 1) * (x + 1)"
    using floor_correct [of t] by (simp add: x_def algebra_simps)
  have x0: "0 \<le> x" by (simp add: x_def)
  consider "round_root t = r + 1" "(x + 1 / 2) * (x + 1 / 2) \<le> t"
    | "round_root t = r" "t \<le> (x + 1 / 2) * (x + 1 / 2)"
    by (force simp: round_root_def Let_def r_def [symmetric] x_def [symmetric] not_less split: if_splits)
  then show ?thesis
  proof cases
    case 1
    with hi x0 show ?thesis by (simp add: x_def algebra_simps)
  next
    case 2
    have "(x - 1 / 2) * (x - 1 / 2) \<le> t" if "1 \<le> x" using that lo by (simp add: algebra_simps)
    with 2 show ?thesis by (cases r) (auto simp: x_def)
  qed
qed

lemma fp_sqrt_finite: "0 \<le> a \<Longrightarrow> \<exists>b \<ge> 0. fp_sqrt fmt (Finite a) = Finite b"
  by (simp add: Let_def)

lemma isqrt_square: "isqrt (n * n) = n"
proof -
  let ?r = "isqrt (n * n)"
  have "?r ^ 2 \<le> n ^ 2" "n ^ 2 < (?r + 1) ^ 2"
    using isqrt_bounds [of "n * n"] by (auto simp only: power2_eq_square)
  then have "?r \<le> n" "n < ?r + 1"
    by (auto intro: power2_le_imp_le power_less_imp_less_base [of n 2])
  then show ?thesis by simp
qed

lemma round_root_square: "round_root (of_nat n * of_nat n) = n"
proof -
  have "nat \<lfloor>of_nat n * (of_nat n :: rat)\<rfloor> = n * n"
    by (metis floor_of_nat nat_int of_nat_mult)
  then show ?thesis
    by (simp add: round_root_def Let_def isqrt_square algebra_simps)
qed

lemma fp_sqrt_1: "fp_sqrt F32 (Finite 1) = Finite 1"
proof -
  have "quantum_exp F32 (pow2 (ilog2 1 div 2)) = -23"
    by (simp add: quantum_exp_def ilog2_def quotient_of_int bit_length.simps pow2_def Let_def)
  moreover have "round_root (1 / (pow2 (-23) * pow2 (-23))) = 2 ^ 23"
    using round_root_square [of "2 ^ 23"] by (simp add: pow2_def)
  ultimately show ?thesis by (simp add: Let_def pow2_def)
qed

end
