(* ===== verification/Storage.thy ===== *)
theory Storage
  imports Keys Sqrt
begin

text \<open>
  The encrypted template store (\<open>crates/faceauth-storage/src/lib.rs\<close>): the template record and its
  validation, the encrypted container with its generation metadata, and the operations of
  \<open>EncryptedTemplateStore\<close> on the disk of theory \<open>Disk\<close>. Authenticated encryption and the JSON
  codec are parameters; the key comes through the interface of theory \<open>Keys\<close>.
\<close>

section \<open>Records\<close>

definition MAGIC :: "u8 list" where
  "MAGIC = [0x46, 0x41, 0x54, 0x31]"

definition FORMAT_VERSION :: u16 where
  "FORMAT_VERSION = 2"

definition NONCE_LENGTH :: nat where
  "NONCE_LENGTH = 24"

definition HEADER_LENGTH :: nat where
  "HEADER_LENGTH = length MAGIC + 2 + NONCE_LENGTH"

definition MAX_CIPHERTEXT_LENGTH :: nat where
  "MAX_CIPHERTEXT_LENGTH = 1024 * 1024"

definition MAX_EMBEDDING_DIMENSION :: nat where
  "MAX_EMBEDDING_DIMENSION = 4096"

definition STORED_PAYLOAD_SCHEMA_VERSION :: u16 where
  "STORED_PAYLOAD_SCHEMA_VERSION = 1"

record TemplateRecord =
  tr_schema_version :: u16
  tr_uid :: u32
  tr_model_compatibility_sha256 :: string
  tr_embedding :: "fp list"

record VersionedTemplateRecord =
  vt_generation :: u64
  vt_record :: TemplateRecord

datatype StoredPayload =
  SP_Live u16 u64 TemplateRecord
| SP_Deleted u16 u64 u32

fun payload_generation :: "StoredPayload \<Rightarrow> u64" where
  "payload_generation (SP_Live _ g _) = g"
| "payload_generation (SP_Deleted _ g _) = g"

text \<open>The checked sum of squares, with one rounding per element; \<open>1.0e-3\<close> is the literal as \<open>f32\<close>.\<close>

definition squared_norm :: "fp list \<Rightarrow> fp option" where
  "squared_norm xs =
     (case try_fold (\<lambda>s v. let next_s = fp_fma F32 v v s in
                       if is_finite next_s then Inr next_s else Inl ()) (Finite 0) xs of
        Inl _ \<Rightarrow> None | Inr s \<Rightarrow> Some s)"

definition norm_tolerance :: fp where
  "norm_tolerance = rnd F32 (1 / 1000)"

definition unit_norm :: "fp list \<Rightarrow> bool" where
  "unit_norm xs = (case squared_norm xs of None \<Rightarrow> False
     | Some v \<Rightarrow> \<not> fp_lt norm_tolerance (fp_abs (fp_sub F32 (fp_sqrt F32 v) (Finite 1))))"

definition record_validate :: "TemplateRecord \<Rightarrow> StorageError + unit" where
  "record_validate r =
     (if tr_schema_version r \<noteq> FORMAT_VERSION
         \<or> length (tr_model_compatibility_sha256 r) \<noteq> 64
         \<or> \<not> list_all is_ascii_hexdigit (tr_model_compatibility_sha256 r)
         \<or> list_ex is_ascii_uppercase (tr_model_compatibility_sha256 r)
         \<or> tr_embedding r = []
         \<or> length (tr_embedding r) > MAX_EMBEDDING_DIMENSION
         \<or> list_ex (\<lambda>v. \<not> is_finite v) (tr_embedding r)
      then Inl (SE_InvalidRecord ''template bounds or digest are invalid'')
      else if \<not> unit_norm (tr_embedding r)
      then Inl (SE_InvalidRecord ''template embedding is not normalized'')
      else Inr ())"

definition require_compatibility :: "TemplateRecord \<Rightarrow> string \<Rightarrow> nat \<Rightarrow> StorageError + unit" where
  "require_compatibility r sha dimension =
     try_bind (record_validate r) (\<lambda>_.
       if tr_model_compatibility_sha256 r \<noteq> sha \<or> length (tr_embedding r) \<noteq> dimension
       then Inl SE_IncompatibleTemplate else Inr ())"

fun validate_stored_payload :: "StoredPayload \<Rightarrow> u32 \<Rightarrow> StorageError + unit" where
  "validate_stored_payload (SP_Live v g r) uid =
     (if v \<noteq> STORED_PAYLOAD_SCHEMA_VERSION \<or> g = 0
      then Inl (SE_InvalidRecord ''stored template generation metadata is invalid'')
      else try_bind (record_validate r) (\<lambda>_.
        if tr_uid r \<noteq> uid then Inl (SE_InvalidRecord ''template UID does not match its path'') else Inr ()))"
| "validate_stored_payload (SP_Deleted v g u) uid =
     (if v \<noteq> STORED_PAYLOAD_SCHEMA_VERSION \<or> g = 0 \<or> u \<noteq> uid
      then Inl (SE_InvalidRecord ''stored deletion generation metadata is invalid'')
      else Inr ())"

definition next_generation :: "u64 \<Rightarrow> StorageError + u64" where
  "next_generation g = ok_or (checked_add g 1) SE_GenerationExhausted"

definition template_not_found :: "u32 \<Rightarrow> StorageError" where
  "template_not_found uid = SE_Io IoNotFound"

section \<open>The container\<close>

text \<open>
  The external codecs: XChaCha20-Poly1305 (key, nonce, message, associated data) and serde's JSON
  for the payload and for a legacy bare record.
\<close>

record Codec =
  cd_encrypt :: "u8 list \<Rightarrow> u8 list \<Rightarrow> u8 list \<Rightarrow> u8 list \<Rightarrow> u8 list option"
  cd_decrypt :: "u8 list \<Rightarrow> u8 list \<Rightarrow> u8 list \<Rightarrow> u8 list \<Rightarrow> u8 list option"
  cd_to_json :: "StoredPayload \<Rightarrow> nat + u8 list"
  cd_payload_of_json :: "u8 list \<Rightarrow> nat + StoredPayload"
  cd_record_of_json :: "u8 list \<Rightarrow> nat + TemplateRecord"

definition associated_data :: "u32 \<Rightarrow> u8 list" where
  "associated_data uid = MAGIC @ le_bytes 2 (unat FORMAT_VERSION) @ le_bytes 4 (unat uid)"

text \<open>The parts of \<open>read_payload\<close> before and after the key is loaded.\<close>

definition parse_container :: "u8 list \<Rightarrow> StorageError + u8 list \<times> u8 list" where
  "parse_container encoded =
     (if length encoded < HEADER_LENGTH \<or> length encoded > HEADER_LENGTH + MAX_CIPHERTEXT_LENGTH
      then Inl (SE_InvalidRecord ''encrypted template size is invalid'')
      else if take 4 encoded \<noteq> MAGIC
      then Inl (SE_InvalidRecord ''encrypted template magic is invalid'')
      else if of_le_bytes (slice 4 6 encoded) \<noteq> unat FORMAT_VERSION
      then Inl (SE_InvalidRecord ''encrypted template version is unsupported'')
      else Inr (slice 6 (6 + NONCE_LENGTH) encoded, drop (6 + NONCE_LENGTH) encoded))"

definition open_container :: "Codec \<Rightarrow> u32 \<Rightarrow> SecretKey \<Rightarrow> u8 list \<times> u8 list \<Rightarrow> StorageError + StoredPayload" where
  "open_container cd uid key parts =
     (if length key \<noteq> KEY_LENGTH then Inl (SE_InvalidRecord ''invalid encryption key'')
      else try_bind (ok_or (cd_decrypt cd key (fst parts) (snd parts) (associated_data uid)) SE_AuthenticationFailed)
     (\<lambda>plaintext.
        case cd_payload_of_json cd plaintext of
          Inr payload \<Rightarrow> try_bind (validate_stored_payload payload uid) (\<lambda>_. Inr payload)
        | Inl _ \<Rightarrow>
            try_bind (map_err SE_Serialization (cd_record_of_json cd plaintext)) (\<lambda>r.
            try_bind (record_validate r) (\<lambda>_.
            if tr_uid r \<noteq> uid then Inl (SE_InvalidRecord ''template UID does not match its path'')
            else Inr (SP_Live 0 0 r)))))"

section \<open>Operations on the disk\<close>

record TemplateStore =
  ts_directory :: Path
  ts_trust :: TrustPolicy

definition template_store_new :: "Path \<Rightarrow> TemplateStore" where
  "template_store_new directory = \<lparr>ts_directory = directory, ts_trust = trust_root\<rparr>"

text \<open>Decimal formatting of a UID.\<close>

fun decimal :: "nat \<Rightarrow> string" where
  "decimal n = (if n < 10 then [char_of (48 + n)] else decimal (n div 10) @ [char_of (48 + n mod 10)])"

declare decimal.simps [simp del]

definition path_for :: "TemplateStore \<Rightarrow> u32 \<Rightarrow> Path" where
  "path_for S uid = ts_directory S @ [decimal (unat uid) @ ''.template'']"

definition lock_path_for :: "TemplateStore \<Rightarrow> u32 \<Rightarrow> Path" where
  "lock_path_for S uid = ts_directory S @ [''.'' @ decimal (unat uid) @ ''.template.lock'']"

type_synonym key_loader = "(KeyError, SecretKey) disk_op"

definition read_payload :: "key_loader \<Rightarrow> Codec \<Rightarrow> TemplateStore \<Rightarrow> u32 \<Rightarrow> (StorageError, StoredPayload) disk_op" where
  "read_payload load_key cd S uid =
     d_bind (verify_directory_storage (ts_directory S) (ts_trust S)) (\<lambda>_.
     d_bind (verify_replace_target_storage (path_for S uid) (ts_trust S)) (\<lambda>_.
     d_bind (d_map_err SE_Io (open_read_nofollow (path_for S uid))) (\<lambda>f.
     d_bind (verify_open_storage_file f (ts_trust S)) (\<lambda>_.
     d_bind (d_map_err SE_Io (sys_read_to_end f)) (\<lambda>encoded.
     d_bind (d_lift (parse_container encoded)) (\<lambda>parts.
     d_bind (d_map_err SE_Key load_key) (\<lambda>key.
     d_lift (open_container cd uid key parts))))))))"

definition read_optional_payload ::
  "key_loader \<Rightarrow> Codec \<Rightarrow> TemplateStore \<Rightarrow> u32 \<Rightarrow> (StorageError, StoredPayload option) disk_op" where
  "read_optional_payload load_key cd S uid =
     d_match (read_payload load_key cd S uid) (\<lambda>r. d_lift (case r of
         Inr p \<Rightarrow> Inr (Some p)
       | Inl e \<Rightarrow> if e = SE_Io IoNotFound then Inr None else Inl e))"

text \<open>The closure whose error makes \<open>atomic_write\<close> remove its temporary file.\<close>

definition write_temporary ::
  "Path \<Rightarrow> Path \<Rightarrow> Path \<Rightarrow> u8 list \<Rightarrow> TrustPolicy \<Rightarrow> (StorageError, unit) disk_op" where
  "write_temporary temporary p directory bytes trust =
     d_bind (d_map_err SE_Io (sys_create_new temporary)) (\<lambda>f.
     d_bind (verify_open_storage_file f trust) (\<lambda>_.
     d_bind (d_map_err SE_Io (sys_write_all f bytes)) (\<lambda>_.
     d_bind (d_map_err SE_Io sys_ok) (\<lambda>_.
     d_bind (d_map_err SE_Io (sys_rename temporary p)) (\<lambda>_.
     d_bind (d_map_err SE_Io (sys_open_directory directory)) (\<lambda>_.
     d_map_err SE_Io sys_ok))))))"

definition temporary_for :: "Path \<Rightarrow> Path \<Rightarrow> string \<Rightarrow> Path" where
  "temporary_for directory p uuid =
     directory @ [''.'' @ (if p = [] then [] else last p) @ ''.tmp-'' @ uuid]"

definition atomic_write :: "Path \<Rightarrow> u8 list \<Rightarrow> Path \<Rightarrow> TrustPolicy \<Rightarrow> (StorageError, unit) disk_op" where
  "atomic_write p bytes directory trust =
     d_bind (verify_directory_storage directory trust) (\<lambda>_.
     d_bind (verify_replace_target_storage p trust) (\<lambda>_.
     d_bind new_uuid (\<lambda>uuid.
     d_match (write_temporary (temporary_for directory p uuid) p directory bytes trust) (\<lambda>r.
       if is_err r then d_match (sys_remove (temporary_for directory p uuid)) (\<lambda>_. d_lift r)
       else d_lift r))))"

definition container_bytes :: "u8 list \<Rightarrow> u8 list \<Rightarrow> u8 list" where
  "container_bytes nonce ciphertext = MAGIC @ le_bytes 2 (unat FORMAT_VERSION) @ nonce @ ciphertext"

definition write_payload ::
  "key_loader \<Rightarrow> Codec \<Rightarrow> TemplateStore \<Rightarrow> u32 \<Rightarrow> StoredPayload \<Rightarrow> (StorageError, unit) disk_op" where
  "write_payload load_key cd S uid payload =
     d_bind (d_lift (validate_stored_payload payload uid)) (\<lambda>_.
     d_bind (d_map_err SE_Key load_key) (\<lambda>key.
     d_bind (d_lift (map_err SE_Serialization (cd_to_json cd payload))) (\<lambda>plaintext.
     d_bind (d_map_err SE_Random (getrandom NONCE_LENGTH)) (\<lambda>nonce.
     d_bind (d_lift (ensure (length key = KEY_LENGTH) (SE_InvalidRecord ''invalid encryption key''))) (\<lambda>_.
     d_bind (d_lift (ok_or (cd_encrypt cd key nonce plaintext (associated_data uid)) SE_AuthenticationFailed))
       (\<lambda>ciphertext.
     atomic_write (path_for S uid) (container_bytes nonce ciphertext) (ts_directory S) (ts_trust S)))))))"

text \<open>The lock is released, whatever the operation did, when its guard is dropped.\<close>

definition with_exclusive_uid_lock ::
  "TemplateStore \<Rightarrow> u32 \<Rightarrow> (StorageError, 'a) disk_op \<Rightarrow> (StorageError, 'a) disk_op" where
  "with_exclusive_uid_lock S uid operation =
     d_bind (prepare_directory_storage (ts_directory S) (ts_trust S)) (\<lambda>_.
     d_bind (verify_replace_target_storage (lock_path_for S uid) (ts_trust S)) (\<lambda>_.
     d_bind (d_map_err SE_Io (sys_open_or_create (lock_path_for S uid))) (\<lambda>f.
     d_bind (verify_open_storage_file f (ts_trust S)) (\<lambda>_.
     d_bind (d_map_err SE_Io sys_ok) (\<lambda>_.
     d_match
       (d_bind (verify_directory_storage (ts_directory S) (ts_trust S)) (\<lambda>_.
        d_bind (verify_replace_target_storage (lock_path_for S uid) (ts_trust S)) (\<lambda>_.
        operation)))
       (\<lambda>r. d_match sys_ok (\<lambda>_. d_lift r)))))))"

definition save_with_generation ::
  "key_loader \<Rightarrow> Codec \<Rightarrow> TemplateStore \<Rightarrow> TemplateRecord \<Rightarrow> (StorageError, u64) disk_op" where
  "save_with_generation load_key cd S r =
     d_bind (d_lift (record_validate r)) (\<lambda>_.
     with_exclusive_uid_lock S (tr_uid r) (
       d_bind (read_optional_payload load_key cd S (tr_uid r)) (\<lambda>current.
       d_bind (d_lift (next_generation (case current of None \<Rightarrow> 0 | Some p \<Rightarrow> payload_generation p))) (\<lambda>g.
       d_bind (write_payload load_key cd S (tr_uid r) (SP_Live STORED_PAYLOAD_SCHEMA_VERSION g r)) (\<lambda>_.
       d_lift (Inr g))))))"

definition save :: "key_loader \<Rightarrow> Codec \<Rightarrow> TemplateStore \<Rightarrow> TemplateRecord \<Rightarrow> (StorageError, unit) disk_op" where
  "save load_key cd S r = d_bind (save_with_generation load_key cd S r) (\<lambda>_. d_lift (Inr ()))"

text \<open>The generation of a live template, the error otherwise.\<close>

definition live_generation :: "StoredPayload option \<Rightarrow> StorageError + u64" where
  "live_generation current =
     (case current of
        Some (SP_Live _ g _) \<Rightarrow> Inr g
      | Some (SP_Deleted _ g _) \<Rightarrow> Inl (SE_TemplateNotPresent (Some g))
      | None \<Rightarrow> Inl (SE_TemplateNotPresent None))"

definition replace_if_generation ::
  "key_loader \<Rightarrow> Codec \<Rightarrow> TemplateStore \<Rightarrow> u64 \<Rightarrow> TemplateRecord \<Rightarrow> (StorageError, u64) disk_op" where
  "replace_if_generation load_key cd S expected r =
     d_bind (d_lift (record_validate r)) (\<lambda>_.
     with_exclusive_uid_lock S (tr_uid r) (
       d_bind (read_optional_payload load_key cd S (tr_uid r)) (\<lambda>current.
       d_bind (d_lift (live_generation current)) (\<lambda>actual.
       d_bind (d_lift (ensure (actual = expected) (SE_StaleGeneration expected actual))) (\<lambda>_.
       d_bind (d_lift (next_generation actual)) (\<lambda>g.
       d_bind (write_payload load_key cd S (tr_uid r) (SP_Live STORED_PAYLOAD_SCHEMA_VERSION g r)) (\<lambda>_.
       d_lift (Inr g))))))))"

definition delete_inner ::
  "key_loader \<Rightarrow> Codec \<Rightarrow> TemplateStore \<Rightarrow> u32 \<Rightarrow> u64 option \<Rightarrow> (StorageError, u64) disk_op" where
  "delete_inner load_key cd S uid expected =
     with_exclusive_uid_lock S uid (
       d_bind (read_optional_payload load_key cd S uid) (\<lambda>current.
       d_bind (d_lift (live_generation current)) (\<lambda>actual.
       d_bind (d_lift (case expected of None \<Rightarrow> Inr ()
                       | Some e \<Rightarrow> ensure (e = actual) (SE_StaleGeneration e actual))) (\<lambda>_.
       d_bind (d_lift (next_generation actual)) (\<lambda>g.
       d_bind (write_payload load_key cd S uid (SP_Deleted STORED_PAYLOAD_SCHEMA_VERSION g uid)) (\<lambda>_.
       d_lift (Inr g)))))))"

definition delete_template :: "key_loader \<Rightarrow> Codec \<Rightarrow> TemplateStore \<Rightarrow> u32 \<Rightarrow> (StorageError, u64) disk_op" where
  "delete_template load_key cd S uid = delete_inner load_key cd S uid None"

definition delete_if_generation ::
  "key_loader \<Rightarrow> Codec \<Rightarrow> TemplateStore \<Rightarrow> u32 \<Rightarrow> u64 \<Rightarrow> (StorageError, u64) disk_op" where
  "delete_if_generation load_key cd S uid expected = delete_inner load_key cd S uid (Some expected)"

definition load_with_generation ::
  "key_loader \<Rightarrow> Codec \<Rightarrow> TemplateStore \<Rightarrow> u32 \<Rightarrow> (StorageError, VersionedTemplateRecord) disk_op" where
  "load_with_generation load_key cd S uid =
     d_bind (read_payload load_key cd S uid) (\<lambda>p. d_lift (case p of
         SP_Live _ g r \<Rightarrow> Inr \<lparr>vt_generation = g, vt_record = r\<rparr>
       | SP_Deleted _ _ _ \<Rightarrow> Inl (template_not_found uid)))"

definition load_template :: "key_loader \<Rightarrow> Codec \<Rightarrow> TemplateStore \<Rightarrow> u32 \<Rightarrow> (StorageError, TemplateRecord) disk_op" where
  "load_template load_key cd S uid =
     d_bind (load_with_generation load_key cd S uid) (\<lambda>v. d_lift (Inr (vt_record v)))"

definition has_authenticated_template ::
  "key_loader \<Rightarrow> Codec \<Rightarrow> TemplateStore \<Rightarrow> u32 \<Rightarrow> (StorageError, bool) disk_op" where
  "has_authenticated_template load_key cd S uid =
     d_match (load_template load_key cd S uid) (\<lambda>r. d_lift (case r of
         Inr _ \<Rightarrow> Inr True
       | Inl e \<Rightarrow> if e = SE_Io IoNotFound then Inr False else Inl e))"

end
