(* ===== verification/TemplateStore.thy ===== *)
theory TemplateStore
  imports Storage
begin

text \<open>
  What the template store promises. Its mutations refine an abstract transition on the stored
  payload of one UID, also when a system call fails in the middle: the file holds the old payload
  or the new one, and nothing else of the store changes. The proofs use the key provider only
  through its interface and are instantiated with the key file provider.
\<close>

section \<open>Paths of the store\<close>

definition undecimal :: "string \<Rightarrow> nat" where
  "undecimal s = fold (\<lambda>c acc. 10 * acc + (of_char c - 48)) s 0"

lemma undecimal_decimal: "undecimal (decimal n) = n"
proof (induction n rule: decimal.induct)
  case (1 n)
  have digit: "(of_char (char_of (48 + k) :: char) :: nat) = 48 + k" if "k < 10" for k
    using that by simp
  show ?case
  proof (cases "n < 10")
    case True
    then show ?thesis by (subst decimal.simps) (simp add: undecimal_def digit)
  next
    case False
    then have "undecimal (decimal n) = 10 * undecimal (decimal (n div 10)) + n mod 10"
      using digit [of "n mod 10"] by (subst decimal.simps) (simp add: undecimal_def)
    with "1.IH" False show ?thesis by simp
  qed
qed

lemma decimal_eq [simp]: "decimal m = decimal n \<longleftrightarrow> m = n"
  by (metis undecimal_decimal)

lemma decimal_head: "\<exists>k::nat. k < 10 \<and> (\<exists>cs. decimal n = char_of (48 + k) # cs)"
proof (induction n rule: decimal.induct)
  case (1 n)
  show ?case
  proof (cases "n < 10")
    case True
    then show ?thesis by (subst decimal.simps) auto
  next
    case False
    from "1.IH" [OF False] obtain k :: nat and cs where "k < 10" "decimal (n div 10) = char_of (48 + k) # cs" by blast
    with False show ?thesis by (subst decimal.simps) auto
  qed
qed

lemma decimal_no_dot: "decimal n @ xs \<noteq> CHR ''.'' # ys"
proof
  assume eq: "decimal n @ xs = CHR ''.'' # ys"
  obtain k cs where k: "k < 10" "decimal n = char_of (48 + k :: nat) # cs" using decimal_head by blast
  with eq have "char_of (48 + k) = (CHR ''.'' :: char)" by simp
  then have "(of_char (char_of (48 + k) :: char) :: nat) = of_char (CHR ''.'')" by (rule arg_cong)
  with k(1) show False by simp
qed

lemma path_for_eq [simp]: "path_for S u = path_for S v \<longleftrightarrow> u = v"
  by (simp add: path_for_def word_unat_eq_iff)

lemma path_for_lock [simp]: "path_for S u \<noteq> lock_path_for S v" "lock_path_for S v \<noteq> path_for S u"
  using decimal_no_dot [of "unat u" "''.template''"] by (auto simp: path_for_def lock_path_for_def)

lemma path_for_temporary [simp]:
  "path_for S u \<noteq> temporary_for (ts_directory S) q uuid" "temporary_for (ts_directory S) q uuid \<noteq> path_for S u"
  using decimal_no_dot [of "unat u" "''.template''"] decimal_no_dot [of "unat u" "''.template''", symmetric]
  by (auto simp: path_for_def temporary_for_def)

text \<open>Names inside the template directory.\<close>

definition in_store :: "TemplateStore \<Rightarrow> Path \<Rightarrow> bool" where
  "in_store S p \<longleftrightarrow> p \<noteq> [] \<and> butlast p = ts_directory S"

lemma in_store_paths [simp]:
  "in_store S (path_for S u)" "in_store S (lock_path_for S u)" "in_store S (temporary_for (ts_directory S) q uuid)"
  by (simp_all add: in_store_def path_for_def lock_path_for_def temporary_for_def)

lemma in_store_not_ancestor: "in_store S p \<Longrightarrow> p \<notin> set (ancestors (ts_directory S))"
  using not_ancestor_of_parent [of p] by (auto simp: in_store_def)

section \<open>The abstract store\<close>

text \<open>What the file of a UID stands for under a key.\<close>

definition stored_payload :: "Codec \<Rightarrow> u32 \<Rightarrow> SecretKey \<Rightarrow> Inode option \<Rightarrow> StorageError + StoredPayload option" where
  "stored_payload cd uid k i =
     (case i of None \<Rightarrow> Inr None
      | Some ino \<Rightarrow> try_bind (try_bind (parse_container (in_bytes ino)) (open_container cd uid k)) (\<lambda>p. Inr (Some p)))"

datatype Mutation =
  MutSave TemplateRecord
| MutReplace u64 TemplateRecord
| MutDelete u32 "u64 option"

fun mutation_uid :: "Mutation \<Rightarrow> u32" where
  "mutation_uid (MutSave r) = tr_uid r"
| "mutation_uid (MutReplace _ r) = tr_uid r"
| "mutation_uid (MutDelete u _) = u"

fun mutation_validate :: "Mutation \<Rightarrow> StorageError + unit" where
  "mutation_validate (MutSave r) = record_validate r"
| "mutation_validate (MutReplace _ r) = record_validate r"
| "mutation_validate (MutDelete _ _) = Inr ()"

definition next_live :: "u64 \<Rightarrow> TemplateRecord \<Rightarrow> StorageError + StoredPayload" where
  "next_live g r = try_bind (next_generation g) (\<lambda>g'. Inr (SP_Live 1 g' r))"

text \<open>The transition on the payload of one UID.\<close>

fun apply_mutation :: "Mutation \<Rightarrow> StoredPayload option \<Rightarrow> StorageError + StoredPayload" where
  "apply_mutation (MutSave r) None = next_live 0 r"
| "apply_mutation (MutSave r) (Some p) = next_live (payload_generation p) r"
| "apply_mutation (MutReplace e r) (Some (SP_Live v g r')) =
     (if g = e then next_live g r else Inl (SE_StaleGeneration e g))"
| "apply_mutation (MutReplace e r) (Some (SP_Deleted v g u)) = Inl (SE_TemplateNotPresent (Some g))"
| "apply_mutation (MutReplace e r) None = Inl (SE_TemplateNotPresent None)"
| "apply_mutation (MutDelete uid e) (Some (SP_Live v g r)) =
     (case e of
        Some x \<Rightarrow> if x = g then try_bind (next_generation g) (\<lambda>g'. Inr (SP_Deleted 1 g' uid))
                  else Inl (SE_StaleGeneration x g)
      | None \<Rightarrow> try_bind (next_generation g) (\<lambda>g'. Inr (SP_Deleted 1 g' uid)))"
| "apply_mutation (MutDelete uid e) (Some (SP_Deleted v g u)) = Inl (SE_TemplateNotPresent (Some g))"
| "apply_mutation (MutDelete uid e) None = Inl (SE_TemplateNotPresent None)"

fun run_mutation :: "key_loader \<Rightarrow> Codec \<Rightarrow> TemplateStore \<Rightarrow> Mutation \<Rightarrow> (StorageError, u64) disk_op" where
  "run_mutation load_key cd S (MutSave r) = save_with_generation load_key cd S r"
| "run_mutation load_key cd S (MutReplace e r) = replace_if_generation load_key cd S e r"
| "run_mutation load_key cd S (MutDelete u e) =
     (case e of None \<Rightarrow> delete_template load_key cd S u | Some x \<Rightarrow> delete_if_generation load_key cd S u x)"

definition generation_of :: "StoredPayload option \<Rightarrow> u64" where
  "generation_of c = (case c of None \<Rightarrow> 0 | Some p \<Rightarrow> payload_generation p)"

lemma apply_mutation_generation:
  "apply_mutation m c = Inr p \<Longrightarrow> unat (payload_generation p) = unat (generation_of c) + 1"
  by (cases "(m, c)" rule: apply_mutation.cases)
    (auto simp: next_live_def next_generation_def generation_of_def result_simps
      dest!: checked_add_unat split: if_splits option.splits)

text \<open>The three mutations run one transaction, with the transition as its only variable part.\<close>

definition transact ::
  "key_loader \<Rightarrow> Codec \<Rightarrow> TemplateStore \<Rightarrow> u32 \<Rightarrow> (StoredPayload option \<Rightarrow> StorageError + StoredPayload) \<Rightarrow>
   (StorageError, u64) disk_op" where
  "transact load_key cd S uid f =
     d_bind (read_optional_payload load_key cd S uid) (\<lambda>current.
     d_bind (d_lift (f current)) (\<lambda>p.
     d_bind (write_payload load_key cd S uid p) (\<lambda>_. d_lift (Inr (payload_generation p)))))"

lemma d_bind_lift [simp]: "d_bind (d_lift (Inr x)) f = f x" "d_bind (d_lift (Inl e)) f = d_lift (Inl e)"
  by (auto simp: d_bind_def d_lift_def)

lemma d_bind_cong: "(\<And>x. f x = g x) \<Longrightarrow> d_bind m f = d_bind m g"
  by (simp add: d_bind_def [abs_def])

lemma run_mutation_transact:
  "run_mutation load_key cd S m =
     d_bind (d_lift (mutation_validate m)) (\<lambda>_.
       with_exclusive_uid_lock S (mutation_uid m) (transact load_key cd S (mutation_uid m) (apply_mutation m)))"
proof (cases m)
  case (MutSave r)
  show ?thesis
    unfolding MutSave run_mutation.simps save_with_generation_def transact_def mutation_uid.simps mutation_validate.simps
    apply (intro d_bind_cong arg_cong [of _ _ "with_exclusive_uid_lock S (tr_uid r)"])
    subgoal for _ c
      by (cases c; cases "next_generation (generation_of c)")
        (simp_all add: next_live_def generation_of_def STORED_PAYLOAD_SCHEMA_VERSION_def)
    done
next
  case (MutReplace e r)
  show ?thesis
    unfolding MutReplace run_mutation.simps replace_if_generation_def transact_def mutation_uid.simps mutation_validate.simps
    apply (intro d_bind_cong arg_cong [of _ _ "with_exclusive_uid_lock S (tr_uid r)"])
    subgoal for _ c
      by (cases "(MutReplace e r, c)" rule: apply_mutation.cases; cases "next_generation (generation_of c)")
        (auto simp: next_live_def generation_of_def live_generation_def STORED_PAYLOAD_SCHEMA_VERSION_def)
    done
next
  case (MutDelete u e)
  have "run_mutation load_key cd S m = delete_inner load_key cd S u e"
    by (cases e) (simp_all add: MutDelete delete_template_def delete_if_generation_def)
  moreover have "delete_inner load_key cd S u e =
      with_exclusive_uid_lock S u (transact load_key cd S u (apply_mutation (MutDelete u e)))"
    unfolding delete_inner_def transact_def
    apply (intro d_bind_cong arg_cong [of _ _ "with_exclusive_uid_lock S u"])
    subgoal for c
      by (cases "(MutDelete u e, c)" rule: apply_mutation.cases; cases "next_generation (generation_of c)"; cases e)
        (auto simp: generation_of_def live_generation_def STORED_PAYLOAD_SCHEMA_VERSION_def)
    done
  ultimately show ?thesis by (simp add: MutDelete)
qed

section \<open>Containers\<close>

text \<open>
  The documented behaviour of the external codecs: decryption undoes encryption under the same key,
  nonce and associated data, the ciphertext is the message with a 16-byte tag, and JSON undoes JSON
  and stays below the container bound for the payloads the store accepts.
\<close>

definition codec_faithful :: "Codec \<Rightarrow> bool" where
  "codec_faithful cd \<longleftrightarrow>
     (\<forall>k n m a c. cd_encrypt cd k n m a = Some c \<longrightarrow> cd_decrypt cd k n c a = Some m \<and> length c = length m + 16) \<and>
     (\<forall>uid p bs. validate_stored_payload p uid = Inr () \<longrightarrow> cd_to_json cd p = Inr bs \<longrightarrow>
        cd_payload_of_json cd bs = Inr p \<and> length bs + 16 \<le> MAX_CIPHERTEXT_LENGTH)"

lemma parse_container_bytes:
  assumes "length nonce = NONCE_LENGTH" and "length ciphertext \<le> MAX_CIPHERTEXT_LENGTH"
  shows "parse_container (container_bytes nonce ciphertext) = Inr (nonce, ciphertext)"
proof -
  let ?e = "container_bytes nonce ciphertext"
  have lens: "length MAGIC = 4" "HEADER_LENGTH = 30" "NONCE_LENGTH = 24"
    by (simp_all add: MAGIC_def HEADER_LENGTH_def NONCE_LENGTH_def)
  have parts: "take 4 ?e = MAGIC" "slice 4 6 ?e = le_bytes 2 (unat FORMAT_VERSION)"
      "slice 6 30 ?e = nonce" "drop 30 ?e = ciphertext" "length ?e = 30 + length ciphertext"
    using assms by (simp_all add: container_bytes_def slice_def lens)
  have "of_le_bytes (le_bytes 2 (unat FORMAT_VERSION)) = unat FORMAT_VERSION"
    by (rule of_le_le_bytes) (simp add: FORMAT_VERSION_def)
  with assms(2) show ?thesis
    unfolding parse_container_def parts lens by (simp add: parts)
qed

lemma stored_payload_container:
  assumes "codec_faithful cd" and "validate_stored_payload p uid = Inr ()"
    and "cd_to_json cd p = Inr plaintext"
    and "cd_encrypt cd k nonce plaintext (associated_data uid) = Some ciphertext"
    and "length k = KEY_LENGTH" and "length nonce = NONCE_LENGTH"
    and "in_bytes i = container_bytes nonce ciphertext"
  shows "stored_payload cd uid k (Some i) = Inr (Some p)"
proof -
  have "cd_decrypt cd k nonce ciphertext (associated_data uid) = Some plaintext"
    "length ciphertext = length plaintext + 16" "cd_payload_of_json cd plaintext = Inr p"
    "length plaintext + 16 \<le> MAX_CIPHERTEXT_LENGTH"
    using assms(1-4) unfolding codec_faithful_def by blast+
  then show ?thesis
    using assms(2,5-7) by (simp add: stored_payload_def parse_container_bytes open_container_def)
qed

section \<open>Single calls\<close>

lemma open_read_err:
  "open_read_nofollow p d = (d', Inl e) \<Longrightarrow> e = IoNotFound \<Longrightarrow> dk_files d p = None"
  using open_read_absent by blast

lemma fstat_absent: "sys_fstat p d = (d', Inl IoNotFound) \<Longrightarrow> dk_files d p = None"
  by (auto simp: sys_fstat_def syscall_def result_simps split: list.splits option.splits)

lemma lstat_absent: "sys_lstat p d = (d', Inl IoNotFound) \<Longrightarrow> dk_files d p = None"
  by (auto simp: sys_lstat_def syscall_def result_simps split: list.splits option.splits)

lemma read_absent: "sys_read_to_end p d = (d', Inl IoNotFound) \<Longrightarrow> dk_files d p = None"
  by (auto simp: sys_read_to_end_def syscall_def result_simps split: list.splits option.splits)

text \<open>A directory chain that has been verified does not later turn out to be missing.\<close>

lemma verify_chain_present:
  "verify_chain trust qs d = (d1, Inr u) \<Longrightarrow> verify_chain trust qs e = (e1, Inl (TV_Io IoNotFound)) \<Longrightarrow>
   (\<And>q. q \<in> set qs \<Longrightarrow> dk_files e q = dk_files d q) \<Longrightarrow> False"
proof (induction qs arbitrary: d e)
  case Nil
  then show ?case by (simp add: d_lift_def)
next
  case (Cons q qs)
  from Cons.prems(1) obtain d2 i where d2: "sys_lstat q d = (d2, Inr i)" and
    rest: "\<not> tp_verify_ancestors trust \<or> verify_chain trust qs d2 = (d1, Inr u)"
    by (auto simp: disk_result_simps split: if_splits)
  have "dk_files e q = Some i" using sys_lstat_ok [OF d2] Cons.prems(3) by simp
  with Cons.prems(2) lstat_absent [of q e] obtain e2 where
    e2: "sys_lstat q e = (e2, Inr i)" "tp_verify_ancestors trust" "verify_chain trust qs e2 = (e1, Inl (TV_Io IoNotFound))"
    by (auto simp: disk_result_simps dest!: sys_lstat_ok split: if_splits)
  have same: "dk_files d2 x = dk_files d x" "dk_files e2 x = dk_files e x" for x
    using untouched_reads(1) [THEN untouchedD, OF d2] untouched_reads(1) [THEN untouchedD, OF e2(1)] by simp_all
  show ?case
    by (rule Cons.IH [of d2 e2]) (use rest e2 Cons.prems(3) in \<open>auto simp: same\<close>)
qed

lemma verify_directory_present:
  assumes "verify_directory_storage p trust d = (d1, Inr u)"
    and "\<And>q. q \<in> set (ancestors p) \<Longrightarrow> dk_files e q = dk_files d q"
  shows "verify_directory_storage p trust e \<noteq> (e1, Inl (SE_Io IoNotFound))"
proof
  assume "verify_directory_storage p trust e = (e1, Inl (SE_Io IoNotFound))"
  then obtain v where v: "verify_chain trust (ancestors p) e = (e1, Inl v)" "storage_violation trust v = SE_Io IoNotFound"
    by (auto simp: verify_directory_storage_def verify_directory_chain_def disk_result_simps)
  then have "v = TV_Io IoNotFound" by (cases v) auto
  then show False
    using verify_chain_present [of trust "ancestors p" d d1 u e e1] assms v(1)
    by (simp add: verify_directory_storage_def verify_directory_chain_def disk_result_simps)
qed

lemma verify_replace_target_not_found: "verify_replace_target_storage p trust d \<noteq> (d', Inl (SE_Io IoNotFound))"
  by (auto simp: verify_replace_target_storage_def disk_result_simps split: if_splits)

lemma parse_container_not_found: "parse_container bs \<noteq> Inl (SE_Io e)"
  by (auto simp: parse_container_def)

lemma record_validate_not_found: "record_validate r \<noteq> Inl (SE_Io e)"
  by (auto simp: record_validate_def)

lemma validate_payload_not_found: "validate_stored_payload p uid \<noteq> Inl (SE_Io e)"
  by (cases "(p, uid)" rule: validate_stored_payload.cases)
    (auto simp: result_simps record_validate_not_found split: if_splits)

lemma open_container_not_found: "open_container cd uid k parts \<noteq> Inl (SE_Io e)"
  by (auto simp: open_container_def result_simps validate_payload_not_found record_validate_not_found
      split: sum.splits if_splits)

lemma verify_open_absent:
  "verify_open_storage_file p trust d = (d', Inl (SE_Io IoNotFound)) \<Longrightarrow> dk_files d p = None"
  by (auto simp: verify_open_storage_file_def disk_result_simps dest!: fstat_absent split: if_splits)

text \<open>
  The write of a container: all or nothing at its path. Its stages are the preparation of the
  temporary file, the rename, and the flush of the directory.
\<close>

definition prepare_temporary :: "Path \<Rightarrow> u8 list \<Rightarrow> TrustPolicy \<Rightarrow> (StorageError, unit) disk_op" where
  "prepare_temporary tmp bytes trust =
     d_bind (d_map_err SE_Io (sys_create_new tmp)) (\<lambda>f.
     d_bind (verify_open_storage_file f trust) (\<lambda>_.
     d_bind (d_map_err SE_Io (sys_write_all f bytes)) (\<lambda>_.
     d_map_err SE_Io sys_ok)))"

definition flush_directory :: "Path \<Rightarrow> (StorageError, unit) disk_op" where
  "flush_directory directory =
     d_bind (d_map_err SE_Io (sys_open_directory directory)) (\<lambda>_. d_map_err SE_Io sys_ok)"

lemma d_bind_assoc: "d_bind (d_bind m f) g = d_bind m (\<lambda>x. d_bind (f x) g)"
  by (rule ext) (auto simp: d_bind_def split: prod.splits sum.splits)

lemma write_temporary_stages:
  "write_temporary tmp p directory bytes trust =
     d_bind (prepare_temporary tmp bytes trust) (\<lambda>_.
     d_bind (d_map_err SE_Io (sys_rename tmp p)) (\<lambda>_. flush_directory directory))"
  by (simp add: write_temporary_def prepare_temporary_def flush_directory_def d_bind_assoc)

lemma untouched_flush [untouched_intros]: "untouched q (flush_directory directory)"
  by (auto simp: flush_directory_def intro!: untouched_intros)

lemma untouched_prepare_temporary [untouched_intros]:
  assumes "tmp \<noteq> q"
  shows "untouched q (prepare_temporary tmp bytes trust)"
  unfolding untouched_def
proof
  fix d
  obtain d1 r where d1: "sys_create_new tmp d = (d1, r)" by fastforce
  have same: "dk_files d1 q = dk_files d q"
    using untouched_writes(1) [THEN untouchedD, OF _ d1] assms by auto
  have "untouched q (d_bind (verify_open_storage_file tmp trust) (\<lambda>_.
      d_bind (d_map_err SE_Io (sys_write_all tmp bytes)) (\<lambda>_. d_map_err SE_Io sys_ok)))"
    using assms by (auto intro!: untouched_intros)
  then show "dk_files (fst (prepare_temporary tmp bytes trust d)) q = dk_files d q"
    using d1 same sys_create_new_ok [of tmp d d1]
    by (cases r) (auto simp: prepare_temporary_def d_bind_def [of "d_map_err SE_Io (sys_create_new tmp)"]
        d_map_err_def [of SE_Io "sys_create_new tmp"] untouched_def)
qed

lemma untouched_write_temporary [untouched_intros]:
  "tmp \<noteq> q \<Longrightarrow> p \<noteq> q \<Longrightarrow> untouched q (write_temporary tmp p directory bytes trust)"
  by (auto simp: write_temporary_stages intro!: untouched_intros)

lemma prepare_temporary_ok:
  assumes "prepare_temporary tmp bytes trust d = (d', Inr u)"
  shows "\<exists>i. dk_files d' tmp = Some i \<and> trusted_file trust i \<and> in_bytes i = bytes"
proof -
  from assms obtain f d1 d2 d3 where
    d1: "sys_create_new tmp d = (d1, Inr f)" and d2: "verify_open_storage_file f trust d1 = (d2, Inr ())" and
    d3: "sys_write_all f bytes d2 = (d3, Inr ())" and d': "sys_ok d3 = (d', Inr ())"
    by (auto simp: prepare_temporary_def disk_result_simps)
  obtain i where f: "f = tmp" and i: "dk_files d1 tmp = Some i" "in_bytes i = []"
    using sys_create_new_ok [OF d1] by blast
  have "dk_files d2 tmp = dk_files d1 tmp" "dk_files d' tmp = dk_files d3 tmp"
    using untouched_verify(4) [THEN untouchedD, OF d2] untouched_reads(5) [THEN untouchedD, OF d'] by simp_all
  with sys_write_all_ok [OF d3] verify_open_storage_file_ok [OF d2] i f show ?thesis by auto
qed

definition replaced :: "TrustPolicy \<Rightarrow> Path \<Rightarrow> u8 list \<Rightarrow> Disk \<Rightarrow> bool" where
  "replaced trust p bytes d \<longleftrightarrow> (\<exists>i. dk_files d p = Some i \<and> trusted_file trust i \<and> in_bytes i = bytes)"

lemma write_temporary_all_or_nothing:
  assumes "write_temporary tmp p directory bytes trust d = (d', r)" and "tmp \<noteq> p"
  shows "dk_files d' p = dk_files d p \<and> is_err r \<or> replaced trust p bytes d'"
proof -
  obtain d1 r1 where d1: "prepare_temporary tmp bytes trust d = (d1, r1)" by fastforce
  have p1: "dk_files d1 p = dk_files d p"
    using untouched_prepare_temporary [THEN untouchedD, OF assms(2) d1] .
  show ?thesis
  proof (cases r1)
    case (Inl e)
    with assms(1) d1 p1 show ?thesis by (auto simp: write_temporary_stages d_bind_def)
  next
    case (Inr u)
    then obtain i where i: "dk_files d1 tmp = Some i" "trusted_file trust i" "in_bytes i = bytes"
      using prepare_temporary_ok [of tmp bytes trust d d1] d1 by auto
    obtain d2 r2 where d2: "sys_rename tmp p d1 = (d2, r2)" by fastforce
    show ?thesis
    proof (cases r2)
      case (Inl e)
      with assms(1) d1 d2 p1 \<open>r1 = Inr u\<close> sys_rename_err [of tmp p d1 d2 e] show ?thesis
        by (auto simp: write_temporary_stages d_bind_def d_map_err_def)
    next
      case (Inr v)
      have fl: "flush_directory directory d2 = (d', r)"
        using assms(1) d1 d2 Inr \<open>r1 = Inr u\<close>
        by (auto simp: write_temporary_stages d_bind_def [of "prepare_temporary tmp bytes trust"]
            d_bind_def [of "d_map_err SE_Io (sys_rename tmp p)"] d_map_err_def [of SE_Io "sys_rename tmp p"])
      have "dk_files d' p = dk_files d2 p" using untouched_flush [THEN untouchedD, OF fl] .
      then show ?thesis
        using sys_rename_ok [of tmp p d1 d2 v] d2 Inr assms(2) i by (auto simp: replaced_def)
    qed
  qed
qed

lemma replaced_cong: "dk_files d' p = dk_files d p \<Longrightarrow> replaced trust p bytes d' = replaced trust p bytes d"
  by (simp add: replaced_def)

lemma atomic_write_all_or_nothing:
  assumes "atomic_write p bytes directory trust d = (d', r)" and "\<And>uuid. temporary_for directory p uuid \<noteq> p"
  shows "dk_files d' p = dk_files d p \<and> is_err r \<or> replaced trust p bytes d'"
proof -
  obtain d1 r1 where d1: "verify_directory_storage directory trust d = (d1, r1)" by fastforce
  obtain d2 r2 where d2: "verify_replace_target_storage p trust d1 = (d2, r2)" by fastforce
  have same: "dk_files d1 p = dk_files d p" "dk_files d2 p = dk_files d p"
    using untouched_verify(1) [THEN untouchedD, OF d1] untouched_verify(5) [THEN untouchedD, OF d2] by simp_all
  show ?thesis
  proof (cases "is_err r1 \<or> is_err r2")
    case True
    with assms(1) d1 d2 same show ?thesis
      by (auto simp: atomic_write_def d_bind_def is_err_def is_ok_def split: sum.splits)
  next
    case False
    define d3 where "d3 = d2\<lparr>dk_draws := Suc (dk_draws d2)\<rparr>"
    define tmp where "tmp = temporary_for directory p (dk_uuid d2 (dk_draws d2))"
    obtain d4 where d4: "write_temporary tmp p directory bytes trust d3 = (d4, r)" and
      d': "d' = d4 \<or> (\<exists>r5. sys_remove tmp d4 = (d', r5))"
      using assms(1) d1 d2 False
      by (auto simp: atomic_write_def d_bind_def d_match_def d_lift_def new_uuid_def is_err_def is_ok_def
          d3_def [symmetric] tmp_def [symmetric] split: sum.splits prod.splits if_splits)
    have ne: "tmp \<noteq> p" using assms(2) by (simp add: tmp_def)
    have "dk_files d' p = dk_files d4 p"
      using d' untouched_writes(4) [THEN untouchedD, OF ne, of d4 d'] by auto
    moreover have "dk_files d3 p = dk_files d p" by (simp add: d3_def same)
    ultimately show ?thesis
      using write_temporary_all_or_nothing [OF d4 ne] by (simp add: replaced_def)
  qed
qed

lemma untouched_atomic_write [untouched_intros]:
  "p \<noteq> q \<Longrightarrow> (\<And>uuid. temporary_for directory p uuid \<noteq> q) \<Longrightarrow> untouched q (atomic_write p bytes directory trust)"
  by (auto simp: atomic_write_def intro!: untouched_intros)

section \<open>The lock\<close>

definition take_lock :: "TemplateStore \<Rightarrow> u32 \<Rightarrow> (StorageError, unit) disk_op" where
  "take_lock S uid =
     d_bind (prepare_directory_storage (ts_directory S) (ts_trust S)) (\<lambda>_.
     d_bind (verify_replace_target_storage (lock_path_for S uid) (ts_trust S)) (\<lambda>_.
     d_bind (d_map_err SE_Io (sys_open_or_create (lock_path_for S uid))) (\<lambda>f.
     d_bind (verify_open_storage_file f (ts_trust S)) (\<lambda>_.
     d_map_err SE_Io sys_ok))))"

definition recheck_directory :: "TemplateStore \<Rightarrow> u32 \<Rightarrow> (StorageError, unit) disk_op" where
  "recheck_directory S uid =
     d_bind (verify_directory_storage (ts_directory S) (ts_trust S)) (\<lambda>_.
     verify_replace_target_storage (lock_path_for S uid) (ts_trust S))"

lemma with_lock_stages:
  "with_exclusive_uid_lock S uid operation =
     d_bind (take_lock S uid) (\<lambda>_.
     d_match (d_bind (recheck_directory S uid) (\<lambda>_. operation)) (\<lambda>r. d_match sys_ok (\<lambda>_. d_lift r)))"
  by (simp add: with_exclusive_uid_lock_def take_lock_def recheck_directory_def d_bind_assoc)

lemma untouched_take_lock [untouched_intros]:
  "q \<noteq> lock_path_for S uid \<Longrightarrow> q \<notin> set (ancestors (ts_directory S)) \<Longrightarrow> untouched q (take_lock S uid)"
  by (auto simp: take_lock_def intro!: untouched_intros)

lemma untouched_recheck [untouched_intros]: "untouched q (recheck_directory S uid)"
  by (auto simp: recheck_directory_def intro!: untouched_intros)

text \<open>Either the operation never ran, or it ran in a verified directory and alone.\<close>

lemma with_lock_cases:
  assumes "with_exclusive_uid_lock S uid operation d = (d', r)"
  obtains (refused) "is_err r"
      "\<And>q. q \<noteq> lock_path_for S uid \<Longrightarrow> q \<notin> set (ancestors (ts_directory S)) \<Longrightarrow> dk_files d' q = dk_files d q"
    | (ran) d0 d0' d1 d2 where
      "\<And>q. q \<noteq> lock_path_for S uid \<Longrightarrow> q \<notin> set (ancestors (ts_directory S)) \<Longrightarrow> dk_files d1 q = dk_files d q"
      "verify_directory_storage (ts_directory S) (ts_trust S) d0 = (d0', Inr ())"
      "\<And>q. dk_files d1 q = dk_files d0 q" "operation d1 = (d2, r)" "\<And>q. dk_files d' q = dk_files d2 q"
proof -
  obtain da ra where da: "take_lock S uid d = (da, ra)" by fastforce
  have fa: "dk_files da q = dk_files d q"
    if "q \<noteq> lock_path_for S uid" "q \<notin> set (ancestors (ts_directory S))" for q
    using untouched_take_lock [OF that, THEN untouchedD, OF da] .
  show ?thesis
  proof (cases ra)
    case (Inl e)
    with assms da fa show ?thesis by (intro refused) (auto simp: with_lock_stages d_bind_def)
  next
    case (Inr u)
    obtain db rb where db: "recheck_directory S uid da = (db, rb)" by fastforce
    have fb: "dk_files db q = dk_files da q" for q
      using untouched_recheck [THEN untouchedD, OF db] .
    obtain dc rc where dc: "d_bind (recheck_directory S uid) (\<lambda>_. operation) da = (dc, rc)" by fastforce
    have unlock: "rc = r" "\<And>q. dk_files d' q = dk_files dc q"
      using assms da Inr dc untouched_reads(5) [THEN untouchedD, of dc]
      by (auto simp: with_lock_stages d_bind_def [of "take_lock S uid"] d_match_def d_lift_def split: prod.splits)
    show ?thesis
    proof (cases rb)
      case (Inl e)
      with dc db unlock fa fb show ?thesis by (intro refused) (auto simp: d_bind_def)
    next
      case (Inr v)
      then obtain d0' where "verify_directory_storage (ts_directory S) (ts_trust S) da = (d0', Inr ())"
        using db by (auto simp: recheck_directory_def disk_result_simps)
      moreover have "operation db = (dc, r)" using dc db Inr unlock by (auto simp: d_bind_def)
      ultimately show ?thesis using fa fb unlock by (intro ran [of db da d0' dc]) auto
    qed
  qed
qed

section \<open>Transactions over any key provider\<close>

text \<open>The key of the provider lies outside the template directory and its ancestors.\<close>

definition key_apart :: "(Path \<Rightarrow> bool) \<Rightarrow> TemplateStore \<Rightarrow> bool" where
  "key_apart key_path S \<longleftrightarrow>
     (\<forall>p. key_path p \<longrightarrow> \<not> in_store S p \<and> p \<notin> set (ancestors (ts_directory S)))"

text \<open>A sequence of mutations, each with its faults.\<close>

fun run_mutations :: "key_loader \<Rightarrow> Codec \<Rightarrow> TemplateStore \<Rightarrow> Mutation list \<Rightarrow> Disk \<Rightarrow> Disk" where
  "run_mutations load_key cd S [] d = d"
| "run_mutations load_key cd S (m # ms) d = run_mutations load_key cd S ms (fst (run_mutation load_key cd S m d))"

text \<open>Computations that keep a property of the disk.\<close>

definition preserves :: "(Disk \<Rightarrow> bool) \<Rightarrow> ('e, 'a) disk_op \<Rightarrow> bool" where
  "preserves P m \<longleftrightarrow> (\<forall>d. P d \<longrightarrow> P (fst (m d)))"

named_theorems preserves_intros \<open>computations that keep a property\<close>

lemma preservesD: "preserves P m \<Longrightarrow> m d = (d', r) \<Longrightarrow> P d \<Longrightarrow> P d'"
  unfolding preserves_def by (metis fst_conv)

lemma preserves_combinators [preserves_intros]:
  "preserves P (d_lift x)"
  "preserves P m \<Longrightarrow> (\<And>x. preserves P (f x)) \<Longrightarrow> preserves P (d_bind m f)"
  "preserves P m \<Longrightarrow> (\<And>r. preserves P (g r)) \<Longrightarrow> preserves P (d_match m g)"
  "preserves P m \<Longrightarrow> preserves P (d_map_err h m)"
  by (auto simp: preserves_def d_lift_def d_bind_def d_match_def d_map_err_def split: prod.splits sum.splits)

context key_provider
begin

lemma untouched_read_payload:
  "\<not> key_path q \<Longrightarrow> untouched q (read_payload load_key cd S uid)"
  by (auto simp: read_payload_def intro!: untouched_intros load_key_frame)

lemma untouched_read_optional:
  "\<not> key_path q \<Longrightarrow> untouched q (read_optional_payload load_key cd S uid)"
  by (auto simp: read_optional_payload_def intro!: untouched_intros untouched_read_payload)

text \<open>A key survives whatever leaves its files alone.\<close>

lemma key_survives:
  assumes "\<And>p. key_path p \<Longrightarrow> untouched p m" and "m d = (d', r)"
  shows "key_in d' = key_in d"
  by (rule key_in_local) (rule untouchedD [OF assms(1) assms(2)])

lemma read_payload_ok:
  assumes "read_payload load_key cd S uid d = (d', Inr p)"
  shows "\<exists>k. key_in d' = Some k \<and> (\<forall>k'. key_in d = Some k' \<longrightarrow> k' = k) \<and>
    stored_payload cd uid k (dk_files d (path_for S uid)) = Inr (Some p)"
proof -
  from assms obtain d1 d2 d3 d4 d5 f encoded parts k where
    d1: "verify_directory_storage (ts_directory S) (ts_trust S) d = (d1, Inr ())" and
    d2: "verify_replace_target_storage (path_for S uid) (ts_trust S) d1 = (d2, Inr ())" and
    d3: "open_read_nofollow (path_for S uid) d2 = (d3, Inr f)" and
    d4: "verify_open_storage_file f (ts_trust S) d3 = (d4, Inr ())" and
    d5: "sys_read_to_end f d4 = (d5, Inr encoded)" and
    parts: "parse_container encoded = Inr parts" and
    k: "load_key d5 = (d', Inr k)" and p: "open_container cd uid k parts = Inr p"
    by (auto simp: read_payload_def disk_result_simps)
  note same = untouched_verify(1) [THEN untouchedD, OF d1] untouched_verify(5) [THEN untouchedD, OF d2]
    untouched_reads(3) [THEN untouchedD, OF d3] untouched_verify(4) [THEN untouchedD, OF d4]
    untouched_reads(4) [THEN untouchedD, OF d5]
  have "key_in d5 = key_in d" by (rule key_in_local) (simp add: same)
  then have stable: "\<forall>k'. key_in d = Some k' \<longrightarrow> k' = k"
    using load_key_stable [OF k] load_key_sound [OF k] by auto
  obtain i where "dk_files d (path_for S uid) = Some i" "encoded = in_bytes i"
    using sys_read_ok [OF d5] open_read_ok [OF d3] by (auto simp: same)
  with parts p stable load_key_sound [OF k] show ?thesis
    by (auto simp: stored_payload_def)
qed

lemma read_payload_not_found:
  assumes "read_payload load_key cd S uid d = (d', Inl (SE_Io IoNotFound))"
    and "verify_directory_storage (ts_directory S) (ts_trust S) d0 = (d1, Inr ())"
    and "\<And>q. q \<in> set (ancestors (ts_directory S)) \<Longrightarrow> dk_files d q = dk_files d0 q"
  shows "dk_files d (path_for S uid) = None"
proof -
  have same1: "dk_files e1 q = dk_files e q"
    if "verify_directory_storage (ts_directory S) (ts_trust S) e = (e1, x)" for e e1 x q
    using untouched_verify(1) [THEN untouchedD, OF that] .
  have same2: "dk_files e1 q = dk_files e q"
    if "verify_replace_target_storage (path_for S uid) (ts_trust S) e = (e1, x)" for e e1 x q
    using untouched_verify(5) [THEN untouchedD, OF that] .
  have same3: "f = path_for S uid \<and> (\<exists>i. dk_files e1 (path_for S uid) = Some i)"
    if "open_read_nofollow (path_for S uid) e = (e1, Inr f)" for e e1 f
    using open_read_ok [OF that] untouched_reads(3) [THEN untouchedD, OF that] by auto
  have same4: "dk_files e1 q = dk_files e q" if "verify_open_storage_file f (ts_trust S) e = (e1, x)" for e e1 x q f
    using untouched_verify(4) [THEN untouchedD, OF that] .
  from assms(1) verify_directory_present [OF assms(2,3), of d'] show ?thesis
    by (auto simp: read_payload_def disk_result_simps verify_replace_target_not_found parse_container_not_found
        open_container_not_found same1 same2 same4
        dest!: open_read_absent verify_open_absent read_absent same3)
qed

text \<open>The read of a transaction, in a directory that has just been verified.\<close>

lemma read_optional_ok:
  assumes "read_optional_payload load_key cd S uid d = (d', Inr current)"
    and "verify_directory_storage (ts_directory S) (ts_trust S) d0 = (d1, Inr ())"
    and "\<And>q. q \<in> set (ancestors (ts_directory S)) \<Longrightarrow> dk_files d q = dk_files d0 q"
    and "key_in d' = Some k \<or> current = None"
  shows "stored_payload cd uid k (dk_files d (path_for S uid)) = Inr current"
proof (cases current)
  case None
  with assms(1) have "read_payload load_key cd S uid d = (d', Inl (SE_Io IoNotFound))"
    by (auto simp: read_optional_payload_def disk_result_simps split: if_splits)
  from read_payload_not_found [OF this assms(2,3)] None show ?thesis by (simp add: stored_payload_def)
next
  case (Some p)
  with assms(1) have "read_payload load_key cd S uid d = (d', Inr p)"
    by (auto simp: read_optional_payload_def disk_result_simps split: if_splits)
  from read_payload_ok [OF this] assms(4) Some show ?thesis by auto
qed

lemma preserves_untouched:
  "(\<And>p. key_path p \<Longrightarrow> untouched p m) \<Longrightarrow> preserves (\<lambda>d. key_in d = Some k) m"
  unfolding preserves_def by (metis key_survives prod.collapse)

lemma preserves_load_key: "preserves (\<lambda>d. key_in d = Some k) load_key"
  unfolding preserves_def by (metis load_key_stable prod.collapse)

lemma preserves_read_optional: "preserves (\<lambda>d. key_in d = Some k) (read_optional_payload load_key cd S uid)"
  unfolding read_optional_payload_def read_payload_def
  by (intro preserves_intros preserves_load_key) (rule preserves_untouched, auto intro!: untouched_intros)+

lemma preserves_write_payload:
  assumes "key_apart key_path S"
  shows "preserves (\<lambda>d. key_in d = Some k) (write_payload load_key cd S uid p)"
proof -
  have "untouched q (atomic_write (path_for S uid) bs (ts_directory S) (ts_trust S))" if "key_path q" for q bs
    using assms that in_store_paths(1,3) by (intro untouched_atomic_write) (auto simp: key_apart_def)
  then show ?thesis
    unfolding write_payload_def
    by (intro preserves_intros preserves_load_key) (rule preserves_untouched, auto intro!: untouched_intros)+
qed

text \<open>The write of a transaction.\<close>

lemma write_payload_all_or_nothing:
  assumes "write_payload load_key cd S uid p d = (d', r)" and "codec_faithful cd" and "key_apart key_path S"
  shows "dk_files d' (path_for S uid) = dk_files d (path_for S uid) \<and> is_err r \<or>
    (\<exists>k. key_in d' = Some k \<and> stored_payload cd uid k (dk_files d' (path_for S uid)) = Inr (Some p))"
proof -
  have apart: "\<not> key_path (path_for S uid)" using assms(3) in_store_paths(1) by (auto simp: key_apart_def)
  obtain d1 r1 where d1: "load_key d = (d1, r1)" by fastforce
  have p1: "dk_files d1 (path_for S uid) = dk_files d (path_for S uid)"
    using load_key_frame [OF apart, THEN untouchedD, OF d1] .
  show ?thesis
  proof (cases "dk_files d' (path_for S uid) = dk_files d (path_for S uid) \<and> is_err r")
    case True
    then show ?thesis ..
  next
    case False
    have draws: "dk_files d2 = dk_files d1" if "getrandom n d1 = (d2, x)" for n d2 x
      using that by (auto simp: getrandom_def)
    have "\<not> is_err (validate_stored_payload p uid)"
    proof
      assume "is_err (validate_stored_payload p uid)"
      then obtain e where "validate_stored_payload p uid = Inl e"
        by (cases "validate_stored_payload p uid") auto
      with assms(1) have "d' = d" "r = Inl e" by (simp_all add: write_payload_def d_lift_def)
      with False show False by simp
    qed
    then have valid: "validate_stored_payload p uid = Inr ()"
      by (cases "validate_stored_payload p uid") auto
    from False assms(1) d1 p1 valid obtain k plaintext d2 nonce ciphertext where
      k: "r1 = Inr k" "length k = KEY_LENGTH" and
      json: "cd_to_json cd p = Inr plaintext" and d2: "getrandom NONCE_LENGTH d1 = (d2, Inr nonce)" and
      enc: "cd_encrypt cd k nonce plaintext (associated_data uid) = Some ciphertext" and
      w: "atomic_write (path_for S uid) (container_bytes nonce ciphertext) (ts_directory S) (ts_trust S) d2 = (d', r)"
      by (auto simp: write_payload_def d_bind_def d_map_err_def d_lift_def ensure_def draws
          split: prod.splits sum.splits if_splits simp: map_err_def ok_or_def split: option.splits)
    have "length nonce = NONCE_LENGTH" using d2 by (auto simp: getrandom_def split: sum.splits)
    have key: "key_in d' = Some k"
    proof -
      have "key_in d2 = Some k"
        using load_key_sound [of d d1 k] d1 k(1) key_in_local [of d2 d1] draws [OF d2] by simp
      moreover have "\<And>q. key_path q \<Longrightarrow>
          untouched q (atomic_write (path_for S uid) (container_bytes nonce ciphertext) (ts_directory S) (ts_trust S))"
        using assms(3) in_store_paths(1,3) by (intro untouched_atomic_write) (auto simp: key_apart_def)
      ultimately show ?thesis using key_survives [of "atomic_write (path_for S uid) (container_bytes nonce ciphertext) (ts_directory S) (ts_trust S)" d2 d' r] w
        by simp
    qed
    have "replaced (ts_trust S) (path_for S uid) (container_bytes nonce ciphertext) d'"
      using atomic_write_all_or_nothing [OF w] False p1 draws [OF d2] by (auto simp: eq_commute)
    then obtain i where "dk_files d' (path_for S uid) = Some i" "in_bytes i = container_bytes nonce ciphertext"
      by (auto simp: replaced_def)
    with stored_payload_container [OF assms(2) valid json enc k(2) \<open>length nonce = NONCE_LENGTH\<close>] key show ?thesis
      by auto
  qed
qed

lemma untouched_write_payload:
  "\<not> key_path q \<Longrightarrow> path_for S uid \<noteq> q \<Longrightarrow> (\<And>uuid. temporary_for (ts_directory S) (path_for S uid) uuid \<noteq> q) \<Longrightarrow>
   untouched q (write_payload load_key cd S uid p)"
  by (auto simp: write_payload_def intro!: untouched_intros load_key_frame)

lemma preserves_lock:
  assumes "key_apart key_path S"
  shows "preserves (\<lambda>d. key_in d = Some k) (take_lock S uid)"
    and "preserves (\<lambda>d. key_in d = Some k) (recheck_directory S uid)"
  using assms in_store_paths(2)
  by (auto simp: key_apart_def intro!: preserves_untouched untouched_intros)

lemma preserves_mutation:
  assumes "key_apart key_path S"
  shows "preserves (\<lambda>d. key_in d = Some k) (run_mutation load_key cd S m)"
  unfolding run_mutation_transact with_lock_stages transact_def
  by (intro preserves_intros preserves_lock [OF assms] preserves_read_optional preserves_write_payload [OF assms])
    (auto intro!: preserves_untouched untouched_intros)

lemma transact_refines:
  assumes "transact load_key cd S uid f d = (d', r)"
    and "verify_directory_storage (ts_directory S) (ts_trust S) d0 = (d0', Inr ())"
    and "\<And>q. q \<in> set (ancestors (ts_directory S)) \<Longrightarrow> dk_files d q = dk_files d0 q"
    and "codec_faithful cd" and "key_apart key_path S"
  shows "dk_files d' (path_for S uid) = dk_files d (path_for S uid) \<and> is_err r \<or>
    (\<exists>k current p. key_in d' = Some k \<and>
       stored_payload cd uid k (dk_files d (path_for S uid)) = Inr current \<and> f current = Inr p \<and>
       stored_payload cd uid k (dk_files d' (path_for S uid)) = Inr (Some p) \<and>
       (\<forall>g. r = Inr g \<longrightarrow> g = payload_generation p))"
proof -
  have apart: "\<not> key_path (path_for S uid)" using assms(5) in_store_paths(1) by (auto simp: key_apart_def)
  obtain d1 r1 where d1: "read_optional_payload load_key cd S uid d = (d1, r1)" by fastforce
  have p1: "dk_files d1 (path_for S uid) = dk_files d (path_for S uid)"
    using untouched_read_optional [OF apart, THEN untouchedD, OF d1] .
  show ?thesis
  proof (cases "\<exists>current p. r1 = Inr current \<and> f current = Inr p")
    case False
    with assms(1) d1 p1 show ?thesis
      by (cases r1; cases "f (projr r1)") (auto simp: transact_def d_bind_def d_lift_def)
  next
    case True
    then obtain current p where p: "r1 = Inr current" "f current = Inr p" by blast
    obtain rw where w: "write_payload load_key cd S uid p d1 = (d', rw)" and r: "r = try_bind rw (\<lambda>_. Inr (payload_generation p))"
      using assms(1) d1 p by (auto simp: transact_def d_bind_def d_lift_def split: prod.splits sum.splits)
    from write_payload_all_or_nothing [OF w assms(4,5)] show ?thesis
    proof
      assume "dk_files d' (path_for S uid) = dk_files d1 (path_for S uid) \<and> is_err rw"
      then show ?thesis using p1 r by (cases rw) auto
    next
      assume "\<exists>k. key_in d' = Some k \<and> stored_payload cd uid k (dk_files d' (path_for S uid)) = Inr (Some p)"
      then obtain k where k: "key_in d' = Some k" "stored_payload cd uid k (dk_files d' (path_for S uid)) = Inr (Some p)"
        by blast
      have "key_in d1 = Some k \<or> current = None"
      proof (cases current)
        case (Some q)
        with d1 p have "read_payload load_key cd S uid d = (d1, Inr q)"
          by (auto simp: read_optional_payload_def disk_result_simps split: if_splits)
        from read_payload_ok [OF this] obtain k' where "key_in d1 = Some k'" by blast
        with preserves_write_payload [OF assms(5), THEN preservesD, OF w] k(1) show ?thesis by auto
      qed simp
      from read_optional_ok [OF d1 [unfolded p(1)] assms(2,3) this] k p r show ?thesis
        by (cases rw) auto
    qed
  qed
qed

text \<open>Every mutation refines the abstract transition of its UID and touches no other file of the store.\<close>

lemma mutation_refines:
  assumes "run_mutation load_key cd S m d = (d', r)" and "codec_faithful cd" and "key_apart key_path S"
  shows "dk_files d' (path_for S (mutation_uid m)) = dk_files d (path_for S (mutation_uid m)) \<and> is_err r \<or>
    (\<exists>k current p. key_in d' = Some k \<and>
       stored_payload cd (mutation_uid m) k (dk_files d (path_for S (mutation_uid m))) = Inr current \<and>
       apply_mutation m current = Inr p \<and>
       stored_payload cd (mutation_uid m) k (dk_files d' (path_for S (mutation_uid m))) = Inr (Some p) \<and>
       (\<forall>g. r = Inr g \<longrightarrow> g = payload_generation p))"
proof (cases "mutation_validate m")
  case (Inl e)
  with assms(1) show ?thesis by (auto simp: run_mutation_transact d_lift_def)
next
  case (Inr u)
  let ?u = "mutation_uid m"
  have outside: "path_for S ?u \<noteq> lock_path_for S ?u" "path_for S ?u \<notin> set (ancestors (ts_directory S))"
    using in_store_not_ancestor [OF in_store_paths(1)] by auto
  from assms(1) Inr have lock: "with_exclusive_uid_lock S ?u (transact load_key cd S ?u (apply_mutation m)) d = (d', r)"
    by (simp add: run_mutation_transact)
  then show ?thesis
  proof (cases rule: with_lock_cases)
    case refused
    from refused(1) refused(2) [OF outside] show ?thesis by blast
  next
    case (ran d0 d0' d1 d2)
    have "key_in d2 = key_in d'" by (rule key_in_local) (simp add: ran(5))
    with transact_refines [OF ran(4,2) _ assms(2,3)] ran(1,3,5) outside show ?thesis by simp
  qed
qed

lemma mutation_frame:
  assumes "run_mutation load_key cd S m d = (d', r)" and "key_apart key_path S" and "uid \<noteq> mutation_uid m"
  shows "dk_files d' (path_for S uid) = dk_files d (path_for S uid)"
proof -
  have apart: "\<not> key_path (path_for S uid)" using assms(2) in_store_paths(1) by (auto simp: key_apart_def)
  have "untouched (path_for S uid) (run_mutation load_key cd S m)"
    unfolding run_mutation_transact with_lock_stages transact_def
    using assms(3) in_store_not_ancestor [OF in_store_paths(1)]
    by (auto intro!: untouched_intros untouched_read_optional [OF apart] untouched_write_payload [OF apart])
  then show ?thesis using assms(1) untouchedD by blast
qed

text \<open>
  Along any sequence of mutations, failing ones included, the file of a UID is either the very same
  or stands for a later generation.
\<close>

lemma run_generations:
  assumes "codec_faithful cd" and "key_apart key_path S"
  shows "key_in d = Some k \<Longrightarrow> stored_payload cd uid k (dk_files d (path_for S uid)) = Inr c0 \<Longrightarrow>
    key_in (run_mutations load_key cd S ms d) = Some k \<and>
    (\<exists>c. stored_payload cd uid k (dk_files (run_mutations load_key cd S ms d) (path_for S uid)) = Inr c \<and>
      (dk_files (run_mutations load_key cd S ms d) (path_for S uid) = dk_files d (path_for S uid) \<or>
       generation_of c0 < generation_of c))"
proof (induction ms arbitrary: d c0)
  case Nil
  then show ?case by auto
next
  case (Cons m ms)
  obtain d1 r where d1: "run_mutation load_key cd S m d = (d1, r)" by fastforce
  have key: "key_in d1 = Some k"
    using preserves_mutation [OF assms(2), THEN preservesD, OF d1] Cons.prems(1) by simp
  have "\<exists>c1. stored_payload cd uid k (dk_files d1 (path_for S uid)) = Inr c1 \<and>
      (dk_files d1 (path_for S uid) = dk_files d (path_for S uid) \<or> generation_of c0 < generation_of c1)"
  proof (cases "uid = mutation_uid m")
    case False
    with mutation_frame [OF d1 assms(2)] Cons.prems(2) show ?thesis by auto
  next
    case True
    from mutation_refines [OF d1 assms] show ?thesis
    proof
      assume "dk_files d1 (path_for S (mutation_uid m)) = dk_files d (path_for S (mutation_uid m)) \<and> is_err r"
      with True Cons.prems(2) show ?thesis by auto
    next
      assume "\<exists>k current p. key_in d1 = Some k \<and>
        stored_payload cd (mutation_uid m) k (dk_files d (path_for S (mutation_uid m))) = Inr current \<and>
        apply_mutation m current = Inr p \<and>
        stored_payload cd (mutation_uid m) k (dk_files d1 (path_for S (mutation_uid m))) = Inr (Some p) \<and>
        (\<forall>g. r = Inr g \<longrightarrow> g = payload_generation p)"
      with True key Cons.prems(2) obtain p where
        "apply_mutation m c0 = Inr p" "stored_payload cd uid k (dk_files d1 (path_for S uid)) = Inr (Some p)"
        by auto
      then show ?thesis
        using apply_mutation_generation [of m c0 p] by (auto simp: generation_of_def [of "Some p"] word_less_nat_alt)
    qed
  qed
  then obtain c1 where c1: "stored_payload cd uid k (dk_files d1 (path_for S uid)) = Inr c1"
    "dk_files d1 (path_for S uid) = dk_files d (path_for S uid) \<or> generation_of c0 < generation_of c1" by blast
  have "c1 = c0" if "dk_files d1 (path_for S uid) = dk_files d (path_for S uid)"
    using that c1(1) Cons.prems(2) by simp
  with Cons.IH [OF key c1(1)] c1 d1 show ?case by (auto intro: order_less_trans)
qed

lemma run_frame:
  assumes "key_apart key_path S" and "\<forall>m \<in> set ms. mutation_uid m \<noteq> uid"
  shows "dk_files (run_mutations load_key cd S ms d) (path_for S uid) = dk_files d (path_for S uid)"
  using assms(2)
proof (induction ms arbitrary: d)
  case Nil
  then show ?case by simp
next
  case (Cons m ms)
  then show ?case
    using mutation_frame [OF surjective_pairing assms(1), where cd = cd and d = d and m = m and uid = uid] by auto
qed

lemma load_ok:
  assumes "load_with_generation load_key cd S uid d = (d', Inr v)"
  shows "\<exists>k x. key_in d' = Some k \<and> (\<forall>k'. key_in d = Some k' \<longrightarrow> k' = k) \<and>
    stored_payload cd uid k (dk_files d (path_for S uid)) = Inr (Some (SP_Live x (vt_generation v) (vt_record v)))"
proof -
  from assms obtain p where p: "read_payload load_key cd S uid d = (d', Inr p)"
    and v: "(case p of SP_Live _ g r \<Rightarrow> Inr \<lparr>vt_generation = g, vt_record = r\<rparr>
       | SP_Deleted _ _ _ \<Rightarrow> Inl (template_not_found uid)) = Inr v"
    by (auto simp: load_with_generation_def disk_result_simps)
  from v read_payload_ok [OF p] show ?thesis by (cases p) auto
qed

lemma load_frame:
  assumes "load_with_generation load_key cd S uid d = (d', r)" and "key_apart key_path S"
  shows "dk_files d' (path_for S u) = dk_files d (path_for S u)"
proof -
  have "\<not> key_path (path_for S u)" using assms(2) in_store_paths(1) by (auto simp: key_apart_def)
  then have "untouched (path_for S u) (load_with_generation load_key cd S uid)"
    by (auto simp: load_with_generation_def intro!: untouched_intros untouched_read_payload)
  then show ?thesis using assms(1) untouchedD by blast
qed

text \<open>A conditional mutation with a generation observed earlier succeeds only on the observed file.\<close>

lemma conditional_mutation_current:
  assumes "load_with_generation load_key cd S uid d0 = (d1, Inr v)"
    and "codec_faithful cd" and "key_apart key_path S"
    and "m = MutReplace (vt_generation v) r' \<or> m = MutDelete uid (Some (vt_generation v))" and "mutation_uid m = uid"
    and "run_mutation load_key cd S m (run_mutations load_key cd S ms d1) = (d3, Inr g)"
  shows "dk_files (run_mutations load_key cd S ms d1) (path_for S uid) = dk_files d0 (path_for S uid) \<and>
    unat g = unat (vt_generation v) + 1"
proof -
  let ?d2 = "run_mutations load_key cd S ms d1"
  obtain k x where k: "key_in d1 = Some k" and
    stored: "stored_payload cd uid k (dk_files d0 (path_for S uid)) = Inr (Some (SP_Live x (vt_generation v) (vt_record v)))"
    using load_ok [OF assms(1)] by blast
  note same = load_frame [OF assms(1,3)]
  from run_generations [OF assms(2,3) k stored [folded same]] obtain c where
    c: "stored_payload cd uid k (dk_files ?d2 (path_for S uid)) = Inr c" "key_in ?d2 = Some k"
      "dk_files ?d2 (path_for S uid) = dk_files d1 (path_for S uid) \<or> vt_generation v < generation_of c"
    by (auto simp: generation_of_def)
  have "key_in d3 = Some k"
    using preserves_mutation [OF assms(3), THEN preservesD, OF assms(6)] c(2) by simp
  with mutation_refines [OF assms(6,2,3)] assms(5) c(1) obtain p where
    p: "apply_mutation m c = Inr p" "g = payload_generation p" by auto
  have "generation_of c = vt_generation v"
    using assms(4)
  proof
    assume "m = MutReplace (vt_generation v) r'"
    with p(1) show ?thesis
      by (cases "(m, c)" rule: apply_mutation.cases) (auto simp: generation_of_def split: if_splits)
  next
    assume "m = MutDelete uid (Some (vt_generation v))"
    with p(1) show ?thesis
      by (cases "(m, c)" rule: apply_mutation.cases) (auto simp: generation_of_def split: if_splits)
  qed
  with c(3) same apply_mutation_generation [OF p(1)] p(2) show ?thesis by auto
qed

text \<open>What was saved is what a later load returns, whatever happened to other UIDs in between.\<close>

lemma save_load:
  assumes "save_with_generation load_key cd S r d = (d1, Inr g)"
    and "codec_faithful cd" and "key_apart key_path S"
    and "\<forall>m \<in> set ms. mutation_uid m \<noteq> tr_uid r"
    and "load_with_generation load_key cd S (tr_uid r) (run_mutations load_key cd S ms d1) = (d3, Inr v)"
  shows "v = \<lparr>vt_generation = g, vt_record = r\<rparr>"
proof -
  let ?d2 = "run_mutations load_key cd S ms d1"
  have run: "run_mutation load_key cd S (MutSave r) d = (d1, Inr g)" using assms(1) by simp
  from mutation_refines [OF run assms(2,3)] obtain k c p where
    k: "key_in d1 = Some k" and p: "apply_mutation (MutSave r) c = Inr p" "g = payload_generation p" and
    stored: "stored_payload cd (tr_uid r) k (dk_files d1 (path_for S (tr_uid r))) = Inr (Some p)"
    by auto
  have "p = SP_Live 1 g r"
    using p by (cases c) (auto simp: next_live_def result_simps)
  moreover have "dk_files ?d2 (path_for S (tr_uid r)) = dk_files d1 (path_for S (tr_uid r))"
    by (rule run_frame [OF assms(3,4)])
  moreover have "key_in ?d2 = Some k"
    using run_generations [OF assms(2,3) k stored] by blast
  ultimately show ?thesis
    using load_ok [OF assms(5)] stored by auto
qed

end

section \<open>Properties with the key file provider\<close>

text \<open>
  C12. Refinement of the template store: whatever system calls fail, a mutation either leaves the
  file of its UID as it was and reports an error, or it has moved the stored payload by exactly the
  abstract transition (create, compare-and-swap, tombstone, generation plus one); a returned
  generation is that of the new payload. No file of another UID changes, and the machine key stays.
\<close>

theorem store_mutation_refines:
  assumes "codec_faithful cd" and "key_apart (\<lambda>q. q = fkp_path P) S"
    and "run_mutation (file_load_key P) cd S m d = (d', r)" and "mutation_uid m = uid"
  shows "(dk_files d' (path_for S uid) = dk_files d (path_for S uid) \<and> is_err r \<or>
     (\<exists>k current p. file_key_in P d' = Some k \<and>
        stored_payload cd uid k (dk_files d (path_for S uid)) = Inr current \<and>
        apply_mutation m current = Inr p \<and>
        stored_payload cd uid k (dk_files d' (path_for S uid)) = Inr (Some p) \<and>
        (\<forall>g. r = Inr g \<longrightarrow> g = payload_generation p))) \<and>
    (\<forall>u. u \<noteq> uid \<longrightarrow> dk_files d' (path_for S u) = dk_files d (path_for S u)) \<and>
    (\<forall>k. file_key_in P d = Some k \<longrightarrow> file_key_in P d' = Some k)"
proof (intro conjI allI impI)
  show "file_key_in P d' = Some k" if "file_key_in P d = Some k" for k
    using file_key.preserves_mutation [OF assms(2), THEN preservesD, OF assms(3)] that by simp
  show "dk_files d' (path_for S u) = dk_files d (path_for S u)" if "u \<noteq> uid" for u
    using file_key.mutation_frame [OF assms(3,2)] that assms(4) by simp
qed (use file_key.mutation_refines [OF assms(3,1,2)] assms(4) in simp)

text \<open>
  C32. No ABA: when a template has been loaded with its generation, and any mutations follow, a
  replacement or deletion conditional on that generation succeeds only if the file of the UID is
  still byte for byte the one that was loaded; the new generation is the next one.
\<close>

theorem store_no_aba:
  assumes "codec_faithful cd" and "key_apart (\<lambda>q. q = fkp_path P) S"
    and "load_with_generation (file_load_key P) cd S uid d0 = (d1, Inr v)"
    and "m = MutReplace (vt_generation v) r' \<or> m = MutDelete uid (Some (vt_generation v))" and "mutation_uid m = uid"
    and "run_mutation (file_load_key P) cd S m (run_mutations (file_load_key P) cd S ms d1) = (d3, Inr g)"
  shows "dk_files (run_mutations (file_load_key P) cd S ms d1) (path_for S uid) = dk_files d0 (path_for S uid) \<and>
    unat g = unat (vt_generation v) + 1"
  by (rule file_key.conditional_mutation_current [OF assms(3,1,2,4,5,6)])

text \<open>
  C33. Round trip of the store: a load that follows a save of a template, with any mutations of other
  UIDs in between, returns that template with the generation the save reported.
\<close>

theorem store_roundtrip:
  assumes "codec_faithful cd" and "key_apart (\<lambda>q. q = fkp_path P) S"
    and "save_with_generation (file_load_key P) cd S r d = (d1, Inr g)"
    and "\<forall>m \<in> set ms. mutation_uid m \<noteq> tr_uid r"
    and "load_with_generation (file_load_key P) cd S (tr_uid r) (run_mutations (file_load_key P) cd S ms d1) = (d3, Inr v)"
  shows "v = \<lparr>vt_generation = g, vt_record = r\<rparr>"
  by (rule file_key.save_load [OF assms(3,1,2,4,5)])

lemma open_container_authentic:
  assumes "open_container cd uid k parts = Inr (SP_Live x g r)"
  shows "tr_uid r = uid \<and> record_validate r = Inr () \<and>
    (\<exists>plain. cd_decrypt cd k (fst parts) (snd parts) (associated_data uid) = Some plain)"
  using assms by (auto simp: open_container_def result_simps case_sum_eq split: if_splits)


section \<open>Examples\<close>

definition ex_record :: "fp list \<Rightarrow> TemplateRecord" where
  "ex_record e = \<lparr>tr_schema_version = 2, tr_uid = 7, tr_model_compatibility_sha256 = replicate 64 (CHR ''a''),
     tr_embedding = e\<rparr>"

definition ex_one :: TemplateRecord where
  "ex_one = ex_record [Finite 1]"

text \<open>A codec that handles two payloads: the identity with a tag of zeros.\<close>

definition ex_codec_store :: Codec where
  "ex_codec_store = \<lparr>cd_encrypt = (\<lambda>k n m a. Some (m @ replicate 16 0)),
     cd_decrypt = (\<lambda>k n c a. Some (take (length c - 16) c)),
     cd_to_json = (\<lambda>p. if p = SP_Live 1 1 ex_one then Inr [1] else if p = SP_Deleted 1 2 7 then Inr [2] else Inl 0),
     cd_payload_of_json = (\<lambda>b. if b = [1] then Inr (SP_Live 1 1 ex_one) else if b = [2] then Inr (SP_Deleted 1 2 7)
        else Inl 0),
     cd_record_of_json = (\<lambda>_. Inl 0)\<rparr>"

definition ex_store :: TemplateStore where
  "ex_store = template_store_new [''var'', ''t'']"

lemma ex_codec_faithful: "codec_faithful ex_codec_store"
  by (auto simp: codec_faithful_def ex_codec_store_def MAX_CIPHERTEXT_LENGTH_def)

lemma ex_apart: "key_apart (\<lambda>q. q = fkp_path ex_key_provider) ex_store"
  by (simp add: key_apart_def in_store_def ex_key_provider_def file_key_provider_new_def ex_store_def template_store_new_def)

lemma ex_one_valid: "record_validate ex_one = Inr ()"
proof -
  have "unit_norm [Finite 1]"
    using rnd_mono [of 0 "1 / 1000" F32] fp_lt_not_le [of "rnd F32 (1 / 1000)" "Finite 0"]
    by (cases "rnd F32 (1 / 1000)") (auto simp: unit_norm_def squared_norm_def rnd_1 fp_sqrt_1 fp_sub_def rnd_0 norm_tolerance_def
        simp del: fp_sqrt.simps)
  then show ?thesis
    by (simp add: record_validate_def ex_one_def ex_record_def FORMAT_VERSION_def MAX_EMBEDDING_DIMENSION_def
        is_ascii_hexdigit_def is_ascii_uppercase_def list_all_iff list_ex_iff)
qed

definition ex_store_disk :: Disk where
  "ex_store_disk = put_inode [''var'', ''t''] (Some (ex_directory\<lparr>fe_mode := 0x1C0\<rparr>)) ex_keyed_disk"

lemma ex_load_key_run [simp]:
  "dk_files d [] = Some ex_directory \<Longrightarrow> dk_files d [''var''] = Some ex_directory \<Longrightarrow>
   dk_files d [''var'', ''key''] =
     Some (ex_directory\<lparr>fe_kind := FkRegular, fe_mode := 0x180, in_bytes := replicate 32 5\<rparr>) \<Longrightarrow>
   dk_faults d = [] \<Longrightarrow> file_load_key ex_key_provider d = (d, Inr (replicate 32 5))"
  by (subst file_load_key.simps)
    (simp add: open_key_def read_key_file_def d_bind_def d_match_def d_map_err_def d_lift_def syscall_def sys_lstat_def
      sys_fstat_def open_read_nofollow_def sys_read_to_end_def path_parent_def verify_directory_key_def
      verify_directory_chain_def verify_replace_target_key_def verify_open_key_file_def mode_bits_def trust_root_def
      ex_directory_def ex_key_provider_def file_key_provider_new_def secret_key_from_slice_def KEY_LENGTH_def)

lemma ex_decimal [simp]: "decimal 7 = ''7''"
  by (simp add: decimal.simps) code_simp

lemma ex_one_uid [simp]: "tr_uid ex_one = 7"
  by (simp add: ex_one_def ex_record_def)

lemmas store_eval =
  save_with_generation_def ex_one_valid with_exclusive_uid_lock_def prepare_directory_storage_def
  read_optional_payload_def read_payload_def disk_eval ex_store_disk_def ex_keyed_disk_def ex_store_def
  template_store_new_def path_for_def lock_path_for_def write_payload_def next_generation_def checked_add_def
  STORED_PAYLOAD_SCHEMA_VERSION_def ex_codec_store_def ensure_def KEY_LENGTH_def atomic_write_def write_temporary_def
  temporary_for_def

definition ex_saved_disk :: Disk where
  "ex_saved_disk = fst (save_with_generation (file_load_key ex_key_provider) ex_codec_store ex_store ex_one ex_store_disk)"

lemma ex_saved:
  "save_with_generation (file_load_key ex_key_provider) ex_codec_store ex_store ex_one ex_store_disk = (ex_saved_disk, Inr 1)"
  by (simp add: ex_saved_disk_def store_eval)

lemma ex_parse [simp]: "length n = 24 \<Longrightarrow> length c \<le> 99 \<Longrightarrow> parse_container (container_bytes n c) = Inr (n, c)"
  by (rule parse_container_bytes) (simp_all add: NONCE_LENGTH_def MAX_CIPHERTEXT_LENGTH_def)

lemma ex_loaded:
  "load_with_generation (file_load_key ex_key_provider) ex_codec_store ex_store 7 ex_saved_disk =
     (ex_saved_disk, Inr \<lparr>vt_generation = 1, vt_record = ex_one\<rparr>)"
  by (simp add: ex_saved_disk_def load_with_generation_def store_eval open_container_def NONCE_LENGTH_def)

lemma ex_deleted:
  "snd (run_mutation (file_load_key ex_key_provider) ex_codec_store ex_store (MutDelete 7 (Some 1)) ex_saved_disk) = Inr 2"
  by (simp add: ex_saved_disk_def delete_if_generation_def delete_inner_def store_eval open_container_def
      NONCE_LENGTH_def live_generation_def)

lemma ex_deletion:
  "run_mutation (file_load_key ex_key_provider) ex_codec_store ex_store (MutDelete 7 (Some 1)) ex_saved_disk =
     (fst (run_mutation (file_load_key ex_key_provider) ex_codec_store ex_store (MutDelete 7 (Some 1)) ex_saved_disk), Inr 2)"
  by (metis ex_deleted prod.collapse)

theorem store_mutation_refines_witness:
  "\<exists>k. stored_payload ex_codec_store 7 k
     (dk_files (fst (run_mutation (file_load_key ex_key_provider) ex_codec_store ex_store (MutDelete 7 (Some 1)) ex_saved_disk))
       (path_for ex_store 7)) = Inr (Some (SP_Deleted 1 2 7))"
proof -
  from store_mutation_refines [OF ex_codec_faithful ex_apart ex_deletion, of 7]
  obtain k current p where
    p: "apply_mutation (MutDelete 7 (Some 1)) current = Inr p" and
    st: "stored_payload ex_codec_store 7 k (dk_files (fst (run_mutation (file_load_key ex_key_provider) ex_codec_store
        ex_store (MutDelete 7 (Some 1)) ex_saved_disk)) (path_for ex_store 7)) = Inr (Some p)"
    by auto
  from p have "p = SP_Deleted 1 2 7"
    by (cases "(MutDelete 7 (Some 1), current)" rule: apply_mutation.cases)
      (auto simp: next_generation_def checked_add_def split: if_splits)
  with st show ?thesis by blast
qed

theorem store_no_aba_witness:
  "\<exists>g. snd (run_mutation (file_load_key ex_key_provider) ex_codec_store ex_store (MutDelete 7 (Some 1)) ex_saved_disk) = Inr g \<and>
     unat g = 1 + 1"
proof -
  have "unat (2 :: u64) = unat (vt_generation \<lparr>vt_generation = 1, vt_record = ex_one\<rparr>) + 1"
    by (rule conjunct2, rule store_no_aba [where m = "MutDelete 7 (Some 1)" and ms = "[]", OF ex_codec_faithful ex_apart ex_loaded])
      (use ex_deletion in simp_all)
  with ex_deleted show ?thesis by simp
qed

theorem store_roundtrip_witness:
  "\<exists>v. snd (load_with_generation (file_load_key ex_key_provider) ex_codec_store ex_store 7 ex_saved_disk) = Inr v \<and>
     v = \<lparr>vt_generation = 1, vt_record = ex_one\<rparr>"
proof -
  have "\<lparr>vt_generation = 1, vt_record = ex_one\<rparr> = \<lparr>vt_generation = 1, vt_record = ex_one\<rparr>"
    by (rule store_roundtrip [where ms = "[]", OF ex_codec_faithful ex_apart ex_saved]) (use ex_loaded in simp_all)
  with ex_loaded show ?thesis by simp
qed


end
