(* ===== verification/Manifest.thy ===== *)
theory Manifest
  imports Ieee Prelude
begin

text \<open>
  Model manifests (\<open>crates/faceauth-model/src/lib.rs\<close>): the contracts of inputs, outputs, face
  crop, landmark measurement and face alignment, their validation, and the digest check of an
  artifact. The SPDX parser, serde's JSON and SHA-256 are parameters.
\<close>

section \<open>Contracts\<close>

definition MODEL_MANIFEST_SCHEMA_VERSION :: u16 where
  "MODEL_MANIFEST_SCHEMA_VERSION = 9"

definition MAX_ARTIFACT_LABEL_LENGTH :: nat where
  "MAX_ARTIFACT_LABEL_LENGTH = 128"

definition MAX_SOURCE_URL_LENGTH :: nat where
  "MAX_SOURCE_URL_LENGTH = 2048"

definition MAX_INPUT_DIMENSION :: u32 where
  "MAX_INPUT_DIMENSION = 4096"

definition MAX_OUTPUT_TENSORS :: nat where
  "MAX_OUTPUT_TENSORS = 8"

definition MAX_TENSOR_RANK :: nat where
  "MAX_TENSOR_RANK = 8"

definition MAX_TENSOR_ELEMENTS :: u64 where
  "MAX_TENSOR_ELEMENTS = 64 * 1024 * 1024"

definition MAX_TOTAL_OUTPUT_ELEMENTS :: u64 where
  "MAX_TOTAL_OUTPUT_ELEMENTS = 64 * 1024 * 1024"

definition MAX_FACE_DETECTION_CANDIDATES :: u32 where
  "MAX_FACE_DETECTION_CANDIDATES = 4096"

definition MIN_FACE_LANDMARKS :: u32 where
  "MIN_FACE_LANDMARKS = 5"

definition MAX_FACE_LANDMARKS :: u32 where
  "MAX_FACE_LANDMARKS = 512"

datatype ModelRole =
  RoleFaceDetector
| RoleFaceLandmarks
| RoleFaceEmbedding
| RolePassiveLivenessInfrared
| RolePassiveLivenessVisible
| RolePassiveLivenessFusion

datatype TensorLayout = Nchw | Nhwc

datatype ColorSpace = CsGrayscale | CsRgb | CsBgr

datatype TensorElementType = Float32

datatype ResizeFilter = BilinearHalfPixel

datatype OutputSemantic =
  SemFaceDetectionBoxes
| SemFaceDetectionScores
| SemFaceLandmarks
| SemFaceLandmarkConfidence
| SemFacePoseDegrees
| SemEyeOpenness
| SemEmbedding
| SemLiveProbability
| SemAuxiliary

datatype ModelError =
  ME_UnsupportedSchema u16 u16
| ME_InvalidLabel string
| ME_InvalidSourceUrl
| ME_InvalidLicenseExpression
| ME_InvalidSha256
| ME_InvalidInputDimensions
| ME_InvalidInputCount nat
| ME_InvalidChannelCount u8 u8
| ME_InvalidNormalization
| ME_InvalidAlignmentContract
| ME_InvalidFaceCropContract
| ME_InvalidLandmarkMeasurementContract
| ME_InvalidTensorName
| ME_DuplicateInputName string
| ME_InvalidFusionInputNames
| ME_InvalidOutputCount nat
| ME_InvalidTensorDimensions
| ME_DuplicateOutputName string
| ME_OutputSemanticMismatch
| ME_NotRegularFile
| ME_DigestMismatch string string
| ME_Io IoError
| ME_Serialization nat

definition valid_sha256 :: "string \<Rightarrow> bool" where
  "valid_sha256 s = lowercase_hex_64 s"

record FaceCropContract =
  fc_scale :: fp
  fc_center_offset_x :: fp
  fc_center_offset_y :: fp

definition face_crop_validate :: "FaceCropContract \<Rightarrow> ModelError + unit" where
  "face_crop_validate c =
     (if \<not> is_finite (fc_scale c) \<or> \<not> fp_in 1 3 (fc_scale c)
         \<or> \<not> is_finite (fc_center_offset_x c) \<or> \<not> is_finite (fc_center_offset_y c)
         \<or> \<not> fp_in (- (1 / 2)) (1 / 2) (fc_center_offset_x c)
         \<or> \<not> fp_in (- (1 / 2)) (1 / 2) (fc_center_offset_y c)
      then Inl ME_InvalidFaceCropContract else Inr ())"

record LandmarkMeasurementContract =
  lm_minimum_visible_confidence :: fp
  lm_maximum_absolute_yaw_degrees :: fp
  lm_maximum_absolute_pitch_degrees :: fp
  lm_maximum_absolute_roll_degrees :: fp

definition landmark_measurement_validate :: "LandmarkMeasurementContract \<Rightarrow> ModelError + unit" where
  "landmark_measurement_validate c =
     (if \<not> is_finite (lm_minimum_visible_confidence c) \<or> \<not> fp_in 0 1 (lm_minimum_visible_confidence c)
         \<or> \<not> is_finite (lm_maximum_absolute_yaw_degrees c) \<or> \<not> fp_in 1 90 (lm_maximum_absolute_yaw_degrees c)
         \<or> \<not> is_finite (lm_maximum_absolute_pitch_degrees c) \<or> \<not> fp_in 1 90 (lm_maximum_absolute_pitch_degrees c)
         \<or> \<not> is_finite (lm_maximum_absolute_roll_degrees c) \<or> \<not> fp_in 1 180 (lm_maximum_absolute_roll_degrees c)
      then Inl ME_InvalidLandmarkMeasurementContract else Inr ())"

record NormalizedPoint =
  np_x :: fp
  np_y :: fp

text \<open>The arrays of five landmarks are lists of length five.\<close>

record FaceAlignmentContract =
  fa_landmarks_compatibility_sha256 :: string
  fa_landmark_indices :: "u16 list"
  fa_reference_points :: "NormalizedPoint list"
  fa_maximum_normalized_residual :: fp

definition FACE_ALIGNMENT_LANDMARKS :: nat where
  "FACE_ALIGNMENT_LANDMARKS = 5"

definition alignment_arrays :: "FaceAlignmentContract \<Rightarrow> bool" where
  "alignment_arrays a \<longleftrightarrow> length (fa_landmark_indices a) = FACE_ALIGNMENT_LANDMARKS \<and>
     length (fa_reference_points a) = FACE_ALIGNMENT_LANDMARKS"

text \<open>\<open>Iterator::sum\<close> of single-precision values.\<close>

definition fp_sum32 :: "fp list \<Rightarrow> fp" where
  "fp_sum32 xs = fold (\<lambda>x s. fp_add F32 s x) xs (Finite 0)"

text \<open>The checked spread of the reference points around their mean.\<close>

definition reference_variance :: "NormalizedPoint list \<Rightarrow> fp option" where
  "reference_variance ps =
     (let cx = fp_div F32 (fp_sum32 (map np_x ps)) (Finite 5);
          cy = fp_div F32 (fp_sum32 (map np_y ps)) (Finite 5)
      in case try_fold (\<lambda>s p. let x = fp_sub F32 (np_x p) cx; y = fp_sub F32 (np_y p) cy;
                              s' = fp_fma F32 x x (fp_fma F32 y y s)
                          in if is_finite s' then Inr s' else Inl ()) (Finite 0) ps of
           Inl _ \<Rightarrow> None | Inr v \<Rightarrow> Some v)"

definition adjacent_equal :: "'a list \<Rightarrow> bool" where
  "adjacent_equal xs = list_ex (\<lambda>(a, b). a = b) (zip xs (tl xs))"

definition face_alignment_validate :: "FaceAlignmentContract \<Rightarrow> ModelError + unit" where
  "face_alignment_validate a =
     (if \<not> valid_sha256 (fa_landmarks_compatibility_sha256 a) then Inl ME_InvalidAlignmentContract
      else let sorted_indices = sort (fa_landmark_indices a) in
        if adjacent_equal sorted_indices
           \<or> list_ex (\<lambda>i. unat i \<ge> unat MAX_FACE_LANDMARKS) sorted_indices
           \<or> list_ex (\<lambda>p. \<not> is_finite (np_x p) \<or> \<not> is_finite (np_y p) \<or> \<not> fp_in 0 1 (np_x p) \<or> \<not> fp_in 0 1 (np_y p))
               (fa_reference_points a)
           \<or> \<not> is_finite (fa_maximum_normalized_residual a)
           \<or> \<not> (fp_le (rnd F32 (1 / 1000)) (fa_maximum_normalized_residual a) \<and>
                fp_le (fa_maximum_normalized_residual a) (Finite (1 / 4)))
        then Inl ME_InvalidAlignmentContract
        else (case reference_variance (fa_reference_points a) of
                None \<Rightarrow> Inl ME_InvalidAlignmentContract
              | Some v \<Rightarrow> if fp_le v (rnd F32 (1 / 1000000)) then Inl ME_InvalidAlignmentContract else Inr ()))"

record ChannelNormalization =
  cn_scale :: "fp list"
  cn_bias :: "fp list"

record InputContract =
  ic_name :: string
  ic_width :: u32
  ic_height :: u32
  ic_channels :: u8
  ic_layout :: TensorLayout
  ic_color_space :: ColorSpace
  ic_element_type :: TensorElementType
  ic_resize_filter :: ResizeFilter
  ic_normalization :: ChannelNormalization

definition input_dimensions :: "InputContract \<Rightarrow> u32 list" where
  "input_dimensions c = (case ic_layout c of
       Nchw \<Rightarrow> [1, ucast (ic_channels c), ic_height c, ic_width c]
     | Nhwc \<Rightarrow> [1, ic_height c, ic_width c, ucast (ic_channels c)])"

record OutputContract =
  oc_name :: string
  oc_dimensions :: "u32 list"
  oc_element_type :: TensorElementType
  oc_semantic :: OutputSemantic

record ModelManifest =
  mm_schema_version :: u16
  mm_name :: string
  mm_version :: string
  mm_role :: ModelRole
  mm_source_url :: string
  mm_license_spdx :: string
  mm_sha256 :: string
  mm_input :: InputContract
  mm_additional_inputs :: "InputContract list"
  mm_face_crop :: "FaceCropContract option"
  mm_landmark_measurement :: "LandmarkMeasurementContract option"
  mm_face_alignment :: "FaceAlignmentContract option"
  mm_outputs :: "OutputContract list"

section \<open>Validation\<close>

definition is_ascii_alphanumeric :: "char \<Rightarrow> bool" where
  "is_ascii_alphanumeric c = (let n = (of_char c :: nat) in
     48 \<le> n \<and> n \<le> 57 \<or> 65 \<le> n \<and> n \<le> 90 \<or> 97 \<le> n \<and> n \<le> 122)"

definition validate_label :: "string \<Rightarrow> string \<Rightarrow> ModelError + unit" where
  "validate_label field v =
     (if v = [] \<or> length v > MAX_ARTIFACT_LABEL_LENGTH
         \<or> \<not> list_all (\<lambda>c. is_ascii_alphanumeric c \<or> c \<in> set ''._+-'') v
      then Inl (ME_InvalidLabel field) else Inr ())"

definition validate_tensor_name :: "string \<Rightarrow> ModelError + unit" where
  "validate_tensor_name v =
     (if v = [] \<or> length v > MAX_ARTIFACT_LABEL_LENGTH
         \<or> \<not> list_all (\<lambda>c. is_ascii_alphanumeric c \<or> c \<in> set ''._+-/:'') v
      then Inl ME_InvalidTensorName else Inr ())"

definition dimension_product :: "u32 list \<Rightarrow> ModelError + u64" where
  "dimension_product ds =
     try_fold (\<lambda>p d. ok_or (checked_mul p (ucast d)) ME_InvalidTensorDimensions) 1 ds"

definition validate_dimensions :: "u32 list \<Rightarrow> ModelError + unit" where
  "validate_dimensions ds =
     (if ds = [] \<or> length ds > MAX_TENSOR_RANK \<or> 0 \<in> set ds then Inl ME_InvalidTensorDimensions
      else try_bind (dimension_product ds) (\<lambda>p.
        if p > MAX_TENSOR_ELEMENTS then Inl ME_InvalidTensorDimensions else Inr ()))"

definition expected_channels :: "ColorSpace \<Rightarrow> u8" where
  "expected_channels cs = (case cs of CsGrayscale \<Rightarrow> 1 | CsRgb \<Rightarrow> 3 | CsBgr \<Rightarrow> 3)"

definition validate_input_contract :: "InputContract \<Rightarrow> ModelError + unit" where
  "validate_input_contract c =
     try_bind (validate_tensor_name (ic_name c)) (\<lambda>_.
     if ic_width c = 0 \<or> ic_height c = 0 \<or> ic_width c > MAX_INPUT_DIMENSION \<or> ic_height c > MAX_INPUT_DIMENSION
     then Inl ME_InvalidInputDimensions
     else if ic_channels c \<noteq> expected_channels (ic_color_space c)
     then Inl (ME_InvalidChannelCount (expected_channels (ic_color_space c)) (ic_channels c))
     else if length (cn_scale (ic_normalization c)) \<noteq> unat (ic_channels c)
         \<or> length (cn_bias (ic_normalization c)) \<noteq> unat (ic_channels c)
         \<or> list_ex (\<lambda>v. \<not> is_finite v \<or> fp_eq v (Finite 0)) (cn_scale (ic_normalization c))
         \<or> list_ex (\<lambda>v. \<not> is_finite v) (cn_bias (ic_normalization c))
     then Inl ME_InvalidNormalization
     else validate_dimensions (input_dimensions c))"

definition unique_semantic_output :: "OutputContract list \<Rightarrow> OutputSemantic \<Rightarrow> ModelError + OutputContract" where
  "unique_semantic_output os sem =
     (case filter (\<lambda>o'. oc_semantic o' = sem) os of
        [] \<Rightarrow> Inl ME_OutputSemanticMismatch
      | [o'] \<Rightarrow> Inr o'
      | _ \<Rightarrow> Inl ME_OutputSemanticMismatch)"

definition semantic_count :: "OutputContract list \<Rightarrow> OutputSemantic \<Rightarrow> nat" where
  "semantic_count os sem = length (filter (\<lambda>o'. oc_semantic o' = sem) os)"

definition detector_and_landmark_semantics_absent :: "OutputContract list \<Rightarrow> bool" where
  "detector_and_landmark_semantics_absent os = list_all (\<lambda>o'. oc_semantic o' \<notin>
     {SemFaceDetectionBoxes, SemFaceDetectionScores, SemFaceLandmarks, SemFaceLandmarkConfidence,
      SemFacePoseDegrees, SemEyeOpenness}) os"

definition validate_face_detector_outputs :: "OutputContract list \<Rightarrow> ModelError + unit" where
  "validate_face_detector_outputs os =
     (if length os \<noteq> 2 then Inl ME_OutputSemanticMismatch
      else try_bind (unique_semantic_output os SemFaceDetectionBoxes) (\<lambda>boxes.
           try_bind (unique_semantic_output os SemFaceDetectionScores) (\<lambda>scores.
           case oc_dimensions boxes of
             [a, candidates, b] \<Rightarrow>
               if a \<noteq> 1 \<or> b \<noteq> 4 then Inl ME_OutputSemanticMismatch
               else (case oc_dimensions scores of
                       [c, score_count] \<Rightarrow>
                         if c \<noteq> 1 then Inl ME_OutputSemanticMismatch
                         else if candidates \<noteq> score_count \<or> \<not> in_range 1 MAX_FACE_DETECTION_CANDIDATES candidates
                         then Inl ME_OutputSemanticMismatch else Inr ()
                     | _ \<Rightarrow> Inl ME_OutputSemanticMismatch)
           | _ \<Rightarrow> Inl ME_OutputSemanticMismatch)))"

definition validate_face_landmark_outputs :: "OutputContract list \<Rightarrow> ModelError + unit" where
  "validate_face_landmark_outputs os =
     (if length os \<noteq> 4 then Inl ME_OutputSemanticMismatch
      else try_bind (unique_semantic_output os SemFaceLandmarks) (\<lambda>landmarks.
           try_bind (unique_semantic_output os SemFaceLandmarkConfidence) (\<lambda>confidence.
           try_bind (unique_semantic_output os SemFacePoseDegrees) (\<lambda>pose.
           try_bind (unique_semantic_output os SemEyeOpenness) (\<lambda>eyes.
           case oc_dimensions landmarks of
             [a, count, b] \<Rightarrow>
               if a \<noteq> 1 \<or> b \<noteq> 2 then Inl ME_OutputSemanticMismatch
               else if \<not> in_range MIN_FACE_LANDMARKS MAX_FACE_LANDMARKS count then Inl ME_OutputSemanticMismatch
               else if oc_dimensions confidence \<noteq> [1, count] \<or> oc_dimensions pose \<noteq> [1, 3]
                       \<or> oc_dimensions eyes \<noteq> [1, 2]
               then Inl ME_OutputSemanticMismatch else Inr ()
           | _ \<Rightarrow> Inl ME_OutputSemanticMismatch)))))"

definition role_outputs :: "ModelRole \<Rightarrow> OutputContract list \<Rightarrow> ModelError + unit" where
  "role_outputs role os =
     (case role of
        RoleFaceDetector \<Rightarrow> validate_face_detector_outputs os
      | RoleFaceLandmarks \<Rightarrow> validate_face_landmark_outputs os
      | RoleFaceEmbedding \<Rightarrow>
          if semantic_count os SemEmbedding = 1 \<and> semantic_count os SemLiveProbability = 0
             \<and> detector_and_landmark_semantics_absent os
          then Inr () else Inl ME_OutputSemanticMismatch
      | _ \<Rightarrow>
          if semantic_count os SemLiveProbability = 1 \<and> semantic_count os SemEmbedding = 0
             \<and> detector_and_landmark_semantics_absent os
          then Inr () else Inl ME_OutputSemanticMismatch)"

definition embedding_shape :: "u32 list \<Rightarrow> bool" where
  "embedding_shape ds = (case ds of
       [n] \<Rightarrow> 32 \<le> n \<and> n \<le> 4096
     | [a, n] \<Rightarrow> a = 1 \<and> 32 \<le> n \<and> n \<le> 4096
     | _ \<Rightarrow> False)"

definition output_shape :: "OutputContract \<Rightarrow> ModelError + unit" where
  "output_shape o' =
     (case oc_semantic o' of
        SemEmbedding \<Rightarrow>
          try_bind (dimension_product (oc_dimensions o')) (\<lambda>elements.
            if \<not> embedding_shape (oc_dimensions o') \<or> \<not> in_range 32 4096 elements
            then Inl ME_OutputSemanticMismatch else Inr ())
      | SemLiveProbability \<Rightarrow>
          try_bind (dimension_product (oc_dimensions o')) (\<lambda>elements.
            if elements \<noteq> 1 then Inl ME_OutputSemanticMismatch else Inr ())
      | _ \<Rightarrow> Inr ())"

definition validate_output_semantics :: "ModelRole \<Rightarrow> OutputContract list \<Rightarrow> ModelError + unit" where
  "validate_output_semantics role os =
     try_bind (role_outputs role os) (\<lambda>_. try_fold (\<lambda>_ o'. output_shape o') () os)"

definition input_step :: "string list \<Rightarrow> InputContract \<Rightarrow> ModelError + string list" where
  "input_step names c =
     try_bind (validate_input_contract c) (\<lambda>_.
       if ic_name c \<in> set names then Inl (ME_DuplicateInputName (ic_name c)) else Inr (names @ [ic_name c]))"

definition output_step :: "OutputContract list \<times> u64 \<Rightarrow> OutputContract \<Rightarrow> ModelError + OutputContract list \<times> u64" where
  "output_step s o' =
     try_bind (validate_tensor_name (oc_name o')) (\<lambda>_.
     try_bind (validate_dimensions (oc_dimensions o')) (\<lambda>_.
     try_bind (dimension_product (oc_dimensions o')) (\<lambda>elements.
     try_bind (ok_or (checked_add (snd s) elements) ME_InvalidTensorDimensions) (\<lambda>total.
     if total > MAX_TOTAL_OUTPUT_ELEMENTS then Inl ME_InvalidTensorDimensions
     else if list_ex (\<lambda>e. oc_name e = oc_name o') (fst s) then Inl (ME_DuplicateOutputName (oc_name o'))
     else Inr (fst s @ [o'], total)))))"

definition validate_inputs :: "ModelManifest \<Rightarrow> ModelError + unit" where
  "validate_inputs m =
     try_bind
       (if mm_role m = RolePassiveLivenessFusion
        then if length (mm_additional_inputs m) \<noteq> 1
             then Inl (ME_InvalidInputCount (1 + length (mm_additional_inputs m)))
             else if ic_name (mm_input m) \<noteq> ''infrared'' \<or> ic_name (hd (mm_additional_inputs m)) \<noteq> ''visible''
             then Inl ME_InvalidFusionInputNames else Inr ()
        else if mm_additional_inputs m \<noteq> []
        then Inl (ME_InvalidInputCount (1 + length (mm_additional_inputs m))) else Inr ())
     (\<lambda>_. try_bind (try_fold input_step [] (mm_input m # mm_additional_inputs m)) (\<lambda>_. Inr ()))"

definition validate_role_contracts :: "ModelManifest \<Rightarrow> ModelError + unit" where
  "validate_role_contracts m =
     try_bind (case (mm_role m = RoleFaceEmbedding, mm_face_alignment m) of
         (True, Some a) \<Rightarrow> face_alignment_validate a
       | (True, None) \<Rightarrow> Inl ME_InvalidAlignmentContract
       | (False, None) \<Rightarrow> Inr ()
       | (False, Some _) \<Rightarrow> Inl ME_InvalidAlignmentContract) (\<lambda>_.
     try_bind (case (mm_role m = RoleFaceLandmarks, mm_face_crop m) of
         (True, Some c) \<Rightarrow> face_crop_validate c
       | (True, None) \<Rightarrow> Inl ME_InvalidFaceCropContract
       | (False, Some _) \<Rightarrow> Inl ME_InvalidFaceCropContract
       | (False, None) \<Rightarrow> Inr ()) (\<lambda>_.
     case (mm_role m = RoleFaceLandmarks, mm_landmark_measurement m) of
         (True, Some c) \<Rightarrow> landmark_measurement_validate c
       | (True, None) \<Rightarrow> Inl ME_InvalidLandmarkMeasurementContract
       | (False, Some _) \<Rightarrow> Inl ME_InvalidLandmarkMeasurementContract
       | (False, None) \<Rightarrow> Inr ()))"

definition manifest_validate :: "(string \<Rightarrow> bool) \<Rightarrow> ModelManifest \<Rightarrow> ModelError + unit" where
  "manifest_validate spdx_valid m =
     (if mm_schema_version m \<noteq> MODEL_MANIFEST_SCHEMA_VERSION
      then Inl (ME_UnsupportedSchema (mm_schema_version m) MODEL_MANIFEST_SCHEMA_VERSION)
      else try_bind (validate_label ''name'' (mm_name m)) (\<lambda>_.
           try_bind (validate_label ''version'' (mm_version m)) (\<lambda>_.
           if length (mm_source_url m) > MAX_SOURCE_URL_LENGTH \<or> strip_prefix ''https://'' (mm_source_url m) = None
           then Inl ME_InvalidSourceUrl
           else if \<not> spdx_valid (mm_license_spdx m) then Inl ME_InvalidLicenseExpression
           else if \<not> valid_sha256 (mm_sha256 m) then Inl ME_InvalidSha256
           else
           try_bind (validate_inputs m) (\<lambda>_.
           try_bind (validate_role_contracts m) (\<lambda>_.
           if mm_outputs m = [] \<or> length (mm_outputs m) > MAX_OUTPUT_TENSORS
           then Inl (ME_InvalidOutputCount (length (mm_outputs m)))
           else
           try_bind (try_fold output_step ([], 0) (mm_outputs m)) (\<lambda>_.
           validate_output_semantics (mm_role m) (mm_outputs m)))))))"

section \<open>Digests\<close>

definition hex_digit :: "nat \<Rightarrow> char" where
  "hex_digit n = ''0123456789abcdef'' ! n"

definition hex_lower :: "u8 list \<Rightarrow> string" where
  "hex_lower bytes = concat (map (\<lambda>b. [hex_digit (unat (drop_bit 4 b)), hex_digit (unat (b AND 0x0F))]) bytes)"

text \<open>\<open>faceauth-model-compatibility-v1\<close> with its terminating zero, before the JSON encoding.\<close>

definition compatibility_domain :: "u8 list" where
  "compatibility_domain = map (\<lambda>c. word_of_nat (of_char c)) ''faceauth-model-compatibility-v1'' @ [0]"

definition manifest_compatibility ::
  "(string \<Rightarrow> bool) \<Rightarrow> (ModelManifest \<Rightarrow> nat + u8 list) \<Rightarrow> (u8 list \<Rightarrow> u8 list) \<Rightarrow> ModelManifest \<Rightarrow> ModelError + string" where
  "manifest_compatibility spdx_valid json sha256 m =
     try_bind (manifest_validate spdx_valid m) (\<lambda>_.
     try_bind (map_err ME_Serialization (json m)) (\<lambda>encoded.
     Inr (hex_lower (sha256 (compatibility_domain @ encoded)))))"

text \<open>
  The read loop: the chunks a reader returns until its end (an empty chunk), or its error; the
  hasher absorbs them in order.
\<close>

fun read_chunks :: "(IoError + u8 list) list \<Rightarrow> u8 list \<Rightarrow> ModelError + u8 list" where
  "read_chunks [] acc = Inr acc"
| "read_chunks (Inl e # cs) acc = Inl (ME_Io e)"
| "read_chunks (Inr c # cs) acc = (if c = [] then Inr acc else read_chunks cs (acc @ c))"

definition verify_reader ::
  "(u8 list \<Rightarrow> u8 list) \<Rightarrow> ModelManifest \<Rightarrow> (IoError + u8 list) list \<Rightarrow> ModelError + unit" where
  "verify_reader sha256 m chunks =
     try_bind (read_chunks chunks []) (\<lambda>bytes.
       if hex_lower (sha256 bytes) \<noteq> mm_sha256 m
       then Inl (ME_DigestMismatch (mm_sha256 m) (hex_lower (sha256 bytes))) else Inr ())"

text \<open>\<open>verify_file\<close>: the results of opening and of asking for the metadata (is it a regular file?).\<close>

definition verify_file ::
  "(string \<Rightarrow> bool) \<Rightarrow> (u8 list \<Rightarrow> u8 list) \<Rightarrow> ModelManifest \<Rightarrow> IoError + unit \<Rightarrow> IoError + bool \<Rightarrow>
   (IoError + u8 list) list \<Rightarrow> ModelError + unit" where
  "verify_file spdx_valid sha256 m opened metadata chunks =
     try_bind (manifest_validate spdx_valid m) (\<lambda>_.
     try_bind (map_err ME_Io opened) (\<lambda>_.
     try_bind (map_err ME_Io metadata) (\<lambda>regular.
     if \<not> regular then Inl ME_NotRegularFile else verify_reader sha256 m chunks)))"

section \<open>What validation establishes\<close>

text \<open>The number of elements of a shape, without a bound.\<close>

definition shape_size :: "u32 list \<Rightarrow> nat" where
  "shape_size ds = prod_list (map unat ds)"

lemma unat_u64_of_u32 [simp]: "unat (ucast (d :: u32) :: u64) = unat d"
  using unsigned_less [of d, where ?'a = nat] by (simp add: unsigned_ucast_eq take_bit_nat_eq_self)

lemma dimension_product_from:
  "try_fold (\<lambda>p d. ok_or (checked_mul p (ucast d)) ME_InvalidTensorDimensions) (a :: u64) ds = Inr p \<Longrightarrow>
   unat p = unat a * shape_size ds"
proof (induction ds arbitrary: a)
  case Nil
  then show ?case by (simp add: shape_size_def)
next
  case (Cons d ds)
  then obtain b where b: "checked_mul a (ucast d) = Some b"
    and "try_fold (\<lambda>p d. ok_or (checked_mul p (ucast d)) ME_InvalidTensorDimensions) b ds = Inr p"
    by (auto simp: result_simps)
  with Cons.IH [of b] show ?case
    by (auto simp: checked_simps unat_mul_lt shape_size_def mult.assoc)
qed

lemma dimension_product_exact: "dimension_product ds = Inr p \<Longrightarrow> unat p = shape_size ds"
  using dimension_product_from [of 1 ds p] by (simp add: dimension_product_def)

lemma validate_dimensions_ok:
  assumes "validate_dimensions ds = Inr ()"
  shows "ds \<noteq> [] \<and> 0 \<notin> set ds \<and> shape_size ds \<le> 67108864"
  using assms
  by (auto simp: validate_dimensions_def result_simps MAX_TENSOR_ELEMENTS_def word_le_nat_alt not_less
      dest!: dimension_product_exact split: if_splits)

lemma unique_semantic_output_ok:
  "unique_semantic_output os sem = Inr o' \<longleftrightarrow> filter (\<lambda>x. oc_semantic x = sem) os = [o']"
  by (auto simp: unique_semantic_output_def split: list.splits)

lemma semantic_count_unique:
  "semantic_count os sem = 1 \<Longrightarrow> \<exists>o'. unique_semantic_output os sem = Inr o' \<and> o' \<in> set os \<and> oc_semantic o' = sem"
proof -
  assume "semantic_count os sem = 1"
  then obtain o' where o': "filter (\<lambda>x. oc_semantic x = sem) os = [o']"
    by (auto simp: semantic_count_def length_Suc_conv)
  then have "o' \<in> set os \<and> oc_semantic o' = sem"
    by (auto simp: filter_eq_Cons_iff)
  with o' show ?thesis by (auto simp: unique_semantic_output_ok)
qed

definition outputs_inv :: "OutputContract list \<times> u64 \<Rightarrow> bool" where
  "outputs_inv s \<longleftrightarrow> distinct (map oc_name (fst s)) \<and>
     unat (snd s) = sum_list (map (shape_size \<circ> oc_dimensions) (fst s)) \<and> unat (snd s) \<le> 67108864"

lemma output_step_inv:
  assumes "outputs_inv s" and "output_step s o' = Inr t"
  shows "outputs_inv t \<and> fst t = fst s @ [o']"
proof -
  from assms(2) obtain elements where
    "dimension_product (oc_dimensions o') = Inr elements" "checked_add (snd s) elements = Some (snd t)"
    "\<not> snd t > MAX_TOTAL_OUTPUT_ELEMENTS" "\<forall>e \<in> set (fst s). oc_name e \<noteq> oc_name o'" "fst t = fst s @ [o']"
    by (auto simp: output_step_def result_simps list_ex_iff split: if_splits)
  with assms(1) checked_add_unat [of "snd s" elements "snd t"] show ?thesis
    by (auto simp: outputs_inv_def dimension_product_exact MAX_TOTAL_OUTPUT_ELEMENTS_def word_le_nat_alt not_less)
qed

lemma output_steps:
  "try_fold output_step s os = Inr t \<Longrightarrow> outputs_inv s \<Longrightarrow> outputs_inv t \<and> fst t = fst s @ os"
proof (induction os arbitrary: s)
  case Nil
  then show ?case by simp
next
  case (Cons o' os)
  then obtain s' where s': "output_step s o' = Inr s'" "try_fold output_step s' os = Inr t"
    by (auto simp: result_simps)
  with Cons output_step_inv [of s o' s'] show ?case by auto
qed

lemma try_fold_each: "try_fold (\<lambda>_ x. f x) () xs = Inr () \<Longrightarrow> x \<in> set xs \<Longrightarrow> f x = Inr ()"
  by (induction xs) (auto simp: result_simps)

lemma input_steps_valid:
  "try_fold input_step names cs = Inr t \<Longrightarrow> c \<in> set cs \<Longrightarrow> validate_input_contract c = Inr ()"
  by (induction cs arbitrary: names) (auto simp: result_simps input_step_def split: if_splits)

lemma manifest_validate_ok:
  assumes "manifest_validate spdx_valid m = Inr ()"
  shows "\<exists>names s. try_fold input_step [] (mm_input m # mm_additional_inputs m) = Inr names \<and>
    try_fold output_step ([], 0) (mm_outputs m) = Inr s \<and> length (mm_outputs m) \<le> 8 \<and>
    validate_role_contracts m = Inr () \<and> role_outputs (mm_role m) (mm_outputs m) = Inr () \<and>
    (\<forall>o' \<in> set (mm_outputs m). output_shape o' = Inr ())"
proof -
  from assms obtain names s where
    "try_fold input_step [] (mm_input m # mm_additional_inputs m) = Inr names"
    "try_fold output_step ([], 0) (mm_outputs m) = Inr s" "length (mm_outputs m) \<le> 8"
    "validate_role_contracts m = Inr ()" "role_outputs (mm_role m) (mm_outputs m) = Inr ()"
    "try_fold (\<lambda>_ o'. output_shape o') () (mm_outputs m) = Inr ()"
    by (auto simp: manifest_validate_def validate_inputs_def validate_output_semantics_def MAX_OUTPUT_TENSORS_def
        result_simps split: if_splits)
  then show ?thesis using try_fold_each [of output_shape "mm_outputs m"] by blast
qed

text \<open>
  Bounded resources: a validated manifest declares at most eight outputs with distinct names and
  at most 64 Mi elements in all (counted without overflow), and inputs of at most 4096 by 4096
  pixels, one or three channels as the color space has them, at most 64 Mi elements, and one finite
  non-zero scale per channel.
\<close>

theorem manifest_resources_bounded:
  assumes "manifest_validate spdx_valid m = Inr ()"
  shows "length (mm_outputs m) \<le> 8 \<and> distinct (map oc_name (mm_outputs m)) \<and>
    sum_list (map (shape_size \<circ> oc_dimensions) (mm_outputs m)) \<le> 64 * 1024 * 1024 \<and>
    (\<forall>c \<in> set (mm_input m # mm_additional_inputs m).
       0 < ic_width c \<and> ic_width c \<le> 4096 \<and> 0 < ic_height c \<and> ic_height c \<le> 4096 \<and>
       ic_channels c = expected_channels (ic_color_space c) \<and> shape_size (input_dimensions c) \<le> 64 * 1024 * 1024 \<and>
       length (cn_scale (ic_normalization c)) = unat (ic_channels c) \<and>
       (\<forall>v \<in> set (cn_scale (ic_normalization c)). is_finite v \<and> v \<noteq> Finite 0))"
proof -
  from manifest_validate_ok [OF assms] obtain names s where
    inputs: "try_fold input_step [] (mm_input m # mm_additional_inputs m) = Inr names" and
    outputs: "try_fold output_step ([], 0) (mm_outputs m) = Inr s" and count: "length (mm_outputs m) \<le> 8"
    by blast
  have "outputs_inv ([], 0)" by (simp add: outputs_inv_def)
  with output_steps [OF outputs] have "outputs_inv s" "fst s = mm_outputs m" by simp_all
  then have "distinct (map oc_name (mm_outputs m))"
    "sum_list (map (shape_size \<circ> oc_dimensions) (mm_outputs m)) \<le> 64 * 1024 * 1024"
    by (simp_all add: outputs_inv_def)
  moreover have "0 < ic_width c \<and> ic_width c \<le> 4096 \<and> 0 < ic_height c \<and> ic_height c \<le> 4096 \<and>
      ic_channels c = expected_channels (ic_color_space c) \<and> shape_size (input_dimensions c) \<le> 64 * 1024 * 1024 \<and>
      length (cn_scale (ic_normalization c)) = unat (ic_channels c) \<and>
      (\<forall>v \<in> set (cn_scale (ic_normalization c)). is_finite v \<and> v \<noteq> Finite 0)"
    if "c \<in> set (mm_input m # mm_additional_inputs m)" for c
    using input_steps_valid [OF inputs that]
    by (auto simp: validate_input_contract_def result_simps MAX_INPUT_DIMENSION_def list_ex_iff not_less
        word_gt_0 fp_eq_def dest!: validate_dimensions_ok split: if_splits)
  ultimately show ?thesis using count by blast
qed

text \<open>Slice patterns of three, two and one elements with a \<open>let else\<close>.\<close>

lemma shape_pattern_ok:
  "(case xs of [a, n, b] \<Rightarrow> f a n b | _ \<Rightarrow> Inl e) = Inr z \<longleftrightarrow> (\<exists>a n b. xs = [a, n, b] \<and> f a n b = Inr z)"
  "(case xs of [a, n] \<Rightarrow> g a n | _ \<Rightarrow> Inl e) = Inr z \<longleftrightarrow> (\<exists>a n. xs = [a, n] \<and> g a n = Inr z)"
  "(case xs of [a] \<Rightarrow> h a | _ \<Rightarrow> Inl e) = Inr z \<longleftrightarrow> (\<exists>a. xs = [a] \<and> h a = Inr z)"
  by (auto split: list.splits)

lemma detector_outputs_ok:
  assumes "validate_face_detector_outputs os = Inr ()"
  shows "\<exists>boxes scores n. unique_semantic_output os SemFaceDetectionBoxes = Inr boxes \<and>
    unique_semantic_output os SemFaceDetectionScores = Inr scores \<and>
    oc_dimensions boxes = [1, n, 4] \<and> oc_dimensions scores = [1, n] \<and> 1 \<le> n \<and> n \<le> 4096"
  using assms
  by (auto simp: validate_face_detector_outputs_def result_simps shape_pattern_ok in_range_def
      MAX_FACE_DETECTION_CANDIDATES_def split: if_splits)

lemma landmark_outputs_ok:
  assumes "validate_face_landmark_outputs os = Inr ()"
  shows "\<exists>points confidence pose eyes n. unique_semantic_output os SemFaceLandmarks = Inr points \<and>
    unique_semantic_output os SemFaceLandmarkConfidence = Inr confidence \<and>
    unique_semantic_output os SemFacePoseDegrees = Inr pose \<and>
    unique_semantic_output os SemEyeOpenness = Inr eyes \<and>
    oc_dimensions points = [1, n, 2] \<and> oc_dimensions confidence = [1, n] \<and> oc_dimensions pose = [1, 3] \<and>
    oc_dimensions eyes = [1, 2] \<and> 5 \<le> n \<and> n \<le> 512"
  using assms
  by (auto simp: validate_face_landmark_outputs_def result_simps shape_pattern_ok in_range_def
      MIN_FACE_LANDMARKS_def MAX_FACE_LANDMARKS_def split: if_splits)

lemma embedding_output_ok:
  assumes "output_shape o' = Inr ()" and "oc_semantic o' = SemEmbedding"
  shows "32 \<le> shape_size (oc_dimensions o') \<and> shape_size (oc_dimensions o') \<le> 4096"
  using assms
  by (auto simp: output_shape_def result_simps in_range_def word_le_nat_alt dest!: dimension_product_exact
      split: if_splits)

lemma probability_output_ok:
  assumes "output_shape o' = Inr ()" and "oc_semantic o' = SemLiveProbability"
  shows "shape_size (oc_dimensions o') = 1"
  using assms
  by (auto simp: output_shape_def result_simps dest!: dimension_product_exact split: if_splits)

text \<open>
  What a graph of each role declares: a detector exactly its boxes and scores over the same
  candidates, a landmark model its four outputs over the same points with a crop and a measurement
  contract, an embedding model one vector of 32 to 4096 elements with an alignment contract, and a
  liveness model one probability.
\<close>

definition role_contract :: "ModelManifest \<Rightarrow> bool" where
  "role_contract m = (case mm_role m of
       RoleFaceDetector \<Rightarrow> \<exists>boxes scores n.
         unique_semantic_output (mm_outputs m) SemFaceDetectionBoxes = Inr boxes \<and>
         unique_semantic_output (mm_outputs m) SemFaceDetectionScores = Inr scores \<and>
         oc_dimensions boxes = [1, n, 4] \<and> oc_dimensions scores = [1, n] \<and> 1 \<le> n \<and> n \<le> 4096
     | RoleFaceLandmarks \<Rightarrow> (\<exists>points confidence pose eyes n.
         unique_semantic_output (mm_outputs m) SemFaceLandmarks = Inr points \<and>
         unique_semantic_output (mm_outputs m) SemFaceLandmarkConfidence = Inr confidence \<and>
         unique_semantic_output (mm_outputs m) SemFacePoseDegrees = Inr pose \<and>
         unique_semantic_output (mm_outputs m) SemEyeOpenness = Inr eyes \<and>
         oc_dimensions points = [1, n, 2] \<and> oc_dimensions confidence = [1, n] \<and> oc_dimensions pose = [1, 3] \<and>
         oc_dimensions eyes = [1, 2] \<and> 5 \<le> n \<and> n \<le> 512) \<and>
         (\<exists>c. mm_face_crop m = Some c \<and> face_crop_validate c = Inr ()) \<and>
         (\<exists>c. mm_landmark_measurement m = Some c \<and> landmark_measurement_validate c = Inr ())
     | RoleFaceEmbedding \<Rightarrow> (\<exists>o'. unique_semantic_output (mm_outputs m) SemEmbedding = Inr o' \<and>
         32 \<le> shape_size (oc_dimensions o') \<and> shape_size (oc_dimensions o') \<le> 4096) \<and>
         (\<exists>a. mm_face_alignment m = Some a \<and> face_alignment_validate a = Inr ())
     | _ \<Rightarrow> \<exists>o'. unique_semantic_output (mm_outputs m) SemLiveProbability = Inr o' \<and> shape_size (oc_dimensions o') = 1)"

text \<open>
  Role contracts: a validated manifest declares exactly the outputs and contracts that the
  extraction and preprocessing of its role use.
\<close>

theorem manifest_role_contract:
  assumes "manifest_validate spdx_valid m = Inr ()"
  shows "role_contract m"
proof -
  from manifest_validate_ok [OF assms] have
    contracts: "validate_role_contracts m = Inr ()" and roles: "role_outputs (mm_role m) (mm_outputs m) = Inr ()" and
    shapes: "\<And>o'. o' \<in> set (mm_outputs m) \<Longrightarrow> output_shape o' = Inr ()"
    by auto
  note unique = semantic_count_unique [of "mm_outputs m"]
  show ?thesis
  proof (cases "mm_role m")
    case RoleFaceDetector
    with roles detector_outputs_ok show ?thesis by (simp add: role_contract_def role_outputs_def)
  next
    case RoleFaceLandmarks
    with roles contracts landmark_outputs_ok [of "mm_outputs m"] show ?thesis
      by (auto simp: role_contract_def role_outputs_def validate_role_contracts_def result_simps split: option.splits)
  next
    case RoleFaceEmbedding
    with roles obtain o' where "unique_semantic_output (mm_outputs m) SemEmbedding = Inr o'"
      "o' \<in> set (mm_outputs m)" "oc_semantic o' = SemEmbedding"
      using unique [of SemEmbedding] by (auto simp: role_outputs_def split: if_splits)
    with RoleFaceEmbedding contracts shapes embedding_output_ok show ?thesis
      by (auto simp: role_contract_def validate_role_contracts_def result_simps split: option.splits)
  qed (use roles unique [of SemLiveProbability] shapes probability_output_ok in
      \<open>fastforce simp: role_contract_def role_outputs_def split: if_splits\<close>)+
qed

section \<open>Examples\<close>

definition ex_input :: InputContract where
  "ex_input = \<lparr>ic_name = ''image'', ic_width = 4, ic_height = 2, ic_channels = 1, ic_layout = Nchw,
     ic_color_space = CsGrayscale, ic_element_type = Float32, ic_resize_filter = BilinearHalfPixel,
     ic_normalization = \<lparr>cn_scale = [Finite 1], cn_bias = [Finite 0]\<rparr>\<rparr>"

definition ex_manifest :: ModelManifest where
  "ex_manifest = \<lparr>mm_schema_version = 9, mm_name = ''m'', mm_version = ''1'', mm_role = RoleFaceDetector,
     mm_source_url = ''https://x'', mm_license_spdx = ''MIT'', mm_sha256 = replicate 64 (CHR ''0''),
     mm_input = ex_input, mm_additional_inputs = [], mm_face_crop = None, mm_landmark_measurement = None,
     mm_face_alignment = None,
     mm_outputs = [\<lparr>oc_name = ''boxes'', oc_dimensions = [1, 3, 4], oc_element_type = Float32,
                     oc_semantic = SemFaceDetectionBoxes\<rparr>,
                   \<lparr>oc_name = ''scores'', oc_dimensions = [1, 3], oc_element_type = Float32,
                     oc_semantic = SemFaceDetectionScores\<rparr>]\<rparr>"

lemma ex_manifest_valid: "manifest_validate (\<lambda>s. s = ''MIT'') ex_manifest = Inr ()"
  by (simp add: manifest_validate_def ex_manifest_def ex_input_def MODEL_MANIFEST_SCHEMA_VERSION_def validate_label_def
      MAX_ARTIFACT_LABEL_LENGTH_def MAX_SOURCE_URL_LENGTH_def strip_prefix_def valid_sha256_def lowercase_hex_64_def
      list_all_iff list_ex_iff is_ascii_hexdigit_def is_ascii_uppercase_def is_ascii_alphanumeric_def validate_inputs_def
      input_step_def validate_input_contract_def validate_tensor_name_def MAX_INPUT_DIMENSION_def expected_channels_def
      validate_dimensions_def input_dimensions_def MAX_TENSOR_RANK_def dimension_product_def checked_mul_def
      MAX_TENSOR_ELEMENTS_def validate_role_contracts_def MAX_OUTPUT_TENSORS_def output_step_def checked_add_def
      MAX_TOTAL_OUTPUT_ELEMENTS_def validate_output_semantics_def role_outputs_def validate_face_detector_outputs_def
      unique_semantic_output_def in_range_def MAX_FACE_DETECTION_CANDIDATES_def output_shape_def fp_eq_def)

theorem manifest_resources_bounded_witness: "distinct (map oc_name (mm_outputs ex_manifest))"
  using manifest_resources_bounded [OF ex_manifest_valid] by blast

theorem manifest_role_contract_witness: "role_contract ex_manifest"
  by (rule manifest_role_contract [OF ex_manifest_valid])

end
