(* ===== verification/Biometrics.thy ===== *)
theory Biometrics
  imports Manifest Sqrt
begin

text \<open>
  Model outputs (\<open>crates/faceauth-inference/src/lib.rs\<close>): the adapters that turn output tensors into
  detections, landmarks, embeddings and liveness scores, overlap suppression, the face region and the
  comparison of embeddings. The runtime that fills the tensors is not part of the repository; an
  adapter takes the tensors as they are.

  The order of \<open>f32::total_cmp\<close> is the linear order of \<open>fp\<close>; the two zeros are one value there too.
\<close>

section \<open>The total order of floating-point values\<close>

fun fp_rank :: "fp \<Rightarrow> nat \<times> rat" where
  "fp_rank (Infinity s) = (if s then 0 else 2, 0)"
| "fp_rank (Finite a) = (1, a)"
| "fp_rank NaN = (3, 0)"

lemma fp_rank_inject: "fp_rank a = fp_rank b \<Longrightarrow> a = b"
  by (cases a; cases b) (auto split: if_splits)

instantiation fp :: linorder
begin

definition less_eq_fp :: "fp \<Rightarrow> fp \<Rightarrow> bool" where
  "a \<le> b \<longleftrightarrow> fst (fp_rank a) < fst (fp_rank b) \<or> fst (fp_rank a) = fst (fp_rank b) \<and> snd (fp_rank a) \<le> snd (fp_rank b)"

definition less_fp :: "fp \<Rightarrow> fp \<Rightarrow> bool" where
  "(a :: fp) < b \<longleftrightarrow> a \<le> b \<and> \<not> b \<le> a"

instance
proof
  fix x y z :: fp
  show "x < y \<longleftrightarrow> x \<le> y \<and> \<not> y \<le> x" by (rule less_fp_def)
  show "x \<le> x" "x \<le> y \<or> y \<le> x" by (auto simp: less_eq_fp_def)
  show "x \<le> y \<Longrightarrow> y \<le> z \<Longrightarrow> x \<le> z" by (auto simp: less_eq_fp_def)
  show "x \<le> y \<Longrightarrow> y \<le> x \<Longrightarrow> x = y"
    by (rule fp_rank_inject) (auto simp: less_eq_fp_def intro!: prod_eqI)
qed

end

lemma fp_Finite_order [simp]: "Finite a \<le> Finite b \<longleftrightarrow> a \<le> b" "Finite a < Finite b \<longleftrightarrow> a < b"
  by (auto simp: less_eq_fp_def less_fp_def)

lemma fp_le_order [simp]: "is_finite a \<Longrightarrow> is_finite b \<Longrightarrow> fp_le a b \<longleftrightarrow> a \<le> b"
  by (cases a; cases b) (simp_all add: less_eq_fp_def)

lemma fp_lt_order [simp]: "is_finite a \<Longrightarrow> is_finite b \<Longrightarrow> fp_lt a b \<longleftrightarrow> a < b"
  by (cases a; cases b) (auto simp: less_eq_fp_def less_fp_def)

lemma fp_neg_order: "is_finite a \<Longrightarrow> is_finite b \<Longrightarrow> fp_neg a \<le> fp_neg b \<longleftrightarrow> b \<le> a"
  by (cases a; cases b) (simp_all add: less_eq_fp_def)

section \<open>Types\<close>

text \<open>Paths are lists of components.\<close>

datatype InferenceError =
  IE_InvalidConfig
| IE_Cancelled
| IE_NotRegularFile "string list"
| IE_UnsafeFilePermissions "string list" u32 u32
| IE_UnsafeParentDirectory "string list" u32 u32
| IE_ModelSizeInvalid u64 u64
| IE_RuntimeAlreadyInitialized "string list" "string list"
| IE_RuntimeAlreadyInitializedExternally
| IE_RuntimeStatePoisoned
| IE_GraphContractMismatch
| IE_SourceImageInvalid
| IE_InputTensorInvalid
| IE_OutputTensorInvalid
| IE_RunDeadlineExceeded
| IE_WatchdogPanicked
| IE_ModelRoleMismatch
| IE_FaceDetectionOutputInvalid
| IE_InvalidDetectionThreshold
| IE_InvalidDetectionPostprocessConfig
| IE_FaceDetectionLimitExceeded nat nat
| IE_NoFaceDetected
| IE_MultipleFacesDetected nat
| IE_FaceLandmarkOutputInvalid
| IE_FaceAlignmentRequired
| IE_FaceAlignmentIncompatible
| IE_FaceAlignmentInvalid
| IE_FaceAlignmentResidualExceeded
| IE_FaceAlignmentOutsideImage
| IE_FaceRegionInvalid
| IE_FaceRegionIncompatible
| IE_FaceRegionOutsideImage
| IE_EmbeddingInvalid
| IE_EmbeddingIncompatible
| IE_PassiveLivenessOutputInvalid
| IE_InvalidProbabilityThreshold
| IE_Model ModelError
| IE_Io IoError
| IE_Ort nat

record OutputTensor =
  ot_name :: string
  ot_dimensions :: "u32 list"
  ot_values :: "fp list"

record NormalizedFaceBox =
  nb_left :: fp
  nb_top :: fp
  nb_right :: fp
  nb_bottom :: fp

record FaceRegion =
  fr_compatibility_sha256 :: string
  fr_bounds :: NormalizedFaceBox

record FaceDetection =
  fd_bounds :: NormalizedFaceBox
  fd_confidence :: fp

record FaceDetections =
  fds_compatibility_sha256 :: string
  fds_faces :: "FaceDetection list"

record NormalizedLandmark =
  nl_x :: fp
  nl_y :: fp

record LandmarkMeasurements =
  ms_landmark_confidence :: fp
  ms_visible_fraction :: fp
  ms_yaw_degrees :: fp
  ms_pitch_degrees :: fp
  ms_roll_degrees :: fp
  ms_eye_openness :: fp

record FacialLandmarks =
  fl_compatibility_sha256 :: string
  fl_region :: FaceRegion
  fl_points :: "NormalizedLandmark list"
  fl_measurements :: LandmarkMeasurements

record ImageFacialLandmarks =
  il_compatibility_sha256 :: string
  il_points :: "NormalizedLandmark list"

record FaceEmbedding =
  fe_compatibility_sha256 :: string
  fe_values :: "fp list"

record PassiveLivenessScore =
  pl_role :: ModelRole
  pl_compatibility_sha256 :: string
  pl_probability :: fp

section \<open>Detections\<close>

definition intersection_over_union :: "NormalizedFaceBox \<Rightarrow> NormalizedFaceBox \<Rightarrow> fp" where
  "intersection_over_union l r =
     (let iw = fp_max (fp_sub F32 (fp_min (nb_right l) (nb_right r)) (fp_max (nb_left l) (nb_left r))) (Finite 0);
          ih = fp_max (fp_sub F32 (fp_min (nb_bottom l) (nb_bottom r)) (fp_max (nb_top l) (nb_top r))) (Finite 0);
          inter = fp_mul F32 iw ih;
          la = fp_mul F32 (fp_sub F32 (nb_right l) (nb_left l)) (fp_sub F32 (nb_bottom l) (nb_top l));
          ra = fp_mul F32 (fp_sub F32 (nb_right r) (nb_left r)) (fp_sub F32 (nb_bottom r) (nb_top r));
          un = fp_sub F32 (fp_add F32 la ra) inter
      in if fp_lt (Finite 0) un then fp_div F32 inter un else Finite 0)"

text \<open>
  The candidates by descending confidence, equal ones in their order: a stable sort by the negated
  confidence (confidences are finite).
\<close>

definition confidence_order :: "FaceDetection list \<Rightarrow> FaceDetection list" where
  "confidence_order faces = map ((!) faces) (sort_key (\<lambda>i. fp_neg (fd_confidence (faces ! i))) [0 ..< length faces])"

definition overlaps :: "fp \<Rightarrow> FaceDetection \<Rightarrow> FaceDetection \<Rightarrow> bool" where
  "overlaps maximum_iou candidate retained \<longleftrightarrow>
     fp_lt maximum_iou (intersection_over_union (fd_bounds candidate) (fd_bounds retained))"

definition suppress_step ::
  "fp \<Rightarrow> nat \<Rightarrow> FaceDetection list \<Rightarrow> FaceDetection \<Rightarrow> InferenceError + FaceDetection list" where
  "suppress_step maximum_iou maximum_faces faces candidate =
     (if list_ex (overlaps maximum_iou candidate) faces then Inr faces
      else if length faces = maximum_faces
      then Inl (IE_FaceDetectionLimitExceeded (length faces + 1) maximum_faces)
      else Inr (faces @ [candidate]))"

definition suppress_overlaps :: "FaceDetections \<Rightarrow> fp \<Rightarrow> nat \<Rightarrow> InferenceError + FaceDetections" where
  "suppress_overlaps d maximum_iou maximum_faces =
     (if \<not> is_finite maximum_iou \<or> \<not> fp_in 0 1 maximum_iou \<or> \<not> in_range 1 64 maximum_faces
      then Inl IE_InvalidDetectionPostprocessConfig
      else try_bind (try_fold (suppress_step maximum_iou maximum_faces) [] (confidence_order (fds_faces d)))
             (\<lambda>faces. Inr (d\<lparr>fds_faces := faces\<rparr>)))"

definition require_single_face :: "FaceDetections \<Rightarrow> InferenceError + FaceDetection" where
  "require_single_face d = (case fds_faces d of
       [face] \<Rightarrow> Inr face
     | [] \<Rightarrow> Inl IE_NoFaceDetected
     | faces \<Rightarrow> Inl (IE_MultipleFacesDetected (length faces)))"

section \<open>Output adapters\<close>

definition valid_compatibility_sha256 :: "string \<Rightarrow> bool" where
  "valid_compatibility_sha256 s = lowercase_hex_64 s"

definition semantic_output :: "ModelManifest \<Rightarrow> OutputSemantic \<Rightarrow> InferenceError + OutputContract" where
  "semantic_output m sem =
     (case filter (\<lambda>o'. oc_semantic o' = sem) (mm_outputs m) of
        [o'] \<Rightarrow> Inr o'
      | _ \<Rightarrow> Inl IE_ModelRoleMismatch)"

definition exact_output :: "OutputTensor list \<Rightarrow> string \<Rightarrow> u32 list \<Rightarrow> InferenceError + OutputTensor" where
  "exact_output outputs name dims =
     (case filter (\<lambda>t. ot_name t = name) outputs of
        [t] \<Rightarrow> if ot_dimensions t \<noteq> dims then Inl IE_OutputTensorInvalid else Inr t
      | _ \<Rightarrow> Inl IE_OutputTensorInvalid)"

text \<open>\<open>chunks_exact\<close> for a positive length.\<close>

fun chunks_exact :: "nat \<Rightarrow> 'a list \<Rightarrow> 'a list list" where
  "chunks_exact n xs = (if n = 0 \<or> length xs < n then [] else take n xs # chunks_exact n (drop n xs))"

declare chunks_exact.simps [simp del]

text \<open>The output of one meaning, any failure mapped to the error of the adapter.\<close>

definition contract_output ::
  "InferenceError \<Rightarrow> ModelManifest \<Rightarrow> OutputTensor list \<Rightarrow> OutputSemantic \<Rightarrow> InferenceError + OutputTensor" where
  "contract_output e m outputs sem =
     try_bind (map_err (\<lambda>_. e) (semantic_output m sem)) (\<lambda>c.
       map_err (\<lambda>_. e) (exact_output outputs (oc_name c) (oc_dimensions c)))"

definition detection_step ::
  "fp \<Rightarrow> FaceDetection list \<Rightarrow> fp list \<times> fp \<Rightarrow> InferenceError + FaceDetection list" where
  "detection_step minimum_confidence faces p = (case p of (coordinates, confidence) \<Rightarrow>
     if \<not> is_finite confidence \<or> \<not> fp_in 0 1 confidence then Inl IE_FaceDetectionOutputInvalid
     else (case coordinates of
             [l, t, r, b] \<Rightarrow>
               if list_ex (\<lambda>v. \<not> is_finite v \<or> \<not> fp_in 0 1 v) coordinates then Inl IE_FaceDetectionOutputInvalid
               else if fp_le minimum_confidence confidence
               then if fp_le r l \<or> fp_le b t then Inl IE_FaceDetectionOutputInvalid
                    else Inr (faces @ [\<lparr>fd_bounds = \<lparr>nb_left = l, nb_top = t, nb_right = r, nb_bottom = b\<rparr>,
                                        fd_confidence = confidence\<rparr>])
               else Inr faces
           | _ \<Rightarrow> Inl IE_FaceDetectionOutputInvalid))"

definition extract_face_detection_outputs ::
  "ModelManifest \<Rightarrow> string \<Rightarrow> OutputTensor list \<Rightarrow> fp \<Rightarrow> InferenceError + FaceDetections" where
  "extract_face_detection_outputs m compatibility outputs minimum_confidence =
     (let bad = IE_FaceDetectionOutputInvalid in
      if mm_role m \<noteq> RoleFaceDetector then Inl IE_ModelRoleMismatch
      else if \<not> is_finite minimum_confidence \<or> \<not> fp_in 0 1 minimum_confidence then Inl IE_InvalidDetectionThreshold
      else if \<not> valid_compatibility_sha256 compatibility \<or> length outputs \<noteq> 2 then Inl bad
      else try_bind (map_err (\<lambda>_. bad) (semantic_output m SemFaceDetectionBoxes)) (\<lambda>bc.
           try_bind (map_err (\<lambda>_. bad) (semantic_output m SemFaceDetectionScores)) (\<lambda>sc.
           case oc_dimensions bc of
             [a, candidates, b] \<Rightarrow>
               if a \<noteq> 1 \<or> b \<noteq> 4 then Inl bad
               else (case oc_dimensions sc of
                  [c, score_count] \<Rightarrow>
                    if c \<noteq> 1 \<or> candidates \<noteq> score_count \<or> \<not> in_range 1 MAX_FACE_DETECTION_CANDIDATES candidates
                    then Inl bad
                    else try_bind (map_err (\<lambda>_. bad) (exact_output outputs (oc_name bc) (oc_dimensions bc))) (\<lambda>boxes.
                         try_bind (map_err (\<lambda>_. bad) (exact_output outputs (oc_name sc) (oc_dimensions sc))) (\<lambda>scores.
                         let count = unat candidates in
                         if length (ot_values boxes) \<noteq> min (count * 4) (2 ^ 64 - 1) \<or> length (ot_values scores) \<noteq> count
                         then Inl bad
                         else try_bind (try_fold (detection_step minimum_confidence) []
                                          (zip (chunks_exact 4 (ot_values boxes)) (ot_values scores))) (\<lambda>faces.
                              Inr \<lparr>fds_compatibility_sha256 = compatibility, fds_faces = faces\<rparr>)))
                | _ \<Rightarrow> Inl bad)
           | _ \<Rightarrow> Inl bad)))"

definition landmark_step :: "NormalizedLandmark list \<Rightarrow> fp list \<Rightarrow> InferenceError + NormalizedLandmark list" where
  "landmark_step points coordinates =
     (case coordinates of
        [x, y] \<Rightarrow> if \<not> is_finite x \<or> \<not> is_finite y \<or> \<not> fp_in 0 1 x \<or> \<not> fp_in 0 1 y
                  then Inl IE_FaceLandmarkOutputInvalid else Inr (points @ [\<lparr>nl_x = x, nl_y = y\<rparr>])
      | _ \<Rightarrow> Inl IE_FaceLandmarkOutputInvalid)"

text \<open>\<open>u16::try_from\<close> of a \<open>usize\<close>, then \<open>f32::from\<close>, which is exact.\<close>

definition f32_from_count :: "nat \<Rightarrow> InferenceError + fp" where
  "f32_from_count n = (if n < 2 ^ 16 then Inr (Finite (of_nat n)) else Inl IE_FaceLandmarkOutputInvalid)"

definition pose_valid :: "LandmarkMeasurementContract \<Rightarrow> fp \<Rightarrow> fp \<Rightarrow> fp \<Rightarrow> bool" where
  "pose_valid c yaw pitch roll \<longleftrightarrow> is_finite yaw \<and> is_finite pitch \<and> is_finite roll
     \<and> \<not> fp_lt (lm_maximum_absolute_yaw_degrees c) (fp_abs yaw)
     \<and> \<not> fp_lt (lm_maximum_absolute_pitch_degrees c) (fp_abs pitch)
     \<and> \<not> fp_lt (lm_maximum_absolute_roll_degrees c) (fp_abs roll)"

definition measurement_values ::
  "LandmarkMeasurementContract \<Rightarrow> fp list \<Rightarrow> nat \<Rightarrow> fp \<Rightarrow> fp \<Rightarrow> fp \<Rightarrow> fp \<Rightarrow> fp \<Rightarrow> InferenceError + LandmarkMeasurements" where
  "measurement_values c confidence count yaw pitch roll left_eye right_eye =
     try_bind (f32_from_count count) (\<lambda>n.
     let landmark_confidence = fp_div F32 (fp_sum32 confidence) n in
     try_bind (f32_from_count (length (filter (fp_le (lm_minimum_visible_confidence c)) confidence))) (\<lambda>visible.
     let visible_fraction = fp_div F32 visible n in
     if \<not> is_finite landmark_confidence \<or> \<not> is_finite visible_fraction then Inl IE_FaceLandmarkOutputInvalid
     else Inr \<lparr>ms_landmark_confidence = landmark_confidence, ms_visible_fraction = visible_fraction,
               ms_yaw_degrees = yaw, ms_pitch_degrees = pitch, ms_roll_degrees = roll,
               ms_eye_openness = fp_min left_eye right_eye\<rparr>))"

definition extract_landmark_measurements ::
  "ModelManifest \<Rightarrow> OutputTensor list \<Rightarrow> nat \<Rightarrow> InferenceError + LandmarkMeasurements" where
  "extract_landmark_measurements m outputs count =
     (let bad = IE_FaceLandmarkOutputInvalid in
      try_bind (contract_output bad m outputs SemFaceLandmarkConfidence) (\<lambda>confidence.
      try_bind (contract_output bad m outputs SemFacePoseDegrees) (\<lambda>pose.
      try_bind (contract_output bad m outputs SemEyeOpenness) (\<lambda>eyes.
      if length (ot_values confidence) \<noteq> count
         \<or> list_ex (\<lambda>v. \<not> is_finite v \<or> \<not> fp_in 0 1 v) (ot_values confidence)
      then Inl bad
      else try_bind (ok_or (mm_landmark_measurement m) bad) (\<lambda>c.
      case ot_values pose of
        [yaw, pitch, roll] \<Rightarrow>
          if \<not> pose_valid c yaw pitch roll then Inl bad
          else (case ot_values eyes of
                  [left_eye, right_eye] \<Rightarrow>
                    if \<not> is_finite left_eye \<or> \<not> is_finite right_eye
                       \<or> \<not> fp_in 0 1 left_eye \<or> \<not> fp_in 0 1 right_eye
                    then Inl bad
                    else measurement_values c (ot_values confidence) count yaw pitch roll left_eye right_eye
                | _ \<Rightarrow> Inl bad)
      | _ \<Rightarrow> Inl bad)))))"

definition extract_face_landmark_output ::
  "ModelManifest \<Rightarrow> string \<Rightarrow> FaceRegion \<Rightarrow> OutputTensor list \<Rightarrow> InferenceError + FacialLandmarks" where
  "extract_face_landmark_output m compatibility region outputs =
     (let bad = IE_FaceLandmarkOutputInvalid in
      if mm_role m \<noteq> RoleFaceLandmarks then Inl IE_ModelRoleMismatch
      else if \<not> valid_compatibility_sha256 compatibility \<or> length outputs \<noteq> 4 then Inl bad
      else try_bind (map_err (\<lambda>_. bad) (semantic_output m SemFaceLandmarks)) (\<lambda>contract.
           case oc_dimensions contract of
             [a, landmark_count, b] \<Rightarrow>
               if a \<noteq> 1 \<or> b \<noteq> 2 \<or> \<not> in_range MIN_FACE_LANDMARKS MAX_FACE_LANDMARKS landmark_count then Inl bad
               else try_bind (map_err (\<lambda>_. bad) (exact_output outputs (oc_name contract) (oc_dimensions contract))) (\<lambda>output.
                    let count = unat landmark_count in
                    if length (ot_values output) \<noteq> min (count * 2) (2 ^ 64 - 1) then Inl bad
                    else try_bind (try_fold landmark_step [] (chunks_exact 2 (ot_values output))) (\<lambda>points.
                         try_bind (extract_landmark_measurements m outputs count) (\<lambda>measurements.
                         Inr \<lparr>fl_compatibility_sha256 = compatibility, fl_region = region, fl_points = points,
                              fl_measurements = measurements\<rparr>)))
           | _ \<Rightarrow> Inl bad))"

definition derive_face_region ::
  "FaceCropContract \<Rightarrow> NormalizedFaceBox \<Rightarrow> string \<Rightarrow> InferenceError + FaceRegion" where
  "derive_face_region crop d compatibility =
     (let width = fp_sub F32 (nb_right d) (nb_left d); height = fp_sub F32 (nb_bottom d) (nb_top d) in
      if \<not> is_finite width \<or> \<not> is_finite height \<or> fp_le width (Finite 0) \<or> fp_le height (Finite 0)
         \<or> fp_lt (nb_left d) (Finite 0) \<or> fp_lt (nb_top d) (Finite 0)
         \<or> fp_lt (Finite 1) (nb_right d) \<or> fp_lt (Finite 1) (nb_bottom d)
      then Inl IE_FaceRegionInvalid
      else let cx = fp_fma F32 (fp_add F32 (nb_left d) (nb_right d)) (Finite (1 / 2)) (fp_mul F32 (fc_center_offset_x crop) width);
               cy = fp_fma F32 (fp_add F32 (nb_top d) (nb_bottom d)) (Finite (1 / 2)) (fp_mul F32 (fc_center_offset_y crop) height);
               half_side = fp_mul F32 (fp_mul F32 (fp_max width height) (fc_scale crop)) (Finite (1 / 2));
               bounds = \<lparr>nb_left = fp_sub F32 cx half_side, nb_top = fp_sub F32 cy half_side,
                         nb_right = fp_add F32 cx half_side, nb_bottom = fp_add F32 cy half_side\<rparr>
           in if \<not> valid_compatibility_sha256 compatibility
                 \<or> list_ex (\<lambda>v. \<not> is_finite v \<or> \<not> fp_in 0 1 v) [nb_left bounds, nb_top bounds, nb_right bounds, nb_bottom bounds]
              then Inl IE_FaceRegionOutsideImage
              else Inr \<lparr>fr_compatibility_sha256 = compatibility, fr_bounds = bounds\<rparr>)"

text \<open>Landmarks of a crop, back in coordinates of the image.\<close>

definition map_point :: "NormalizedFaceBox \<Rightarrow> NormalizedLandmark \<Rightarrow> InferenceError + NormalizedLandmark" where
  "map_point region p =
     (let x = fp_fma F32 (nl_x p) (fp_sub F32 (nb_right region) (nb_left region)) (nb_left region);
          y = fp_fma F32 (nl_y p) (fp_sub F32 (nb_bottom region) (nb_top region)) (nb_top region)
      in if \<not> is_finite x \<or> \<not> is_finite y \<or> \<not> fp_in 0 1 x \<or> \<not> fp_in 0 1 y
         then Inl IE_FaceLandmarkOutputInvalid else Inr \<lparr>nl_x = x, nl_y = y\<rparr>)"

definition map_to_image :: "FacialLandmarks \<Rightarrow> InferenceError + ImageFacialLandmarks" where
  "map_to_image l =
     try_bind (try_fold (\<lambda>ps p. try_bind (map_point (fr_bounds (fl_region l)) p) (\<lambda>q. Inr (ps @ [q]))) [] (fl_points l))
       (\<lambda>points. Inr \<lparr>il_compatibility_sha256 = fl_compatibility_sha256 l, il_points = points\<rparr>)"

section \<open>Embeddings\<close>

definition embedding_squared_norm :: "fp list \<Rightarrow> InferenceError + fp" where
  "embedding_squared_norm = try_fold (\<lambda>s v. let s' = fp_fma F32 v v s in
       if is_finite s' then Inr s' else Inl IE_EmbeddingInvalid) (Finite 0)"

definition extract_embedding_output ::
  "ModelManifest \<Rightarrow> string \<Rightarrow> OutputTensor list \<Rightarrow> InferenceError + FaceEmbedding" where
  "extract_embedding_output m compatibility outputs =
     (if mm_role m \<noteq> RoleFaceEmbedding then Inl IE_ModelRoleMismatch
      else try_bind (semantic_output m SemEmbedding) (\<lambda>contract.
           try_bind (exact_output outputs (oc_name contract) (oc_dimensions contract)) (\<lambda>output.
           if \<not> in_range 32 4096 (length (ot_values output)) then Inl IE_EmbeddingInvalid
           else try_bind (embedding_squared_norm (ot_values output)) (\<lambda>sq.
                let norm = fp_sqrt F32 sq in
                if \<not> is_finite norm \<or> fp_le norm f32_epsilon then Inl IE_EmbeddingInvalid
                else let values = map (\<lambda>v. fp_div F32 v norm) (ot_values output) in
                     if list_ex (\<lambda>v. \<not> is_finite v) values then Inl IE_EmbeddingInvalid
                     else Inr \<lparr>fe_compatibility_sha256 = compatibility, fe_values = values\<rparr>))))"

definition from_normalized_template :: "string \<Rightarrow> fp list \<Rightarrow> InferenceError + FaceEmbedding" where
  "from_normalized_template compatibility values =
     (if \<not> lowercase_hex_64 compatibility \<or> \<not> in_range 32 4096 (length values)
         \<or> list_ex (\<lambda>v. \<not> is_finite v) values
      then Inl IE_EmbeddingInvalid
      else try_bind (embedding_squared_norm values) (\<lambda>sq.
           if fp_lt (rnd F32 (1 / 1000)) (fp_abs (fp_sub F32 (fp_sqrt F32 sq) (Finite 1))) then Inl IE_EmbeddingInvalid
           else Inr \<lparr>fe_compatibility_sha256 = compatibility, fe_values = values\<rparr>))"

definition embedding_product :: "fp list \<Rightarrow> fp list \<Rightarrow> InferenceError + fp" where
  "embedding_product xs ys = try_fold (\<lambda>s (l, r). let s' = fp_fma F32 l r s in
       if is_finite s' then Inr s' else Inl IE_EmbeddingInvalid) (Finite 0) (zip xs ys)"

definition similarity :: "FaceEmbedding \<Rightarrow> FaceEmbedding \<Rightarrow> InferenceError + fp" where
  "similarity a b =
     (if fe_compatibility_sha256 a \<noteq> fe_compatibility_sha256 b \<or> length (fe_values a) \<noteq> length (fe_values b)
      then Inl IE_EmbeddingIncompatible
      else try_bind (embedding_product (fe_values a) (fe_values b)) (\<lambda>product.
           let mapped = fp_fma F32 (fp_clamp (- 1) 1 product) (Finite (1 / 2)) (Finite (1 / 2))
           in if is_finite mapped then Inr mapped else Inl IE_EmbeddingInvalid))"

section \<open>Passive liveness\<close>

definition is_liveness_role :: "ModelRole \<Rightarrow> bool" where
  "is_liveness_role r \<longleftrightarrow>
     r \<in> {RolePassiveLivenessInfrared, RolePassiveLivenessVisible, RolePassiveLivenessFusion}"

definition from_validated_output :: "ModelRole \<Rightarrow> string \<Rightarrow> fp \<Rightarrow> InferenceError + PassiveLivenessScore" where
  "from_validated_output r compatibility probability =
     (if \<not> is_liveness_role r then Inl IE_ModelRoleMismatch
      else if \<not> lowercase_hex_64 compatibility \<or> \<not> is_finite probability \<or> \<not> fp_in 0 1 probability
      then Inl IE_PassiveLivenessOutputInvalid
      else Inr \<lparr>pl_role = r, pl_compatibility_sha256 = compatibility, pl_probability = probability\<rparr>)"

definition liveness_passes :: "PassiveLivenessScore \<Rightarrow> fp \<Rightarrow> InferenceError + bool" where
  "liveness_passes s minimum =
     (if \<not> is_finite minimum \<or> \<not> fp_in 0 1 minimum then Inl IE_InvalidProbabilityThreshold
      else Inr (fp_le minimum (pl_probability s)))"

definition extract_passive_liveness_output ::
  "ModelManifest \<Rightarrow> string \<Rightarrow> OutputTensor list \<Rightarrow> InferenceError + PassiveLivenessScore" where
  "extract_passive_liveness_output m compatibility outputs =
     (if \<not> is_liveness_role (mm_role m) then Inl IE_ModelRoleMismatch
      else try_bind (semantic_output m SemLiveProbability) (\<lambda>contract.
           try_bind (exact_output outputs (oc_name contract) (oc_dimensions contract)) (\<lambda>output.
           case ot_values output of
             [probability] \<Rightarrow>
               if \<not> is_finite probability \<or> \<not> fp_in 0 1 probability then Inl IE_PassiveLivenessOutputInvalid
               else from_validated_output (mm_role m) compatibility probability
           | _ \<Rightarrow> Inl IE_PassiveLivenessOutputInvalid)))"

section \<open>Overlap suppression\<close>

text \<open>The reference: non-maximum suppression without a ceiling.\<close>

definition retain_step :: "fp \<Rightarrow> FaceDetection list \<Rightarrow> FaceDetection \<Rightarrow> FaceDetection list" where
  "retain_step iou kept c = (if list_ex (overlaps iou c) kept then kept else kept @ [c])"

definition retained :: "fp \<Rightarrow> FaceDetection list \<Rightarrow> FaceDetection list" where
  "retained iou cs = foldl (retain_step iou) [] cs"

lemma retain_grows: "length kept \<le> length (foldl (retain_step iou) kept cs)"
proof (induction cs arbitrary: kept)
  case (Cons c cs)
  show ?case using Cons.IH [of "retain_step iou kept c"] by (auto simp: retain_step_def split: if_splits)
qed simp

lemma suppress_steps:
  "length kept \<le> n \<Longrightarrow> try_fold (suppress_step iou n) kept cs =
     (let all = foldl (retain_step iou) kept cs in
      if length all \<le> n then Inr all else Inl (IE_FaceDetectionLimitExceeded (n + 1) n))"
proof (induction cs arbitrary: kept)
  case (Cons c cs)
  show ?case
  proof (cases "list_ex (overlaps iou c) kept \<or> length kept < n")
    case True
    then show ?thesis using Cons.IH [of "retain_step iou kept c"] Cons.prems
      by (auto simp: suppress_step_def retain_step_def)
  next
    case False
    then have "retain_step iou kept c = kept @ [c]" "suppress_step iou n kept c = Inl (IE_FaceDetectionLimitExceeded (n + 1) n)"
      using Cons.prems by (auto simp: suppress_step_def retain_step_def)
    then show ?thesis using False retain_grows [of "kept @ [c]" iou cs] by (simp add: Let_def)
  qed
qed simp

lemma suppress_overlaps_eq:
  assumes "fp_in 0 1 iou" and "1 \<le> n" and "n \<le> 64"
  shows "suppress_overlaps d iou n =
     (let all = retained iou (confidence_order (fds_faces d)) in
      if length all \<le> n then Inr (d\<lparr>fds_faces := all\<rparr>) else Inl (IE_FaceDetectionLimitExceeded (n + 1) n))"
  using assms fp_in_finite [OF assms(1)]
  by (simp add: suppress_overlaps_def suppress_steps retained_def in_range_def Let_def)

lemma suppress_overlaps_ok:
  "suppress_overlaps d iou n = Inr s \<Longrightarrow> fp_in 0 1 iou \<and> 1 \<le> n \<and> n \<le> 64 \<and>
     s = d\<lparr>fds_faces := retained iou (confidence_order (fds_faces d))\<rparr> \<and> length (fds_faces s) \<le> n"
proof (cases "fp_in 0 1 iou \<and> 1 \<le> n \<and> n \<le> 64")
  case True
  moreover assume "suppress_overlaps d iou n = Inr s"
  ultimately show ?thesis
    using suppress_overlaps_eq [of iou n d] by (auto simp: Let_def split: if_splits)
qed (auto simp: suppress_overlaps_def in_range_def)

lemma set_confidence_order: "set (confidence_order faces) = set faces"
proof -
  have "set (confidence_order faces) = (!) faces ` {0 ..< length faces}" by (simp add: confidence_order_def)
  also have "\<dots> = set faces" by (simp only: set_conv_nth) auto
  finally show ?thesis .
qed

lemma sorted_confidence_order:
  assumes "\<forall>f \<in> set faces. is_finite (fd_confidence f)"
  shows "sorted_wrt (\<lambda>a b. fd_confidence b \<le> fd_confidence a) (confidence_order faces)"
proof -
  let ?k = "\<lambda>i. fp_neg (fd_confidence (faces ! i))"
  have "sorted (map ?k (sort_key ?k [0 ..< length faces]))" by (rule sorted_sort_key)
  then have "sorted_wrt (\<lambda>i j. ?k i \<le> ?k j) (sort_key ?k [0 ..< length faces])"
    by (simp add: sorted_map)
  then show ?thesis unfolding confidence_order_def sorted_wrt_map
    by (rule sorted_wrt_mono_rel [rotated]) (use assms in \<open>auto simp: fp_neg_order\<close>)
qed

definition covered :: "fp \<Rightarrow> FaceDetection list \<Rightarrow> FaceDetection \<Rightarrow> bool" where
  "covered iou kept c \<longleftrightarrow> (\<exists>r \<in> set kept. fd_confidence c \<le> fd_confidence r \<and> (c = r \<or> overlaps iou c r))"

lemma retain_sound:
  assumes "sorted_wrt (\<lambda>a b. fd_confidence b \<le> fd_confidence a) (kept @ cs)"
    and "sorted_wrt (\<lambda>a b. \<not> overlaps iou b a) kept"
  shows "let all = foldl (retain_step iou) kept cs in
    set kept \<subseteq> set all \<and> set all \<subseteq> set kept \<union> set cs \<and>
    sorted_wrt (\<lambda>a b. fd_confidence b \<le> fd_confidence a) all \<and> sorted_wrt (\<lambda>a b. \<not> overlaps iou b a) all \<and>
    (\<forall>c \<in> set cs. covered iou all c)"
  using assms
proof (induction cs arbitrary: kept)
  case (Cons c cs)
  define kept' where "kept' = retain_step iou kept c"
  have sorted': "sorted_wrt (\<lambda>a b. fd_confidence b \<le> fd_confidence a) (kept' @ cs)"
    and apart': "sorted_wrt (\<lambda>a b. \<not> overlaps iou b a) kept'"
    using Cons.prems by (auto simp: kept'_def retain_step_def sorted_wrt_append list_ex_iff)
  have here: "covered iou kept' c"
    using Cons.prems(1) by (auto simp: covered_def kept'_def retain_step_def sorted_wrt_append list_ex_iff)
  have "set kept \<subseteq> set kept'" "set kept' \<subseteq> insert c (set kept)" by (auto simp: kept'_def retain_step_def)
  with Cons.IH [OF sorted' apart'] here show ?case
    by (auto simp: Let_def covered_def simp flip: kept'_def)
qed simp

lemma retained_sound:
  assumes "\<forall>f \<in> set faces. is_finite (fd_confidence f)"
  shows "let all = retained iou (confidence_order faces) in
    set all \<subseteq> set faces \<and> sorted_wrt (\<lambda>a b. fd_confidence b \<le> fd_confidence a) all \<and>
    sorted_wrt (\<lambda>a b. \<not> overlaps iou b a) all \<and> (\<forall>c \<in> set faces. covered iou all c)"
  using retain_sound [of "[]" "confidence_order faces" iou] sorted_confidence_order [OF assms]
  by (simp add: retained_def set_confidence_order Let_def)

section \<open>Detections are the admitted candidates\<close>

text \<open>Candidate \<open>i\<close> of the raw tensors, as a detection.\<close>

definition candidate :: "fp list \<Rightarrow> fp list \<Rightarrow> nat \<Rightarrow> FaceDetection" where
  "candidate boxes scores i =
     \<lparr>fd_bounds = \<lparr>nb_left = boxes ! (4 * i), nb_top = boxes ! (4 * i + 1),
                   nb_right = boxes ! (4 * i + 2), nb_bottom = boxes ! (4 * i + 3)\<rparr>,
      fd_confidence = scores ! i\<rparr>"

definition valid_detection :: "fp \<Rightarrow> FaceDetection \<Rightarrow> bool" where
  "valid_detection minimum_confidence f \<longleftrightarrow>
     fp_in 0 1 (nb_left (fd_bounds f)) \<and> fp_in 0 1 (nb_top (fd_bounds f)) \<and>
     fp_in 0 1 (nb_right (fd_bounds f)) \<and> fp_in 0 1 (nb_bottom (fd_bounds f)) \<and>
     nb_left (fd_bounds f) < nb_right (fd_bounds f) \<and> nb_top (fd_bounds f) < nb_bottom (fd_bounds f) \<and>
     fp_in 0 1 (fd_confidence f) \<and> minimum_confidence \<le> fd_confidence f"

lemma chunks_exact_nth:
  "0 < n \<Longrightarrow> length xs = k * n \<Longrightarrow> chunks_exact n xs = map (\<lambda>i. take n (drop (n * i) xs)) [0 ..< k]"
proof (induction k arbitrary: xs)
  case 0
  then show ?case by (subst chunks_exact.simps) simp
next
  case (Suc k)
  have "chunks_exact n xs = take n xs # chunks_exact n (drop n xs)"
    using Suc.prems by (subst chunks_exact.simps) simp
  also have "chunks_exact n (drop n xs) = map (\<lambda>i. take n (drop (n * i) (drop n xs))) [0 ..< k]"
    using Suc.prems by (intro Suc.IH) simp_all
  also have "\<dots> = map (\<lambda>i. take n (drop (n * i) xs)) [Suc 0 ..< Suc k]"
    by (simp add: map_Suc_upt [symmetric] add.commute del: upt_Suc)
  finally show ?case by (simp add: upt_conv_Cons del: upt_Suc)
qed

lemma take_four: "i + 4 \<le> length xs \<Longrightarrow> take 4 (drop i xs) = [xs ! i, xs ! (i + 1), xs ! (i + 2), xs ! (i + 3)]"
  by (rule nth_equalityI) (auto simp: less_Suc_eq numeral_eq_Suc)

lemma detection_step_four:
  "detection_step q faces ([l, t, r, b], c) = Inr faces' \<longleftrightarrow>
     fp_in 0 1 c \<and> fp_in 0 1 l \<and> fp_in 0 1 t \<and> fp_in 0 1 r \<and> fp_in 0 1 b \<and>
     (if fp_le q c then \<not> fp_le r l \<and> \<not> fp_le b t \<and>
        faces' = faces @ [\<lparr>fd_bounds = \<lparr>nb_left = l, nb_top = t, nb_right = r, nb_bottom = b\<rparr>, fd_confidence = c\<rparr>]
      else faces' = faces)"
  by (auto simp: detection_step_def fp_in_finite)

lemma detection_steps:
  assumes "length boxes = 4 * length scores" and "is_finite q"
    and "try_fold (detection_step q) faces (map (\<lambda>i. (take 4 (drop (4 * i) boxes), scores ! i)) is) = Inr all"
    and "\<forall>i \<in> set is. i < length scores" and "\<forall>f \<in> set faces. valid_detection q f"
  shows "all = faces @ map (candidate boxes scores) (filter (\<lambda>i. fp_le q (scores ! i)) is) \<and>
    (\<forall>f \<in> set all. valid_detection q f)"
  using assms(3-5)
proof (induction "is" arbitrary: faces)
  case (Cons i "is")
  have "4 * i + 4 \<le> length boxes" using Cons.prems(2) assms(1) by simp
  note four = take_four [OF this]
  from Cons.prems(1) obtain faces' where
    step: "detection_step q faces (take 4 (drop (4 * i) boxes), scores ! i) = Inr faces'"
    and rest: "try_fold (detection_step q) faces' (map (\<lambda>i. (take 4 (drop (4 * i) boxes), scores ! i)) is) = Inr all"
    by (auto simp: result_simps)
  note facts = step [unfolded four detection_step_four]
  have faces': "faces' = faces @ (if fp_le q (scores ! i) then [candidate boxes scores i] else [])"
    using facts by (auto simp: candidate_def split: if_splits)
  moreover have "valid_detection q (candidate boxes scores i)" if "fp_le q (scores ! i)"
    using facts that assms(2) by (auto simp: valid_detection_def candidate_def not_le dest!: fp_in_finite)
  ultimately have "\<forall>f \<in> set faces'. valid_detection q f" using Cons.prems(3) by auto
  from Cons.IH [OF rest _ this] Cons.prems(2) show ?case by (simp add: faces')
qed simp

lemma exact_output_ok: "exact_output outputs name dims = Inr t \<Longrightarrow> t \<in> set outputs \<and> ot_name t = name \<and> ot_dimensions t = dims"
proof -
  assume "exact_output outputs name dims = Inr t"
  then have one: "filter (\<lambda>t. ot_name t = name) outputs = [t]" and "ot_dimensions t = dims"
    by (auto simp: exact_output_def split: list.splits if_splits)
  moreover have "t \<in> {x \<in> set outputs. ot_name x = name}"
    using one by (metis list.set_intros(1) set_filter)
  ultimately show ?thesis by simp
qed

lemma extracted_detections:
  assumes "extract_face_detection_outputs m compatibility outputs q = Inr d"
  shows "\<exists>boxes \<in> set outputs. \<exists>scores \<in> set outputs. length (ot_values boxes) = 4 * length (ot_values scores) \<and>
    fds_faces d = map (candidate (ot_values boxes) (ot_values scores))
      (filter (\<lambda>i. fp_le q (ot_values scores ! i)) [0 ..< length (ot_values scores)]) \<and>
    (\<forall>f \<in> set (fds_faces d). valid_detection q f)"
proof -
  obtain boxes scores bn bd sn sd candidates faces where
    boxes: "exact_output outputs bn bd = Inr boxes"
    and scores: "exact_output outputs sn sd = Inr scores"
    and count: "length (ot_values boxes) = min (unat candidates * 4) (2 ^ 64 - 1)" "length (ot_values scores) = unat candidates"
    and range: "in_range 1 MAX_FACE_DETECTION_CANDIDATES candidates"
    and fold: "try_fold (detection_step q) [] (zip (chunks_exact 4 (ot_values boxes)) (ot_values scores)) = Inr faces"
    and d: "fds_faces d = faces" and q: "is_finite q"
    using assms unfolding extract_face_detection_outputs_def Let_def
    by (auto simp: result_simps shape_pattern_ok split: if_splits)
  have "unat candidates \<le> 4096"
    using range by (simp add: in_range_def MAX_FACE_DETECTION_CANDIDATES_def word_le_nat_alt)
  then have len: "length (ot_values boxes) = 4 * length (ot_values scores)" using count by simp
  have "zip (chunks_exact 4 (ot_values boxes)) (ot_values scores) =
      map (\<lambda>i. (take 4 (drop (4 * i) (ot_values boxes)), ot_values scores ! i)) [0 ..< length (ot_values scores)]"
    by (rule nth_equalityI) (simp_all add: chunks_exact_nth [of 4 _ "length (ot_values scores)"] len)
  with fold have "try_fold (detection_step q) [] (map (\<lambda>i. (take 4 (drop (4 * i) (ot_values boxes)), ot_values scores ! i))
      [0 ..< length (ot_values scores)]) = Inr faces" by simp
  from detection_steps [OF len q this] show ?thesis
    using exact_output_ok [OF boxes] exact_output_ok [OF scores] len by (auto simp: d)
qed

section \<open>Properties of the face pipeline\<close>


text \<open>
  No second person is hidden from the single-face policy: when decoding, suppression and the
  policy accept a face, it is a valid box inside the image with the required confidence, it is the
  most confident candidate, and every other candidate of the raw tensors that reaches the
  confidence threshold overlaps it by more than the configured ratio.
\<close>

theorem single_face_alone:
  assumes "extract_face_detection_outputs m compatibility outputs q = Inr d"
    and "suppress_overlaps d iou n = Inr s" and "require_single_face s = Inr f"
  shows "valid_detection q f \<and>
    (\<exists>boxes \<in> set outputs. \<exists>scores \<in> set outputs.
       \<forall>i < length (ot_values scores). fp_le q (ot_values scores ! i) \<longrightarrow>
         (let c = candidate (ot_values boxes) (ot_values scores) i in
          fd_confidence c \<le> fd_confidence f \<and> (c = f \<or> overlaps iou c f)))"
proof -
  from extracted_detections [OF assms(1)] obtain boxes scores where
    mem: "boxes \<in> set outputs" "scores \<in> set outputs"
    and faces: "fds_faces d = map (candidate (ot_values boxes) (ot_values scores))
      (filter (\<lambda>i. fp_le q (ot_values scores ! i)) [0 ..< length (ot_values scores)])"
    and valid: "\<forall>f \<in> set (fds_faces d). valid_detection q f" by blast
  have "fds_faces s = [f]"
    using assms(3) by (auto simp: require_single_face_def split: list.splits)
  then have one: "retained iou (confidence_order (fds_faces d)) = [f]"
    using suppress_overlaps_ok [OF assms(2)] by auto
  have "\<forall>f \<in> set (fds_faces d). is_finite (fd_confidence f)"
    using valid by (auto simp: valid_detection_def dest: fp_in_finite)
  from retained_sound [OF this, of iou] have "f \<in> set (fds_faces d)" "\<forall>c \<in> set (fds_faces d). covered iou [f] c"
    by (auto simp: one)
  then have cover: "\<forall>c \<in> set (fds_faces d). fd_confidence c \<le> fd_confidence f \<and> (c = f \<or> overlaps iou c f)"
    and f: "valid_detection q f" using valid by (auto simp: covered_def)
  have "candidate (ot_values boxes) (ot_values scores) i \<in> set (fds_faces d)"
    if "i < length (ot_values scores)" and "fp_le q (ot_values scores ! i)" for i
    using that by (auto simp: faces)
  with cover f mem show ?thesis unfolding Let_def by blast
qed

section \<open>Landmarks\<close>

lemma f32_from_count_ok: "f32_from_count n = Inr x \<longleftrightarrow> n < 2 ^ 16 \<and> x = Finite (of_nat n)"
  by (auto simp: f32_from_count_def)

lemma fold_sum32_bounded:
  assumes "\<forall>x \<in> set xs. fp_in 0 1 x" and "fp_in 0 (of_nat k) s" and "k + length xs < 2 ^ 24"
  shows "fp_in 0 (of_nat (k + length xs)) (fold (\<lambda>x s. fp_add F32 s x) xs s)"
  using assms
proof (induction xs arbitrary: k s)
  case (Cons x xs)
  obtain a b where ab: "x = Finite a" "0 \<le> a" "a \<le> 1" "s = Finite b" "0 \<le> b" "b \<le> of_nat k"
    using Cons.prems by (auto simp: fp_in_Finite)
  have "rnd F32 (of_nat (Suc k)) = Finite (of_nat (Suc k))"
    using Cons.prems(3) by (intro rnd_of_nat_small) simp
  then have "fp_in 0 (of_nat (Suc k)) (fp_add F32 s x)"
    using ab by (auto intro!: rnd_fp_in)
  from Cons.IH [OF _ this] Cons.prems show ?case by simp
qed simp

lemma mean_in_unit:
  assumes "fp_in 0 (of_nat n) s" and "0 < n"
  shows "fp_in 0 1 (fp_div F32 s (Finite (of_nat n)))"
  using assms by (auto simp: fp_in_Finite intro!: rnd_unit [unfolded fp_in_Finite])

lemma measurement_values_ok:
  assumes "measurement_values c confidence count yaw pitch roll l r = Inr ms"
    and "\<forall>v \<in> set confidence. fp_in 0 1 v" and "length confidence = count" and "0 < count"
    and "fp_in 0 1 l" and "fp_in 0 1 r"
  shows "fp_in 0 1 (ms_landmark_confidence ms) \<and> fp_in 0 1 (ms_visible_fraction ms) \<and>
    fp_in 0 1 (ms_eye_openness ms) \<and> ms_yaw_degrees ms = yaw \<and> ms_pitch_degrees ms = pitch \<and> ms_roll_degrees ms = roll"
proof -
  have small: "count < 2 ^ 16" using assms(1) by (auto simp: measurement_values_def result_simps f32_from_count_ok)
  let ?n = "Finite (of_nat count)" and ?v = "length (filter (fp_le (lm_minimum_visible_confidence c)) confidence)"
  have "fp_in 0 (of_nat count) (fp_sum32 confidence)"
    using fold_sum32_bounded [of confidence 0 "Finite 0"] assms(2,3) small by (simp add: fp_sum32_def fp_in_Finite)
  from mean_in_unit [OF this assms(4)]
  have mean: "fp_in 0 1 (fp_div F32 (fp_sum32 confidence) ?n)" .
  have "?v \<le> count" using assms(3) by auto
  then have "fp_in 0 (of_nat count) (Finite (of_nat ?v))" by (simp add: fp_in_Finite)
  from mean_in_unit [OF this assms(4)]
  have visible: "fp_in 0 1 (fp_div F32 (Finite (of_nat ?v)) ?n)" .
  have "ms_landmark_confidence ms = fp_div F32 (fp_sum32 confidence) ?n"
    "ms_visible_fraction ms = fp_div F32 (Finite (of_nat ?v)) ?n" "ms_eye_openness ms = fp_min l r"
    "ms_yaw_degrees ms = yaw" "ms_pitch_degrees ms = pitch" "ms_roll_degrees ms = roll"
    using assms(1) by (auto simp: measurement_values_def result_simps f32_from_count_ok Let_def
        simp del: fp_div.simps split: if_splits)
  with mean visible fp_min_in [OF assms(5,6)] show ?thesis by simp
qed

lemma landmark_step_ok:
  "landmark_step ps xs = Inr qs \<longleftrightarrow>
     (\<exists>x y. xs = [x, y] \<and> fp_in 0 1 x \<and> fp_in 0 1 y \<and> qs = ps @ [\<lparr>nl_x = x, nl_y = y\<rparr>])"
  unfolding landmark_step_def shape_pattern_ok by (intro ex_cong1 conj_cong) (auto dest: fp_in_finite)

lemma landmark_steps:
  "try_fold landmark_step ps xs = Inr qs \<Longrightarrow> \<forall>p \<in> set ps. fp_in 0 1 (nl_x p) \<and> fp_in 0 1 (nl_y p) \<Longrightarrow>
     length qs = length ps + length xs \<and> (\<forall>p \<in> set qs. fp_in 0 1 (nl_x p) \<and> fp_in 0 1 (nl_y p))"
proof (induction xs arbitrary: ps)
  case (Cons x xs)
  then obtain ps' where ps': "landmark_step ps x = Inr ps'" and rest: "try_fold landmark_step ps' xs = Inr qs"
    by (auto simp: result_simps)
  have "length ps' = Suc (length ps)" "\<forall>p \<in> set ps'. fp_in 0 1 (nl_x p) \<and> fp_in 0 1 (nl_y p)"
    using ps' Cons.prems(2) by (auto simp: landmark_step_ok)
  with Cons.IH [OF rest] show ?case by simp
qed simp

definition measurements_within :: "LandmarkMeasurementContract \<Rightarrow> LandmarkMeasurements \<Rightarrow> bool" where
  "measurements_within c ms \<longleftrightarrow> fp_in 0 1 (ms_landmark_confidence ms) \<and> fp_in 0 1 (ms_visible_fraction ms) \<and>
     fp_in 0 1 (ms_eye_openness ms) \<and> pose_valid c (ms_yaw_degrees ms) (ms_pitch_degrees ms) (ms_roll_degrees ms)"

lemma extract_landmark_measurements_ok:
  assumes "extract_landmark_measurements m outputs count = Inr ms" and "0 < count"
  shows "\<exists>c. mm_landmark_measurement m = Some c \<and> measurements_within c ms"
proof -
  obtain confidence c yaw pitch roll l r where
    "length confidence = count" "\<not> list_ex (\<lambda>v. \<not> is_finite v \<or> \<not> fp_in 0 1 v) confidence"
    "mm_landmark_measurement m = Some c" "pose_valid c yaw pitch roll" "fp_in 0 1 l" "fp_in 0 1 r"
    "measurement_values c confidence count yaw pitch roll l r = Inr ms"
    using assms(1) unfolding extract_landmark_measurements_def Let_def
    by (auto simp: result_simps shape_pattern_ok split: if_splits)
  with measurement_values_ok [of c confidence count yaw pitch roll l r ms] assms(2) show ?thesis
    by (auto simp: measurements_within_def list_ex_iff)
qed

text \<open>
  Landmark evidence is bounded: accepted landmarks have the number of points their contract asks
  for, all inside the crop, mean confidence, visible fraction and eye openness in the unit interval
  in spite of rounding, and a pose within the limits of the measurement contract; they carry the
  digest and the region of this very invocation.
\<close>

theorem landmarks_bounded:
  assumes "extract_face_landmark_output m compatibility region outputs = Inr l"
  shows "fl_compatibility_sha256 l = compatibility \<and> fl_region l = region \<and>
    5 \<le> length (fl_points l) \<and> length (fl_points l) \<le> 512 \<and>
    (\<forall>p \<in> set (fl_points l). fp_in 0 1 (nl_x p) \<and> fp_in 0 1 (nl_y p)) \<and>
    (\<exists>c. mm_landmark_measurement m = Some c \<and> measurements_within c (fl_measurements l))"
proof -
  obtain count vals points where
    range: "in_range MIN_FACE_LANDMARKS MAX_FACE_LANDMARKS count"
    and len: "length vals = min (unat count * 2) (2 ^ 64 - 1)"
    and fold: "try_fold landmark_step [] (chunks_exact 2 vals) = Inr points"
    and meas: "extract_landmark_measurements m outputs (unat count) = Inr (fl_measurements l)"
    and l: "fl_points l = points" "fl_compatibility_sha256 l = compatibility" "fl_region l = region"
    using assms unfolding extract_face_landmark_output_def Let_def
    by (auto simp: result_simps shape_pattern_ok split: if_splits)
  have n: "5 \<le> unat count" "unat count \<le> 512"
    using range by (simp_all add: in_range_def MIN_FACE_LANDMARKS_def MAX_FACE_LANDMARKS_def word_le_nat_alt)
  then have "length (chunks_exact 2 vals) = unat count"
    using len chunks_exact_nth [of 2 vals "unat count"] by simp
  with landmark_steps [OF fold] extract_landmark_measurements_ok [OF meas] n show ?thesis by (simp add: l)
qed

section \<open>Comparison of embeddings\<close>

lemma fp_mul_commute: "fp_mul fmt a b = fp_mul fmt b a"
  by (cases a; cases b) (simp_all add: mult.commute)

lemma fp_fma_commute: "fp_fma fmt a b c = fp_fma fmt b a c"
  using fp_mul_commute [of fmt a b] by (cases a; cases b; cases c) (simp_all add: mult.commute)

lemma embedding_product_commute: "embedding_product xs ys = embedding_product ys xs"
proof -
  let ?f = "\<lambda>s (l, r). let s' = fp_fma F32 l r s in if is_finite s' then Inr s' else Inl IE_EmbeddingInvalid"
  have "try_fold ?f s (zip xs ys) = try_fold ?f s (zip ys xs)" for s
  proof (induction xs ys arbitrary: s rule: list_induct2')
    case (4 x xs y ys)
    then show ?case by (simp add: fp_fma_commute [of F32 x y] Let_def)
  qed simp_all
  then show ?thesis by (simp add: embedding_product_def)
qed

lemma embedding_product_finite: "embedding_product xs ys = Inr p \<Longrightarrow> is_finite p"
  unfolding embedding_product_def
  by (rule try_fold_invariant [where P = is_finite]) (auto simp: Let_def split: if_splits prod.splits)

lemma embedding_product_error: "embedding_product xs ys = Inl e \<Longrightarrow> e = IE_EmbeddingInvalid"
proof -
  have "try_fold (\<lambda>s (l, r). let s' = fp_fma F32 l r s in if is_finite s' then Inr s' else Inl IE_EmbeddingInvalid) s zs = Inl e \<Longrightarrow>
      e = IE_EmbeddingInvalid" for s zs
    by (induction zs arbitrary: s) (auto simp: result_simps Let_def split: if_splits)
  then show "embedding_product xs ys = Inl e \<Longrightarrow> e = IE_EmbeddingInvalid" by (simp add: embedding_product_def)
qed

text \<open>The map of a clamped product to the unit interval.\<close>

lemma mapped_cosine_in_unit:
  assumes "is_finite p"
  shows "fp_in 0 1 (fp_fma F32 (fp_clamp (- 1) 1 p) (Finite (1 / 2)) (Finite (1 / 2)))"
proof -
  have "fp_in (- 1) 1 (fp_clamp (- 1) 1 p)" using assms by (intro fp_clamp_in) (cases p; simp)+
  then obtain r where r: "fp_clamp (- 1) 1 p = Finite r" "- 1 \<le> r" "r \<le> 1" by (auto simp: fp_in_Finite)
  show ?thesis unfolding r(1) fp_fma.simps by (rule rnd_unit) (use r in simp_all)
qed

text \<open>
  The similarity of two embeddings does not depend on their order, is a value of the unit
  interval in spite of rounding, and is refused exactly for embeddings of different digests or
  dimensions; the only other failure is an overflow of the sum.
\<close>

theorem similarity_symmetric_unit:
  "similarity a b = similarity b a \<and>
   (similarity a b \<noteq> Inl IE_EmbeddingIncompatible \<longleftrightarrow>
      fe_compatibility_sha256 a = fe_compatibility_sha256 b \<and> length (fe_values a) = length (fe_values b)) \<and>
   (case similarity a b of Inl e \<Rightarrow> e = IE_EmbeddingIncompatible \<or> e = IE_EmbeddingInvalid | Inr s \<Rightarrow> fp_in 0 1 s)"
proof -
  have "similarity a b = similarity b a"
    using embedding_product_commute [of "fe_values a" "fe_values b"] by (auto simp: similarity_def)
  moreover have "case similarity a b of
      Inl e \<Rightarrow> e = IE_EmbeddingInvalid \<or> e = IE_EmbeddingIncompatible \<and>
        (fe_compatibility_sha256 a \<noteq> fe_compatibility_sha256 b \<or> length (fe_values a) \<noteq> length (fe_values b))
    | Inr s \<Rightarrow> fp_in 0 1 s"
    by (cases "embedding_product (fe_values a) (fe_values b)")
      (auto simp: similarity_def Let_def mapped_cosine_in_unit dest: embedding_product_finite embedding_product_error)
  ultimately show ?thesis by (auto simp: similarity_def split: sum.splits)
qed

section \<open>Examples\<close>


definition ex_detector :: ModelManifest where
  "ex_detector = ex_manifest\<lparr>mm_role := RoleFaceDetector, mm_outputs :=
     [\<lparr>oc_name = ''boxes'', oc_dimensions = [1, 2, 4], oc_element_type = Float32, oc_semantic = SemFaceDetectionBoxes\<rparr>,
      \<lparr>oc_name = ''scores'', oc_dimensions = [1, 2], oc_element_type = Float32, oc_semantic = SemFaceDetectionScores\<rparr>]\<rparr>"

definition ex_boxes :: OutputTensor where
  "ex_boxes = \<lparr>ot_name = ''boxes'', ot_dimensions = [1, 2, 4], ot_values =
     map Finite [1 / 4, 1 / 4, 3 / 4, 3 / 4, 0, 0, 1 / 8, 1 / 8]\<rparr>"

definition ex_scores :: OutputTensor where
  "ex_scores = \<lparr>ot_name = ''scores'', ot_dimensions = [1, 2], ot_values = map Finite [1, 1 / 4]\<rparr>"

definition ex_digest :: string where
  "ex_digest = replicate 64 (CHR ''a'')"

definition ex_detections :: FaceDetections where
  "ex_detections = \<lparr>fds_compatibility_sha256 = ex_digest, fds_faces =
     [\<lparr>fd_bounds = \<lparr>nb_left = Finite (1 / 4), nb_top = Finite (1 / 4), nb_right = Finite (3 / 4), nb_bottom = Finite (3 / 4)\<rparr>,
       fd_confidence = Finite 1\<rparr>]\<rparr>"

lemma ex_digest_valid: "lowercase_hex_64 ex_digest"
  by (simp add: ex_digest_def lowercase_hex_64_def list_all_iff list_ex_iff is_ascii_hexdigit_def is_ascii_uppercase_def)

lemma ex_extracted:
  "extract_face_detection_outputs ex_detector ex_digest [ex_boxes, ex_scores] (Finite (1 / 2)) = Inr ex_detections"
  using chunks_exact_nth [of 4 "ot_values ex_boxes" 2]
  by (simp add: extract_face_detection_outputs_def ex_detector_def valid_compatibility_sha256_def ex_digest_valid
      semantic_output_def exact_output_def ex_boxes_def ex_scores_def fp_in_def in_range_def
      MAX_FACE_DETECTION_CANDIDATES_def detection_step_def upt_conv_Cons ex_detections_def Let_def)

lemma ex_suppressed: "suppress_overlaps ex_detections (Finite (1 / 2)) 4 = Inr ex_detections"
  by (simp add: suppress_overlaps_def fp_in_def in_range_def ex_detections_def confidence_order_def suppress_step_def
      upt_conv_Cons)

theorem single_face_alone_witness:
  "valid_detection (Finite (1 / 2)) (hd (fds_faces ex_detections))"
  using single_face_alone [OF ex_extracted ex_suppressed, of "hd (fds_faces ex_detections)"]
  by (simp add: require_single_face_def ex_detections_def)


definition ex_landmark_manifest :: ModelManifest where
  "ex_landmark_manifest = ex_manifest\<lparr>mm_role := RoleFaceLandmarks,
     mm_landmark_measurement := Some \<lparr>lm_minimum_visible_confidence = Finite (1 / 2), lm_maximum_absolute_yaw_degrees = Finite 45,
       lm_maximum_absolute_pitch_degrees = Finite 45, lm_maximum_absolute_roll_degrees = Finite 45\<rparr>,
     mm_outputs :=
     [\<lparr>oc_name = ''points'', oc_dimensions = [1, 5, 2], oc_element_type = Float32, oc_semantic = SemFaceLandmarks\<rparr>,
      \<lparr>oc_name = ''confidence'', oc_dimensions = [1, 5], oc_element_type = Float32, oc_semantic = SemFaceLandmarkConfidence\<rparr>,
      \<lparr>oc_name = ''pose'', oc_dimensions = [1, 3], oc_element_type = Float32, oc_semantic = SemFacePoseDegrees\<rparr>,
      \<lparr>oc_name = ''eyes'', oc_dimensions = [1, 2], oc_element_type = Float32, oc_semantic = SemEyeOpenness\<rparr>]\<rparr>"

definition ex_region :: FaceRegion where
  "ex_region = \<lparr>fr_compatibility_sha256 = ex_digest, fr_bounds =
     \<lparr>nb_left = Finite (1 / 4), nb_top = Finite (1 / 4), nb_right = Finite (3 / 4), nb_bottom = Finite (3 / 4)\<rparr>\<rparr>"

definition ex_landmark_outputs :: "OutputTensor list" where
  "ex_landmark_outputs =
     [\<lparr>ot_name = ''points'', ot_dimensions = [1, 5, 2], ot_values = replicate 10 (Finite (1 / 2))\<rparr>,
      \<lparr>ot_name = ''confidence'', ot_dimensions = [1, 5], ot_values = replicate 5 (Finite 1)\<rparr>,
      \<lparr>ot_name = ''pose'', ot_dimensions = [1, 3], ot_values = map Finite [- 10, 0, 5]\<rparr>,
      \<lparr>ot_name = ''eyes'', ot_dimensions = [1, 2], ot_values = map Finite [1, 1 / 2]\<rparr>]"

lemma ex_sum32: "fp_sum32 (replicate 5 (Finite 1)) = Finite 5"
proof -
  have "rnd F32 2 = Finite 2" "rnd F32 3 = Finite 3" "rnd F32 4 = Finite 4" "rnd F32 5 = Finite 5"
    using rnd_of_nat_small [of 2 F32] rnd_of_nat_small [of 3 F32] rnd_of_nat_small [of 4 F32] rnd_of_nat_small [of 5 F32]
    by simp_all
  then show ?thesis by (simp add: fp_sum32_def numeral_eq_Suc)
qed

lemma ex_landmarks:
  "is_ok (extract_face_landmark_output ex_landmark_manifest ex_digest ex_region ex_landmark_outputs)"
proof -
  have chunks: "chunks_exact 2 (replicate 10 (Finite (1 / 2))) = replicate 5 [Finite (1 / 2), Finite (1 / 2)]"
    using chunks_exact_nth [of 2 "replicate 10 (Finite (1 / 2))" 5] by (simp add: upt_conv_Cons) (simp add: numeral_eq_Suc)
  show ?thesis
    by (simp add: extract_face_landmark_output_def ex_landmark_manifest_def valid_compatibility_sha256_def ex_digest_valid
        semantic_output_def exact_output_def contract_output_def ex_landmark_outputs_def fp_in_def in_range_def chunks
        MIN_FACE_LANDMARKS_def MAX_FACE_LANDMARKS_def extract_landmark_measurements_def pose_valid_def
        measurement_values_def f32_from_count_def ex_sum32 Let_def)
      (simp add: numeral_eq_Suc landmark_step_def fp_in_def Let_def)
qed

theorem landmarks_bounded_witness:
  "\<exists>l. extract_face_landmark_output ex_landmark_manifest ex_digest ex_region ex_landmark_outputs = Inr l \<and>
     fl_region l = ex_region \<and> length (fl_points l) \<le> 512"
proof -
  obtain l where "extract_face_landmark_output ex_landmark_manifest ex_digest ex_region ex_landmark_outputs = Inr l"
    using ex_landmarks by (cases "extract_face_landmark_output ex_landmark_manifest ex_digest ex_region ex_landmark_outputs") auto
  from this landmarks_bounded [OF this] show ?thesis by blast
qed

end
