(* ===== verification/Preprocess.thy ===== *)
theory Preprocess
  imports Biometrics
begin

text \<open>
  Image preprocessing (\<open>crates/faceauth-inference/src/lib.rs\<close>): source access, colour conversion,
  interpolation, the similarity transform and the three routines that fill an input tensor. An index
  out of bounds and an arithmetic overflow are panics, so the theorems that exclude them say that
  the builds with and without overflow checks agree.
\<close>

section \<open>Results that may panic\<close>

type_synonym 'a outcome = "(InferenceError + 'a) option"

definition p_bind :: "'a outcome \<Rightarrow> ('a \<Rightarrow> 'b outcome) \<Rightarrow> 'b outcome" where
  "p_bind m f = (case m of None \<Rightarrow> None | Some (Inl e) \<Rightarrow> Some (Inl e) | Some (Inr x) \<Rightarrow> f x)"

text \<open>A panic on \<open>None\<close>: indexing, checked arithmetic.\<close>

definition p_expect :: "'a option \<Rightarrow> 'a outcome" where
  "p_expect o' = map_option Inr o'"

definition p_nth :: "'a list \<Rightarrow> nat \<Rightarrow> 'a outcome" where
  "p_nth xs i = (if i < length xs then Some (Inr (xs ! i)) else None)"

definition p_update :: "'a list \<Rightarrow> nat \<Rightarrow> 'a \<Rightarrow> 'a list outcome" where
  "p_update xs i x = (if i < length xs then Some (Inr (xs[i := x])) else None)"

fun p_fold :: "('s \<Rightarrow> 'a \<Rightarrow> 's outcome) \<Rightarrow> 's \<Rightarrow> 'a list \<Rightarrow> 's outcome" where
  "p_fold f s [] = Some (Inr s)"
| "p_fold f s (x # xs) = p_bind (f s x) (\<lambda>s'. p_fold f s' xs)"

lemma p_bind_simps [simp]:
  "p_bind None f = None" "p_bind (Some (Inl e)) f = Some (Inl e)" "p_bind (Some (Inr x)) f = f x"
  by (simp_all add: p_bind_def)

lemma p_bind_None: "p_bind m f = None \<longleftrightarrow> m = None \<or> (\<exists>x. m = Some (Inr x) \<and> f x = None)"
  by (auto simp: p_bind_def split: option.splits sum.splits)

lemma p_bind_ok: "p_bind m f = Some (Inr y) \<longleftrightarrow> (\<exists>x. m = Some (Inr x) \<and> f x = Some (Inr y))"
  by (auto simp: p_bind_def split: option.splits sum.splits)

lemma p_bind_err: "p_bind m f = Some (Inl e) \<longleftrightarrow> m = Some (Inl e) \<or> (\<exists>x. m = Some (Inr x) \<and> f x = Some (Inl e))"
  by (auto simp: p_bind_def split: option.splits sum.splits)

lemma p_expect_simps [simp]: "p_expect (Some x) = Some (Inr x)" "p_expect None = None"
  by (simp_all add: p_expect_def)

section \<open>Source images\<close>

definition MAX_SOURCE_DIMENSION :: u32 where
  "MAX_SOURCE_DIMENSION = 4096"

datatype ImageFormat = FmtGray8 | FmtRgb8 | FmtBgr8 | FmtYuyv

record SourceView =
  sv_width :: u32
  sv_height :: u32
  sv_format :: ImageFormat
  sv_bytes :: "u8 list"

record InputTensor =
  it_dimensions :: "u32 list"
  it_values :: "fp list"

text \<open>\<open>bytes.get(i).ok_or(SourceImageInvalid)\<close>.\<close>

definition source_byte :: "SourceView \<Rightarrow> nat \<Rightarrow> InferenceError + u8" where
  "source_byte img i = (if i < length (sv_bytes img) then Inr (sv_bytes img ! i) else Inl IE_SourceImageInvalid)"

definition clamp_u8 :: "int \<Rightarrow> u8" where
  "clamp_u8 v = word_of_int (max 0 (min 255 v))"

text \<open>
  The conversion is done in \<open>i32\<close>; all intermediate values lie between \<open>- 2 ^ 18\<close> and \<open>2 ^ 18\<close>
  (lemma \<open>yuyv_fits\<close>), so it is the integer one. The right shift is arithmetic.
\<close>

definition yuyv_convert :: "int \<Rightarrow> int \<Rightarrow> int \<Rightarrow> u8 list" where
  "yuyv_convert luma blue red =
     (let s = max 0 (luma - 16); b = blue - 128; r = red - 128 in
      [clamp_u8 ((298 * s + 409 * r + 128) div 256),
       clamp_u8 ((298 * s - 100 * b - 208 * r + 128) div 256),
       clamp_u8 ((298 * s + 516 * b + 128) div 256)])"

definition yuyv_rgb :: "SourceView \<Rightarrow> nat \<Rightarrow> nat \<Rightarrow> InferenceError + u8 list" where
  "yuyv_rgb img column row =
     (let pair = row * (unat (sv_width img) div 2) + column div 2 in
      if pair * 4 \<ge> 2 ^ 64 then Inl IE_SourceImageInvalid
      else let base = pair * 4 in
        try_bind (source_byte img (if even column then base else base + 2)) (\<lambda>luma.
        try_bind (source_byte img (base + 1)) (\<lambda>blue.
        try_bind (source_byte img (base + 3)) (\<lambda>red.
        Inr (yuyv_convert (uint luma) (uint blue) (uint red))))))"

definition source_rgb :: "SourceView \<Rightarrow> nat \<Rightarrow> nat \<Rightarrow> nat \<Rightarrow> InferenceError + u8 list" where
  "source_rgb img pixel_index x y =
     (case sv_format img of
        FmtYuyv \<Rightarrow> yuyv_rgb img x y
      | format \<Rightarrow>
          try_bind (ok_or (usize_checked_mul pixel_index 3) IE_SourceImageInvalid) (\<lambda>base.
          try_bind (source_byte img base) (\<lambda>first.
          try_bind (source_byte img (base + 1)) (\<lambda>green.
          try_bind (source_byte img (base + 2)) (\<lambda>third.
          Inr (if format = FmtRgb8 then [first, green, third] else [third, green, first]))))))"

definition source_channel :: "SourceView \<Rightarrow> nat \<Rightarrow> nat \<Rightarrow> nat \<Rightarrow> ColorSpace \<Rightarrow> InferenceError + fp" where
  "source_channel img x y channel color =
     (let pixel_index = y * unat (sv_width img) + x in
      if sv_format img = FmtGray8
      then try_bind (source_byte img pixel_index) (\<lambda>b. Inr (Finite (of_nat (unat b))))
      else try_bind (source_rgb img pixel_index x y) (\<lambda>rgb.
           try_bind (case color of
               CsRgb \<Rightarrow> Inr rgb
             | CsBgr \<Rightarrow> Inr [rgb ! 2, rgb ! 1, rgb ! 0]
             | CsGrayscale \<Rightarrow> Inl IE_SourceImageInvalid) (\<lambda>ordered.
           if channel < length ordered then Inr (Finite (of_nat (unat (ordered ! channel))))
           else Inl IE_SourceImageInvalid)))"

definition validate_preprocess_inputs :: "InputContract \<Rightarrow> SourceView \<Rightarrow> InferenceError + nat" where
  "validate_preprocess_inputs c img =
     (let channels = unat (ic_channels c); pixels = unat (sv_width img) * unat (sv_height img) in
      if ic_width c = 0 \<or> ic_height c = 0 \<or> length (cn_scale (ic_normalization c)) \<noteq> channels
         \<or> length (cn_bias (ic_normalization c)) \<noteq> channels
      then Inl IE_InputTensorInvalid
      else if sv_width img = 0 \<or> sv_height img = 0 \<or> sv_width img > MAX_SOURCE_DIMENSION
              \<or> sv_height img > MAX_SOURCE_DIMENSION
      then Inl IE_SourceImageInvalid
      else try_bind (case sv_format img of
               FmtGray8 \<Rightarrow> Inr pixels
             | FmtYuyv \<Rightarrow> if odd (unat (sv_width img)) then Inl IE_SourceImageInvalid
                         else ok_or (usize_checked_mul pixels 2) IE_SourceImageInvalid
             | _ \<Rightarrow> ok_or (usize_checked_mul pixels 3) IE_SourceImageInvalid) (\<lambda>expected_bytes.
           if length (sv_bytes img) \<noteq> expected_bytes
              \<or> (ic_color_space c = CsGrayscale) \<noteq> (sv_format img = FmtGray8)
           then Inl IE_SourceImageInvalid else Inr channels))"

definition tensor_element_count :: "u32 list \<Rightarrow> InferenceError + nat" where
  "tensor_element_count ds =
     try_fold (\<lambda>p d. ok_or (usize_checked_mul p (unat d)) IE_InputTensorInvalid) 1 ds"

section \<open>Interpolation\<close>

text \<open>
  \<open>interpolation_axis\<close> computes in \<open>i64\<close>; with extents of at most \<open>2 ^ 32\<close> and \<open>4096\<close> all values are
  below \<open>2 ^ 47\<close>. \<open>u16::try_from\<close> falls back to the given default.
\<close>

definition u16_or :: "int \<Rightarrow> int \<Rightarrow> int" where
  "u16_or d n = (if 0 \<le> n \<and> n < 2 ^ 16 then n else d)"

definition interpolation_axis :: "nat \<Rightarrow> nat \<Rightarrow> nat \<Rightarrow> nat \<times> nat \<times> fp" where
  "interpolation_axis target target_extent source_extent =
     (let denominator = int target_extent * 2;
          numerator = (int target * 2 + 1) * int source_extent - int target_extent;
          raw_lower = numerator div denominator
      in if raw_lower < 0 then (0, 0, Finite 0)
         else let lower = min (if raw_lower < 2 ^ 32 then nat raw_lower else source_extent - 1) (source_extent - 1)
              in if lower = source_extent - 1 then (lower, lower, Finite 0)
                 else (lower, lower + 1,
                       fp_div F32 (Finite (of_int (u16_or 0 (numerator mod denominator))))
                                  (Finite (of_int (u16_or 1 denominator)))))"

definition floating_interpolation_axis :: "fp \<Rightarrow> nat \<Rightarrow> InferenceError + nat \<times> nat \<times> fp" where
  "floating_interpolation_axis coordinate extent =
     (if \<not> is_finite coordinate \<or> extent = 0 then Inl IE_FaceAlignmentInvalid
      else case fp_clamp 0 (of_nat (extent - 1)) coordinate of
             Finite a \<Rightarrow>
               let lower = nat \<lfloor>a\<rfloor>; upper = min (lower + 1) (extent - 1);
                   weight = fp_cast F32 (fp_sub F64 (Finite a) (Finite (of_nat lower)))
               in if lower \<ge> 2 ^ 32 then Inl IE_FaceAlignmentInvalid
                  else if is_finite weight then Inr (lower, upper, weight) else Inl IE_FaceAlignmentInvalid
           | _ \<Rightarrow> Inl IE_FaceAlignmentInvalid)"

text \<open>The weighted mean of two values, and of the four neighbours of a position.\<close>

definition blend :: "fp \<Rightarrow> fp \<Rightarrow> fp \<Rightarrow> fp" where
  "blend w a b = fp_fma F32 a (fp_sub F32 (Finite 1) w) (fp_mul F32 b w)"

definition bilinear ::
  "SourceView \<Rightarrow> nat \<times> nat \<times> fp \<Rightarrow> nat \<times> nat \<times> fp \<Rightarrow> nat \<Rightarrow> ColorSpace \<Rightarrow> InferenceError + fp" where
  "bilinear img ax ay channel color = (case (ax, ay) of ((x0, x1, wx), (y0, y1, wy)) \<Rightarrow>
     try_bind (source_channel img x0 y0 channel color) (\<lambda>top_left.
     try_bind (source_channel img x1 y0 channel color) (\<lambda>top_right.
     try_bind (source_channel img x0 y1 channel color) (\<lambda>bottom_left.
     try_bind (source_channel img x1 y1 channel color) (\<lambda>bottom_right.
     Inr (blend wy (blend wx top_left top_right) (blend wx bottom_left bottom_right)))))))"

definition sample_normalized_channel ::
  "SourceView \<Rightarrow> fp \<Rightarrow> fp \<Rightarrow> nat \<Rightarrow> ColorSpace \<Rightarrow> InferenceError + fp" where
  "sample_normalized_channel img nx ny channel color =
     (let sx = fp_fma F64 nx (Finite (of_nat (unat (sv_width img)))) (Finite (- (1 / 2)));
          sy = fp_fma F64 ny (Finite (of_nat (unat (sv_height img)))) (Finite (- (1 / 2)))
      in try_bind (floating_interpolation_axis sx (unat (sv_width img))) (\<lambda>ax.
         try_bind (floating_interpolation_axis sy (unat (sv_height img))) (\<lambda>ay.
         bilinear img ax ay channel color)))"

section \<open>The tensor\<close>

text \<open>Products and sums of \<open>u32\<close>, a panic on overflow.\<close>

definition u32_area :: "u32 \<Rightarrow> u32 \<Rightarrow> nat outcome" where
  "u32_area w h = p_expect (map_option unat (checked_mul w h))"

definition u32_offset :: "u32 \<Rightarrow> u32 \<Rightarrow> u32 \<Rightarrow> nat outcome" where
  "u32_offset y w x = p_expect (map_option unat (Option.bind (checked_mul y w) (\<lambda>p. checked_add p x)))"

definition target_index :: "InputContract \<Rightarrow> u32 \<Rightarrow> u32 \<Rightarrow> nat \<Rightarrow> nat outcome" where
  "target_index c x y channel =
     (case ic_layout c of
        Nchw \<Rightarrow>
          p_bind (u32_area (ic_width c) (ic_height c)) (\<lambda>area.
          case usize_checked_mul channel area of
            None \<Rightarrow> Some (Inl IE_InputTensorInvalid)
          | Some base \<Rightarrow> p_bind (u32_offset y (ic_width c) x) (\<lambda>pixel.
              Some (ok_or (usize_checked_add base pixel) IE_InputTensorInvalid)))
      | Nhwc \<Rightarrow>
          p_bind (u32_offset y (ic_width c) x) (\<lambda>pixel.
          Some (ok_or (Option.bind (usize_checked_mul pixel (unat (ic_channels c))) (\<lambda>base. usize_checked_add base channel))
                  IE_InputTensorInvalid)))"

definition normalized :: "InputContract \<Rightarrow> nat \<Rightarrow> fp \<Rightarrow> fp outcome" where
  "normalized c channel pixel =
     p_bind (p_nth (cn_scale (ic_normalization c)) channel) (\<lambda>scale.
     p_bind (p_nth (cn_bias (ic_normalization c)) channel) (\<lambda>bias.
     let v = fp_fma F32 pixel scale bias in
     if \<not> is_finite v then Some (Inl IE_InputTensorInvalid) else Some (Inr v)))"

definition write_tensor_value ::
  "InputContract \<Rightarrow> fp list \<Rightarrow> u32 \<Rightarrow> u32 \<Rightarrow> nat \<Rightarrow> fp \<Rightarrow> fp list outcome" where
  "write_tensor_value c vals x y channel pixel =
     p_bind (normalized c channel pixel) (\<lambda>v.
     p_bind (target_index c x y channel) (\<lambda>i. p_update vals i v))"

text \<open>
  The loops over rows, columns and channels are the same in the three routines: the cancellation
  callback is asked before each row (call \<open>y + 1\<close>; call 0 was made before the tensor was allocated),
  a row gives a function of the column, and that one an error or a function of the channel.
\<close>

type_synonym sampler = "u32 \<Rightarrow> u32 \<Rightarrow> InferenceError + (nat \<Rightarrow> InferenceError + fp)"

definition fill_pixel :: "InputContract \<Rightarrow> nat \<Rightarrow> sampler \<Rightarrow> u32 \<Rightarrow> fp list \<Rightarrow> u32 \<Rightarrow> fp list outcome" where
  "fill_pixel c channels sample y vals x =
     p_bind (Some (sample y x)) (\<lambda>pixel.
       p_fold (\<lambda>vals channel. p_bind (Some (pixel channel)) (\<lambda>p. write_tensor_value c vals x y channel p))
         vals [0 ..< channels])"

definition fill_row ::
  "InputContract \<Rightarrow> (nat \<Rightarrow> bool) \<Rightarrow> nat \<Rightarrow> sampler \<Rightarrow> fp list \<Rightarrow> u32 \<Rightarrow> fp list outcome" where
  "fill_row c cancel channels sample vals y =
     (if cancel (unat y + 1) then Some (Inl IE_Cancelled)
      else p_fold (fill_pixel c channels sample y) vals (map word_of_nat [0 ..< unat (ic_width c)]))"

definition fill_tensor ::
  "InputContract \<Rightarrow> (nat \<Rightarrow> bool) \<Rightarrow> nat \<Rightarrow> sampler \<Rightarrow> InputTensor outcome" where
  "fill_tensor c cancel channels sample =
     (if cancel 0 then Some (Inl IE_Cancelled)
      else p_bind (Some (tensor_element_count (input_dimensions c))) (\<lambda>count.
           p_bind (p_fold (fill_row c cancel channels sample) (replicate count (Finite 0))
                     (map word_of_nat [0 ..< unat (ic_height c)])) (\<lambda>vals.
           Some (Inr \<lparr>it_dimensions = input_dimensions c, it_values = vals\<rparr>))))"

definition resize_sampler :: "InputContract \<Rightarrow> SourceView \<Rightarrow> sampler" where
  "resize_sampler c img y x = Inr (\<lambda>channel.
     bilinear img (interpolation_axis (unat x) (unat (ic_width c)) (unat (sv_width img)))
       (interpolation_axis (unat y) (unat (ic_height c)) (unat (sv_height img))) channel (ic_color_space c))"

definition preprocess_image_cancellable ::
  "InputContract \<Rightarrow> SourceView \<Rightarrow> (nat \<Rightarrow> bool) \<Rightarrow> InputTensor outcome" where
  "preprocess_image_cancellable c img cancel =
     p_bind (Some (validate_preprocess_inputs c img)) (\<lambda>channels.
     fill_tensor c cancel channels (resize_sampler c img))"

definition preprocess_image :: "InputContract \<Rightarrow> SourceView \<Rightarrow> InputTensor outcome" where
  "preprocess_image c img = preprocess_image_cancellable c img (\<lambda>_. False)"

text \<open>The centre of target pixel \<open>t\<close> in normalized coordinates.\<close>

definition pixel_center :: "u32 \<Rightarrow> u32 \<Rightarrow> fp" where
  "pixel_center t extent =
     fp_div F64 (fp_add F64 (Finite (of_nat (unat t))) (Finite (1 / 2))) (Finite (of_nat (unat extent)))"

definition region_sampler :: "InputContract \<Rightarrow> SourceView \<Rightarrow> fp \<Rightarrow> fp \<Rightarrow> fp \<Rightarrow> fp \<Rightarrow> sampler" where
  "region_sampler c img l t width height y x = Inr (\<lambda>channel.
     sample_normalized_channel img (fp_fma F64 (pixel_center x (ic_width c)) width l)
       (fp_fma F64 (pixel_center y (ic_height c)) height t) channel (ic_color_space c))"

definition preprocess_image_region ::
  "InputContract \<Rightarrow> SourceView \<Rightarrow> NormalizedFaceBox \<Rightarrow> (nat \<Rightarrow> bool) \<Rightarrow> InputTensor outcome" where
  "preprocess_image_region c img region cancel =
     p_bind (Some (validate_preprocess_inputs c img)) (\<lambda>channels.
     let l = nb_left region; t = nb_top region;
         width = fp_sub F32 (nb_right region) (nb_left region);
         height = fp_sub F32 (nb_bottom region) (nb_top region)
     in if \<not> is_finite l \<or> \<not> is_finite t \<or> \<not> is_finite width \<or> \<not> is_finite height
           \<or> fp_lt l (Finite 0) \<or> fp_lt t (Finite 0) \<or> fp_le width (Finite 0) \<or> fp_le height (Finite 0)
           \<or> fp_lt (Finite 1) (fp_add F64 l width) \<or> fp_lt (Finite 1) (fp_add F64 t height)
        then Some (Inl IE_FaceRegionInvalid)
        else fill_tensor c cancel channels (region_sampler c img l t width height))"

section \<open>Alignment\<close>

record SimilarityTransform =
  st_cosine_scale :: fp
  st_sine_scale :: fp
  st_translation_x :: fp
  st_translation_y :: fp

definition st_forward :: "SimilarityTransform \<Rightarrow> fp \<times> fp \<Rightarrow> fp \<times> fp" where
  "st_forward t p =
     (fp_fma F64 (st_cosine_scale t) (fst p) (fp_fma F64 (fp_neg (st_sine_scale t)) (snd p) (st_translation_x t)),
      fp_fma F64 (st_sine_scale t) (fst p) (fp_fma F64 (st_cosine_scale t) (snd p) (st_translation_y t)))"

definition st_inverse :: "SimilarityTransform \<Rightarrow> fp \<times> fp \<Rightarrow> InferenceError + fp \<times> fp" where
  "st_inverse t p =
     (let x = fp_sub F64 (fst p) (st_translation_x t); y = fp_sub F64 (snd p) (st_translation_y t);
          det = fp_fma F64 (st_cosine_scale t) (st_cosine_scale t) (fp_mul F64 (st_sine_scale t) (st_sine_scale t));
          sx = fp_div F64 (fp_fma F64 (st_cosine_scale t) x (fp_mul F64 (st_sine_scale t) y)) det;
          sy = fp_div F64 (fp_fma F64 (fp_neg (st_sine_scale t)) x (fp_mul F64 (st_cosine_scale t) y)) det
      in if is_finite sx \<and> is_finite sy then Inr (sx, sy) else Inl IE_FaceAlignmentInvalid)"

definition point_center :: "(fp \<times> fp) list \<Rightarrow> fp \<times> fp" where
  "point_center ps =
     (let s = fold (\<lambda>p s. (fp_add F64 (fst s) (fst p), fp_add F64 (snd s) (snd p))) ps (Finite 0, Finite 0)
      in (fp_div F64 (fst s) (Finite 5), fp_div F64 (snd s) (Finite 5)))"

definition correlation_step ::
  "fp \<times> fp \<Rightarrow> fp \<times> fp \<Rightarrow> (fp \<times> fp) \<times> fp \<times> fp \<Rightarrow> fp \<times> fp \<times> fp \<Rightarrow> fp \<times> fp \<times> fp" where
  "correlation_step sc dc pq s = (case (pq, s) of ((p, q), (c, n, d)) \<Rightarrow>
     let sx = fp_sub F64 (fst p) (fst sc); sy = fp_sub F64 (snd p) (snd sc);
         dx = fp_sub F64 (fst q) (fst dc); dy = fp_sub F64 (snd q) (snd dc)
     in (fp_add F64 (fp_add F64 c (fp_mul F64 sx dx)) (fp_mul F64 sy dy),
         fp_sub F64 (fp_add F64 n (fp_mul F64 sx dy)) (fp_mul F64 sy dx),
         fp_add F64 (fp_add F64 d (fp_mul F64 sx sx)) (fp_mul F64 sy sy)))"

definition residual_step ::
  "SimilarityTransform \<Rightarrow> fp \<Rightarrow> (fp \<times> fp) \<times> fp \<times> fp \<Rightarrow> unit + fp" where
  "residual_step t s pq = (case pq of (p, q) \<Rightarrow>
     let m = st_forward t p; ex = fp_sub F64 (fst m) (fst q); ey = fp_sub F64 (snd m) (snd q);
         s' = fp_fma F64 ey ey (fp_fma F64 ex ex s)
     in if is_finite s' then Inr s' else Inl ())"

definition alignment_residual :: "SimilarityTransform \<Rightarrow> (fp \<times> fp) list \<Rightarrow> (fp \<times> fp) list \<Rightarrow> InferenceError + fp" where
  "alignment_residual t source destination =
     try_bind (map_err (\<lambda>_. IE_FaceAlignmentInvalid) (try_fold (residual_step t) (Finite 0) (zip source destination)))
       (\<lambda>squared. let residual = fp_sqrt F64 (fp_div F64 squared (Finite 5)) in
         if is_finite residual then Inr residual else Inl IE_FaceAlignmentInvalid)"

definition st_fit ::
  "(fp \<times> fp) list \<Rightarrow> (fp \<times> fp) list \<Rightarrow> fp \<Rightarrow> InferenceError + SimilarityTransform" where
  "st_fit source destination maximum_residual =
     (let sc = point_center source; dc = point_center destination in
      case fold (correlation_step sc dc) (zip source destination) (Finite 0, Finite 0, Finite 0) of (nc, ns, den) \<Rightarrow>
      if \<not> is_finite den \<or> fp_le den (rnd F64 (1 / 10 ^ 12)) then Inl IE_FaceAlignmentInvalid
      else let cs = fp_div F64 nc den; ss = fp_div F64 ns den;
               det = fp_fma F64 cs cs (fp_mul F64 ss ss)
           in if \<not> is_finite det \<or> fp_le det (rnd F64 (1 / 10 ^ 12)) then Inl IE_FaceAlignmentInvalid
              else let tx = fp_fma F64 ss (snd sc) (fp_fma F64 cs (fp_neg (fst sc)) (fst dc));
                       ty = fp_fma F64 cs (fp_neg (snd sc)) (fp_fma F64 ss (fp_neg (fst sc)) (snd dc));
                       t = \<lparr>st_cosine_scale = cs, st_sine_scale = ss, st_translation_x = tx, st_translation_y = ty\<rparr>
                   in try_bind (alignment_residual t source destination) (\<lambda>residual.
                      if fp_lt maximum_residual residual then Inl IE_FaceAlignmentResidualExceeded else Inr t))"

definition aligned_sampler :: "InputContract \<Rightarrow> SourceView \<Rightarrow> SimilarityTransform \<Rightarrow> sampler" where
  "aligned_sampler c img t y x =
     try_bind (st_inverse t (pixel_center x (ic_width c), pixel_center y (ic_height c))) (\<lambda>source.
     if \<not> fp_in 0 1 (fst source) \<or> \<not> fp_in 0 1 (snd source) then Inl IE_FaceAlignmentOutsideImage
     else Inr (\<lambda>channel. sample_normalized_channel img (fst source) (snd source) channel (ic_color_space c)))"

definition alignment_source :: "ImageFacialLandmarks \<Rightarrow> u16 list \<Rightarrow> InferenceError + (fp \<times> fp) list" where
  "alignment_source l indices =
     try_fold (\<lambda>ps i. if unat i < length (il_points l)
        then Inr (ps @ [(nl_x (il_points l ! unat i), nl_y (il_points l ! unat i))])
        else Inl IE_FaceAlignmentInvalid) [] indices"

definition preprocess_aligned_image ::
  "InputContract \<Rightarrow> FaceAlignmentContract \<Rightarrow> SourceView \<Rightarrow> ImageFacialLandmarks \<Rightarrow> (nat \<Rightarrow> bool) \<Rightarrow> InputTensor outcome" where
  "preprocess_aligned_image c a img l cancel =
     p_bind (Some (validate_preprocess_inputs c img)) (\<lambda>channels.
     if il_compatibility_sha256 l \<noteq> fa_landmarks_compatibility_sha256 a then Some (Inl IE_FaceAlignmentIncompatible)
     else p_bind (Some (alignment_source l (fa_landmark_indices a))) (\<lambda>source.
          p_bind (Some (st_fit source (map (\<lambda>p. (np_x p, np_y p)) (fa_reference_points a))
                     (fa_maximum_normalized_residual a))) (\<lambda>t.
          fill_tensor c cancel channels (aligned_sampler c img t))))"

section \<open>Postconditions\<close>

text \<open>\<open>m\<close> does not panic, its errors satisfy \<open>E\<close> and its results \<open>Q\<close>.\<close>

definition p_post :: "'a outcome \<Rightarrow> (InferenceError \<Rightarrow> bool) \<Rightarrow> ('a \<Rightarrow> bool) \<Rightarrow> bool" where
  "p_post m E Q = (case m of None \<Rightarrow> False | Some (Inl e) \<Rightarrow> E e | Some (Inr x) \<Rightarrow> Q x)"

lemma p_post_simps [simp]:
  "\<not> p_post None E Q" "p_post (Some (Inl e)) E Q \<longleftrightarrow> E e" "p_post (Some (Inr x)) E Q \<longleftrightarrow> Q x"
  by (simp_all add: p_post_def)

lemma p_post_bind:
  assumes "p_post m E P" and "\<And>x. P x \<Longrightarrow> p_post (f x) E Q"
  shows "p_post (p_bind m f) E Q"
proof (cases m)
  case (Some r)
  then show ?thesis using assms by (cases r) simp_all
qed (use assms in simp)

lemma p_post_weaken:
  assumes "p_post m E Q" and "\<And>e. E e \<Longrightarrow> E' e" and "\<And>x. Q x \<Longrightarrow> Q' x"
  shows "p_post m E' Q'"
  using assms by (auto simp: p_post_def split: option.splits sum.splits)

lemma p_post_fold:
  assumes "\<And>i s. i < length xs \<Longrightarrow> P i s \<Longrightarrow> p_post (f s (xs ! i)) E (P (Suc i))" and "P 0 s"
  shows "p_post (p_fold f s xs) E (P (length xs))"
  using assms
proof (induction xs arbitrary: s P)
  case (Cons x xs)
  have "p_post (f s x) E (P 1)" using Cons.prems(1) [of 0 s] Cons.prems(2) by simp
  then show ?case unfolding p_fold.simps
  proof (rule p_post_bind)
    fix s'
    assume "P 1 s'"
    then show "p_post (p_fold f s' xs) E (P (length (x # xs)))"
      using Cons.IH [of "\<lambda>i. P (Suc i)" s'] Cons.prems(1) by fastforce
  qed
qed simp

section \<open>The tensor index\<close>

definition tensor_index :: "InputContract \<Rightarrow> nat \<Rightarrow> nat \<Rightarrow> nat \<Rightarrow> nat" where
  "tensor_index c x y channel =
     (let w = unat (ic_width c); h = unat (ic_height c); n = unat (ic_channels c) in
      case ic_layout c of Nchw \<Rightarrow> channel * (w * h) + (y * w + x) | Nhwc \<Rightarrow> (y * w + x) * n + channel)"

definition tensor_size :: "InputContract \<Rightarrow> nat" where
  "tensor_size c = unat (ic_channels c) * (unat (ic_width c) * unat (ic_height c))"

text \<open>A position of the tensor: column, row and channel.\<close>

definition inside :: "InputContract \<Rightarrow> nat \<Rightarrow> nat \<Rightarrow> nat \<Rightarrow> bool" where
  "inside c x y channel \<longleftrightarrow> x < unat (ic_width c) \<and> y < unat (ic_height c) \<and> channel < unat (ic_channels c)"

lemma pixel_less: "x < w \<Longrightarrow> y < h \<Longrightarrow> y * w + x < w * (h :: nat)"
proof -
  assume "x < w" "y < h"
  then have "y * w + x < Suc y * w" by simp
  also have "\<dots> \<le> h * w" using \<open>y < h\<close> by (intro mult_le_mono1) simp
  finally show ?thesis by (simp add: mult.commute)
qed

lemma mixed_radix_inject: "a * n + b = a' * n + b' \<Longrightarrow> b < n \<Longrightarrow> b' < n \<Longrightarrow> a = a' \<and> b = (b' :: nat)"
  by (metis add.commute add_cancel_right_left add_diff_cancel_right' div_mult_self1_is_m div_mult_self3 div_less
      mult.commute less_nat_zero_code gr_zeroI)

lemma tensor_index_less: "inside c x y channel \<Longrightarrow> tensor_index c x y channel < tensor_size c"
  using pixel_less [of x "unat (ic_width c)" y "unat (ic_height c)"]
    pixel_less [of "y * unat (ic_width c) + x" "unat (ic_width c) * unat (ic_height c)" channel "unat (ic_channels c)"]
    pixel_less [of channel "unat (ic_channels c)" "y * unat (ic_width c) + x" "unat (ic_width c) * unat (ic_height c)"]
  by (simp add: inside_def tensor_index_def tensor_size_def Let_def mult.commute split: TensorLayout.split)

lemma tensor_index_inject:
  assumes "inside c x y k" and "inside c x' y' k'" and "tensor_index c x y k = tensor_index c x' y' k'"
  shows "x = x' \<and> y = y' \<and> k = k'"
proof -
  let ?w = "unat (ic_width c)" and ?h = "unat (ic_height c)"
  have "y * ?w + x = y' * ?w + x' \<and> k = k'"
  proof (cases "ic_layout c")
    case Nchw
    then show ?thesis using assms pixel_less [of x ?w y ?h] pixel_less [of x' ?w y' ?h]
        mixed_radix_inject [of k "?w * ?h" "y * ?w + x" k' "y' * ?w + x'"]
      by (simp add: tensor_index_def inside_def Let_def)
  next
    case Nhwc
    then show ?thesis using assms
        mixed_radix_inject [of "y * ?w + x" "unat (ic_channels c)" k "y' * ?w + x'" k']
      by (simp add: tensor_index_def inside_def Let_def)
  qed
  then show ?thesis using assms mixed_radix_inject [of y ?w x y' x'] by (simp add: inside_def)
qed

lemma mixed_radix_surj: "i < a * (n :: nat) \<Longrightarrow> \<exists>q r. q < a \<and> r < n \<and> i = q * n + r"
  by (rule exI [of _ "i div n"], rule exI [of _ "i mod n"], cases "n = 0")
    (auto simp: less_mult_imp_div_less)

lemma tensor_index_surj:
  assumes "i < tensor_size c"
  obtains x y k where "inside c x y k" and "tensor_index c x y k = i"
proof -
  let ?w = "unat (ic_width c)" and ?h = "unat (ic_height c)" and ?n = "unat (ic_channels c)"
  have "\<exists>p k. p < ?h * ?w \<and> k < ?n \<and> i = (case ic_layout c of Nchw \<Rightarrow> k * (?w * ?h) + p | Nhwc \<Rightarrow> p * ?n + k)"
    using assms mixed_radix_surj [of i ?n "?w * ?h"] mixed_radix_surj [of i "?w * ?h" ?n]
    by (cases "ic_layout c") (auto simp: tensor_size_def mult.commute)
  then obtain p k where p: "p < ?h * ?w" "k < ?n"
    "i = (case ic_layout c of Nchw \<Rightarrow> k * (?w * ?h) + p | Nhwc \<Rightarrow> p * ?n + k)" by blast
  moreover from p(1) obtain y x where "y < ?h" "x < ?w" "p = y * ?w + x" using mixed_radix_surj by blast
  ultimately show ?thesis by (intro that [of x y k]) (auto simp: inside_def tensor_index_def Let_def split: TensorLayout.split)
qed


section \<open>Filling the tensor\<close>

lemma valid_contract:
  assumes "validate_input_contract c = Inr ()"
  shows "0 < unat (ic_width c)" "unat (ic_width c) \<le> 4096" "0 < unat (ic_height c)" "unat (ic_height c) \<le> 4096"
    "unat (ic_channels c) \<in> {1, 3}" "unat (ic_channels c) = 1 \<longleftrightarrow> ic_color_space c = CsGrayscale"
    "length (cn_scale (ic_normalization c)) = unat (ic_channels c)"
    "length (cn_bias (ic_normalization c)) = unat (ic_channels c)"
proof -
  note facts = assms [unfolded validate_input_contract_def try_bind_Inr]
  have "ic_width c \<noteq> 0" "ic_height c \<noteq> 0" "ic_width c \<le> 4096" "ic_height c \<le> 4096"
    and ch: "ic_channels c = expected_channels (ic_color_space c)"
    and norm: "length (cn_scale (ic_normalization c)) = unat (ic_channels c)" "length (cn_bias (ic_normalization c)) = unat (ic_channels c)"
    using facts by (auto simp: MAX_INPUT_DIMENSION_def not_less split: if_splits)
  then show "0 < unat (ic_width c)" "unat (ic_width c) \<le> 4096" "0 < unat (ic_height c)" "unat (ic_height c) \<le> 4096"
    by (simp_all add: word_le_nat_alt unat_gt_0)
  show "unat (ic_channels c) \<in> {1, 3}" "unat (ic_channels c) = 1 \<longleftrightarrow> ic_color_space c = CsGrayscale"
    unfolding ch expected_channels_def by (simp_all split: ColorSpace.split)
  show "length (cn_scale (ic_normalization c)) = unat (ic_channels c)"
    "length (cn_bias (ic_normalization c)) = unat (ic_channels c)" by (rule norm)+
qed

lemma u32_area_small: "unat w \<le> 4096 \<Longrightarrow> unat h \<le> 4096 \<Longrightarrow> u32_area w h = Some (Inr (unat w * unat h))"
proof -
  assume "unat w \<le> 4096" "unat h \<le> 4096"
  then have "unat w * unat h \<le> 4096 * 4096" by (rule mult_le_mono)
  then show ?thesis by (simp add: u32_area_def checked_mul_def unat_mul_lt)
qed

lemma u32_offset_small:
  assumes "unat y < 4096" and "unat w \<le> 4096" and "unat x < 4096"
  shows "u32_offset y w x = Some (Inr (unat y * unat w + unat x))"
proof -
  have "unat y * unat w \<le> 4096 * 4096" using assms by (intro mult_le_mono) auto
  then show ?thesis using assms(3)
    by (simp add: u32_offset_def checked_mul_def checked_add_def unat_mul_lt unat_add_lt)
qed

lemma tensor_size_le: "validate_input_contract c = Inr () \<Longrightarrow> tensor_size c \<le> 3 * (4096 * 4096)"
  unfolding tensor_size_def using valid_contract [of c] by (intro mult_le_mono) auto

lemma unat_of_column: "i < unat (w :: u32) \<Longrightarrow> unat (word_of_nat i :: u32) = i"
  using less_trans [OF _ unsigned_less [of w, where ?'a = nat], of i] by (simp add: unat_of_nat)

lemma target_index_small:
  assumes "validate_input_contract c = Inr ()" and "inside c (unat x) (unat y) k"
  shows "target_index c x y k = Some (Inr (tensor_index c (unat x) (unat y) k))"
proof -
  note v = valid_contract [OF assms(1)]
  have xy: "unat x < 4096" "unat y < 4096" using assms(2) v by (auto simp: inside_def)
  note off = u32_offset_small [OF xy(2) v(2) xy(1)] and area = u32_area_small [OF v(2,4)]
  have "tensor_index c (unat x) (unat y) k < 2 ^ 64"
    using tensor_index_less [OF assms(2)] tensor_size_le [OF assms(1)] by simp
  then show ?thesis
    by (auto simp: target_index_def tensor_index_def off area usize_checked_mul_def usize_checked_add_def Let_def
        split: TensorLayout.split)
qed

lemma tensor_count: "validate_input_contract c = Inr () \<Longrightarrow> tensor_element_count (input_dimensions c) = Inr (tensor_size c)"
proof -
  assume v: "validate_input_contract c = Inr ()"
  have "unat (ucast (ic_channels c) :: u32) = unat (ic_channels c)" by (simp add: unsigned_ucast_eq take_bit_nat_eq_self unsigned_less [of "ic_channels c", where ?'a = nat, THEN less_trans])
  moreover have "unat (ic_width c) * unat (ic_height c) \<le> 4096 * 4096" "unat (ic_channels c) * unat (ic_height c) \<le> 3 * 4096"
    using valid_contract [OF v] by (intro mult_le_mono; auto)+
  ultimately show ?thesis using tensor_size_le [OF v] valid_contract [OF v]
    by (auto simp: tensor_element_count_def input_dimensions_def usize_checked_mul_def tensor_size_def ac_simps split: TensorLayout.split)
qed

text \<open>What the sampler yields at a position, after normalization.\<close>

definition element :: "InputContract \<Rightarrow> sampler \<Rightarrow> nat \<times> nat \<times> nat \<Rightarrow> fp \<Rightarrow> bool" where
  "element c sample p v \<longleftrightarrow> (case p of (x, y, k) \<Rightarrow>
     \<exists>f q. sample (word_of_nat y) (word_of_nat x) = Inr f \<and> f k = Inr q \<and> normalized c k q = Some (Inr v))"

definition sampler_error :: "InputContract \<Rightarrow> sampler \<Rightarrow> InferenceError \<Rightarrow> bool" where
  "sampler_error c sample e \<longleftrightarrow> (\<exists>x y. x < unat (ic_width c) \<and> y < unat (ic_height c) \<and>
     (sample (word_of_nat y) (word_of_nat x) = Inl e \<or>
      (\<exists>f k. sample (word_of_nat y) (word_of_nat x) = Inr f \<and> k < unat (ic_channels c) \<and>
         (f k = Inl e \<or> (\<exists>q. f k = Inr q \<and> normalized c k q = Some (Inl e))))))"

definition fill_error :: "InputContract \<Rightarrow> (nat \<Rightarrow> bool) \<Rightarrow> sampler \<Rightarrow> InferenceError \<Rightarrow> bool" where
  "fill_error c cancel sample e \<longleftrightarrow>
     e = IE_Cancelled \<and> (\<exists>k \<le> unat (ic_height c). cancel k) \<or> sampler_error c sample e"

definition filled :: "InputContract \<Rightarrow> sampler \<Rightarrow> (nat \<times> nat \<times> nat) set \<Rightarrow> fp list \<Rightarrow> bool" where
  "filled c sample S vals \<longleftrightarrow> length vals = tensor_size c \<and> S \<subseteq> {(x, y, k). inside c x y k} \<and>
     (\<forall>(x, y, k) \<in> S. element c sample (x, y, k) (vals ! tensor_index c x y k))"

lemma normalized_total:
  "validate_input_contract c = Inr () \<Longrightarrow> k < unat (ic_channels c) \<Longrightarrow>
     normalized c k q = Some (Inl IE_InputTensorInvalid) \<or> (\<exists>v. normalized c k q = Some (Inr v) \<and> is_finite v)"
  using valid_contract [of c] by (simp add: normalized_def p_nth_def Let_def)

lemma filled_write:
  assumes "filled c sample S vals" and "inside c x y k" and "element c sample (x, y, k) v"
  shows "filled c sample (insert (x, y, k) S) (vals[tensor_index c x y k := v])"
proof -
  have "tensor_index c x y k < length vals" using assms(1,2) by (simp add: filled_def tensor_index_less)
  moreover have "vals[tensor_index c x y k := v] ! tensor_index c x' y' k' = vals ! tensor_index c x' y' k'"
    if "(x', y', k') \<in> S" "(x', y', k') \<noteq> (x, y, k)" for x' y' k'
    using that assms(1,2) tensor_index_inject [of c x y k x' y' k'] by (force simp: filled_def)
  ultimately show ?thesis using assms by (fastforce simp: filled_def)
qed

lemma sampler_errorI:
  "x < unat (ic_width c) \<Longrightarrow> y < unat (ic_height c) \<Longrightarrow> sample (word_of_nat y) (word_of_nat x) = Inr f \<Longrightarrow>
     k < unat (ic_channels c) \<Longrightarrow> f k = Inr q \<Longrightarrow> normalized c k q = Some (Inl e) \<Longrightarrow> sampler_error c sample e"
  unfolding sampler_error_def by blast

lemma channels_Suc: "S \<union> {(x, y, j) | j. j < Suc k} = insert (x, y, k) (S \<union> {(x, y, j) | j. j < k})"
  by (auto simp: less_Suc_eq)

lemma fill_pixel_post:
  assumes valid: "validate_input_contract c = Inr ()" and pos: "x < unat (ic_width c)" "y < unat (ic_height c)"
    and vals: "filled c sample S vals"
  shows "p_post (fill_pixel c (unat (ic_channels c)) sample (word_of_nat y) vals (word_of_nat x))
    (fill_error c cancel sample) (filled c sample (S \<union> {(x, y, k) | k. k < unat (ic_channels c)}))"
proof (cases "sample (word_of_nat y) (word_of_nat x)")
  case (Inl e)
  then show ?thesis using pos by (auto simp: fill_pixel_def fill_error_def sampler_error_def)
next
  case (Inr f)
  let ?x = "word_of_nat x :: u32" and ?y = "word_of_nat y :: u32" and ?n = "unat (ic_channels c)"
  have xy: "unat ?x = x" "unat ?y = y" using pos by (simp_all add: unat_of_column)
  have step: "p_post (p_bind (Some (f k)) (\<lambda>p. write_tensor_value c s ?x ?y k p))
      (fill_error c cancel sample) (filled c sample (S \<union> {(x, y, j) | j. j < Suc k}))"
    if k: "k < ?n" and s: "filled c sample (S \<union> {(x, y, j) | j. j < k}) s" for k s
  proof (cases "f k")
    case (Inl e)
    then show ?thesis using pos Inr k by (auto simp: fill_error_def sampler_error_def)
  next
    case (Inr q)
    have ins: "inside c x y k" using pos k by (simp add: inside_def)
    from normalized_total [OF valid k, of q] show ?thesis
    proof (elim disjE exE conjE)
      assume "normalized c k q = Some (Inl IE_InputTensorInvalid)"
      then show ?thesis using sampler_errorI [of x c y sample f k q, OF pos \<open>sample ?y ?x = Inr f\<close> k Inr] Inr
        by (simp add: write_tensor_value_def fill_error_def)
    next
      fix v
      assume v: "normalized c k q = Some (Inr v)" "is_finite v"
      have "element c sample (x, y, k) v" using v \<open>sample _ _ = Inr f\<close> Inr by (auto simp: element_def)
      from filled_write [OF s ins this]
      have "filled c sample (S \<union> {(x, y, j) | j. j < Suc k}) (s[tensor_index c x y k := v])"
        by (simp only: channels_Suc)
      moreover have "tensor_index c x y k < length s" using s ins by (simp add: filled_def tensor_index_less)
      moreover have "target_index c ?x ?y k = Some (Inr (tensor_index c x y k))"
        using target_index_small [OF valid, of ?x ?y k] ins by (simp add: xy)
      ultimately show ?thesis using v Inr by (simp add: write_tensor_value_def p_update_def)
    qed
  qed
  have "p_post (p_fold (\<lambda>vals k. p_bind (Some (f k)) (\<lambda>p. write_tensor_value c vals ?x ?y k p)) vals [0 ..< ?n])
     (fill_error c cancel sample) (filled c sample (S \<union> {(x, y, j) | j. j < length [0 ..< ?n]}))"
    by (rule p_post_fold [where P = "\<lambda>i. filled c sample (S \<union> {(x, y, j) | j. j < i})"])
      (use step vals in auto)
  then show ?thesis using Inr by (simp add: fill_pixel_def)
qed

lemma fill_row_post:
  assumes valid: "validate_input_contract c = Inr ()" and y: "y < unat (ic_height c)"
    and vals: "filled c sample {(x, j, k). j < y \<and> inside c x j k} vals" and before: "\<not> (\<exists>k \<le> y. cancel k)"
  shows "p_post (fill_row c cancel (unat (ic_channels c)) sample vals (word_of_nat y)) (fill_error c cancel sample)
    (\<lambda>vals. filled c sample {(x, j, k). j < Suc y \<and> inside c x j k} vals \<and> \<not> (\<exists>k \<le> Suc y. cancel k))"
proof (cases "cancel (Suc y)")
  case True
  then have "\<exists>k \<le> unat (ic_height c). cancel k" using y by (intro exI [of _ "Suc y"]) simp
  then show ?thesis using True y by (simp add: fill_row_def unat_of_column fill_error_def)
next
  case False
  let ?n = "unat (ic_width c)" and ?C = "unat (ic_channels c)"
  let ?S = "\<lambda>i. {(x, j, k). (j < y \<or> j = y \<and> x < i) \<and> inside c x j k}"
  have extend: "?S i \<union> {(i, y, k) | k. k < ?C} = ?S (Suc i)" if "i < ?n" for i
    using that y by (auto simp: inside_def less_Suc_eq)
  have "p_post (p_fold (fill_pixel c ?C sample (word_of_nat y)) vals (map word_of_nat [0 ..< ?n]))
     (fill_error c cancel sample) (filled c sample (?S (length (map word_of_nat [0 ..< ?n] :: u32 list))))"
  proof (rule p_post_fold [where P = "\<lambda>i. filled c sample (?S i)"])
    fix i s
    assume i: "i < length (map word_of_nat [0 ..< ?n] :: u32 list)" and s: "filled c sample (?S i) s"
    show "p_post (fill_pixel c ?C sample (word_of_nat y) s (map word_of_nat [0 ..< ?n] ! i)) (fill_error c cancel sample)
        (filled c sample (?S (Suc i)))"
      using fill_pixel_post [OF valid _ y s, of i cancel] extend [of i] i by simp
  qed (use vals in simp)
  moreover have "?S ?n = {(x, j, k). j < Suc y \<and> inside c x j k}" by (auto simp: inside_def less_Suc_eq)
  ultimately show ?thesis using False y before
    by (auto simp: fill_row_def unat_of_column le_Suc_eq elim!: p_post_weaken)
qed

text \<open>The tensor holds, at every index, the normalized sample of that position.\<close>

definition tensor_of :: "InputContract \<Rightarrow> sampler \<Rightarrow> InputTensor \<Rightarrow> bool" where
  "tensor_of c sample t \<longleftrightarrow> it_dimensions t = input_dimensions c \<and> length (it_values t) = tensor_size c \<and>
     (\<forall>x y k. inside c x y k \<longrightarrow> element c sample (x, y, k) (it_values t ! tensor_index c x y k))"

lemma fill_tensor_post:
  assumes valid: "validate_input_contract c = Inr ()"
  shows "p_post (fill_tensor c cancel (unat (ic_channels c)) sample) (fill_error c cancel sample)
    (\<lambda>t. tensor_of c sample t \<and> \<not> (\<exists>k \<le> unat (ic_height c). cancel k))"
proof (cases "cancel 0")
  case True
  then show ?thesis by (auto simp: fill_tensor_def fill_error_def)
next
  case False
  let ?h = "unat (ic_height c)"
  let ?P = "\<lambda>y vals. filled c sample {(x, j, k). j < y \<and> inside c x j k} vals \<and> \<not> (\<exists>k \<le> y. cancel k)"
  have "p_post (p_fold (fill_row c cancel (unat (ic_channels c)) sample) (replicate (tensor_size c) (Finite 0))
        (map word_of_nat [0 ..< ?h]))
      (fill_error c cancel sample) (?P (length (map word_of_nat [0 ..< ?h] :: u32 list)))"
  proof (rule p_post_fold [where P = ?P])
    fix i s
    assume "i < length (map word_of_nat [0 ..< ?h] :: u32 list)" and "?P i s"
    then show "p_post (fill_row c cancel (unat (ic_channels c)) sample s (map word_of_nat [0 ..< ?h] ! i))
        (fill_error c cancel sample) (?P (Suc i))"
      using fill_row_post [OF valid, of i sample s cancel] by simp
  qed (use False in \<open>auto simp: filled_def\<close>)
  moreover have "filled c sample {(x, j, k). j < ?h \<and> inside c x j k} vals \<longleftrightarrow>
      tensor_of c sample \<lparr>it_dimensions = input_dimensions c, it_values = vals\<rparr>" for vals
    by (auto simp: filled_def tensor_of_def inside_def)
  ultimately show ?thesis using False
    by (auto simp: fill_tensor_def tensor_count [OF valid] elim!: p_post_bind)
qed

section \<open>Source access\<close>

definition source_layout :: "InputContract \<Rightarrow> SourceView \<Rightarrow> bool" where
  "source_layout c img \<longleftrightarrow> 0 < unat (sv_width img) \<and> unat (sv_width img) \<le> 4096 \<and>
     0 < unat (sv_height img) \<and> unat (sv_height img) \<le> 4096 \<and>
     (ic_color_space c = CsGrayscale \<longleftrightarrow> sv_format img = FmtGray8) \<and>
     (sv_format img = FmtYuyv \<longrightarrow> even (unat (sv_width img))) \<and>
     length (sv_bytes img) = unat (sv_width img) * unat (sv_height img) *
       (case sv_format img of FmtGray8 \<Rightarrow> 1 | FmtYuyv \<Rightarrow> 2 | _ \<Rightarrow> 3)"

lemma validate_preprocess_exact:
  assumes "validate_input_contract c = Inr ()"
  shows "validate_preprocess_inputs c img =
    (if source_layout c img then Inr (unat (ic_channels c)) else Inl IE_SourceImageInvalid)"
proof -
  let ?w = "unat (sv_width img)" and ?h = "unat (sv_height img)"
  have contract: "\<not> (ic_width c = 0 \<or> ic_height c = 0 \<or> length (cn_scale (ic_normalization c)) \<noteq> unat (ic_channels c)
      \<or> length (cn_bias (ic_normalization c)) \<noteq> unat (ic_channels c))"
    using valid_contract [OF assms] by auto
  have bounds: "sv_width img = 0 \<or> sv_height img = 0 \<or> sv_width img > MAX_SOURCE_DIMENSION \<or> sv_height img > MAX_SOURCE_DIMENSION
      \<longleftrightarrow> \<not> (0 < ?w \<and> ?w \<le> 4096 \<and> 0 < ?h \<and> ?h \<le> 4096)"
    by (simp add: MAX_SOURCE_DIMENSION_def word_less_nat_alt unat_gt_0 not_le) blast
  have product: "usize_checked_mul (?w * ?h) k = Some (?w * ?h * k)" if "?w \<le> 4096" "?h \<le> 4096" "k \<le> 3" for k
  proof -
    have "?w * ?h * k \<le> 4096 * 4096 * 3" using that by (intro mult_le_mono)
    then show ?thesis by (simp add: usize_checked_mul_def)
  qed
  show ?thesis unfolding validate_preprocess_inputs_def Let_def if_not_P [OF contract] bounds source_layout_def
    by (cases "sv_format img") (simp_all add: product conj_comms)
qed

text \<open>All intermediate values of the conversion fit into \<open>i32\<close>.\<close>

lemma yuyv_fits:
  assumes "0 \<le> luma" "luma \<le> 255" "0 \<le> blue" "blue \<le> 255" "0 \<le> red" "red \<le> (255 :: int)"
  shows "\<bar>298 * max 0 (luma - 16) + 409 * (red - 128) + 128\<bar> < 2 ^ 18"
    "\<bar>298 * max 0 (luma - 16) - 100 * (blue - 128) - 208 * (red - 128) + 128\<bar> < 2 ^ 18"
    "\<bar>298 * max 0 (luma - 16) + 516 * (blue - 128) + 128\<bar> < 2 ^ 18"
  using assms by (auto simp: max_def abs_if)

lemma pixel_offset_less: "x < w \<Longrightarrow> y < h \<Longrightarrow> j < k \<Longrightarrow> (y * w + x) * k + j < w * h * (k :: nat)"
  using pixel_less [of j k "y * w + x" "w * h"] pixel_less [of x w y h] by (simp add: mult.commute)

lemma yuyv_total:
  assumes "even w" and "x < w" and "y < h" and "length (sv_bytes img) = w * h * 2" and "unat (sv_width img) = w"
    and "w \<le> 4096" and "h \<le> 4096"
  shows "\<exists>bs. yuyv_rgb img x y = Inr bs \<and> length bs = 3"
proof -
  obtain v where w: "w = 2 * v" using assms(1) by blast
  let ?p = "y * v + x div 2"
  have "x div 2 < v" using assms(2) w by linarith
  then have "?p * 4 + 3 < w * h * 2"
    using pixel_offset_less [of "x div 2" v y h 3 4] assms(3) w by simp
  then have below: "?p * 4 + 3 < length (sv_bytes img)" using assms(4) by simp
  have "w * h * 2 \<le> 4096 * 4096 * 2" using assms(6,7) by (intro mult_le_mono) auto
  with below have "?p * 4 + 3 < 4096 * 4096 * 2" unfolding assms(4) by (rule less_le_trans)
  then have "?p * 4 < 2 ^ 64" by simp
  then show ?thesis using below assms(5) w
    by (auto simp: yuyv_rgb_def source_byte_def yuyv_convert_def Let_def)
qed

lemma source_channel_total:
  assumes valid: "validate_input_contract c = Inr ()" and layout: "source_layout c img"
    and pos: "x < unat (sv_width img)" "y < unat (sv_height img)" and k: "k < unat (ic_channels c)"
  shows "\<exists>b. source_channel img x y k (ic_color_space c) = Inr (Finite (of_nat b)) \<and> b < 256"
proof -
  note v = valid_contract [OF valid]
  let ?w = "unat (sv_width img)" and ?h = "unat (sv_height img)"
  have byte: "\<exists>n. (unsigned (b :: u8) :: rat) = of_nat n \<and> n < 256" for b
    using unsigned_less [of b, where ?'a = nat] by (intro exI [of _ "unat b"]) simp
  have size: "?w * ?h \<le> 4096 * 4096" using layout by (intro mult_le_mono) (auto simp: source_layout_def)
  have p: "y * ?w + x < ?w * ?h" using pixel_less pos by blast
  have three: "(y * ?w + x) * 3 + 2 < ?w * ?h * 3" using pixel_offset_less [OF pos, of 2 3] by simp
  show ?thesis
  proof (cases "sv_format img = FmtGray8")
    case True
    then show ?thesis using layout p byte by (simp add: source_channel_def source_layout_def source_byte_def)
  next
    case False
    then have "k < 3" using v k layout by (auto simp: source_layout_def)
    have "\<exists>bs. source_rgb img (y * ?w + x) x y = Inr bs \<and> length bs = 3"
      using False layout three size p yuyv_total [OF _ pos] v
      by (cases "sv_format img") (auto simp: source_rgb_def source_layout_def source_byte_def usize_checked_mul_def Let_def)
    then show ?thesis using False layout byte \<open>k < 3\<close>
      by (cases "ic_color_space c") (auto simp: source_channel_def source_layout_def Let_def)
  qed
qed

section \<open>Interpolation\<close>

lemma interpolation_axis_bounds:
  assumes "t < e" and "e \<le> 4096" and "0 < n" and "n \<le> 4096"
  shows "case interpolation_axis t e n of (lo, hi, w) \<Rightarrow> lo < n \<and> hi < n \<and> lo \<le> hi \<and> hi \<le> lo + 1 \<and> fp_in 0 1 w"
proof -
  let ?d = "int e * 2" and ?m = "(int t * 2 + 1) * int n - int e"
  have d: "0 < ?d" "u16_or 1 ?d = ?d" using assms by (auto simp: u16_or_def)
  have r: "0 \<le> ?m mod ?d" "?m mod ?d < ?d" using d(1) by simp_all
  have "?m mod ?d < 2 ^ 16" by (rule less_le_trans [OF r(2)]) (use assms(2) in simp)
  with r have "u16_or 0 (?m mod ?d) = ?m mod ?d" by (simp add: u16_or_def)
  moreover have "(of_int (?m mod ?d) :: rat) \<le> of_int ?d" "(0 :: rat) \<le> of_int (?m mod ?d)" "(0 :: rat) < of_int ?d"
    using r d(1) by (simp_all only: of_int_le_iff of_int_0_le_iff of_int_0_less_iff less_imp_le)
  ultimately have "fp_in 0 1 (fp_div F32 (Finite (of_int (u16_or 0 (?m mod ?d)))) (Finite (of_int (u16_or 1 ?d))))"
    unfolding d(2) by (simp only: fp_div.simps) (auto intro!: rnd_unit)
  moreover have "fp_in 0 1 (Finite 0)" by (simp add: fp_in_def)
  ultimately show ?thesis using assms by (auto simp: interpolation_axis_def Let_def simp del: fp_div.simps)
qed

lemma interpolation_axis_same:
  assumes "t < n" and "n \<le> 4096"
  shows "\<exists>hi. interpolation_axis t n n = (t, hi, Finite 0)"
proof -
  have m: "(int t * 2 + 1) * int n - int n = int t * (int n * 2)" by (simp add: algebra_simps)
  have "int t * (int n * 2) div (int n * 2) = int t" using assms by simp
  then show ?thesis using assms by (auto simp: interpolation_axis_def Let_def m u16_or_def)
qed

text \<open>Blending two values with a weight of the unit interval at most doubles their range.\<close>

lemma blend_range:
  assumes "fp_in 0 1 w" and "fp_in 0 (of_nat m) a" and "fp_in 0 (of_nat m) b" and "m < 2 ^ 20"
  shows "fp_in 0 (of_nat (2 * m)) (blend w a b)"
proof -
  obtain v x y where w: "w = Finite v" "0 \<le> v" "v \<le> 1" and a: "a = Finite x" "0 \<le> x" "x \<le> of_nat m"
    and b: "b = Finite y" "0 \<le> y" "y \<le> of_nat m" using assms(1-3) by (auto simp: fp_in_Finite)
  have exact: "rnd F32 (of_nat m) = Finite (of_nat m)" "rnd F32 (of_nat (2 * m)) = Finite (of_nat (2 * m))"
    using assms(4) by (intro rnd_of_nat_small; simp)+
  have "fp_in 0 1 (rnd F32 (1 - v))" using w by (intro rnd_unit) auto
  then obtain u where u: "rnd F32 (1 - v) = Finite u" "0 \<le> u" "u \<le> 1" by (auto simp: fp_in_Finite)
  have "y * v \<le> of_nat m * 1" using w b by (intro mult_mono) auto
  then have "fp_in 0 (of_nat m) (rnd F32 (y * v))" using w b exact by (intro rnd_fp_in) auto
  then obtain z where z: "rnd F32 (y * v) = Finite z" "0 \<le> z" "z \<le> of_nat m" by (auto simp: fp_in_Finite)
  have "x * u \<le> of_nat m * 1" using a u by (intro mult_mono) auto
  then have "fp_in 0 (of_nat (2 * m)) (rnd F32 (x * u + z))" using a u z exact by (intro rnd_fp_in) auto
  then show ?thesis using u z unfolding blend_def w(1) a(1) b(1) by (simp add: fp_sub_def)
qed

lemma blend_zero: "rnd F32 x = Finite x \<Longrightarrow> is_finite b \<Longrightarrow> blend (Finite 0) (Finite x) b = Finite x"
  by (cases b) (simp_all add: blend_def fp_sub_def)

definition axis_inside :: "nat \<Rightarrow> nat \<times> nat \<times> fp \<Rightarrow> bool" where
  "axis_inside n a \<longleftrightarrow> (case a of (lo, hi, w) \<Rightarrow> lo < n \<and> hi < n \<and> fp_in 0 1 w)"

lemma bilinear_total:
  assumes "validate_input_contract c = Inr ()" and "source_layout c img" and "k < unat (ic_channels c)"
    and "axis_inside (unat (sv_width img)) ax" and "axis_inside (unat (sv_height img)) ay"
  shows "\<exists>v. bilinear img ax ay k (ic_color_space c) = Inr v \<and> fp_in 0 1020 v"
proof -
  obtain x0 x1 wx y0 y1 wy where ax: "ax = (x0, x1, wx)" and ay: "ay = (y0, y1, wy)" by (metis prod_cases3)
  note ins = assms(4,5) [unfolded axis_inside_def ax ay split_conv]
  have at: "\<exists>v. source_channel img x y k (ic_color_space c) = Inr v \<and> fp_in 0 (of_nat 255) v"
    if "x < unat (sv_width img)" "y < unat (sv_height img)" for x y
  proof -
    from source_channel_total [OF assms(1,2) that assms(3)] obtain b where
      "source_channel img x y k (ic_color_space c) = Inr (Finite (of_nat b))" "b \<le> 255" by auto
    moreover from this have "(of_nat b :: rat) \<le> of_nat 255" by (simp only: of_nat_le_iff)
    ultimately show ?thesis by (simp add: fp_in_def)
  qed
  from ins at [of x0 y0] at [of x1 y0] at [of x0 y1] at [of x1 y1] obtain a b c' d where
    vals: "source_channel img x0 y0 k (ic_color_space c) = Inr a" "source_channel img x1 y0 k (ic_color_space c) = Inr b"
      "source_channel img x0 y1 k (ic_color_space c) = Inr c'" "source_channel img x1 y1 k (ic_color_space c) = Inr d"
    and range: "fp_in 0 (of_nat 255) a" "fp_in 0 (of_nat 255) b" "fp_in 0 (of_nat 255) c'" "fp_in 0 (of_nat 255) d" by blast
  have "fp_in 0 (of_nat (2 * (2 * 255))) (blend wy (blend wx a b) (blend wx c' d))"
    using ins range by (intro blend_range) auto
  then show ?thesis using vals by (simp add: bilinear_def ax ay)
qed

section \<open>Resizing\<close>

lemma element_finite: "element c sample p v \<Longrightarrow> is_finite v"
  by (auto simp: element_def normalized_def p_bind_ok Let_def split: if_splits prod.splits)

lemma tensor_of_finite: "tensor_of c sample t \<Longrightarrow> list_all is_finite (it_values t)"
proof -
  assume t: "tensor_of c sample t"
  have "is_finite (it_values t ! i)" if "i < length (it_values t)" for i
  proof -
    from that t have "i < tensor_size c" by (simp add: tensor_of_def)
    then obtain x y k where "inside c x y k" "tensor_index c x y k = i" by (rule tensor_index_surj)
    with t have "element c sample (x, y, k) (it_values t ! i)" by (auto simp: tensor_of_def)
    then show ?thesis by (rule element_finite)
  qed
  then show ?thesis by (simp add: list_all_length)
qed

lemma normalized_error: "validate_input_contract c = Inr () \<Longrightarrow> k < unat (ic_channels c) \<Longrightarrow>
    normalized c k q = Some (Inl e) \<Longrightarrow> e = IE_InputTensorInvalid"
  using normalized_total [of c k q] by auto

lemma resize_total:
  assumes "validate_input_contract c = Inr ()"
  shows "case preprocess_image_cancellable c img cancel of
      None \<Rightarrow> False
    | Some (Inl e) \<Rightarrow> e = IE_SourceImageInvalid \<and> \<not> source_layout c img \<or>
        source_layout c img \<and> (e = IE_Cancelled \<and> (\<exists>k \<le> unat (ic_height c). cancel k) \<or> e = IE_InputTensorInvalid)
    | Some (Inr t) \<Rightarrow> source_layout c img \<and> \<not> (\<exists>k \<le> unat (ic_height c). cancel k) \<and>
        tensor_of c (resize_sampler c img) t \<and> list_all is_finite (it_values t)"
proof (cases "source_layout c img")
  case True
  have inner: "fill_error c cancel (resize_sampler c img) e \<Longrightarrow>
      e = IE_Cancelled \<and> (\<exists>k \<le> unat (ic_height c). cancel k) \<or> e = IE_InputTensorInvalid" for e
  proof -
    have axis: "axis_inside n (interpolation_axis t e n)" if "t < e" "e \<le> 4096" "0 < n" "n \<le> 4096" for t e n
      using interpolation_axis_bounds [OF that] by (auto simp: axis_inside_def)
    have "e = IE_InputTensorInvalid" if "sampler_error c (resize_sampler c img) e"
    proof -
      from that obtain x y k q where pos: "x < unat (ic_width c)" "y < unat (ic_height c)" "k < unat (ic_channels c)"
        and cases: "resize_sampler c img (word_of_nat y) (word_of_nat x) = Inl e \<or>
          (\<exists>f. resize_sampler c img (word_of_nat y) (word_of_nat x) = Inr f \<and>
             (f k = Inl e \<or> f k = Inr q \<and> normalized c k q = Some (Inl e)))"
        unfolding sampler_error_def using valid_contract(5) [OF assms] by (force simp: resize_sampler_def)
      have "axis_inside (unat (sv_width img)) (interpolation_axis x (unat (ic_width c)) (unat (sv_width img)))"
        "axis_inside (unat (sv_height img)) (interpolation_axis y (unat (ic_height c)) (unat (sv_height img)))"
        using pos valid_contract [OF assms] True by (auto intro!: axis simp: source_layout_def)
      from bilinear_total [OF assms True pos(3) this] cases normalized_error [OF assms pos(3)] pos
      show ?thesis by (auto simp: resize_sampler_def unat_of_column)
    qed
    then show "fill_error c cancel (resize_sampler c img) e \<Longrightarrow> ?thesis" by (auto simp: fill_error_def)
  qed
  show ?thesis
    using fill_tensor_post [OF assms, of cancel "resize_sampler c img"] True inner tensor_of_finite
    by (auto simp: preprocess_image_cancellable_def validate_preprocess_exact [OF assms] p_post_def
        split: option.splits sum.splits)
next
  case False
  then show ?thesis by (simp add: preprocess_image_cancellable_def validate_preprocess_exact [OF assms])
qed


text \<open>
  An image that already has the dimensions of the contract is not resampled: every element of its
  tensor is the normalized source value of that very pixel and channel.
\<close>

theorem same_size_is_identity:
  assumes "validate_input_contract c = Inr ()" and "preprocess_image c img = Some (Inr t)"
    and "sv_width img = ic_width c" and "sv_height img = ic_height c" and "inside c x y k"
  shows "\<exists>v. source_channel img x y k (ic_color_space c) = Inr v \<and>
    normalized c k v = Some (Inr (it_values t ! tensor_index c x y k))"
proof -
  note v = valid_contract [OF assms(1)] and ins = assms(5) [unfolded inside_def]
  have t: "tensor_of c (resize_sampler c img) t" and layout: "source_layout c img"
    using resize_total [OF assms(1), where img = img and cancel = "\<lambda>_. False"] assms(2) by (auto simp: preprocess_image_def)
  from ins v obtain xh yh where
    ax: "interpolation_axis x (unat (ic_width c)) (unat (sv_width img)) = (x, xh, Finite 0)"
    and ay: "interpolation_axis y (unat (ic_height c)) (unat (sv_height img)) = (y, yh, Finite 0)"
    unfolding assms(3,4) using interpolation_axis_same by blast
  have bounds: "xh < unat (sv_width img)" "yh < unat (sv_height img)"
    using interpolation_axis_bounds [of x "unat (ic_width c)" "unat (sv_width img)"] ax
      interpolation_axis_bounds [of y "unat (ic_height c)" "unat (sv_height img)"] ay ins v by (auto simp: assms(3,4))
  have at: "\<exists>r. source_channel img a b k (ic_color_space c) = Inr (Finite r) \<and> rnd F32 r = Finite r"
    if "a < unat (sv_width img)" "b < unat (sv_height img)" for a b
    using source_channel_total [OF assms(1) layout that, of k] ins by (force intro!: rnd_of_nat_small)
  have "element c (resize_sampler c img) (x, y, k) (it_values t ! tensor_index c x y k)"
    using t assms(5) by (simp add: tensor_of_def)
  then obtain f q where "resize_sampler c img (word_of_nat y) (word_of_nat x) = Inr f" "f k = Inr q"
    "normalized c k q = Some (Inr (it_values t ! tensor_index c x y k))"
    unfolding element_def split_conv by blast
  moreover have "bilinear img (x, xh, Finite 0) (y, yh, Finite 0) k (ic_color_space c) = source_channel img x y k (ic_color_space c)"
    using at [of x y] at [of xh y] at [of x yh] at [of xh yh] bounds ins by (auto simp: bilinear_def assms(3,4) blend_zero)
  ultimately show ?thesis using ins ax ay by (auto simp: resize_sampler_def unat_of_column)
qed

section \<open>Sampling a face\<close>

lemma floating_axis_total:
  assumes "is_finite q" and "0 < n" and "n \<le> 4096"
  shows "\<exists>a. floating_interpolation_axis q n = Inr a \<and> axis_inside n a"
proof -
  have "fp_in 0 (of_nat (n - 1)) (fp_clamp 0 (of_nat (n - 1)) q)"
    using assms(1) by (intro fp_clamp_in) (cases q; simp)+
  then obtain a where a: "fp_clamp 0 (of_nat (n - 1)) q = Finite a" "0 \<le> a" "a \<le> of_nat (n - 1)"
    by (auto simp: fp_in_Finite)
  have fl: "0 \<le> \<lfloor>a\<rfloor>" "\<lfloor>a\<rfloor> \<le> int (n - 1)" using a(2,3) by (auto simp: floor_le_iff)
  have rest: "0 \<le> a - of_nat (nat \<lfloor>a\<rfloor>)" "a - of_nat (nat \<lfloor>a\<rfloor>) \<le> 1"
    using fl floor_correct [of a] by (auto simp: of_nat_nat)
  then have "fp_in 0 1 (rnd F64 (a - of_nat (nat \<lfloor>a\<rfloor>)))" by (rule rnd_unit)
  then obtain w where w: "rnd F64 (a - of_nat (nat \<lfloor>a\<rfloor>)) = Finite w" "0 \<le> w" "w \<le> 1" by (auto simp: fp_in_Finite)
  have unit: "fp_in 0 1 (rnd F32 w)" using w by (intro rnd_unit)
  have lower: "nat \<lfloor>a\<rfloor> < n" using fl assms by linarith
  moreover have "nat \<lfloor>a\<rfloor> < 2 ^ 32" by (rule less_trans [OF lower]) (use assms(3) in simp)
  ultimately show ?thesis using a(1) w(1) unit assms fp_in_finite [OF unit]
    by (simp add: floating_interpolation_axis_def fp_sub_def axis_inside_def Let_def)
qed

lemma sample_total:
  assumes "validate_input_contract c = Inr ()" and "source_layout c img" and "k < unat (ic_channels c)"
    and "fp_in 0 2 nx" and "fp_in 0 2 ny"
  shows "\<exists>v. sample_normalized_channel img nx ny k (ic_color_space c) = Inr v"
proof -
  have finite: "is_finite (fp_fma F64 q (Finite (of_nat n)) (Finite (- (1 / 2))))" if "fp_in 0 2 q" "n \<le> 4096" for q n
  proof -
    note q = that(1) and n = that(2)
    obtain r where r: "q = Finite r" "0 \<le> r" "r \<le> 2" using q by (auto simp: fp_in_Finite)
    have bound: "rnd F64 (of_nat 8192) = Finite (of_nat 8192)" by (rule rnd_of_nat_small) simp
    have "(of_nat n :: rat) \<le> of_nat 4096" using n by (simp only: of_nat_le_iff)
    then have "r * of_nat n \<le> 2 * 4096" using r by (intro mult_mono) auto
    moreover have "0 \<le> r * of_nat n" using r by simp
    moreover have "rnd F64 (- 1) = Finite (- 1)" using rnd_neg [of 1 F64] by simp
    ultimately have "fp_in (- 1) 8192 (rnd F64 (r * of_nat n + - (1 / 2)))"
      using bound by (intro rnd_fp_in) auto
    then show ?thesis unfolding r(1) fp_fma.simps by (rule fp_in_finite)
  qed
  note layout = assms(2) [unfolded source_layout_def]
  obtain ax where ax: "floating_interpolation_axis (fp_fma F64 nx (Finite (of_nat (unat (sv_width img)))) (Finite (- (1 / 2))))
      (unat (sv_width img)) = Inr ax" "axis_inside (unat (sv_width img)) ax"
    using floating_axis_total [OF finite [OF assms(4)]] layout by blast
  obtain ay where ay: "floating_interpolation_axis (fp_fma F64 ny (Finite (of_nat (unat (sv_height img)))) (Finite (- (1 / 2))))
      (unat (sv_height img)) = Inr ay" "axis_inside (unat (sv_height img)) ay"
    using floating_axis_total [OF finite [OF assms(5)]] layout by blast
  from bilinear_total [OF assms(1-3) ax(2) ay(2)] ax(1) ay(1) show ?thesis
    by (auto simp: sample_normalized_channel_def Let_def simp del: fp_fma.simps)
qed

lemma pixel_center_unit:
  assumes "unat t < unat e" and "unat e \<le> 4096"
  shows "fp_in 0 1 (pixel_center t e)"
proof -
  have "fp_in 0 1 (fp_div F64 (fp_add F64 (Finite (of_nat i)) (Finite (1 / 2))) (Finite (of_nat n)))"
    if i: "i < n" and n: "n \<le> 4096" for i n
  proof -
    have "rnd F64 (of_nat n) = Finite (of_nat n)" using n by (intro rnd_of_nat_small) simp
    moreover have "(of_nat (Suc i) :: rat) \<le> of_nat n" using i by (simp only: of_nat_le_iff Suc_le_eq)
    ultimately have "fp_in 0 (of_nat n) (rnd F64 (of_nat i + 1 / 2))" by (intro rnd_fp_in) auto
    then obtain s where s: "rnd F64 (of_nat i + 1 / 2) = Finite s" "0 \<le> s" "s \<le> of_nat n"
      by (auto simp: fp_in_Finite)
    then have "fp_in 0 1 (fp_div F64 (Finite s) (Finite (of_nat n)))" using i by (auto intro!: rnd_unit)
    then show ?thesis using s(1) by (simp del: fp_div.simps)
  qed
  with assms show ?thesis unfolding pixel_center_def by blast
qed

lemma region_coordinate:
  assumes "fp_in 0 1 q" and "is_finite l" and "is_finite width" and "\<not> fp_lt l (Finite 0)" and "\<not> fp_le width (Finite 0)"
    and "\<not> fp_lt (Finite 1) (fp_add F64 l width)"
  shows "fp_in 0 2 (fp_fma F64 q width l)"
proof -
  obtain c a v where c: "q = Finite c" "0 \<le> c" "c \<le> 1" and a: "l = Finite a" "0 \<le> a" and v: "width = Finite v" "0 < v"
    using assms(1-5) by (auto simp: fp_in_Finite elim!: is_finiteE)
  have two: "rnd F64 2 = Finite 2" using rnd_of_nat_small [of 2 F64] by simp
  have "a + v < 2"
  proof (rule ccontr)
    assume "\<not> a + v < 2"
    then have "fp_le (rnd F64 2) (rnd F64 (a + v))" by (intro rnd_mono) simp
    then have le: "fp_le (Finite 2) (rnd F64 (a + v))" and nlt: "\<not> fp_lt (Finite 1) (rnd F64 (a + v))"
      using assms(6) by (simp_all add: two a v)
    show False
    proof (cases "rnd F64 (a + v)")
      case (Infinity s)
      with le nlt show ?thesis by (cases s) simp_all
    qed (use le nlt in simp_all)
  qed
  moreover have "c * v \<le> 1 * v" using c v by (intro mult_right_mono) auto
  moreover have "0 \<le> c * v" using c v by simp
  ultimately show ?thesis unfolding c(1) a(1) v(1) fp_fma.simps using a two by (intro rnd_fp_in) auto
qed

text \<open>A sampler whose channels never fail.\<close>

definition channels_total :: "InputContract \<Rightarrow> sampler \<Rightarrow> bool" where
  "channels_total c sample \<longleftrightarrow> (\<forall>x y f k. x < unat (ic_width c) \<longrightarrow> y < unat (ic_height c) \<longrightarrow> k < unat (ic_channels c) \<longrightarrow>
     sample (word_of_nat y) (word_of_nat x) = Inr f \<longrightarrow> (\<exists>q. f k = Inr q))"

lemma fill_error_cases:
  assumes "validate_input_contract c = Inr ()" and "channels_total c sample" and "fill_error c cancel sample e"
  shows "e = IE_Cancelled \<and> (\<exists>k \<le> unat (ic_height c). cancel k) \<or> e = IE_InputTensorInvalid \<or> (\<exists>x y. sample y x = Inl e)"
proof -
  have "e = IE_InputTensorInvalid \<or> (\<exists>x y. sample y x = Inl e)" if "sampler_error c sample e"
  proof -
    from that obtain x y f k q where pos: "x < unat (ic_width c)" "y < unat (ic_height c)"
      and cases: "sample (word_of_nat y) (word_of_nat x) = Inl e \<or>
        sample (word_of_nat y) (word_of_nat x) = Inr f \<and> k < unat (ic_channels c) \<and>
          (f k = Inl e \<or> f k = Inr q \<and> normalized c k q = Some (Inl e))"
      unfolding sampler_error_def by blast
    from cases show ?thesis
    proof (elim disjE conjE)
      assume "sample (word_of_nat y) (word_of_nat x) = Inr f" "k < unat (ic_channels c)" "f k = Inl e"
      then show ?thesis using assms(2) pos unfolding channels_total_def by (metis sum.distinct(1))
    qed (use normalized_error [OF assms(1)] in blast)+
  qed
  then show ?thesis using assms(3) by (auto simp: fill_error_def)
qed

lemma region_channels_total:
  assumes "validate_input_contract c = Inr ()" and "source_layout c img"
    and "is_finite l" "is_finite w" "\<not> fp_lt l (Finite 0)" "\<not> fp_le w (Finite 0)" "\<not> fp_lt (Finite 1) (fp_add F64 l w)"
    and "is_finite t" "is_finite h" "\<not> fp_lt t (Finite 0)" "\<not> fp_le h (Finite 0)" "\<not> fp_lt (Finite 1) (fp_add F64 t h)"
  shows "channels_total c (region_sampler c img l t w h)"
proof -
  have "\<exists>q. sample_normalized_channel img (fp_fma F64 (pixel_center (word_of_nat x) (ic_width c)) w l)
      (fp_fma F64 (pixel_center (word_of_nat y) (ic_height c)) h t) k (ic_color_space c) = Inr q"
    if "x < unat (ic_width c)" "y < unat (ic_height c)" "k < unat (ic_channels c)" for x y k
    using that valid_contract [OF assms(1)]
    by (intro sample_total [OF assms(1,2)] region_coordinate pixel_center_unit assms) (simp_all add: unat_of_column)
  then show ?thesis unfolding channels_total_def region_sampler_def by blast
qed

lemma aligned_channels_total:
  assumes "validate_input_contract c = Inr ()" and "source_layout c img"
  shows "channels_total c (aligned_sampler c img T)"
proof -
  have "fp_in 0 1 q \<Longrightarrow> fp_in 0 2 q" for q by (auto simp: fp_in_Finite)
  then show ?thesis using sample_total [OF assms]
    by (auto simp: channels_total_def aligned_sampler_def result_simps split: if_splits)
qed

lemma st_inverse_error: "st_inverse t p = Inl e \<Longrightarrow> e = IE_FaceAlignmentInvalid"
  by (auto simp: st_inverse_def Let_def split: if_splits)

lemma aligned_sampler_error: "aligned_sampler c img T y x = Inl e \<Longrightarrow> e \<in> {IE_FaceAlignmentInvalid, IE_FaceAlignmentOutsideImage}"
  by (auto simp: aligned_sampler_def result_simps dest: st_inverse_error split: if_splits)

lemma alignment_source_error: "alignment_source l is = Inl e \<Longrightarrow> e = IE_FaceAlignmentInvalid"
proof -
  have "try_fold (\<lambda>ps i. if unat i < length (il_points l)
        then Inr (ps @ [(nl_x (il_points l ! unat i), nl_y (il_points l ! unat i))])
        else Inl IE_FaceAlignmentInvalid) s is = Inl e \<Longrightarrow> e = IE_FaceAlignmentInvalid" for s
    by (induction "is" arbitrary: s) (auto simp: result_simps split: if_splits)
  then show "alignment_source l is = Inl e \<Longrightarrow> e = IE_FaceAlignmentInvalid" by (simp add: alignment_source_def)
qed

lemma st_fit_error: "st_fit source destination m = Inl e \<Longrightarrow> e \<in> {IE_FaceAlignmentInvalid, IE_FaceAlignmentResidualExceeded}"
  by (auto simp: st_fit_def alignment_residual_def Let_def result_simps split: if_splits prod.splits)

lemma region_post:
  assumes valid: "validate_input_contract c = Inr ()"
  shows "p_post (preprocess_image_region c img r cancel)
    (\<lambda>e. e \<in> {IE_SourceImageInvalid, IE_FaceRegionInvalid, IE_Cancelled, IE_InputTensorInvalid})
    (\<lambda>t. \<not> (\<exists>k \<le> unat (ic_height c). cancel k) \<and>
      tensor_of c (region_sampler c img (nb_left r) (nb_top r) (fp_sub F32 (nb_right r) (nb_left r))
        (fp_sub F32 (nb_bottom r) (nb_top r))) t)" (is "p_post _ ?E ?Q")
proof (cases "source_layout c img")
  case True
  let ?l = "nb_left r" and ?t = "nb_top r" and ?w = "fp_sub F32 (nb_right r) (nb_left r)" and ?h = "fp_sub F32 (nb_bottom r) (nb_top r)"
  define bad where "bad \<longleftrightarrow> \<not> is_finite ?l \<or> \<not> is_finite ?t \<or> \<not> is_finite ?w \<or> \<not> is_finite ?h
           \<or> fp_lt ?l (Finite 0) \<or> fp_lt ?t (Finite 0) \<or> fp_le ?w (Finite 0) \<or> fp_le ?h (Finite 0)
           \<or> fp_lt (Finite 1) (fp_add F64 ?l ?w) \<or> fp_lt (Finite 1) (fp_add F64 ?t ?h)"
  have eq: "preprocess_image_region c img r cancel = (if bad then Some (Inl IE_FaceRegionInvalid)
      else fill_tensor c cancel (unat (ic_channels c)) (region_sampler c img ?l ?t ?w ?h))"
    using True unfolding preprocess_image_region_def validate_preprocess_exact [OF valid] bad_def by (simp add: Let_def)
  show ?thesis
  proof (cases bad)
    case False
    then have "channels_total c (region_sampler c img ?l ?t ?w ?h)"
      unfolding bad_def by (intro region_channels_total [OF valid True]) blast+
    from fill_error_cases [OF valid this]
    have "p_post (fill_tensor c cancel (unat (ic_channels c)) (region_sampler c img ?l ?t ?w ?h)) ?E ?Q"
      by (intro p_post_weaken [OF fill_tensor_post [OF valid]]) (auto simp: region_sampler_def)
    then show ?thesis using False by (simp add: eq)
  qed (simp add: eq)
qed (simp add: preprocess_image_region_def validate_preprocess_exact [OF valid])

lemma aligned_post:
  assumes valid: "validate_input_contract c = Inr ()"
  shows "p_post (preprocess_aligned_image c a img l cancel)
    (\<lambda>e. e \<in> {IE_SourceImageInvalid, IE_FaceAlignmentIncompatible, IE_FaceAlignmentInvalid,
        IE_FaceAlignmentResidualExceeded, IE_FaceAlignmentOutsideImage, IE_Cancelled, IE_InputTensorInvalid})
    (\<lambda>t. \<not> (\<exists>k \<le> unat (ic_height c). cancel k) \<and>
      il_compatibility_sha256 l = fa_landmarks_compatibility_sha256 a \<and>
      (\<exists>source T. alignment_source l (fa_landmark_indices a) = Inr source \<and>
         st_fit source (map (\<lambda>p. (np_x p, np_y p)) (fa_reference_points a)) (fa_maximum_normalized_residual a) = Inr T \<and>
         tensor_of c (aligned_sampler c img T) t))" (is "p_post _ ?E ?Q")
proof (cases "source_layout c img \<and> il_compatibility_sha256 l = fa_landmarks_compatibility_sha256 a")
  case True
  have eq: "preprocess_aligned_image c a img l cancel =
      p_bind (Some (alignment_source l (fa_landmark_indices a))) (\<lambda>source.
      p_bind (Some (st_fit source (map (\<lambda>p. (np_x p, np_y p)) (fa_reference_points a)) (fa_maximum_normalized_residual a))) (\<lambda>T.
      fill_tensor c cancel (unat (ic_channels c)) (aligned_sampler c img T)))"
    using True by (simp add: preprocess_aligned_image_def validate_preprocess_exact [OF valid])
  have fill: "p_post (fill_tensor c cancel (unat (ic_channels c)) (aligned_sampler c img T)) ?E
      (\<lambda>t. tensor_of c (aligned_sampler c img T) t \<and> \<not> (\<exists>k \<le> unat (ic_height c). cancel k))" for T
    by (rule p_post_weaken [OF fill_tensor_post [OF valid]])
      (use fill_error_cases [OF valid aligned_channels_total [OF valid]] True aligned_sampler_error in blast)+
  show ?thesis
  proof (cases "alignment_source l (fa_landmark_indices a)")
    case (Inl e)
    then show ?thesis using alignment_source_error [OF Inl] by (simp add: eq)
  next
    case (Inr source)
    show ?thesis
    proof (cases "st_fit source (map (\<lambda>p. (np_x p, np_y p)) (fa_reference_points a)) (fa_maximum_normalized_residual a)")
      case (Inl e)
      then show ?thesis using Inr st_fit_error [OF Inl] by (auto simp: eq)
    next
      case fit: (Inr T)
      then show ?thesis using Inr True by (auto simp: eq intro: p_post_weaken [OF fill [of T]])
    qed
  qed
qed (auto simp: preprocess_aligned_image_def validate_preprocess_exact [OF valid])

text \<open>
  Sampling a face is total: with a contract a manifest may contain, whatever the image, the region,
  the landmarks and the moment of a cancellation, neither routine indexes out of bounds nor
  overflows, and their errors are the listed ones. A tensor cut from a region holds the samples of
  that region; an aligned tensor comes from landmarks of the contract's model through a similarity
  that fits them, and every one of its target pixels maps into the image.
\<close>

theorem face_sampling_total:
  assumes "validate_input_contract c = Inr ()"
  shows "(case preprocess_image_region c img r cancel of
      None \<Rightarrow> False
    | Some (Inl e) \<Rightarrow> e \<in> {IE_SourceImageInvalid, IE_FaceRegionInvalid, IE_Cancelled, IE_InputTensorInvalid}
    | Some (Inr t) \<Rightarrow> \<not> (\<exists>k \<le> unat (ic_height c). cancel k) \<and>
        tensor_of c (region_sampler c img (nb_left r) (nb_top r) (fp_sub F32 (nb_right r) (nb_left r))
          (fp_sub F32 (nb_bottom r) (nb_top r))) t) \<and>
    (case preprocess_aligned_image c a img l cancel of
      None \<Rightarrow> False
    | Some (Inl e) \<Rightarrow> e \<in> {IE_SourceImageInvalid, IE_FaceAlignmentIncompatible, IE_FaceAlignmentInvalid,
        IE_FaceAlignmentResidualExceeded, IE_FaceAlignmentOutsideImage, IE_Cancelled, IE_InputTensorInvalid}
    | Some (Inr t) \<Rightarrow> \<not> (\<exists>k \<le> unat (ic_height c). cancel k) \<and>
        il_compatibility_sha256 l = fa_landmarks_compatibility_sha256 a \<and>
        (\<exists>source T. alignment_source l (fa_landmark_indices a) = Inr source \<and>
           st_fit source (map (\<lambda>p. (np_x p, np_y p)) (fa_reference_points a)) (fa_maximum_normalized_residual a) = Inr T \<and>
           tensor_of c (aligned_sampler c img T) t))"
  using region_post [OF assms, of img r cancel] aligned_post [OF assms, of a img l cancel]
  unfolding p_post_def by blast

section \<open>Examples\<close>

definition ex_contract :: InputContract where
  "ex_contract = ex_input\<lparr>ic_width := 1, ic_height := 1\<rparr>"

definition ex_pixel :: SourceView where
  "ex_pixel = \<lparr>sv_width = 1, sv_height = 1, sv_format = FmtGray8, sv_bytes = [128]\<rparr>"

lemma ex_contract_valid: "validate_input_contract ex_contract = Inr ()"
  by (simp add: ex_contract_def ex_input_def validate_input_contract_def validate_tensor_name_def MAX_ARTIFACT_LABEL_LENGTH_def
      is_ascii_alphanumeric_def MAX_INPUT_DIMENSION_def expected_channels_def validate_dimensions_def input_dimensions_def
      MAX_TENSOR_RANK_def dimension_product_def checked_mul_def MAX_TENSOR_ELEMENTS_def fp_eq_def)

lemma ex_preprocessed:
  "preprocess_image ex_contract ex_pixel = Some (Inr \<lparr>it_dimensions = [1, 1, 1, 1], it_values = [Finite 128]\<rparr>)"
proof -
  have "rnd F32 128 = Finite 128" using rnd_of_nat_small [of 128 F32] by simp
  then show ?thesis
    by (simp add: preprocess_image_def preprocess_image_cancellable_def validate_preprocess_inputs_def ex_contract_def ex_input_def
        ex_pixel_def MAX_SOURCE_DIMENSION_def fill_tensor_def tensor_element_count_def input_dimensions_def usize_checked_mul_def
        fill_row_def fill_pixel_def resize_sampler_def interpolation_axis_def bilinear_def source_channel_def source_byte_def
        blend_def fp_sub_def write_tensor_value_def normalized_def p_nth_def target_index_def u32_area_def u32_offset_def
        checked_mul_def checked_add_def usize_checked_add_def p_update_def)
qed


theorem same_size_is_identity_witness:
  "\<exists>v. source_channel ex_pixel 0 0 0 CsGrayscale = Inr v \<and> normalized ex_contract 0 v = Some (Inr (Finite 128))"
  using same_size_is_identity [OF ex_contract_valid ex_preprocessed, of 0 0 0]
  by (simp add: ex_contract_def ex_input_def ex_pixel_def inside_def tensor_index_def)

theorem face_sampling_total_witness:
  "preprocess_image_region ex_contract ex_pixel (fr_bounds ex_region) (\<lambda>k. k = 1) \<noteq> None"
proof
  assume "preprocess_image_region ex_contract ex_pixel (fr_bounds ex_region) (\<lambda>k. k = 1) = None"
  with conjunct1 [OF face_sampling_total [OF ex_contract_valid, where img = ex_pixel and r = "fr_bounds ex_region" and cancel = "\<lambda>k. k = 1"]]
  show False by simp
qed

end
