(* ===== verification/Onnx.thy ===== *)
theory Onnx
  imports Preprocess Disk
begin

text \<open>
  Sessions of the ONNX runtime (\<open>crates/faceauth-inference/src/lib.rs\<close>): resource policy, trust checks
  on the library and the model, the runtime chosen once per process, the contract between graph and
  manifest, and one bounded run. The \<open>ort\<close> crate is not part of the repository: what it answers (the
  loaded graph, the tensors of a run, its failures) are arguments, as are the answers of the file
  system and of the clock.
\<close>

section \<open>Configuration and trust\<close>

definition ABSOLUTE_MAX_MODEL_BYTES :: u64 where
  "ABSOLUTE_MAX_MODEL_BYTES = 1024 * 1024 * 1024"

definition ABSOLUTE_MAX_RUN_MILLIS :: u32 where
  "ABSOLUTE_MAX_RUN_MILLIS = 5000"

record RuntimeConfig =
  rc_library_path :: string
  rc_intra_threads :: nat
  rc_inter_threads :: nat
  rc_max_model_bytes :: u64
  rc_max_run_millis :: u32

definition runtime_config_validate :: "RuntimeConfig \<Rightarrow> InferenceError + unit" where
  "runtime_config_validate c =
     (if rc_library_path c = [] \<or> \<not> in_range 1 16 (rc_intra_threads c) \<or> rc_inter_threads c \<noteq> 1
         \<or> \<not> in_range 1 ABSOLUTE_MAX_MODEL_BYTES (rc_max_model_bytes c)
         \<or> \<not> in_range 1 ABSOLUTE_MAX_RUN_MILLIS (rc_max_run_millis c)
      then Inl IE_InvalidConfig else Inr ())"

text \<open>The answers of \<open>fs::canonicalize\<close> and \<open>fs::metadata\<close>.\<close>

record FileFacts =
  ff_kind :: FileKind
  ff_uid :: u32
  ff_mode :: u32
  ff_len :: u64

record FileAnswers =
  os_canonicalize :: "string \<Rightarrow> IoError + Path"
  os_metadata :: "Path \<Rightarrow> IoError + FileFacts"

text \<open>The mask \<open>0o022\<close>.\<close>

definition writable_by_others :: "u32 \<Rightarrow> bool" where
  "writable_by_others mode \<longleftrightarrow> mode AND 0x12 \<noteq> 0"

definition ancestor_step :: "FileAnswers \<Rightarrow> unit \<Rightarrow> Path \<Rightarrow> InferenceError + unit" where
  "ancestor_step os _ p =
     try_bind (map_err IE_Io (os_metadata os p)) (\<lambda>m.
       if ff_kind m \<noteq> FkDirectory \<or> ff_uid m \<noteq> 0 \<or> writable_by_others (ff_mode m)
       then Inl (IE_UnsafeParentDirectory p (ff_uid m) (ff_mode m AND 0x1FF)) else Inr ())"

definition verify_trusted_file :: "FileAnswers \<Rightarrow> Path \<Rightarrow> u64 option \<Rightarrow> InferenceError + unit" where
  "verify_trusted_file os p max_bytes =
     try_bind (map_err IE_Io (os_metadata os p)) (\<lambda>m.
     if ff_kind m \<noteq> FkRegular then Inl (IE_NotRegularFile p)
     else if ff_uid m \<noteq> 0 \<or> writable_by_others (ff_mode m)
     then Inl (IE_UnsafeFilePermissions p (ff_uid m) (ff_mode m AND 0x1FF))
     else try_bind (try_fold (ancestor_step os) () (tl (ancestors p))) (\<lambda>_.
          case max_bytes of
            None \<Rightarrow> Inr ()
          | Some bound \<Rightarrow> if ff_len m = 0 \<or> ff_len m > bound then Inl (IE_ModelSizeInvalid (ff_len m) bound)
                            else Inr ()))"

definition verify_runtime_installation :: "FileAnswers \<Rightarrow> RuntimeConfig \<Rightarrow> InferenceError + unit" where
  "verify_runtime_installation os c =
     try_bind (runtime_config_validate c) (\<lambda>_.
     try_bind (map_err IE_Io (os_canonicalize os (rc_library_path c))) (\<lambda>p.
     verify_trusted_file os p None))"

text \<open>
  What is read of a model: the result of opening it, whether it is a regular file, and the chunks.
  \<open>verify\<close> stands for \<open>ModelManifest::verify_file\<close> with its parameters.
\<close>

definition verify_model_installation ::
  "FileAnswers \<Rightarrow> (Path \<Rightarrow> ModelError + unit) \<Rightarrow> RuntimeConfig \<Rightarrow> string \<Rightarrow> InferenceError + unit" where
  "verify_model_installation os verify c model_path =
     try_bind (runtime_config_validate c) (\<lambda>_.
     try_bind (map_err IE_Io (os_canonicalize os model_path)) (\<lambda>p.
     try_bind (verify_trusted_file os p (Some (rc_max_model_bytes c))) (\<lambda>_.
     map_err IE_Model (verify p))))"

section \<open>The runtime library\<close>

text \<open>
  The static \<open>RUNTIME_LIBRARY\<close>: its mutex may be poisoned. \<open>init\<close> is the answer of \<open>ort::init_from\<close>
  and \<open>commit\<close>.
\<close>

record RuntimeState =
  rt_poisoned :: bool
  rt_library :: "Path option"

definition initialize_runtime ::
  "FileAnswers \<Rightarrow> nat + bool \<Rightarrow> string \<Rightarrow> RuntimeState \<Rightarrow> RuntimeState \<times> (InferenceError + unit)" where
  "initialize_runtime os init path s =
     (case map_err IE_Io (os_canonicalize os path) of
        Inl e \<Rightarrow> (s, Inl e)
      | Inr canonical \<Rightarrow>
          (case verify_trusted_file os canonical None of
             Inl e \<Rightarrow> (s, Inl e)
           | Inr _ \<Rightarrow>
               if rt_poisoned s then (s, Inl IE_RuntimeStatePoisoned)
               else (case rt_library s of
                       Some existing \<Rightarrow>
                         (s, if existing = canonical then Inr () else Inl (IE_RuntimeAlreadyInitialized existing canonical))
                     | None \<Rightarrow>
                         (case init of
                            Inl e \<Rightarrow> (s, Inl (IE_Ort e))
                          | Inr committed \<Rightarrow>
                              if \<not> committed then (s, Inl IE_RuntimeAlreadyInitializedExternally)
                              else (s\<lparr>rt_library := Some canonical\<rparr>, Inr ())))))"

section \<open>Graph and manifest\<close>

datatype OrtElement = OrtFloat32 | OrtOther nat

datatype ValueType = VtTensor OrtElement "int list" | VtOther

record Graph =
  gr_inputs :: "(string \<times> ValueType) list"
  gr_outputs :: "(string \<times> ValueType) list"

definition validate_tensor_contract ::
  "string \<Rightarrow> OrtElement \<Rightarrow> int list \<Rightarrow> string \<Rightarrow> int list \<Rightarrow> TensorElementType \<Rightarrow> InferenceError + unit" where
  "validate_tensor_contract actual_name actual_type actual_dimensions expected_name expected_dimensions expected_type =
     (if actual_name \<noteq> expected_name then Inl IE_GraphContractMismatch
      else let element_matches = (case (expected_type, actual_type) of (Float32, OrtFloat32) \<Rightarrow> True | _ \<Rightarrow> False) in
        if \<not> element_matches \<or> actual_dimensions \<noteq> expected_dimensions then Inl IE_GraphContractMismatch else Inr ())"

definition validate_outlet ::
  "string \<Rightarrow> ValueType \<Rightarrow> string \<Rightarrow> int list \<Rightarrow> TensorElementType \<Rightarrow> InferenceError + unit" where
  "validate_outlet actual_name actual_type expected_name expected_dimensions expected_type =
     (case actual_type of
        VtTensor ty shape \<Rightarrow> validate_tensor_contract actual_name ty shape expected_name expected_dimensions expected_type
      | VtOther \<Rightarrow> Inl IE_GraphContractMismatch)"

definition manifest_inputs :: "ModelManifest \<Rightarrow> InputContract list" where
  "manifest_inputs m = mm_input m # mm_additional_inputs m"

definition validate_session_contract :: "ModelManifest \<Rightarrow> Graph \<Rightarrow> InferenceError + unit" where
  "validate_session_contract m g =
     (if length (gr_inputs g) \<noteq> length (manifest_inputs m) \<or> length (gr_outputs g) \<noteq> length (mm_outputs m)
      then Inl IE_GraphContractMismatch
      else try_bind (try_fold (\<lambda>_ expected.
             try_bind (ok_or (find (\<lambda>i. fst i = ic_name expected) (gr_inputs g)) IE_GraphContractMismatch) (\<lambda>i.
             validate_outlet (fst i) (snd i) (ic_name expected) (map uint (input_dimensions expected)) (ic_element_type expected)))
             () (manifest_inputs m)) (\<lambda>_.
           try_fold (\<lambda>_ (actual, expected).
             validate_outlet (fst actual) (snd actual) (oc_name expected) (map uint (oc_dimensions expected)) (oc_element_type expected))
             () (zip (gr_outputs g) (mm_outputs m))))"

record OnnxSession =
  on_graph :: Graph
  on_manifest :: ModelManifest
  on_compatibility_sha256 :: string
  on_max_run_millis :: u32

text \<open>
  \<open>load\<close>: \<open>verify\<close> and \<open>compatibility\<close> are the operations of the manifest, \<open>commit\<close> is the session
  builder's answer for a model file.
\<close>

definition onnx_load ::
  "FileAnswers \<Rightarrow> (Path \<Rightarrow> ModelError + unit) \<Rightarrow> (ModelError + string) \<Rightarrow> nat + bool \<Rightarrow> (Path \<Rightarrow> nat + Graph) \<Rightarrow>
   RuntimeConfig \<Rightarrow> ModelManifest \<Rightarrow> string \<Rightarrow> RuntimeState \<Rightarrow> RuntimeState \<times> (InferenceError + OnnxSession)" where
  "onnx_load os verify compatibility init commit c m model_path s =
     (case try_bind (runtime_config_validate c) (\<lambda>_.
           try_bind (map_err IE_Io (os_canonicalize os model_path)) (\<lambda>p.
           try_bind (verify_trusted_file os p (Some (rc_max_model_bytes c))) (\<lambda>_.
           try_bind (map_err IE_Model (verify p)) (\<lambda>_. Inr p)))) of
        Inl e \<Rightarrow> (s, Inl e)
      | Inr p \<Rightarrow>
          (case initialize_runtime os init (rc_library_path c) s of
             (s', Inl e) \<Rightarrow> (s', Inl e)
           | (s', Inr _) \<Rightarrow>
               (s', try_bind (map_err IE_Ort (commit p)) (\<lambda>g.
                    try_bind (validate_session_contract m g) (\<lambda>_.
                    try_bind (map_err IE_Model compatibility) (\<lambda>digest.
                    Inr \<lparr>on_graph = g, on_manifest = m, on_compatibility_sha256 = digest,
                         on_max_run_millis = rc_max_run_millis c\<rparr>))))))"

section \<open>Runs\<close>

definition manifest_input :: "ModelManifest \<Rightarrow> string \<Rightarrow> InputContract option" where
  "manifest_input m name = find (\<lambda>c. ic_name c = name) (manifest_inputs m)"

definition named_input_step ::
  "(string \<times> InputTensor) list \<Rightarrow> (InputContract \<times> InputTensor) list \<Rightarrow> InputContract \<Rightarrow>
   InferenceError + (InputContract \<times> InputTensor) list" where
  "named_input_step inputs acc c =
     (case filter (\<lambda>i. fst i = ic_name c) inputs of
        [] \<Rightarrow> Inl IE_InputTensorInvalid
      | (_, t) # others \<Rightarrow>
          if others \<noteq> [] \<or> it_dimensions t \<noteq> input_dimensions c \<or> list_ex (\<lambda>v. \<not> is_finite v) (it_values t)
          then Inl IE_InputTensorInvalid else Inr (acc @ [(c, t)]))"

definition validate_named_inputs ::
  "ModelManifest \<Rightarrow> (string \<times> InputTensor) list \<Rightarrow> InferenceError + (InputContract \<times> InputTensor) list" where
  "validate_named_inputs m inputs =
     (if length inputs \<noteq> 1 + length (mm_additional_inputs m) then Inl IE_InputTensorInvalid
      else try_fold (named_input_step inputs) [] (manifest_inputs m))"

text \<open>
  The answers of one run: views of the inputs, run options, the watchdog thread (spawned; panicked,
  or its verdict), the elapsed time in milliseconds, and the result of the graph: for each output
  name an absent value, or its shape and values, or a failure to extract them.
\<close>

record RunAnswers =
  ra_view :: "InputTensor \<Rightarrow> nat option"
  ra_options :: "nat option"
  ra_spawn :: "IoError option"
  ra_watchdog :: "bool option"
  ra_elapsed_millis :: nat
  ra_result :: "nat + (string \<Rightarrow> (nat + int list \<times> fp list) option)"

text \<open>\<open>u32::try_from\<close> of an \<open>i64\<close>.\<close>

definition u32_try_from :: "int \<Rightarrow> InferenceError + u32" where
  "u32_try_from d = (if 0 \<le> d \<and> d < 2 ^ 32 then Inr (word_of_int d) else Inl IE_OutputTensorInvalid)"

definition copy_output ::
  "(string \<Rightarrow> (nat + int list \<times> fp list) option) \<Rightarrow> OutputTensor list \<Rightarrow> OutputContract \<Rightarrow> InferenceError + OutputTensor list" where
  "copy_output outputs copied expected =
     try_bind (ok_or (outputs (oc_name expected)) IE_GraphContractMismatch) (\<lambda>v.
     try_bind (map_err IE_Ort v) (\<lambda>(shape, vals).
     try_bind (try_fold (\<lambda>ds d. try_bind (u32_try_from d) (\<lambda>x. Inr (ds @ [x]))) [] shape) (\<lambda>dims.
     if dims \<noteq> oc_dimensions expected then Inl IE_OutputTensorInvalid
     else try_bind (tensor_element_count (oc_dimensions expected)) (\<lambda>count.
          if length vals \<noteq> count \<or> list_ex (\<lambda>x. \<not> is_finite x) vals then Inl IE_OutputTensorInvalid
          else Inr (copied @ [\<lparr>ot_name = oc_name expected, ot_dimensions = dims, ot_values = vals\<rparr>])))))"

definition run_named ::
  "RunAnswers \<Rightarrow> OnnxSession \<Rightarrow> (string \<times> InputTensor) list \<Rightarrow> InferenceError + OutputTensor list" where
  "run_named a s inputs =
     try_bind (validate_named_inputs (on_manifest s) inputs) (\<lambda>ordered.
     try_bind (try_fold (\<lambda>_ (c, t). case ra_view a t of None \<Rightarrow> Inr () | Some e \<Rightarrow> Inl (IE_Ort e)) () ordered) (\<lambda>_.
     case ra_options a of
       Some e \<Rightarrow> Inl (IE_Ort e)
     | None \<Rightarrow>
         (case ra_spawn a of
            Some e \<Rightarrow> Inl (IE_Io e)
          | None \<Rightarrow>
              try_bind (ok_or (ra_watchdog a) IE_WatchdogPanicked) (\<lambda>expired.
              if expired \<or> ra_elapsed_millis a \<ge> unat (on_max_run_millis s) then Inl IE_RunDeadlineExceeded
              else try_bind (map_err IE_Ort (ra_result a)) (\<lambda>outputs.
                   try_fold (copy_output outputs) [] (mm_outputs (on_manifest s)))))))"

definition run_single :: "RunAnswers \<Rightarrow> OnnxSession \<Rightarrow> InputTensor \<Rightarrow> InferenceError + OutputTensor list" where
  "run_single a s t = run_named a s [(ic_name (mm_input (on_manifest s)), t)]"

section \<open>Operations of a session\<close>

definition session_preprocess_cancellable :: "OnnxSession \<Rightarrow> SourceView \<Rightarrow> (nat \<Rightarrow> bool) \<Rightarrow> InputTensor outcome" where
  "session_preprocess_cancellable s img cancel =
     (if mm_face_alignment (on_manifest s) \<noteq> None then Some (Inl IE_FaceAlignmentRequired)
      else preprocess_image_cancellable (mm_input (on_manifest s)) img cancel)"

definition session_preprocess :: "OnnxSession \<Rightarrow> SourceView \<Rightarrow> InputTensor outcome" where
  "session_preprocess s img =
     (if mm_face_alignment (on_manifest s) \<noteq> None then Some (Inl IE_FaceAlignmentRequired)
      else preprocess_image (mm_input (on_manifest s)) img)"

definition session_preprocess_named_cancellable ::
  "OnnxSession \<Rightarrow> string \<Rightarrow> SourceView \<Rightarrow> (nat \<Rightarrow> bool) \<Rightarrow> InputTensor outcome" where
  "session_preprocess_named_cancellable s name img cancel =
     (if mm_role (on_manifest s) \<noteq> RolePassiveLivenessFusion then Some (Inl IE_ModelRoleMismatch)
      else p_bind (Some (ok_or (manifest_input (on_manifest s) name) IE_InputTensorInvalid)) (\<lambda>c.
           preprocess_image_cancellable c img cancel))"

definition session_preprocess_named :: "OnnxSession \<Rightarrow> string \<Rightarrow> SourceView \<Rightarrow> InputTensor outcome" where
  "session_preprocess_named s name img =
     (if mm_role (on_manifest s) \<noteq> RolePassiveLivenessFusion then Some (Inl IE_ModelRoleMismatch)
      else p_bind (Some (ok_or (manifest_input (on_manifest s) name) IE_InputTensorInvalid)) (\<lambda>c.
           preprocess_image c img))"

definition session_preprocess_face_region ::
  "OnnxSession \<Rightarrow> SourceView \<Rightarrow> FaceRegion \<Rightarrow> (nat \<Rightarrow> bool) \<Rightarrow> InputTensor outcome" where
  "session_preprocess_face_region s img region cancel =
     (if mm_role (on_manifest s) \<noteq> RoleFaceLandmarks then Some (Inl IE_ModelRoleMismatch)
      else if fr_compatibility_sha256 region \<noteq> on_compatibility_sha256 s then Some (Inl IE_FaceRegionIncompatible)
      else preprocess_image_region (mm_input (on_manifest s)) img (fr_bounds region) cancel)"

definition session_derive_face_region :: "OnnxSession \<Rightarrow> NormalizedFaceBox \<Rightarrow> InferenceError + FaceRegion" where
  "session_derive_face_region s d =
     (if mm_role (on_manifest s) \<noteq> RoleFaceLandmarks then Inl IE_ModelRoleMismatch
      else try_bind (ok_or (mm_face_crop (on_manifest s)) IE_FaceRegionInvalid) (\<lambda>crop.
           derive_face_region crop d (on_compatibility_sha256 s)))"

definition session_preprocess_aligned ::
  "OnnxSession \<Rightarrow> SourceView \<Rightarrow> ImageFacialLandmarks \<Rightarrow> (nat \<Rightarrow> bool) \<Rightarrow> InputTensor outcome" where
  "session_preprocess_aligned s img l cancel =
     p_bind (Some (ok_or (mm_face_alignment (on_manifest s)) IE_FaceAlignmentRequired)) (\<lambda>a.
     preprocess_aligned_image (mm_input (on_manifest s)) a img l cancel)"

definition session_extract_face_detections ::
  "OnnxSession \<Rightarrow> OutputTensor list \<Rightarrow> fp \<Rightarrow> InferenceError + FaceDetections" where
  "session_extract_face_detections s outputs minimum_confidence =
     extract_face_detection_outputs (on_manifest s) (on_compatibility_sha256 s) outputs minimum_confidence"

definition session_extract_face_landmarks ::
  "OnnxSession \<Rightarrow> OutputTensor list \<Rightarrow> FaceRegion \<Rightarrow> InferenceError + FacialLandmarks" where
  "session_extract_face_landmarks s outputs region =
     (if fr_compatibility_sha256 region \<noteq> on_compatibility_sha256 s then Inl IE_FaceRegionIncompatible
      else extract_face_landmark_output (on_manifest s) (on_compatibility_sha256 s) region outputs)"

definition session_extract_embedding :: "OnnxSession \<Rightarrow> OutputTensor list \<Rightarrow> InferenceError + FaceEmbedding" where
  "session_extract_embedding s outputs =
     extract_embedding_output (on_manifest s) (on_compatibility_sha256 s) outputs"

definition session_extract_passive_liveness :: "OnnxSession \<Rightarrow> OutputTensor list \<Rightarrow> InferenceError + PassiveLivenessScore" where
  "session_extract_passive_liveness s outputs =
     extract_passive_liveness_output (on_manifest s) (on_compatibility_sha256 s) outputs"

section \<open>What loading establishes\<close>

definition root_controlled :: "FileAnswers \<Rightarrow> Path \<Rightarrow> bool" where
  "root_controlled os p \<longleftrightarrow>
     (\<exists>f. os_metadata os p = Inr f \<and> ff_kind f = FkRegular \<and> ff_uid f = 0 \<and> \<not> writable_by_others (ff_mode f)) \<and>
     (\<forall>q \<in> set (tl (ancestors p)).
        \<exists>f. os_metadata os q = Inr f \<and> ff_kind f = FkDirectory \<and> ff_uid f = 0 \<and> \<not> writable_by_others (ff_mode f))"

definition graph_matches :: "ModelManifest \<Rightarrow> Graph \<Rightarrow> bool" where
  "graph_matches m g \<longleftrightarrow> length (gr_inputs g) = length (manifest_inputs m) \<and>
     (\<forall>c \<in> set (manifest_inputs m). (ic_name c, VtTensor OrtFloat32 (map uint (input_dimensions c))) \<in> set (gr_inputs g)) \<and>
     gr_outputs g = map (\<lambda>c. (oc_name c, VtTensor OrtFloat32 (map uint (oc_dimensions c)))) (mm_outputs m)"

lemma verify_trusted_file_ok:
  assumes "verify_trusted_file os p b = Inr ()"
  shows "root_controlled os p"
    and "b = Some n \<Longrightarrow> \<exists>f. os_metadata os p = Inr f \<and> 0 < ff_len f \<and> ff_len f \<le> n"
proof -
  obtain f where f: "os_metadata os p = Inr f" "ff_kind f = FkRegular" "ff_uid f = 0" "\<not> writable_by_others (ff_mode f)"
    and dirs: "try_fold (ancestor_step os) () (tl (ancestors p)) = Inr ()"
    using assms by (auto simp: verify_trusted_file_def result_simps split: if_splits)
  have "ancestor_step os u q = Inr v \<longleftrightarrow> (\<exists>f. os_metadata os q = Inr f \<and> ff_kind f = FkDirectory \<and> ff_uid f = 0 \<and>
      \<not> writable_by_others (ff_mode f))" for u q v
    by (auto simp: ancestor_step_def result_simps)
  then have "try_fold (ancestor_step os) u qs = Inr () \<Longrightarrow> q \<in> set qs \<Longrightarrow>
      \<exists>f. os_metadata os q = Inr f \<and> ff_kind f = FkDirectory \<and> ff_uid f = 0 \<and> \<not> writable_by_others (ff_mode f)" for u q qs
    by (induction qs arbitrary: u) (auto simp: result_simps)
  with f dirs show "root_controlled os p" by (auto simp: root_controlled_def)
  show "\<exists>f. os_metadata os p = Inr f \<and> 0 < ff_len f \<and> ff_len f \<le> n" if "b = Some n"
    using assms that f by (auto simp: verify_trusted_file_def result_simps word_neq_0_conv not_less split: if_splits)
qed

lemma validate_outlet_ok:
  "validate_outlet name ty expected dims et = Inr () \<longleftrightarrow> name = expected \<and> ty = VtTensor OrtFloat32 dims"
  by (cases et) (auto simp: validate_outlet_def validate_tensor_contract_def Let_def split: ValueType.splits OrtElement.splits)

lemma outlets_match:
  assumes "length outs = length os" and "try_fold (\<lambda>_ (actual, expected).
     validate_outlet (fst actual) (snd actual) (oc_name expected) (map uint (oc_dimensions expected)) (oc_element_type expected))
     () (zip outs os) = Inr ()"
  shows "outs = map (\<lambda>c. (oc_name c, VtTensor OrtFloat32 (map uint (oc_dimensions c)))) os"
  using assms by (induction outs os rule: list_induct2) (auto simp: result_simps validate_outlet_ok prod_eq_iff)

lemma validate_session_contract_ok:
  assumes "validate_session_contract m g = Inr ()"
  shows "graph_matches m g"
proof -
  let ?f = "\<lambda>_ expected.
    try_bind (ok_or (find (\<lambda>i. fst i = ic_name expected) (gr_inputs g)) IE_GraphContractMismatch) (\<lambda>i.
    validate_outlet (fst i) (snd i) (ic_name expected) (map uint (input_dimensions expected)) (ic_element_type expected))"
  have lens: "length (gr_inputs g) = length (manifest_inputs m)" "length (gr_outputs g) = length (mm_outputs m)"
    and ins: "try_fold ?f () (manifest_inputs m) = Inr ()"
    and outs: "try_fold (\<lambda>_ (actual, expected).
     validate_outlet (fst actual) (snd actual) (oc_name expected) (map uint (oc_dimensions expected)) (oc_element_type expected))
     () (zip (gr_outputs g) (mm_outputs m)) = Inr ()"
    using assms by (auto simp: validate_session_contract_def result_simps split: if_splits)
  have "(ic_name c, VtTensor OrtFloat32 (map uint (input_dimensions c))) \<in> set (gr_inputs g)" if "c \<in> set (manifest_inputs m)" for c
  proof -
    from try_fold_each [OF ins that] obtain i where i: "find (\<lambda>i. fst i = ic_name c) (gr_inputs g) = Some i"
      "fst i = ic_name c" "snd i = VtTensor OrtFloat32 (map uint (input_dimensions c))"
      by (auto simp: result_simps validate_outlet_ok)
    then have "i \<in> set (gr_inputs g)" by (auto simp: find_Some_iff)
    with i show ?thesis by (metis prod.collapse)
  qed
  with lens outlets_match [OF lens(2) outs] show ?thesis by (simp add: graph_matches_def)
qed

lemma initialize_runtime_ok:
  assumes "initialize_runtime os init path s = (s', Inr ())"
  shows "\<exists>lib. os_canonicalize os path = Inr lib \<and> root_controlled os lib \<and> rt_library s' = Some lib \<and>
    (rt_library s = None \<and> init = Inr True \<or> rt_library s = Some lib)"
proof -
  obtain lib where lib: "os_canonicalize os path = Inr lib" "verify_trusted_file os lib None = Inr ()"
    using assms by (auto simp: initialize_runtime_def result_simps split: sum.splits)
  with assms have "rt_library s' = Some lib \<and> (rt_library s = None \<and> init = Inr True \<or> rt_library s = Some lib)"
    by (auto simp: initialize_runtime_def split: if_splits option.splits sum.splits)
  with lib verify_trusted_file_ok(1) show ?thesis by blast
qed

lemma verify_file_ok:
  assumes "verify_file spdx sha256 m opened regular chunks = Inr ()"
  shows "manifest_validate spdx m = Inr () \<and> (\<exists>bytes. read_chunks chunks [] = Inr bytes \<and> hex_lower (sha256 bytes) = mm_sha256 m)"
  using assms by (auto simp: verify_file_def verify_reader_def result_simps split: if_splits)

text \<open>
  Nothing but reviewed code runs: a session is loaded only from a model file that root controls
  with all its directories, within the configured size, whose manifest is valid and whose bytes have
  the manifest's digest, with a runtime library that root controls in the same way, and only if the
  inputs and outputs of the graph are exactly those of the manifest; the session carries the
  compatibility digest of that manifest.
\<close>

theorem loaded_session_trusted:
  assumes "onnx_load os (\<lambda>p. verify_file spdx sha256 m (opened p) (regular p) (chunks p))
      (manifest_compatibility spdx json sha256 m) init commit c m model s0 = (s1, Inr s)"
  shows "manifest_validate spdx m = Inr () \<and> on_manifest s = m \<and>
    manifest_compatibility spdx json sha256 m = Inr (on_compatibility_sha256 s) \<and> graph_matches m (on_graph s) \<and>
    (\<exists>p f bytes. os_canonicalize os model = Inr p \<and> root_controlled os p \<and>
       os_metadata os p = Inr f \<and> 0 < ff_len f \<and> ff_len f \<le> rc_max_model_bytes c \<and>
       read_chunks (chunks p) [] = Inr bytes \<and> hex_lower (sha256 bytes) = mm_sha256 m \<and> commit p = Inr (on_graph s)) \<and>
    (\<exists>lib. os_canonicalize os (rc_library_path c) = Inr lib \<and> root_controlled os lib \<and> rt_library s1 = Some lib)"
proof -
  let ?verify = "\<lambda>p. verify_file spdx sha256 m (opened p) (regular p) (chunks p)"
  let ?pre = "try_bind (runtime_config_validate c) (\<lambda>_. try_bind (map_err IE_Io (os_canonicalize os model)) (\<lambda>p.
      try_bind (verify_trusted_file os p (Some (rc_max_model_bytes c))) (\<lambda>_. try_bind (map_err IE_Model (?verify p)) (\<lambda>_. Inr p))))"
  obtain p where pre: "?pre = Inr p" using assms by (cases ?pre) (simp_all add: onnx_load_def)
  then have p: "os_canonicalize os model = Inr p" "verify_trusted_file os p (Some (rc_max_model_bytes c)) = Inr ()"
    "?verify p = Inr ()" by (auto simp only: try_bind_Inr map_err_Inr sum.inject unit_eq)
  obtain s' r where init': "initialize_runtime os init (rc_library_path c) s0 = (s', r)" by fastforce
  note step = assms [unfolded onnx_load_def pre sum.case init' prod.case]
  from step obtain u where "r = Inr u" by (cases r) simp_all
  with step init' have init: "initialize_runtime os init (rc_library_path c) s0 = (s1, Inr ())"
    and rest: "commit p = Inr (on_graph s)" "validate_session_contract m (on_graph s) = Inr ()" "on_manifest s = m"
      "manifest_compatibility spdx json sha256 m = Inr (on_compatibility_sha256 s)"
    by (auto simp: try_bind_Inr map_err_Inr)
  from verify_file_ok [OF p(3)] initialize_runtime_ok [OF init] verify_trusted_file_ok [OF p(2)]
    validate_session_contract_ok [OF rest(2)] p(1) rest show ?thesis by blast
qed

text \<open>A process loads sessions one after another; each attempt has its own answers of the system.\<close>

fun initialize_all ::
  "RuntimeState \<Rightarrow> (FileAnswers \<times> (nat + bool) \<times> string) list \<Rightarrow> RuntimeState \<times> (InferenceError + unit) list" where
  "initialize_all s [] = (s, [])"
| "initialize_all s ((os, init, path) # rest) =
     (case initialize_runtime os init path s of (s1, r) \<Rightarrow>
      case initialize_all s1 rest of (s2, rs) \<Rightarrow> (s2, r # rs))"

lemma initialize_runtime_keeps:
  "initialize_runtime os init path s = (s', r) \<Longrightarrow> rt_library s = Some lib \<Longrightarrow> rt_library s' = Some lib"
  by (auto simp: initialize_runtime_def split: sum.splits if_splits)

lemma initialize_all_keeps: "rt_library s = Some lib \<Longrightarrow> rt_library (fst (initialize_all s as)) = Some lib"
proof (induction s as rule: initialize_all.induct)
  case (2 s os init path as)
  obtain s1 r where first: "initialize_runtime os init path s = (s1, r)" by fastforce
  with "2.IH" [of s1 r] initialize_runtime_keeps [OF first "2.prems"] show ?case by (cases "initialize_all s1 as") simp
qed simp

text \<open>
  One process uses one runtime library: whatever sequence of sessions it loads, every successful
  initialization asked for the same root-controlled library, and once a library is chosen no later
  attempt changes it.
\<close>

theorem runtime_library_unique:
  assumes "initialize_all s as = (s', rs)" and "i < length as" and "rs ! i = Inr ()" and "as ! i = (os, init, path)"
  shows "\<exists>lib. rt_library s' = Some lib \<and> os_canonicalize os path = Inr lib \<and> root_controlled os lib \<and>
    (\<forall>old. rt_library s = Some old \<longrightarrow> old = lib)"
  using assms
proof (induction s as arbitrary: s' rs i rule: initialize_all.induct)
  case (2 s os1 init1 path1 as)
  obtain s1 r rs1 where first: "initialize_runtime os1 init1 path1 s = (s1, r)"
    and tail: "initialize_all s1 as = (s', rs1)" and rs: "rs = r # rs1"
    using "2.prems"(1) by (auto split: prod.splits)
  show ?case
  proof (cases i)
    case 0
    with "2.prems" rs first have "initialize_runtime os init path s = (s1, Inr ())" by simp
    from initialize_runtime_ok [OF this] initialize_all_keeps [of s1 _ as] tail show ?thesis by auto
  next
    case (Suc j)
    with "2.prems" rs "2.IH" [OF first [symmetric] tail, of j] initialize_runtime_keeps [OF first] show ?thesis by auto
  qed
qed simp

section \<open>What a run returns\<close>

text \<open>An output tensor of its contract.\<close>

definition output_matches :: "OutputContract \<Rightarrow> OutputTensor \<Rightarrow> bool" where
  "output_matches c t \<longleftrightarrow> ot_name t = oc_name c \<and> ot_dimensions t = oc_dimensions c \<and>
     length (ot_values t) = shape_size (oc_dimensions c) \<and> list_all is_finite (ot_values t)"

lemma tensor_element_count_exact: "tensor_element_count ds = Inr n \<Longrightarrow> n = shape_size ds"
proof -
  have "try_fold (\<lambda>p d. ok_or (usize_checked_mul p (unat d)) IE_InputTensorInvalid) k ds = Inr n \<Longrightarrow> n = k * shape_size ds" for k
  proof (induction ds arbitrary: k)
    case (Cons d ds)
    then have "try_fold (\<lambda>p d. ok_or (usize_checked_mul p (unat d)) IE_InputTensorInvalid) (k * unat d) ds = Inr n"
      by (auto simp: result_simps usize_checked_mul_def split: if_splits)
    from Cons.IH [OF this] show ?case by (simp add: shape_size_def)
  qed (simp add: shape_size_def)
  from this [of 1] show "tensor_element_count ds = Inr n \<Longrightarrow> n = shape_size ds" by (simp add: tensor_element_count_def)
qed

lemma copy_output_ok:
  "copy_output outputs copied c = Inr copied' \<Longrightarrow> \<exists>t. copied' = copied @ [t] \<and> output_matches c t"
  by (auto simp: copy_output_def result_simps output_matches_def list_all_iff list_ex_iff dest: tensor_element_count_exact
      split: if_splits)

lemma copy_outputs_ok:
  "try_fold (copy_output outputs) copied cs = Inr ts \<Longrightarrow> \<exists>new. ts = copied @ new \<and> list_all2 output_matches cs new"
proof (induction cs arbitrary: copied)
  case (Cons c cs)
  then obtain copied' where "copy_output outputs copied c = Inr copied'" "try_fold (copy_output outputs) copied' cs = Inr ts"
    by (auto simp: result_simps)
  with Cons.IH [of copied'] copy_output_ok show ?case by fastforce
qed simp

lemma run_named_ok:
  "run_named a s inputs = Inr outs \<Longrightarrow> ra_watchdog a = Some False \<and> ra_elapsed_millis a < unat (on_max_run_millis s) \<and>
     (\<exists>outputs. try_fold (copy_output outputs) [] (mm_outputs (on_manifest s)) = Inr outs)"
proof -
  assume "run_named a s inputs = Inr outs"
  then have rest: "(case ra_options a of Some e \<Rightarrow> Inl (IE_Ort e)
     | None \<Rightarrow> (case ra_spawn a of Some e \<Rightarrow> Inl (IE_Io e)
        | None \<Rightarrow> try_bind (ok_or (ra_watchdog a) IE_WatchdogPanicked) (\<lambda>expired.
              if expired \<or> ra_elapsed_millis a \<ge> unat (on_max_run_millis s) then Inl IE_RunDeadlineExceeded
              else try_bind (map_err IE_Ort (ra_result a)) (\<lambda>outputs.
                   try_fold (copy_output outputs) [] (mm_outputs (on_manifest s)))))) = Inr outs"
    unfolding run_named_def try_bind_Inr by (elim exE conjE)
  then have "ra_options a = None" "ra_spawn a = None" by (auto split: option.splits)
  with rest show ?thesis by (cases "ra_watchdog a"; cases "ra_result a") (simp_all split: if_splits, blast)
qed

lemma filter_unique:
  assumes "distinct (map f xs)" and "x \<in> set xs"
  shows "filter (\<lambda>y. f y = f x) xs = [x]"
  using assms
proof (induction xs)
  case (Cons z zs)
  show ?case
  proof (cases "x = z")
    case True
    have "f y \<noteq> f x" if "y \<in> set zs" for y using Cons.prems(1) that True by (metis distinct.simps(2) image_eqI list.set_map list.simps(9))
    then show ?thesis using True by (simp add: filter_empty_conv)
  next
    case False
    with Cons.prems have "x \<in> set zs" "f z \<noteq> f x" by auto
    with Cons show ?thesis by simp
  qed
qed simp

lemma manifest_outputs_distinct:
  assumes "manifest_validate spdx m = Inr ()"
  shows "distinct (map oc_name (mm_outputs m))"
proof -
  from manifest_validate_ok [OF assms] obtain t where "try_fold output_step ([], 0) (mm_outputs m) = Inr t" by blast
  moreover have "outputs_inv ([], 0)" by (simp add: outputs_inv_def)
  ultimately have "outputs_inv t" "fst t = mm_outputs m" using output_steps by fastforce+
  then show ?thesis by (metis outputs_inv_def)
qed

lemma manifest_inputs_valid:
  "manifest_validate spdx m = Inr () \<Longrightarrow> c \<in> set (manifest_inputs m) \<Longrightarrow> validate_input_contract c = Inr ()"
  using manifest_validate_ok [of spdx m] input_steps_valid by (metis manifest_inputs_def)

text \<open>
  A run returns what the reviewed manifest promises: within the deadline, one finite tensor per
  output contract in the manifest's order with its name, its shape and exactly the product of its
  dimensions as number of values. So for a valid manifest every output that an adapter looks up by
  its meaning is found, and no other tensor can be taken for it.
\<close>

theorem run_outputs_exact:
  assumes "run_named a s inputs = Inr outs" and "manifest_validate spdx (on_manifest s) = Inr ()"
  shows "ra_elapsed_millis a < unat (on_max_run_millis s) \<and> list_all2 output_matches (mm_outputs (on_manifest s)) outs \<and>
    (\<forall>c \<in> set (mm_outputs (on_manifest s)).
       \<exists>t \<in> set outs. exact_output outs (oc_name c) (oc_dimensions c) = Inr t \<and> output_matches c t)"
proof -
  obtain outputs where "try_fold (copy_output outputs) [] (mm_outputs (on_manifest s)) = Inr outs"
    and time: "ra_elapsed_millis a < unat (on_max_run_millis s)" using run_named_ok [OF assms(1)] by blast
  then have all: "list_all2 output_matches (mm_outputs (on_manifest s)) outs" using copy_outputs_ok by fastforce
  then have names: "map ot_name outs = map oc_name (mm_outputs (on_manifest s))"
    by (induction rule: list_all2_induct) (auto simp: output_matches_def)
  have "distinct (map oc_name (mm_outputs (on_manifest s)))"
    using manifest_outputs_distinct [OF assms(2)] .
  with names have dist: "distinct (map ot_name outs)" by simp
  have "\<exists>t \<in> set outs. exact_output outs (oc_name c) (oc_dimensions c) = Inr t \<and> output_matches c t"
    if "c \<in> set (mm_outputs (on_manifest s))" for c
  proof -
    from that obtain i where "i < length (mm_outputs (on_manifest s))" "mm_outputs (on_manifest s) ! i = c"
      by (auto simp: in_set_conv_nth)
    with all have t: "outs ! i \<in> set outs" "output_matches c (outs ! i)" by (auto simp: list_all2_conv_all_nth)
    with filter_unique [OF dist t(1)] show ?thesis by (auto simp: exact_output_def output_matches_def)
  qed
  with time all show ?thesis by blast
qed

section \<open>Examples\<close>

definition ex_files :: FileAnswers where
  "ex_files = \<lparr>os_canonicalize = (\<lambda>s. Inr [s]), os_metadata = (\<lambda>p. Inr (if p = []
     then \<lparr>ff_kind = FkDirectory, ff_uid = 0, ff_mode = 0x1ED, ff_len = 0\<rparr>
     else \<lparr>ff_kind = FkRegular, ff_uid = 0, ff_mode = 0x1A4, ff_len = 1\<rparr>))\<rparr>"

definition ex_runtime :: RuntimeConfig where
  "ex_runtime = \<lparr>rc_library_path = ''lib'', rc_intra_threads = 1, rc_inter_threads = 1,
     rc_max_model_bytes = 16, rc_max_run_millis = 100\<rparr>"

definition ex_graph :: Graph where
  "ex_graph = \<lparr>gr_inputs = [(''image'', VtTensor OrtFloat32 [1, 1, 2, 4])],
     gr_outputs = [(''boxes'', VtTensor OrtFloat32 [1, 3, 4]), (''scores'', VtTensor OrtFloat32 [1, 3])]\<rparr>"

definition ex_sha256 :: "u8 list \<Rightarrow> u8 list" where
  "ex_sha256 bs = replicate 32 0"

definition ex_unloaded :: RuntimeState where
  "ex_unloaded = \<lparr>rt_poisoned = False, rt_library = None\<rparr>"

definition ex_session :: OnnxSession where
  "ex_session = \<lparr>on_graph = ex_graph, on_manifest = ex_manifest, on_compatibility_sha256 = replicate 64 (CHR ''0''),
     on_max_run_millis = 100\<rparr>"

lemma ex_hex: "hex_lower (ex_sha256 bs) = replicate 64 (CHR ''0'')"
  by (simp add: hex_lower_def ex_sha256_def hex_digit_def numeral_eq_Suc)

lemma ex_trusted: "verify_trusted_file ex_files [s] b = Inr ()" if "b = None \<or> b = Some 16"
  using that by (auto simp: verify_trusted_file_def ex_files_def writable_by_others_def ancestors_def ancestor_step_def)

lemma ex_loaded_session:
  "onnx_load ex_files (\<lambda>p. verify_file (\<lambda>s. s = ''MIT'') ex_sha256 ex_manifest (Inr ()) (Inr True) [Inr [1]])
     (manifest_compatibility (\<lambda>s. s = ''MIT'') (\<lambda>_. Inr []) ex_sha256 ex_manifest) (Inr True) (\<lambda>_. Inr ex_graph)
     ex_runtime ex_manifest ''m'' ex_unloaded = (ex_unloaded\<lparr>rt_library := Some [''lib'']\<rparr>, Inr ex_session)"
proof -
  have config: "runtime_config_validate ex_runtime = Inr ()"
    by (simp add: runtime_config_validate_def ex_runtime_def in_range_def ABSOLUTE_MAX_MODEL_BYTES_def ABSOLUTE_MAX_RUN_MILLIS_def)
  have bytes: "verify_file (\<lambda>s. s = ''MIT'') ex_sha256 ex_manifest (Inr ()) (Inr True) [Inr [1]] = Inr ()"
    by (simp add: verify_file_def ex_manifest_valid verify_reader_def ex_hex) (simp add: ex_manifest_def)
  have init: "initialize_runtime ex_files (Inr True) ''lib'' ex_unloaded = (ex_unloaded\<lparr>rt_library := Some [''lib'']\<rparr>, Inr ())"
    using ex_trusted [of None "''lib''"] by (simp add: initialize_runtime_def ex_files_def ex_unloaded_def)
  have graph: "validate_session_contract ex_manifest ex_graph = Inr ()"
    by (simp add: validate_session_contract_def ex_manifest_def ex_graph_def manifest_inputs_def ex_input_def input_dimensions_def
        validate_outlet_def validate_tensor_contract_def)
  show ?thesis using ex_trusted [of "Some 16" "''m''"]
    by (simp add: onnx_load_def config bytes init graph manifest_compatibility_def ex_manifest_valid ex_hex ex_session_def)
      (simp add: ex_files_def ex_runtime_def init [unfolded ex_files_def] graph)
qed

theorem loaded_session_trusted_witness: "graph_matches ex_manifest ex_graph \<and> root_controlled ex_files [''m'']"
  using loaded_session_trusted [OF ex_loaded_session] by (auto simp: ex_session_def ex_files_def)

definition ex_answers :: RunAnswers where
  "ex_answers = \<lparr>ra_view = (\<lambda>_. None), ra_options = None, ra_spawn = None, ra_watchdog = Some False, ra_elapsed_millis = 3,
     ra_result = Inr (\<lambda>name. if name = ''boxes'' then Some (Inr ([1, 3, 4], replicate 12 (Finite 0)))
       else Some (Inr ([1, 3], replicate 3 (Finite 1))))\<rparr>"

definition ex_tensor :: InputTensor where
  "ex_tensor = \<lparr>it_dimensions = [1, 1, 2, 4], it_values = replicate 8 (Finite 0)\<rparr>"

lemma ex_onnx_run:
  "run_named ex_answers ex_session [(''image'', ex_tensor)] =
     Inr [\<lparr>ot_name = ''boxes'', ot_dimensions = [1, 3, 4], ot_values = replicate 12 (Finite 0)\<rparr>,
          \<lparr>ot_name = ''scores'', ot_dimensions = [1, 3], ot_values = replicate 3 (Finite 1)\<rparr>]"
  by (simp add: run_named_def ex_answers_def ex_session_def validate_named_inputs_def ex_manifest_def manifest_inputs_def
      ex_input_def named_input_step_def ex_tensor_def input_dimensions_def copy_output_def u32_try_from_def
      tensor_element_count_def usize_checked_mul_def list_ex_iff)

theorem run_outputs_exact_witness:
  "\<exists>t. exact_output [\<lparr>ot_name = ''boxes'', ot_dimensions = [1, 3, 4], ot_values = replicate 12 (Finite 0)\<rparr>,
          \<lparr>ot_name = ''scores'', ot_dimensions = [1, 3], ot_values = replicate 3 (Finite 1)\<rparr>] ''scores'' [1, 3] = Inr t"
  using run_outputs_exact [OF ex_onnx_run, of "\<lambda>s. s = ''MIT''"] ex_manifest_valid by (auto simp: ex_session_def ex_manifest_def)

end
