(* ===== verification/Evaluation.thy ===== *)
theory Evaluation
  imports TemplateStore Biometrics CorePolicy Session Liveness
begin

text \<open>
  The final evaluation of an authentication (\<open>crates/faceauth-daemon/src/lib.rs\<close>): the template made
  of an embedding and its comparison with an observed one, the contracts of the presentation-attack
  models, the policy decision on the derived evidence, and the completion of the session with it.
\<close>

section \<open>Templates\<close>

definition template_from_embedding :: "u32 \<Rightarrow> FaceEmbedding \<Rightarrow> TemplateRecord" where
  "template_from_embedding uid embedding =
     \<lparr>tr_schema_version = FORMAT_VERSION, tr_uid = uid,
      tr_model_compatibility_sha256 = fe_compatibility_sha256 embedding,
      tr_embedding = fe_values embedding\<rparr>"

datatype BiometricComparisonError =
  BC_Storage StorageError
| BC_Inference InferenceError

definition compare_template :: "TemplateRecord \<Rightarrow> FaceEmbedding \<Rightarrow> BiometricComparisonError + fp" where
  "compare_template template observed =
     try_bind (map_err BC_Storage (require_compatibility template
                 (fe_compatibility_sha256 observed) (length (fe_values observed)))) (\<lambda>_.
     try_bind (map_err BC_Inference (from_normalized_template
                 (tr_model_compatibility_sha256 template) (tr_embedding template))) (\<lambda>enrolled.
     map_err BC_Inference (Biometrics.similarity observed enrolled)))"

section \<open>Presentation-attack contracts\<close>

datatype AuthenticationPipelineError =
  AP_InvalidPassivePadPolicy
| AP_PassivePadEvidenceInvalid
| AP_Policy PolicyError
| AP_Comparison BiometricComparisonError
| AP_Inference InferenceError

definition valid_digest :: "string \<Rightarrow> bool" where
  "valid_digest value \<longleftrightarrow> length value = 64 \<and> list_all is_ascii_hexdigit value \<and> \<not> list_ex is_ascii_uppercase value"

definition valid_probability :: "fp \<Rightarrow> bool" where
  "valid_probability value \<longleftrightarrow> is_finite value \<and> fp_in 0 1 value"

record PassivePadPolicy =
  pp_infrared_compatibility_sha256 :: string
  pp_minimum_infrared_probability :: fp
  pp_visible_compatibility_sha256 :: string
  pp_minimum_visible_probability :: fp
  pp_fusion :: "(string \<times> fp) option"

definition pad_validate :: "PassivePadPolicy \<Rightarrow> AuthenticationPipelineError + unit" where
  "pad_validate p =
     (let valid = valid_digest (pp_infrared_compatibility_sha256 p)
            \<and> valid_probability (pp_minimum_infrared_probability p)
            \<and> valid_digest (pp_visible_compatibility_sha256 p)
            \<and> valid_probability (pp_minimum_visible_probability p)
            \<and> (case pp_fusion p of None \<Rightarrow> True
               | Some (digest, minimum) \<Rightarrow> valid_digest digest \<and> valid_probability minimum)
      in if valid then Inr () else Inl AP_InvalidPassivePadPolicy)"

definition exact_pad_score ::
  "PassiveLivenessScore list \<Rightarrow> ModelRole \<Rightarrow> string \<Rightarrow> AuthenticationPipelineError + PassiveLivenessScore" where
  "exact_pad_score scores role compatibility_sha256 =
     (case filter (\<lambda>s. pl_role s = role) scores of
        [] \<Rightarrow> Inl AP_PassivePadEvidenceInvalid
      | score # matching \<Rightarrow>
         if matching \<noteq> [] \<or> pl_compatibility_sha256 score \<noteq> compatibility_sha256
         then Inl AP_PassivePadEvidenceInvalid else Inr score)"

definition pad_accepts ::
  "PassivePadPolicy \<Rightarrow> PassiveLivenessScore list \<Rightarrow> AuthenticationPipelineError + bool" where
  "pad_accepts p scores =
     try_bind (pad_validate p) (\<lambda>_.
     try_bind (exact_pad_score scores RolePassiveLivenessInfrared (pp_infrared_compatibility_sha256 p)) (\<lambda>infrared.
     try_bind (exact_pad_score scores RolePassiveLivenessVisible (pp_visible_compatibility_sha256 p)) (\<lambda>visible.
     try_bind (case pp_fusion p of
         Some (digest, minimum) \<Rightarrow>
           try_bind (exact_pad_score scores RolePassiveLivenessFusion digest) (\<lambda>s.
             map_err AP_Inference (liveness_passes s minimum))
       | None \<Rightarrow> Inr (\<not> list_ex (\<lambda>s. pl_role s = RolePassiveLivenessFusion) scores)) (\<lambda>fusion_passed.
     try_bind (map_err AP_Inference (liveness_passes infrared (pp_minimum_infrared_probability p))) (\<lambda>infrared_passed.
     if \<not> infrared_passed then Inr False
     else try_bind (map_err AP_Inference (liveness_passes visible (pp_minimum_visible_probability p))) (\<lambda>visible_passed.
       Inr (visible_passed \<and> fusion_passed)))))))"

section \<open>Evaluation\<close>

record AuthenticationObservation =
  ao_timing :: CapturePair
  ao_quality :: fp
  ao_embedding :: FaceEmbedding
  ao_passive_liveness :: "PassiveLivenessScore list"
  ao_active_challenge :: ChallengeProgress

definition check_status :: "bool \<Rightarrow> CheckStatus" where
  "check_status passed = (if passed then Passed else Failed)"

definition evaluate_authentication ::
  "AuthPolicy \<Rightarrow> PassivePadPolicy \<Rightarrow> TemplateRecord \<Rightarrow> AuthenticationObservation \<Rightarrow>
   AuthenticationPipelineError + AuthenticationDecision" where
  "evaluate_authentication policy pad template observation =
     try_bind (map_err AP_Policy (capture_accepts (capture policy) (ao_timing observation))) (\<lambda>_.
     try_bind (map_err AP_Comparison (compare_template template (ao_embedding observation))) (\<lambda>s.
     try_bind (pad_accepts pad (ao_passive_liveness observation)) (\<lambda>passive.
     map_err AP_Policy (policy_evaluate policy
       \<lparr>AuthenticationEvidence.similarity = s, quality = ao_quality observation,
        infrared = Observed, visible = Observed, passive_liveness = check_status passive,
        active_challenge = check_status (ao_active_challenge observation = CP_Passed)\<rparr>))))"

fun decision_code :: "DecisionReason \<Rightarrow> DecisionCode" where
  "decision_code Accepted = DC_Accepted"
| "decision_code InfraredMissing = DC_InfraredMissing"
| "decision_code VisibleMissing = DC_VisibleMissing"
| "decision_code InsufficientQuality = DC_InsufficientQuality"
| "decision_code PassiveLivenessFailed = DC_PassiveLivenessFailed"
| "decision_code ActiveChallengeFailed = DC_ActiveChallengeFailed"
| "decision_code FaceMismatch = DC_FaceMismatch"

section \<open>Completion\<close>

text \<open>
  A template source is an operation on some state of its own (the disk, for the encrypted store):
  the record of a UID or an error.
\<close>

type_synonym 'd template_source = "u32 \<Rightarrow> 'd \<Rightarrow> 'd \<times> (StorageError + TemplateRecord)"

record AuthenticationCompletion =
  ac_connection :: ConnectionToken
  ac_transaction_id :: TransactionId
  ac_policy :: AuthPolicy
  ac_passive_pad_policy :: PassivePadPolicy
  ac_observation :: AuthenticationObservation
  ac_now_micros :: u64

definition completion_decision ::
  "AuthPolicy \<Rightarrow> PassivePadPolicy \<Rightarrow> AuthenticationObservation \<Rightarrow> StorageError + TemplateRecord \<Rightarrow> DecisionCode" where
  "completion_decision policy pad observation loaded =
     (case loaded of Inl _ \<Rightarrow> DC_InternalError
      | Inr template \<Rightarrow> (case evaluate_authentication policy pad template observation of
            Inl _ \<Rightarrow> DC_InternalError
          | Inr result \<Rightarrow> decision_code (reason result)))"

definition complete_authentication ::
  "'d template_source \<Rightarrow> 'd \<Rightarrow> SessionManager \<Rightarrow> AuthenticationCompletion \<Rightarrow>
   'd \<times> SessionManager \<times> (SessionError + Response)" where
  "complete_authentication load d m c =
     (case session_target_uid m (ac_connection c) (ac_transaction_id c) of
        Inl e \<Rightarrow> (d, m, Inl e)
      | Inr uid \<Rightarrow>
         (case load uid d of (d', loaded) \<Rightarrow>
            (d', session_complete m (ac_connection c) (ac_transaction_id c)
                   (completion_decision (ac_policy c) (ac_passive_pad_policy c) (ac_observation c) loaded)
                   (ac_now_micros c))))"

text \<open>\<open>AuthenticatedTemplateStateReader\<close>; the error of the management backend carries a message.\<close>

datatype ManagementBackendError = ManagementBackendError string

definition template_is_enrolled ::
  "'d template_source \<Rightarrow> u32 \<Rightarrow> 'd \<Rightarrow> 'd \<times> (ManagementBackendError + bool)" where
  "template_is_enrolled load uid d =
     (case load uid d of
        (d', Inr _) \<Rightarrow> (d', Inr True)
      | (d', Inl e) \<Rightarrow>
          (d', if e = SE_Io IoNotFound then Inr False
               else Inl (ManagementBackendError ''unable to authenticate encrypted template state'')))"

section \<open>The template source\<close>

text \<open>
  What the daemon relies on: a record that is loaded belongs to the requested UID and is valid. The
  encrypted store provides it, whatever its key source and codec, since a payload that decrypts is
  checked against the UID of its path before it is returned.
\<close>

locale authentic_source =
  fixes load :: "'d template_source"
  assumes loaded: "load uid d = (d', Inr r) \<Longrightarrow> tr_uid r = uid \<and> record_validate r = Inr ()"
begin

lemma enrolled_iff:
  "snd (template_is_enrolled load uid d) = Inr b \<longleftrightarrow>
     (if b then (\<exists>r. snd (load uid d) = Inr r \<and> tr_uid r = uid \<and> record_validate r = Inr ())
      else snd (load uid d) = Inl (SE_Io IoNotFound))"
  using loaded [of uid d "fst (load uid d)"]
  by (auto simp: template_is_enrolled_def split: prod.splits sum.splits if_splits)

end

lemma load_template_valid:
  assumes "load_template load_key cd S uid d = (d', Inr r)"
  shows "tr_uid r = uid \<and> record_validate r = Inr ()"
proof -
  from assms obtain x p where x: "load_with_generation load_key cd S uid d = (d', Inr x)" "r = vt_record x"
    and p: "read_payload load_key cd S uid d = (d', Inr p)"
    by (auto simp: load_template_def load_with_generation_def disk_result_simps)
  then have "\<exists>v g. p = SP_Live v g r"
    by (cases p) (auto simp: load_with_generation_def disk_result_simps)
  moreover obtain k parts where "open_container cd uid k parts = Inr p"
    using p by (auto simp: read_payload_def disk_result_simps)
  ultimately show ?thesis using open_container_authentic by fastforce
qed

interpretation encrypted_source: authentic_source "load_template load_key cd S" for load_key cd S
  by unfold_locales (rule load_template_valid)

section \<open>Facts\<close>

definition sole_score :: "PassiveLivenessScore list \<Rightarrow> ModelRole \<Rightarrow> string \<Rightarrow> fp \<Rightarrow> bool" where
  "sole_score scores role digest minimum =
     (case filter (\<lambda>s. pl_role s = role) scores of
        [s] \<Rightarrow> pl_compatibility_sha256 s = digest \<and> fp_le minimum (pl_probability s)
      | _ \<Rightarrow> False)"

lemma exact_pad_score_ok:
  "exact_pad_score scores role digest = Inr s \<longleftrightarrow>
     filter (\<lambda>x. pl_role x = role) scores = [s] \<and> pl_compatibility_sha256 s = digest"
  by (auto simp: exact_pad_score_def split: list.splits if_splits)

lemma liveness_passes_ok:
  "liveness_passes s minimum = Inr b \<longleftrightarrow> valid_probability minimum \<and> b = fp_le minimum (pl_probability s)"
  by (auto simp: liveness_passes_def valid_probability_def)

lemma no_score_iff: "\<not> list_ex (\<lambda>s. pl_role s = role) scores \<longleftrightarrow> filter (\<lambda>s. pl_role s = role) scores = []"
  by (auto simp: list_ex_iff filter_empty_conv)

lemma pad_accepts_iff:
  "pad_accepts p scores = Inr True \<longleftrightarrow> pad_validate p = Inr () \<and>
     sole_score scores RolePassiveLivenessInfrared (pp_infrared_compatibility_sha256 p) (pp_minimum_infrared_probability p) \<and>
     sole_score scores RolePassiveLivenessVisible (pp_visible_compatibility_sha256 p) (pp_minimum_visible_probability p) \<and>
     (case pp_fusion p of
        None \<Rightarrow> filter (\<lambda>s. pl_role s = RolePassiveLivenessFusion) scores = []
      | Some (digest, minimum) \<Rightarrow> sole_score scores RolePassiveLivenessFusion digest minimum)"
  (is "_ \<longleftrightarrow> ?valid \<and> ?infrared \<and> ?visible \<and> ?fusion")
proof -
  have sole: "sole_score scores role digest minimum \<longleftrightarrow>
      (\<exists>s. exact_pad_score scores role digest = Inr s \<and> fp_le minimum (pl_probability s))" for role digest minimum
    by (auto simp: sole_score_def exact_pad_score_ok split: list.splits)
  have thresholds: "valid_probability (pp_minimum_infrared_probability p)"
      "valid_probability (pp_minimum_visible_probability p)"
      "pp_fusion p = Some x \<Longrightarrow> valid_probability (snd x)" if ?valid for x
    using that by (auto simp: pad_validate_def Let_def split: if_splits)
  show ?thesis
  proof (cases "pp_fusion p")
    case None
    then show ?thesis using thresholds
      by (auto simp: pad_accepts_def result_simps sole liveness_passes_ok no_score_iff split: if_splits)
  next
    case (Some x)
    then show ?thesis using thresholds
      by (cases x) (fastforce simp: pad_accepts_def result_simps sole liveness_passes_ok split: if_splits)
  qed
qed

lemma policy_evaluate_ok:
  "policy_evaluate p e = Inr d \<longleftrightarrow> policy_validate p = Inr () \<and>
     fp_in 0 1 (AuthenticationEvidence.similarity e) \<and> fp_in 0 1 (quality e) \<and>
     d = \<lparr>accepted = (decision_reason p e = Accepted), reason = decision_reason p e\<rparr>"
  by (auto simp: policy_evaluate_def result_simps Let_def unit_score_ok)

lemma decision_code_accepted: "decision_code r = DC_Accepted \<longleftrightarrow> r = Accepted"
  by (cases r) simp_all

lemma decision_code_not_reserved: "decision_code r \<noteq> DC_Cancelled \<and> decision_code r \<noteq> DC_TimedOut"
  by (cases r) simp_all

lemma completion_not_reserved:
  "completion_decision policy pad ob r \<noteq> DC_Cancelled \<and> completion_decision policy pad ob r \<noteq> DC_TimedOut"
  using decision_code_not_reserved by (auto simp: completion_decision_def split: sum.splits)

lemma similarity_in_unit: "Biometrics.similarity a b = Inr s \<Longrightarrow> fp_in 0 1 s"
  by (auto simp: Biometrics.similarity_def Let_def result_simps mapped_cosine_in_unit dest: embedding_product_finite
      split: if_splits)

lemma squared_norm_embedding:
  "squared_norm xs = (case embedding_squared_norm xs of Inl _ \<Rightarrow> None | Inr v \<Rightarrow> Some v)"
proof -
  have "(case try_fold (\<lambda>s v. let s' = fp_fma F32 v v s in if is_finite s' then Inr s' else Inl ()) a xs of
          Inl _ \<Rightarrow> None | Inr v \<Rightarrow> Some v) =
        (case try_fold (\<lambda>s v. let s' = fp_fma F32 v v s in if is_finite s' then Inr s' else Inl IE_EmbeddingInvalid) a xs of
          Inl _ \<Rightarrow> None | Inr v \<Rightarrow> Some v)" for a
    by (induction xs arbitrary: a) (auto simp: Let_def)
  then show ?thesis by (simp add: squared_norm_def embedding_squared_norm_def)
qed

lemma valid_record_embedding:
  assumes "record_validate r = Inr ()" and "32 \<le> length (tr_embedding r)"
  shows "from_normalized_template (tr_model_compatibility_sha256 r) (tr_embedding r) =
    Inr \<lparr>fe_compatibility_sha256 = tr_model_compatibility_sha256 r, fe_values = tr_embedding r\<rparr>"
proof -
  from assms(1) have "lowercase_hex_64 (tr_model_compatibility_sha256 r)" "length (tr_embedding r) \<le> 4096"
    "\<not> list_ex (\<lambda>v. \<not> is_finite v) (tr_embedding r)" and norm: "unit_norm (tr_embedding r)"
    by (auto simp: record_validate_def lowercase_hex_64_def MAX_EMBEDDING_DIMENSION_def split: if_splits)
  moreover from norm obtain v where "embedding_squared_norm (tr_embedding r) = Inr v"
      "\<not> fp_lt (rnd F32 (1 / 1000)) (fp_abs (fp_sub F32 (fp_sqrt F32 v) (Finite 1)))"
    by (auto simp: unit_norm_def squared_norm_embedding norm_tolerance_def split: sum.splits)
  ultimately show ?thesis using assms(2) by (simp add: from_normalized_template_def in_range_def)
qed

lemma compare_template_ok:
  "compare_template t e = Inr s \<longleftrightarrow> record_validate t = Inr () \<and>
     tr_model_compatibility_sha256 t = fe_compatibility_sha256 e \<and> 32 \<le> length (tr_embedding t) \<and>
     Biometrics.similarity e \<lparr>fe_compatibility_sha256 = tr_model_compatibility_sha256 t, fe_values = tr_embedding t\<rparr> = Inr s"
proof (cases "record_validate t = Inr () \<and> 32 \<le> length (tr_embedding t)")
  case True
  then show ?thesis
    by (auto simp: compare_template_def require_compatibility_def valid_record_embedding result_simps
        Biometrics.similarity_def split: if_splits)
next
  case False
  then show ?thesis
    by (auto simp: compare_template_def require_compatibility_def from_normalized_template_def in_range_def
        result_simps split: if_splits)
qed

text \<open>The evidence the policy decides on.\<close>

abbreviation evaluated :: "AuthenticationObservation \<Rightarrow> fp \<Rightarrow> bool \<Rightarrow> AuthenticationEvidence" where
  "evaluated ob s passive \<equiv>
     \<lparr>AuthenticationEvidence.similarity = s, quality = ao_quality ob, infrared = Observed, visible = Observed,
      passive_liveness = check_status passive, active_challenge = check_status (ao_active_challenge ob = CP_Passed)\<rparr>"

lemma evaluate_authentication_ok:
  "evaluate_authentication policy pad t ob = Inr d \<longleftrightarrow>
     capture_accepts (capture policy) (ao_timing ob) = Inr () \<and>
     (\<exists>s passive. compare_template t (ao_embedding ob) = Inr s \<and>
        pad_accepts pad (ao_passive_liveness ob) = Inr passive \<and>
        policy_evaluate policy (evaluated ob s passive) = Inr d)"
  by (auto simp: evaluate_authentication_def result_simps)

lemma evaluation_reason:
  "evaluate_authentication policy pad t ob = Inr d \<Longrightarrow> accepted d \<longleftrightarrow> reason d = Accepted"
  by (auto simp: evaluate_authentication_def result_simps policy_evaluate_ok)

section \<open>Properties\<close>

text \<open>
  C5. An observation is accepted exactly with all its evidence: the paired timestamps satisfy the
  capture policy; the template is valid, of the model and dimension of the observed embedding, and as
  similar to it as required; there is exactly one infrared and one visible presentation-attack score,
  each of its reviewed model and at least its threshold, and the fusion score is there exactly when it
  is configured; the active challenge passed when the level asks for it; and the quality suffices.
  Duplicated, unexpected or missing scores are never accepted.
\<close>

theorem evaluation_accepts_iff:
  "(\<exists>d. evaluate_authentication policy pad template ob = Inr d \<and> accepted d) \<longleftrightarrow>
     capture_accepts (capture policy) (ao_timing ob) = Inr () \<and> policy_validate policy = Inr () \<and>
     (\<exists>s. compare_template template (ao_embedding ob) = Inr s \<and> fp_le (minimum_similarity policy) s) \<and>
     pad_validate pad = Inr () \<and>
     sole_score (ao_passive_liveness ob) RolePassiveLivenessInfrared
       (pp_infrared_compatibility_sha256 pad) (pp_minimum_infrared_probability pad) \<and>
     sole_score (ao_passive_liveness ob) RolePassiveLivenessVisible
       (pp_visible_compatibility_sha256 pad) (pp_minimum_visible_probability pad) \<and>
     (case pp_fusion pad of
        None \<Rightarrow> filter (\<lambda>s. pl_role s = RolePassiveLivenessFusion) (ao_passive_liveness ob) = []
      | Some (digest, minimum) \<Rightarrow> sole_score (ao_passive_liveness ob) RolePassiveLivenessFusion digest minimum) \<and>
     (if liveness policy = PassiveAndActive then ao_active_challenge ob = CP_Passed else True) \<and>
     fp_in 0 1 (ao_quality ob) \<and> fp_le (minimum_quality policy) (ao_quality ob)"
proof -
  have status: "check_status b = Passed \<longleftrightarrow> b" for b by (simp add: check_status_def)
  have ex_evaluated: "(\<exists>d. evaluate_authentication policy pad template ob = Inr d \<and> accepted d) \<longleftrightarrow>
    capture_accepts (capture policy) (ao_timing ob) = Inr () \<and> policy_validate policy = Inr () \<and>
    (\<exists>s passive. compare_template template (ao_embedding ob) = Inr s \<and>
       pad_accepts pad (ao_passive_liveness ob) = Inr passive \<and> fp_in 0 1 s \<and> fp_in 0 1 (ao_quality ob) \<and>
       decision_reason policy (evaluated ob s passive) = Accepted)"
    unfolding evaluate_authentication_ok policy_evaluate_ok by fastforce
  have "(\<exists>d. evaluate_authentication policy pad template ob = Inr d \<and> accepted d) \<longleftrightarrow>
    capture_accepts (capture policy) (ao_timing ob) = Inr () \<and> policy_validate policy = Inr () \<and>
    (\<exists>s. compare_template template (ao_embedding ob) = Inr s \<and> fp_in 0 1 s \<and> \<not> fp_lt s (minimum_similarity policy)) \<and>
    pad_accepts pad (ao_passive_liveness ob) = Inr True \<and>
    (if liveness policy = PassiveAndActive then ao_active_challenge ob = CP_Passed else True) \<and>
    fp_in 0 1 (ao_quality ob) \<and> \<not> fp_lt (ao_quality ob) (minimum_quality policy)"
    unfolding ex_evaluated by (auto simp: decision_reason_accepted status)
  also have "\<dots> \<longleftrightarrow> capture_accepts (capture policy) (ao_timing ob) = Inr () \<and> policy_validate policy = Inr () \<and>
    (\<exists>s. compare_template template (ao_embedding ob) = Inr s \<and> fp_le (minimum_similarity policy) s) \<and>
    pad_accepts pad (ao_passive_liveness ob) = Inr True \<and>
    (if liveness policy = PassiveAndActive then ao_active_challenge ob = CP_Passed else True) \<and>
    fp_in 0 1 (ao_quality ob) \<and> fp_le (minimum_quality policy) (ao_quality ob)"
    using similarity_in_unit
    by (auto simp: policy_validate_ok unit_score_order compare_template_ok)
  finally show ?thesis by (simp only: pad_accepts_iff conj_assoc)
qed

text \<open>
  Enrolling an embedding and comparing: a record made of an embedding that the store accepts
  compares with every embedding of the same model and dimension by exactly the similarity of the two
  embeddings, and with any other embedding it is an incompatible template.
\<close>

theorem enrolled_template_compares:
  assumes "record_validate (template_from_embedding uid e) = Inr ()" and "32 \<le> length (fe_values e)"
  shows "compare_template (template_from_embedding uid e) ob =
    (if fe_compatibility_sha256 ob = fe_compatibility_sha256 e \<and> length (fe_values ob) = length (fe_values e)
     then map_err BC_Inference (Biometrics.similarity ob e) else Inl (BC_Storage SE_IncompatibleTemplate))"
  using valid_record_embedding [OF assms(1)] assms
  by (cases e) (auto simp: compare_template_def require_compatibility_def template_from_embedding_def)

lemma session_target_uid_ok:
  "session_target_uid m conn tid = Inr uid \<longleftrightarrow>
     (\<exists>a. sm_active m = Some a \<and> as_connection a = conn \<and> grant_transaction_id (as_grant a) = tid \<and>
          grant_target_uid (as_grant a) = uid)"
  by (auto simp: session_target_uid_def verify_binding_def result_simps)

lemma session_complete_bound:
  assumes "sm_active m = Some a" "as_connection a = conn" "grant_transaction_id (as_grant a) = tid"
    "decision \<noteq> DC_Cancelled" "decision \<noteq> DC_TimedOut"
  shows "session_complete m conn tid decision now =
    (m\<lparr>sm_active := None, sm_cells := token_cancel (sm_cells m) (as_cancellation a)\<rparr>,
     Inr (Completed tid (if as_deadline_micros a \<le> now then DC_TimedOut else decision)))"
  using assms by (simp add: session_complete_def verify_binding_def deadline_reached_def take_terminal_def)

lemma completion_decision_accepted:
  "completion_decision policy pad ob loaded = DC_Accepted \<longleftrightarrow>
     (\<exists>t d. loaded = Inr t \<and> evaluate_authentication policy pad t ob = Inr d \<and> accepted d)"
  using evaluation_reason
  by (auto simp: completion_decision_def decision_code_accepted split: sum.splits)

text \<open>What \<open>complete_authentication\<close> does: nothing without the binding, and otherwise one terminal answer.\<close>

lemma complete_authentication_eq:
  "complete_authentication load d m c =
     (case session_target_uid m (ac_connection c) (ac_transaction_id c) of
        Inl e \<Rightarrow> (d, m, Inl e)
      | Inr uid \<Rightarrow>
          (fst (load uid d),
           m\<lparr>sm_active := None, sm_cells := token_cancel (sm_cells m) (as_cancellation (the (sm_active m)))\<rparr>,
           Inr (Completed (ac_transaction_id c)
             (if as_deadline_micros (the (sm_active m)) \<le> ac_now_micros c then DC_TimedOut
              else completion_decision (ac_policy c) (ac_passive_pad_policy c) (ac_observation c) (snd (load uid d))))))"
proof (cases "session_target_uid m (ac_connection c) (ac_transaction_id c)")
  case (Inl e)
  then show ?thesis by (simp add: complete_authentication_def)
next
  case (Inr uid)
  then obtain a where a: "sm_active m = Some a" "as_connection a = ac_connection c"
      "grant_transaction_id (as_grant a) = ac_transaction_id c"
    by (auto simp: session_target_uid_ok)
  show ?thesis
    using Inr a(1) session_complete_bound [OF a] completion_not_reserved
    by (simp add: complete_authentication_def split: prod.splits)
qed

section \<open>Examples\<close>

definition ex_embedding :: FaceEmbedding where
  "ex_embedding = \<lparr>fe_compatibility_sha256 = ex_digest, fe_values = Finite 1 # replicate 31 (Finite 0)\<rparr>"

definition ex_pad :: PassivePadPolicy where
  "ex_pad = \<lparr>pp_infrared_compatibility_sha256 = ex_digest, pp_minimum_infrared_probability = Finite (1 / 2),
     pp_visible_compatibility_sha256 = ex_digest, pp_minimum_visible_probability = Finite (1 / 2),
     pp_fusion = Some (ex_digest, Finite (1 / 2))\<rparr>"

definition ex_pad_scores :: "PassiveLivenessScore list" where
  "ex_pad_scores = map (\<lambda>r. \<lparr>pl_role = r, pl_compatibility_sha256 = ex_digest, pl_probability = Finite 1\<rparr>)
     [RolePassiveLivenessInfrared, RolePassiveLivenessVisible, RolePassiveLivenessFusion]"

definition ex_auth_policy :: AuthPolicy where
  "ex_auth_policy = \<lparr>capture = \<lparr>require_infrared = True, require_visible = True, max_pair_skew_micros = 50000\<rparr>,
     liveness = PassiveAndActive, minimum_similarity = Finite (3 / 4), minimum_quality = Finite (1 / 2),
     password_fallback = True\<rparr>"

definition ex_observation :: AuthenticationObservation where
  "ex_observation = \<lparr>ao_timing = \<lparr>infrared_timestamp_micros = 10, visible_timestamp_micros = Some 12\<rparr>,
     ao_quality = Finite 1, ao_embedding = ex_embedding, ao_passive_liveness = ex_pad_scores,
     ao_active_challenge = CP_Passed\<rparr>"

lemma try_fold_replicate: "f s x = Inr s \<Longrightarrow> try_fold f s (replicate n x) = Inr s"
  by (induction n) simp_all

lemma ex_embedding_folds:
  "squared_norm (fe_values ex_embedding) = Some (Finite 1)"
  "embedding_product (fe_values ex_embedding) (fe_values ex_embedding) = Inr (Finite 1)"
  by (simp_all add: ex_embedding_def squared_norm_def embedding_product_def rnd_1 Let_def try_fold_replicate
      zip_replicate)

lemma ex_template_valid: "record_validate (template_from_embedding uid ex_embedding) = Inr ()"
proof -
  have "unit_norm (fe_values ex_embedding)"
    using rnd_mono [of 0 "1 / 1000" F32] fp_lt_not_le [of "rnd F32 (1 / 1000)" "Finite 0"]
    by (cases "rnd F32 (1 / 1000)") (auto simp: unit_norm_def ex_embedding_folds rnd_1 fp_sqrt_1 fp_sub_def rnd_0 norm_tolerance_def
        simp del: fp_sqrt.simps)
  then show ?thesis using ex_digest_valid
    by (simp add: record_validate_def template_from_embedding_def ex_embedding_def MAX_EMBEDDING_DIMENSION_def
        lowercase_hex_64_def list_ex_iff)
qed

lemma ex_similarity: "Biometrics.similarity ex_embedding ex_embedding = Inr (Finite 1)"
  by (simp add: Biometrics.similarity_def ex_embedding_folds fp_clamp_def rnd_1 Let_def)

theorem enrolled_template_compares_witness:
  "compare_template (template_from_embedding 7 ex_embedding) ex_embedding = Inr (Finite 1)"
  using enrolled_template_compares [of 7 ex_embedding ex_embedding, OF ex_template_valid] ex_similarity
  by (simp add: ex_embedding_def)

lemma ex_compared: "compare_template (template_from_embedding uid ex_embedding) ex_embedding = Inr (Finite 1)"
  using ex_template_valid [of uid] ex_similarity
  by (simp add: compare_template_ok template_from_embedding_def) (simp add: ex_embedding_def)

lemma ex_accepted:
  "\<exists>d. evaluate_authentication ex_auth_policy ex_pad (template_from_embedding uid ex_embedding) ex_observation = Inr d \<and>
     accepted d \<and> reason d = Accepted"
proof -
  have digest: "valid_digest ex_digest" using ex_digest_valid by (simp add: valid_digest_def lowercase_hex_64_def)
  have pad: "pad_accepts ex_pad ex_pad_scores = Inr True"
    by (simp add: pad_accepts_iff pad_validate_def ex_pad_def digest valid_probability_def fp_in_def
        sole_score_def ex_pad_scores_def)
  have cap: "capture_accepts (capture ex_auth_policy) (ao_timing ex_observation) = Inr ()"
    by (simp add: capture_accepts_def ex_auth_policy_def ex_observation_def capture_validate_def abs_diff_def)
  show ?thesis
    using pad cap ex_compared [of uid]
    by (intro exI [of _ "\<lparr>accepted = True, reason = Accepted\<rparr>"])
      (simp add: evaluate_authentication_ok policy_evaluate_ok policy_validate_ok ex_auth_policy_def
        ex_observation_def fp_in_def decision_reason_def check_status_def, rule exI [of _ True], rule TrueI)
qed

end
