(* ===== verification/Resource.thy ===== *)
theory Resource
  imports Management
begin

text \<open>
  The non-queueing arbiter of the cameras and models (\<open>crates/faceauth-daemon/src/resource.rs\<close>). Its
  state is behind a mutex; a panic of a thread that holds the mutex poisons it, after which every
  operation answers \<open>Unavailable\<close>. A lease releases the arbiter when it is dropped.
\<close>

section \<open>Operations\<close>

datatype BiometricResourceOwner =
  OwnAuthentication TransactionId
| OwnEnrollment OperationId

record ActiveLease =
  al_generation :: u64
  al_owner :: BiometricResourceOwner

record ArbiterState =
  ar_next_generation :: u64
  ar_active :: "ActiveLease option"
  ar_poisoned :: bool

definition arbiter_default :: ArbiterState where
  "arbiter_default = \<lparr>ar_next_generation = 0, ar_active = None, ar_poisoned = False\<rparr>"

datatype BiometricResourceError =
  BR_Busy BiometricResourceOwner
| BR_Unavailable

text \<open>The lease holds the generation and the owner; the state it points to is the arbiter's.\<close>

type_synonym BiometricResourceLease = ActiveLease

definition try_acquire ::
  "ArbiterState \<Rightarrow> BiometricResourceOwner \<Rightarrow> ArbiterState \<times> (BiometricResourceError + BiometricResourceLease)" where
  "try_acquire s who =
     (if ar_poisoned s then (s, Inl BR_Unavailable)
      else case ar_active s of
        Some a \<Rightarrow> (s, Inl (BR_Busy (al_owner a)))
      | None \<Rightarrow> (case checked_add (ar_next_generation s) 1 of
            None \<Rightarrow> (s, Inl BR_Unavailable)
          | Some g \<Rightarrow>
              (let lease = \<lparr>al_generation = g, al_owner = who\<rparr> in
               (s\<lparr>ar_next_generation := g, ar_active := Some lease\<rparr>, Inr lease))))"

definition arbiter_owner :: "ArbiterState \<Rightarrow> BiometricResourceError + BiometricResourceOwner option" where
  "arbiter_owner s = (if ar_poisoned s then Inl BR_Unavailable else Inr (map_option al_owner (ar_active s)))"

definition lease_drop :: "BiometricResourceLease \<Rightarrow> ArbiterState \<Rightarrow> ArbiterState" where
  "lease_drop lease s =
     (if \<not> ar_poisoned s \<and> (case ar_active s of None \<Rightarrow> False | Some a \<Rightarrow> al_generation a = al_generation lease)
      then s\<lparr>ar_active := None\<rparr> else s)"

section \<open>The arbiter and the leases in the program\<close>

text \<open>
  The arbiter with the leases that exist: any thread may try to acquire, the holder of a lease may
  drop it, and a panic may poison the mutex. A lease is neither copied nor made by anyone else.
\<close>

inductive arbiter_step :: "ArbiterState \<times> BiometricResourceLease list \<Rightarrow> ArbiterState \<times> BiometricResourceLease list \<Rightarrow> bool" where
  acquired: "try_acquire s who = (s', Inr l) \<Longrightarrow> arbiter_step (s, ls) (s', l # ls)"
| refused: "try_acquire s who = (s', Inl e) \<Longrightarrow> arbiter_step (s, ls) (s', ls)"
| dropped: "arbiter_step (s, ls @ l # ls') (lease_drop l s, ls @ ls')"
| poisoned: "arbiter_step (s, ls) (s\<lparr>ar_poisoned := True\<rparr>, ls)"

inductive_cases arbiter_step_elim: "arbiter_step (s, ls) (s', ls')"

inductive arbiter_reachable :: "ArbiterState \<times> BiometricResourceLease list \<Rightarrow> bool" where
  start: "arbiter_reachable (arbiter_default, [])"
| step: "arbiter_reachable a \<Longrightarrow> arbiter_step a b \<Longrightarrow> arbiter_reachable b"

definition arbiter_inv :: "ArbiterState \<times> BiometricResourceLease list \<Rightarrow> bool" where
  "arbiter_inv p \<longleftrightarrow> (case p of (s, ls) \<Rightarrow>
     (ls = [] \<or> (\<exists>l. ls = [l] \<and> ar_active s = Some l \<and> al_generation l \<le> ar_next_generation s)) \<and>
     (\<not> ar_poisoned s \<and> ls = [] \<longrightarrow> ar_active s = None))"

lemma try_acquire_ok:
  "try_acquire s who = (s', Inr l) \<longleftrightarrow> \<not> ar_poisoned s \<and> ar_active s = None \<and>
     unat (ar_next_generation s) + 1 < 2 ^ 64 \<and>
     l = \<lparr>al_generation = ar_next_generation s + 1, al_owner = who\<rparr> \<and>
     s' = s\<lparr>ar_next_generation := ar_next_generation s + 1, ar_active := Some l\<rparr>"
  by (auto simp: try_acquire_def checked_add_def Let_def split: option.splits if_splits)

lemma try_acquire_refused: "try_acquire s who = (s', Inl e) \<Longrightarrow> s' = s"
  by (auto simp: try_acquire_def Let_def split: option.splits if_splits)

lemma arbiter_step_inv:
  assumes "arbiter_step a b" and "arbiter_inv a"
  shows "arbiter_inv b"
  using assms
proof (cases rule: arbiter_step.cases)
  case (acquired s who s' l ls)
  then show ?thesis using assms(2) by (auto simp: arbiter_inv_def try_acquire_ok)
next
  case (refused s who s' e ls)
  then show ?thesis using assms(2) try_acquire_refused [OF refused(3)] by simp
next
  case (dropped s ls l ls')
  then show ?thesis using assms(2) by (auto simp: arbiter_inv_def lease_drop_def append_eq_Cons_conv split: option.splits)
next
  case (poisoned s ls)
  then show ?thesis using assms(2) by (auto simp: arbiter_inv_def)
qed

lemma arbiter_reachable_inv: "arbiter_reachable p \<Longrightarrow> arbiter_inv p"
proof (induction rule: arbiter_reachable.induct)
  case start
  then show ?case by (simp add: arbiter_inv_def arbiter_default_def)
next
  case (step a b)
  then show ?case using arbiter_step_inv by blast
qed

section \<open>Properties\<close>

text \<open>
  Exclusive and never stuck: in every reachable state at most one lease exists; while one exists
  every attempt to acquire is refused at once and names its owner; and when none exists the next
  attempt succeeds, unless the mutex is poisoned or the 64-bit generation counter is exhausted, so a
  lease that is dropped on any path frees the hardware.
\<close>

theorem arbiter_exclusive:
  assumes "arbiter_reachable (s, ls)"
  shows "length ls \<le> 1 \<and>
    snd (try_acquire s who) =
      (if ar_poisoned s then Inl BR_Unavailable
       else case ls of
         l # _ \<Rightarrow> Inl (BR_Busy (al_owner l))
       | [] \<Rightarrow> if unat (ar_next_generation s) + 1 < 2 ^ 64
               then Inr \<lparr>al_generation = ar_next_generation s + 1, al_owner = who\<rparr>
               else Inl BR_Unavailable)"
  using arbiter_reachable_inv [OF assms]
  by (auto simp: arbiter_inv_def try_acquire_def checked_add_def Let_def split: list.splits)

theorem arbiter_exclusive_witness:
  "\<exists>s l. arbiter_reachable (s, [l]) \<and>
     snd (try_acquire s (OwnAuthentication (TransactionId 9))) = Inl (BR_Busy (OwnAuthentication (TransactionId 7)))"
proof -
  define l where "l = \<lparr>al_generation = 1, al_owner = OwnAuthentication (TransactionId 7)\<rparr>"
  define s where "s = arbiter_default\<lparr>ar_next_generation := 1, ar_active := Some l\<rparr>"
  have a: "try_acquire arbiter_default (OwnAuthentication (TransactionId 7)) = (s, Inr l)"
    by (simp add: try_acquire_ok l_def s_def arbiter_default_def)
  have l: "al_owner l = OwnAuthentication (TransactionId 7)" "\<not> ar_poisoned s"
    by (simp_all add: l_def s_def arbiter_default_def)
  have "arbiter_reachable (s, [l])"
    by (rule arbiter_reachable.step [OF arbiter_reachable.start arbiter_step.acquired [OF a]])
  with arbiter_exclusive [OF this, of "OwnAuthentication (TransactionId 9)"] l show ?thesis by auto
qed

end
