(* ===== verification/Supervision.thy ===== *)
theory Supervision
  imports Transport "HOL-Library.Multiset"
begin

text \<open>
  \<open>crates/faceauth-daemon/src/supervision.rs\<close>: the cooperative shutdown signal with the future that
  waits for it, and the supervisor that owns the service threads of the daemon. Threads, the clock
  and the event channel answer through the arguments; the steps of the signal that other threads can
  interleave are separate operations.
\<close>

section \<open>The shutdown signal\<close>

text \<open>A task waiting for the signal is named by a number; waking it twice is waking it once.\<close>

record ShutdownState =
  sd_requested :: bool
  sd_waiters :: "nat list"
  sd_woken :: "nat set"

definition shutdown_default :: ShutdownState where
  "shutdown_default = \<lparr>sd_requested = False, sd_waiters = [], sd_woken = {}\<rparr>"

text \<open>\<open>request\<close>: the atomic swap, and for its first caller the draining of the waiters under their lock.\<close>

definition request_swap :: "ShutdownState \<Rightarrow> ShutdownState \<times> bool" where
  "request_swap s = (s\<lparr>sd_requested := True\<rparr>, \<not> sd_requested s)"

definition request_drain :: "ShutdownState \<Rightarrow> ShutdownState" where
  "request_drain s = s\<lparr>sd_waiters := [], sd_woken := sd_woken s \<union> set (sd_waiters s)\<rparr>"

definition shutdown_request :: "ShutdownState \<Rightarrow> ShutdownState \<times> bool" where
  "shutdown_request s = (let (s', first) = request_swap s in (if first then request_drain s' else s', first))"

datatype Poll = Ready | Pending

text \<open>
  \<open>poll\<close> with the waker of its context: the first check, the registration under the lock (which looks
  at the flag again), and the last check. \<open>None\<close> is a poll that goes on. A poll whose waker is
  already registered goes from the first check to the last.
\<close>

definition poll_check :: "ShutdownState \<Rightarrow> Poll option" where
  "poll_check s = (if sd_requested s then Some Ready else None)"

definition needs_registration :: "nat option \<Rightarrow> nat \<Rightarrow> bool" where
  "needs_registration stored waker = (stored \<noteq> Some waker)"

definition poll_register :: "ShutdownState \<Rightarrow> nat \<Rightarrow> ShutdownState \<times> Poll option" where
  "poll_register s waker =
     (if sd_requested s then (s, Some Ready) else (s\<lparr>sd_waiters := sd_waiters s @ [waker]\<rparr>, None))"

definition poll_recheck :: "ShutdownState \<Rightarrow> Poll" where
  "poll_recheck s = (if sd_requested s then Ready else Pending)"

text \<open>
  The interleavings of one future, polled again and again, with one thread that requests shutdown.
  The future holds the waker it registered.
\<close>

datatype requester = RqIdle | RqSwapped | RqDone

datatype poller = PoIdle | PoChecked nat | PoRegistered nat | PoReturned nat Poll

record signal_system =
  ss_state :: ShutdownState
  ss_requester :: requester
  ss_poller :: poller
  ss_waker :: "nat option"

inductive signal_step :: "signal_system \<Rightarrow> signal_system \<Rightarrow> bool" where
  swap: "ss_requester t = RqIdle \<Longrightarrow> request_swap (ss_state t) = (s, first) \<Longrightarrow>
    signal_step t (t\<lparr>ss_state := s, ss_requester := (if first then RqSwapped else RqDone)\<rparr>)"
| drain: "ss_requester t = RqSwapped \<Longrightarrow>
    signal_step t (t\<lparr>ss_state := request_drain (ss_state t), ss_requester := RqDone\<rparr>)"
| poll_ready: "ss_poller t = PoIdle \<or> ss_poller t = PoReturned w' Pending \<Longrightarrow> poll_check (ss_state t) = Some p \<Longrightarrow>
    signal_step t (t\<lparr>ss_poller := PoReturned w p\<rparr>)"
| poll_on: "ss_poller t = PoIdle \<or> ss_poller t = PoReturned w' Pending \<Longrightarrow> poll_check (ss_state t) = None \<Longrightarrow>
    signal_step t (t\<lparr>ss_poller := (if needs_registration (ss_waker t) w then PoChecked w else PoRegistered w)\<rparr>)"
| register_ready: "ss_poller t = PoChecked w \<Longrightarrow> poll_register (ss_state t) w = (s, Some p) \<Longrightarrow>
    signal_step t (t\<lparr>ss_state := s, ss_poller := PoReturned w p\<rparr>)"
| register_on: "ss_poller t = PoChecked w \<Longrightarrow> poll_register (ss_state t) w = (s, None) \<Longrightarrow>
    signal_step t (t\<lparr>ss_state := s, ss_poller := PoRegistered w, ss_waker := Some w\<rparr>)"
| recheck: "ss_poller t = PoRegistered w \<Longrightarrow>
    signal_step t (t\<lparr>ss_poller := PoReturned w (poll_recheck (ss_state t))\<rparr>)"

inductive signal_reachable :: "signal_system \<Rightarrow> bool" where
  start: "signal_reachable \<lparr>ss_state = shutdown_default, ss_requester = RqIdle, ss_poller = PoIdle, ss_waker = None\<rparr>"
| step: "signal_reachable t \<Longrightarrow> signal_step t t' \<Longrightarrow> signal_reachable t'"

definition signal_inv :: "signal_system \<Rightarrow> bool" where
  "signal_inv t \<longleftrightarrow>
     (sd_requested (ss_state t) \<longleftrightarrow> ss_requester t \<noteq> RqIdle) \<and>
     (case ss_waker t of None \<Rightarrow> True
      | Some w \<Rightarrow> w \<in> sd_woken (ss_state t) \<or> ss_requester t \<noteq> RqDone \<and> w \<in> set (sd_waiters (ss_state t))) \<and>
     (case ss_poller t of
        PoRegistered w \<Rightarrow> ss_waker t = Some w
      | PoReturned w Pending \<Rightarrow> ss_waker t = Some w
      | PoReturned w Ready \<Rightarrow> ss_requester t \<noteq> RqIdle
      | _ \<Rightarrow> True)"

lemmas signal_defs =
  request_swap_def request_drain_def poll_check_def needs_registration_def poll_register_def poll_recheck_def

lemma signal_step_inv: "signal_step t t' \<Longrightarrow> signal_inv t \<Longrightarrow> signal_inv t'"
  by (induction rule: signal_step.induct)
    (auto simp: signal_inv_def signal_defs split: option.splits poller.splits Poll.splits if_splits)

lemma signal_reachable_inv: "signal_reachable t \<Longrightarrow> signal_inv t"
proof (induction rule: signal_reachable.induct)
  case start
  then show ?case by (simp add: signal_inv_def shutdown_default_def)
next
  case (step t t')
  then show ?case using signal_step_inv by blast
qed

text \<open>
  C31. No lost wakeup: in every interleaving of a polled shutdown future with the request, a poll that
  returned \<open>Pending\<close> has its waker woken by the time the request is done, and a poll returns \<open>Ready\<close>
  only once shutdown was requested.
\<close>

theorem no_lost_wakeup:
  assumes "signal_reachable t" and "ss_poller t = PoReturned w p"
  shows "(case p of
      Pending \<Rightarrow> (if ss_requester t = RqDone then w \<in> sd_woken (ss_state t)
                  else w \<in> sd_woken (ss_state t) \<or> w \<in> set (sd_waiters (ss_state t)))
    | Ready \<Rightarrow> sd_requested (ss_state t))"
  using signal_reachable_inv [OF assms(1)] assms(2)
  by (auto simp: signal_inv_def split: Poll.splits option.splits)

section \<open>The supervisor\<close>

definition MAX_SERVICE_NAME_BYTES :: nat where
  "MAX_SERVICE_NAME_BYTES = 64"

definition ABSOLUTE_MAX_SERVICES :: nat where
  "ABSOLUTE_MAX_SERVICES = 16"

record SupervisorConfig =
  sc_poll_interval :: Duration
  sc_shutdown_grace :: Duration
  sc_max_services :: nat

datatype SupervisorError =
  SU_InvalidConfig
| SU_InvalidServiceName
| SU_DuplicateService string
| SU_TooManyServices nat
| SU_ShutdownAlreadyRequested
| SU_Spawn string IoError
| SU_NoServices
| SU_ServiceExited string
| SU_ServiceFailed string string
| SU_ServicePanicked string
| SU_EventChannelClosed
| SU_InvalidServiceEvent
| SU_ShutdownTimeout "string option" "string list"

definition supervisor_validate :: "SupervisorConfig \<Rightarrow> SupervisorError + unit" where
  "supervisor_validate c =
     (if \<not> in_range (from_millis 1) (from_millis 100) (sc_poll_interval c)
         \<or> \<not> in_range (from_millis 10) (from_secs 30) (sc_shutdown_grace c)
         \<or> \<not> in_range 1 ABSOLUTE_MAX_SERVICES (sc_max_services c)
      then Inl SU_InvalidConfig else Inr ())"

definition supervisor_config_default :: SupervisorConfig where
  "supervisor_config_default =
     \<lparr>sc_poll_interval = from_millis 25, sc_shutdown_grace = from_secs 5, sc_max_services = 8\<rparr>"

record SupervisorReport =
  sr_services_started :: nat
  sr_services_stopped :: nat
  sr_completion_order :: "string list"

datatype ServiceOutcome = SoCompleted | SoFailed string | SoPanicked

record ServiceEvent =
  ev_index :: nat
  ev_outcome :: ServiceOutcome

record ServiceState =
  sv_name :: string
  sv_has_handle :: bool
  sv_stopped :: bool

datatype PendingFailure =
  PfExited string
| PfFailed string string
| PfPanicked string
| PfEventChannelClosed

fun failure_trigger :: "PendingFailure \<Rightarrow> string" where
  "failure_trigger (PfExited name) = name @ '' exited unexpectedly''"
| "failure_trigger (PfFailed name _) = name @ '' failed''"
| "failure_trigger (PfPanicked name) = name @ '' panicked''"
| "failure_trigger PfEventChannelClosed = ''service event channel closed''"

fun failure_error :: "PendingFailure \<Rightarrow> SupervisorError" where
  "failure_error (PfExited name) = SU_ServiceExited name"
| "failure_error (PfFailed name detail) = SU_ServiceFailed name detail"
| "failure_error (PfPanicked name) = SU_ServicePanicked name"
| "failure_error PfEventChannelClosed = SU_EventChannelClosed"

text \<open>The event channel's sender is a flag: \<open>run_until\<close> drops it. The shutdown token is the flag of the signal.\<close>

record ServiceSupervisor =
  su_config :: SupervisorConfig
  su_requested :: bool
  su_has_sender :: bool
  su_services :: "ServiceState list"

definition supervisor_new :: "SupervisorConfig \<Rightarrow> SupervisorError + ServiceSupervisor" where
  "supervisor_new c = try_bind (supervisor_validate c) (\<lambda>_.
     Inr \<lparr>su_config = c, su_requested = False, su_has_sender = True, su_services = []\<rparr>)"

definition is_ascii_lowercase :: "char \<Rightarrow> bool" where
  "is_ascii_lowercase c \<longleftrightarrow> 97 \<le> (of_char c :: nat) \<and> (of_char c :: nat) \<le> 122"

definition is_ascii_digit :: "char \<Rightarrow> bool" where
  "is_ascii_digit c \<longleftrightarrow> 48 \<le> (of_char c :: nat) \<and> (of_char c :: nat) \<le> 57"

definition validate_service_name :: "string \<Rightarrow> SupervisorError + unit" where
  "validate_service_name name =
     (if name = [] \<or> length name > MAX_SERVICE_NAME_BYTES
         \<or> \<not> list_all (\<lambda>c. is_ascii_lowercase c \<or> is_ascii_digit c \<or> c = CHR ''-'') name
      then Inl SU_InvalidServiceName else Inr ())"

text \<open>\<open>spawn\<close>, with the system's answer to the creation of the thread.\<close>

definition supervisor_spawn ::
  "ServiceSupervisor \<Rightarrow> string \<Rightarrow> IoError + unit \<Rightarrow> ServiceSupervisor \<times> (SupervisorError + unit)" where
  "supervisor_spawn s name thread =
     (case validate_service_name name of
        Inl e \<Rightarrow> (s, Inl e)
      | Inr _ \<Rightarrow>
        if list_ex (\<lambda>v. sv_name v = name) (su_services s) then (s, Inl (SU_DuplicateService name))
        else if length (su_services s) \<ge> sc_max_services (su_config s)
        then (s, Inl (SU_TooManyServices (sc_max_services (su_config s))))
        else if su_requested s then (s, Inl SU_ShutdownAlreadyRequested)
        else if \<not> su_has_sender s then (s, Inl SU_ShutdownAlreadyRequested)
        else case thread of
            Inl e \<Rightarrow> (s, Inl (SU_Spawn name e))
          | Inr _ \<Rightarrow> (s\<lparr>su_services := su_services s @ [\<lparr>sv_name = name, sv_has_handle = True, sv_stopped = False\<rparr>]\<rparr>,
                      Inr ()))"

text \<open>What the closure of a spawned thread reports: the task's result, or that it unwound.\<close>

fun service_outcome :: "(string + unit) option \<Rightarrow> ServiceOutcome" where
  "service_outcome (Some (Inr _)) = SoCompleted"
| "service_outcome (Some (Inl detail)) = SoFailed detail"
| "service_outcome None = SoPanicked"

section \<open>The supervision loop\<close>

text \<open>
  One turn of the loop: whether some clone of the token was requested by a service before the turn or
  during the wait, the answer of the external callback, the answer of the event channel with that of
  joining the thread (\<open>True\<close> is a join without an error), and the clock after the wait.
\<close>

datatype ChannelAnswer = ChEvent ServiceEvent bool | ChTimeout | ChDisconnected

record Turn =
  tu_requested_before :: bool
  tu_external :: bool
  tu_clock_external :: Duration
  tu_answer :: ChannelAnswer
  tu_requested_during :: bool
  tu_clock_answer :: Duration
  tu_clock_check :: Duration

record RunState =
  ru_requested :: bool
  ru_services :: "ServiceState list"
  ru_stopped :: nat
  ru_order :: "string list"
  ru_started :: "Duration option"
  ru_failure :: "PendingFailure option"

text \<open>Request shutdown at an instant, unless it was requested.\<close>

definition begin_shutdown :: "Duration \<Rightarrow> RunState \<Rightarrow> RunState" where
  "begin_shutdown now r = (if ru_requested r then r else r\<lparr>ru_requested := True, ru_started := Some now\<rparr>)"

definition record_failure :: "PendingFailure option \<Rightarrow> RunState \<Rightarrow> RunState" where
  "record_failure failure r = (if ru_failure r = None then r\<lparr>ru_failure := failure\<rparr> else r)"

definition event_failure :: "bool \<Rightarrow> string \<Rightarrow> ServiceOutcome \<Rightarrow> PendingFailure option" where
  "event_failure requested name outcome = (case outcome of
       SoCompleted \<Rightarrow> if requested then None else Some (PfExited name)
     | SoFailed detail \<Rightarrow> Some (PfFailed name detail)
     | SoPanicked \<Rightarrow> Some (PfPanicked name))"

definition on_event :: "ServiceEvent \<Rightarrow> bool \<Rightarrow> Duration \<Rightarrow> RunState \<Rightarrow> SupervisorError + RunState" where
  "on_event e joined now r =
     (if \<not> ev_index e < length (ru_services r) then Inl SU_InvalidServiceEvent
      else (let v = ru_services r ! ev_index e in
        if sv_stopped v then Inl SU_InvalidServiceEvent
        else if sv_has_handle v \<and> \<not> joined \<and> ev_outcome e \<noteq> SoPanicked then Inl SU_InvalidServiceEvent
        else (let r1 = r\<lparr>ru_services := (ru_services r)[ev_index e := v\<lparr>sv_stopped := True, sv_has_handle := False\<rparr>],
                         ru_stopped := ru_stopped r + 1, ru_order := ru_order r @ [sv_name v]\<rparr>;
                  r2 = record_failure (event_failure (ru_requested r) (sv_name v) (ev_outcome e)) r1
              in Inr (if ru_failure r2 \<noteq> None then begin_shutdown now r2 else r2))))"

definition on_answer :: "Turn \<Rightarrow> RunState \<Rightarrow> SupervisorError + RunState" where
  "on_answer t r = (case tu_answer t of
       ChEvent e joined \<Rightarrow> on_event e joined (tu_clock_answer t) r
     | ChTimeout \<Rightarrow> Inr r
     | ChDisconnected \<Rightarrow> Inr (begin_shutdown (tu_clock_answer t) (record_failure (Some PfEventChannelClosed) r)))"

definition remaining :: "RunState \<Rightarrow> string list" where
  "remaining r = map sv_name (filter (\<lambda>v. \<not> sv_stopped v) (ru_services r))"

text \<open>The end of a turn: the result of the loop, if it ends here.\<close>

definition turn_end ::
  "SupervisorConfig \<Rightarrow> Duration \<Rightarrow> RunState \<Rightarrow> (SupervisorError + SupervisorReport) option \<times> RunState" where
  "turn_end c now r =
     (if ru_stopped r = length (ru_services r)
      then (Some (case ru_failure r of
              Some f \<Rightarrow> Inl (failure_error f)
            | None \<Rightarrow> Inr \<lparr>sr_services_started = length (ru_services r), sr_services_stopped = ru_stopped r,
                           sr_completion_order = ru_order r\<rparr>), r)
      else (let r' = (if ru_requested r \<and> ru_started r = None then r\<lparr>ru_started := Some now\<rparr> else r) in
        if (case ru_started r' of None \<Rightarrow> False | Some started \<Rightarrow> sc_shutdown_grace c \<le> now - started)
        then (Some (Inl (SU_ShutdownTimeout (map_option failure_trigger (ru_failure r')) (remaining r'))), r')
        else (None, r')))"

text \<open>The state when the channel answers: the requests of the turn have been seen.\<close>

definition turn_requests :: "Turn \<Rightarrow> RunState \<Rightarrow> RunState" where
  "turn_requests t r =
     (let r0 = r\<lparr>ru_requested := ru_requested r \<or> tu_requested_before t\<rparr>;
          r1 = (if \<not> ru_requested r0 \<and> tu_external t then begin_shutdown (tu_clock_external t) r0 else r0)
      in r1\<lparr>ru_requested := ru_requested r1 \<or> tu_requested_during t\<rparr>)"

definition turn :: "SupervisorConfig \<Rightarrow> Turn \<Rightarrow> RunState \<Rightarrow> (SupervisorError + SupervisorReport) option \<times> RunState" where
  "turn c t r =
     (case on_answer t (turn_requests t r) of
        Inl e \<Rightarrow> (Some (Inl e), turn_requests t r)
      | Inr r' \<Rightarrow> turn_end c (tu_clock_check t) r')"

fun run_turns :: "SupervisorConfig \<Rightarrow> Turn list \<Rightarrow> RunState \<Rightarrow> (SupervisorError + SupervisorReport) option \<times> RunState" where
  "run_turns c [] r = (None, r)"
| "run_turns c (t # ts) r = (case turn c t r of (Some result, r') \<Rightarrow> (Some result, r') | (None, r') \<Rightarrow> run_turns c ts r')"

text \<open>
  \<open>run_until\<close> consumes the supervisor; its drop requests shutdown for every clone of the token, on
  every way out. \<open>None\<close> is a loop still running after the given turns.
\<close>

definition run_until :: "ServiceSupervisor \<Rightarrow> Turn list \<Rightarrow> (SupervisorError + SupervisorReport) option \<times> bool" where
  "run_until s ts =
     (if su_services s = [] then (Some (Inl SU_NoServices), True)
      else case run_turns (su_config s) ts
             \<lparr>ru_requested = su_requested s, ru_services = su_services s, ru_stopped = 0, ru_order = [],
              ru_started = None, ru_failure = None\<rparr> of
        (None, r) \<Rightarrow> (None, ru_requested r)
      | (Some result, r) \<Rightarrow> (Some result, True))"

section \<open>Facts\<close>

lemma spawn_ok:
  "supervisor_spawn s name thread = (s', Inr u) \<longleftrightarrow>
     validate_service_name name = Inr () \<and> thread = Inr () \<and> name \<notin> set (map sv_name (su_services s)) \<and>
     length (su_services s) < sc_max_services (su_config s) \<and> \<not> su_requested s \<and> su_has_sender s \<and>
     s' = s\<lparr>su_services := su_services s @ [\<lparr>sv_name = name, sv_has_handle = True, sv_stopped = False\<rparr>]\<rparr>"
  by (auto simp: supervisor_spawn_def list_ex_iff not_le split: sum.splits if_splits)

lemma spawn_error: "supervisor_spawn s name thread = (s', Inl e) \<Longrightarrow> s' = s"
  by (auto simp: supervisor_spawn_def split: sum.splits if_splits)

definition supervisor_inv :: "ServiceSupervisor \<Rightarrow> bool" where
  "supervisor_inv s \<longleftrightarrow> distinct (map sv_name (su_services s)) \<and> list_all (\<lambda>v. sv_has_handle v \<and> \<not> sv_stopped v) (su_services s)
     \<and> length (su_services s) \<le> sc_max_services (su_config s)"

fun supervisor_spawn_all :: "ServiceSupervisor \<Rightarrow> (string \<times> (IoError + unit)) list \<Rightarrow> ServiceSupervisor" where
  "supervisor_spawn_all s [] = s"
| "supervisor_spawn_all s ((name, thread) # ts) = supervisor_spawn_all (fst (supervisor_spawn s name thread)) ts"

lemma spawn_inv: "supervisor_inv s \<Longrightarrow> supervisor_inv (fst (supervisor_spawn s name thread))"
proof (cases "supervisor_spawn s name thread")
  case (Pair s' r)
  assume inv: "supervisor_inv s"
  show ?thesis
  proof (cases r)
    case (Inl e)
    then show ?thesis using Pair inv spawn_error by fastforce
  next
    case (Inr u)
    with Pair have "supervisor_spawn s name thread = (s', Inr u)" by simp
    from this [unfolded spawn_ok] show ?thesis using inv Pair by (auto simp: supervisor_inv_def)
  qed
qed

lemma spawn_all_inv: "supervisor_inv s \<Longrightarrow> supervisor_inv (supervisor_spawn_all s ts)"
  by (induction s ts rule: supervisor_spawn_all.induct) (simp_all add: spawn_inv)

text \<open>The bookkeeping of the loop.\<close>

definition stopped_names :: "ServiceState list \<Rightarrow> string multiset" where
  "stopped_names vs = mset (map sv_name (filter sv_stopped vs))"

definition run_inv :: "ServiceState list \<Rightarrow> RunState \<Rightarrow> bool" where
  "run_inv vs r \<longleftrightarrow> map sv_name (ru_services r) = map sv_name vs \<and>
     mset (ru_order r) = stopped_names (ru_services r) \<and> ru_stopped r = length (ru_order r) \<and>
     (ru_failure r \<noteq> None \<longrightarrow> ru_requested r)"

lemma stopped_names_update:
  "i < length vs \<Longrightarrow> \<not> sv_stopped (vs ! i) \<Longrightarrow> sv_stopped v \<Longrightarrow>
     stopped_names (vs[i := v]) = stopped_names vs + {#sv_name v#}"
  by (induction vs arbitrary: i) (auto simp: stopped_names_def nth_Cons split: nat.splits)

lemma stopped_names_all:
  "stopped_names vs = mset (map sv_name vs)" if "size (stopped_names vs) = length vs"
proof -
  have "length (filter sv_stopped vs) = length vs" using that by (simp add: stopped_names_def flip: mset_filter)
  then have "filter sv_stopped vs = vs" by (metis filter_True length_filter_less less_irrefl)
  then show ?thesis by (simp add: stopped_names_def)
qed

lemma begin_shutdown_simps [simp]:
  "ru_services (begin_shutdown now r) = ru_services r" "ru_order (begin_shutdown now r) = ru_order r"
  "ru_stopped (begin_shutdown now r) = ru_stopped r" "ru_failure (begin_shutdown now r) = ru_failure r"
  "ru_requested (begin_shutdown now r)"
  by (simp_all add: begin_shutdown_def)

lemma record_failure_simps [simp]:
  "ru_services (record_failure f r) = ru_services r" "ru_order (record_failure f r) = ru_order r"
  "ru_stopped (record_failure f r) = ru_stopped r" "ru_requested (record_failure f r) = ru_requested r"
  "ru_started (record_failure f r) = ru_started r"
  "ru_failure (record_failure f r) = (if ru_failure r = None then f else ru_failure r)"
  by (simp_all add: record_failure_def)

text \<open>The answers that leave a run without a failure.\<close>

definition quiet_answer :: "bool \<Rightarrow> ChannelAnswer \<Rightarrow> bool" where
  "quiet_answer requested a = (case a of
       ChTimeout \<Rightarrow> True | ChDisconnected \<Rightarrow> False
     | ChEvent e joined \<Rightarrow> ev_outcome e = SoCompleted \<and> requested)"

lemma stopped_update_names:
  "i < length vs \<Longrightarrow> map sv_name (vs[i := (vs ! i)\<lparr>sv_stopped := a, sv_has_handle := b\<rparr>]) = map sv_name vs"
  by (induction vs arbitrary: i) (auto simp: nth_Cons split: nat.splits)

text \<open>The state after an event, before shutdown is begun for it.\<close>

definition after_event :: "ServiceEvent \<Rightarrow> RunState \<Rightarrow> RunState" where
  "after_event e r =
     (let v = ru_services r ! ev_index e in
      record_failure (event_failure (ru_requested r) (sv_name v) (ev_outcome e))
        (r\<lparr>ru_services := (ru_services r)[ev_index e := v\<lparr>sv_stopped := True, sv_has_handle := False\<rparr>],
           ru_stopped := ru_stopped r + 1, ru_order := ru_order r @ [sv_name v]\<rparr>))"

lemma on_event_ok:
  "on_event e joined now r = Inr r' \<Longrightarrow>
     ev_index e < length (ru_services r) \<and> \<not> sv_stopped (ru_services r ! ev_index e) \<and>
     r' = (if ru_failure (after_event e r) \<noteq> None then begin_shutdown now (after_event e r) else after_event e r)"
  by (simp add: on_event_def after_event_def Let_def split: if_splits)

lemma after_event_simps:
  "ru_requested (after_event e r) = ru_requested r"
  "ru_started (after_event e r) = ru_started r"
  "ru_failure (after_event e r) = (if ru_failure r = None
     then event_failure (ru_requested r) (sv_name (ru_services r ! ev_index e)) (ev_outcome e) else ru_failure r)"
  by (simp_all add: after_event_def Let_def)

lemma after_event_books:
  assumes "ev_index e < length (ru_services r)" "\<not> sv_stopped (ru_services r ! ev_index e)"
  shows "map sv_name (ru_services (after_event e r)) = map sv_name (ru_services r)"
    and "mset (ru_order r) = stopped_names (ru_services r) \<Longrightarrow>
      mset (ru_order (after_event e r)) = stopped_names (ru_services (after_event e r))"
    and "ru_stopped r = length (ru_order r) \<Longrightarrow> ru_stopped (after_event e r) = length (ru_order (after_event e r))"
  using assms by (simp_all add: after_event_def Let_def stopped_update_names stopped_names_update)

lemma event_failure_None: "event_failure requested name outcome = None \<longleftrightarrow> outcome = SoCompleted \<and> requested"
  by (cases outcome) (simp_all add: event_failure_def)

lemma on_answer_ok:
  assumes "on_answer t r = Inr r'" and "run_inv vs r"
  shows "run_inv vs r' \<and> (ru_requested r \<longrightarrow> ru_requested r') \<and>
    (ru_failure r' = None \<longleftrightarrow> ru_failure r = None \<and> quiet_answer (ru_requested r) (tu_answer t)) \<and>
    (ru_failure r' = None \<longrightarrow> ru_requested r' = ru_requested r)"
proof (cases "tu_answer t")
  case (ChEvent e joined)
  with assms(1) have "on_event e joined (tu_clock_answer t) r = Inr r'" by (simp add: on_answer_def)
  note ok = on_event_ok [OF this]
  have "run_inv vs r'"
    using ok assms(2) after_event_books [of e r] by (auto simp: run_inv_def)
  moreover have "ru_failure r' = ru_failure (after_event e r)" "ru_requested r \<longrightarrow> ru_requested r'"
    "ru_failure r' = None \<longrightarrow> ru_requested r' = ru_requested r"
    using ok by (auto simp: after_event_simps(1))
  ultimately show ?thesis using ChEvent
    by (auto simp: after_event_simps(3) quiet_answer_def event_failure_None split: if_splits)
next
  case ChTimeout
  with assms show ?thesis by (simp add: on_answer_def quiet_answer_def)
next
  case ChDisconnected
  with assms show ?thesis by (auto simp: on_answer_def quiet_answer_def run_inv_def)
qed

lemma turn_requests_simps [simp]:
  "ru_services (turn_requests t r) = ru_services r" "ru_order (turn_requests t r) = ru_order r"
  "ru_stopped (turn_requests t r) = ru_stopped r" "ru_failure (turn_requests t r) = ru_failure r"
  "ru_requested (turn_requests t r) \<longleftrightarrow> ru_requested r \<or> tu_requested_before t \<or> tu_external t \<or> tu_requested_during t"
  by (simp_all add: turn_requests_def Let_def)

lemma turn_requests_inv: "run_inv vs r \<Longrightarrow> run_inv vs (turn_requests t r)"
  by (auto simp: run_inv_def)

lemma turn_end_None:
  "turn_end c now r = (None, r') \<Longrightarrow> ru_stopped r \<noteq> length (ru_services r) \<and> ru_services r' = ru_services r \<and>
     ru_order r' = ru_order r \<and> ru_stopped r' = ru_stopped r \<and> ru_failure r' = ru_failure r \<and>
     ru_requested r' = ru_requested r"
  by (auto simp: turn_end_def Let_def split: if_splits)

lemma turn_end_report:
  "turn_end c now r = (Some (Inr rep), r') \<Longrightarrow> ru_stopped r = length (ru_services r) \<and> ru_failure r = None \<and>
     rep = \<lparr>sr_services_started = length (ru_services r), sr_services_stopped = ru_stopped r, sr_completion_order = ru_order r\<rparr>"
  by (auto simp: turn_end_def Let_def split: if_splits option.splits)

definition clean_answer :: "ChannelAnswer \<Rightarrow> bool" where
  "clean_answer a = (case a of
       ChEvent e _ \<Rightarrow> ev_outcome e = SoCompleted | ChTimeout \<Rightarrow> True | ChDisconnected \<Rightarrow> False)"

definition shutdown_asked :: "Turn \<Rightarrow> bool" where
  "shutdown_asked t \<longleftrightarrow> tu_requested_before t \<or> tu_external t \<or> tu_requested_during t"

lemma quiet_clean: "quiet_answer requested a \<Longrightarrow> clean_answer a"
  by (auto simp: quiet_answer_def clean_answer_def split: ChannelAnswer.splits)

lemma run_inv_lengths:
  assumes "run_inv vs r"
  shows "length (ru_services r) = length vs" and "ru_stopped r \<le> length vs"
    and "ru_stopped r = length vs \<Longrightarrow> mset (ru_order r) = mset (map sv_name vs)"
proof -
  show len: "length (ru_services r) = length vs" using assms by (metis length_map run_inv_def)
  have size: "ru_stopped r = size (stopped_names (ru_services r))"
    using assms by (metis run_inv_def size_mset)
  then show "ru_stopped r \<le> length vs" using len length_filter_le [of sv_stopped "ru_services r"]
    by (simp add: stopped_names_def flip: mset_filter)
  show "mset (ru_order r) = mset (map sv_name vs)" if "ru_stopped r = length vs"
    using that assms size len stopped_names_all [of "ru_services r"] by (simp add: run_inv_def)
qed

lemma run_turns_report:
  "run_turns c ts r = (Some (Inr rep), r') \<Longrightarrow> run_inv vs r \<Longrightarrow> ru_stopped r < length vs \<Longrightarrow>
     ru_failure r = None \<and>
     (\<exists>k \<le> length ts. (\<forall>t \<in> set (take k ts). clean_answer (tu_answer t)) \<and>
       (ru_requested r \<or> (\<exists>t \<in> set (take k ts). shutdown_asked t))) \<and>
     sr_services_started rep = length vs \<and> sr_services_stopped rep = length vs \<and>
     mset (sr_completion_order rep) = mset (map sv_name vs)"
proof (induction ts arbitrary: r)
  case Nil
  then show ?case by simp
next
  case (Cons t ts)
  obtain r1 where r1: "on_answer t (turn_requests t r) = Inr r1"
    using Cons.prems(1) by (auto simp: turn_def split: sum.splits)
  note step = on_answer_ok [OF r1 turn_requests_inv [OF Cons.prems(2)]]
  have asked: "ru_requested (turn_requests t r) \<longleftrightarrow> ru_requested r \<or> shutdown_asked t"
    by (auto simp: shutdown_asked_def)
  obtain result r2 where ended: "turn_end c (tu_clock_check t) r1 = (result, r2)" by fastforce
  show ?case
  proof (cases result)
    case None
    then have rest: "run_turns c ts r2 = (Some (Inr rep), r')" using Cons.prems(1) r1 ended by (simp add: turn_def)
    note same = turn_end_None [OF ended [unfolded None]]
    have inv: "run_inv vs r2" using step same by (auto simp: run_inv_def)
    have "ru_stopped r2 < length vs" using same run_inv_lengths [OF inv] by auto
    note IH = Cons.IH [OF rest inv this]
    then obtain k where k: "k \<le> length ts" "\<forall>t \<in> set (take k ts). clean_answer (tu_answer t)"
        "ru_requested r2 \<or> (\<exists>t \<in> set (take k ts). shutdown_asked t)" by blast
    have quiet: "ru_failure r = None" "quiet_answer (ru_requested (turn_requests t r)) (tu_answer t)"
      "ru_requested r1 = ru_requested (turn_requests t r)" using step IH same by auto
    have "\<exists>k \<le> length (t # ts). (\<forall>t \<in> set (take k (t # ts)). clean_answer (tu_answer t)) \<and>
       (ru_requested r \<or> (\<exists>t \<in> set (take k (t # ts)). shutdown_asked t))"
      using k quiet asked same quiet_clean by (intro exI [of _ "Suc k"]) auto
    with IH quiet(1) show ?thesis by blast
  next
    case (Some res)
    then have "res = Inr rep" using Cons.prems(1) r1 ended by (simp add: turn_def)
    note report = turn_end_report [OF ended [unfolded Some this]]
    have quiet: "ru_failure r = None" "quiet_answer (ru_requested (turn_requests t r)) (tu_answer t)"
      using step report by auto
    have inv1: "run_inv vs r1" using step by blast
    have "ru_stopped r1 \<noteq> ru_stopped r" using report run_inv_lengths(1) [OF inv1] Cons.prems(3) by simp
    then have "tu_answer t \<noteq> ChTimeout" using r1 by (auto simp: on_answer_def)
    with quiet(2) have "ru_requested (turn_requests t r)" by (auto simp: quiet_answer_def split: ChannelAnswer.splits)
    then have "\<exists>k \<le> length (t # ts). (\<forall>t \<in> set (take k (t # ts)). clean_answer (tu_answer t)) \<and>
       (ru_requested r \<or> (\<exists>t \<in> set (take k (t # ts)). shutdown_asked t))"
      using asked quiet_clean [OF quiet(2)] by (intro exI [of _ 1]) auto
    with report quiet(1) run_inv_lengths [OF inv1] show ?thesis by auto
  qed
qed

section \<open>Properties of the supervisor\<close>

text \<open>
  A supervisor reports success only after an orderly shutdown: somebody asked for it, until then no
  service ended, no service failed or panicked and the event channel did not close, and the report
  names every service exactly once in the order they stopped.
\<close>

theorem supervision_report:
  assumes "supervisor_inv s" and "\<not> su_requested s" and "run_until s ts = (Some (Inr rep), q)"
  shows "(\<exists>k \<le> length ts. (\<forall>t \<in> set (take k ts). clean_answer (tu_answer t)) \<and> (\<exists>t \<in> set (take k ts). shutdown_asked t)) \<and>
    sr_services_started rep = length (su_services s) \<and> sr_services_stopped rep = length (su_services s) \<and>
    distinct (sr_completion_order rep) \<and> set (sr_completion_order rep) = sv_name ` set (su_services s)"
proof -
  let ?r = "\<lparr>ru_requested = su_requested s, ru_services = su_services s, ru_stopped = 0, ru_order = [],
    ru_started = None, ru_failure = None\<rparr>"
  have "filter sv_stopped (su_services s) = []" using assms(1) by (auto simp: supervisor_inv_def list_all_iff)
  then have inv: "run_inv (su_services s) ?r" by (simp add: run_inv_def stopped_names_def)
  from assms(3) have ne: "su_services s \<noteq> []" by (auto simp: run_until_def)
  with assms(3) obtain r' where "run_turns (su_config s) ts ?r = (Some (Inr rep), r')"
    by (auto simp: run_until_def split: prod.splits option.splits)
  from run_turns_report [OF this inv] ne assms(2)
  have books: "mset (sr_completion_order rep) = mset (map sv_name (su_services s))"
    "sr_services_started rep = length (su_services s)" "sr_services_stopped rep = length (su_services s)"
    "\<exists>k \<le> length ts. (\<forall>t \<in> set (take k ts). clean_answer (tu_answer t)) \<and> (\<exists>t \<in> set (take k ts). shutdown_asked t)"
    by auto
  with assms(1) mset_eq_imp_distinct_iff [OF books(1)] mset_eq_setD [OF books(1)] show ?thesis
    by (auto simp: supervisor_inv_def)
qed

text \<open>Once shutdown has begun it has begun at a fixed instant.\<close>

definition begun_by :: "Duration \<Rightarrow> RunState \<Rightarrow> bool" where
  "begun_by T r \<longleftrightarrow> ru_requested r \<and> (\<exists>started \<le> T. ru_started r = Some started)"

definition clocks_by :: "Duration \<Rightarrow> Turn \<Rightarrow> bool" where
  "clocks_by T t \<longleftrightarrow> tu_clock_external t \<le> T \<and> tu_clock_answer t \<le> T \<and> tu_clock_check t \<le> T"

definition started_sound :: "Duration \<Rightarrow> RunState \<Rightarrow> bool" where
  "started_sound T r \<longleftrightarrow> (case ru_started r of None \<Rightarrow> True | Some st \<Rightarrow> st \<le> T \<and> ru_requested r)"

lemma on_answer_started:
  assumes "on_answer t r = Inr r'"
  shows "(started_sound T r \<and> tu_clock_answer t \<le> T \<longrightarrow> started_sound T r') \<and>
    (begun_by T r \<longrightarrow> begun_by T r') \<and> (ru_requested r \<or> tu_answer t \<noteq> ChTimeout \<longrightarrow> ru_requested r')"
proof (cases "tu_answer t")
  case (ChEvent e joined)
  with assms have ok: "on_event e joined (tu_clock_answer t) r = Inr r'" by (simp add: on_answer_def)
  have "ru_requested r' \<and> ru_started r' = (if ru_requested r then ru_started r else Some (tu_clock_answer t))"
  proof (cases "ru_failure (after_event e r)")
    case None
    then have "ru_requested r" by (simp add: after_event_simps event_failure_None split: if_splits)
    with None on_event_ok [OF ok] show ?thesis by (simp add: after_event_simps)
  next
    case (Some f)
    then show ?thesis using on_event_ok [OF ok] by (simp add: begin_shutdown_def after_event_simps)
  qed
  then show ?thesis by (auto simp: started_sound_def begun_by_def split: option.splits)
next
  case ChTimeout
  with assms show ?thesis by (simp add: on_answer_def)
next
  case ChDisconnected
  with assms show ?thesis
    by (auto simp: on_answer_def started_sound_def begun_by_def begin_shutdown_def split: option.splits if_splits)
qed

lemma turn_started:
  assumes "turn c t r = (None, r')"
  shows "(started_sound T r \<and> clocks_by T t \<longrightarrow> started_sound T r') \<and> (begun_by T r \<longrightarrow> begun_by T r') \<and>
    (started_sound T r \<and> clocks_by T t \<and> (shutdown_asked t \<or> tu_answer t \<noteq> ChTimeout) \<longrightarrow> begun_by T r') \<and>
    (begun_by T r \<longrightarrow> tu_clock_check t < T + sc_shutdown_grace c)"
proof -
  have req: "started_sound T r \<and> clocks_by T t \<longrightarrow> started_sound T (turn_requests t r)"
    "begun_by T r \<longrightarrow> begun_by T (turn_requests t r)"
    by (auto simp: started_sound_def begun_by_def turn_requests_def begin_shutdown_def clocks_by_def Let_def split: option.splits)
  from assms obtain r1 where r1: "on_answer t (turn_requests t r) = Inr r1"
    and e: "turn_end c (tu_clock_check t) r1 = (None, r')" by (auto simp: turn_def split: sum.splits)
  note ans = on_answer_started [OF r1, of T]
  have "started_sound T r1 \<and> clocks_by T t \<longrightarrow> started_sound T r'" "begun_by T r1 \<longrightarrow> begun_by T r'"
    "started_sound T r1 \<and> clocks_by T t \<and> ru_requested r1 \<longrightarrow> begun_by T r'"
    "begun_by T r1 \<longrightarrow> tu_clock_check t < T + sc_shutdown_grace c"
    using e by (auto simp: turn_end_def Let_def started_sound_def begun_by_def clocks_by_def split: if_splits option.splits)
  with req ans show ?thesis by (auto simp: shutdown_asked_def clocks_by_def)
qed

lemma run_turns_begun:
  "begun_by T r \<Longrightarrow> t \<in> set ts \<Longrightarrow> T + sc_shutdown_grace c \<le> tu_clock_check t \<Longrightarrow> fst (run_turns c ts r) \<noteq> None"
proof (induction ts arbitrary: r)
  case (Cons u us)
  show ?case
  proof (cases "turn c u r")
    case (Pair result r')
    then show ?thesis using Cons turn_started [of c u r r' T] by (cases result) auto
  qed
qed simp

lemma run_turns_append:
  "run_turns c (xs @ ys) r = (case run_turns c xs r of (Some result, r') \<Rightarrow> (Some result, r') | (None, r') \<Rightarrow> run_turns c ys r')"
  by (induction xs arbitrary: r) (auto split: prod.splits option.splits)

lemma run_turns_sound:
  "run_turns c ts r = (None, r') \<Longrightarrow> started_sound T r \<Longrightarrow> list_all (clocks_by T) ts \<Longrightarrow> started_sound T r'"
proof (induction ts arbitrary: r)
  case (Cons u us)
  then show ?case using turn_started [of c u r _ T]
    by (auto split: prod.splits option.splits)
qed simp

text \<open>
  C30. Shutdown terminates: if by the instant \<open>T\<close> some turn saw a request for shutdown or anything but a
  timeout on the event channel (a service that ended, failed or panicked, or a closed channel), the
  supervisor has returned by the first turn that reads the clock at \<open>T\<close> plus the grace period, no
  matter what the services do.
\<close>

theorem supervision_terminates:
  assumes "list_all (clocks_by T) (pre @ [t])" and "shutdown_asked t \<or> tu_answer t \<noteq> ChTimeout"
    and "u \<in> set post" and "T + sc_shutdown_grace (su_config s) \<le> tu_clock_check u"
  shows "fst (run_until s (pre @ t # post)) \<noteq> None"
proof -
  let ?c = "su_config s"
  let ?r = "\<lparr>ru_requested = su_requested s, ru_services = su_services s, ru_stopped = 0, ru_order = [],
    ru_started = None, ru_failure = None\<rparr>"
  have "fst (run_turns ?c (pre @ t # post) ?r) \<noteq> None"
  proof (cases "run_turns ?c pre ?r")
    case (Pair result r1)
    show ?thesis
    proof (cases result)
      case None
      have "started_sound T r1"
        using run_turns_sound [OF Pair [unfolded None], of T] assms(1) by (simp add: started_sound_def)
      then have "fst (run_turns ?c (t # post) r1) \<noteq> None"
        using turn_started [of ?c t r1 _ T] assms run_turns_begun [of T _ u post ?c]
        by (auto split: prod.splits option.splits)
      with Pair None show ?thesis by (simp add: run_turns_append)
    qed (simp add: Pair run_turns_append)
  qed
  then show ?thesis by (auto simp: run_until_def split: prod.splits option.splits)
qed

section \<open>The supervised listener\<close>

text \<open>
  The accept loop stops when the token is requested; the listener is dropped, so its own socket is
  removed, on the normal way out and on an error alike.
\<close>

definition run_supervised_authentication_listener ::
  "TransportConfig \<Rightarrow> AcceptLoopConfig \<Rightarrow> IoError + unit \<Rightarrow> (bool \<times> (IoError + Incoming)) list \<Rightarrow>
   IoError option \<times> IoError option \<Rightarrow> Filesystem \<Rightarrow> SecureListener \<Rightarrow>
   (Filesystem \<times> (TransportError + AcceptLoopReport) \<times> PeerStream list) option" where
  "run_supervised_authentication_listener t c set_nonblocking answers faults fs listener =
     map_option (\<lambda>(report, handled). (listener_drop faults fs listener, report, handled))
       (run_accept_loop t c set_nonblocking answers)"

section \<open>Examples\<close>

definition ex_turn :: Turn where
  "ex_turn = \<lparr>tu_requested_before = False, tu_external = False, tu_clock_external = 0, tu_answer = ChTimeout,
     tu_requested_during = False, tu_clock_answer = 0, tu_clock_check = 0\<rparr>"

definition ex_supervisor :: ServiceSupervisor where
  "ex_supervisor = \<lparr>su_config = supervisor_config_default, su_requested = False, su_has_sender = True,
     su_services = [\<lparr>sv_name = ''auth'', sv_has_handle = True, sv_stopped = False\<rparr>]\<rparr>"

lemma ex_supervisor_spawned:
  "\<exists>s. supervisor_new supervisor_config_default = Inr s \<and> supervisor_spawn s ''auth'' (Inr ()) = (ex_supervisor, Inr ())"
  by (simp add: supervisor_new_def supervisor_validate_def supervisor_config_default_def in_range_def from_millis_def
      from_secs_def ABSOLUTE_MAX_SERVICES_def supervisor_spawn_def validate_service_name_def MAX_SERVICE_NAME_BYTES_def
      is_ascii_lowercase_def ex_supervisor_def)

definition ex_turns :: "Turn list" where
  "ex_turns = [ex_turn\<lparr>tu_external := True\<rparr>,
     ex_turn\<lparr>tu_answer := ChEvent \<lparr>ev_index = 0, ev_outcome = SoCompleted\<rparr> True\<rparr>]"

lemma ex_run_until:
  "run_until ex_supervisor ex_turns =
     (Some (Inr \<lparr>sr_services_started = 1, sr_services_stopped = 1, sr_completion_order = [''auth'']\<rparr>), True)"
  by (simp add: run_until_def ex_supervisor_def ex_turns_def ex_turn_def turn_def turn_requests_def on_answer_def on_event_def
      event_failure_def record_failure_def begin_shutdown_def turn_end_def supervisor_config_default_def from_secs_def)

theorem supervision_report_witness:
  "\<exists>k \<le> length ex_turns. \<exists>t \<in> set (take k ex_turns). shutdown_asked t"
  using supervision_report [OF _ _ ex_run_until] by (auto simp: supervisor_inv_def ex_supervisor_def supervisor_config_default_def)

theorem supervision_terminates_witness:
  "fst (run_until ex_supervisor ([ex_turn] @ ex_turn\<lparr>tu_external := True\<rparr> # [ex_turn\<lparr>tu_clock_check := from_secs 5\<rparr>])) \<noteq> None"
  by (rule supervision_terminates [where T = 0 and u = "ex_turn\<lparr>tu_clock_check := from_secs 5\<rparr>"])
    (simp_all add: clocks_by_def ex_turn_def shutdown_asked_def ex_supervisor_def supervisor_config_default_def)

theorem no_lost_wakeup_witness:
  "\<exists>t :: signal_system. ss_poller t = PoReturned 3 Pending \<and> 3 \<in> set (sd_waiters (ss_state t)) \<union> sd_woken (ss_state t)"
proof -
  let ?s0 = "\<lparr>ss_state = shutdown_default, ss_requester = RqIdle, ss_poller = PoIdle, ss_waker = None\<rparr>"
  let ?s1 = "?s0\<lparr>ss_poller := PoChecked 3\<rparr>"
  let ?s2 = "?s1\<lparr>ss_state := shutdown_default\<lparr>sd_waiters := [3]\<rparr>, ss_poller := PoRegistered 3, ss_waker := Some 3\<rparr>"
  let ?s3 = "?s2\<lparr>ss_poller := PoReturned 3 Pending\<rparr>"
  have "signal_step ?s0 ?s1"
    using signal_step.poll_on [of ?s0 0 3] by (simp add: signal_defs shutdown_default_def)
  moreover have "signal_step ?s1 ?s2"
    using signal_step.register_on [of ?s1 3 "shutdown_default\<lparr>sd_waiters := [3]\<rparr>"] by (simp add: signal_defs shutdown_default_def)
  moreover have "signal_step ?s2 ?s3"
    using signal_step.recheck [of ?s2 3] by (simp add: signal_defs shutdown_default_def)
  ultimately have "signal_reachable ?s3" by (blast intro: signal_reachable.intros)
  moreover have p: "ss_poller ?s3 = PoReturned 3 Pending" by simp
  ultimately have "3 \<in> set (sd_waiters (ss_state ?s3)) \<union> sd_woken (ss_state ?s3)"
    using no_lost_wakeup [of ?s3 3 Pending] by auto
  with p show ?thesis by blast
qed

end
