(* ===== verification/Engine.thy ===== *)
theory Engine
  imports Evaluation Resource Supervision
begin

text \<open>
  The single-capacity authentication engine (\<open>crates/faceauth-daemon/src/engine.rs\<close>): jobs bound to the
  active session, submission without waiting, the run of one job with its bounded updates, and the
  worker loop. An engine is any program that reports progress and ends with a result; flags that other
  threads change answer through the arguments.
\<close>

section \<open>Jobs\<close>

definition REQUEST_QUEUE_CAPACITY :: nat where
  "REQUEST_QUEUE_CAPACITY = 1"

definition MAX_PROGRESS_UPDATES :: nat where
  "MAX_PROGRESS_UPDATES = 32"

definition UPDATE_QUEUE_CAPACITY :: nat where
  "UPDATE_QUEUE_CAPACITY = MAX_PROGRESS_UPDATES + 1"

text \<open>
  A shutdown token is a reference to a flag, like a cancellation token: \<open>None\<close> is the default token
  of a new job, which nobody else holds, so nobody can request it.
\<close>

type_synonym ShutdownToken = "nat option"

definition token_requested :: "bool list \<Rightarrow> ShutdownToken \<Rightarrow> bool" where
  "token_requested flags t = (case t of None \<Rightarrow> False | Some i \<Rightarrow> i < length flags \<and> flags ! i)"

record AuthenticationJob =
  job_transaction_id :: TransactionId
  job_target_uid :: u32
  job_worker :: CancellationToken
  job_shutdown :: ShutdownToken

definition job_from_session ::
  "SessionManager \<Rightarrow> ConnectionToken \<Rightarrow> TransactionId \<Rightarrow> SessionError + AuthenticationJob" where
  "job_from_session m conn tid =
     try_bind (session_target_uid m conn tid) (\<lambda>uid.
     try_bind (session_cancellation_token m conn tid) (\<lambda>token.
     Inr \<lparr>job_transaction_id = tid, job_target_uid = uid, job_worker = token, job_shutdown = None\<rparr>))"

definition job_is_cancelled :: "bool list \<Rightarrow> bool list \<Rightarrow> AuthenticationJob \<Rightarrow> bool" where
  "job_is_cancelled cells flags job \<longleftrightarrow> is_cancelled cells (job_worker job) \<or> token_requested flags (job_shutdown job)"

section \<open>Evidence, failures and updates\<close>

record DerivedAuthenticationEvidence =
  de_transaction_id :: TransactionId
  de_timing :: CapturePair
  de_quality :: fp
  de_embedding :: FaceEmbedding
  de_passive_liveness :: "PassiveLivenessScore list"
  de_active_challenge :: ChallengeProgress
  de_completed_at_micros :: u64

definition evidence_observation :: "DerivedAuthenticationEvidence \<Rightarrow> AuthenticationObservation" where
  "evidence_observation e =
     \<lparr>ao_timing = de_timing e, ao_quality = de_quality e, ao_embedding = de_embedding e,
      ao_passive_liveness = de_passive_liveness e, ao_active_challenge = de_active_challenge e\<rparr>"

datatype AuthenticationEngineFailure =
  EF_Cancelled | EF_Capture | EF_Inference | EF_Liveness | EF_InvalidEvidence | EF_Internal

type_synonym engine_result = "AuthenticationEngineFailure + DerivedAuthenticationEvidence"

datatype AuthenticationEngineUpdate =
  UpProgress TransactionId ProgressCode
| UpCompleted TransactionId engine_result

text \<open>
  A run of \<open>AuthenticationEngine::authenticate\<close> as the caller sees it: it reports progress, is told
  whether the report was taken, and goes on or ends, or it panics.
\<close>

datatype engine_run =
  EngineDone engine_result
| EnginePanic
| EngineReport ProgressCode "AuthenticationEngineFailure + unit \<Rightarrow> engine_run"

section \<open>Submission\<close>

text \<open>
  The shared state of the clients and the service: the queued requests, whether the service still
  owns the receiving end, the flag \<open>active\<close>, and the arbiter of the hardware.
\<close>

record EngineRequest =
  rq_job :: AuthenticationJob
  rq_lease :: BiometricResourceLease

record EngineState =
  en_requests :: "EngineRequest list"
  en_receiver :: bool
  en_active :: bool
  en_resources :: ArbiterState

datatype AuthenticationEngineSubmitError = ES_Busy | ES_ResourceUnavailable | ES_WorkerStopped

fun submit_error :: "BiometricResourceError \<Rightarrow> AuthenticationEngineSubmitError" where
  "submit_error (BR_Busy _) = ES_Busy"
| "submit_error BR_Unavailable = ES_ResourceUnavailable"

text \<open>On an error the lease goes out of scope, and with it the ownership of the hardware.\<close>

definition engine_submit ::
  "EngineState \<Rightarrow> AuthenticationJob \<Rightarrow> EngineState \<times> (AuthenticationEngineSubmitError + TransactionId)" where
  "engine_submit s job =
     (case try_acquire (en_resources s) (OwnAuthentication (job_transaction_id job)) of
        (a, Inl e) \<Rightarrow> (s\<lparr>en_resources := a\<rparr>, Inl (submit_error e))
      | (a, Inr lease) \<Rightarrow>
         (if en_active s then (s\<lparr>en_resources := lease_drop lease a\<rparr>, Inl ES_Busy)
          else if \<not> en_receiver s \<or> length (en_requests s) \<ge> REQUEST_QUEUE_CAPACITY
          then (s\<lparr>en_active := False, en_resources := lease_drop lease a\<rparr>, Inl ES_WorkerStopped)
          else (s\<lparr>en_active := True, en_resources := a,
                  en_requests := en_requests s @ [\<lparr>rq_job = job, rq_lease = lease\<rparr>]\<rparr>,
                Inr (job_transaction_id job))))"

section \<open>One job\<close>

text \<open>
  The updates sent so far, and the number of reports taken. At each report other threads answer: is
  the job cancelled, is the receiver still there, and how many updates has it taken from the channel.
\<close>

record JobRun =
  jr_sent :: "AuthenticationEngineUpdate list"
  jr_progress_count :: nat
  jr_reports :: nat

record JobWorld =
  jw_cancelled :: "nat \<Rightarrow> bool"
  jw_connected :: "nat \<Rightarrow> bool"
  jw_received :: "nat \<Rightarrow> nat"
  jw_cancelled_before :: bool
  jw_cancelled_after :: bool
  jw_connected_at_end :: bool

text \<open>The closure \<open>progress\<close>; \<open>try_send\<close> refuses when the channel is full or has no receiver.\<close>

definition job_progress ::
  "TransactionId \<Rightarrow> JobWorld \<Rightarrow> ProgressCode \<Rightarrow> JobRun \<Rightarrow> JobRun \<times> (AuthenticationEngineFailure + unit)" where
  "job_progress tid w code r =
     (let k = jr_reports r; r = r\<lparr>jr_reports := k + 1\<rparr> in
      if jw_cancelled w k then (r, Inl EF_Cancelled)
      else if jr_progress_count r \<ge> MAX_PROGRESS_UPDATES then (r, Inl EF_Internal)
      else if length (jr_sent r) - jw_received w k \<ge> UPDATE_QUEUE_CAPACITY \<or> \<not> jw_connected w k
      then (r, Inl EF_Internal)
      else (r\<lparr>jr_sent := jr_sent r @ [UpProgress tid code], jr_progress_count := jr_progress_count r + 1\<rparr>, Inr ()))"

primrec run_engine :: "engine_run \<Rightarrow> TransactionId \<Rightarrow> JobWorld \<Rightarrow> JobRun \<Rightarrow> JobRun \<times> engine_result option" where
  "run_engine (EngineDone result) tid w r = (r, Some result)"
| "run_engine EnginePanic tid w r = (r, None)"
| "run_engine (EngineReport code k) tid w r =
     (case job_progress tid w code r of (r', answer) \<Rightarrow> run_engine (k answer) tid w r')"

definition bound_result :: "TransactionId \<Rightarrow> bool \<Rightarrow> engine_result \<Rightarrow> engine_result" where
  "bound_result tid cancelled result =
     (if cancelled then Inl EF_Cancelled
      else case result of
          Inr evidence \<Rightarrow> if de_transaction_id evidence = tid then Inr evidence else Inl EF_InvalidEvidence
        | Inl e \<Rightarrow> Inl e)"

datatype AuthenticationEngineServiceError = EV_RequestChannelClosed | EV_ResultReceiverClosed

text \<open>
  \<open>run_job\<close>: the updates sent in order, the answer of the service loop, and the state after it: the
  flag cleared, and at the end the request dropped with its lease. The last \<open>send\<close> may wait for room.
  The answer \<open>None\<close> is a panic of the engine, which unwinds through the job: the request is dropped, but
  nothing is sent and the flag is not cleared.
\<close>

definition run_job ::
  "(AuthenticationJob \<Rightarrow> engine_run) \<Rightarrow> nat \<Rightarrow> JobWorld \<Rightarrow> EngineRequest \<Rightarrow> EngineState \<Rightarrow>
   EngineState \<times> AuthenticationEngineUpdate list \<times> (AuthenticationEngineServiceError + unit) option" where
  "run_job engine shutdown w request s =
     (let job = (rq_job request)\<lparr>job_shutdown := Some shutdown\<rparr>;
          tid = job_transaction_id job;
          r0 = \<lparr>jr_sent = [], jr_progress_count = 0, jr_reports = 0\<rparr>;
          s' = s\<lparr>en_resources := lease_drop (rq_lease request) (en_resources s)\<rparr>
      in case (if jw_cancelled_before w then (r0, Some (Inl EF_Cancelled)) else run_engine (engine job) tid w r0) of
          (r, None) \<Rightarrow> (s', jr_sent r, None)
        | (r, Some result) \<Rightarrow>
            (s'\<lparr>en_active := False\<rparr>,
             jr_sent r @ (if jw_connected_at_end w then [UpCompleted tid (bound_result tid (jw_cancelled_after w) result)] else []),
             Some (if jw_connected_at_end w then Inr () else Inl EV_ResultReceiverClosed)))"

text \<open>
  The service loop: each turn answers whether shutdown is requested and what the request channel
  gives. \<open>None\<close> is a loop still running after the given turns, \<open>Some None\<close> one that a panic of the
  engine ended; when it ends, the receiver is dropped, and with it the queued requests and their leases. Clients act between the turns, and the
  engine keeps a state of its own, so each turn has its run.
\<close>

record ServiceTurn =
  st_shutdown :: bool
  st_clients :: "EngineState \<Rightarrow> EngineState"
  st_connected :: bool
  st_engine :: "AuthenticationJob \<Rightarrow> engine_run"
  st_world :: JobWorld

definition service_stop :: "EngineState \<Rightarrow> EngineState" where
  "service_stop s = s\<lparr>en_receiver := False, en_requests := [],
     en_resources := foldl (\<lambda>a q. lease_drop (rq_lease q) a) (en_resources s) (en_requests s)\<rparr>"

fun engine_service ::
  "nat \<Rightarrow> ServiceTurn list \<Rightarrow> EngineState \<Rightarrow>
   EngineState \<times> (AuthenticationEngineServiceError + unit) option option" where
  "engine_service shutdown [] s = (s, None)"
| "engine_service shutdown (t # ts) s =
     (if st_shutdown t then (service_stop s, Some (Some (Inr ())))
      else let s1 = st_clients t s in
        (case en_requests s1 of
           request # rest \<Rightarrow>
             (case run_job (st_engine t) shutdown (st_world t) request (s1\<lparr>en_requests := rest\<rparr>) of
                (s2, _, Some (Inr _)) \<Rightarrow> engine_service shutdown ts s2
              | (s2, _, Some (Inl e)) \<Rightarrow> (service_stop s2, Some (Some (Inl e)))
              | (s2, _, None) \<Rightarrow> (service_stop s2, Some None))
         | [] \<Rightarrow> if st_connected t then engine_service shutdown ts s1
                 else (service_stop s1, Some (Some (Inl EV_RequestChannelClosed)))))"

section \<open>Facts\<close>

lemma job_from_session_ok:
  "job_from_session m conn tid = Inr job \<longleftrightarrow>
     (\<exists>a. sm_active m = Some a \<and> as_connection a = conn \<and> grant_transaction_id (as_grant a) = tid \<and>
        job = \<lparr>job_transaction_id = tid, job_target_uid = grant_target_uid (as_grant a),
               job_worker = as_cancellation a, job_shutdown = None\<rparr>)"
  by (auto simp: job_from_session_def session_target_uid_def session_cancellation_token_def verify_binding_def
      result_simps)

lemma lease_drop_acquired: "try_acquire a who = (a', Inr l) \<Longrightarrow> ar_active (lease_drop l a') = None"
  by (auto simp: try_acquire_ok lease_drop_def)

definition progress_only :: "TransactionId \<Rightarrow> AuthenticationEngineUpdate list \<Rightarrow> bool" where
  "progress_only tid us \<longleftrightarrow> (\<forall>u \<in> set us. \<exists>c. u = UpProgress tid c)"

definition job_run_inv :: "TransactionId \<Rightarrow> JobRun \<Rightarrow> bool" where
  "job_run_inv tid r \<longleftrightarrow> progress_only tid (jr_sent r) \<and> length (jr_sent r) = jr_progress_count r \<and>
     jr_progress_count r \<le> MAX_PROGRESS_UPDATES"

lemma job_progress_inv: "job_run_inv tid r \<Longrightarrow> job_run_inv tid (fst (job_progress tid w c r))"
  by (auto simp: job_run_inv_def job_progress_def progress_only_def Let_def)

lemma run_engine_inv: "job_run_inv tid r \<Longrightarrow> job_run_inv tid (fst (run_engine e tid w r))"
proof (induction e arbitrary: r)
  case (EngineDone x)
  then show ?case by simp
next
  case EnginePanic
  then show ?case by simp
next
  case (EngineReport c k)
  obtain r' a where p: "job_progress tid w c r = (r', a)" by fastforce
  with job_progress_inv [OF EngineReport.prems, of w c] have "job_run_inv tid r'" by simp
  with EngineReport.IH [of "k a" r'] p show ?case by (simp add: range_eqI)
qed

lemma job_progress_room:
  "job_run_inv tid r \<Longrightarrow> \<not> jw_cancelled w (jr_reports r) \<Longrightarrow> jw_connected w (jr_reports r) \<Longrightarrow>
     snd (job_progress tid w c r) = (if jr_progress_count r < MAX_PROGRESS_UPDATES then Inr () else Inl EF_Internal)"
  by (auto simp: job_progress_def job_run_inv_def UPDATE_QUEUE_CAPACITY_def Let_def)

lemma run_engine_sound:
  assumes "run_engine e tid w \<lparr>jr_sent = [], jr_progress_count = 0, jr_reports = 0\<rparr> = (r, result)"
  shows "progress_only tid (jr_sent r) \<and> length (jr_sent r) \<le> MAX_PROGRESS_UPDATES"
  using run_engine_inv [of tid "\<lparr>jr_sent = [], jr_progress_count = 0, jr_reports = 0\<rparr>" e w] assms
  by (simp add: job_run_inv_def progress_only_def)

lemma queue_full [simp]: "length qs \<ge> REQUEST_QUEUE_CAPACITY \<longleftrightarrow> qs \<noteq> []"
  by (cases qs) (simp_all add: REQUEST_QUEUE_CAPACITY_def)

lemma queue_room [simp]: "0 < REQUEST_QUEUE_CAPACITY"
  by (simp add: REQUEST_QUEUE_CAPACITY_def)

lemma submit_ok:
  "engine_submit s job = (s', Inr tid) \<longleftrightarrow> tid = job_transaction_id job \<and>
     \<not> en_active s \<and> en_receiver s \<and> en_requests s = [] \<and>
     (\<exists>a l. try_acquire (en_resources s) (OwnAuthentication tid) = (a, Inr l) \<and>
        s' = s\<lparr>en_active := True, en_resources := a, en_requests := [\<lparr>rq_job = job, rq_lease = l\<rparr>]\<rparr>)"
  by (auto simp: engine_submit_def split: prod.splits sum.splits if_splits)

section \<open>The engine among its clients\<close>

text \<open>
  The interleavings of the worker thread with the clients. The worker's end of a job is three steps
  that others can see: the terminal update is sent, the flag is cleared, and the request is dropped
  with its lease. A panic of the engine drops the request and ends the worker. Enrollment takes leases of the same arbiter.
\<close>

datatype worker_phase =
  WpIdle
| WpRunning EngineRequest
| WpReported EngineRequest
| WpCleared EngineRequest

record EngineSystem =
  sy_engine :: EngineState
  sy_phase :: worker_phase
  sy_enrollment :: "BiometricResourceLease list"
  sy_reported :: "TransactionId list"

definition set_resources :: "EngineSystem \<Rightarrow> ArbiterState \<Rightarrow> EngineSystem" where
  "set_resources t a = t\<lparr>sy_engine := (sy_engine t)\<lparr>en_resources := a\<rparr>\<rparr>"

definition engine_start :: EngineSystem where
  "engine_start = \<lparr>sy_engine = \<lparr>en_requests = [], en_receiver = True, en_active = False, en_resources = arbiter_default\<rparr>,
     sy_phase = WpIdle, sy_enrollment = [], sy_reported = []\<rparr>"

inductive engine_step :: "EngineSystem \<Rightarrow> EngineSystem \<Rightarrow> bool" where
  submit: "engine_submit (sy_engine t) job = (s, r) \<Longrightarrow> engine_step t (t\<lparr>sy_engine := s\<rparr>)"
| take: "sy_phase t = WpIdle \<Longrightarrow> en_requests (sy_engine t) = q # qs \<Longrightarrow>
    engine_step t (t\<lparr>sy_engine := (sy_engine t)\<lparr>en_requests := qs\<rparr>, sy_phase := WpRunning q\<rparr>)"
| report: "sy_phase t = WpRunning q \<Longrightarrow>
    engine_step t (t\<lparr>sy_phase := WpReported q, sy_reported := job_transaction_id (rq_job q) # sy_reported t\<rparr>)"
| clear: "sy_phase t = WpReported q \<Longrightarrow>
    engine_step t (t\<lparr>sy_engine := (sy_engine t)\<lparr>en_active := False\<rparr>, sy_phase := WpCleared q\<rparr>)"
| release: "sy_phase t = WpCleared q \<Longrightarrow>
    engine_step t ((set_resources t (lease_drop (rq_lease q) (en_resources (sy_engine t))))\<lparr>sy_phase := WpIdle\<rparr>)"
| enroll: "try_acquire (en_resources (sy_engine t)) who = (a, Inr l) \<Longrightarrow>
    engine_step t ((set_resources t a)\<lparr>sy_enrollment := l # sy_enrollment t\<rparr>)"
| enroll_end: "sy_enrollment t = ls @ l # ls' \<Longrightarrow>
    engine_step t ((set_resources t (lease_drop l (en_resources (sy_engine t))))\<lparr>sy_enrollment := ls @ ls'\<rparr>)"
| unwind: "sy_phase t = WpRunning q \<Longrightarrow>
    engine_step t (t
      \<lparr>sy_engine := service_stop ((sy_engine t)\<lparr>en_resources := lease_drop (rq_lease q) (en_resources (sy_engine t))\<rparr>),
       sy_phase := WpIdle\<rparr>)"
| stop: "sy_phase t = WpIdle \<Longrightarrow> engine_step t (t\<lparr>sy_engine := service_stop (sy_engine t)\<rparr>)"

inductive engine_reachable :: "EngineSystem \<Rightarrow> bool" where
  start: "engine_reachable engine_start"
| step: "engine_reachable t \<Longrightarrow> engine_step t t' \<Longrightarrow> engine_reachable t'"

inductive_cases engine_step_elim: "engine_step t t'"

fun phase_lease :: "worker_phase \<Rightarrow> BiometricResourceLease list" where
  "phase_lease WpIdle = []"
| "phase_lease (WpRunning q) = [rq_lease q]"
| "phase_lease (WpReported q) = [rq_lease q]"
| "phase_lease (WpCleared q) = [rq_lease q]"

fun phase_flagged :: "worker_phase \<Rightarrow> bool" where
  "phase_flagged (WpRunning q) = True"
| "phase_flagged (WpReported q) = True"
| "phase_flagged _ = False"

definition system_leases :: "EngineSystem \<Rightarrow> BiometricResourceLease list" where
  "system_leases t = map rq_lease (en_requests (sy_engine t)) @ phase_lease (sy_phase t) @ sy_enrollment t"

definition engine_inv :: "EngineSystem \<Rightarrow> bool" where
  "engine_inv t \<longleftrightarrow> arbiter_inv (en_resources (sy_engine t), system_leases t) \<and>
     (en_receiver (sy_engine t) \<longrightarrow> (en_active (sy_engine t) \<longleftrightarrow> en_requests (sy_engine t) \<noteq> [] \<or> phase_flagged (sy_phase t))) \<and>
     (\<not> en_receiver (sy_engine t) \<longrightarrow> en_requests (sy_engine t) = [])"

text \<open>The arbiter's invariant under the three kinds of change.\<close>

lemma arbiter_inv_single:
  "arbiter_inv (a, ls) \<longleftrightarrow> (ls = [] \<or> (\<exists>l. ls = [l] \<and> ar_active a = Some l \<and> al_generation l \<le> ar_next_generation a)) \<and>
     (\<not> ar_poisoned a \<and> ls = [] \<longrightarrow> ar_active a = None)"
  by (simp add: arbiter_inv_def)

lemma arbiter_inv_acquire:
  "arbiter_inv (a, ls) \<Longrightarrow> try_acquire a who = (a', Inr l) \<Longrightarrow> ls = [] \<and> arbiter_inv (a', [l])"
  by (auto simp: arbiter_inv_single try_acquire_ok)

lemma arbiter_inv_refused: "arbiter_inv (a, ls) \<Longrightarrow> try_acquire a who = (a', Inl e) \<Longrightarrow> arbiter_inv (a', ls)"
  using try_acquire_refused by fastforce

lemma arbiter_inv_drop: "arbiter_inv (a, [l]) \<Longrightarrow> arbiter_inv (lease_drop l a, [])"
  by (auto simp: arbiter_inv_single lease_drop_def)

lemma engine_submit_inv:
  assumes "engine_inv t" and "engine_submit (sy_engine t) job = (s, r)"
  shows "engine_inv (t\<lparr>sy_engine := s\<rparr>)"
proof (cases "try_acquire (en_resources (sy_engine t)) (OwnAuthentication (job_transaction_id job))")
  case (Pair a acquired)
  note inv = assms(1) [unfolded engine_inv_def]
  show ?thesis
  proof (cases acquired)
    case (Inl e)
    with Pair assms(2) have "s = (sy_engine t)\<lparr>en_resources := a\<rparr>" by (simp add: engine_submit_def)
    with inv arbiter_inv_refused [OF _ Pair [unfolded Inl]] show ?thesis
      by (simp add: engine_inv_def system_leases_def)
  next
    case (Inr l)
    have none: "system_leases t = []" and held: "arbiter_inv (a, [l])"
      using arbiter_inv_acquire [OF _ Pair [unfolded Inr]] inv by blast+
    then have idle: "en_requests (sy_engine t) = []" "\<not> phase_flagged (sy_phase t)" "sy_enrollment t = []"
        "phase_lease (sy_phase t) = []"
      by (auto simp: system_leases_def) (cases "sy_phase t"; simp)
    show ?thesis
      using Pair Inr assms(2) inv idle held arbiter_inv_drop [OF held]
      by (auto simp: engine_submit_def engine_inv_def system_leases_def split: if_splits)
  qed
qed

lemma engine_step_inv: "engine_step t t' \<Longrightarrow> engine_inv t \<Longrightarrow> engine_inv t'"
proof (induction rule: engine_step.induct)
  case (submit t job s r)
  then show ?case using engine_submit_inv by blast
next
  case (take t q qs)
  then show ?case by (auto simp: engine_inv_def system_leases_def arbiter_inv_single)
next
  case (report t q)
  then show ?case by (auto simp: engine_inv_def system_leases_def)
next
  case (clear t q)
  then have "en_requests (sy_engine t) = []"
    by (auto simp: engine_inv_def system_leases_def arbiter_inv_single append_eq_Cons_conv)
  with clear show ?case by (simp add: engine_inv_def system_leases_def)
next
  case (release t q)
  then have "system_leases t = [rq_lease q]" "en_requests (sy_engine t) = []" "sy_enrollment t = []"
    by (auto simp: engine_inv_def system_leases_def arbiter_inv_single append_eq_Cons_conv)
  with release show ?case using arbiter_inv_drop [of "en_resources (sy_engine t)" "rq_lease q"]
    by (auto simp: engine_inv_def system_leases_def set_resources_def)
next
  case (enroll t who a l)
  then show ?case using arbiter_inv_acquire [of "en_resources (sy_engine t)" "system_leases t" who a l]
    by (auto simp: engine_inv_def system_leases_def set_resources_def)
next
  case (enroll_end t ls l ls')
  then have one: "system_leases t = [l]" "en_requests (sy_engine t) = []" "phase_lease (sy_phase t) = []" "ls = []" "ls' = []"
    by (auto simp: engine_inv_def system_leases_def arbiter_inv_single append_eq_Cons_conv Cons_eq_append_conv)
  then have "\<not> phase_flagged (sy_phase t)" by (cases "sy_phase t") simp_all
  with enroll_end one arbiter_inv_drop [of "en_resources (sy_engine t)" l] show ?case
    by (simp add: engine_inv_def system_leases_def set_resources_def)
next
  case (unwind t q)
  then have "system_leases t = [rq_lease q]" "en_requests (sy_engine t) = []" "sy_enrollment t = []"
    by (auto simp: engine_inv_def system_leases_def arbiter_inv_single append_eq_Cons_conv)
  with unwind show ?case using arbiter_inv_drop [of "en_resources (sy_engine t)" "rq_lease q"]
    by (auto simp: engine_inv_def system_leases_def service_stop_def)
next
  case (stop t)
  show ?case
  proof (cases "en_requests (sy_engine t)")
    case Nil
    with stop show ?thesis by (simp add: engine_inv_def system_leases_def service_stop_def)
  next
    case (Cons q qs)
    with stop have "system_leases t = [rq_lease q]" by (auto simp: engine_inv_def system_leases_def arbiter_inv_single)
    with stop Cons show ?thesis using arbiter_inv_drop [of "en_resources (sy_engine t)" "rq_lease q"]
      by (auto simp: engine_inv_def system_leases_def service_stop_def)
  qed
qed

lemma engine_reachable_inv: "engine_reachable t \<Longrightarrow> engine_inv t"
proof (induction rule: engine_reachable.induct)
  case start
  then show ?case
    by (simp add: engine_inv_def engine_start_def system_leases_def arbiter_inv_single arbiter_default_def)
next
  case (step t t')
  then show ?case using engine_step_inv by blast
qed

section \<open>Properties\<close>

text \<open>
  What one job sends: at most 32 progress updates and then, if the receiver is still there and the
  engine did not panic, exactly one terminal update, all of this transaction. The terminal update always
  finds room in the channel, so the worker never waits for a slow client. It carries evidence only if
  the evidence is bound to this transaction and the job was cancelled neither before the engine ran nor
  after. Unless the engine panics, the run ends with the flag cleared.
\<close>

theorem run_job_updates:
  "case run_job engine shutdown w request s of (s', sent, outcome) \<Rightarrow>
     (\<exists>progress result. sent = progress @
          (if outcome = Some (Inr ()) then [UpCompleted (job_transaction_id (rq_job request)) result] else []) \<and>
        progress_only (job_transaction_id (rq_job request)) progress \<and> length progress < UPDATE_QUEUE_CAPACITY \<and>
        (case result of Inl _ \<Rightarrow> True | Inr evidence \<Rightarrow>
           de_transaction_id evidence = job_transaction_id (rq_job request) \<and> \<not> jw_cancelled_before w \<and> \<not> jw_cancelled_after w)) \<and>
     (if outcome = None then en_active s' = en_active s else \<not> en_active s') \<and> en_requests s' = en_requests s"
proof -
  let ?tid = "job_transaction_id (rq_job request)"
  let ?r0 = "\<lparr>jr_sent = [], jr_progress_count = 0, jr_reports = 0\<rparr>"
  obtain r answer where r: "(if jw_cancelled_before w then (?r0, Some (Inl EF_Cancelled))
      else run_engine (engine ((rq_job request)\<lparr>job_shutdown := Some shutdown\<rparr>)) ?tid w ?r0) = (r, answer)" by fastforce
  have sound: "progress_only ?tid (jr_sent r)" "length (jr_sent r) < UPDATE_QUEUE_CAPACITY"
    using r run_engine_sound [of _ ?tid w r answer]
    by (auto simp: progress_only_def UPDATE_QUEUE_CAPACITY_def less_Suc_eq_le split: if_splits)
  let ?s = "s\<lparr>en_resources := lease_drop (rq_lease request) (en_resources s)\<rparr>"
  show ?thesis
  proof (cases answer)
    case None
    then have "run_job engine shutdown w request s = (?s, jr_sent r, None)"
      using r by (cases "jw_cancelled_before w") (simp_all add: run_job_def Let_def)
    with sound show ?thesis by (auto intro: exI [of _ "Inl EF_Internal"])
  next
    case (Some result)
    have bound: "case bound_result ?tid (jw_cancelled_after w) result of Inl _ \<Rightarrow> True
      | Inr evidence \<Rightarrow> de_transaction_id evidence = ?tid \<and> \<not> jw_cancelled_before w \<and> \<not> jw_cancelled_after w"
      using r Some by (auto simp: bound_result_def split: sum.splits if_splits)
    let ?out = "if jw_connected_at_end w then Inr () else Inl EV_ResultReceiverClosed"
    let ?last = "if Some ?out = Some (Inr ()) then [UpCompleted ?tid (bound_result ?tid (jw_cancelled_after w) result)] else []"
    have "run_job engine shutdown w request s = (?s\<lparr>en_active := False\<rparr>, jr_sent r @ ?last, Some ?out)"
      using r Some by (cases "jw_cancelled_before w") (simp_all add: run_job_def Let_def)
    then show ?thesis using sound bound by (simp del: if_split_asm) blast
  qed
qed

lemma engine_submit_result:
  "snd (engine_submit s job) =
     (if ar_poisoned (en_resources s) then Inl ES_ResourceUnavailable
      else case ar_active (en_resources s) of Some _ \<Rightarrow> Inl ES_Busy
      | None \<Rightarrow>
          if unat (ar_next_generation (en_resources s)) + 1 < 2 ^ 64
          then if en_active s then Inl ES_Busy
               else if en_receiver s \<and> en_requests s = [] then Inr (job_transaction_id job)
               else Inl ES_WorkerStopped
          else Inl ES_ResourceUnavailable)"
  by (auto simp: engine_submit_def try_acquire_def checked_add_def Let_def split: option.splits)

text \<open>
  Submission never queues and never leaks: its answer is decided by the mutex, the owner of the
  hardware, the active flag and the queue, so it succeeds exactly when the hardware is free, no job is
  active and the worker is there with an empty queue; and a refused submission changes nothing but the
  generation counter of the arbiter, so the hardware is never held by a job that was not admitted.
\<close>

theorem engine_submit_exact:
  "snd (engine_submit s job) =
     (if ar_poisoned (en_resources s) then Inl ES_ResourceUnavailable
      else case ar_active (en_resources s) of Some _ \<Rightarrow> Inl ES_Busy
      | None \<Rightarrow>
          if unat (ar_next_generation (en_resources s)) + 1 < 2 ^ 64
          then if en_active s then Inl ES_Busy
               else if en_receiver s \<and> en_requests s = [] then Inr (job_transaction_id job)
               else Inl ES_WorkerStopped
          else Inl ES_ResourceUnavailable) \<and>
   (case engine_submit s job of
      (s', Inl e) \<Rightarrow> s' = s\<lparr>en_resources := en_resources s'\<rparr> \<and>
        ar_active (en_resources s') = ar_active (en_resources s) \<and> ar_poisoned (en_resources s') = ar_poisoned (en_resources s)
    | (s', Inr tid) \<Rightarrow> en_active s' \<and> map rq_job (en_requests s') = [job] \<and>
        map (al_owner \<circ> rq_lease) (en_requests s') = [OwnAuthentication tid] \<and>
        ar_active (en_resources s') = Some (rq_lease (hd (en_requests s'))))"
proof (cases "try_acquire (en_resources s) (OwnAuthentication (job_transaction_id job))")
  case (Pair a acquired)
  show ?thesis
  proof (cases acquired)
    case (Inl e)
    with Pair have "engine_submit s job = (s\<lparr>en_resources := a\<rparr>, Inl (submit_error e))" by (simp add: engine_submit_def)
    with try_acquire_refused [OF Pair [unfolded Inl]] show ?thesis unfolding engine_submit_result by simp
  next
    case (Inr l)
    note got = try_acquire_ok [of "en_resources s" _ a l, THEN iffD1, OF Pair [unfolded Inr]]
    show ?thesis
    proof (cases "en_active s \<or> \<not> en_receiver s \<or> en_requests s \<noteq> []")
      case True
      then have "engine_submit s job =
          (s\<lparr>en_resources := lease_drop l a\<rparr>, Inl (if en_active s then ES_Busy else ES_WorkerStopped))"
        using Pair Inr by (auto simp: engine_submit_def)
      moreover have "ar_active (lease_drop l a) = None" "ar_poisoned (lease_drop l a) = ar_poisoned (en_resources s)"
        using got by (auto simp: lease_drop_def)
      ultimately show ?thesis using got unfolding engine_submit_result by simp
    next
      case False
      then have "engine_submit s job = (s\<lparr>en_active := True, en_resources := a,
          en_requests := [\<lparr>rq_job = job, rq_lease = l\<rparr>]\<rparr>, Inr (job_transaction_id job))"
        using Pair Inr by (simp add: engine_submit_def)
      with False got show ?thesis unfolding engine_submit_result by simp
    qed
  qed
qed


definition ex_job :: "TransactionId \<Rightarrow> AuthenticationJob" where
  "ex_job tid = \<lparr>job_transaction_id = tid, job_target_uid = 7, job_worker = CancellationToken 0, job_shutdown = None\<rparr>"

text \<open>
  The lease outlives the terminal update: there is a reachable state in which the client of a job has
  its terminal update and the next job is still refused.
\<close>

lemma reported_before_released:
  "\<exists>t. engine_reachable t \<and> sy_reported t = [tid] \<and> system_leases t \<noteq> [] \<and>
     snd (engine_submit (sy_engine t) job) = Inl ES_Busy"
proof -
  define q where "q = \<lparr>rq_job = ex_job tid, rq_lease = \<lparr>al_generation = 1, al_owner = OwnAuthentication tid\<rparr>\<rparr>"
  define s where "s = \<lparr>en_requests = [], en_receiver = True, en_active = True,
    en_resources = \<lparr>ar_next_generation = 1, ar_active = Some (rq_lease q), ar_poisoned = False\<rparr>\<rparr>"
  let ?t1 = "engine_start\<lparr>sy_engine := s\<lparr>en_requests := [q]\<rparr>\<rparr>"
  let ?t2 = "?t1\<lparr>sy_engine := s, sy_phase := WpRunning q\<rparr>"
  let ?t3 = "?t2\<lparr>sy_phase := WpReported q, sy_reported := [tid]\<rparr>"
  have "engine_submit (sy_engine engine_start) (ex_job tid) = (s\<lparr>en_requests := [q]\<rparr>, Inr tid)"
    by (simp add: submit_ok try_acquire_ok engine_start_def arbiter_default_def s_def q_def ex_job_def)
  then have "engine_step engine_start ?t1" by (rule engine_step.submit)
  moreover have "engine_step ?t1 ?t2" using engine_step.take [of ?t1 q "[]"] by (simp add: engine_start_def s_def)
  moreover have "engine_step ?t2 ?t3" using engine_step.report [of ?t2 q] by (simp add: engine_start_def q_def ex_job_def)
  ultimately have "engine_reachable ?t3" by (blast intro: engine_reachable.intros)
  moreover have "snd (engine_submit s job) = Inl ES_Busy"
    by (simp add: engine_submit_def try_acquire_def s_def)
  ultimately show ?thesis by (intro exI [of _ ?t3]) (simp add: system_leases_def)
qed


end
