(* ===== verification/Boundary.thy ===== *)
theory Boundary
  imports Engine
begin

text \<open>
  The authentication boundary of the daemon (\<open>crates/faceauth-daemon/src/lib.rs\<close>): the admission of one
  request, the responses of an admitted transaction, and the coordination of one connection with the
  engine. The JSON codec is a parameter; what the peer sends, the kernel's answers about the peer, the
  updates of the engine's channel and the readings of the clock are arguments.
\<close>

section \<open>The service\<close>

datatype BoundaryError =
  BE_Transport TransportError
| BE_Session SessionError
| BE_EngineSubmit AuthenticationEngineSubmitError
| BE_EngineStopped
| BE_UnexpectedEngineUpdate

record BoundaryService =
  bd_authorization :: AuthorizationPolicy
  bd_sessions :: SessionManager

record Wire =
  wi_decode :: "u8 list \<Rightarrow> nat + Request Envelope"
  wi_encode :: "Response Envelope \<Rightarrow> nat + u8 list"

text \<open>The kernel's answers about the executable of the peer.\<close>

record ExecutableProbe =
  xp_fdinfo_before :: "IoError + string"
  xp_opened :: "IoError + unit"
  xp_fdinfo_after :: "IoError + string"
  xp_metadata :: "IoError + FileMetadata"

datatype ExecutableOrAuthorizationError =
  XA_Executable
| XA_Authorization AuthorizationError

definition verified_peer :: "PeerIdentity \<Rightarrow> ExecutableProbe \<Rightarrow> ExecutableError + VerifiedExecutable" where
  "verified_peer peer x = from_peer peer (xp_fdinfo_before x) (xp_opened x) (xp_fdinfo_after x) (xp_metadata x)"

definition peer_grant ::
  "AuthorizationPolicy \<Rightarrow> PeerIdentity \<Rightarrow> ExecutableProbe \<Rightarrow> RequestContext \<Rightarrow>
   ExecutableOrAuthorizationError + AuthorizationGrant" where
  "peer_grant policy peer x context =
     try_bind (map_err (\<lambda>_. XA_Executable) (verified_peer peer x)) (\<lambda>ex.
       map_err XA_Authorization (authorize policy peer (Some ex) context))"

text \<open>The response to one request, with the session manager it leaves.\<close>

definition authenticate_response ::
  "BoundaryService \<Rightarrow> PeerIdentity \<Rightarrow> ExecutableProbe \<Rightarrow> ConnectionToken \<Rightarrow> u64 \<Rightarrow> RequestContext \<Rightarrow>
   SessionManager \<times> Response" where
  "authenticate_response b peer x conn now context =
     (let m = bd_sessions b; tid = transaction_id context in
      case peer_grant (bd_authorization b) peer x context of
        Inr grant \<Rightarrow>
          (case session_start m grant conn now of
             (m', Inr response) \<Rightarrow> (m', response)
           | (m', Inl SE_Busy) \<Rightarrow> (m', Rejected (Some tid) RC_Busy)
           | (m', Inl _) \<Rightarrow> (m', Rejected (Some tid) ServiceUnavailable))
      | Inl (XA_Authorization AE_ServiceNotAllowed) \<Rightarrow> (m, Rejected (Some tid) ServiceNotAllowed)
      | Inl _ \<Rightarrow> (m, Rejected (Some tid) UnauthorizedPeer))"

definition cancel_response ::
  "BoundaryService \<Rightarrow> ConnectionToken \<Rightarrow> u64 \<Rightarrow> TransactionId \<Rightarrow> SessionManager \<times> Response" where
  "cancel_response b conn now tid =
     (case session_cancel (bd_sessions b) conn tid now of
        (m', Inr response) \<Rightarrow> (m', response)
      | (m', Inl e) \<Rightarrow>
          (m', Rejected (Some tid)
             (if e = SE_WrongConnection \<or> e = SE_WrongTransaction then UnauthorizedPeer else ServiceUnavailable)))"

text \<open>Write a response whose session change has already happened.\<close>

definition respond ::
  "Wire \<Rightarrow> BoundaryService \<Rightarrow> PeerStream \<Rightarrow> SessionManager \<times> Response \<Rightarrow>
   BoundaryService \<times> PeerStream \<times> (BoundaryError + Response)" where
  "respond w b s answer =
     (case write_message (wi_encode w) s (snd answer) of
        (s', Inl e) \<Rightarrow> (b\<lparr>bd_sessions := fst answer\<rparr>, s', Inl (BE_Transport e))
      | (s', Inr _) \<Rightarrow> (b\<lparr>bd_sessions := fst answer\<rparr>, s', Inr (snd answer)))"

definition handle_one ::
  "Wire \<Rightarrow> BoundaryService \<Rightarrow> PeerStream \<Rightarrow> ConnectionToken \<Rightarrow> u64 \<Rightarrow> ExecutableProbe \<Rightarrow>
   BoundaryService \<times> PeerStream \<times> (BoundaryError + Response)" where
  "handle_one w b s conn now x =
     (case read_message (wi_decode w) s of
        (s', Inl e) \<Rightarrow> (b, s', Inl (BE_Transport e))
      | (s', Inr envelope) \<Rightarrow>
          respond w b s' (case message envelope of
              Authenticate context \<Rightarrow> authenticate_response b (ps_peer s') x conn now context
            | Cancel tid \<Rightarrow> cancel_response b conn now tid))"

definition authentication_job ::
  "BoundaryService \<Rightarrow> ConnectionToken \<Rightarrow> TransactionId \<Rightarrow> BoundaryError + AuthenticationJob" where
  "authentication_job b conn tid = map_err BE_Session (job_from_session (bd_sessions b) conn tid)"

text \<open>The answer of the session manager, passed on or written.\<close>

definition deliver ::
  "Wire \<Rightarrow> BoundaryService \<Rightarrow> PeerStream \<Rightarrow> SessionManager \<times> (SessionError + Response) \<Rightarrow>
   BoundaryService \<times> PeerStream \<times> (BoundaryError + Response)" where
  "deliver w b s answer =
     (case answer of
        (m', Inl e) \<Rightarrow> (b\<lparr>bd_sessions := m'\<rparr>, s, Inl (BE_Session e))
      | (m', Inr response) \<Rightarrow> respond w b s (m', response))"

definition send_progress ::
  "Wire \<Rightarrow> BoundaryService \<Rightarrow> PeerStream \<Rightarrow> ConnectionToken \<Rightarrow> TransactionId \<Rightarrow> ProgressCode \<Rightarrow> u64 \<Rightarrow>
   BoundaryService \<times> PeerStream \<times> (BoundaryError + Response)" where
  "send_progress w b s conn tid code now = deliver w b s (session_progress (bd_sessions b) conn tid code now)"

definition send_completion ::
  "Wire \<Rightarrow> 'd template_source \<Rightarrow> 'd \<Rightarrow> BoundaryService \<Rightarrow> PeerStream \<Rightarrow> AuthenticationCompletion \<Rightarrow>
   'd \<times> BoundaryService \<times> PeerStream \<times> (BoundaryError + Response)" where
  "send_completion w load d b s c =
     (case complete_authentication load d (bd_sessions b) c of
        (d', answer) \<Rightarrow> (d', deliver w b s answer))"

definition send_derived_completion ::
  "Wire \<Rightarrow> 'd template_source \<Rightarrow> 'd \<Rightarrow> BoundaryService \<Rightarrow> PeerStream \<Rightarrow> ConnectionToken \<Rightarrow> AuthPolicy \<Rightarrow>
   PassivePadPolicy \<Rightarrow> DerivedAuthenticationEvidence \<Rightarrow>
   'd \<times> BoundaryService \<times> PeerStream \<times> (BoundaryError + Response)" where
  "send_derived_completion w load d b s conn policy pad evidence =
     send_completion w load d b s
       \<lparr>ac_connection = conn, ac_transaction_id = de_transaction_id evidence, ac_policy = policy,
        ac_passive_pad_policy = pad, ac_observation = evidence_observation evidence,
        ac_now_micros = de_completed_at_micros evidence\<rparr>"

definition send_engine_failure ::
  "Wire \<Rightarrow> BoundaryService \<Rightarrow> PeerStream \<Rightarrow> ConnectionToken \<Rightarrow> TransactionId \<Rightarrow> u64 \<Rightarrow>
   BoundaryService \<times> PeerStream \<times> (BoundaryError + Response)" where
  "send_engine_failure w b s conn tid now =
     deliver w b s (session_complete (bd_sessions b) conn tid DC_InternalError now)"

section \<open>Coordination\<close>

definition MAX_CANCEL_DRAIN_POLLS :: nat where
  "MAX_CANCEL_DRAIN_POLLS = 400"

text \<open>What \<open>recv_timeout\<close> on the handle answers.\<close>

datatype EngineAnswer = EaUpdate AuthenticationEngineUpdate | EaTimeout | EaDisconnected

record AuthenticationConnectionPolicy =
  cp_authentication :: AuthPolicy
  cp_passive_pad :: PassivePadPolicy

text \<open>
  One iteration of the coordination loop: the channel's answer and the clock then, the answer of
  \<open>poll\<close> on the socket, and for a request that is read the kernel's answers and the clock, and the
  clock again for the cancellation after a failed request.
\<close>

record CoordinationTurn =
  ct_engine :: EngineAnswer
  ct_clock_update :: u64
  ct_poll :: "nat + u16 option"
  ct_probe :: ExecutableProbe
  ct_clock_request :: u64
  ct_clock_cancel :: u64

text \<open>The answers while draining, by the number of the poll.\<close>

fun drain_polls :: "nat \<Rightarrow> (nat \<Rightarrow> EngineAnswer) \<Rightarrow> nat \<Rightarrow> BoundaryError + unit" where
  "drain_polls 0 answers k = Inl BE_EngineStopped"
| "drain_polls (Suc n) answers k =
     (case answers k of
        EaUpdate (UpCompleted _ _) \<Rightarrow> Inr ()
      | EaDisconnected \<Rightarrow> Inl BE_EngineStopped
      | _ \<Rightarrow> drain_polls n answers (k + 1))"

definition drain_cancelled_engine :: "(nat \<Rightarrow> EngineAnswer) \<Rightarrow> BoundaryError + unit" where
  "drain_cancelled_engine answers = drain_polls MAX_CANCEL_DRAIN_POLLS answers 0"

text \<open>Drain, then the given result.\<close>

definition drained :: "(nat \<Rightarrow> EngineAnswer) \<Rightarrow> BoundaryError + Response \<Rightarrow> BoundaryError + Response" where
  "drained answers result = try_bind (drain_cancelled_engine answers) (\<lambda>_. result)"

type_synonym 'd connection = "'d \<times> BoundaryService \<times> PeerStream"

text \<open>The half of an iteration that looks at the engine: the result of the loop, if it ends.\<close>

definition engine_half ::
  "Wire \<Rightarrow> 'd template_source \<Rightarrow> AuthenticationConnectionPolicy \<Rightarrow> ConnectionToken \<Rightarrow> TransactionId \<Rightarrow>
   (nat \<Rightarrow> EngineAnswer) \<Rightarrow> CoordinationTurn \<Rightarrow> 'd connection \<Rightarrow> (BoundaryError + Response) option \<times> 'd connection" where
  "engine_half w load policy conn tid drain t c = (case c of (d, b, s) \<Rightarrow>
     let failure = (case send_engine_failure w b s conn tid (ct_clock_update t) of (b', s', r) \<Rightarrow> (Some r, d, b', s')) in
     case ct_engine t of
       EaTimeout \<Rightarrow> (None, c)
     | EaDisconnected \<Rightarrow> failure
     | EaUpdate (UpProgress u code) \<Rightarrow>
         if u = tid
         then (case send_progress w b s conn tid code (ct_clock_update t) of
             (b', s', Inl e) \<Rightarrow> (Some (Inl e), d, b', s')
           | (b', s', Inr response) \<Rightarrow>
               (case response of
                  Completed _ _ \<Rightarrow> (Some (drained drain (Inr response)), d, b', s')
                | _ \<Rightarrow> (None, d, b', s')))
         else failure
     | EaUpdate (UpCompleted u result) \<Rightarrow>
         if u = tid
         then (case result of
             Inr evidence \<Rightarrow>
               (case send_derived_completion w load d b s conn (cp_authentication policy) (cp_passive_pad policy) evidence of
                  (d', b', s', r) \<Rightarrow> (Some r, d', b', s'))
           | Inl _ \<Rightarrow> failure)
         else failure)"

text \<open>The half that looks at the socket.\<close>

definition cancel_ignored :: "BoundaryService \<Rightarrow> ConnectionToken \<Rightarrow> TransactionId \<Rightarrow> u64 \<Rightarrow> BoundaryService" where
  "cancel_ignored b conn tid now = b\<lparr>bd_sessions := fst (session_cancel (bd_sessions b) conn tid now)\<rparr>"

definition socket_half ::
  "Wire \<Rightarrow> ConnectionToken \<Rightarrow> TransactionId \<Rightarrow> (nat \<Rightarrow> EngineAnswer) \<Rightarrow> CoordinationTurn \<Rightarrow> 'd connection \<Rightarrow>
   (BoundaryError + Response) option \<times> 'd connection" where
  "socket_half w conn tid drain t c = (case c of (d, b, s) \<Rightarrow>
     case has_pending_input (ct_poll t) of
       Inl e \<Rightarrow> (Some (drained drain (Inl (BE_Transport e))), d, cancel_ignored b conn tid (ct_clock_cancel t), s)
     | Inr False \<Rightarrow> (None, c)
     | Inr True \<Rightarrow>
         (case handle_one w b s conn (ct_clock_request t) (ct_probe t) of
            (b', s', Inr response) \<Rightarrow>
              (case response of
                 Completed _ _ \<Rightarrow> (Some (drained drain (Inr response)), d, b', s')
               | _ \<Rightarrow> (None, d, b', s'))
          | (b', s', Inl e) \<Rightarrow>
              (Some (drained drain (Inl e)), d, cancel_ignored b' conn tid (ct_clock_cancel t), s')))"

definition coordination_turn ::
  "Wire \<Rightarrow> 'd template_source \<Rightarrow> AuthenticationConnectionPolicy \<Rightarrow> ConnectionToken \<Rightarrow> TransactionId \<Rightarrow>
   (nat \<Rightarrow> EngineAnswer) \<Rightarrow> CoordinationTurn \<Rightarrow> 'd connection \<Rightarrow> (BoundaryError + Response) option \<times> 'd connection" where
  "coordination_turn w load policy conn tid drain t c =
     (case engine_half w load policy conn tid drain t c of
        (Some result, c') \<Rightarrow> (Some result, c')
      | (None, c') \<Rightarrow> socket_half w conn tid drain t c')"

text \<open>\<open>None\<close> is a loop still running after the given turns.\<close>

fun coordination_loop ::
  "Wire \<Rightarrow> 'd template_source \<Rightarrow> AuthenticationConnectionPolicy \<Rightarrow> ConnectionToken \<Rightarrow> TransactionId \<Rightarrow>
   (nat \<Rightarrow> EngineAnswer) \<Rightarrow> CoordinationTurn list \<Rightarrow> 'd connection \<Rightarrow> (BoundaryError + Response) option \<times> 'd connection" where
  "coordination_loop w load policy conn tid drain [] c = (None, c)"
| "coordination_loop w load policy conn tid drain (t # ts) c =
     (case coordination_turn w load policy conn tid drain t c of
        (Some result, c') \<Rightarrow> (Some result, c')
      | (None, c') \<Rightarrow> coordination_loop w load policy conn tid drain ts c')"

definition coordinate_started_authentication ::
  "Wire \<Rightarrow> 'd template_source \<Rightarrow> AuthenticationConnectionPolicy \<Rightarrow> ConnectionToken \<Rightarrow> TransactionId \<Rightarrow>
   u64 \<Rightarrow> (nat \<Rightarrow> EngineAnswer) \<Rightarrow> CoordinationTurn list \<Rightarrow> EngineState \<Rightarrow> 'd connection \<Rightarrow>
   EngineState \<times> (BoundaryError + Response) option \<times> 'd connection" where
  "coordinate_started_authentication w load policy conn tid clock drain ts e c = (case c of (d, b, s) \<Rightarrow>
     case authentication_job b conn tid of
       Inl error \<Rightarrow> (e, Some (Inl error), c)
     | Inr job \<Rightarrow>
        (case engine_submit e job of
           (e', Inl _) \<Rightarrow>
             (case send_engine_failure w b s conn tid clock of (b', s', r) \<Rightarrow> (e', Some r, d, b', s'))
         | (e', Inr _) \<Rightarrow> (e', coordination_loop w load policy conn tid drain ts c)))"

record Admission =
  ad_clock :: u64
  ad_probe :: ExecutableProbe
  ad_clock_failure :: u64

definition coordinate_authentication_connection ::
  "Wire \<Rightarrow> 'd template_source \<Rightarrow> AuthenticationConnectionPolicy \<Rightarrow> ConnectionToken \<Rightarrow> Admission \<Rightarrow>
   (nat \<Rightarrow> EngineAnswer) \<Rightarrow> CoordinationTurn list \<Rightarrow> EngineState \<Rightarrow> 'd connection \<Rightarrow>
   EngineState \<times> (BoundaryError + Response) option \<times> 'd connection" where
  "coordinate_authentication_connection w load policy conn a drain ts e c = (case c of (d, b, s) \<Rightarrow>
     case handle_one w b s conn (ad_clock a) (ad_probe a) of
       (b', s', Inl error) \<Rightarrow> (e, Some (Inl error), d, b', s')
     | (b', s', Inr admission) \<Rightarrow>
        (case admission of
           Started tid \<Rightarrow>
             coordinate_started_authentication w load policy conn tid (ad_clock_failure a) drain ts e (d, b', s')
         | _ \<Rightarrow> (e, Some (Inr admission), d, b', s')))"

section \<open>What the client is sent\<close>

text \<open>The frames of responses appended to what was sent before.\<close>

definition delivered :: "Wire \<Rightarrow> PeerStream \<Rightarrow> PeerStream \<Rightarrow> Response list \<Rightarrow> bool" where
  "delivered w s s' rs \<longleftrightarrow> (\<exists>payloads. list_all2 (\<lambda>r p. wi_encode w (envelope_current r) = Inr p \<and> length p < 2 ^ 32) rs payloads \<and>
     output_of s' = output_of s @ concat (map frame payloads))"

lemma delivered_nil: "output_of s' = output_of s \<Longrightarrow> delivered w s s' []"
  by (simp add: delivered_def)

lemma delivered_trans: "delivered w s s' rs \<Longrightarrow> delivered w s' s'' rs' \<Longrightarrow> delivered w s s'' (rs @ rs')"
proof -
  let ?enc = "\<lambda>r p. wi_encode w (envelope_current r) = Inr p \<and> length p < 2 ^ 32"
  assume "delivered w s s' rs" "delivered w s' s'' rs'"
  then obtain ps ps' where "list_all2 ?enc rs ps" "output_of s' = output_of s @ concat (map frame ps)"
      "list_all2 ?enc rs' ps'" "output_of s'' = output_of s' @ concat (map frame ps')"
    by (auto simp: delivered_def)
  then have "list_all2 ?enc (rs @ rs') (ps @ ps')" "output_of s'' = output_of s @ concat (map frame (ps @ ps'))"
    by (simp_all add: list_all2_appendI)
  then show ?thesis unfolding delivered_def by blast
qed

lemma read_exact_output: "read_exact n s = (s', r) \<Longrightarrow> bs_output s' = bs_output s"
  by (auto simp: read_exact_def split: if_splits)

lemma read_message_output: "read_message decode s = (s', r) \<Longrightarrow> output_of s' = output_of s"
  by (auto simp: read_message_def Let_def with_stream_def dest!: read_exact_output split: prod.splits sum.splits if_splits)

lemma read_message_peer: "read_message decode s = (s', r) \<Longrightarrow> ps_peer s' = ps_peer s"
  by (auto simp: read_message_def Let_def with_stream_def split: prod.splits sum.splits if_splits)

lemma respond_ok:
  "respond w b s answer = (b', s', Inr r) \<Longrightarrow>
     r = snd answer \<and> b' = b\<lparr>bd_sessions := fst answer\<rparr> \<and> delivered w s s' [r]"
  by (auto simp: respond_def delivered_def list_all2_Cons1 dest!: write_message_ok split: prod.splits sum.splits)

lemma respond_sessions: "respond w b s answer = (b', s', r) \<Longrightarrow> b' = b\<lparr>bd_sessions := fst answer\<rparr>"
  by (auto simp: respond_def split: prod.splits sum.splits)

lemma deliver_ok:
  "deliver w b s answer = (b', s', Inr r) \<Longrightarrow>
     snd answer = Inr r \<and> b' = b\<lparr>bd_sessions := fst answer\<rparr> \<and> delivered w s s' [r]"
  by (auto simp: deliver_def dest: respond_ok split: prod.splits sum.splits)

section \<open>Operations on a bound session\<close>

definition bound_session :: "SessionManager \<Rightarrow> ConnectionToken \<Rightarrow> TransactionId \<Rightarrow> ActiveSession \<Rightarrow> bool" where
  "bound_session m conn tid a \<longleftrightarrow>
     sm_active m = Some a \<and> as_connection a = conn \<and> grant_transaction_id (as_grant a) = tid"

definition ended :: "SessionManager \<Rightarrow> ActiveSession \<Rightarrow> SessionManager" where
  "ended m a = m\<lparr>sm_active := None, sm_cells := token_cancel (sm_cells m) (as_cancellation a)\<rparr>"

lemma bound_binding: "bound_session m conn tid a \<Longrightarrow> verify_binding m conn tid = Inr ()"
  by (simp add: bound_session_def verify_binding_def)

lemma bound_progress:
  "bound_session m conn tid a \<Longrightarrow> session_progress m conn tid code now =
     (if as_deadline_micros a \<le> now then (ended m a, Inr (Completed tid DC_TimedOut)) else (m, Inr (Progress tid code)))"
  using bound_binding [of m conn tid a]
  by (auto simp: session_progress_def bound_session_def deadline_reached_def take_terminal_def ended_def)

lemma bound_complete:
  "bound_session m conn tid a \<Longrightarrow> decision \<noteq> DC_Cancelled \<Longrightarrow> decision \<noteq> DC_TimedOut \<Longrightarrow>
     session_complete m conn tid decision now =
       (ended m a, Inr (Completed tid (if as_deadline_micros a \<le> now then DC_TimedOut else decision)))"
  using session_complete_bound [of m a conn tid decision now] by (simp add: bound_session_def ended_def)

lemma bound_cancel:
  "bound_session m conn tid a \<Longrightarrow> session_cancel m conn u now =
     (if u = tid then (ended m a, Inr (Completed tid (if as_deadline_micros a \<le> now then DC_TimedOut else DC_Cancelled)))
      else (m, Inl SE_WrongTransaction))"
  by (auto simp: session_cancel_eq bound_session_def verify_binding_def deadline_reached_def take_terminal_def ended_def)

lemma bound_start: "bound_session m conn tid a \<Longrightarrow> session_start m g c now = (m, Inl SE_Busy)"
  by (simp add: session_start_def bound_session_def)

lemma cancel_ignored_bound:
  "bound_session (bd_sessions b) conn tid a \<Longrightarrow> cancel_ignored b conn tid now = b\<lparr>bd_sessions := ended (bd_sessions b) a\<rparr>"
  using bound_cancel [of "bd_sessions b" conn tid a tid now] by (simp add: cancel_ignored_def)

text \<open>The responses that leave a transaction open.\<close>

definition interim :: "TransactionId \<Rightarrow> Response \<Rightarrow> bool" where
  "interim tid r = (case r of Progress u _ \<Rightarrow> u = tid | Rejected _ _ \<Rightarrow> True | _ \<Rightarrow> False)"

lemma bound_authenticate:
  assumes "bound_session (bd_sessions b) conn tid a"
  shows "fst (authenticate_response b peer x c now context) = bd_sessions b \<and>
    interim tid (snd (authenticate_response b peer x c now context))"
  using bound_start [OF assms]
  by (auto simp: authenticate_response_def Let_def interim_def split: sum.splits ExecutableOrAuthorizationError.splits
      AuthorizationError.splits)

lemma bound_cancel_response:
  "bound_session (bd_sessions b) conn tid a \<Longrightarrow> cancel_response b conn now u =
     (if u = tid then (ended (bd_sessions b) a, Completed tid (if as_deadline_micros a \<le> now then DC_TimedOut else DC_Cancelled))
      else (bd_sessions b, Rejected (Some u) UnauthorizedPeer))"
  by (auto simp: cancel_response_def bound_cancel)

lemma bound_request:
  assumes "bound_session (bd_sessions b) conn tid a" and "handle_one w b s conn now x = (b', s', Inr r)"
  shows "delivered w s s' [r] \<and>
    (b' = b \<and> interim tid r \<or>
     b' = b\<lparr>bd_sessions := ended (bd_sessions b) a\<rparr> \<and> (r = Completed tid DC_Cancelled \<or> r = Completed tid DC_TimedOut))"
proof -
  from assms(2) obtain s1 env where s1: "read_message (wi_decode w) s = (s1, Inr env)"
    and r: "respond w b s1 (case message env of
        Authenticate context \<Rightarrow> authenticate_response b (ps_peer s1) x conn now context
      | Cancel u \<Rightarrow> cancel_response b conn now u) = (b', s', Inr r)"
    by (auto simp: handle_one_def split: prod.splits sum.splits)
  note ok = respond_ok [OF r]
  have "delivered w s s' [r]"
    using delivered_trans [OF delivered_nil [OF read_message_output [OF s1]]] ok by fastforce
  then show ?thesis
    using ok bound_authenticate [OF assms(1), of "ps_peer s1" x conn now] bound_cancel_response [OF assms(1), of now]
    by (cases "message env") (auto simp: interim_def)
qed

lemma bound_send_progress:
  assumes "bound_session (bd_sessions b) conn tid a" and "send_progress w b s conn tid code now = (b', s', Inr r)"
  shows "delivered w s s' [r] \<and>
    (b' = b \<and> r = Progress tid code \<or>
     b' = b\<lparr>bd_sessions := ended (bd_sessions b) a\<rparr> \<and> r = Completed tid DC_TimedOut)"
  using deliver_ok [OF assms(2) [unfolded send_progress_def]] bound_progress [OF assms(1), of code now]
  by (auto split: if_splits)

lemma bound_send_failure:
  assumes "bound_session (bd_sessions b) conn tid a" and "send_engine_failure w b s conn tid now = (b', s', Inr r)"
  shows "delivered w s s' [r] \<and> b' = b\<lparr>bd_sessions := ended (bd_sessions b) a\<rparr> \<and>
    (r = Completed tid DC_InternalError \<or> r = Completed tid DC_TimedOut)"
  using deliver_ok [OF assms(2) [unfolded send_engine_failure_def]] bound_complete [OF assms(1), of DC_InternalError now]
  by (auto split: if_splits)

text \<open>An acceptance of the derived evidence, and what it takes.\<close>

definition justified ::
  "'d template_source \<Rightarrow> AuthenticationConnectionPolicy \<Rightarrow> ActiveSession \<Rightarrow> DerivedAuthenticationEvidence \<Rightarrow> 'd \<Rightarrow> 'd \<Rightarrow> bool" where
  "justified load policy a ev d d' \<longleftrightarrow> de_transaction_id ev = grant_transaction_id (as_grant a) \<and>
     de_completed_at_micros ev < as_deadline_micros a \<and>
     (\<exists>template decision. load (grant_target_uid (as_grant a)) d = (d', Inr template) \<and>
        evaluate_authentication (cp_authentication policy) (cp_passive_pad policy) template (evidence_observation ev) = Inr decision \<and>
        accepted decision)"

lemma bound_send_completion:
  assumes "bound_session (bd_sessions b) conn tid a"
    and "send_derived_completion w load d b s conn (cp_authentication policy) (cp_passive_pad policy) ev = (d', b', s', Inr r)"
  shows "delivered w s s' [r] \<and> b' = b\<lparr>bd_sessions := ended (bd_sessions b) a\<rparr> \<and>
    (\<exists>decision. r = Completed tid decision \<and> (decision = DC_Accepted \<longrightarrow> justified load policy a ev d d'))"
proof -
  let ?c = "\<lparr>ac_connection = conn, ac_transaction_id = de_transaction_id ev, ac_policy = cp_authentication policy,
        ac_passive_pad_policy = cp_passive_pad policy, ac_observation = evidence_observation ev,
        ac_now_micros = de_completed_at_micros ev\<rparr>"
  obtain answer where c: "complete_authentication load d (bd_sessions b) ?c = (d', answer)"
    and del: "deliver w b s answer = (b', s', Inr r)"
    using assms(2) by (auto simp: send_derived_completion_def send_completion_def split: prod.splits)
  note ok = deliver_ok [OF del]
  have bind: "session_target_uid (bd_sessions b) conn (de_transaction_id ev) =
      (if de_transaction_id ev = tid then Inr (grant_target_uid (as_grant a)) else Inl SE_WrongTransaction)"
    using assms(1) by (auto simp: session_target_uid_def verify_binding_def bound_session_def)
  have ev: "de_transaction_id ev = tid"
    using c ok bind by (auto simp: complete_authentication_def split: if_splits)
  obtain dl loaded where l: "load (grant_target_uid (as_grant a)) d = (dl, loaded)" by fastforce
  let ?dec = "completion_decision (cp_authentication policy) (cp_passive_pad policy) (evidence_observation ev) loaded"
  have "dl = d'" and ans: "answer = (ended (bd_sessions b) a,
      Inr (Completed tid (if as_deadline_micros a \<le> de_completed_at_micros ev then DC_TimedOut else ?dec)))"
    using c bind ev l bound_complete [OF assms(1), of ?dec "de_completed_at_micros ev"] completion_not_reserved
    by (auto simp: complete_authentication_def)
  moreover have "justified load policy a ev d d'"
    if "(if as_deadline_micros a \<le> de_completed_at_micros ev then DC_TimedOut else ?dec) = DC_Accepted"
    using that assms(1) ev l \<open>dl = d'\<close> by (auto simp: justified_def bound_session_def completion_decision_accepted split: if_splits)
  ultimately show ?thesis using ok by auto
qed

section \<open>The loop\<close>

text \<open>
  What one connection can be after some turns of the loop: still open, with the service and the
  template source untouched, or ended with one terminal response.
\<close>

definition still_open :: "TransactionId \<Rightarrow> Wire \<Rightarrow> 'd connection \<Rightarrow> 'd connection \<Rightarrow> bool" where
  "still_open tid w c c' \<longleftrightarrow> (case c of (d, b, s) \<Rightarrow> case c' of (d', b', s') \<Rightarrow>
     d' = d \<and> b' = b \<and> (\<exists>rs. list_all (interim tid) rs \<and> delivered w s s' rs))"

definition terminated ::
  "'d template_source \<Rightarrow> AuthenticationConnectionPolicy \<Rightarrow> ActiveSession \<Rightarrow> Wire \<Rightarrow> EngineAnswer set \<Rightarrow>
   'd connection \<Rightarrow> 'd connection \<Rightarrow> Response \<Rightarrow> bool" where
  "terminated load policy a w answers c c' r \<longleftrightarrow> (case c of (d, b, s) \<Rightarrow> case c' of (d', b', s') \<Rightarrow>
     b' = b\<lparr>bd_sessions := ended (bd_sessions b) a\<rparr> \<and>
     (\<exists>rs. list_all (interim (grant_transaction_id (as_grant a))) rs \<and> delivered w s s' (rs @ [r])) \<and>
     (\<exists>decision. r = Completed (grant_transaction_id (as_grant a)) decision \<and>
        (decision = DC_Accepted \<longrightarrow>
          (\<exists>ev. EaUpdate (UpCompleted (grant_transaction_id (as_grant a)) (Inr ev)) \<in> answers \<and> justified load policy a ev d d'))))"

lemma still_open_refl: "still_open tid w c c"
  by (cases c) (auto simp: still_open_def intro: exI [of _ "[]"] delivered_nil)

lemma still_open_trans: "still_open tid w c c' \<Longrightarrow> still_open tid w c' c'' \<Longrightarrow> still_open tid w c c''"
  by (auto simp: still_open_def split: prod.splits) (metis delivered_trans list_all_append)

lemma still_open_terminated:
  assumes "still_open (grant_transaction_id (as_grant a)) w c c'" and "terminated load policy a w answers c' c'' r"
  shows "terminated load policy a w answers c c'' r"
proof -
  obtain d b s s' d'' b'' s'' where c: "c = (d, b, s)" "c' = (d, b, s')" "c'' = (d'', b'', s'')"
    using assms(1) by (cases c; cases c'; cases c'') (auto simp: still_open_def)
  let ?i = "list_all (interim (grant_transaction_id (as_grant a)))"
  from assms obtain rs rs' where rs: "?i rs" "delivered w s s' rs" "?i rs'" "delivered w s' s'' (rs' @ [r])"
    by (auto simp: c still_open_def terminated_def)
  then have "?i (rs @ rs')" "delivered w s s'' ((rs @ rs') @ [r])" using delivered_trans by fastforce+
  then have "\<exists>rs. ?i rs \<and> delivered w s s'' (rs @ [r])" by blast
  with assms(2) show ?thesis by (simp add: terminated_def c)
qed

lemma terminated_mono:
  "terminated load policy a w answers c c' r \<Longrightarrow> answers \<subseteq> answers' \<Longrightarrow> terminated load policy a w answers' c c' r"
  by (fastforce simp: terminated_def split: prod.splits)

lemma terminated_now:
  assumes "delivered w s s' [r]" and "b' = b\<lparr>bd_sessions := ended (bd_sessions b) a\<rparr>"
    and "r = Completed (grant_transaction_id (as_grant a)) decision"
    and "decision = DC_Accepted \<Longrightarrow>
      \<exists>ev. EaUpdate (UpCompleted (grant_transaction_id (as_grant a)) (Inr ev)) \<in> answers \<and> justified load policy a ev d d'"
  shows "terminated load policy a w answers (d, b, s) (d', b', s') r"
  using assms by (auto simp: terminated_def intro!: exI [of _ "[]"])

lemma drained_ok: "drained answers result = Inr r \<Longrightarrow> result = Inr r"
  by (auto simp: drained_def result_simps)

lemma engine_half_spec:
  assumes "bound_session (bd_sessions b) conn tid a"
    and "engine_half w load policy conn tid drain t (d, b, s) = (result, c')"
  shows "case result of None \<Rightarrow> still_open tid w (d, b, s) c'
    | Some (Inr r) \<Rightarrow> terminated load policy a w {ct_engine t} (d, b, s) c' r
    | Some (Inl e) \<Rightarrow> True"
proof -
  have tid: "grant_transaction_id (as_grant a) = tid" using assms(1) by (simp add: bound_session_def)
  obtain bf sf rf where f: "send_engine_failure w b s conn tid (ct_clock_update t) = (bf, sf, rf)"
    by (cases "send_engine_failure w b s conn tid (ct_clock_update t)")
  have failed: "terminated load policy a w {ct_engine t} (d, b, s) (d, bf, sf) r" if "rf = Inr r" for r
    using bound_send_failure [OF assms(1) f [unfolded that]] tid by (fastforce intro: terminated_now)
  show ?thesis
  proof (cases "ct_engine t")
    case EaTimeout
    then show ?thesis using assms(2) still_open_refl by (simp add: engine_half_def Let_def)
  next
    case EaDisconnected
    then show ?thesis using assms(2) f failed by (auto simp: engine_half_def Let_def split: sum.splits)
  next
    case (EaUpdate u)
    show ?thesis
    proof (cases u)
      case (UpProgress v code)
      show ?thesis
      proof (cases "v = tid")
        case True
        obtain b1 s1 r1 where p: "send_progress w b s conn tid code (ct_clock_update t) = (b1, s1, r1)"
          by (cases "send_progress w b s conn tid code (ct_clock_update t)")
        show ?thesis
        proof (cases r1)
          case (Inl e)
          with p True UpProgress EaUpdate assms(2) show ?thesis by (auto simp: engine_half_def Let_def)
        next
          case (Inr r)
          note sent = bound_send_progress [OF assms(1) p [unfolded Inr]]
          have "still_open tid w (d, b, s) (d, b1, s1)" if "r = Progress tid code"
            using sent that by (auto simp: still_open_def interim_def intro: exI [of _ "[r]"])
          moreover have "terminated load policy a w {ct_engine t} (d, b, s) (d, b1, s1) r" if "r = Completed tid DC_TimedOut"
            using sent that tid by (auto intro: terminated_now)
          ultimately show ?thesis using p Inr sent True UpProgress EaUpdate assms(2)
            by (auto simp: engine_half_def Let_def dest: drained_ok split: option.splits sum.splits)
        qed
      next
        case False
        then show ?thesis using assms(2) f failed UpProgress EaUpdate
          by (auto simp: engine_half_def Let_def split: sum.splits)
      qed
    next
      case (UpCompleted v res)
      show ?thesis
      proof (cases "v = tid \<and> (\<exists>ev. res = Inr ev)")
        case True
        then obtain ev where ev: "v = tid" "res = Inr ev" by blast
        obtain d1 b1 s1 r1 where p: "send_derived_completion w load d b s conn (cp_authentication policy)
            (cp_passive_pad policy) ev = (d1, b1, s1, r1)" by (metis prod_cases4)
        have "terminated load policy a w {ct_engine t} (d, b, s) (d1, b1, s1) r" if "r1 = Inr r" for r
          using bound_send_completion [OF assms(1) p [unfolded that]] tid ev UpCompleted EaUpdate
          by (fastforce intro: terminated_now)
        with p ev UpCompleted EaUpdate assms(2) show ?thesis
          by (auto simp: engine_half_def Let_def split: sum.splits)
      next
        case False
        then show ?thesis using assms(2) f failed UpCompleted EaUpdate
          by (auto simp: engine_half_def Let_def split: sum.splits if_splits)
      qed
    qed
  qed
qed

lemma socket_half_spec:
  assumes "bound_session (bd_sessions b) conn tid a"
    and "socket_half w conn tid drain t (d, b, s) = (result, c')"
  shows "case result of None \<Rightarrow> still_open tid w (d, b, s) c'
    | Some (Inr r) \<Rightarrow> terminated load policy a w {} (d, b, s) c' r
    | Some (Inl e) \<Rightarrow> True"
proof (cases "has_pending_input (ct_poll t)")
  case (Inl e)
  then show ?thesis using assms(2) by (auto simp: socket_half_def split: sum.splits dest: drained_ok)
next
  case (Inr pending)
  show ?thesis
  proof (cases pending)
    case False
    then show ?thesis using assms(2) Inr still_open_refl by (auto simp: socket_half_def)
  next
    case True
    obtain b1 s1 r1 where h: "handle_one w b s conn (ct_clock_request t) (ct_probe t) = (b1, s1, r1)"
      by (cases "handle_one w b s conn (ct_clock_request t) (ct_probe t)")
    show ?thesis
    proof (cases r1)
      case (Inl e)
      with h True Inr assms(2) show ?thesis by (auto simp: socket_half_def split: sum.splits dest: drained_ok)
    next
      case r: (Inr r)
      note sent = bound_request [OF assms(1) h [unfolded r]]
      have "grant_transaction_id (as_grant a) = tid" using assms(1) by (simp add: bound_session_def)
      then have "still_open tid w (d, b, s) (d, b1, s1)" if "interim tid r" "b1 = b"
        using sent that by (auto simp: still_open_def intro: exI [of _ "[r]"])
      moreover have "terminated load policy a w {} (d, b, s) (d, b1, s1) r"
        if "b1 = b\<lparr>bd_sessions := ended (bd_sessions b) a\<rparr>" "r = Completed tid DC_Cancelled \<or> r = Completed tid DC_TimedOut"
        using sent that assms(1) by (auto simp: bound_session_def intro: terminated_now)
      ultimately show ?thesis using h r sent True Inr assms(2)
        by (auto simp: socket_half_def interim_def dest: drained_ok split: option.splits sum.splits Response.splits)
    qed
  qed
qed

lemma coordination_turn_spec:
  assumes "bound_session (bd_sessions b) conn tid a"
    and "coordination_turn w load policy conn tid drain t (d, b, s) = (result, c')"
  shows "case result of None \<Rightarrow> still_open tid w (d, b, s) c'
    | Some (Inr r) \<Rightarrow> terminated load policy a w {ct_engine t} (d, b, s) c' r
    | Some (Inl e) \<Rightarrow> True"
proof -
  obtain result1 c1 where half: "engine_half w load policy conn tid drain t (d, b, s) = (result1, c1)"
    by (metis prod.collapse)
  note spec = engine_half_spec [OF assms(1) half]
  show ?thesis
  proof (cases result1)
    case None
    then have open1: "still_open tid w (d, b, s) c1" using spec by simp
    then obtain s1 where c1: "c1 = (d, b, s1)" by (cases c1) (auto simp: still_open_def)
    have "socket_half w conn tid drain t c1 = (result, c')" using assms(2) half None by (simp add: coordination_turn_def)
    note rest = socket_half_spec [OF assms(1) this [unfolded c1], of load policy]
    have tid: "grant_transaction_id (as_grant a) = tid" using assms(1) by (simp add: bound_session_def)
    show ?thesis
      using rest open1 still_open_trans [of tid w "(d, b, s)" c1 c']
        still_open_terminated [of a w "(d, b, s)" c1 load policy "{}" c'] terminated_mono [of load policy a w "{}" "(d, b, s)" c']
      unfolding tid c1 by (fastforce split: option.splits sum.splits)
  next
    case (Some res)
    then show ?thesis using assms(2) half spec by (auto simp: coordination_turn_def)
  qed
qed

lemma coordination_loop_spec:
  assumes "bound_session (bd_sessions b) conn tid a"
  shows "coordination_loop w load policy conn tid drain ts (d, b, s) = (result, c') \<Longrightarrow>
    (case result of None \<Rightarrow> still_open tid w (d, b, s) c'
     | Some (Inr r) \<Rightarrow> terminated load policy a w (ct_engine ` set ts) (d, b, s) c' r
     | Some (Inl e) \<Rightarrow> True)"
proof (induction ts arbitrary: s)
  case Nil
  then show ?case using still_open_refl by auto
next
  case (Cons t ts)
  have tid: "grant_transaction_id (as_grant a) = tid" using assms(1) by (simp add: bound_session_def)
  obtain result1 c1 where turn: "coordination_turn w load policy conn tid drain t (d, b, s) = (result1, c1)"
    by (metis prod.collapse)
  note spec = coordination_turn_spec [OF assms turn]
  show ?case
  proof (cases result1)
    case None
    then have open1: "still_open tid w (d, b, s) c1" using spec by simp
    then obtain s1 where c1: "c1 = (d, b, s1)" by (cases c1) (auto simp: still_open_def)
    have "coordination_loop w load policy conn tid drain ts (d, b, s1) = (result, c')"
      using Cons.prems turn None c1 by simp
    note IH = Cons.IH [OF this]
    show ?thesis
    proof (cases result)
      case None
      with IH still_open_trans [OF open1] c1 show ?thesis by simp
    next
      case (Some res)
      with IH c1 open1 still_open_terminated [of a w "(d, b, s)" c1 load policy _ c'] tid show ?thesis
        by (auto split: sum.splits intro: terminated_mono)
    qed
  next
    case (Some res)
    then show ?thesis using Cons.prems turn spec terminated_mono [of load policy a w "{ct_engine t}" "(d, b, s)" c']
      by (auto split: sum.splits)
  qed
qed

lemma coordinate_started_spec:
  assumes "bound_session (bd_sessions b) conn tid a"
    and "coordinate_started_authentication w load policy conn tid clock drain ts e (d, b, s) = (e', Some (Inr r), c')"
  shows "terminated load policy a w (ct_engine ` set ts) (d, b, s) c' r"
proof -
  from assms(1) obtain job where job: "authentication_job b conn tid = Inr job"
    by (auto simp: authentication_job_def job_from_session_ok bound_session_def result_simps)
  obtain e1 res where sub: "engine_submit e job = (e1, res)" by (metis prod.collapse)
  show ?thesis
  proof (cases res)
    case (Inl error)
    obtain b1 s1 r1 where f: "send_engine_failure w b s conn tid clock = (b1, s1, r1)"
      by (cases "send_engine_failure w b s conn tid clock")
    with Inl job sub assms(2) have "r1 = Inr r" "c' = (d, b1, s1)"
      by (auto simp: coordinate_started_authentication_def)
    with bound_send_failure [OF assms(1) f [unfolded this(1)]] assms(1) show ?thesis
      by (auto simp: bound_session_def intro: terminated_now)
  next
    case (Inr x)
    with job sub assms(2) have "coordination_loop w load policy conn tid drain ts (d, b, s) = (Some (Inr r), c')"
      by (simp add: coordinate_started_authentication_def)
    with coordination_loop_spec [OF assms(1) this] show ?thesis by simp
  qed
qed

lemma authenticate_started:
  assumes "authenticate_response b peer x conn now context = (m', Started tid)"
  shows "\<exists>grant a. peer_grant (bd_authorization b) peer x context = Inr grant \<and> sm_active (bd_sessions b) = None \<and>
    bound_session m' conn tid a \<and> as_grant a = grant \<and> tid = grant_transaction_id grant \<and>
    unat (as_deadline_micros a) = unat now + unat (transaction_duration_micros (sm_config (bd_sessions b)))"
proof -
  obtain grant where g: "peer_grant (bd_authorization b) peer x context = Inr grant"
    "session_start (bd_sessions b) grant conn now = (m', Inr (Started tid))"
    using assms by (auto simp: authenticate_response_def Let_def
        split: sum.splits ExecutableOrAuthorizationError.splits AuthorizationError.splits prod.splits SessionError.splits)
  then show ?thesis
    by (auto simp: session_start_def token_new_def bound_session_def checked_add_unat split: option.splits if_splits)
qed

lemma handle_one_started:
  assumes "handle_one w b s conn now x = (b', s', Inr (Started tid))"
  shows "\<exists>payload rest context grant a. input_of s = frame payload @ rest \<and>
    (\<exists>env. wi_decode w payload = Inr env \<and> message env = Authenticate context) \<and>
    peer_grant (bd_authorization b) (ps_peer s) x context = Inr grant \<and> sm_active (bd_sessions b) = None \<and>
    bound_session (bd_sessions b') conn tid a \<and> as_grant a = grant \<and> tid = grant_transaction_id grant \<and>
    unat (as_deadline_micros a) = unat now + unat (transaction_duration_micros (sm_config (bd_sessions b))) \<and>
    delivered w s s' [Started tid]"
proof -
  from assms obtain s1 env where s1: "read_message (wi_decode w) s = (s1, Inr env)"
    and r: "respond w b s1 (case message env of
        Authenticate context \<Rightarrow> authenticate_response b (ps_peer s1) x conn now context
      | Cancel u \<Rightarrow> cancel_response b conn now u) = (b', s', Inr (Started tid))"
    by (auto simp: handle_one_def split: prod.splits sum.splits)
  note ok = respond_ok [OF r]
  have no_cancel: "snd (cancel_response b conn now u) \<noteq> Started tid" for u
    by (auto simp: cancel_response_def session_cancel_eq take_terminal_def split: prod.splits sum.splits option.splits if_splits)
  then obtain cx where c: "message env = Authenticate cx" using ok by (cases "message env") auto
  then have "authenticate_response b (ps_peer s1) x conn now cx = (bd_sessions b', Started tid)"
    using ok by (cases "authenticate_response b (ps_peer s1) x conn now cx") auto
  from authenticate_started [OF this] read_message_peer [OF s1] obtain grant a where
    "peer_grant (bd_authorization b) (ps_peer s) x cx = Inr grant" "sm_active (bd_sessions b) = None"
    "bound_session (bd_sessions b') conn tid a" "as_grant a = grant" "tid = grant_transaction_id grant"
    "unat (as_deadline_micros a) = unat now + unat (transaction_duration_micros (sm_config (bd_sessions b)))" by auto
  moreover obtain payload rest where "input_of s = frame payload @ rest" "wi_decode w payload = Inr env"
    using read_message_ok [OF s1] by blast
  moreover have "delivered w s s' [Started tid]"
    using delivered_trans [OF delivered_nil [OF read_message_output [OF s1]]] ok by fastforce
  ultimately show ?thesis using c by blast
qed

lemma handle_one_first:
  assumes "handle_one w b s conn now x = (b', s', Inr r)"
  shows "delivered w s s' [r] \<and> (case r of Progress _ _ \<Rightarrow> False | Completed _ decision \<Rightarrow> decision \<noteq> DC_Accepted | _ \<Rightarrow> True)"
proof -
  from assms obtain s1 env where s1: "read_message (wi_decode w) s = (s1, Inr env)"
    and r: "respond w b s1 (case message env of
        Authenticate context \<Rightarrow> authenticate_response b (ps_peer s1) x conn now context
      | Cancel u \<Rightarrow> cancel_response b conn now u) = (b', s', Inr r)"
    by (auto simp: handle_one_def split: prod.splits sum.splits)
  note ok = respond_ok [OF r]
  have "delivered w s s' [r]"
    using delivered_trans [OF delivered_nil [OF read_message_output [OF s1]]] ok by fastforce
  moreover have A: "(\<exists>t. snd (authenticate_response b p x conn now cx) = Started t) \<or>
      (\<exists>t code. snd (authenticate_response b p x conn now cx) = Rejected t code)" for p cx
    by (auto simp: authenticate_response_def session_start_def token_new_def Let_def
        split: sum.splits ExecutableOrAuthorizationError.splits AuthorizationError.splits option.splits)
  moreover have C: "(\<exists>t. snd (cancel_response b conn now u) = Completed t DC_Cancelled) \<or>
      (\<exists>t. snd (cancel_response b conn now u) = Completed t DC_TimedOut) \<or>
      (\<exists>t code. snd (cancel_response b conn now u) = Rejected t code)" for u
    by (auto simp: cancel_response_def session_cancel_eq take_terminal_def split: prod.splits sum.splits option.splits)
  ultimately show ?thesis
  proof (cases "message env")
    case (Authenticate cx)
    then show ?thesis using ok A [of "ps_peer s1" cx] \<open>delivered w s s' [r]\<close> by auto
  next
    case (Cancel u)
    then show ?thesis using ok C [of u] \<open>delivered w s s' [r]\<close> by auto
  qed
qed

lemma coordination_loop_ends:
  "t \<in> set ts \<Longrightarrow> ct_engine t = EaDisconnected \<or> (\<exists>u r. ct_engine t = EaUpdate (UpCompleted u r)) \<Longrightarrow>
     fst (coordination_loop w load policy conn tid drain ts c) \<noteq> None"
proof (induction ts arbitrary: c)
  case (Cons x xs)
  have "fst (coordination_turn w load policy conn tid drain t c) \<noteq> None"
    using Cons.prems(2)
    by (auto simp: coordination_turn_def engine_half_def Let_def split: prod.splits sum.splits option.splits if_splits)
  with Cons show ?case by (auto split: prod.splits option.splits)
qed simp

lemma run_job_shape:
  assumes "run_job engine shutdown world request q = (q', sent, Some (Inr u))"
  shows "\<exists>progress result. sent = progress @ [UpCompleted (job_transaction_id (rq_job request)) result] \<and>
    length progress < UPDATE_QUEUE_CAPACITY"
proof -
  let ?tid = "job_transaction_id (rq_job request)"
  let ?r0 = "\<lparr>jr_sent = [], jr_progress_count = 0, jr_reports = 0\<rparr>"
  obtain r answer where r: "(if jw_cancelled_before world then (?r0, Some (Inl EF_Cancelled))
      else run_engine (engine ((rq_job request)\<lparr>job_shutdown := Some shutdown\<rparr>)) ?tid world ?r0) = (r, answer)" by fastforce
  have "length (jr_sent r) < UPDATE_QUEUE_CAPACITY"
    using r run_engine_sound [of _ ?tid world r answer] by (auto simp: UPDATE_QUEUE_CAPACITY_def less_Suc_eq_le split: if_splits)
  moreover from assms r obtain result where "answer = Some result"
    by (cases "jw_cancelled_before world"; cases answer) (auto simp: run_job_def Let_def)
  with assms r have "sent = jr_sent r @ [UpCompleted ?tid (bound_result ?tid (jw_cancelled_after world) result)]"
    by (cases "jw_cancelled_before world") (auto simp: run_job_def Let_def split: if_splits)
  ultimately show ?thesis by blast
qed

section \<open>Properties\<close>

text \<open>The provenance of an acceptance, for any source whose templates are authentic.\<close>

context authentic_source
begin

lemma connection_accepted:
  assumes "coordinate_authentication_connection w load policy conn ad drain ts e (d, b, s) =
    (e', Some (Inr (Completed tid DC_Accepted)), d', b', s')"
  shows "\<exists>payload rest env cx grant ev template decision rs.
    input_of s = frame payload @ rest \<and> wi_decode w payload = Inr env \<and> message env = Authenticate cx \<and>
    peer_grant (bd_authorization b) (ps_peer s) (ad_probe ad) cx = Inr grant \<and> grant_transaction_id grant = tid \<and>
    sm_active (bd_sessions b) = None \<and>
    EaUpdate (UpCompleted tid (Inr ev)) \<in> ct_engine ` set ts \<and> de_transaction_id ev = tid \<and>
    load (grant_target_uid grant) d = (d', Inr template) \<and> tr_uid template = grant_target_uid grant \<and>
    record_validate template = Inr () \<and>
    evaluate_authentication (cp_authentication policy) (cp_passive_pad policy) template (evidence_observation ev) = Inr decision \<and>
    accepted decision \<and>
    unat (de_completed_at_micros ev) < unat (ad_clock ad) + unat (transaction_duration_micros (sm_config (bd_sessions b))) \<and>
    list_all (interim tid) rs \<and> delivered w s s' (Started tid # rs @ [Completed tid DC_Accepted]) \<and>
    sm_active (bd_sessions b') = None"
proof -
  obtain b1 s1 r1 where h: "handle_one w b s conn (ad_clock ad) (ad_probe ad) = (b1, s1, Inr r1)"
    using assms by (auto simp: coordinate_authentication_connection_def split: prod.splits sum.splits)
  show ?thesis
  proof (cases "\<exists>u. r1 = Started u")
    case True
    then obtain u where r1: "r1 = Started u" by blast
    from handle_one_started [OF h [unfolded r1]] obtain payload rest cx grant a env where
      first: "input_of s = frame payload @ rest" "wi_decode w payload = Inr env" "message env = Authenticate cx"
        "peer_grant (bd_authorization b) (ps_peer s) (ad_probe ad) cx = Inr grant" "sm_active (bd_sessions b) = None"
      and a: "bound_session (bd_sessions b1) conn u a" "as_grant a = grant" "u = grant_transaction_id grant"
        "unat (as_deadline_micros a) = unat (ad_clock ad) + unat (transaction_duration_micros (sm_config (bd_sessions b)))"
      and sent: "delivered w s s1 [Started u]" by blast
    have "coordinate_started_authentication w load policy conn u (ad_clock_failure ad) drain ts e (d, b1, s1) =
        (e', Some (Inr (Completed tid DC_Accepted)), d', b', s')"
      using assms h r1 by (simp add: coordinate_authentication_connection_def)
    from coordinate_started_spec [OF a(1) this] a(2,3) obtain ev rs where
      ended: "b' = b1\<lparr>bd_sessions := ended (bd_sessions b1) a\<rparr>" and tid: "tid = u"
      and rs: "list_all (interim u) rs" "delivered w s1 s' (rs @ [Completed tid DC_Accepted])"
      and ev: "EaUpdate (UpCompleted u (Inr ev)) \<in> ct_engine ` set ts" "justified load policy a ev d d'"
      unfolding terminated_def by auto
    have g: "grant_transaction_id grant = tid" using a(3) tid by simp
    from ev(2) [unfolded justified_def a(2) g] obtain template decision where j: "de_transaction_id ev = tid"
        "de_completed_at_micros ev < as_deadline_micros a" "load (grant_target_uid grant) d = (d', Inr template)"
        "evaluate_authentication (cp_authentication policy) (cp_passive_pad policy) template (evidence_observation ev) = Inr decision"
        "accepted decision" by blast
    have "unat (de_completed_at_micros ev) < unat (ad_clock ad) + unat (transaction_duration_micros (sm_config (bd_sessions b)))"
      using j(2) a(4) by (simp add: word_less_nat_alt)
    moreover have "delivered w s s' (Started tid # rs @ [Completed tid DC_Accepted])"
      using delivered_trans [OF sent rs(2)] tid by simp
    moreover have "sm_active (bd_sessions b') = None" using ended by (simp add: ended_def)
    ultimately show ?thesis
      using first g j(1,3-5) loaded [OF j(3)] ev(1) [folded tid] rs(1) [folded tid] by blast
  next
    case False
    then have "r1 = Completed tid DC_Accepted"
      using assms h by (auto simp: coordinate_authentication_connection_def split: Response.splits)
    with handle_one_first [OF h] show ?thesis by simp
  qed
qed

end

text \<open>
  C1. Where an acceptance comes from. When a connection is told \<open>Accepted\<close>: its first frame was an
  authentication request, of a peer whose executable was verified and whom the policy granted exactly
  that transaction while no other was active; the engine delivered completed evidence of that very
  transaction; the encrypted store, asked for the UID of the grant and no other, returned a template of that UID
  which is well formed;
  the evaluation of that evidence against that template accepted; and the evidence was completed
  before the deadline fixed at admission. The client was sent \<open>Started\<close>, then only progress of this
  transaction and rejections of other requests, then this one terminal response; and the session is
  over, so it cannot be answered again.
\<close>

theorem accepted_only_with_evidence:
  assumes "coordinate_authentication_connection w (load_template load_key cd S) policy conn ad drain ts e (d, b, s) =
    (e', Some (Inr (Completed tid DC_Accepted)), d', b', s')"
  shows "\<exists>payload rest env cx grant ev template decision rs.
    input_of s = frame payload @ rest \<and> wi_decode w payload = Inr env \<and> message env = Authenticate cx \<and>
    peer_grant (bd_authorization b) (ps_peer s) (ad_probe ad) cx = Inr grant \<and> grant_transaction_id grant = tid \<and>
    sm_active (bd_sessions b) = None \<and>
    EaUpdate (UpCompleted tid (Inr ev)) \<in> ct_engine ` set ts \<and> de_transaction_id ev = tid \<and>
    load_template load_key cd S (grant_target_uid grant) d = (d', Inr template) \<and> tr_uid template = grant_target_uid grant \<and>
    record_validate template = Inr () \<and>
    evaluate_authentication (cp_authentication policy) (cp_passive_pad policy) template (evidence_observation ev) = Inr decision \<and>
    accepted decision \<and>
    unat (de_completed_at_micros ev) < unat (ad_clock ad) + unat (transaction_duration_micros (sm_config (bd_sessions b))) \<and>
    list_all (interim tid) rs \<and> delivered w s s' (Started tid # rs @ [Completed tid DC_Accepted]) \<and>
    sm_active (bd_sessions b') = None"
  by (rule encrypted_source.connection_accepted [OF assms])

lemma connection_frames:
  assumes "coordinate_authentication_connection w load policy conn ad drain ts e (d, b, s) = (e', Some (Inr r), d', b', s')"
  shows "delivered w s s' [r] \<and> (case r of Completed _ _ \<Rightarrow> True | Rejected _ _ \<Rightarrow> True | _ \<Rightarrow> False) \<or>
    (\<exists>tid rs decision. list_all (interim tid) rs \<and> r = Completed tid decision \<and>
       delivered w s s' (Started tid # rs @ [r]) \<and> sm_active (bd_sessions b') = None)"
proof -
  obtain b1 s1 r1 where h: "handle_one w b s conn (ad_clock ad) (ad_probe ad) = (b1, s1, Inr r1)"
    using assms by (auto simp: coordinate_authentication_connection_def split: prod.splits sum.splits)
  show ?thesis
  proof (cases "\<exists>u. r1 = Started u")
    case True
    then obtain u where r1: "r1 = Started u" by blast
    from handle_one_started [OF h [unfolded r1]] obtain a where
      a: "bound_session (bd_sessions b1) conn u a" and sent: "delivered w s s1 [Started u]" by blast
    have "coordinate_started_authentication w load policy conn u (ad_clock_failure ad) drain ts e (d, b1, s1) =
        (e', Some (Inr r), d', b', s')"
      using assms h r1 by (simp add: coordinate_authentication_connection_def)
    from coordinate_started_spec [OF a this] a obtain decision rs where
      ended: "b' = b1\<lparr>bd_sessions := ended (bd_sessions b1) a\<rparr>" "r = Completed u decision"
      and rs: "list_all (interim u) rs" "delivered w s1 s' (rs @ [r])"
      unfolding terminated_def bound_session_def by auto
    with delivered_trans [OF sent rs(2)] show ?thesis by (auto simp: ended_def)
  next
    case False
    then have "r = r1" "s' = s1"
      using assms h by (auto simp: coordinate_authentication_connection_def split: Response.splits)
    with handle_one_first [OF h] False show ?thesis by (auto split: Response.splits)
  qed
qed


text \<open>
  C15. A connection ends with its job: when the answers of the channel are the updates of a run of the
  worker, mixed with any timeouts, the coordination has ended by the terminal update at the latest,
  after at most 33 updates.
\<close>

theorem connection_ends_with_job:
  assumes "run_job engine shutdown world request q = (q', sent, Some (Inr ()))"
    and "filter (\<lambda>a. a \<noteq> EaTimeout) (map ct_engine ts) = map EaUpdate sent"
  shows "fst (coordination_loop w load policy conn tid drain ts c) \<noteq> None \<and> length sent \<le> UPDATE_QUEUE_CAPACITY"
proof -
  obtain progress result where sent: "sent = progress @ [UpCompleted (job_transaction_id (rq_job request)) result]"
      "length progress < UPDATE_QUEUE_CAPACITY"
    using run_job_shape [OF assms(1)] by blast
  have "EaUpdate (UpCompleted (job_transaction_id (rq_job request)) result) \<in> set (filter (\<lambda>a. a \<noteq> EaTimeout) (map ct_engine ts))"
    using assms(2) sent(1) by simp
  then obtain t where "t \<in> set ts" "ct_engine t = EaUpdate (UpCompleted (job_transaction_id (rq_job request)) result)" by auto
  then show ?thesis using coordination_loop_ends sent by fastforce
qed

section \<open>Where the code differs from its documents\<close>

text \<open>
  A failed write of a progress response ends the connection at once: the session is neither cancelled
  nor completed, and the engine is not drained. The manager then refuses every later request as busy, at
  any time, since nothing but the bound connection can end a transaction there (\<open>expire\<close> has no caller).
\<close>

lemma progress_write_failure_keeps_session:
  assumes "bound_session (bd_sessions b) conn tid a" and "ct_engine t = EaUpdate (UpProgress tid code)"
    and "ct_clock_update t < as_deadline_micros a" and "write_message (wi_encode w) s (Progress tid code) = (s', Inl e)"
  shows "coordination_turn w load policy conn tid drain t (d, b, s) = (Some (Inl (BE_Transport e)), d, b, s')"
    and "peer_grant (bd_authorization b) peer x cx = Inr grant \<Longrightarrow>
      authenticate_response b peer x conn' now cx = (bd_sessions b, Rejected (Some (transaction_id cx)) RC_Busy)"
proof -
  have "session_progress (bd_sessions b) conn tid code (ct_clock_update t) = (bd_sessions b, Inr (Progress tid code))"
    using bound_progress [OF assms(1), of code "ct_clock_update t"] assms(3) by (simp add: not_le [symmetric])
  then show "coordination_turn w load policy conn tid drain t (d, b, s) = (Some (Inl (BE_Transport e)), d, b, s')"
    using assms(2,4) by (simp add: coordination_turn_def engine_half_def send_progress_def deliver_def respond_def Let_def
        split: prod.splits)
  show "authenticate_response b peer x conn' now cx = (bd_sessions b, Rejected (Some (transaction_id cx)) RC_Busy)"
    if "peer_grant (bd_authorization b) peer x cx = Inr grant"
    using that bound_start [OF assms(1), of grant conn' now] by (simp add: authenticate_response_def)
qed

text \<open>Nothing but an engine update or a request of the peer enforces the deadline.\<close>

lemma idle_turns_stay_open:
  assumes "\<forall>t \<in> set ts. ct_engine t = EaTimeout \<and> has_pending_input (ct_poll t) = Inr False"
  shows "coordination_loop w load policy conn tid drain ts c = (None, c)"
  using assms
  by (induction ts) (auto simp: coordination_turn_def engine_half_def socket_half_def Let_def split: prod.splits)

text \<open>The clock of the coordinator plays no part in the completion of evidence.\<close>

lemma completion_ignores_clock:
  "ct_engine t = EaUpdate (UpCompleted tid (Inr ev)) \<Longrightarrow>
     engine_half w load policy conn tid drain (t\<lparr>ct_clock_update := now\<rparr>) c = engine_half w load policy conn tid drain t c"
  by (simp add: engine_half_def Let_def split: prod.splits)

section \<open>Examples\<close>

text \<open>One peer, allowed by one rule, and a codec that knows one request.\<close>

definition ex_service :: BoundaryService where
  "ex_service = \<lparr>bd_authorization = \<lparr>rules = [\<lparr>rule_service = ServiceName ''kde'', rule_purpose = ScreenUnlock,
       rule_caller = RootOnly, rule_executables = [\<lparr>device = 1, inode = 2\<rparr>]\<rparr>]\<rparr>,
     bd_sessions = Session.ex_manager\<rparr>"

definition ex_context :: RequestContext where
  "ex_context = \<lparr>transaction_id = TransactionId 1, target_uid = 1000, service = ServiceName ''kde'', purpose = ScreenUnlock\<rparr>"

definition ex_wire :: Wire where
  "ex_wire = \<lparr>wi_decode = (\<lambda>bytes. if bytes = [7] then Inr (envelope_current (Authenticate ex_context)) else Inl 0),
     wi_encode = (\<lambda>e. if message e = Started (TransactionId 1) then Inr [9]
       else if message e = Completed (TransactionId 1) DC_Accepted then Inr [8] else Inl 0)\<rparr>"

definition ex_stream :: PeerStream where
  "ex_stream = \<lparr>ps_stream = \<lparr>bs_input = frame [7], bs_input_end = IoTimedOut, bs_output = [], bs_output_fault = None\<rparr>,
     ps_peer = Session.ex_peer, ps_peer_pidfd = 3, ps_config = transport_config_default\<rparr>"

definition ex_probe :: ExecutableProbe where
  "ex_probe = \<lparr>xp_fdinfo_before = Inr ''Pid: 7'', xp_opened = Inr (), xp_fdinfo_after = Inr ''Pid: 7'',
     xp_metadata = Inr \<lparr>md_is_file = True, md_uid = 0, md_mode = 0x1ED, md_dev = 1, md_ino = 2\<rparr>\<rparr>"

definition ex_evidence :: DerivedAuthenticationEvidence where
  "ex_evidence = \<lparr>de_transaction_id = TransactionId 1, de_timing = ao_timing ex_observation, de_quality = ao_quality ex_observation,
     de_embedding = ao_embedding ex_observation, de_passive_liveness = ao_passive_liveness ex_observation,
     de_active_challenge = ao_active_challenge ex_observation, de_completed_at_micros = 14000000\<rparr>"

definition ex_connection_policy :: AuthenticationConnectionPolicy where
  "ex_connection_policy = \<lparr>cp_authentication = ex_auth_policy, cp_passive_pad = ex_pad\<rparr>"

definition ex_engine_state :: EngineState where
  "ex_engine_state = \<lparr>en_requests = [], en_receiver = True, en_active = False, en_resources = arbiter_default\<rparr>"

text \<open>A disk on which the template of the UID is stored, under a codec of that one payload.\<close>

definition ex_template :: TemplateRecord where
  "ex_template = template_from_embedding 1000 ex_embedding"

definition ex_codec_one :: Codec where
  "ex_codec_one = ex_codec_store\<lparr>cd_payload_of_json := (\<lambda>_. Inr (SP_Live 1 1 ex_template))\<rparr>"

abbreviation ex_load :: "Disk template_source" where
  "ex_load \<equiv> load_template (file_load_key ex_key_provider) ex_codec_one ex_store"

definition ex_enrolled_disk :: Disk where
  "ex_enrolled_disk = put_inode [''var'', ''t'', ''1000.template'']
     (Some (ex_directory\<lparr>fe_kind := FkRegular, fe_mode := 0x180, in_bytes := container_bytes (replicate 24 0) (replicate 17 0)\<rparr>))
     ex_store_disk"

lemma ex_enrolled: "ex_load 1000 ex_enrolled_disk = (ex_enrolled_disk, Inr ex_template)"
proof -
  have "decimal 1000 = ''1000''" by (simp add: decimal.simps) code_simp
  moreover have "record_validate ex_template = Inr ()" "tr_uid ex_template = 1000"
    using ex_template_valid by (simp_all add: ex_template_def) (simp add: template_from_embedding_def)
  ultimately show ?thesis
    by (simp add: ex_enrolled_disk_def load_template_def load_with_generation_def store_eval open_container_def
        ex_codec_one_def NONCE_LENGTH_def)
qed

text \<open>The terminal update arrives when the clock of the daemon is far past the deadline.\<close>

definition ex_late_turn :: CoordinationTurn where
  "ex_late_turn = \<lparr>ct_engine = EaUpdate (UpCompleted (TransactionId 1) (Inr ex_evidence)), ct_clock_update = 99000000,
     ct_poll = Inr None, ct_probe = ex_probe, ct_clock_request = 99000000, ct_clock_cancel = 99000000\<rparr>"

definition ex_admission :: Admission where
  "ex_admission = \<lparr>ad_clock = 5, ad_probe = ex_probe, ad_clock_failure = 6\<rparr>"

lemma ex_peer_grant: "peer_grant (bd_authorization ex_service) Session.ex_peer ex_probe ex_context = Inr Session.ex_grant"
proof -
  have "verified_peer Session.ex_peer ex_probe = Inr \<lparr>fingerprint = \<lparr>device = 1, inode = 2\<rparr>\<rparr>"
    by code_simp
  then show ?thesis
    by (simp add: peer_grant_def authorize_def ex_service_def ex_context_def Session.ex_grant_def Session.ex_peer_def)
qed

definition ex_active :: ActiveSession where
  "ex_active = \<lparr>as_grant = Session.ex_grant, as_connection = ConnectionToken [], as_deadline_micros = 15000005,
     as_cancellation = CancellationToken 0\<rparr>"

definition ex_admitted :: BoundaryService where
  "ex_admitted = ex_service\<lparr>bd_sessions := \<lparr>sm_config = ex_config, sm_active = Some ex_active, sm_cells = [False]\<rparr>\<rparr>"

lemma ex_admitted_response:
  "authenticate_response ex_service Session.ex_peer ex_probe (ConnectionToken []) 5 ex_context =
     (bd_sessions ex_admitted, Started (TransactionId 1))"
  using ex_peer_grant
  by (simp add: authenticate_response_def session_start_def checked_add_def token_new_def ex_service_def
      Session.ex_manager_def ex_config_def ex_admitted_def ex_active_def Session.ex_grant_def Let_def)

lemma ex_read: "read_message (wi_decode ex_wire) ex_stream = (with_input ex_stream [], Inr (envelope_current (Authenticate ex_context)))"
proof -
  have "ex_stream = with_input ex_stream (frame [7] @ [])" by (simp add: ex_stream_def with_input_def with_stream_def)
  moreover have "read_message (wi_decode ex_wire) (with_input ex_stream (frame [7] @ [])) =
      (with_input ex_stream [], Inr (envelope_current (Authenticate ex_context)))"
    by (rule read_message_frame)
      (simp_all add: ex_wire_def ex_stream_def transport_config_default_def DEFAULT_MAX_MESSAGE_BYTES_def envelope_current_def)
  ultimately show ?thesis by metis
qed

text \<open>A stream with given output accepts every response of the example codec.\<close>

definition ex_sent :: "u8 list \<Rightarrow> PeerStream" where
  "ex_sent bytes = ex_stream\<lparr>ps_stream := \<lparr>bs_input = [], bs_input_end = IoTimedOut, bs_output = bytes, bs_output_fault = None\<rparr>\<rparr>"

lemma ex_write:
  "wi_encode ex_wire (envelope_current r) = Inr [n] \<Longrightarrow>
     write_message (wi_encode ex_wire) (ex_sent bytes) r = (ex_sent (bytes @ frame [n]), Inr ())"
  by (simp add: write_message_def ex_sent_def ex_stream_def transport_config_default_def
      DEFAULT_MAX_MESSAGE_BYTES_def write_all_def with_stream_def frame_def Let_def)

lemma ex_encoded [simp]:
  "wi_encode ex_wire (envelope_current (Started (TransactionId 1))) = Inr [9]"
  "wi_encode ex_wire (envelope_current (Completed (TransactionId 1) DC_Accepted)) = Inr [8]"
  by (simp_all add: ex_wire_def envelope_current_def)

lemma ex_handle:
  "handle_one ex_wire ex_service ex_stream (ConnectionToken []) 5 ex_probe = (ex_admitted, ex_sent (frame [9]), Inr (Started (TransactionId 1)))"
proof -
  have "with_input ex_stream [] = ex_sent []" by (simp add: ex_sent_def ex_stream_def with_input_def with_stream_def)
  moreover have "ps_peer (ex_sent []) = Session.ex_peer" by (simp add: ex_sent_def ex_stream_def)
  moreover have "ex_service\<lparr>bd_sessions := bd_sessions ex_admitted\<rparr> = ex_admitted" by (simp add: ex_admitted_def)
  ultimately show ?thesis
    using ex_write [OF ex_encoded(1), of "[]"] ex_admitted_response
    by (simp add: handle_one_def ex_read respond_def envelope_current_def)
qed

lemma ex_bound: "bound_session (bd_sessions ex_admitted) (ConnectionToken []) (TransactionId 1) ex_active"
  by (simp add: bound_session_def ex_admitted_def ex_active_def Session.ex_grant_def)

lemma ex_completed:
  "send_derived_completion ex_wire ex_load ex_enrolled_disk ex_admitted (ex_sent bytes) (ConnectionToken []) ex_auth_policy ex_pad ex_evidence =
     (ex_enrolled_disk, ex_admitted\<lparr>bd_sessions := ended (bd_sessions ex_admitted) ex_active\<rparr>, ex_sent (bytes @ frame [8]),
      Inr (Completed (TransactionId 1) DC_Accepted))"
proof -
  have ob: "evidence_observation ex_evidence = ex_observation"
    by (simp add: evidence_observation_def ex_evidence_def)
  obtain decision where "evaluate_authentication ex_auth_policy ex_pad (template_from_embedding 1000 ex_embedding) ex_observation = Inr decision"
      "reason decision = Accepted" using ex_accepted by blast
  then have dec: "completion_decision ex_auth_policy ex_pad ex_observation (Inr (template_from_embedding 1000 ex_embedding)) = DC_Accepted"
    by (simp add: completion_decision_def)
  have uid: "session_target_uid (bd_sessions ex_admitted) (ConnectionToken []) (TransactionId 1) = Inr 1000"
    using ex_bound by (auto simp: session_target_uid_ok bound_session_def ex_active_def Session.ex_grant_def)
  show ?thesis
    using bound_complete [OF ex_bound, of DC_Accepted 14000000] uid dec ob ex_write [OF ex_encoded(2), of bytes]
    by (simp add: send_derived_completion_def send_completion_def complete_authentication_def ex_enrolled ex_template_def deliver_def
        respond_def ex_evidence_def ex_active_def)
qed

lemma ex_connection_run:
  "\<exists>e' b'. coordinate_authentication_connection ex_wire ex_load ex_connection_policy (ConnectionToken []) ex_admission
      (\<lambda>_. EaTimeout) [ex_late_turn] ex_engine_state (ex_enrolled_disk, ex_service, ex_stream) =
    (e', Some (Inr (Completed (TransactionId 1) DC_Accepted)), ex_enrolled_disk, b', ex_sent (frame [9] @ frame [8]))"
proof -
  obtain job where job: "authentication_job ex_admitted (ConnectionToken []) (TransactionId 1) = Inr job"
    using ex_bound by (auto simp: authentication_job_def job_from_session_ok bound_session_def result_simps)
  obtain e' u where "engine_submit ex_engine_state job = (e', Inr u)"
    by (auto simp: submit_ok try_acquire_ok ex_engine_state_def arbiter_default_def)
  with job show ?thesis using ex_handle ex_completed [of "frame [9]"]
    by (simp add: coordinate_authentication_connection_def coordinate_started_authentication_def ex_admission_def
        coordination_turn_def engine_half_def ex_late_turn_def ex_connection_policy_def Let_def split: prod.splits)
qed

lemma ex_connection:
  "\<exists>e' b' s'. coordinate_authentication_connection ex_wire ex_load ex_connection_policy (ConnectionToken []) ex_admission
      (\<lambda>_. EaTimeout) [ex_late_turn] ex_engine_state (ex_enrolled_disk, ex_service, ex_stream) =
    (e', Some (Inr (Completed (TransactionId 1) DC_Accepted)), ex_enrolled_disk, b', s')"
  using ex_connection_run by blast

theorem accepted_only_with_evidence_witness:
  "\<exists>s' rs ev template. list_all (interim (TransactionId 1)) rs \<and> ex_load 1000 ex_enrolled_disk = (ex_enrolled_disk, Inr template) \<and>
     EaUpdate (UpCompleted (TransactionId 1) (Inr ev)) \<in> ct_engine ` set [ex_late_turn] \<and>
     delivered ex_wire ex_stream s' (Started (TransactionId 1) # rs @ [Completed (TransactionId 1) DC_Accepted])"
proof -
  obtain e' b' s' where run: "coordinate_authentication_connection ex_wire ex_load ex_connection_policy (ConnectionToken [])
      ex_admission (\<lambda>_. EaTimeout) [ex_late_turn] ex_engine_state (ex_enrolled_disk, ex_service, ex_stream) =
    (e', Some (Inr (Completed (TransactionId 1) DC_Accepted)), ex_enrolled_disk, b', s')" using ex_connection by blast
  from accepted_only_with_evidence [OF run] show ?thesis using ex_enrolled by blast
qed


definition ex_job_world :: JobWorld where
  "ex_job_world = \<lparr>jw_cancelled = (\<lambda>_. False), jw_connected = (\<lambda>_. True), jw_received = (\<lambda>_. 0), jw_cancelled_before = False,
     jw_cancelled_after = False, jw_connected_at_end = True\<rparr>"

definition ex_engine_request :: EngineRequest where
  "ex_engine_request = \<lparr>rq_job = ex_job (TransactionId 1),
     rq_lease = \<lparr>al_generation = 1, al_owner = OwnAuthentication (TransactionId 1)\<rparr>\<rparr>"

text \<open>An engine that reports progress once and then returns its evidence.\<close>

definition ex_engine_run :: engine_run where
  "ex_engine_run = EngineReport PC_HoldStill (\<lambda>_. EngineDone (Inr ex_evidence))"

theorem connection_ends_with_job_witness:
  "fst (coordination_loop ex_wire ex_load ex_connection_policy (ConnectionToken []) (TransactionId 1) (\<lambda>_. EaTimeout)
     [ex_late_turn\<lparr>ct_engine := EaUpdate (UpProgress (TransactionId 1) PC_HoldStill)\<rparr>, ex_late_turn\<lparr>ct_engine := EaTimeout\<rparr>, ex_late_turn]
     (ex_enrolled_disk, ex_admitted, ex_sent [])) \<noteq> None"
proof -
  have "run_job (\<lambda>_. ex_engine_run) 0 ex_job_world ex_engine_request ex_engine_state =
      (ex_engine_state, [UpProgress (TransactionId 1) PC_HoldStill, UpCompleted (TransactionId 1) (Inr ex_evidence)], Some (Inr ()))"
    by (simp add: run_job_def ex_engine_run_def job_progress_def ex_job_world_def ex_engine_request_def ex_job_def bound_result_def
        ex_evidence_def ex_engine_state_def lease_drop_def arbiter_default_def MAX_PROGRESS_UPDATES_def UPDATE_QUEUE_CAPACITY_def Let_def)
  then show ?thesis
    by (rule connection_ends_with_job [THEN conjunct1]) (simp add: ex_late_turn_def)
qed

end
