(* ===== verification/Observation.thy ===== *)
theory Observation
  imports Engine Onnx Capture Quality
begin

text \<open>
  The production pipeline (\<open>crates/faceauth-daemon/src/observation.rs\<close>) and the engine over it
  (\<open>ProductionAuthenticationEngine\<close> of \<open>engine.rs\<close>): pair capture, face and landmark
  extraction, the active challenge and the derivation of evidence from one fresh pair. The cameras, the
  model runs and the cancellation flag answer through arguments, one record of answers for each attempt.
\<close>

section \<open>Policies and results\<close>

record DetectionPolicy =
  dp_minimum_confidence :: fp
  dp_maximum_iou :: fp
  dp_maximum_faces :: nat

definition detection_validate :: "DetectionPolicy \<Rightarrow> AuthenticationEngineFailure + unit" where
  "detection_validate p =
     (if \<not> is_finite (dp_minimum_confidence p) \<or> \<not> fp_in 0 1 (dp_minimum_confidence p)
         \<or> \<not> is_finite (dp_maximum_iou p) \<or> \<not> fp_in 0 1 (dp_maximum_iou p)
         \<or> \<not> in_range 1 64 (dp_maximum_faces p)
      then Inl EF_InvalidEvidence else Inr ())"

definition MAX_DERIVED_OBSERVATION_ATTEMPTS :: nat where
  "MAX_DERIVED_OBSERVATION_ATTEMPTS = 32"

datatype ObservationProgress =
  OpPositionFace | OpHoldStill | OpBlink | OpTurnLeft | OpTurnRight | OpReturnToCenter | OpProcessing

record DerivedBiometricObservation =
  dv_timing :: CapturePair
  dv_quality :: fp
  dv_yaw_degrees :: fp
  dv_embedding :: FaceEmbedding
  dv_passive_liveness :: "PassiveLivenessScore list"
  dv_completed_at_micros :: u64

datatype ObservationFailure =
  OF_Cancelled | OF_Capture | OF_Inference | OF_Liveness | OF_InvalidEvidence | OF_AttemptLimit | OF_Internal

datatype PipelineError = PL_InvalidPolicy | PL_ModelRoleMismatch ModelRole ModelRole

text \<open>The pipeline; its two devices are the camera arguments below.\<close>

record Pipeline =
  pn_detector :: OnnxSession
  pn_landmarks :: OnnxSession
  pn_embedding :: OnnxSession
  pn_passive_infrared :: OnnxSession
  pn_passive_visible :: OnnxSession
  pn_passive_fusion :: OnnxSession
  pn_pairing :: PairingPolicy
  pn_detection :: DetectionPolicy
  pn_quality :: QualityConfig

definition session_role :: "OnnxSession \<Rightarrow> ModelRole" where
  "session_role s = mm_role (on_manifest s)"

definition role_check :: "unit \<Rightarrow> OnnxSession \<times> ModelRole \<Rightarrow> PipelineError + unit" where
  "role_check _ x = (case x of (s, expected) \<Rightarrow>
     if session_role s \<noteq> expected then Inl (PL_ModelRoleMismatch expected (session_role s)) else Inr ())"

definition pipeline_new :: "Pipeline \<Rightarrow> PipelineError + Pipeline" where
  "pipeline_new p =
     try_bind (map_err (\<lambda>_. PL_InvalidPolicy) (pairing_validate (pn_pairing p))) (\<lambda>_.
     try_bind (map_err (\<lambda>_. PL_InvalidPolicy) (detection_validate (pn_detection p))) (\<lambda>_.
     try_bind (map_err (\<lambda>_. PL_InvalidPolicy) (quality_config_validate (pn_quality p))) (\<lambda>_.
     try_bind (try_fold role_check ()
       [(pn_detector p, RoleFaceDetector), (pn_landmarks p, RoleFaceLandmarks), (pn_embedding p, RoleFaceEmbedding),
        (pn_passive_infrared p, RolePassiveLivenessInfrared), (pn_passive_visible p, RolePassiveLivenessVisible),
        (pn_passive_fusion p, RolePassiveLivenessFusion)]) (\<lambda>_. Inr p))))"

section \<open>Failures\<close>

text \<open>Each reads the cancellation flag once more; the argument is its answer.\<close>

definition ensure_active :: "bool \<Rightarrow> ObservationFailure + unit" where
  "ensure_active cancelled = (if cancelled then Inl OF_Cancelled else Inr ())"

definition capture_failure :: "bool \<Rightarrow> ObservationFailure" where
  "capture_failure cancelled = (if cancelled then OF_Cancelled else OF_Capture)"

definition inference_failure :: "bool \<Rightarrow> ObservationFailure" where
  "inference_failure cancelled = (if cancelled then OF_Cancelled else OF_Inference)"

definition liveness_failure :: "bool \<Rightarrow> ObservationFailure" where
  "liveness_failure cancelled = (if cancelled then OF_Cancelled else OF_Liveness)"

definition invalid_evidence_failure :: "bool \<Rightarrow> ObservationFailure" where
  "invalid_evidence_failure cancelled = (if cancelled then OF_Cancelled else OF_InvalidEvidence)"

text \<open>Steps that may panic (\<open>None\<close>) or fail, and a failing call whose error is replaced.\<close>

definition step_bind :: "('e + 'a) option \<Rightarrow> ('a \<Rightarrow> ('e + 'b) option) \<Rightarrow> ('e + 'b) option" where
  "step_bind m f = (case m of None \<Rightarrow> None | Some (Inl e) \<Rightarrow> Some (Inl e) | Some (Inr x) \<Rightarrow> f x)"

definition step_or :: "'f \<Rightarrow> ('e + 'a) option \<Rightarrow> ('f + 'a) option" where
  "step_or f m = map_option (map_err (\<lambda>_. f)) m"

lemma step_bind_simps [simp]:
  "step_bind None f = None" "step_bind (Some (Inl e)) f = Some (Inl e)" "step_bind (Some (Inr x)) f = f x"
  by (simp_all add: step_bind_def)

lemma step_bind_ok: "step_bind m f = Some (Inr y) \<longleftrightarrow> (\<exists>x. m = Some (Inr x) \<and> f x = Some (Inr y))"
  by (auto simp: step_bind_def split: option.splits sum.splits)

lemma step_bind_None: "step_bind m f = None \<longleftrightarrow> m = None \<or> (\<exists>x. m = Some (Inr x) \<and> f x = None)"
  by (auto simp: step_bind_def split: option.splits sum.splits)

lemma step_or_ok [simp]: "step_or e m = Some (Inr x) \<longleftrightarrow> m = Some (Inr x)"
  by (auto simp: step_or_def result_simps)

lemma step_or_None [simp]: "step_or e m = None \<longleftrightarrow> m = None"
  by (simp add: step_or_def)

section \<open>Frames\<close>

definition inference_frame_view :: "CapturedFrame \<Rightarrow> InferenceError + SourceView" where
  "inference_frame_view f =
     (let n = fs_format (cf_summary f) in
      try_bind (case nf_pixel_format n of
          Gray8 \<Rightarrow> Inr FmtGray8 | Yuyv \<Rightarrow> Inr FmtYuyv | Mjpeg \<Rightarrow> Inl IE_SourceImageInvalid) (\<lambda>format.
      Inr \<lparr>sv_width = nf_width n, sv_height = nf_height n, sv_format = format, sv_bytes = cf_data f\<rparr>))"

definition quality_frame_view :: "CapturedFrame \<Rightarrow> QualityError + ImageView" where
  "quality_frame_view f =
     (let n = fs_format (cf_summary f) in
      case nf_pixel_format n of
        Gray8 \<Rightarrow> gray8_new (nf_width n) (nf_height n) (cf_data f)
      | Yuyv \<Rightarrow> yuyv_new (nf_width n) (nf_height n) (cf_data f)
      | Mjpeg \<Rightarrow> Inl QE_UnsupportedImageFormat)"

definition preprocess_frame :: "OnnxSession \<Rightarrow> CapturedFrame \<Rightarrow> (nat \<Rightarrow> bool) \<Rightarrow> InputTensor outcome" where
  "preprocess_frame s f cancelled =
     step_bind (Some (inference_frame_view f)) (\<lambda>img. session_preprocess_cancellable s img cancelled)"

definition preprocess_named_frame ::
  "OnnxSession \<Rightarrow> string \<Rightarrow> CapturedFrame \<Rightarrow> (nat \<Rightarrow> bool) \<Rightarrow> InputTensor outcome" where
  "preprocess_named_frame s name f cancelled =
     step_bind (Some (inference_frame_view f)) (\<lambda>img. session_preprocess_named_cancellable s name img cancelled)"

definition landmark_geometry :: "FacialLandmarks \<Rightarrow> FaceGeometry" where
  "landmark_geometry l =
     (let b = fr_bounds (fl_region l); m = fl_measurements l in
      \<lparr>fg_center_x = fp_mul F32 (fp_add F32 (nb_left b) (nb_right b)) (Finite (1 / 2)),
       fg_center_y = fp_mul F32 (fp_add F32 (nb_top b) (nb_bottom b)) (Finite (1 / 2)),
       fg_width = fp_sub F32 (nb_right b) (nb_left b),
       fg_height = fp_sub F32 (nb_bottom b) (nb_top b),
       fg_yaw_degrees = ms_yaw_degrees m, fg_pitch_degrees = ms_pitch_degrees m, fg_roll_degrees = ms_roll_degrees m,
       fg_landmark_confidence = ms_landmark_confidence m, fg_visible_fraction = ms_visible_fraction m\<rparr>)"

definition assess_landmark_frame_quality ::
  "CapturedFrame \<Rightarrow> FacialLandmarks \<Rightarrow> QualityConfig \<Rightarrow> (nat \<Rightarrow> bool) \<Rightarrow> (QualityError + QualityReport) option" where
  "assess_landmark_frame_quality f l c cancelled =
     step_bind (Some (quality_frame_view f)) (\<lambda>img.
       map_option snd (assess_cancellable img (landmark_geometry l) c cancelled 0))"

section \<open>Fresh pairs\<close>

record FreshPairIdentity =
  id_infrared_sequence :: u32
  id_visible_sequence :: u32
  id_timestamp_micros :: u64

definition from_pair :: "PairedFrames \<Rightarrow> FreshPairIdentity" where
  "from_pair p =
     (let timing = paired_timing p in
      \<lparr>id_infrared_sequence = fs_sequence (cf_summary (pf_infrared p)),
       id_visible_sequence = fs_sequence (cf_summary (pf_visible p)),
       id_timestamp_micros = (case visible_timestamp_micros timing of
           None \<Rightarrow> infrared_timestamp_micros timing
         | Some v \<Rightarrow> max (infrared_timestamp_micros timing) v)\<rparr>)"

definition is_fresh_after :: "FreshPairIdentity \<Rightarrow> FreshPairIdentity \<Rightarrow> bool" where
  "is_fresh_after i previous \<longleftrightarrow>
     id_infrared_sequence i \<noteq> id_infrared_sequence previous \<and>
     id_visible_sequence i \<noteq> id_visible_sequence previous \<and>
     id_timestamp_micros i > id_timestamp_micros previous"

abbreviation pair_time :: "PairedFrames \<Rightarrow> u64" where
  "pair_time p \<equiv> id_timestamp_micros (from_pair p)"

section \<open>One attempt\<close>

datatype AttemptFailure = AF_RetryPosition | AF_Fatal ObservationFailure

text \<open>
  The answers of one attempt. A cancellation answer is indexed by the stage that asks and, within a
  stage, by the poll; after a failed stage the failure is classified with the first poll of the next.
\<close>

record Attempt =
  tm_start :: bool
  tm_capture :: "nat \<Rightarrow> bool"
  tm_capture_failure :: bool
  tm_process :: "nat \<Rightarrow> nat \<Rightarrow> bool"
  tm_challenge :: bool
  tm_liveness_failure :: bool
  tm_derive :: "nat \<Rightarrow> nat \<Rightarrow> bool"
  tm_run :: "ModelRole \<Rightarrow> RunAnswers"

definition sole_face :: "bool \<Rightarrow> FaceDetections \<Rightarrow> AttemptFailure + FaceDetection" where
  "sole_face cancelled ds =
     (case require_single_face ds of
        Inr face \<Rightarrow> Inr face
      | Inl IE_NoFaceDetected \<Rightarrow> Inl AF_RetryPosition
      | Inl (IE_MultipleFacesDetected _) \<Rightarrow> Inl AF_RetryPosition
      | Inl _ \<Rightarrow> Inl (AF_Fatal (inference_failure cancelled)))"

definition region_error :: "bool \<Rightarrow> InferenceError \<Rightarrow> AttemptFailure" where
  "region_error cancelled e =
     (case e of IE_FaceRegionOutsideImage \<Rightarrow> AF_RetryPosition | _ \<Rightarrow> AF_Fatal (inference_failure cancelled))"

definition process_pair :: "PairedFrames \<Rightarrow> Pipeline \<Rightarrow> Attempt \<Rightarrow> (AttemptFailure + FacialLandmarks) option" where
  "process_pair pair p t =
     (let c = tm_process t;
          fatal = (\<lambda>k. AF_Fatal (inference_failure (c k 0)));
          active = (\<lambda>k. Some (map_err AF_Fatal (ensure_active (c k 0))));
          d = pn_detection p in
      step_bind (step_or (fatal 1) (preprocess_frame (pn_detector p) (pf_visible pair) (c 0))) (\<lambda>detector_input.
      step_bind (active 1) (\<lambda>_.
      step_bind (step_or (fatal 2) (Some (run_single (tm_run t RoleFaceDetector) (pn_detector p) detector_input))) (\<lambda>outputs.
      step_bind (active 2) (\<lambda>_.
      step_bind (step_or (fatal 3) (Some (try_bind (session_extract_face_detections (pn_detector p) outputs (dp_minimum_confidence d))
          (\<lambda>faces. suppress_overlaps faces (dp_maximum_iou d) (dp_maximum_faces d))))) (\<lambda>detections.
      step_bind (Some (sole_face (c 3 0) detections)) (\<lambda>face.
      step_bind (Some (map_err (region_error (c 3 0)) (session_derive_face_region (pn_landmarks p) (fd_bounds face)))) (\<lambda>region.
      step_bind (step_or (fatal 3) (Some (inference_frame_view (pf_visible pair)))) (\<lambda>visible_image.
      step_bind (map_option (map_err (region_error (c 4 0)))
          (session_preprocess_face_region (pn_landmarks p) visible_image region (c 3))) (\<lambda>landmark_input.
      step_bind (active 4) (\<lambda>_.
      step_bind (step_or (fatal 5) (Some (run_single (tm_run t RoleFaceLandmarks) (pn_landmarks p) landmark_input))) (\<lambda>outputs.
      step_bind (active 5) (\<lambda>_.
      step_or (fatal 6) (Some (session_extract_face_landmarks (pn_landmarks p) outputs region)))))))))))))))"

definition challenge_observation :: "PairedFrames \<Rightarrow> FacialLandmarks \<Rightarrow> ChallengeObservation" where
  "challenge_observation pair l =
     \<lparr>co_timing = paired_timing pair,
      co_infrared_sequence = fs_sequence (cf_summary (pf_infrared pair)),
      co_visible_sequence = fs_sequence (cf_summary (pf_visible pair)),
      co_face_count = 1,
      co_eye_openness = ms_eye_openness (fl_measurements l),
      co_yaw_degrees = ms_yaw_degrees (fl_measurements l)\<rparr>"

text \<open>The random action is drawn once, when the challenge begins.\<close>

definition advance_challenge ::
  "ChallengeSession option \<Rightarrow> ChallengeConfig \<Rightarrow> ChallengeError + ChallengeAction \<Rightarrow> u64 \<Rightarrow> PairedFrames \<Rightarrow>
   FacialLandmarks \<Rightarrow> Attempt \<Rightarrow> ChallengeSession option \<times> (ObservationFailure + ChallengeProgress)" where
  "advance_challenge challenge config draw time pair l t =
     (case (case challenge of
          Some active \<Rightarrow> Inr active
        | None \<Rightarrow> map_err (\<lambda>_. OF_Liveness) (try_bind draw (challenge_with_action config time))) of
        Inl e \<Rightarrow> (challenge, Inl e)
      | Inr active \<Rightarrow>
          (case observe_cancellable active (challenge_observation pair l) (tm_challenge t) of
             (active', r) \<Rightarrow> (Some active', map_err (\<lambda>_. liveness_failure (tm_liveness_failure t)) r)))"

definition derive_observation ::
  "PairedFrames \<Rightarrow> FacialLandmarks \<Rightarrow> Pipeline \<Rightarrow> Attempt \<Rightarrow> (ObservationFailure + DerivedBiometricObservation) option" where
  "derive_observation pair l p t =
     (let c = tm_derive t;
          fail = (\<lambda>k. inference_failure (c k 0));
          active = (\<lambda>k. Some (ensure_active (c k 0))) in
      step_bind (step_or (invalid_evidence_failure (c 1 0))
          (assess_landmark_frame_quality (pf_visible pair) l (pn_quality p) (c 0))) (\<lambda>quality.
      step_bind (step_or (fail 1) (Some (map_to_image l))) (\<lambda>image_landmarks.
      step_bind (step_or (fail 1) (Some (inference_frame_view (pf_visible pair)))) (\<lambda>visible_image.
      step_bind (step_or (fail 2) (session_preprocess_aligned (pn_embedding p) visible_image image_landmarks (c 1))) (\<lambda>embedding_input.
      step_bind (active 2) (\<lambda>_.
      step_bind (step_or (fail 3) (Some (run_single (tm_run t RoleFaceEmbedding) (pn_embedding p) embedding_input))) (\<lambda>embedding_outputs.
      step_bind (active 3) (\<lambda>_.
      step_bind (step_or (fail 4) (Some (session_extract_embedding (pn_embedding p) embedding_outputs))) (\<lambda>embedding.
      step_bind (step_or (fail 5) (preprocess_frame (pn_passive_infrared p) (pf_infrared pair) (c 4))) (\<lambda>infrared_input.
      step_bind (step_or (fail 6) (preprocess_frame (pn_passive_visible p) (pf_visible pair) (c 5))) (\<lambda>visible_input.
      step_bind (step_or (fail 7) (preprocess_named_frame (pn_passive_fusion p) ''infrared'' (pf_infrared pair) (c 6))) (\<lambda>fusion_infrared.
      step_bind (step_or (fail 8) (preprocess_named_frame (pn_passive_fusion p) ''visible'' (pf_visible pair) (c 7))) (\<lambda>fusion_visible.
      step_bind (active 8) (\<lambda>_.
      step_bind (step_or (fail 9) (Some (run_single (tm_run t RolePassiveLivenessInfrared) (pn_passive_infrared p) infrared_input)))
        (\<lambda>infrared_outputs.
      step_bind (active 9) (\<lambda>_.
      step_bind (step_or (fail 10) (Some (run_single (tm_run t RolePassiveLivenessVisible) (pn_passive_visible p) visible_input)))
        (\<lambda>visible_outputs.
      step_bind (active 10) (\<lambda>_.
      step_bind (step_or (fail 11) (Some (run_named (tm_run t RolePassiveLivenessFusion) (pn_passive_fusion p)
          [(''infrared'', fusion_infrared), (''visible'', fusion_visible)]))) (\<lambda>fusion_outputs.
      step_bind (active 11) (\<lambda>_.
      step_bind (step_or (fail 12) (Some (session_extract_passive_liveness (pn_passive_infrared p) infrared_outputs))) (\<lambda>infrared_score.
      step_bind (step_or (fail 12) (Some (session_extract_passive_liveness (pn_passive_visible p) visible_outputs))) (\<lambda>visible_score.
      step_bind (step_or (fail 12) (Some (session_extract_passive_liveness (pn_passive_fusion p) fusion_outputs))) (\<lambda>fusion_score.
      Some (Inr \<lparr>dv_timing = paired_timing pair, dv_quality = qr_aggregate quality,
                 dv_yaw_degrees = ms_yaw_degrees (fl_measurements l), dv_embedding = embedding,
                 dv_passive_liveness = [infrared_score, visible_score, fusion_score],
                 dv_completed_at_micros = pair_time pair\<rparr>))))))))))))))))))))))))"

section \<open>A session\<close>

text \<open>
  A session as its caller sees it: it reports progress, hands over derived observations and is told
  whether to go on (\<open>Inr None\<close>) or to end with a result (\<open>Inr (Some r)\<close>), and ends or panics.
\<close>

datatype 't session_run =
  SessionDone "ObservationFailure + 't"
| SessionPanic
| SessionReport ObservationProgress "ObservationFailure + unit \<Rightarrow> 't session_run"
| SessionObserve DerivedBiometricObservation "ObservationFailure + 't option \<Rightarrow> 't session_run"

text \<open>\<open>progress(code)?\<close> and what follows.\<close>

definition report_then :: "ObservationProgress \<Rightarrow> 't session_run \<Rightarrow> 't session_run" where
  "report_then code rest = SessionReport code (\<lambda>answer. case answer of Inl e \<Rightarrow> SessionDone (Inl e) | Inr _ \<Rightarrow> rest)"

fun observation_progress :: "ChallengeProgress \<Rightarrow> ObservationProgress" where
  "observation_progress CP_BaselineRequired = OpHoldStill"
| "observation_progress (CP_ActionRequired Blink) = OpBlink"
| "observation_progress (CP_ActionRequired TurnLeft) = OpTurnLeft"
| "observation_progress (CP_ActionRequired TurnRight) = OpTurnRight"
| "observation_progress CP_RecoveryRequired = OpReturnToCenter"
| "observation_progress CP_Passed = OpProcessing"

record ('i, 'v) LoopState =
  lo_infrared :: 'i
  lo_visible :: 'v
  lo_challenge :: "ChallengeSession option"
  lo_passed :: bool
  lo_last_progress :: "ObservationProgress option"
  lo_previous :: "FreshPairIdentity option"
  lo_derived :: nat

text \<open>What a session needs of its surroundings: frame sources, the drawn action, and its attempts.\<close>

record ('i, 'v) SessionWorld =
  sw_start :: bool
  sw_infrared :: "CaptureError + 'i"
  sw_infrared_failure :: bool
  sw_visible :: "CaptureError + 'v"
  sw_visible_failure :: bool
  sw_next_infrared :: "'i \<Rightarrow> 'i \<times> (CaptureError + CapturedFrame)"
  sw_next_visible :: "'v \<Rightarrow> 'v \<times> (CaptureError + CapturedFrame)"
  sw_draw :: "ChallengeError + ChallengeAction"
  sw_attempt :: "nat \<Rightarrow> Attempt"

text \<open>The end of an attempt whose challenge has passed; \<open>next_attempt\<close> is the rest of the loop.\<close>

definition observe_step ::
  "Pipeline \<Rightarrow> Attempt \<Rightarrow> PairedFrames \<Rightarrow> FacialLandmarks \<Rightarrow> (('i, 'v) LoopState \<Rightarrow> 't session_run) \<Rightarrow>
   ('i, 'v) LoopState \<Rightarrow> 't session_run" where
  "observe_step p t pair l next_attempt st =
     report_then OpProcessing
       (case derive_observation pair l p t of
          None \<Rightarrow> SessionPanic
        | Some (Inl e) \<Rightarrow> SessionDone (Inl e)
        | Some (Inr derived) \<Rightarrow>
            let st' = st\<lparr>lo_derived := lo_derived st + 1\<rparr> in
            SessionObserve derived (\<lambda>answer. case answer of
                Inl e \<Rightarrow> SessionDone (Inl e)
              | Inr (Some result) \<Rightarrow> SessionDone (Inr result)
              | Inr None \<Rightarrow>
                  if lo_derived st' < MAX_DERIVED_OBSERVATION_ATTEMPTS
                  then report_then OpHoldStill (next_attempt st')
                  else SessionDone (Inl OF_AttemptLimit)))"

text \<open>The challenge of an attempt, unless it has passed.\<close>

definition challenge_step ::
  "Pipeline \<Rightarrow> ChallengeConfig \<Rightarrow> ('i, 'v) SessionWorld \<Rightarrow> Attempt \<Rightarrow> PairedFrames \<Rightarrow> FacialLandmarks \<Rightarrow>
   (('i, 'v) LoopState \<Rightarrow> 't session_run) \<Rightarrow> ('i, 'v) LoopState \<Rightarrow> 't session_run" where
  "challenge_step p config w t pair l next_attempt st =
     (if lo_passed st then observe_step p t pair l next_attempt st
      else case advance_challenge (lo_challenge st) config (sw_draw w) (pair_time pair) pair l t of
          (_, Inl e) \<Rightarrow> SessionDone (Inl e)
        | (challenge, Inr state) \<Rightarrow>
            let st' = st\<lparr>lo_challenge := challenge\<rparr> in
            if state \<noteq> CP_Passed
            then let public = observation_progress state in
              if lo_last_progress st' \<noteq> Some public
              then report_then public (next_attempt (st'\<lparr>lo_last_progress := Some public\<rparr>))
              else next_attempt st'
            else observe_step p t pair l next_attempt (st'\<lparr>lo_passed := True\<rparr>))"

definition capture_step ::
  "Pipeline \<Rightarrow> ('i, 'v) SessionWorld \<Rightarrow> Attempt \<Rightarrow> ('i, 'v) LoopState \<Rightarrow>
   ('i, 'v) LoopState \<times> (ObservationFailure + PairedFrames)" where
  "capture_step p w t st =
     (case capture_pair_cancellable (sw_next_infrared w) (sw_next_visible w) (pn_pairing p) (tm_capture t)
          \<lparr>pr_infrared = lo_infrared st, pr_visible = lo_visible st, pr_polls = 0, pr_reads = 0\<rparr> of
        (_, Inl _) \<Rightarrow> (st, Inl (capture_failure (tm_capture_failure t)))
      | (sources, Inr pair) \<Rightarrow>
          if (case lo_previous st of None \<Rightarrow> False | Some previous \<Rightarrow> \<not> is_fresh_after (from_pair pair) previous)
          then (st, Inl OF_InvalidEvidence)
          else (st\<lparr>lo_infrared := pr_infrared sources, lo_visible := pr_visible sources,
                  lo_previous := Some (from_pair pair)\<rparr>, Inr pair))"

text \<open>
  The loop: \<open>left\<close> is the number of captures still allowed and \<open>n\<close> the number of those made.
\<close>

primrec session_loop ::
  "Pipeline \<Rightarrow> ChallengeConfig \<Rightarrow> ('i, 'v) SessionWorld \<Rightarrow> nat \<Rightarrow> nat \<Rightarrow> ('i, 'v) LoopState \<Rightarrow> 't session_run" where
  "session_loop p config w 0 n st =
     SessionDone (Inl (if tm_start (sw_attempt w n) then OF_Cancelled else OF_AttemptLimit))"
| "session_loop p config w (Suc left) n st =
     (let t = sw_attempt w n; next_attempt = session_loop p config w left (Suc n) in
      if tm_start t then SessionDone (Inl OF_Cancelled)
      else case capture_step p w t st of
          (_, Inl e) \<Rightarrow> SessionDone (Inl e)
        | (st', Inr pair) \<Rightarrow>
            (case process_pair pair p t of
               None \<Rightarrow> SessionPanic
             | Some (Inl AF_RetryPosition) \<Rightarrow> report_then OpPositionFace (next_attempt st')
             | Some (Inl (AF_Fatal e)) \<Rightarrow> SessionDone (Inl e)
             | Some (Inr l) \<Rightarrow> challenge_step p config w t pair l next_attempt st'))"

definition maximum_capture_attempts :: "ChallengeConfig \<Rightarrow> nat" where
  "maximum_capture_attempts config = unat (cc_max_observations config) * 2 + MAX_DERIVED_OBSERVATION_ATTEMPTS"

text \<open>What precedes the loop: the policies, the first cancellation check, and the two streams.\<close>

definition session_setup :: "Pipeline \<Rightarrow> ChallengeConfig \<Rightarrow> ('i, 'v) SessionWorld \<Rightarrow> ObservationFailure + 'i \<times> 'v" where
  "session_setup p config w =
     try_bind (map_err (\<lambda>_. OF_Capture) (pairing_validate (pn_pairing p))) (\<lambda>_.
     try_bind (map_err (\<lambda>_. OF_InvalidEvidence) (detection_validate (pn_detection p))) (\<lambda>_.
     try_bind (map_err (\<lambda>_. OF_InvalidEvidence) (quality_config_validate (pn_quality p))) (\<lambda>_.
     try_bind (map_err (\<lambda>_. OF_Liveness) (challenge_config_validate config)) (\<lambda>_.
     try_bind (ensure_active (sw_start w)) (\<lambda>_.
     try_bind (map_err (\<lambda>_. capture_failure (sw_infrared_failure w)) (sw_infrared w)) (\<lambda>i.
     try_bind (map_err (\<lambda>_. capture_failure (sw_visible_failure w)) (sw_visible w)) (\<lambda>v.
     Inr (i, v))))))))"

definition loop_start :: "'i \<Rightarrow> 'v \<Rightarrow> ('i, 'v) LoopState" where
  "loop_start i v =
     \<lparr>lo_infrared = i, lo_visible = v, lo_challenge = None, lo_passed = False, lo_last_progress = None,
      lo_previous = None, lo_derived = 0\<rparr>"

definition run_session :: "Pipeline \<Rightarrow> ChallengeConfig \<Rightarrow> ('i, 'v) SessionWorld \<Rightarrow> 't session_run" where
  "run_session p config w =
     (case session_setup p config w of
        Inl e \<Rightarrow> SessionDone (Inl e)
      | Inr (i, v) \<Rightarrow>
          report_then OpPositionFace (session_loop p config w (maximum_capture_attempts config) 0 (loop_start i v)))"

section \<open>The authentication engine\<close>

fun authentication_progress :: "ObservationProgress \<Rightarrow> ProgressCode" where
  "authentication_progress OpPositionFace = PC_PositionFace"
| "authentication_progress OpHoldStill = PC_HoldStill"
| "authentication_progress OpBlink = PC_Blink"
| "authentication_progress OpTurnLeft = PC_TurnLeft"
| "authentication_progress OpTurnRight = PC_TurnRight"
| "authentication_progress OpReturnToCenter = PC_ReturnToCenter"
| "authentication_progress OpProcessing = PC_Processing"

fun authentication_observation_failure :: "ObservationFailure \<Rightarrow> AuthenticationEngineFailure" where
  "authentication_observation_failure OF_Cancelled = EF_Cancelled"
| "authentication_observation_failure OF_Capture = EF_Capture"
| "authentication_observation_failure OF_Inference = EF_Inference"
| "authentication_observation_failure OF_Liveness = EF_Liveness"
| "authentication_observation_failure OF_InvalidEvidence = EF_InvalidEvidence"
| "authentication_observation_failure OF_AttemptLimit = EF_InvalidEvidence"
| "authentication_observation_failure OF_Internal = EF_Internal"

text \<open>The closure \<open>relay_progress\<close>: a refused report is a cancellation or an internal failure.\<close>

definition relay_answer :: "bool \<Rightarrow> AuthenticationEngineFailure + unit \<Rightarrow> ObservationFailure + unit" where
  "relay_answer cancelled = map_err (\<lambda>_. if cancelled then OF_Cancelled else OF_Internal)"

text \<open>The closure \<open>consume\<close>.\<close>

definition consumed :: "TransactionId \<Rightarrow> DerivedBiometricObservation \<Rightarrow> DerivedAuthenticationEvidence" where
  "consumed tid d =
     \<lparr>de_transaction_id = tid, de_timing = dv_timing d, de_quality = dv_quality d, de_embedding = dv_embedding d,
      de_passive_liveness = dv_passive_liveness d, de_active_challenge = CP_Passed,
      de_completed_at_micros = dv_completed_at_micros d\<rparr>"

primrec authentication_run ::
  "TransactionId \<Rightarrow> bool \<Rightarrow> DerivedAuthenticationEvidence session_run \<Rightarrow> engine_run" where
  "authentication_run tid cancelled (SessionDone r) = EngineDone (map_err authentication_observation_failure r)"
| "authentication_run tid cancelled SessionPanic = EnginePanic"
| "authentication_run tid cancelled (SessionReport code k) =
     EngineReport (authentication_progress code) (\<lambda>answer. authentication_run tid cancelled (k (relay_answer cancelled answer)))"
| "authentication_run tid cancelled (SessionObserve d k) =
     authentication_run tid cancelled (k (Inr (Some (consumed tid d))))"

text \<open>
  \<open>authenticate\<close>: whether the job is cancelled at its start, whether the pipeline is free, and whether
  the job is cancelled when a report is refused.
\<close>

definition authenticate ::
  "Pipeline \<Rightarrow> ChallengeConfig \<Rightarrow> bool \<Rightarrow> bool \<Rightarrow> bool \<Rightarrow> ('i, 'v) SessionWorld \<Rightarrow> AuthenticationJob \<Rightarrow> engine_run" where
  "authenticate p config cancelled free refused_cancelled w job =
     (if cancelled then EngineDone (Inl EF_Cancelled)
      else if \<not> free then EngineDone (Inl EF_Internal)
      else authentication_run (job_transaction_id job) refused_cancelled (run_session p config w))"

end
