(* ===== verification/Provenance.thy ===== *)
theory Provenance
  imports Observation "HOL-Library.Sublist"
begin

text \<open>
  What the production pipeline guarantees, whatever the cameras and models answer: the provenance of every
  derived observation, the contents of evidence, the absence of panics, the bound on observations, and
  the fate of a session without a face.
\<close>

section \<open>Provenance\<close>

lemma observe_cancellable_ok: "observe_cancellable s ob c = (s', Inr r) \<Longrightarrow> \<not> c \<and> r = challenge_progress s'"
  by (auto simp: observe_cancellable_def Let_def split: if_splits sum.splits option.splits)

lemma observe_run_snoc:
  assumes "observe_run s xs = (t, acc)" and "observe_cancellable t ob False = (t', Inr r)"
  shows "observe_run s (xs @ [(ob, False)]) = (t', acc @ [ob])"
  using assms
proof (induction xs arbitrary: s acc)
  case (Cons x xs)
  obtain o' c where x: "x = (o', c)" by (cases x)
  obtain s' q where sr: "observe_cancellable s o' c = (s', q)" by force
  obtain acc2 where run: "observe_run s' xs = (t, acc2)" and acc: "acc = (if is_ok q then o' # acc2 else acc2)"
    using Cons.prems(1) by (auto simp: x sr Let_def split: prod.splits)
  from Cons.IH [OF run Cons.prems(2)] acc show ?case by (simp add: x sr)
qed simp

text \<open>The challenge observations of a history of pairs with their landmarks, all taken live.\<close>

definition history_observations :: "(PairedFrames \<times> FacialLandmarks) list \<Rightarrow> ChallengeObservation list" where
  "history_observations hs = map (\<lambda>(pair, l). challenge_observation pair l) hs"

text \<open>Pairs captured one after the other: the right modalities, bounded skew, each fresh after its predecessor.\<close>

definition fresh_pairs :: "u64 \<Rightarrow> PairedFrames list \<Rightarrow> bool" where
  "fresh_pairs skew ps \<longleftrightarrow> list_all (pair_good skew) ps \<and> successively (\<lambda>p q. is_fresh_after (from_pair q) (from_pair p)) ps"

lemma fresh_pairs_snoc:
  "fresh_pairs skew (ps @ [p]) \<longleftrightarrow> fresh_pairs skew ps \<and> pair_good skew p \<and>
     (ps = [] \<or> is_fresh_after (from_pair p) (from_pair (last ps)))"
  by (cases ps rule: rev_cases) (auto simp: fresh_pairs_def successively_append_iff)

text \<open>The landmarks of a pair are what the pipeline found on it in some attempt.\<close>

definition processed :: "Pipeline \<Rightarrow> PairedFrames \<times> FacialLandmarks \<Rightarrow> bool" where
  "processed p x \<longleftrightarrow> (\<exists>t. process_pair (fst x) p t = Some (Inr (snd x)))"

definition challenge_of ::
  "ChallengeConfig \<Rightarrow> ChallengeError + ChallengeAction \<Rightarrow> (PairedFrames \<times> FacialLandmarks) list \<Rightarrow> ChallengeSession \<Rightarrow> bool" where
  "challenge_of config draw hs s \<longleftrightarrow> hs \<noteq> [] \<and>
     (\<exists>a s0. draw = Inr a \<and> challenge_with_action config (pair_time (fst (hd hs))) a = Inr s0 \<and>
        observe_run s0 (map (\<lambda>ob. (ob, False)) (history_observations hs)) = (s, history_observations hs))"

text \<open>
  A derived observation is genuine: it was derived from the last of a series of fresh pairs, after a
  challenge over pairs of the series had passed.
\<close>

definition genuine ::
  "Pipeline \<Rightarrow> ChallengeConfig \<Rightarrow> ChallengeError + ChallengeAction \<Rightarrow> DerivedBiometricObservation \<Rightarrow> bool" where
  "genuine p config draw d \<longleftrightarrow>
     (\<exists>ps pair l t hs s. fresh_pairs (pp_max_skew_micros (pn_pairing p)) (ps @ [pair]) \<and>
        subseq (map fst hs) (ps @ [pair]) \<and> list_all (processed p) hs \<and>
        challenge_of config draw hs s \<and> challenge_progress s = CP_Passed \<and>
        process_pair pair p t = Some (Inr l) \<and> derive_observation pair l p t = Some (Inr d))"

definition loop_inv ::
  "Pipeline \<Rightarrow> ChallengeConfig \<Rightarrow> ChallengeError + ChallengeAction \<Rightarrow> PairedFrames list \<Rightarrow>
   (PairedFrames \<times> FacialLandmarks) list \<Rightarrow> ('i, 'v) LoopState \<Rightarrow> bool" where
  "loop_inv p config draw ps hs st \<longleftrightarrow>
     fresh_pairs (pp_max_skew_micros (pn_pairing p)) ps \<and>
     lo_previous st = (if ps = [] then None else Some (from_pair (last ps))) \<and>
     subseq (map fst hs) ps \<and> list_all (processed p) hs \<and>
     (case lo_challenge st of
        None \<Rightarrow> hs = [] \<and> \<not> lo_passed st
      | Some s \<Rightarrow> challenge_of config draw hs s \<and> (lo_passed st \<longrightarrow> challenge_progress s = CP_Passed))"

text \<open>Every derived observation of a session satisfies a predicate, and so does every result.\<close>

primrec session_ok :: "(DerivedBiometricObservation \<Rightarrow> bool) \<Rightarrow> ('t \<Rightarrow> bool) \<Rightarrow> 't session_run \<Rightarrow> bool" where
  "session_ok Q R (SessionDone r) = (case r of Inl _ \<Rightarrow> True | Inr x \<Rightarrow> R x)"
| "session_ok Q R SessionPanic = True"
| "session_ok Q R (SessionReport code k) = (\<forall>a. session_ok Q R (k a))"
| "session_ok Q R (SessionObserve d k) =
     (Q d \<and> (\<forall>a. (case a of Inr (Some x) \<Rightarrow> R x | _ \<Rightarrow> True) \<longrightarrow> session_ok Q R (k a)))"

lemma report_then_ok [simp]: "session_ok Q R (report_then code rest) = session_ok Q R rest"
  by (auto simp: report_then_def split: sum.splits)

lemma capture_step_ok:
  assumes "capture_step p w t st = (st', Inr pair)"
  shows "pair_good (pp_max_skew_micros (pn_pairing p)) pair \<and>
    (case lo_previous st of None \<Rightarrow> True | Some previous \<Rightarrow> is_fresh_after (from_pair pair) previous) \<and>
    lo_previous st' = Some (from_pair pair) \<and> lo_challenge st' = lo_challenge st \<and> lo_passed st' = lo_passed st \<and>
    lo_derived st' = lo_derived st"
  using assms capture_pair_ok [of "sw_next_infrared w" "sw_next_visible w" "pn_pairing p" "tm_capture t"
      "\<lparr>pr_infrared = lo_infrared st, pr_visible = lo_visible st, pr_polls = 0, pr_reads = 0\<rparr>"]
  by (auto simp: capture_step_def split: prod.splits sum.splits if_splits option.splits)

lemma capture_step_inv:
  assumes "capture_step p w t st = (st', Inr pair)" and inv: "loop_inv p config draw ps hs st"
  shows "loop_inv p config draw (ps @ [pair]) hs st'"
proof -
  note step = capture_step_ok [OF assms(1)]
  have "ps = [] \<or> is_fresh_after (from_pair pair) (from_pair (last ps))"
    using step inv by (auto simp: loop_inv_def split: if_splits)
  moreover have "subseq (map fst hs) (ps @ [pair])" using inv by (auto simp: loop_inv_def)
  ultimately show ?thesis using step inv by (auto simp: loop_inv_def fresh_pairs_snoc split: option.splits)
qed

lemma observe_step_ok:
  assumes "loop_inv p config draw (ps @ [pair]) hs st" and "lo_passed st"
    and "process_pair pair p t = Some (Inr l)"
    and "\<And>st'. loop_inv p config draw (ps @ [pair]) hs st' \<Longrightarrow> session_ok (genuine p config draw) R (next_attempt st')"
  shows "session_ok (genuine p config draw) R (observe_step p t pair l next_attempt st)"
proof (cases "derive_observation pair l p t")
  case (Some r)
  show ?thesis
  proof (cases r)
    case (Inr d)
    obtain s where s: "lo_challenge st = Some s" "challenge_of config draw hs s" "challenge_progress s = CP_Passed"
      using assms(1,2) by (auto simp: loop_inv_def split: option.splits)
    have inv: "fresh_pairs (pp_max_skew_micros (pn_pairing p)) (ps @ [pair])" "subseq (map fst hs) (ps @ [pair])"
        "list_all (processed p) hs"
      using assms(1) by (auto simp: loop_inv_def)
    have "genuine p config draw d"
      unfolding genuine_def using inv s(2,3) assms(3) Some [unfolded Inr] by blast
    moreover have "loop_inv p config draw (ps @ [pair]) hs (st\<lparr>lo_derived := n\<rparr>)" for n
      using assms(1) by (auto simp: loop_inv_def split: option.splits)
    ultimately show ?thesis
      using Some Inr assms(4) by (auto simp: observe_step_def Let_def split: sum.splits option.splits)
  qed (simp add: observe_step_def Some)
qed (simp add: observe_step_def)

lemma advance_challenge_ok:
  assumes "advance_challenge (lo_challenge st) config draw (pair_time pair) pair l t = (challenge, Inr state)"
    and "loop_inv p config draw ps hs st"
  shows "\<exists>s. challenge = Some s \<and> state = challenge_progress s \<and> challenge_of config draw (hs @ [(pair, l)]) s"
proof -
  obtain active where active: "(case lo_challenge st of Some active \<Rightarrow> Inr active
        | None \<Rightarrow> map_err (\<lambda>_. OF_Liveness) (try_bind draw (challenge_with_action config (pair_time pair)))) = Inr active"
    using assms(1) by (auto simp: advance_challenge_def split: sum.splits)
  then obtain s where s: "observe_cancellable active (challenge_observation pair l) (tm_challenge t) = (s, Inr state)" "challenge = Some s"
    using assms(1) by (auto simp: advance_challenge_def result_simps split: prod.splits)
  note live = observe_cancellable_ok [OF s(1)]
  have "challenge_of config draw (hs @ [(pair, l)]) s"
  proof (cases "lo_challenge st")
    case None
    then have "hs = []" using assms(2) by (simp add: loop_inv_def)
    moreover from None active obtain a where "draw = Inr a" "challenge_with_action config (pair_time pair) a = Inr active"
      by (auto simp: result_simps)
    moreover have "observe_run active [(challenge_observation pair l, False)] = (s, [challenge_observation pair l])"
      using s(1) live by simp
    ultimately show ?thesis by (simp add: challenge_of_def history_observations_def)
  next
    case (Some s')
    then have "challenge_of config draw hs s'" and eq: "s' = active" using assms(2) active by (auto simp: loop_inv_def)
    then obtain a s0 where c: "hs \<noteq> []" "draw = Inr a" "challenge_with_action config (pair_time (fst (hd hs))) a = Inr s0"
        "observe_run s0 (map (\<lambda>ob. (ob, False)) (history_observations hs)) = (active, history_observations hs)"
      by (auto simp: challenge_of_def)
    from observe_run_snoc [OF c(4)] s(1) live c(1-3) show ?thesis
      by (simp add: challenge_of_def history_observations_def)
  qed
  with s(2) live show ?thesis by blast
qed

lemma challenge_step_ok:
  assumes inv: "loop_inv p config (sw_draw w) (ps @ [pair]) hs st" and old: "subseq (map fst hs) ps"
    and found: "process_pair pair p t = Some (Inr l)"
    and step: "\<And>hs' st'. loop_inv p config (sw_draw w) (ps @ [pair]) hs' st' \<Longrightarrow>
      session_ok (genuine p config (sw_draw w)) R (next_attempt st')"
  shows "session_ok (genuine p config (sw_draw w)) R (challenge_step p config w t pair l next_attempt st)"
proof (cases "lo_passed st")
  case True
  with observe_step_ok [OF inv True found step] show ?thesis by (simp add: challenge_step_def)
next
  case False
  obtain challenge r where adv: "advance_challenge (lo_challenge st) config (sw_draw w) (pair_time pair) pair l t = (challenge, r)"
    by fastforce
  show ?thesis
  proof (cases r)
    case (Inl e)
    with adv False show ?thesis by (simp add: challenge_step_def)
  next
    case (Inr state)
    from advance_challenge_ok [OF adv [unfolded Inr] inv] obtain s where
      s: "challenge = Some s" "state = challenge_progress s" "challenge_of config (sw_draw w) (hs @ [(pair, l)]) s" by blast
    have "processed p (pair, l)" using found by (auto simp: processed_def)
    then have inv': "loop_inv p config (sw_draw w) (ps @ [pair]) (hs @ [(pair, l)]) st'"
      if "lo_challenge st' = challenge" "lo_previous st' = lo_previous st" "lo_passed st' \<longrightarrow> state = CP_Passed" for st'
      using inv old s that by (simp add: loop_inv_def)
    have "session_ok (genuine p config (sw_draw w)) R (observe_step p t pair l next_attempt
        (st\<lparr>lo_challenge := challenge, lo_passed := True\<rparr>))" if "state = CP_Passed"
      by (rule observe_step_ok [OF inv' _ found step]) (use that in simp_all)
    then show ?thesis
      using adv False Inr step [OF inv'] by (simp add: challenge_step_def Let_def)
  qed
qed

lemma session_loop_ok:
  "loop_inv p config (sw_draw w) ps hs st \<Longrightarrow>
     session_ok (genuine p config (sw_draw w)) R (session_loop p config w left n st)"
proof (induction left arbitrary: n st ps hs)
  case (Suc left)
  let ?t = "sw_attempt w n"
  show ?case
  proof (cases "tm_start ?t")
    case False
    obtain st' r where cap: "capture_step p w ?t st = (st', r)" by fastforce
    show ?thesis
    proof (cases r)
      case (Inr pair)
      from capture_step_inv [OF cap [unfolded Inr] Suc.prems]
      have inv: "loop_inv p config (sw_draw w) (ps @ [pair]) hs st'" .
      have old: "subseq (map fst hs) ps" using Suc.prems by (simp add: loop_inv_def)
      note next_ok = Suc.IH [of "ps @ [pair]"]
      show ?thesis
        using challenge_step_ok [OF inv old _ next_ok] next_ok [OF inv] False cap Inr
        by (simp add: Let_def split: option.splits sum.splits AttemptFailure.splits)
    qed (use False cap in simp)
  qed simp
qed (simp split: if_splits)

lemma loop_start_inv: "loop_inv p config draw [] [] (loop_start i v)"
  by (simp add: loop_inv_def loop_start_def fresh_pairs_def)

lemma run_session_ok: "session_ok (genuine p config (sw_draw w)) R (run_session p config w)"
  using session_loop_ok [OF loop_start_inv] by (auto simp: run_session_def split: sum.splits)

text \<open>What the worker gets from an engine over a session is one of the observations of the session.\<close>

lemma run_engine_observed:
  assumes "session_ok Q (\<lambda>ev. \<exists>d. Q d \<and> ev = consumed tid d) run"
    and "run_engine (authentication_run tid c run) u w r = (r', Some (Inr ev))"
  shows "\<exists>d. Q d \<and> ev = consumed tid d"
  using assms
proof (induction run arbitrary: r)
  case (SessionDone x)
  then show ?case by (auto simp: result_simps split: sum.splits)
next
  case (SessionReport code k)
  obtain r1 a where p: "job_progress u w (authentication_progress code) r = (r1, a)" by fastforce
  with SessionReport.prems show ?case using SessionReport.IH [of "k (relay_answer c a)" r1] by (simp add: range_eqI)
next
  case (SessionObserve d k)
  have "session_ok Q (\<lambda>ev. \<exists>d. Q d \<and> ev = consumed tid d) (k (Inr (Some (consumed tid d))))"
    using SessionObserve.prems(1) by (simp only: session_ok.simps) (erule conjE, erule allE, erule mp, auto)
  from SessionObserve.IH [OF _ this] SessionObserve.prems(2) show ?case by simp
qed simp

section \<open>What an observation consists of\<close>

lemma validated_output_ok:
  "from_validated_output r c q = Inr s \<Longrightarrow> pl_role s = r \<and> pl_compatibility_sha256 s = c"
  by (auto simp: from_validated_output_def split: if_splits)

lemma passive_liveness_ok:
  assumes "session_extract_passive_liveness s outputs = Inr score"
  shows "pl_role score = session_role s \<and> pl_compatibility_sha256 score = on_compatibility_sha256 s"
proof -
  let ?m = "on_manifest s"
  obtain c t where t: "is_liveness_role (mm_role ?m)" "semantic_output ?m SemLiveProbability = Inr c"
      "exact_output outputs (oc_name c) (oc_dimensions c) = Inr t"
    using assms by (auto simp: session_extract_passive_liveness_def extract_passive_liveness_output_def try_bind_Inr split: if_split_asm)
  with assms obtain q where "ot_values t = [q]" "from_validated_output (mm_role ?m) (on_compatibility_sha256 s) q = Inr score"
    by (cases "ot_values t"; cases "tl (ot_values t)")
      (auto simp: session_extract_passive_liveness_def extract_passive_liveness_output_def split: if_split_asm)
  from validated_output_ok [OF this(2)] show ?thesis by (simp add: session_role_def)
qed

lemma extract_embedding_ok:
  "session_extract_embedding s outputs = Inr e \<Longrightarrow>
     session_role s = RoleFaceEmbedding \<and> fe_compatibility_sha256 e = on_compatibility_sha256 s"
  by (auto simp: session_extract_embedding_def extract_embedding_output_def session_role_def Let_def
      result_simps split: if_splits)

lemma assess_frame_ok:
  "assess_landmark_frame_quality f l c cancelled = Some (Inr rep) \<Longrightarrow> report_sound c rep"
  using assess_sound by (fastforce simp: assess_landmark_frame_quality_def step_bind_ok)

lemma derive_observation_ok:
  assumes "derive_observation pair l p t = Some (Inr d)"
  shows "dv_timing d = paired_timing pair \<and> dv_completed_at_micros d = pair_time pair \<and>
    dv_yaw_degrees d = ms_yaw_degrees (fl_measurements l) \<and>
    (\<exists>rep. report_sound (pn_quality p) rep \<and> dv_quality d = qr_aggregate rep) \<and>
    session_role (pn_embedding p) = RoleFaceEmbedding \<and>
    fe_compatibility_sha256 (dv_embedding d) = on_compatibility_sha256 (pn_embedding p) \<and>
    map (\<lambda>s. (pl_role s, pl_compatibility_sha256 s)) (dv_passive_liveness d) =
      map (\<lambda>s. (session_role s, on_compatibility_sha256 s)) [pn_passive_infrared p, pn_passive_visible p, pn_passive_fusion p]"
proof -
  from assms obtain rep embedding_outputs infrared_outputs visible_outputs fusion_outputs e s1 s2 s3 c where
    "assess_landmark_frame_quality (pf_visible pair) l (pn_quality p) c = Some (Inr rep)"
    "session_extract_embedding (pn_embedding p) embedding_outputs = Inr e"
    "session_extract_passive_liveness (pn_passive_infrared p) infrared_outputs = Inr s1"
    "session_extract_passive_liveness (pn_passive_visible p) visible_outputs = Inr s2"
    "session_extract_passive_liveness (pn_passive_fusion p) fusion_outputs = Inr s3"
    "d = \<lparr>dv_timing = paired_timing pair, dv_quality = qr_aggregate rep, dv_yaw_degrees = ms_yaw_degrees (fl_measurements l),
      dv_embedding = e, dv_passive_liveness = [s1, s2, s3], dv_completed_at_micros = pair_time pair\<rparr>"
    unfolding derive_observation_def Let_def step_bind_ok step_or_ok by auto
  note parts = this
  from assess_frame_ok [OF parts(1)] extract_embedding_ok [OF parts(2)] passive_liveness_ok [OF parts(3)]
    passive_liveness_ok [OF parts(4)] passive_liveness_ok [OF parts(5)]
  show ?thesis unfolding parts(6) by (simp add: exI [of _ rep])
qed

section \<open>No panic\<close>

lemma p_post_total: "p_post m E Q \<Longrightarrow> m \<noteq> None"
  by (cases m) auto

lemma step_bind_total: "m \<noteq> None \<Longrightarrow> (\<And>x. m = Some (Inr x) \<Longrightarrow> f x \<noteq> None) \<Longrightarrow> step_bind m f \<noteq> None"
  by (auto simp: step_bind_None)

definition manifest_admitted :: "(string \<Rightarrow> bool) \<Rightarrow> OnnxSession \<Rightarrow> bool" where
  "manifest_admitted spdx s \<longleftrightarrow> manifest_validate spdx (on_manifest s) = Inr ()"

definition pipeline_admitted :: "(string \<Rightarrow> bool) \<Rightarrow> Pipeline \<Rightarrow> bool" where
  "pipeline_admitted spdx p \<longleftrightarrow> list_all (manifest_admitted spdx)
     [pn_detector p, pn_landmarks p, pn_embedding p, pn_passive_infrared p, pn_passive_visible p, pn_passive_fusion p]"

lemma admitted_inputs:
  assumes "manifest_admitted spdx s" and "c \<in> set (manifest_inputs (on_manifest s))"
  shows "validate_input_contract c = Inr ()"
  using manifest_validate_ok [OF assms(1) [unfolded manifest_admitted_def]] input_steps_valid assms(2)
  by (auto simp: manifest_inputs_def simp del: try_fold.simps)

lemma preprocess_image_total:
  assumes "validate_input_contract c = Inr ()"
  shows "preprocess_image_cancellable c img cancel \<noteq> None"
  using resize_total [OF assms, of img cancel] by (cases "preprocess_image_cancellable c img cancel") auto

lemma preprocess_frame_total:
  "manifest_admitted spdx s \<Longrightarrow> preprocess_frame s f cancelled \<noteq> None"
  using admitted_inputs [of spdx s "mm_input (on_manifest s)"] preprocess_image_total
  by (auto simp: preprocess_frame_def step_bind_None session_preprocess_cancellable_def manifest_inputs_def)

lemma preprocess_named_frame_total:
  assumes "manifest_admitted spdx s"
  shows "preprocess_named_frame s name f cancelled \<noteq> None"
proof -
  have "preprocess_image_cancellable c img cancelled \<noteq> None" if "manifest_input (on_manifest s) name = Some c" for c img
    using that admitted_inputs [OF assms, of c] preprocess_image_total
    by (metis find_Some_iff manifest_input_def nth_mem)
  then show ?thesis
    by (auto simp: preprocess_named_frame_def step_bind_None session_preprocess_named_cancellable_def p_bind_None
        ok_or_def split: option.splits)
qed

lemma face_region_total:
  assumes "manifest_admitted spdx s"
  shows "session_preprocess_face_region s img region cancelled \<noteq> None"
  using p_post_total [OF region_post [OF admitted_inputs [OF assms, of "mm_input (on_manifest s)"], of img "fr_bounds region" cancelled]]
  by (auto simp: session_preprocess_face_region_def manifest_inputs_def)

lemma aligned_total:
  assumes "manifest_admitted spdx s"
  shows "session_preprocess_aligned s img l cancelled \<noteq> None"
proof -
  have "preprocess_aligned_image (mm_input (on_manifest s)) a img l cancelled \<noteq> None" for a
    using p_post_total [OF aligned_post [OF admitted_inputs [OF assms, of "mm_input (on_manifest s)"], of a img l cancelled]]
    by (auto simp: manifest_inputs_def)
  then show ?thesis by (auto simp: session_preprocess_aligned_def p_bind_None)
qed

lemma assess_frame_total: "assess_landmark_frame_quality f l c cancelled \<noteq> None"
proof -
  have "assess_cancellable img g c cancelled 0 \<noteq> None" if "quality_frame_view f = Inr img" for img g
    using that assess_total [of _ _ _ img g c cancelled 0]
    by (fastforce simp: quality_frame_view_def Let_def split: PixelFormat.splits)
  then show ?thesis by (auto simp: assess_landmark_frame_quality_def step_bind_None)
qed

lemma process_pair_total:
  assumes "pipeline_admitted spdx p"
  shows "process_pair pair p t \<noteq> None"
  unfolding process_pair_def Let_def
  by (intro step_bind_total)
    (use assms preprocess_frame_total face_region_total in \<open>auto simp: pipeline_admitted_def\<close>)

lemma derive_observation_total:
  assumes "pipeline_admitted spdx p"
  shows "derive_observation pair l p t \<noteq> None"
  unfolding derive_observation_def Let_def
  by (intro step_bind_total)
    (use assms preprocess_frame_total preprocess_named_frame_total aligned_total assess_frame_total in
      \<open>auto simp: pipeline_admitted_def\<close>)

text \<open>At most \<open>k\<close> observations on every path, and no panic.\<close>

primrec session_bounded :: "nat \<Rightarrow> 't session_run \<Rightarrow> bool" where
  "session_bounded k (SessionDone r) = True"
| "session_bounded k SessionPanic = False"
| "session_bounded k (SessionReport code f) = (\<forall>a. session_bounded k (f a))"
| "session_bounded k (SessionObserve d f) = (0 < k \<and> (\<forall>a. session_bounded (k - 1) (f a)))"

lemma report_then_bounded [simp]: "session_bounded k (report_then code rest) = session_bounded k rest"
  by (auto simp: report_then_def split: sum.splits)

lemma observe_step_bounded:
  assumes "pipeline_admitted spdx p" and "lo_derived st < 32"
    and "\<And>st'. lo_derived st' < 32 \<Longrightarrow> session_bounded (32 - lo_derived st') (next_attempt st')"
  shows "session_bounded (32 - lo_derived st) (observe_step p t pair l next_attempt st)"
proof -
  obtain r where r: "derive_observation pair l p t = Some r" using derive_observation_total [OF assms(1)] by blast
  have "session_bounded (31 - lo_derived st) (next_attempt (st\<lparr>lo_derived := Suc (lo_derived st)\<rparr>))" if "Suc (lo_derived st) < 32"
    using assms(3) [of "st\<lparr>lo_derived := Suc (lo_derived st)\<rparr>"] that by simp
  then show ?thesis
    using assms(2) r
    by (auto simp: observe_step_def Let_def MAX_DERIVED_OBSERVATION_ATTEMPTS_def split: sum.splits option.splits)
qed

lemma session_loop_bounded:
  assumes "pipeline_admitted spdx p"
  shows "lo_derived st < 32 \<Longrightarrow> session_bounded (32 - lo_derived st) (session_loop p config w left n st :: 't session_run)"
proof (induction left arbitrary: n st)
  case (Suc left)
  let ?t = "sw_attempt w n"
  obtain st' r where cap: "capture_step p w ?t st = (st', r)" by fastforce
  show ?case
  proof (cases r)
    case (Inr pair)
    have same: "lo_derived st' = lo_derived st" using capture_step_ok [OF cap [unfolded Inr]] by simp
    obtain q where q: "process_pair pair p ?t = Some q" using process_pair_total [OF assms] by blast
    let ?next = "session_loop p config w left (Suc n) :: _ \<Rightarrow> 't session_run"
    have rest: "session_bounded (32 - lo_derived x) (?next x)" if "lo_derived x < 32" for x by (rule Suc.IH [OF that])
    have observed: "session_bounded (32 - lo_derived st) (observe_step p ?t pair l ?next x)" if "lo_derived x = lo_derived st" for l x
      unfolding that [symmetric] by (rule observe_step_bounded [OF assms _ rest]) (use that Suc.prems in simp_all)
    have "session_bounded (32 - lo_derived st) (?next x)" if "lo_derived x = lo_derived st" for x
      using rest [of x] that Suc.prems by simp
    with observed same have "session_bounded (32 - lo_derived st) (challenge_step p config w ?t pair l ?next st')" for l
      by (auto simp: challenge_step_def Let_def split: prod.splits sum.splits)
    with rest [of st'] Suc.prems same q Inr cap show ?thesis by (auto simp: Let_def split: sum.splits AttemptFailure.splits)
  qed (use cap in \<open>auto simp: Let_def\<close>)
qed simp

section \<open>Properties\<close>

text \<open>
  Authentic evidence of a transaction: one pair of a series of fresh pairs, processed by the models,
  gave it; and over pairs of the same series, all with exactly one face and processed by the same models,
  the drawn action was performed in order and in time.
\<close>

definition authentic_evidence ::
  "Pipeline \<Rightarrow> ChallengeConfig \<Rightarrow> ChallengeError + ChallengeAction \<Rightarrow> TransactionId \<Rightarrow> DerivedAuthenticationEvidence \<Rightarrow> bool" where
  "authentic_evidence p config draw tid ev \<longleftrightarrow>
     (\<exists>ps pair l t d hs a.
        fresh_pairs (pp_max_skew_micros (pn_pairing p)) (ps @ [pair]) \<and>
        process_pair pair p t = Some (Inr l) \<and> derive_observation pair l p t = Some (Inr d) \<and> ev = consumed tid d \<and>
        subseq (map fst hs) (ps @ [pair]) \<and> list_all (processed p) hs \<and> draw = Inr a \<and>
        challenge_evidence config a (history_observations hs) \<and>
        sorted_wrt (<) (map obs_time (history_observations hs)) \<and>
        length hs \<le> unat (cc_max_observations config) \<and>
        list_all (\<lambda>ob. unat (obs_time ob) \<le> unat (pair_time (fst (hd hs))) + unat (cc_duration_micros config))
          (history_observations hs))"

lemma genuine_evidence:
  assumes "genuine p config draw d"
  shows "authentic_evidence p config draw tid (consumed tid d)"
proof -
  from assms obtain ps pair l t hs s where
    g: "fresh_pairs (pp_max_skew_micros (pn_pairing p)) (ps @ [pair])" "process_pair pair p t = Some (Inr l)"
      "derive_observation pair l p t = Some (Inr d)" "subseq (map fst hs) (ps @ [pair])" "list_all (processed p) hs"
    and c: "challenge_of config draw hs s" "challenge_progress s = CP_Passed"
    unfolding genuine_def by blast
  from c(1) obtain a s0 where a: "draw = Inr a" "challenge_with_action config (pair_time (fst (hd hs))) a = Inr s0"
      "observe_run s0 (map (\<lambda>ob. (ob, False)) (history_observations hs)) = (s, history_observations hs)"
    unfolding challenge_of_def by blast
  note ev = passed_run_evidence [OF a(2,3) c(2)]
  have "length hs \<le> unat (cc_max_observations config)" using ev by (simp add: history_observations_def)
  moreover have "list_all (\<lambda>ob. unat (obs_time ob) \<le> unat (pair_time (fst (hd hs))) + unat (cc_duration_micros config))
      (history_observations hs)" using ev by (simp add: list_all_iff)
  ultimately show ?thesis unfolding authentic_evidence_def using g a(1) ev by blast
qed

lemma authenticate_authentic:
  assumes "run_engine (authenticate p config cancelled free refused w job) tid world r = (r', Some (Inr ev))"
  shows "authentic_evidence p config (sw_draw w) (job_transaction_id job) ev"
proof -
  have "run_engine (authentication_run (job_transaction_id job) refused (run_session p config w)) tid world r = (r', Some (Inr ev))"
    using assms by (simp add: authenticate_def split: if_splits)
  from run_engine_observed [OF run_session_ok this] show ?thesis using genuine_evidence by blast
qed


text \<open>
  What evidence contains: the timing and the time of completion are those of its pair, its quality is
  the aggregate of a sound report under the configured calibration, its embedding carries the digest of
  the embedding model, and its passive scores are exactly one of each passive model, in order, with the
  roles and digests of the pipeline. With the pipeline's roles checked at construction, no score is
  missing, doubled or of another role when the passive policy looks for it.
\<close>

theorem derived_observation_contents:
  "case derive_observation pair l p t of
     Some (Inr d) \<Rightarrow> dv_timing d = paired_timing pair \<and> dv_completed_at_micros d = pair_time pair \<and>
       (\<exists>rep. report_sound (pn_quality p) rep \<and> dv_quality d = qr_aggregate rep) \<and>
       fe_compatibility_sha256 (dv_embedding d) = on_compatibility_sha256 (pn_embedding p) \<and>
       (if is_ok (pipeline_new p)
        then map (\<lambda>s. (pl_role s, pl_compatibility_sha256 s)) (dv_passive_liveness d) =
          [(RolePassiveLivenessInfrared, on_compatibility_sha256 (pn_passive_infrared p)),
           (RolePassiveLivenessVisible, on_compatibility_sha256 (pn_passive_visible p)),
           (RolePassiveLivenessFusion, on_compatibility_sha256 (pn_passive_fusion p))]
        else True)
   | _ \<Rightarrow> True"
proof -
  have roles: "session_role (pn_passive_infrared p) = RolePassiveLivenessInfrared \<and>
      session_role (pn_passive_visible p) = RolePassiveLivenessVisible \<and>
      session_role (pn_passive_fusion p) = RolePassiveLivenessFusion" if "is_ok (pipeline_new p)"
  proof -
    from that obtain q where "pipeline_new p = Inr q" by (cases "pipeline_new p") auto
    then show ?thesis by (auto simp: pipeline_new_def role_check_def result_simps split: if_splits)
  qed
  show ?thesis
  proof (cases "\<exists>d. derive_observation pair l p t = Some (Inr d)")
    case True
    then obtain d where d: "derive_observation pair l p t = Some (Inr d)" by blast
    from derive_observation_ok [OF d] roles show ?thesis by (simp add: d)
  next
    case False
    then show ?thesis by (auto split: option.splits sum.splits)
  qed
qed

text \<open>
  C27. The session is bounded: with models whose manifests were admitted, it never panics on any frame,
  and on every path it hands over at most 32 derived observations.
\<close>

theorem session_runs_bounded:
  assumes "pipeline_admitted spdx p"
  shows "session_bounded 32 (run_session p config w)"
  using session_loop_bounded [OF assms, of "loop_start i v" config w for i v]
  by (auto simp: run_session_def loop_start_def split: sum.splits)

section \<open>A session without a face\<close>

text \<open>The next \<open>k\<close> attempts capture fresh pairs but find no single face.\<close>

primrec faceless :: "Pipeline \<Rightarrow> ('i, 'v) SessionWorld \<Rightarrow> nat \<Rightarrow> nat \<Rightarrow> ('i, 'v) LoopState \<Rightarrow> bool" where
  "faceless p w 0 n st = True"
| "faceless p w (Suc k) n st =
     (\<not> tm_start (sw_attempt w n) \<and>
      (\<exists>st' pair. capture_step p w (sw_attempt w n) st = (st', Inr pair) \<and>
         process_pair pair p (sw_attempt w n) = Some (Inl AF_RetryPosition) \<and> faceless p w k (Suc n) st'))"

definition undisturbed :: "JobWorld \<Rightarrow> bool" where
  "undisturbed world \<longleftrightarrow> (\<forall>k. \<not> jw_cancelled world k \<and> jw_connected world k)"

lemma faceless_loop:
  assumes "undisturbed world"
  shows "faceless p w k n st \<Longrightarrow> k \<le> left \<Longrightarrow> job_run_inv tid r \<Longrightarrow> jr_progress_count r + k > MAX_PROGRESS_UPDATES \<Longrightarrow>
    \<exists>r'. run_engine (authentication_run u False (session_loop p config w left n st)) tid world r = (r', Some (Inl EF_Internal))"
proof (induction k arbitrary: left n st r)
  case 0
  then show ?case by (simp add: job_run_inv_def)
next
  case (Suc k)
  obtain left' where left: "left = Suc left'" using Suc.prems(2) by (cases left) simp_all
  from Suc.prems(1) obtain st' pair where step: "\<not> tm_start (sw_attempt w n)"
      "capture_step p w (sw_attempt w n) st = (st', Inr pair)"
      "process_pair pair p (sw_attempt w n) = Some (Inl AF_RetryPosition)" "faceless p w k (Suc n) st'" by auto
  obtain r1 a where a: "job_progress tid world PC_PositionFace r = (r1, a)" by fastforce
  have free: "\<not> jw_cancelled world (jr_reports r)" "jw_connected world (jr_reports r)"
    using assms by (simp_all add: undisturbed_def)
  have inv: "job_run_inv tid r1" using job_progress_inv [OF Suc.prems(3), of world PC_PositionFace] a by simp
  show ?case
  proof (cases "jr_progress_count r < MAX_PROGRESS_UPDATES")
    case True
    then have "a = Inr ()" using job_progress_room [OF Suc.prems(3) free, of PC_PositionFace] a by simp
    moreover have "jr_progress_count r1 = Suc (jr_progress_count r)"
      using a \<open>a = Inr ()\<close> by (auto simp: job_progress_def Let_def split: if_splits)
    ultimately show ?thesis
      using Suc.IH [OF step(4) _ inv, of left'] Suc.prems(2,4) left step a
      by (simp add: report_then_def relay_answer_def)
  next
    case False
    then have "a = Inl EF_Internal" using job_progress_room [OF Suc.prems(3) free, of PC_PositionFace] a by simp
    then show ?thesis using left step a by (simp add: report_then_def relay_answer_def)
  qed
qed

text \<open>
  C28. A session that sees no single face in its first 32 pairs fails internally, whatever comes after:
  every such attempt reports \<open>PositionFace\<close>, and the job may report 32 times only. The limit on captures,
  which is larger, is never reached and the error is not the one of that limit.
\<close>

theorem faceless_session_fails:
  assumes "undisturbed world" and "session_setup p config w = Inr (i, v)" and "faceless p w 32 0 (loop_start i v)"
  shows "\<exists>r'. run_engine (authenticate p config False True False w job) tid world
      \<lparr>jr_sent = [], jr_progress_count = 0, jr_reports = 0\<rparr> = (r', Some (Inl EF_Internal))"
proof -
  let ?r = "\<lparr>jr_sent = [], jr_progress_count = 0, jr_reports = 0\<rparr>"
  obtain r1 a where a: "job_progress tid world PC_PositionFace ?r = (r1, a)" by fastforce
  have inv: "job_run_inv tid ?r" by (simp add: job_run_inv_def progress_only_def)
  have free: "\<not> jw_cancelled world (jr_reports ?r)" "jw_connected world (jr_reports ?r)"
    using assms(1) by (simp_all add: undisturbed_def)
  have ok: "a = Inr ()" using job_progress_room [OF inv free, of PC_PositionFace] a by (simp add: MAX_PROGRESS_UPDATES_def)
  then have one: "jr_progress_count r1 = 1" "job_run_inv tid r1"
    using a job_progress_inv [OF inv, of world PC_PositionFace] by (auto simp: job_progress_def Let_def split: if_splits)
  have "32 \<le> maximum_capture_attempts config" by (simp add: maximum_capture_attempts_def MAX_DERIVED_OBSERVATION_ATTEMPTS_def)
  from faceless_loop [OF assms(1,3) this one(2), of "job_transaction_id job" config] one(1) ok a assms(2)
  show ?thesis
    by (simp add: authenticate_def run_session_def report_then_def relay_answer_def MAX_PROGRESS_UPDATES_def)
qed

section \<open>Examples\<close>

text \<open>A pipeline of one detector on a camera that gives a grey pixel, and a detector that sees nothing.\<close>

definition ex_eye :: OnnxSession where
  "ex_eye = \<lparr>on_graph = ex_graph, on_manifest = ex_detector\<lparr>mm_input := ex_contract\<rparr>, on_compatibility_sha256 = ex_digest,
     on_max_run_millis = 100\<rparr>"

definition ex_pipeline :: Pipeline where
  "ex_pipeline = \<lparr>pn_detector = ex_eye, pn_landmarks = ex_eye, pn_embedding = ex_eye, pn_passive_infrared = ex_eye,
     pn_passive_visible = ex_eye, pn_passive_fusion = ex_eye,
     pn_pairing = \<lparr>pp_max_skew_micros = 1, pp_max_replacements = 1\<rparr>,
     pn_detection = \<lparr>dp_minimum_confidence = Finite (1 / 2), dp_maximum_iou = Finite (1 / 2), dp_maximum_faces = 1\<rparr>,
     pn_quality = Quality.ex_config\<rparr>"

lemma ex_pipeline_admitted: "pipeline_admitted (\<lambda>s. s = ''MIT'') ex_pipeline"
proof -
  have "manifest_admitted (\<lambda>s. s = ''MIT'') ex_eye"
    by (simp add: manifest_admitted_def ex_eye_def ex_detector_def ex_contract_def manifest_validate_def ex_manifest_def
        ex_input_def MODEL_MANIFEST_SCHEMA_VERSION_def validate_label_def
        MAX_ARTIFACT_LABEL_LENGTH_def MAX_SOURCE_URL_LENGTH_def strip_prefix_def valid_sha256_def lowercase_hex_64_def
        list_all_iff list_ex_iff is_ascii_hexdigit_def is_ascii_uppercase_def is_ascii_alphanumeric_def validate_inputs_def
        input_step_def validate_input_contract_def validate_tensor_name_def MAX_INPUT_DIMENSION_def expected_channels_def
        validate_dimensions_def input_dimensions_def MAX_TENSOR_RANK_def dimension_product_def checked_mul_def
        MAX_TENSOR_ELEMENTS_def validate_role_contracts_def MAX_OUTPUT_TENSORS_def output_step_def checked_add_def
        MAX_TOTAL_OUTPUT_ELEMENTS_def validate_output_semantics_def role_outputs_def validate_face_detector_outputs_def
        unique_semantic_output_def in_range_def MAX_FACE_DETECTION_CANDIDATES_def output_shape_def fp_eq_def)
  then show ?thesis by (simp add: pipeline_admitted_def ex_pipeline_def)
qed

definition ex_grey :: "CaptureModality \<Rightarrow> nat \<Rightarrow> CapturedFrame" where
  "ex_grey modality k = \<lparr>cf_summary = \<lparr>fs_modality = modality, fs_timestamp_micros = word_of_nat k, fs_sequence = word_of_nat k,
     fs_bytes = 1, fs_format = \<lparr>nf_width = 1, nf_height = 1, nf_pixel_format = Gray8, nf_frames_per_second = 30\<rparr>\<rparr>,
     cf_data = [128]\<rparr>"

definition ex_blind :: RunAnswers where
  "ex_blind = ex_answers\<lparr>ra_result := Inr (\<lambda>name. if name = ''boxes'' then Some (Inr ([1, 2, 4], replicate 8 (Finite 0)))
     else Some (Inr ([1, 2], replicate 2 (Finite 0))))\<rparr>"

definition ex_attempt :: Attempt where
  "ex_attempt = \<lparr>tm_start = False, tm_capture = (\<lambda>_. False), tm_capture_failure = False, tm_process = (\<lambda>_ _. False),
     tm_challenge = False, tm_liveness_failure = False, tm_derive = (\<lambda>_ _. False), tm_run = (\<lambda>_. ex_blind)\<rparr>"

definition ex_world :: "(nat, nat) SessionWorld" where
  "ex_world = \<lparr>sw_start = False, sw_infrared = Inr 0, sw_infrared_failure = False, sw_visible = Inr 0,
     sw_visible_failure = False, sw_next_infrared = (\<lambda>k. (Suc k, Inr (ex_grey Infrared (Suc k)))),
     sw_next_visible = (\<lambda>k. (Suc k, Inr (ex_grey Visible (Suc k)))), sw_draw = Inr Blink,
     sw_attempt = (\<lambda>_. ex_attempt)\<rparr>"

abbreviation ex_pair :: "nat \<Rightarrow> PairedFrames" where
  "ex_pair k \<equiv> \<lparr>pf_infrared = ex_grey Infrared k, pf_visible = ex_grey Visible k\<rparr>"

lemma ex_retry: "process_pair (ex_pair k) ex_pipeline ex_attempt = Some (Inl AF_RetryPosition)"
proof -
  have view: "inference_frame_view (ex_grey Visible k) = Inr ex_pixel"
    by (simp add: inference_frame_view_def ex_grey_def ex_pixel_def Let_def)
  have input: "preprocess_frame ex_eye (ex_grey Visible k) (\<lambda>_. False) =
      Some (Inr \<lparr>it_dimensions = [1, 1, 1, 1], it_values = [Finite 128]\<rparr>)"
    using ex_preprocessed
    by (simp add: preprocess_frame_def view session_preprocess_cancellable_def preprocess_image_def ex_eye_def ex_detector_def
        ex_manifest_def)
  have boxes: "run_single ex_blind ex_eye \<lparr>it_dimensions = [1, 1, 1, 1], it_values = [Finite 128]\<rparr> =
      Inr [\<lparr>ot_name = ''boxes'', ot_dimensions = [1, 2, 4], ot_values = replicate 8 (Finite 0)\<rparr>,
           \<lparr>ot_name = ''scores'', ot_dimensions = [1, 2], ot_values = replicate 2 (Finite 0)\<rparr>]"
    by (simp add: run_single_def run_named_def ex_blind_def ex_answers_def ex_eye_def validate_named_inputs_def ex_detector_def
        ex_contract_def ex_manifest_def manifest_inputs_def ex_input_def named_input_step_def input_dimensions_def
        copy_output_def u32_try_from_def tensor_element_count_def usize_checked_mul_def list_ex_iff)
  have none: "session_extract_face_detections ex_eye
      [\<lparr>ot_name = ''boxes'', ot_dimensions = [1, 2, 4], ot_values = replicate 8 (Finite 0)\<rparr>,
       \<lparr>ot_name = ''scores'', ot_dimensions = [1, 2], ot_values = replicate 2 (Finite 0)\<rparr>] (Finite (1 / 2)) =
      Inr \<lparr>fds_compatibility_sha256 = ex_digest, fds_faces = []\<rparr>"
    using chunks_exact_nth [of 4 "replicate 8 (Finite 0)" 2]
    by (simp add: session_extract_face_detections_def ex_eye_def extract_face_detection_outputs_def ex_detector_def
        valid_compatibility_sha256_def ex_digest_valid semantic_output_def exact_output_def fp_in_def in_range_def
        MAX_FACE_DETECTION_CANDIDATES_def upt_conv_Cons Let_def)
      (simp add: numeral_eq_Suc detection_step_def fp_in_def Let_def)
  have "suppress_overlaps \<lparr>fds_compatibility_sha256 = ex_digest, fds_faces = []\<rparr> (Finite (1 / 2)) 1 =
      Inr \<lparr>fds_compatibility_sha256 = ex_digest, fds_faces = []\<rparr>"
    by (simp add: suppress_overlaps_def fp_in_def in_range_def confidence_order_def)
  with none boxes input show ?thesis
    by (simp add: process_pair_def ex_pipeline_def ex_attempt_def step_or_def ensure_active_def sole_face_def
        require_single_face_def Let_def)
qed

lemma ex_grey_summary [simp]:
  "fs_modality (cf_summary (ex_grey m k)) = m" "fs_timestamp_micros (cf_summary (ex_grey m k)) = word_of_nat k"
  "fs_sequence (cf_summary (ex_grey m k)) = word_of_nat k"
  by (simp_all add: ex_grey_def)

lemma ex_world_simps [simp]:
  "sw_attempt ex_world n = ex_attempt" "sw_next_infrared ex_world k = (Suc k, Inr (ex_grey Infrared (Suc k)))"
  "sw_next_visible ex_world k = (Suc k, Inr (ex_grey Visible (Suc k)))" "\<not> tm_start ex_attempt"
  by (simp_all add: ex_world_def ex_attempt_def)

lemma ex_fresh:
  assumes "k < 1000"
  shows "is_fresh_after (from_pair (ex_pair (Suc k))) (from_pair (ex_pair k))"
proof -
  have "(word_of_nat (Suc k) :: u32) \<noteq> word_of_nat k" "(word_of_nat k :: u64) < word_of_nat (Suc k)"
    using assms by (simp_all add: word_unat_eq_iff word_less_nat_alt unat_of_nat del: of_nat_Suc)
  then show ?thesis by (simp add: is_fresh_after_def from_pair_def paired_timing_def Let_def del: of_nat_Suc)
qed

lemma ex_capture:
  assumes "lo_infrared st = k" "lo_visible st = k" and "k < 1000"
    and "lo_previous st = None \<or> lo_previous st = Some (from_pair (ex_pair k))"
  shows "capture_step ex_pipeline ex_world ex_attempt st =
    (st\<lparr>lo_infrared := Suc k, lo_visible := Suc k, lo_previous := Some (from_pair (ex_pair (Suc k)))\<rparr>, Inr (ex_pair (Suc k)))"
proof -
  have "capture_pair_cancellable (sw_next_infrared ex_world) (sw_next_visible ex_world) (pn_pairing ex_pipeline) (tm_capture ex_attempt)
      \<lparr>pr_infrared = k, pr_visible = k, pr_polls = 0, pr_reads = 0\<rparr> =
    (\<lparr>pr_infrared = Suc k, pr_visible = Suc k, pr_polls = 3, pr_reads = 2\<rparr>, Inr (ex_pair (Suc k)))"
    by (simp add: capture_pair_cancellable_def cap_bind_def cap_result_def check_cancelled_def read_infrared_def read_visible_def
        ex_attempt_def ex_pipeline_def pairing_validate_def ensure_modality_def abs_diff_def pair_loop.simps Let_def
        del: of_nat_Suc)
  then show ?thesis using assms ex_fresh [OF assms(3)] by (auto simp: capture_step_def simp del: of_nat_Suc)
qed

lemma ex_faceless:
  "lo_infrared st = k \<Longrightarrow> lo_visible st = k \<Longrightarrow> k + j < 1000 \<Longrightarrow>
     lo_previous st = None \<or> lo_previous st = Some (from_pair (ex_pair k)) \<Longrightarrow> faceless ex_pipeline ex_world j n st"
proof (induction j arbitrary: k n st)
  case (Suc j)
  then have "k < 1000" by simp
  from Suc.IH [of "st\<lparr>lo_infrared := Suc k, lo_visible := Suc k, lo_previous := Some (from_pair (ex_pair (Suc k)))\<rparr>" "Suc k" "Suc n"]
    Suc.prems ex_capture [OF Suc.prems(1,2) this Suc.prems(4)] ex_retry
  show ?case by simp
qed simp

theorem faceless_session_fails_witness:
  "\<exists>r'. run_engine (authenticate ex_pipeline ex_challenge False True False ex_world (ex_job (TransactionId 1))) (TransactionId 1)
      \<lparr>jw_cancelled = (\<lambda>_. False), jw_connected = (\<lambda>_. True), jw_received = (\<lambda>_. 0), jw_cancelled_before = False,
       jw_cancelled_after = False, jw_connected_at_end = True\<rparr>
      \<lparr>jr_sent = [], jr_progress_count = 0, jr_reports = 0\<rparr> = (r', Some (Inl EF_Internal))"
proof (rule faceless_session_fails)
  have "challenge_config_validate ex_challenge = Inr ()" by code_simp
  then show "session_setup ex_pipeline ex_challenge ex_world = Inr (0, 0)"
    by (simp add: session_setup_def ex_pipeline_def ex_world_def pairing_validate_def detection_validate_def fp_in_def in_range_def
        Quality.ex_config_valid ensure_active_def)
  show "faceless ex_pipeline ex_world 32 0 (loop_start 0 0)"
    by (rule ex_faceless [of _ 0]) (simp_all add: loop_start_def)
qed (simp add: undisturbed_def)

theorem session_runs_bounded_witness:
  "session_bounded 32 (run_session ex_pipeline ex_challenge ex_world :: nat session_run)"
  by (rule session_runs_bounded [OF ex_pipeline_admitted])

end
