(* ===== verification/Enrollment.thy ===== *)
theory Enrollment
  imports Evaluation Management "HOL-Library.Sublist"
begin

text \<open>
  Enrollment (\<open>crates/faceauth-enrollment/src/lib.rs\<close> and the grant checks of
  \<open>crates/faceauth-daemon/src/lib.rs\<close>): a transaction that admits fresh, live, consistent observations
  of one person and aggregates them into one normalized template.
\<close>

section \<open>Configuration\<close>

definition MAX_ENROLLMENT_SAMPLES :: u8 where
  "MAX_ENROLLMENT_SAMPLES = 16"

record EnrollmentConfig =
  ec_duration_micros :: u64
  ec_minimum_samples :: u8
  ec_maximum_samples :: u8
  ec_minimum_quality :: fp
  ec_minimum_sample_similarity :: fp
  ec_minimum_sample_interval_micros :: u64
  ec_minimum_yaw_span_degrees :: fp

datatype EnrollmentError =
  EN_InvalidConfig
| EN_DeadlineOverflow
| EN_StaleObservation
| EN_InsufficientQuality
| EN_InvalidPose
| EN_LivenessRequired
| EN_EmbeddingInvalid
| EN_EmbeddingIncompatible
| EN_InconsistentIdentity
| EN_SampleLimitReached
| EN_DeadlineElapsed
| EN_InsufficientSamples nat u8
| EN_InsufficientPoseCoverage
| EN_AggregateInvalid
| EN_SessionFailed
| EN_Inference InferenceError
| EN_Storage StorageError

definition is_terminal_observation_failure :: "EnrollmentError \<Rightarrow> bool" where
  "is_terminal_observation_failure e = (e \<noteq> EN_InsufficientQuality)"

definition valid_unit_score :: "fp \<Rightarrow> bool" where
  "valid_unit_score v = (is_finite v \<and> fp_in 0 1 v)"

definition enrollment_config_validate :: "EnrollmentConfig \<Rightarrow> EnrollmentError + unit" where
  "enrollment_config_validate c =
     (if \<not> in_range 5000000 120000000 (ec_duration_micros c)
         \<or> \<not> in_range 3 MAX_ENROLLMENT_SAMPLES (ec_minimum_samples c)
         \<or> ec_maximum_samples c < ec_minimum_samples c
         \<or> ec_maximum_samples c > MAX_ENROLLMENT_SAMPLES
         \<or> \<not> valid_unit_score (ec_minimum_quality c)
         \<or> \<not> valid_unit_score (ec_minimum_sample_similarity c)
         \<or> \<not> in_range 50000 5000000 (ec_minimum_sample_interval_micros c)
         \<or> \<not> is_finite (ec_minimum_yaw_span_degrees c)
         \<or> \<not> fp_in 5 60 (ec_minimum_yaw_span_degrees c)
      then Inl EN_InvalidConfig else Inr ())"

section \<open>The transaction\<close>

record EnrollmentObservation =
  eo_embedding :: FaceEmbedding
  eo_quality :: fp
  eo_passive_liveness_passed :: bool
  eo_active_liveness_passed :: bool
  eo_timestamp_micros :: u64
  eo_yaw_degrees :: fp

record EnrollmentSession =
  es_config :: EnrollmentConfig
  es_uid :: u32
  es_issued_at_micros :: u64
  es_deadline_micros :: u64
  es_last_timestamp_micros :: "u64 option"
  es_compatibility_sha256 :: "string option"
  es_dimension :: "nat option"
  es_samples :: "fp list list"
  es_sample_qualities :: "fp list"
  es_sample_yaws :: "fp list"
  es_terminal_failure :: bool

definition enrollment_start :: "EnrollmentConfig \<Rightarrow> u32 \<Rightarrow> u64 \<Rightarrow> EnrollmentError + EnrollmentSession" where
  "enrollment_start c uid issued =
     try_bind (enrollment_config_validate c) (\<lambda>_.
     try_bind (ok_or (checked_add issued (ec_duration_micros c)) EN_DeadlineOverflow) (\<lambda>deadline.
     Inr \<lparr>es_config = c, es_uid = uid, es_issued_at_micros = issued, es_deadline_micros = deadline,
          es_last_timestamp_micros = None, es_compatibility_sha256 = None, es_dimension = None, es_samples = [],
          es_sample_qualities = [], es_sample_yaws = [], es_terminal_failure = False\<rparr>))"

text \<open>\<open>Iterator::reduce\<close>.\<close>

fun reduced :: "('a \<Rightarrow> 'a \<Rightarrow> 'a) \<Rightarrow> 'a list \<Rightarrow> 'a option" where
  "reduced f [] = None"
| "reduced f (x # xs) = Some (foldl f x xs)"

definition has_required_pose_coverage :: "EnrollmentSession \<Rightarrow> bool" where
  "has_required_pose_coverage s =
     (case (reduced fp_min (es_sample_yaws s), reduced fp_max (es_sample_yaws s)) of
        (Some lowest, Some highest) \<Rightarrow>
          fp_le (ec_minimum_yaw_span_degrees (es_config s)) (fp_sub F32 highest lowest)
      | _ \<Rightarrow> False)"

definition ready_to_finish :: "EnrollmentSession \<Rightarrow> bool" where
  "ready_to_finish s =
     (\<not> es_terminal_failure s \<and> length (es_samples s) \<ge> unat (ec_minimum_samples (es_config s)) \<and>
      has_required_pose_coverage s)"

definition is_full :: "EnrollmentSession \<Rightarrow> bool" where
  "is_full s = (length (es_samples s) \<ge> unat (ec_maximum_samples (es_config s)))"

text \<open>The subtraction is only reached when it does not wrap.\<close>

definition validate_observation :: "EnrollmentSession \<Rightarrow> EnrollmentObservation \<Rightarrow> EnrollmentError + unit" where
  "validate_observation s ob =
     (if eo_timestamp_micros ob \<le> es_issued_at_micros s \<or> eo_timestamp_micros ob \<ge> es_deadline_micros s
         \<or> (case es_last_timestamp_micros s of None \<Rightarrow> False | Some previous \<Rightarrow> eo_timestamp_micros ob \<le> previous)
         \<or> (case es_last_timestamp_micros s of None \<Rightarrow> False
            | Some previous \<Rightarrow> eo_timestamp_micros ob - previous < ec_minimum_sample_interval_micros (es_config s))
      then Inl EN_StaleObservation
      else if \<not> valid_unit_score (eo_quality ob) \<or> fp_lt (eo_quality ob) (ec_minimum_quality (es_config s))
      then Inl EN_InsufficientQuality
      else if \<not> is_finite (eo_yaw_degrees ob) \<or> \<not> fp_in (-90) 90 (eo_yaw_degrees ob)
      then Inl EN_InvalidPose
      else if \<not> eo_passive_liveness_passed ob \<or> \<not> eo_active_liveness_passed ob
      then Inl EN_LivenessRequired
      else if \<not> in_range 32 4096 (length (fe_values (eo_embedding ob)))
      then Inl EN_EmbeddingInvalid
      else Inr ())"

definition cosine_step :: "fp \<Rightarrow> fp \<times> fp \<Rightarrow> EnrollmentError + fp" where
  "cosine_step acc x = (case x of (l, r) \<Rightarrow>
     let s = fp_fma F32 l r acc in if is_finite s then Inr s else Inl EN_EmbeddingInvalid)"

definition mapped_cosine :: "fp list \<Rightarrow> fp list \<Rightarrow> EnrollmentError + fp" where
  "mapped_cosine left right =
     (if length left \<noteq> length right then Inl EN_EmbeddingIncompatible
      else try_bind (try_fold cosine_step (Finite 0) (zip left right)) (\<lambda>cosine.
        Inr (fp_fma F32 (fp_clamp (- 1) 1 cosine) (Finite (1 / 2)) (Finite (1 / 2)))))"

definition consistency_step :: "EnrollmentConfig \<Rightarrow> fp list \<Rightarrow> unit \<Rightarrow> fp list \<Rightarrow> EnrollmentError + unit" where
  "consistency_step c new _ existing =
     try_bind (mapped_cosine existing new) (\<lambda>similarity.
       if fp_lt similarity (ec_minimum_sample_similarity c) then Inl EN_InconsistentIdentity else Inr ())"

text \<open>
  \<open>observe_inner\<close>: the state after it and its answer. The digest and dimension of the first sample are
  kept even if the sample is refused afterwards.
\<close>

definition observe_inner ::
  "EnrollmentSession \<Rightarrow> EnrollmentObservation \<Rightarrow> EnrollmentSession \<times> (EnrollmentError + unit)" where
  "observe_inner s ob =
     (let digest = fe_compatibility_sha256 (eo_embedding ob); new = fe_values (eo_embedding ob) in
      case validate_observation s ob of Inl e \<Rightarrow> (s, Inl e)
      | Inr _ \<Rightarrow>
      if length (es_samples s) \<ge> unat (ec_maximum_samples (es_config s)) then (s, Inl EN_SampleLimitReached)
      else case (case (es_compatibility_sha256 s, es_dimension s) of
            (Some d, Some n) \<Rightarrow> if d \<noteq> digest \<or> n \<noteq> length new then None else Some s
          | _ \<Rightarrow> Some (s\<lparr>es_compatibility_sha256 := Some digest, es_dimension := Some (length new)\<rparr>)) of
        None \<Rightarrow> (s, Inl EN_EmbeddingIncompatible)
      | Some s1 \<Rightarrow>
          (case try_fold (consistency_step (es_config s1) new) () (es_samples s1) of
             Inl e \<Rightarrow> (s1, Inl e)
           | Inr _ \<Rightarrow>
               (s1\<lparr>es_samples := es_samples s1 @ [new],
                   es_sample_qualities := es_sample_qualities s1 @ [eo_quality ob],
                   es_sample_yaws := es_sample_yaws s1 @ [eo_yaw_degrees ob],
                   es_last_timestamp_micros := Some (eo_timestamp_micros ob)\<rparr>, Inr ())))"

definition enrollment_observe ::
  "EnrollmentSession \<Rightarrow> EnrollmentObservation \<Rightarrow> EnrollmentSession \<times> (EnrollmentError + unit)" where
  "enrollment_observe s ob =
     (if es_terminal_failure s then (s, Inl EN_SessionFailed)
      else case observe_inner s ob of
          (s', Inr _) \<Rightarrow> (s', Inr ())
        | (s', Inl e) \<Rightarrow>
            (if is_terminal_observation_failure e then s'\<lparr>es_terminal_failure := True\<rparr> else s', Inl e))"

section \<open>Aggregation\<close>

text \<open>\<open>*sum = value.mul_add(weight, *sum)\<close> over the common prefix of the aggregate and the sample.\<close>

fun add_weighted :: "fp \<Rightarrow> fp list \<Rightarrow> fp list \<Rightarrow> EnrollmentError + fp list" where
  "add_weighted weight (acc # accs) (v # vs) =
     (let s = fp_fma F32 v weight acc in
      if is_finite s then try_bind (add_weighted weight accs vs) (\<lambda>rest. Inr (s # rest)) else Inl EN_AggregateInvalid)"
| "add_weighted weight accs vs = Inr accs"

definition aggregate_step :: "fp list \<times> fp \<Rightarrow> fp list \<times> fp \<Rightarrow> EnrollmentError + fp list \<times> fp" where
  "aggregate_step acc x = (case (acc, x) of ((aggregate, weights), (sample, weight)) \<Rightarrow>
     try_bind (add_weighted weight aggregate sample) (\<lambda>aggregate'. Inr (aggregate', fp_add F32 weights weight)))"

definition norm_step :: "fp \<Rightarrow> fp \<Rightarrow> EnrollmentError + fp" where
  "norm_step acc v = (let s = fp_fma F32 v v acc in if is_finite s then Inr s else Inl EN_AggregateInvalid)"

definition normalize_values :: "fp list \<Rightarrow> EnrollmentError + fp list" where
  "normalize_values vs =
     try_bind (try_fold norm_step (Finite 0) vs) (\<lambda>squared.
     let norm = fp_sqrt F32 squared in
     if \<not> is_finite norm \<or> fp_le norm f32_epsilon then Inl EN_AggregateInvalid
     else let scaled = map (\<lambda>v. fp_div F32 v norm) vs in
       if list_ex (\<lambda>v. \<not> is_finite v) scaled then Inl EN_AggregateInvalid else Inr scaled)"

definition enrollment_finish :: "EnrollmentSession \<Rightarrow> u64 \<Rightarrow> EnrollmentError + TemplateRecord" where
  "enrollment_finish s now =
     (let c = es_config s; n = length (es_samples s) in
      if es_terminal_failure s then Inl EN_SessionFailed
      else if now \<ge> es_deadline_micros s then Inl EN_DeadlineElapsed
      else if n < unat (ec_minimum_samples c) then Inl (EN_InsufficientSamples n (ec_minimum_samples c))
      else if \<not> has_required_pose_coverage s then Inl EN_InsufficientPoseCoverage
      else try_bind (ok_or (es_dimension s) (EN_InsufficientSamples 0 (ec_minimum_samples c))) (\<lambda>dimension.
           try_bind (try_fold aggregate_step (replicate dimension (Finite 0), Finite 0)
             (zip (es_samples s) (es_sample_qualities s))) (\<lambda>(aggregate, total_weight).
           if \<not> is_finite total_weight \<or> fp_le total_weight f32_epsilon then Inl EN_AggregateInvalid
           else try_bind (normalize_values aggregate) (\<lambda>embedding.
                try_bind (ok_or (es_compatibility_sha256 s) EN_AggregateInvalid) (\<lambda>digest.
                let template = \<lparr>tr_schema_version = FORMAT_VERSION, tr_uid = es_uid s,
                    tr_model_compatibility_sha256 = digest, tr_embedding = embedding\<rparr> in
                try_bind (map_err EN_Storage (record_validate template)) (\<lambda>_. Inr template))))))"

section \<open>Authorized enrollment\<close>

datatype EnrollmentBoundaryError = EB_UnauthorizedGrant | EB_Enrollment EnrollmentError

definition begin_authorized_enrollment ::
  "AuthorizationGrant \<Rightarrow> EnrollmentConfig \<Rightarrow> u64 \<Rightarrow> EnrollmentBoundaryError + EnrollmentSession" where
  "begin_authorized_enrollment grant c now =
     try_bind (map_err (\<lambda>_. EB_UnauthorizedGrant) (enrollment_from_grant grant)) (\<lambda>authorization.
     map_err EB_Enrollment (enrollment_start c (ae_target_uid authorization) now))"

text \<open>
  The issuer of enrollment grants, preflighted on the largest UID; the error of the code carries the
  message of the cause.
\<close>

datatype GrantIssuerError =
  GI_NotRoot | GI_Service ServiceNameError | GI_Authorization AuthorizationError | GI_Management ManagementError

definition management_enrollment_grant_issuer ::
  "AuthorizationPolicy \<Rightarrow> PeerIdentity \<Rightarrow> VerifiedExecutable \<Rightarrow> 128 word \<Rightarrow> GrantIssuerError + BoundAuthorizationIssuer" where
  "management_enrollment_grant_issuer policy peer executable random =
     (if peer_uid peer \<noteq> 0 then Inl GI_NotRoot
      else try_bind (map_err GI_Service (service_parse ENROLLMENT_SERVICE)) (\<lambda>name.
      let issuer = \<lparr>issuer_policy = policy, issuer_peer = peer, issuer_executable = executable, issuer_service = name,
            issuer_purpose = Polkit\<rparr> in
      try_bind (map_err GI_Authorization (issue issuer random (- 1))) (\<lambda>probe.
      try_bind (map_err GI_Management (enrollment_from_grant probe)) (\<lambda>_. Inr issuer))))"

section \<open>Facts\<close>

lemma add_weighted_length: "add_weighted w xs vs = Inr ys \<Longrightarrow> length ys = length xs"
  by (induction w xs vs arbitrary: ys rule: add_weighted.induct) (auto simp: result_simps Let_def split: if_splits)

lemma aggregate_step_pair:
  "aggregate_step (xs, t) (v, w) = try_bind (add_weighted w xs v) (\<lambda>ys. Inr (ys, fp_add F32 t w))"
  by (simp add: aggregate_step_def)

lemma aggregate_length:
  "try_fold aggregate_step (xs, t) ss = Inr (ys, u) \<Longrightarrow> length ys = length xs"
proof (induction ss arbitrary: xs t)
  case (Cons x ss)
  obtain v w where x: "x = (v, w)" by (cases x)
  from Cons.prems obtain xs' where "add_weighted w xs v = Inr xs'" "try_fold aggregate_step (xs', fp_add F32 t w) ss = Inr (ys, u)"
    by (auto simp: aggregate_step_pair x result_simps)
  with Cons.IH add_weighted_length show ?case by metis
qed simp

lemma normalize_length: "normalize_values vs = Inr ys \<Longrightarrow> length ys = length vs"
  by (auto simp: normalize_values_def result_simps Let_def split: if_splits)

lemma reduced_in:
  assumes "reduced f xs = Some m" and "\<And>a b. f a b = a \<or> f a b = b"
  shows "m \<in> set xs"
proof -
  have "foldl f x ys \<in> insert x (set ys)" for x ys
  proof (induction ys arbitrary: x)
    case (Cons y ys)
    from Cons.IH [of "f x y"] assms(2) [of x y] show ?case by auto
  qed simp
  with assms(1) show ?thesis by (cases xs) auto
qed

lemma fp_min_choice: "fp_min a b = a \<or> fp_min a b = b" and fp_max_choice: "fp_max a b = a \<or> fp_max a b = b"
  by (simp_all add: fp_min_def fp_max_def)

section \<open>Runs\<close>

text \<open>A run over observations; the second component lists those that were accepted.\<close>

fun enrollment_run ::
  "EnrollmentSession \<Rightarrow> EnrollmentObservation list \<Rightarrow> EnrollmentSession \<times> EnrollmentObservation list" where
  "enrollment_run s [] = (s, [])"
| "enrollment_run s (ob # obs) =
     (let (s', r) = enrollment_observe s ob; (t, acc) = enrollment_run s' obs in (t, if is_ok r then ob # acc else acc))"

abbreviation eo_values :: "EnrollmentObservation \<Rightarrow> fp list" where
  "eo_values ob \<equiv> fe_values (eo_embedding ob)"

abbreviation eo_digest :: "EnrollmentObservation \<Rightarrow> string" where
  "eo_digest ob \<equiv> fe_compatibility_sha256 (eo_embedding ob)"

definition sufficient_quality :: "EnrollmentConfig \<Rightarrow> EnrollmentObservation \<Rightarrow> bool" where
  "sufficient_quality c ob \<longleftrightarrow> valid_unit_score (eo_quality ob) \<and> \<not> fp_lt (eo_quality ob) (ec_minimum_quality c)"

text \<open>An observation on its own: inside the window, good enough, in pose, live, of a bounded dimension.\<close>

definition admissible :: "EnrollmentConfig \<Rightarrow> u64 \<Rightarrow> u64 \<Rightarrow> EnrollmentObservation \<Rightarrow> bool" where
  "admissible c issued deadline ob \<longleftrightarrow>
     issued < eo_timestamp_micros ob \<and> eo_timestamp_micros ob < deadline \<and> sufficient_quality c ob \<and>
     fp_in (- 90) 90 (eo_yaw_degrees ob) \<and> eo_passive_liveness_passed ob \<and> eo_active_liveness_passed ob \<and>
     32 \<le> length (eo_values ob) \<and> length (eo_values ob) \<le> 4096"

text \<open>One after the other: later by at least the interval.\<close>

definition spaced :: "EnrollmentConfig \<Rightarrow> EnrollmentObservation \<Rightarrow> EnrollmentObservation \<Rightarrow> bool" where
  "spaced c a b \<longleftrightarrow> unat (eo_timestamp_micros a) + unat (ec_minimum_sample_interval_micros c) \<le> unat (eo_timestamp_micros b) \<and>
     eo_timestamp_micros a < eo_timestamp_micros b"

text \<open>Of one person, as far as the similarity tells, under one model.\<close>

definition same_person :: "EnrollmentConfig \<Rightarrow> EnrollmentObservation \<Rightarrow> EnrollmentObservation \<Rightarrow> bool" where
  "same_person c a b \<longleftrightarrow> eo_digest a = eo_digest b \<and>
     (\<exists>m. mapped_cosine (eo_values a) (eo_values b) = Inr m \<and> \<not> fp_lt m (ec_minimum_sample_similarity c))"

definition enrollment_inv :: "EnrollmentSession \<Rightarrow> EnrollmentObservation list \<Rightarrow> bool" where
  "enrollment_inv s acc \<longleftrightarrow>
     es_samples s = map eo_values acc \<and> es_sample_qualities s = map eo_quality acc \<and>
     es_sample_yaws s = map eo_yaw_degrees acc \<and>
     length acc \<le> unat (ec_maximum_samples (es_config s)) \<and>
     es_last_timestamp_micros s = (if acc = [] then None else Some (eo_timestamp_micros (last acc))) \<and>
     es_compatibility_sha256 s = (if acc = [] then None else Some (eo_digest (hd acc))) \<and>
     es_dimension s = (if acc = [] then None else Some (length (eo_values (hd acc)))) \<and>
     list_all (admissible (es_config s) (es_issued_at_micros s) (es_deadline_micros s)) acc \<and>
     successively (spaced (es_config s)) acc \<and> sorted_wrt (same_person (es_config s)) acc"

lemma validate_observation_ok:
  "validate_observation s ob = Inr u \<longleftrightarrow>
     admissible (es_config s) (es_issued_at_micros s) (es_deadline_micros s) ob \<and>
     (case es_last_timestamp_micros s of None \<Rightarrow> True
      | Some l \<Rightarrow> l < eo_timestamp_micros ob \<and>
          unat l + unat (ec_minimum_sample_interval_micros (es_config s)) \<le> unat (eo_timestamp_micros ob))"
proof -
  have sub: "(t - l < i) = (unat t < unat l + unat i)" if "l < t" for t l i :: u64
    using that by (simp add: word_less_nat_alt unat_sub_if_size) linarith
  note defs = validate_observation_def admissible_def sufficient_quality_def valid_unit_score_def in_range_def
  show ?thesis
  proof (cases "es_last_timestamp_micros s")
    case None
    then show ?thesis by (auto simp: defs not_le not_less fp_in_finite)
  next
    case (Some l)
    then show ?thesis
      by (cases "l < eo_timestamp_micros ob") (auto simp: defs not_le not_less sub fp_in_finite)
  qed
qed

lemma consistency_ok:
  "try_fold (consistency_step c new) () ss = Inr u \<longleftrightarrow>
     list_all (\<lambda>v. \<exists>m. mapped_cosine v new = Inr m \<and> \<not> fp_lt m (ec_minimum_sample_similarity c)) ss"
  by (induction ss) (auto simp: consistency_step_def result_simps split: if_splits)

lemma observe_frame:
  "enrollment_observe s ob = (s', r) \<Longrightarrow> es_config s' = es_config s \<and> es_uid s' = es_uid s \<and>
     es_issued_at_micros s' = es_issued_at_micros s \<and> es_deadline_micros s' = es_deadline_micros s"
  by (auto simp: enrollment_observe_def observe_inner_def Let_def split: if_splits sum.splits option.splits prod.splits)

text \<open>An accepted observation extends the history; a refused one leaves the sample set alone.\<close>

lemma observe_inner_accepted:
  assumes "observe_inner s ob = (s', Inr u)" and inv: "enrollment_inv s acc"
  shows "enrollment_inv s' (acc @ [ob]) \<and> es_terminal_failure s' = es_terminal_failure s"
proof -
  let ?new = "eo_values ob"
  have valid: "validate_observation s ob = Inr ()" and room: "length acc < unat (ec_maximum_samples (es_config s))"
    using assms by (auto simp: observe_inner_def enrollment_inv_def Let_def split: sum.splits if_splits option.splits)
  show ?thesis
  proof (cases "acc = []")
    case True
    then have "s' = s\<lparr>es_compatibility_sha256 := Some (eo_digest ob), es_dimension := Some (length ?new), es_samples := [?new],
        es_sample_qualities := [eo_quality ob], es_sample_yaws := [eo_yaw_degrees ob],
        es_last_timestamp_micros := Some (eo_timestamp_micros ob)\<rparr>"
      using assms valid room by (auto simp: observe_inner_def enrollment_inv_def Let_def)
    then show ?thesis using inv valid room True by (auto simp: enrollment_inv_def validate_observation_ok)
  next
    case False
    then have known: "es_compatibility_sha256 s = Some (eo_digest (hd acc))" "es_dimension s = Some (length (eo_values (hd acc)))"
        "es_last_timestamp_micros s = Some (eo_timestamp_micros (last acc))" "es_samples s = map eo_values acc"
      using inv by (auto simp: enrollment_inv_def)
    have same: "eo_digest (hd acc) = eo_digest ob" "length (eo_values (hd acc)) = length ?new"
      using assms valid room known by (auto simp: observe_inner_def Let_def split: if_splits)
    then have fold: "try_fold (consistency_step (es_config s) ?new) () (es_samples s) = Inr ()"
      using assms valid room known by (auto simp: observe_inner_def Let_def split: if_splits sum.splits)
    have s': "s' = s\<lparr>es_samples := map eo_values acc @ [?new],
        es_sample_qualities := es_sample_qualities s @ [eo_quality ob], es_sample_yaws := es_sample_yaws s @ [eo_yaw_degrees ob],
        es_last_timestamp_micros := Some (eo_timestamp_micros ob)\<rparr>"
      using assms valid room known same fold by (auto simp: observe_inner_def Let_def)
    have "eo_digest a = eo_digest ob" if "a \<in> set acc" for a
    proof (cases acc)
      case (Cons b bs)
      with that inv same(1) show ?thesis by (auto simp: enrollment_inv_def same_person_def)
    qed (use that in simp)
    then have "list_all (\<lambda>a. same_person (es_config s) a ob) acc"
      using fold known(4) by (auto simp: consistency_ok list_all_iff same_person_def)
    moreover have "spaced (es_config s) (last acc) ob"
      using valid known(3) by (simp add: validate_observation_ok spaced_def)
    ultimately show ?thesis
      using inv valid room False s'
      by (auto simp: enrollment_inv_def validate_observation_ok successively_append_iff sorted_wrt_append list_all_iff)
  qed
qed

lemma observe_inner_refused:
  assumes "observe_inner s ob = (s', Inl e)" and "enrollment_inv s acc"
  shows "s' = s \<and> (e = EN_InsufficientQuality \<longrightarrow> \<not> sufficient_quality (es_config s) ob)"
proof (cases "validate_observation s ob")
  case (Inl e')
  then show ?thesis
    using assms(1) by (auto simp: observe_inner_def validate_observation_def sufficient_quality_def Let_def split: if_splits)
next
  case (Inr u)
  then show ?thesis
  proof (cases "acc = []")
    case True
    then show ?thesis using assms Inr
      by (auto simp: observe_inner_def enrollment_inv_def Let_def split: if_splits)
  next
    case False
    have "\<not> (\<exists>v m. mapped_cosine v m = Inl EN_InsufficientQuality)"
    proof -
      have "try_fold cosine_step t xs \<noteq> Inl EN_InsufficientQuality" for t xs
        by (induction xs arbitrary: t) (auto simp: cosine_step_def result_simps Let_def split: prod.splits if_splits)
      then show ?thesis by (auto simp: mapped_cosine_def result_simps)
    qed
    then have "try_fold (consistency_step c w) () vs \<noteq> Inl EN_InsufficientQuality" for c w vs
      by (induction vs) (auto simp: consistency_step_def result_simps split: if_splits)
    with False assms Inr show ?thesis
      by (auto simp: observe_inner_def enrollment_inv_def Let_def split: if_splits sum.splits)
  qed
qed

text \<open>
  While no failure is terminal, exactly the observations of sufficient quality are accepted; after a
  terminal failure nothing is.
\<close>

lemma enrollment_observe_inv:
  assumes "enrollment_observe s ob = (s', r)" and inv: "enrollment_inv s acc"
  shows "enrollment_inv s' (if is_ok r then acc @ [ob] else acc) \<and>
    (\<not> es_terminal_failure s' \<longrightarrow> \<not> es_terminal_failure s \<and> is_ok r = sufficient_quality (es_config s) ob) \<and>
    (es_terminal_failure s \<longrightarrow> es_terminal_failure s')"
proof (cases "es_terminal_failure s")
  case True
  then show ?thesis using assms by (auto simp: enrollment_observe_def)
next
  case False
  obtain t q where q: "observe_inner s ob = (t, q)" by fastforce
  show ?thesis
  proof (cases q)
    case (Inl e)
    note refused = observe_inner_refused [OF q [unfolded Inl] inv]
    have "enrollment_inv (s\<lparr>es_terminal_failure := True\<rparr>) acc" using inv by (simp add: enrollment_inv_def)
    with refused inv False q Inl assms(1) show ?thesis
      by (auto simp: enrollment_observe_def is_terminal_observation_failure_def split: if_splits)
  next
    case (Inr u)
    note accepted = observe_inner_accepted [OF q [unfolded Inr] inv]
    have "es_config t = es_config s" using observe_frame [of s ob t "Inr ()"] False q Inr by (simp add: enrollment_observe_def)
    moreover have "sufficient_quality (es_config t) ob" using accepted by (simp add: enrollment_inv_def admissible_def)
    ultimately show ?thesis using accepted False q Inr assms(1) by (auto simp: enrollment_observe_def)
  qed
qed

lemma enrollment_run_inv:
  "enrollment_run s obs = (t, acc') \<Longrightarrow> enrollment_inv s acc \<Longrightarrow>
     enrollment_inv t (acc @ acc') \<and> es_config t = es_config s \<and> es_uid t = es_uid s \<and>
     es_issued_at_micros t = es_issued_at_micros s \<and> es_deadline_micros t = es_deadline_micros s \<and>
     (\<not> es_terminal_failure t \<longrightarrow> acc' = filter (sufficient_quality (es_config s)) obs) \<and>
     (es_terminal_failure s \<longrightarrow> es_terminal_failure t)"
proof (induction obs arbitrary: s acc acc')
  case (Cons ob obs)
  obtain s' r where r: "enrollment_observe s ob = (s', r)" by fastforce
  obtain acc2 where run: "enrollment_run s' obs = (t, acc2)" and acc': "acc' = (if is_ok r then ob # acc2 else acc2)"
    using Cons.prems(1) by (auto simp: r Let_def split: prod.splits)
  note here = enrollment_observe_inv [OF r Cons.prems(2)] observe_frame [OF r]
  from Cons.IH [OF run conjunct1 [OF here(1)]] here acc' show ?case by (auto split: if_splits)
qed simp

lemma enrollment_start_inv:
  assumes "enrollment_start c uid issued = Inr s"
  shows "enrollment_inv s [] \<and> enrollment_config_validate c = Inr () \<and> es_config s = c \<and> es_uid s = uid \<and>
    es_issued_at_micros s = issued \<and> unat (es_deadline_micros s) = unat issued + unat (ec_duration_micros c) \<and>
    \<not> es_terminal_failure s"
  using assms by (auto simp: enrollment_start_def result_simps enrollment_inv_def checked_simps unat_add_lt)

lemma finish_ok:
  assumes "enrollment_finish s now = Inr template" and inv: "enrollment_inv s acc"
  shows "\<not> es_terminal_failure s \<and> now < es_deadline_micros s \<and> unat (ec_minimum_samples (es_config s)) \<le> length acc \<and>
    tr_uid template = es_uid s \<and> record_validate template = Inr () \<and>
    (acc \<noteq> [] \<longrightarrow> tr_model_compatibility_sha256 template = eo_digest (hd acc) \<and>
       length (tr_embedding template) = length (eo_values (hd acc))) \<and>
    (\<exists>a \<in> set acc. \<exists>b \<in> set acc.
       fp_le (ec_minimum_yaw_span_degrees (es_config s)) (fp_sub F32 (eo_yaw_degrees b) (eo_yaw_degrees a)))"
proof -
  from assms(1) obtain dimension aggregate weights embedding digest where
    f: "\<not> es_terminal_failure s" "now < es_deadline_micros s" "unat (ec_minimum_samples (es_config s)) \<le> length (es_samples s)"
      "has_required_pose_coverage s" "es_dimension s = Some dimension"
      "try_fold aggregate_step (replicate dimension (Finite 0), Finite 0) (zip (es_samples s) (es_sample_qualities s)) =
         Inr (aggregate, weights)"
      "normalize_values aggregate = Inr embedding" "es_compatibility_sha256 s = Some digest"
    and t: "template = \<lparr>tr_schema_version = FORMAT_VERSION, tr_uid = es_uid s, tr_model_compatibility_sha256 = digest,
      tr_embedding = embedding\<rparr>" "record_validate template = Inr ()"
    by (auto simp: enrollment_finish_def result_simps Let_def not_le not_less split: if_splits)
  have "length embedding = dimension"
    using aggregate_length [OF f(6)] normalize_length [OF f(7)] by simp
  moreover obtain lo hi where "reduced fp_min (map eo_yaw_degrees acc) = Some lo" "reduced fp_max (map eo_yaw_degrees acc) = Some hi"
      "fp_le (ec_minimum_yaw_span_degrees (es_config s)) (fp_sub F32 hi lo)"
    using f(4) inv by (auto simp: has_required_pose_coverage_def enrollment_inv_def split: option.splits)
  moreover from this have "lo \<in> set (map eo_yaw_degrees acc)" "hi \<in> set (map eo_yaw_degrees acc)"
    using reduced_in [OF _ fp_min_choice] reduced_in [OF _ fp_max_choice] by blast+
  ultimately show ?thesis using f t inv by (auto simp: enrollment_inv_def split: if_splits)
qed

section \<open>Properties\<close>

text \<open>
  C16. What a template rests on. If a transaction that was started for a UID and shown any observations
  gives a template, then the template is of that UID and valid for the store; the transaction ended before
  its deadline; the accepted observations are exactly those of sufficient quality (any other refusal
  would have closed the transaction), between the minimum and the maximum in number; each is live in
  both ways, inside the window, in pose and of a bounded dimension; each comes at least the configured
  interval after the one before; any two agree in the model and are as similar as configured; and two
  of them span the configured yaw.
\<close>

theorem enrollment_provenance:
  assumes "enrollment_start c uid issued = Inr s0" and "enrollment_run s0 obs = (s, acc)"
    and "enrollment_finish s now = Inr template"
  shows "tr_uid template = uid \<and> record_validate template = Inr () \<and>
    unat now < unat issued + unat (ec_duration_micros c) \<and>
    acc = filter (sufficient_quality c) obs \<and>
    unat (ec_minimum_samples c) \<le> length acc \<and> length acc \<le> unat (ec_maximum_samples c) \<and>
    list_all (admissible c issued (es_deadline_micros s)) acc \<and> successively (spaced c) acc \<and> sorted_wrt (same_person c) acc \<and>
    list_all (\<lambda>ob. eo_digest ob = tr_model_compatibility_sha256 template) acc \<and>
    list_ex (\<lambda>a. list_ex (\<lambda>b. fp_le (ec_minimum_yaw_span_degrees c) (fp_sub F32 (eo_yaw_degrees b) (eo_yaw_degrees a))) acc) acc"
proof -
  note start = enrollment_start_inv [OF assms(1)]
  note run = enrollment_run_inv [OF assms(2) conjunct1 [OF start], simplified]
  have inv: "enrollment_inv s acc" using run by simp
  note fin = finish_ok [OF assms(3) inv]
  have "list_all (\<lambda>ob. eo_digest ob = tr_model_compatibility_sha256 template) acc"
  proof (cases acc)
    case (Cons b bs)
    with inv fin show ?thesis by (auto simp: enrollment_inv_def same_person_def list_all_iff)
  qed simp
  moreover have "unat now < unat issued + unat (ec_duration_micros c)"
    using fin start run by (simp add: word_less_nat_alt)
  ultimately show ?thesis
    using fin run start inv by (auto simp: enrollment_inv_def list_ex_iff)
qed

text \<open>
  A closed transaction stays closed: any refusal but that of a poor picture closes it, and from then
  on every observation and the end of the transaction are refused, so no template can come of it.
\<close>

theorem enrollment_fails_closed:
  "case enrollment_observe s ob of (s', r) \<Rightarrow>
     (if r = Inr () \<or> r = Inl EN_InsufficientQuality then es_terminal_failure s' = es_terminal_failure s else es_terminal_failure s') \<and>
     (if es_terminal_failure s' then enrollment_run s' obs = (s', []) \<and> enrollment_finish s' now = Inl EN_SessionFailed
      else True)"
proof -
  obtain s' r where r: "enrollment_observe s ob = (s', r)" by fastforce
  have closed: "enrollment_run t obs = (t, [])" if "es_terminal_failure t" for t
    using that by (induction obs) (simp_all add: enrollment_observe_def)
  have "es_terminal_failure (fst (observe_inner s ob)) = es_terminal_failure s"
    by (auto simp: observe_inner_def Let_def split: sum.splits option.splits if_splits)
  then show ?thesis
    using r closed [of s']
    by (auto simp: enrollment_observe_def is_terminal_observation_failure_def enrollment_finish_def split: prod.splits sum.splits if_splits)
qed

text \<open>
  The preflight decides: an issuer exists only for a root peer whose policy lets it enroll, and
  then every grant it is asked for, for any UID, is issued and starts an enrollment of that UID.
\<close>

theorem grant_issuer_total:
  assumes "management_enrollment_grant_issuer policy peer executable random = Inr issuer"
  shows "peer_uid peer = 0 \<and>
    (\<exists>g. issue issuer random' uid = Inr g \<and> grant_target_uid g = uid \<and>
       begin_authorized_enrollment g c now = map_err EB_Enrollment (enrollment_start c uid now))"
proof -
  from assms obtain name probe where i: "peer_uid peer = 0" "service_parse ENROLLMENT_SERVICE = Inr name"
      "issuer = \<lparr>issuer_policy = policy, issuer_peer = peer, issuer_executable = executable, issuer_service = name,
         issuer_purpose = Polkit\<rparr>"
      "issue issuer random (- 1) = Inr probe"
    by (auto simp: management_enrollment_grant_issuer_def result_simps Let_def split: if_splits)
  have name: "name = ServiceName ''faceauth-enroll''"
    using i(2) by (simp add: service_parse_def ENROLLMENT_SERVICE_def split: if_splits)
  have caller: "caller_accepts rel 0 t = (rel \<noteq> TargetUser \<or> t = 0)" for rel t by (cases rel) auto
  have "(- 1 :: u32) \<noteq> 0" by simp
  with i obtain g where "issue issuer random' uid = Inr g" "grant_target_uid g = uid" "grant_peer g = peer"
      "grant_service g = name" "grant_purpose g = Polkit"
    by (auto simp: issue_def authorize_def result_simps caller split: if_splits)
  then show ?thesis
    using i(1) name by (simp add: begin_authorized_enrollment_def enrollment_from_grant_def ENROLLMENT_SERVICE_def)
qed

section \<open>Examples\<close>

definition ex_enrollment_config :: EnrollmentConfig where
  "ex_enrollment_config = \<lparr>ec_duration_micros = 5000000, ec_minimum_samples = 3, ec_maximum_samples = 4,
     ec_minimum_quality = Finite 0, ec_minimum_sample_similarity = Finite 1, ec_minimum_sample_interval_micros = 50000,
     ec_minimum_yaw_span_degrees = Finite 5\<rparr>"

definition ex_sample :: "u64 \<Rightarrow> fp \<Rightarrow> fp \<Rightarrow> EnrollmentObservation" where
  "ex_sample t q yaw = \<lparr>eo_embedding = ex_embedding, eo_quality = q, eo_passive_liveness_passed = True,
     eo_active_liveness_passed = True, eo_timestamp_micros = t, eo_yaw_degrees = yaw\<rparr>"

definition ex_blurred :: EnrollmentObservation where
  "ex_blurred = ex_sample 150000 (Finite (- 1)) (Finite 0)"

definition ex_samples :: "EnrollmentObservation list" where
  "ex_samples = [ex_sample 100000 (Finite 1) (Finite 0), ex_blurred, ex_sample 200000 (Finite 0) (Finite 10),
     ex_sample 300000 (Finite 0) (Finite 0)]"

definition ex_fresh_enrollment :: EnrollmentSession where
  "ex_fresh_enrollment = \<lparr>es_config = ex_enrollment_config, es_uid = 1000, es_issued_at_micros = 0, es_deadline_micros = 5000000,
     es_last_timestamp_micros = None, es_compatibility_sha256 = None, es_dimension = None, es_samples = [],
     es_sample_qualities = [], es_sample_yaws = [], es_terminal_failure = False\<rparr>"

lemma ex_enrollment_start: "enrollment_start ex_enrollment_config 1000 0 = Inr ex_fresh_enrollment"
  by (simp add: enrollment_start_def enrollment_config_validate_def ex_enrollment_config_def in_range_def MAX_ENROLLMENT_SAMPLES_def
      valid_unit_score_def fp_in_def checked_add_def ex_fresh_enrollment_def)

definition ex_full_enrollment :: EnrollmentSession where
  "ex_full_enrollment = ex_fresh_enrollment\<lparr>es_last_timestamp_micros := Some 300000,
     es_compatibility_sha256 := Some ex_digest, es_dimension := Some 32,
     es_samples := [fe_values ex_embedding, fe_values ex_embedding, fe_values ex_embedding],
     es_sample_qualities := [Finite 1, Finite 0, Finite 0],
     es_sample_yaws := [Finite 0, Finite 10, Finite 0]\<rparr>"

lemma ex_mapped_cosine: "mapped_cosine (fe_values ex_embedding) (fe_values ex_embedding) = Inr (Finite 1)"
  by (simp add: mapped_cosine_def ex_embedding_def cosine_step_def try_fold_replicate zip_replicate fp_clamp_def Let_def)

lemma ex_enrollment_run:
  "enrollment_run ex_fresh_enrollment ex_samples =
     (ex_full_enrollment, [ex_sample 100000 (Finite 1) (Finite 0), ex_sample 200000 (Finite 0) (Finite 10),
       ex_sample 300000 (Finite 0) (Finite 0)])"
proof -
  have len: "length (fe_values ex_embedding) = 32" "fe_compatibility_sha256 ex_embedding = ex_digest"
    by (simp_all add: ex_embedding_def)
  show ?thesis
    by (simp add: ex_samples_def ex_blurred_def ex_sample_def ex_fresh_enrollment_def enrollment_observe_def observe_inner_def
        validate_observation_def is_terminal_observation_failure_def ex_enrollment_config_def valid_unit_score_def fp_in_def
        in_range_def consistency_step_def ex_mapped_cosine len ex_full_enrollment_def Let_def)
qed

lemma ex_enrollment_finish:
  "enrollment_finish ex_full_enrollment 400000 = Inr (template_from_embedding 1000 ex_embedding)"
proof -
  have ten: "rnd F32 10 = Finite 10" using rnd_of_nat_small [of 10 F32] by simp
  have cover: "has_required_pose_coverage ex_full_enrollment"
    by (simp add: has_required_pose_coverage_def ex_full_enrollment_def ex_fresh_enrollment_def ex_enrollment_config_def
        fp_min_def fp_max_def fp_sub_def ten)
  have vals: "fe_values ex_embedding = Finite 1 # replicate 31 (Finite 0)" by (simp add: ex_embedding_def)
  have add: "add_weighted w (replicate n (Finite 0)) (replicate n (Finite 0)) = Inr (replicate n (Finite 0))"
    if "is_finite w" for w n
    using that by (induction n) (auto simp: Let_def elim!: is_finiteE)
  have norm: "normalize_values (Finite 1 # replicate 31 (Finite 0)) = Inr (Finite 1 # replicate 31 (Finite 0))"
    by (simp add: normalize_values_def norm_step_def try_fold_replicate fp_sqrt_1 f32_epsilon_def list_ex_iff Let_def del: fp_sqrt.simps)
  have zeros: "replicate 32 (Finite 0) = Finite 0 # replicate 31 (Finite 0)"
    by (simp add: numeral_eq_Suc)
  have step: "aggregate_step (replicate 32 (Finite 0), Finite 0) (fe_values ex_embedding, Finite 1) =
      Inr (fe_values ex_embedding, Finite 1)"
    "aggregate_step (fe_values ex_embedding, Finite 1) (fe_values ex_embedding, Finite 0) = Inr (fe_values ex_embedding, Finite 1)"
    by (simp_all add: aggregate_step_pair vals zeros add Let_def)
  have fields: "es_terminal_failure ex_full_enrollment = False" "es_deadline_micros ex_full_enrollment = 5000000"
    "es_samples ex_full_enrollment = [fe_values ex_embedding, fe_values ex_embedding, fe_values ex_embedding]"
    "es_sample_qualities ex_full_enrollment = [Finite 1, Finite 0, Finite 0]" "es_dimension ex_full_enrollment = Some 32"
    "es_compatibility_sha256 ex_full_enrollment = Some ex_digest" "es_uid ex_full_enrollment = 1000"
    "ec_minimum_samples (es_config ex_full_enrollment) = 3"
    by (simp_all add: ex_full_enrollment_def ex_fresh_enrollment_def ex_enrollment_config_def)
  have digest: "fe_compatibility_sha256 ex_embedding = ex_digest" by (simp add: ex_embedding_def)
  show ?thesis
    using ex_template_valid [of 1000]
    by (simp add: enrollment_finish_def cover fields step [unfolded vals] norm vals f32_epsilon_def template_from_embedding_def digest
        Let_def map_err_def)
qed

theorem enrollment_provenance_witness:
  "tr_uid (template_from_embedding 1000 ex_embedding) = 1000 \<and>
    [ex_sample 100000 (Finite 1) (Finite 0), ex_sample 200000 (Finite 0) (Finite 10), ex_sample 300000 (Finite 0) (Finite 0)] =
      filter (sufficient_quality ex_enrollment_config) ex_samples"
  using enrollment_provenance [OF ex_enrollment_start ex_enrollment_run ex_enrollment_finish] by blast

definition ex_root :: PeerIdentity where
  "ex_root = \<lparr>peer_pid = 7, peer_uid = 0, peer_gid = 0\<rparr>"

definition ex_management_executable :: VerifiedExecutable where
  "ex_management_executable = \<lparr>fingerprint = \<lparr>device = 1, inode = 2\<rparr>\<rparr>"

definition ex_management_policy :: AuthorizationPolicy where
  "ex_management_policy = \<lparr>rules = [\<lparr>rule_service = ServiceName ''faceauth-enroll'', rule_purpose = Polkit,
     rule_caller = RootOnly, rule_executables = [\<lparr>device = 1, inode = 2\<rparr>]\<rparr>]\<rparr>"

lemma ex_grant_issuer:
  "management_enrollment_grant_issuer ex_management_policy ex_root ex_management_executable 7 =
     Inr \<lparr>issuer_policy = ex_management_policy, issuer_peer = ex_root, issuer_executable = ex_management_executable,
       issuer_service = ServiceName ''faceauth-enroll'', issuer_purpose = Polkit\<rparr>"
  by (simp add: management_enrollment_grant_issuer_def ex_management_policy_def ex_root_def ex_management_executable_def
      service_parse_def ENROLLMENT_SERVICE_def issue_def authorize_def enrollment_from_grant_def Let_def
      MAX_SERVICE_NAME_LENGTH_def service_byte_allowed_def Protocol.is_ascii_alphanumeric_def)

theorem grant_issuer_total_witness:
  "peer_uid ex_root = 0 \<and>
    (\<exists>g. issue \<lparr>issuer_policy = ex_management_policy, issuer_peer = ex_root, issuer_executable = ex_management_executable,
         issuer_service = ServiceName ''faceauth-enroll'', issuer_purpose = Polkit\<rparr> 8 1000 = Inr g \<and>
       grant_target_uid g = 1000)"
  using grant_issuer_total [OF ex_grant_issuer, of 8 1000] by blast

end
