(* ===== verification/Manager.thy ===== *)
theory Manager
  imports Management Storage
begin

text \<open>
  The bus service of the management contract (\<open>crates/faceauth-management-dbus/src/lib.rs\<close>): the worker
  for template state, the composition of caller identity, policy and grants, the state of Manager1 behind
  its mutex, its methods, the cancellation of disconnected senders, and the service loop. The bus, the
  policy service, the clock, and what other threads do between two critical sections are arguments; so
  are the text forms of UUIDs and the validity of unique bus names, which are the library's.
\<close>

section \<open>Errors\<close>

type_synonym BackendError = string

text \<open>The texts of \<open>ManagementError\<close> and \<open>AuthorizationError\<close>.\<close>

fun management_error_text :: "ManagementError \<Rightarrow> string" where
  "management_error_text ME_Unauthorized = ''management enrollment authorization is invalid''"
| "management_error_text ME_InvalidConfig = ''management operation configuration is invalid''"
| "management_error_text ME_DeadlineOverflow = ''management operation deadline overflowed''"
| "management_error_text ME_Busy = ''management operation capacity is busy''"
| "management_error_text ME_NoActiveOperation = ''no management operation is active''"
| "management_error_text ME_WrongUid = ''management operation belongs to another UID''"
| "management_error_text ME_WrongOperation = ''management operation identifier does not match''"
| "management_error_text ME_InvalidOperationId = ''management operation identifier is invalid''"
| "management_error_text ME_ReservedResult = ''cancelled and timed-out management results are reserved''"

fun authorization_error_text :: "AuthorizationError \<Rightarrow> string" where
  "authorization_error_text AE_ServiceNotAllowed = ''authentication service or purpose is not allowed''"
| "authorization_error_text (AE_PeerTargetMismatch p t) =
     ''peer UID '' @ decimal (unat p) @ '' cannot authenticate target UID '' @ decimal (unat t)"
| "authorization_error_text AE_ExecutableEvidenceRequired = ''verified caller executable evidence is required''"
| "authorization_error_text AE_ExecutableNotAllowed = ''caller executable is not allowed for this service and purpose''"

datatype FdoError =
  FE_AccessDenied string
| FE_Failed string
| FE_LimitsExceeded string
| FE_InvalidArgs string
| FE_ZBus string

definition map_backend_error :: "BackendError \<Rightarrow> FdoError" where
  "map_backend_error e = FE_AccessDenied e"

definition lock_error :: FdoError where
  "lock_error = FE_Failed ''management coordinator lock is poisoned''"

definition map_management_error :: "ManagementError \<Rightarrow> FdoError" where
  "map_management_error e =
     (let t = management_error_text e in
      if e \<in> {ME_Unauthorized, ME_WrongUid} then FE_AccessDenied t
      else if e = ME_Busy then FE_LimitsExceeded t
      else if e \<in> {ME_InvalidOperationId, ME_NoActiveOperation, ME_WrongOperation, ME_ReservedResult} then FE_InvalidArgs t
      else FE_Failed t)"

datatype WorkerError =
  WE_Management ManagementError
| WE_CoordinatorPoisoned
| WE_Controller string

fun worker_error_text :: "WorkerError \<Rightarrow> string" where
  "worker_error_text (WE_Management e) = management_error_text e"
| "worker_error_text WE_CoordinatorPoisoned = ''management coordinator lock is poisoned''"
| "worker_error_text (WE_Controller e) = ''enrollment worker controller failed: '' @ e"

definition unique_sender :: "(string \<Rightarrow> bool) \<Rightarrow> string \<Rightarrow> BackendError + string" where
  "unique_sender unique sender =
     (if unique sender then Inr sender else Inl ''D-Bus sender is not a unique name'')"

section \<open>Template state\<close>

definition MAX_TEMPLATE_STATE_QUEUE_CAPACITY :: nat where
  "MAX_TEMPLATE_STATE_QUEUE_CAPACITY = 64"

text \<open>The second argument of a query stands for its response channel.\<close>

datatype TemplateStateRequest = TS_Query u32 nat | TS_Shutdown

text \<open>\<open>ss_worker\<close>: the worker still receives. The responses it has sent are kept in order.\<close>

record BoundedEnrollmentStateSource =
  ss_capacity :: nat
  ss_queue :: "TemplateStateRequest list"
  ss_worker :: bool
  ss_responses :: "(nat \<times> (BackendError + bool)) list"

definition state_source_new :: "nat \<Rightarrow> string + unit \<Rightarrow> BackendError + BoundedEnrollmentStateSource" where
  "state_source_new capacity spawned =
     (if capacity = 0 \<or> capacity > MAX_TEMPLATE_STATE_QUEUE_CAPACITY
      then Inl ''template state queue capacity is invalid''
      else try_bind (map_err (\<lambda>e. ''unable to start template state worker: '' @ e) spawned) (\<lambda>_.
        Inr \<lparr>ss_capacity = capacity, ss_queue = [], ss_worker = True, ss_responses = []\<rparr>))"

definition state_source_query ::
  "BoundedEnrollmentStateSource \<Rightarrow> u32 \<Rightarrow> nat \<Rightarrow> BoundedEnrollmentStateSource \<times> (BackendError + nat)" where
  "state_source_query s uid response =
     (if \<not> ss_worker s \<or> length (ss_queue s) \<ge> ss_capacity s
      then (s, Inl ''template state worker queue is unavailable or full'')
      else (s\<lparr>ss_queue := ss_queue s @ [TS_Query uid response]\<rparr>, Inr response))"

text \<open>What the future of a query gives once it is ready.\<close>

definition state_source_await :: "BoundedEnrollmentStateSource \<Rightarrow> nat \<Rightarrow> BackendError + bool" where
  "state_source_await s response =
     (case map_of (ss_responses s) response of Some r \<Rightarrow> r | None \<Rightarrow> Inl ''template state worker stopped'')"

text \<open>The worker over the requests it receives until the channel is closed; the responses in order.\<close>

fun template_state_worker :: "(u32 \<Rightarrow> BackendError + bool) \<Rightarrow> TemplateStateRequest list \<Rightarrow> (nat \<times> (BackendError + bool)) list" where
  "template_state_worker reader [] = []"
| "template_state_worker reader (TS_Query uid response # rest) = (response, reader uid) # template_state_worker reader rest"
| "template_state_worker reader (TS_Shutdown # rest) = []"

text \<open>The worker takes one request.\<close>

definition state_worker_turn ::
  "(u32 \<Rightarrow> BackendError + bool) \<Rightarrow> BoundedEnrollmentStateSource \<Rightarrow> BoundedEnrollmentStateSource" where
  "state_worker_turn reader s =
     (case ss_queue s of
        TS_Query uid response # rest \<Rightarrow>
          if ss_worker s then s\<lparr>ss_queue := rest, ss_responses := ss_responses s @ [(response, reader uid)]\<rparr> else s
      | TS_Shutdown # rest \<Rightarrow> if ss_worker s then s\<lparr>ss_queue := rest, ss_worker := False\<rparr> else s
      | [] \<Rightarrow> s)"

text \<open>Dropping the source sends the shutdown, waiting for room, and joins the worker.\<close>

definition state_source_drop ::
  "(u32 \<Rightarrow> BackendError + bool) \<Rightarrow> BoundedEnrollmentStateSource \<Rightarrow> BoundedEnrollmentStateSource" where
  "state_source_drop reader s =
     s\<lparr>ss_queue := [], ss_worker := False,
       ss_responses := ss_responses s @
         (if ss_worker s then template_state_worker reader (ss_queue s @ [TS_Shutdown]) else [])\<rparr>"

section \<open>Identity, policy and grants\<close>

definition ENROLLMENT_POLKIT_ACTION :: string where
  "ENROLLMENT_POLKIT_ACTION = ''org.faceauth.enroll''"

definition POLKIT_SUBJECT_SYSTEM_BUS_NAME :: string where
  "POLKIT_SUBJECT_SYSTEM_BUS_NAME = ''system-bus-name''"

definition POLKIT_ALLOW_USER_INTERACTION :: u32 where
  "POLKIT_ALLOW_USER_INTERACTION = 1"

text \<open>
  The answers of the bus and of the policy service to one call: the proxies, the user of a name, and
  the decision on a subject of a kind and name, an action and flags.
\<close>

record BusAnswers =
  ba_proxy :: "string + unit"
  ba_unix_user :: "string \<Rightarrow> string + u32"
  ba_authority_proxy :: "string + unit"
  ba_check :: "string \<Rightarrow> string \<Rightarrow> string \<Rightarrow> u32 \<Rightarrow> string + bool"

definition bus_caller_uid :: "(string \<Rightarrow> bool) \<Rightarrow> BusAnswers \<Rightarrow> string \<Rightarrow> BackendError + u32" where
  "bus_caller_uid unique b sender =
     try_bind (unique_sender unique sender) (\<lambda>s.
     try_bind (map_err (\<lambda>e. ''unable to create D-Bus proxy: '' @ e) (ba_proxy b)) (\<lambda>_.
     map_err (\<lambda>e. ''unable to resolve D-Bus sender UID: '' @ e) (ba_unix_user b s)))"

definition bus_authorize_enrollment :: "(string \<Rightarrow> bool) \<Rightarrow> BusAnswers \<Rightarrow> string \<Rightarrow> BackendError + unit" where
  "bus_authorize_enrollment unique b sender =
     try_bind (unique_sender unique sender) (\<lambda>s.
     try_bind (map_err (\<lambda>e. ''unable to create PolicyKit authority proxy: '' @ e) (ba_authority_proxy b)) (\<lambda>_.
     try_bind (map_err (\<lambda>e. ''PolicyKit authorization failed: '' @ e)
         (ba_check b POLKIT_SUBJECT_SYSTEM_BUS_NAME s ENROLLMENT_POLKIT_ACTION POLKIT_ALLOW_USER_INTERACTION)) (\<lambda>authorized.
     if authorized then Inr () else Inl ''PolicyKit denied enrollment authorization'')))"

definition issue_grant ::
  "(string \<Rightarrow> bool) \<Rightarrow> BoundAuthorizationIssuer \<Rightarrow> 128 word \<Rightarrow> string \<Rightarrow> u32 \<Rightarrow> BackendError + AuthorizationGrant" where
  "issue_grant unique issuer random sender uid =
     try_bind (unique_sender unique sender) (\<lambda>_.
     try_bind (map_err authorization_error_text (issue issuer random uid)) (\<lambda>grant.
     try_bind (map_err management_error_text (enrollment_from_grant grant)) (\<lambda>_.
     Inr grant)))"

text \<open>
  The trait objects. A call of \<open>caller_uid\<close> is numbered, because the bus may answer two calls differently.
\<close>

record SystemAuthority =
  au_caller_uid :: "nat \<Rightarrow> string \<Rightarrow> BackendError + u32"
  au_authorize_enrollment :: "string \<Rightarrow> BackendError + unit"

record AuthorizationBackend =
  ab_caller_uid :: "nat \<Rightarrow> string \<Rightarrow> BackendError + u32"
  ab_enrollment_state :: "string \<Rightarrow> u32 \<Rightarrow> BackendError + bool"
  ab_authorize_enrollment :: "string \<Rightarrow> u32 \<Rightarrow> BackendError + AuthorizedEnrollment"

definition system_bus_authority :: "(string \<Rightarrow> bool) \<Rightarrow> (nat \<Rightarrow> BusAnswers) \<Rightarrow> SystemAuthority" where
  "system_bus_authority unique answers =
     \<lparr>au_caller_uid = (\<lambda>n. bus_caller_uid unique (answers n)),
      au_authorize_enrollment = bus_authorize_enrollment unique (answers 1)\<rparr>"

text \<open>\<open>SystemBusBackend\<close>: its own question for the caller comes after the one of Manager1.\<close>

definition system_bus_backend ::
  "SystemAuthority \<Rightarrow> (u32 \<Rightarrow> BackendError + bool) \<Rightarrow> (string \<Rightarrow> u32 \<Rightarrow> BackendError + AuthorizationGrant) \<Rightarrow>
   AuthorizationBackend" where
  "system_bus_backend authority state issuer =
     \<lparr>ab_caller_uid = au_caller_uid authority,
      ab_enrollment_state = (\<lambda>sender uid.
        try_bind (au_caller_uid authority 1 sender) (\<lambda>caller.
        if caller \<noteq> uid then Inl ''caller is not the target account'' else state uid)),
      ab_authorize_enrollment = (\<lambda>sender uid.
        try_bind (au_caller_uid authority 1 sender) (\<lambda>caller.
        if caller \<noteq> uid then Inl ''caller is not the target account''
        else try_bind (au_authorize_enrollment authority sender) (\<lambda>_.
             try_bind (issuer sender uid) (\<lambda>grant.
             map_err management_error_text (enrollment_from_grant grant)))))\<rparr>"

section \<open>The state behind the mutex\<close>

record OperationOwner =
  oo_sender :: string
  oo_target_uid :: u32
  oo_operation_id :: OperationId

record ManagementState =
  ms_coordinator :: ManagementCoordinator
  ms_owner :: "OperationOwner option"
  ms_poisoned :: bool

fun clear_owner_if_terminal :: "ManagementUpdate \<Rightarrow> ManagementState \<Rightarrow> ManagementState" where
  "clear_owner_if_terminal (MU_Completed _ _) s = s\<lparr>ms_owner := None\<rparr>"
| "clear_owner_if_terminal (MU_Progress _ _) s = s"

text \<open>One critical section: a call of the coordinator, and the owner cleared after a terminal update.\<close>

definition coordinated ::
  "(ManagementCoordinator \<Rightarrow> ManagementCoordinator \<times> (ManagementError + ManagementUpdate)) \<Rightarrow> ManagementState \<Rightarrow>
   ManagementState \<times> (WorkerError + ManagementUpdate)" where
  "coordinated call s =
     (if ms_poisoned s then (s, Inl WE_CoordinatorPoisoned)
      else case call (ms_coordinator s) of
          (m, Inl e) \<Rightarrow> (s\<lparr>ms_coordinator := m\<rparr>, Inl (WE_Management e))
        | (m, Inr update) \<Rightarrow> (clear_owner_if_terminal update (s\<lparr>ms_coordinator := m\<rparr>), Inr update))"

definition worker_progress ::
  "ManagementState \<Rightarrow> u32 \<Rightarrow> OperationId \<Rightarrow> ManagementProgress \<Rightarrow> u64 \<Rightarrow> ManagementState \<times> (WorkerError + ManagementUpdate)" where
  "worker_progress s uid i p now = coordinated (\<lambda>m. management_progress m uid i p now) s"

definition worker_complete ::
  "ManagementState \<Rightarrow> u32 \<Rightarrow> OperationId \<Rightarrow> ManagementResult \<Rightarrow> u64 \<Rightarrow> ManagementState \<times> (WorkerError + ManagementUpdate)" where
  "worker_complete s uid i r now = coordinated (\<lambda>m. management_complete m uid i r now) s"

definition worker_expire :: "ManagementState \<Rightarrow> u64 \<Rightarrow> ManagementState \<times> (WorkerError + ManagementUpdate option)" where
  "worker_expire s now =
     (if ms_poisoned s then (s, Inl WE_CoordinatorPoisoned)
      else case management_expire (ms_coordinator s) now of
          (m, None) \<Rightarrow> (s\<lparr>ms_coordinator := m\<rparr>, Inr None)
        | (m, Some update) \<Rightarrow> (clear_owner_if_terminal update (s\<lparr>ms_coordinator := m\<rparr>), Inr (Some update)))"

section \<open>Controllers and worlds\<close>

text \<open>The trait object of the daemon's worker, over a state of its own.\<close>

record 'c EnrollmentOperationController =
  ct_start :: "AuthorizedEnrollment \<Rightarrow> OperationId \<Rightarrow> u64 \<Rightarrow> 'c \<Rightarrow> 'c \<times> (BackendError + unit)"
  ct_cancel :: "OperationId \<Rightarrow> 'c \<Rightarrow> 'c \<times> (BackendError + unit)"

text \<open>
  What a method is answered: the backend, the clock, numbered by its readings, the random identifier, what
  other threads do to the state and to the worker before each critical section, and whether the last signal
  could be emitted.
\<close>

record 'c ManagerWorld =
  mw_backend :: AuthorizationBackend
  mw_controller :: "'c EnrollmentOperationController option"
  mw_now :: "nat \<Rightarrow> u64"
  mw_random :: "128 word"
  mw_others :: "nat \<Rightarrow> ManagementState \<times> 'c \<Rightarrow> ManagementState \<times> 'c"
  mw_signal :: "string + unit"

definition controller_cancel ::
  "'c EnrollmentOperationController option \<Rightarrow> OperationId \<Rightarrow> 'c \<Rightarrow> 'c \<times> (BackendError + unit)" where
  "controller_cancel controller i c = (case controller of None \<Rightarrow> (c, Inr ()) | Some ct \<Rightarrow> ct_cancel ct i c)"

section \<open>Disconnected senders\<close>

definition cancel_sender ::
  "'c ManagerWorld \<Rightarrow> string \<Rightarrow> ManagementState \<times> 'c \<Rightarrow> (ManagementState \<times> 'c) \<times> (WorkerError + ManagementUpdate option)" where
  "cancel_sender w sender sc =
     (case mw_others w 0 sc of (s, c) \<Rightarrow>
      if ms_poisoned s then ((s, c), Inl WE_CoordinatorPoisoned)
      else case ms_owner s of
          None \<Rightarrow> ((s, c), Inr None)
        | Some owner \<Rightarrow>
            if oo_sender owner \<noteq> sender then ((s, c), Inr None)
            else (case mw_others w 1 (s, c) of (s, c) \<Rightarrow>
              (case controller_cancel (mw_controller w) (oo_operation_id owner) c of
                 (c, Inl e) \<Rightarrow> ((s, c), Inl (WE_Controller e))
               | (c, Inr _) \<Rightarrow>
                   (case mw_others w 2 (s, c) of (s, c) \<Rightarrow>
                    (case coordinated (\<lambda>m. management_cancel m (oo_target_uid owner) (oo_operation_id owner) (mw_now w 0)) s of
                       (s, r) \<Rightarrow> ((s, c), try_bind r (\<lambda>update. Inr (Some update))))))))"

definition handle_owner_change ::
  "(string \<Rightarrow> bool) \<Rightarrow> 'c ManagerWorld \<Rightarrow> string \<Rightarrow> bool \<Rightarrow> bool \<Rightarrow> ManagementState \<times> 'c \<Rightarrow>
   (ManagementState \<times> 'c) \<times> (WorkerError + ManagementUpdate option)" where
  "handle_owner_change unique w name old_owner_present new_owner_present sc =
     (if \<not> old_owner_present \<or> new_owner_present \<or> is_err (unique_sender unique name) then (sc, Inr None)
      else cancel_sender w name sc)"

section \<open>Methods\<close>

definition require_target :: "AuthorizationBackend \<Rightarrow> string \<Rightarrow> u32 \<Rightarrow> FdoError + unit" where
  "require_target b sender uid =
     try_bind (map_err map_backend_error (ab_caller_uid b 0 sender)) (\<lambda>caller.
     if caller = uid then Inr () else Inl (FE_AccessDenied ''caller is not the target account''))"

definition get_enrollment_state :: "AuthorizationBackend \<Rightarrow> string \<Rightarrow> u32 \<Rightarrow> FdoError + bool" where
  "get_enrollment_state b sender uid =
     try_bind (require_target b sender uid) (\<lambda>_. map_err map_backend_error (ab_enrollment_state b sender uid))"

text \<open>The checks of \<open>begin_enrollment_impl\<close> before it takes the lock.\<close>

definition begin_checks :: "(string \<Rightarrow> bool) \<Rightarrow> AuthorizationBackend \<Rightarrow> string \<Rightarrow> u32 \<Rightarrow> FdoError + AuthorizedEnrollment" where
  "begin_checks unique b sender uid =
     try_bind (map_err map_backend_error (unique_sender unique sender)) (\<lambda>_.
     try_bind (require_target b sender uid) (\<lambda>_.
     try_bind (map_err map_backend_error (ab_authorize_enrollment b sender uid)) (\<lambda>authorization.
     if ae_target_uid authorization \<noteq> uid
     then Inl (FE_AccessDenied ''authorization proof is bound to another account'') else Inr authorization)))"

text \<open>Its critical section: the operation is started and its owner recorded.\<close>

definition begin_locked ::
  "AuthorizedEnrollment \<Rightarrow> u64 \<Rightarrow> 128 word \<Rightarrow> string \<Rightarrow> u32 \<Rightarrow> ManagementState \<Rightarrow> ManagementState \<times> (FdoError + ManagementUpdate)" where
  "begin_locked authorization now random sender uid s =
     (if ms_poisoned s then (s, Inl lock_error)
      else case management_start (ms_coordinator s) authorization now random of
          (m, Inl e) \<Rightarrow> (s\<lparr>ms_coordinator := m\<rparr>, Inl (map_management_error e))
        | (m, Inr update) \<Rightarrow>
            ((case update of
                MU_Progress i _ \<Rightarrow>
                  s\<lparr>ms_coordinator := m, ms_owner := Some \<lparr>oo_sender = sender, oo_target_uid = uid, oo_operation_id = i\<rparr>\<rparr>
              | MU_Completed _ _ \<Rightarrow> s\<lparr>ms_coordinator := m\<rparr>), Inr update))"

text \<open>The rollback after the controller refused.\<close>

definition begin_rollback :: "u32 \<Rightarrow> OperationId \<Rightarrow> u64 \<Rightarrow> BackendError \<Rightarrow> ManagementState \<Rightarrow> ManagementState \<times> FdoError" where
  "begin_rollback uid i now e s =
     (if ms_poisoned s then (s, lock_error)
      else (s\<lparr>ms_coordinator := fst (management_cancel (ms_coordinator s) uid i now), ms_owner := None\<rparr>,
            map_backend_error e))"

definition begin_enrollment_impl ::
  "(string \<Rightarrow> bool) \<Rightarrow> 'c ManagerWorld \<Rightarrow> string \<Rightarrow> u32 \<Rightarrow> ManagementState \<times> 'c \<Rightarrow>
   (ManagementState \<times> 'c) \<times> (FdoError + OperationId \<times> ManagementProgress)" where
  "begin_enrollment_impl unique w sender uid sc =
     (case begin_checks unique (mw_backend w) sender uid of
        Inl e \<Rightarrow> (sc, Inl e)
      | Inr authorization \<Rightarrow>
     (case mw_others w 0 sc of (s, c) \<Rightarrow>
     (case begin_locked authorization (mw_now w 0) (mw_random w) sender uid s of
        (s, Inl e) \<Rightarrow> ((s, c), Inl e)
      | (s, Inr (MU_Completed _ _)) \<Rightarrow> ((s, c), Inl (FE_Failed ''unexpected terminal enrollment state''))
      | (s, Inr (MU_Progress i p)) \<Rightarrow>
         (case mw_controller w of
            None \<Rightarrow> ((s, c), Inr (i, p))
          | Some ct \<Rightarrow>
             (case mw_others w 1 (s, c) of (s, c) \<Rightarrow>
             (case ct_start ct authorization i (mw_now w 1) c of
                (c, Inr _) \<Rightarrow> ((s, c), Inr (i, p))
              | (c, Inl e) \<Rightarrow>
                 (case mw_others w 2 (s, c) of (s, c) \<Rightarrow>
                  (case begin_rollback uid i (mw_now w 2) e s of (s, e) \<Rightarrow> ((s, c), Inl e)))))))))"

text \<open>The critical section of \<open>cancel_enrollment_impl\<close>.\<close>

definition cancel_locked ::
  "string \<Rightarrow> u32 \<Rightarrow> OperationId \<Rightarrow> u64 \<Rightarrow> ManagementState \<Rightarrow> ManagementState \<times> (FdoError + ManagementUpdate)" where
  "cancel_locked sender uid i now s =
     (if ms_poisoned s then (s, Inl lock_error)
      else case ms_owner s of
          None \<Rightarrow> (s, Inl (map_management_error ME_NoActiveOperation))
        | Some owner \<Rightarrow>
           if oo_sender owner \<noteq> sender
           then (s, Inl (FE_AccessDenied ''management operation belongs to another D-Bus sender''))
           else (case management_cancel (ms_coordinator s) uid i now of
               (m, Inl e) \<Rightarrow> (s\<lparr>ms_coordinator := m\<rparr>, Inl (map_management_error e))
             | (m, Inr update) \<Rightarrow> (clear_owner_if_terminal update (s\<lparr>ms_coordinator := m\<rparr>), Inr update)))"

definition cancel_enrollment_impl ::
  "(string \<Rightarrow> 128 word option) \<Rightarrow> 'c ManagerWorld \<Rightarrow> string \<Rightarrow> u32 \<Rightarrow> string \<Rightarrow> ManagementState \<times> 'c \<Rightarrow>
   (ManagementState \<times> 'c) \<times> (FdoError + OperationId \<times> ManagementResult)" where
  "cancel_enrollment_impl uuid_parse w sender uid text sc =
     (case try_bind (require_target (mw_backend w) sender uid) (\<lambda>_.
           map_err map_management_error (operation_parse uuid_parse text)) of
        Inl e \<Rightarrow> (sc, Inl e)
      | Inr i \<Rightarrow>
     (case mw_others w 0 sc of (s, c) \<Rightarrow>
     (case controller_cancel (mw_controller w) i c of
        (c, Inl e) \<Rightarrow> ((s, c), Inl (map_backend_error e))
      | (c, Inr _) \<Rightarrow>
     (case mw_others w 1 (s, c) of (s, c) \<Rightarrow>
     (case cancel_locked sender uid i (mw_now w 0) s of
        (s, Inl e) \<Rightarrow> ((s, c), Inl e)
      | (s, Inr (MU_Completed j r)) \<Rightarrow> ((s, c), Inr (j, r))
      | (s, Inr (MU_Progress _ _)) \<Rightarrow> ((s, c), Inl (FE_Failed ''unexpected progress cancellation state'')))))))"

section \<open>Signals and the bus methods\<close>

fun progress_name :: "ManagementProgress \<Rightarrow> string" where
  "progress_name MP_Preparing = ''preparing''"
| "progress_name MP_PositionFace = ''position-face''"
| "progress_name MP_HoldStill = ''hold-still''"
| "progress_name MP_ActiveChallenge = ''active-challenge''"
| "progress_name MP_Blink = ''blink''"
| "progress_name MP_TurnLeft = ''turn-left''"
| "progress_name MP_TurnRight = ''turn-right''"
| "progress_name MP_ReturnToCenter = ''return-to-center''"
| "progress_name MP_Processing = ''processing''"

fun result_name :: "ManagementResult \<Rightarrow> string" where
  "result_name MR_Completed = ''completed''"
| "result_name MR_Cancelled = ''cancelled''"
| "result_name MR_TimedOut = ''timed-out''"
| "result_name MR_Failed = ''failed''"

datatype Signal = EnrollmentProgress string string | EnrollmentCompleted string string

definition operation_text :: "(128 word \<Rightarrow> string) \<Rightarrow> OperationId \<Rightarrow> string" where
  "operation_text uuid_text i = (case i of OperationId u \<Rightarrow> uuid_text u)"

fun emit_update_signal :: "(128 word \<Rightarrow> string) \<Rightarrow> ManagementUpdate \<Rightarrow> Signal" where
  "emit_update_signal uuid_text (MU_Progress i p) = EnrollmentProgress (operation_text uuid_text i) (progress_name p)"
| "emit_update_signal uuid_text (MU_Completed i r) = EnrollmentCompleted (operation_text uuid_text i) (result_name r)"

text \<open>
  The methods with the signal each emits. A \<open>begin_enrollment\<close> whose signal cannot be emitted cancels
  the operation again; the world of that cancellation is the last argument. The sender of a message is
  attached by the bus, or absent.
\<close>

definition message_sender :: "string option \<Rightarrow> FdoError + string" where
  "message_sender header = ok_or header (FE_AccessDenied ''message sender is unavailable'')"

definition begin_enrollment ::
  "(string \<Rightarrow> bool) \<Rightarrow> (128 word \<Rightarrow> string) \<Rightarrow> 'c ManagerWorld \<Rightarrow> 'c ManagerWorld \<Rightarrow> string option \<Rightarrow> u32 \<Rightarrow>
   ManagementState \<times> 'c \<Rightarrow> (ManagementState \<times> 'c) \<times> Signal list \<times> (FdoError + string)" where
  "begin_enrollment unique uuid_text w undo header uid sc =
     (case message_sender header of
        Inl e \<Rightarrow> (sc, [], Inl e)
      | Inr sender \<Rightarrow>
     (case begin_enrollment_impl unique w sender uid sc of
        (sc, Inl e) \<Rightarrow> (sc, [], Inl e)
      | (sc, Inr (i, p)) \<Rightarrow>
         (case mw_signal w of
            Inr _ \<Rightarrow> (sc, [EnrollmentProgress (operation_text uuid_text i) (progress_name p)], Inr (operation_text uuid_text i))
          | Inl e \<Rightarrow> (fst (cancel_sender undo sender sc), [], Inl (FE_ZBus e)))))"

definition cancel_enrollment ::
  "(string \<Rightarrow> 128 word option) \<Rightarrow> (128 word \<Rightarrow> string) \<Rightarrow> 'c ManagerWorld \<Rightarrow> string option \<Rightarrow> u32 \<Rightarrow> string \<Rightarrow>
   ManagementState \<times> 'c \<Rightarrow> (ManagementState \<times> 'c) \<times> Signal list \<times> (FdoError + unit)" where
  "cancel_enrollment uuid_parse uuid_text w header uid text sc =
     (case message_sender header of
        Inl e \<Rightarrow> (sc, [], Inl e)
      | Inr sender \<Rightarrow>
     (case cancel_enrollment_impl uuid_parse w sender uid text sc of
        (sc, Inl e) \<Rightarrow> (sc, [], Inl e)
      | (sc, Inr (i, r)) \<Rightarrow>
         (case mw_signal w of
            Inr _ \<Rightarrow> (sc, [EnrollmentCompleted (operation_text uuid_text i) (result_name r)], Inr ())
          | Inl e \<Rightarrow> (sc, [], Inl (FE_ZBus e)))))"

section \<open>The service\<close>

text \<open>
  What the select of the loop gives: the shutdown, the end of the stream of owner changes, a change that
  cannot be decoded, or a change, with the world of the cancellation it may cause.
\<close>

datatype 'c ServiceInput =
  SvShutdown
| SvStreamEnded
| SvInvalid string
| SvChange string bool bool "'c ManagerWorld"

type_synonym 'c service_outcome = "(ManagementState \<times> 'c) \<times> Signal list \<times> (BackendError + unit) option"

text \<open>\<open>None\<close> is a loop that is still waiting after the given inputs.\<close>

fun manager_loop ::
  "(string \<Rightarrow> bool) \<Rightarrow> (128 word \<Rightarrow> string) \<Rightarrow> 'c ServiceInput list \<Rightarrow> ManagementState \<times> 'c \<Rightarrow> 'c service_outcome" where
  "manager_loop unique uuid_text [] sc = (sc, [], None)"
| "manager_loop unique uuid_text (SvShutdown # _) sc = (sc, [], Some (Inr ()))"
| "manager_loop unique uuid_text (SvStreamEnded # _) sc = (sc, [], Some (Inl ''Manager1 owner-change stream ended''))"
| "manager_loop unique uuid_text (SvInvalid e # _) sc =
     (sc, [], Some (Inl (''invalid Manager1 owner-change signal: '' @ e)))"
| "manager_loop unique uuid_text (SvChange name old_owner new_owner w # rest) sc =
     (case handle_owner_change unique w name old_owner new_owner sc of
        (sc, Inl e) \<Rightarrow> (sc, [], Some (Inl (''unable to cancel disconnected Manager1 sender: '' @ worker_error_text e)))
      | (sc, Inr None) \<Rightarrow> manager_loop unique uuid_text rest sc
      | (sc, Inr (Some update)) \<Rightarrow>
          (case mw_signal w of
             Inl e \<Rightarrow> (sc, [], Some (Inl (''unable to emit Manager1 disconnect result: '' @ e)))
           | Inr _ \<Rightarrow> apsnd (apfst ((#) (emit_update_signal uuid_text update))) (manager_loop unique uuid_text rest sc)))"

text \<open>\<open>watch\<close>, the same loop for a caller that owns the object server; it never ends well.\<close>

fun manager_watch ::
  "(string \<Rightarrow> bool) \<Rightarrow> (128 word \<Rightarrow> string) \<Rightarrow> 'c ServiceInput list \<Rightarrow> ManagementState \<times> 'c \<Rightarrow> 'c service_outcome" where
  "manager_watch unique uuid_text [] sc = (sc, [], None)"
| "manager_watch unique uuid_text (SvShutdown # rest) sc = manager_watch unique uuid_text rest sc"
| "manager_watch unique uuid_text (SvStreamEnded # _) sc = (sc, [], Some (Inl ''D-Bus owner-change stream ended''))"
| "manager_watch unique uuid_text (SvInvalid e # _) sc =
     (sc, [], Some (Inl (''invalid D-Bus owner-change signal: '' @ e)))"
| "manager_watch unique uuid_text (SvChange name old_owner new_owner w # rest) sc =
     (case handle_owner_change unique w name old_owner new_owner sc of
        (sc, Inl e) \<Rightarrow> (sc, [], Some (Inl (''unable to cancel disconnected sender: '' @ worker_error_text e)))
      | (sc, Inr None) \<Rightarrow> manager_watch unique uuid_text rest sc
      | (sc, Inr (Some update)) \<Rightarrow>
          (case mw_signal w of
             Inl e \<Rightarrow> (sc, [], Some (Inl (''unable to emit disconnect cancellation: '' @ e)))
           | Inr _ \<Rightarrow> apsnd (apfst ((#) (emit_update_signal uuid_text update))) (manager_watch unique uuid_text rest sc)))"

datatype RequestNameReply = RN_PrimaryOwner | RN_InQueue | RN_Exists | RN_AlreadyOwner

record ServiceSetup =
  su_proxy :: "string + unit"
  su_subscribed :: "string + unit"
  su_context :: "string + unit"
  su_added :: "string + bool"
  su_name :: "string + RequestNameReply"

text \<open>What this service has on the bus: the object it registered and the name it holds.\<close>

record BusPresence =
  bp_registered :: bool
  bp_named :: bool

definition service_activation :: "ServiceSetup \<Rightarrow> BusPresence \<times> (BackendError + unit)" where
  "service_activation u =
     (case try_bind (map_err (\<lambda>e. ''unable to create Manager1 lifecycle proxy: '' @ e) (su_proxy u)) (\<lambda>_.
           try_bind (map_err (\<lambda>e. ''unable to subscribe before Manager1 activation: '' @ e) (su_subscribed u)) (\<lambda>_.
           try_bind (map_err (\<lambda>e. ''invalid Manager1 object path: '' @ e) (su_context u)) (\<lambda>_.
           try_bind (map_err (\<lambda>e. ''unable to register Manager1 object: '' @ e) (su_added u)) (\<lambda>added.
           if added then Inr () else Inl ''Manager1 object was already registered'')))) of
        Inl e \<Rightarrow> (\<lparr>bp_registered = False, bp_named = False\<rparr>, Inl e)
      | Inr _ \<Rightarrow>
         (case su_name u of
            Inl e \<Rightarrow> (\<lparr>bp_registered = True, bp_named = False\<rparr>, Inl (''unable to request Manager1 name: '' @ e))
          | Inr reply \<Rightarrow>
             if reply \<noteq> RN_PrimaryOwner \<and> reply \<noteq> RN_AlreadyOwner
             then (\<lparr>bp_registered = False, bp_named = False\<rparr>, Inl ''Manager1 bus name is already owned'')
             else (\<lparr>bp_registered = True, bp_named = True\<rparr>, Inr ())))"

definition run_manager1_service_until_shutdown ::
  "(string \<Rightarrow> bool) \<Rightarrow> (128 word \<Rightarrow> string) \<Rightarrow> ServiceSetup \<Rightarrow> 'c ServiceInput list \<Rightarrow> ManagementState \<times> 'c \<Rightarrow>
   BusPresence \<times> 'c service_outcome" where
  "run_manager1_service_until_shutdown unique uuid_text u inputs sc =
     (case service_activation u of
        (presence, Inl e) \<Rightarrow> (presence, sc, [], Some (Inl e))
      | (presence, Inr _) \<Rightarrow>
          (case manager_loop unique uuid_text inputs sc of (sc, signals, result) \<Rightarrow>
             (if result = None then presence else \<lparr>bp_registered = False, bp_named = False\<rparr>, sc, signals, result)))"

definition manager_new :: "ManagementCoordinator \<Rightarrow> ManagementState" where
  "manager_new m = \<lparr>ms_coordinator = m, ms_owner = None, ms_poisoned = False\<rparr>"

section \<open>The state as a machine\<close>

text \<open>Its critical sections, each of which any thread may enter; a panic in one poisons the mutex.\<close>

datatype manager_op =
  MoBegin AuthorizedEnrollment u64 "128 word" string
| MoRollback u32 OperationId u64
| MoProgress u32 OperationId ManagementProgress u64
| MoComplete u32 OperationId ManagementResult u64
| MoExpire u64
| MoCancel string u32 OperationId u64
| MoDisconnect u32 OperationId u64

datatype manager_out = MoStarted "ManagementUpdate option" | MoAnswer "ManagementUpdate option"

definition success :: "'e + 'a \<Rightarrow> 'a option" where
  "success r = (case r of Inl _ \<Rightarrow> None | Inr u \<Rightarrow> Some u)"

lemma success_simps [simp]: "success (Inl e) = None" "success (Inr x) = Some x"
  by (simp_all add: success_def)

fun manager_step :: "ManagementState \<Rightarrow> manager_op \<Rightarrow> ManagementState \<times> manager_out" where
  "manager_step s (MoBegin a now random sender) =
     apsnd (MoStarted \<circ> success) (begin_locked a now random sender (ae_target_uid a) s)"
| "manager_step s (MoRollback uid i now) =
     (fst (begin_rollback uid i now [] s),
      MoAnswer (if ms_poisoned s then None else success (snd (management_cancel (ms_coordinator s) uid i now))))"
| "manager_step s (MoProgress uid i p now) = apsnd (MoAnswer \<circ> success) (worker_progress s uid i p now)"
| "manager_step s (MoComplete uid i r now) = apsnd (MoAnswer \<circ> success) (worker_complete s uid i r now)"
| "manager_step s (MoExpire now) =
     apsnd (\<lambda>r. MoAnswer (case success r of None \<Rightarrow> None | Some u \<Rightarrow> u)) (worker_expire s now)"
| "manager_step s (MoCancel sender uid i now) = apsnd (MoAnswer \<circ> success) (cancel_locked sender uid i now s)"
| "manager_step s (MoDisconnect uid i now) =
     apsnd (MoAnswer \<circ> success) (coordinated (\<lambda>m. management_cancel m uid i now) s)"

definition manager_owner :: "ManagementState \<Rightarrow> OperationId option" where
  "manager_owner s = management_owner (ms_coordinator s)"

fun manager_event :: "manager_out \<Rightarrow> OperationId slot_event option" where
  "manager_event (MoStarted (Some (MU_Progress i _))) = Some (Opened i)"
| "manager_event (MoAnswer (Some (MU_Progress i _))) = Some (Updated i)"
| "manager_event (MoAnswer (Some (MU_Completed i _))) = Some (Closed i)"
| "manager_event _ = None"

text \<open>The owner that is recorded owns the active operation.\<close>

definition owner_inv :: "ManagementState \<Rightarrow> bool" where
  "owner_inv s \<longleftrightarrow> (case ms_owner s of None \<Rightarrow> True
     | Some ow \<Rightarrow> (\<exists>a. mc_active (ms_coordinator s) = Some a \<and> op_id a = oo_operation_id ow \<and> op_uid a = oo_target_uid ow))"

lemmas manager_op_defs = begin_locked_def begin_rollback_def coordinated_def worker_progress_def worker_complete_def
  worker_expire_def cancel_locked_def

lemma manager_step_owner: "owner_inv s \<Longrightarrow> owner_inv (fst (manager_step s x))"
  by (cases x; cases "mc_active (ms_coordinator s)")
    (auto simp: manager_op_defs management_op_defs owner_inv_def Let_def
      split: if_splits option.splits ManagementUpdate.splits)


lemma manager_step_effect:
  "manager_step s x = (s', out) \<Longrightarrow>
     (case manager_event out of
        Some (Opened t) \<Rightarrow> manager_owner s = None \<and> manager_owner s' = Some t
      | Some (Updated t) \<Rightarrow> manager_owner s = Some t \<and> manager_owner s' = Some t
      | Some (Closed t) \<Rightarrow> manager_owner s = Some t \<and> manager_owner s' = None
      | None \<Rightarrow> manager_owner s' = manager_owner s)"
  by (cases x; cases "mc_active (ms_coordinator s)")
    (auto simp: manager_op_defs management_op_defs manager_owner_def management_owner_def Let_def
      split: if_splits option.splits ManagementUpdate.splits)

interpretation manager_slot: oneshot_slot manager_step manager_owner manager_event
  by unfold_locales (auto dest: manager_step_effect)

section \<open>Facts\<close>

text \<open>A backend that only answers for accounts it granted.\<close>

locale authorization_backend =
  fixes b :: AuthorizationBackend and granted :: "string \<Rightarrow> u32 \<Rightarrow> bool"
  assumes grants: "ab_authorize_enrollment b sender uid = Inr a \<Longrightarrow> granted sender uid \<and> ae_target_uid a = uid"
begin

lemma checks_granted:
  assumes "begin_checks unique b sender uid = Inr a"
  shows "unique sender \<and> ab_caller_uid b 0 sender = Inr uid \<and> granted sender uid \<and> ae_target_uid a = uid"
  using assms grants by (auto simp: begin_checks_def require_target_def unique_sender_def result_simps split: if_splits)

end

text \<open>
  What the system bus and the policy service must have answered, and which rule must have matched, for a
  grant: the caller is the account, the policy service says yes to this very subject, and the peer of the
  issuer is root under a rule for enrollment.
\<close>

definition bus_granted ::
  "(string \<Rightarrow> bool) \<Rightarrow> (nat \<Rightarrow> BusAnswers) \<Rightarrow> BoundAuthorizationIssuer \<Rightarrow> string \<Rightarrow> u32 \<Rightarrow> bool" where
  "bus_granted unique answers issuer sender uid \<longleftrightarrow>
     unique sender \<and> ba_unix_user (answers 1) sender = Inr uid \<and>
     ba_check (answers 1) ''system-bus-name'' sender ''org.faceauth.enroll'' 1 = Inr True \<and>
     peer_uid (issuer_peer issuer) = 0 \<and> service_as_str (issuer_service issuer) = ENROLLMENT_SERVICE \<and>
     issuer_purpose issuer = Polkit \<and>
     (\<exists>r \<in> set (rules (issuer_policy issuer)). rule_service r = issuer_service issuer \<and> rule_purpose r = Polkit \<and>
        fingerprint (issuer_executable issuer) \<in> set (rule_executables r))"

lemma issue_ok:
  "issue issuer random uid = Inr g \<Longrightarrow> grant_peer g = issuer_peer issuer \<and> grant_target_uid g = uid \<and>
     grant_service g = issuer_service issuer \<and> grant_purpose g = issuer_purpose issuer \<and>
     (\<exists>r \<in> set (rules (issuer_policy issuer)). rule_service r = issuer_service issuer \<and>
        rule_purpose r = issuer_purpose issuer \<and> fingerprint (issuer_executable issuer) \<in> set (rule_executables r))"
  by (auto simp: issue_def authorize_def result_simps find_Some_iff split: if_splits)

interpretation system_bus: authorization_backend
  "system_bus_backend (system_bus_authority unique answers) state (issue_grant unique issuer random)"
  "bus_granted unique answers issuer"
  for unique answers state issuer random
proof
  fix sender uid a
  assume "ab_authorize_enrollment
    (system_bus_backend (system_bus_authority unique answers) state (issue_grant unique issuer random)) sender uid = Inr a"
  then obtain caller g where "bus_caller_uid unique (answers 1) sender = Inr uid"
      "bus_authorize_enrollment unique (answers 1) sender = Inr ()" "issue issuer random uid = Inr g"
      "enrollment_from_grant g = Inr a"
    by (auto simp: system_bus_backend_def system_bus_authority_def issue_grant_def result_simps split: if_splits)
  moreover note issue_ok [OF this(3)]
  ultimately show "bus_granted unique answers issuer sender uid \<and> ae_target_uid a = uid"
    by (auto simp: bus_granted_def bus_caller_uid_def bus_authorize_enrollment_def unique_sender_def result_simps
        enrollment_from_grant_def POLKIT_SUBJECT_SYSTEM_BUS_NAME_def ENROLLMENT_POLKIT_ACTION_def
        POLKIT_ALLOW_USER_INTERACTION_def split: if_splits)
qed

end
