(* ===== verification/EnrollmentEngine.thy ===== *)
theory EnrollmentEngine
  imports Manager Provenance Enrollment
begin

text \<open>
  The enrollment worker (\<open>crates/faceauth-daemon/src/enrollment_engine.rs\<close>): jobs bound to an operation,
  the production engine that accumulates the observations of one pipeline session, the run of one
  job with its commit, the worker loop, and the bridge between Manager1 and the worker. As in theory
  Engine, an engine is a program that reports progress and ends with a result, and flags that other
  threads change answer through the arguments.
\<close>

section \<open>Jobs\<close>

definition ENROLLMENT_REQUEST_QUEUE_CAPACITY :: nat where
  "ENROLLMENT_REQUEST_QUEUE_CAPACITY = 1"

definition ENROLLMENT_UPDATE_QUEUE_CAPACITY :: nat where
  "ENROLLMENT_UPDATE_QUEUE_CAPACITY = 34"

definition ENROLLMENT_MAX_PROGRESS_UPDATES :: nat where
  "ENROLLMENT_MAX_PROGRESS_UPDATES = 32"

text \<open>A private cancellation signal is a reference to a flag in a store of flags.\<close>

datatype EnrollmentCancellation = EnrollmentCancellation nat

definition cancellation_default :: "bool list \<Rightarrow> EnrollmentCancellation \<times> bool list" where
  "cancellation_default cells = (EnrollmentCancellation (length cells), cells @ [False])"

fun cancellation_cancel :: "bool list \<Rightarrow> EnrollmentCancellation \<Rightarrow> bool list" where
  "cancellation_cancel cells (EnrollmentCancellation i) = cells[i := True]"

fun cancellation_is_cancelled :: "bool list \<Rightarrow> EnrollmentCancellation \<Rightarrow> bool" where
  "cancellation_is_cancelled cells (EnrollmentCancellation i) = (i < length cells \<and> cells ! i)"

record EnrollmentJob =
  ej_operation_id :: OperationId
  ej_authorization :: AuthorizedEnrollment
  ej_config :: EnrollmentConfig
  ej_issued_at_micros :: u64
  ej_cancellation :: EnrollmentCancellation
  ej_shutdown :: ShutdownToken

definition enrollment_job_new ::
  "OperationId \<Rightarrow> AuthorizedEnrollment \<Rightarrow> EnrollmentConfig \<Rightarrow> u64 \<Rightarrow> EnrollmentCancellation \<Rightarrow> EnrollmentJob" where
  "enrollment_job_new i a c issued cancellation =
     \<lparr>ej_operation_id = i, ej_authorization = a, ej_config = c, ej_issued_at_micros = issued,
      ej_cancellation = cancellation, ej_shutdown = None\<rparr>"

definition ej_target_uid :: "EnrollmentJob \<Rightarrow> u32" where
  "ej_target_uid job = ae_target_uid (ej_authorization job)"

definition enrollment_job_is_cancelled :: "bool list \<Rightarrow> bool list \<Rightarrow> EnrollmentJob \<Rightarrow> bool" where
  "enrollment_job_is_cancelled cells flags job \<longleftrightarrow>
     cancellation_is_cancelled cells (ej_cancellation job) \<or> token_requested flags (ej_shutdown job)"

definition start_session :: "EnrollmentJob \<Rightarrow> EnrollmentError + EnrollmentSession" where
  "start_session job = enrollment_start (ej_config job) (ej_target_uid job) (ej_issued_at_micros job)"

datatype EnrollmentEngineFailure =
  XF_Cancelled | XF_Capture | XF_Inference | XF_InsufficientEvidence | XF_Storage | XF_Internal

datatype EnrollmentEngineUpdate =
  XuProgress OperationId ManagementProgress
| XuCompleted OperationId "EnrollmentEngineFailure + unit"

text \<open>A run of \<open>EnrollmentEngine::enroll\<close> as the worker sees it.\<close>

datatype enroll_run =
  EnrollDone "EnrollmentEngineFailure + TemplateRecord"
| EnrollPanic
| EnrollReport ManagementProgress "EnrollmentEngineFailure + unit \<Rightarrow> enroll_run"

section \<open>The production engine\<close>

record ProductionEnrollmentEngine =
  pe_pipeline :: Pipeline
  pe_challenge :: ChallengeConfig
  pe_passive_pad :: PassivePadPolicy

datatype ProductionEnrollmentEngineError = PE_InvalidPolicy

definition enrollment_engine_from_shared ::
  "Pipeline \<Rightarrow> ChallengeConfig \<Rightarrow> PassivePadPolicy \<Rightarrow> ProductionEnrollmentEngineError + ProductionEnrollmentEngine" where
  "enrollment_engine_from_shared p challenge pad =
     try_bind (map_err (\<lambda>_. PE_InvalidPolicy) (challenge_config_validate challenge)) (\<lambda>_.
     try_bind (map_err (\<lambda>_. PE_InvalidPolicy) (pad_validate pad)) (\<lambda>_.
     Inr \<lparr>pe_pipeline = p, pe_challenge = challenge, pe_passive_pad = pad\<rparr>))"

record EnrollmentAccumulator =
  ea_session :: "EnrollmentSession option"
  ea_passive_pad :: PassivePadPolicy
  ea_minimum_sample_interval_micros :: u64
  ea_last_accepted_timestamp :: "u64 option"

definition accumulator_new :: "EnrollmentSession \<Rightarrow> PassivePadPolicy \<Rightarrow> u64 \<Rightarrow> EnrollmentAccumulator" where
  "accumulator_new s pad interval =
     \<lparr>ea_session = Some s, ea_passive_pad = pad, ea_minimum_sample_interval_micros = interval,
      ea_last_accepted_timestamp = None\<rparr>"

definition enrollment_observation :: "bool \<Rightarrow> DerivedBiometricObservation \<Rightarrow> EnrollmentObservation" where
  "enrollment_observation passive d =
     \<lparr>eo_embedding = dv_embedding d, eo_quality = dv_quality d, eo_passive_liveness_passed = passive,
      eo_active_liveness_passed = True, eo_timestamp_micros = dv_completed_at_micros d, eo_yaw_degrees = dv_yaw_degrees d\<rparr>"

text \<open>What follows an accepted observation; \<open>None\<close> is \<open>Continue\<close>.\<close>

definition accumulator_accepted ::
  "EnrollmentAccumulator \<Rightarrow> EnrollmentSession \<Rightarrow> u64 \<Rightarrow> EnrollmentAccumulator \<times> (ObservationFailure + TemplateRecord option)" where
  "accumulator_accepted a active now =
     (if ready_to_finish active
      then (a\<lparr>ea_session := None\<rparr>,
            try_bind (map_err (\<lambda>_. OF_InvalidEvidence) (enrollment_finish active now)) (\<lambda>r. Inr (Some r)))
      else if is_full active then (a, Inl OF_AttemptLimit)
      else (a, Inr None))"

definition accumulator_observe ::
  "EnrollmentAccumulator \<Rightarrow> DerivedBiometricObservation \<Rightarrow>
   EnrollmentAccumulator \<times> (ObservationFailure + TemplateRecord option)" where
  "accumulator_observe a d =
     (let now = dv_completed_at_micros d in
      if (case ea_last_accepted_timestamp a of None \<Rightarrow> False
          | Some previous \<Rightarrow> saturating_sub now previous < ea_minimum_sample_interval_micros a)
      then (a, Inr None)
      else case pad_accepts (ea_passive_pad a) (dv_passive_liveness d) of
        Inl _ \<Rightarrow> (a, Inl OF_Inference)
      | Inr passive \<Rightarrow>
      (case ea_session a of
        None \<Rightarrow> (a, Inl OF_Internal)
      | Some active \<Rightarrow>
      (case enrollment_observe active (enrollment_observation passive d) of
        (active, Inr _) \<Rightarrow>
          accumulator_accepted (a\<lparr>ea_session := Some active, ea_last_accepted_timestamp := Some now\<rparr>) active now
      | (active, Inl EN_InsufficientQuality) \<Rightarrow> (a\<lparr>ea_session := Some active\<rparr>, Inr None)
      | (active, Inl _) \<Rightarrow> (a\<lparr>ea_session := Some active\<rparr>, Inl OF_InvalidEvidence))))"

text \<open>The closure \<open>consume\<close> with its two reads of the cancellation flag.\<close>

definition enrollment_consume ::
  "bool \<Rightarrow> bool \<Rightarrow> EnrollmentAccumulator \<Rightarrow> DerivedBiometricObservation \<Rightarrow>
   EnrollmentAccumulator \<times> (ObservationFailure + TemplateRecord option)" where
  "enrollment_consume before after a d =
     (if before then (a, Inl OF_Cancelled)
      else case accumulator_observe a d of
          (a', Inl e) \<Rightarrow> (a', Inl e)
        | (a', Inr r) \<Rightarrow> if r \<noteq> None \<and> after then (a', Inl OF_Cancelled) else (a', Inr r))"

fun enrollment_progress :: "ObservationProgress \<Rightarrow> ManagementProgress" where
  "enrollment_progress OpPositionFace = MP_PositionFace"
| "enrollment_progress OpHoldStill = MP_HoldStill"
| "enrollment_progress OpBlink = MP_Blink"
| "enrollment_progress OpTurnLeft = MP_TurnLeft"
| "enrollment_progress OpTurnRight = MP_TurnRight"
| "enrollment_progress OpReturnToCenter = MP_ReturnToCenter"
| "enrollment_progress OpProcessing = MP_Processing"

fun enrollment_observation_failure :: "ObservationFailure \<Rightarrow> EnrollmentEngineFailure" where
  "enrollment_observation_failure OF_Cancelled = XF_Cancelled"
| "enrollment_observation_failure OF_Capture = XF_Capture"
| "enrollment_observation_failure OF_Inference = XF_Inference"
| "enrollment_observation_failure OF_Liveness = XF_InsufficientEvidence"
| "enrollment_observation_failure OF_InvalidEvidence = XF_InsufficientEvidence"
| "enrollment_observation_failure OF_AttemptLimit = XF_InsufficientEvidence"
| "enrollment_observation_failure OF_Internal = XF_Internal"

text \<open>The closure \<open>relay_progress\<close>.\<close>

definition enrollment_relay_answer :: "bool \<Rightarrow> EnrollmentEngineFailure + unit \<Rightarrow> ObservationFailure + unit" where
  "enrollment_relay_answer cancelled = map_err (\<lambda>_. if cancelled then OF_Cancelled else OF_Internal)"

text \<open>
  The answers of the flags to the closures: whether the job is cancelled when a report is refused, and
  before and after the \<open>n\<close>-th observation is consumed.
\<close>

record EnrollAnswers =
  xa_cancelled :: bool
  xa_free :: bool
  xa_refused_cancelled :: bool
  xa_before :: "nat \<Rightarrow> bool"
  xa_after :: "nat \<Rightarrow> bool"

primrec accumulated_run :: "EnrollAnswers \<Rightarrow> TemplateRecord session_run \<Rightarrow> nat \<Rightarrow> EnrollmentAccumulator \<Rightarrow> enroll_run" where
  "accumulated_run x (SessionDone r) n a = EnrollDone (map_err enrollment_observation_failure r)"
| "accumulated_run x SessionPanic n a = EnrollPanic"
| "accumulated_run x (SessionReport code k) n a =
     EnrollReport (enrollment_progress code)
       (\<lambda>answer. accumulated_run x (k (enrollment_relay_answer (xa_refused_cancelled x) answer)) n a)"
| "accumulated_run x (SessionObserve d k) n a =
     accumulated_run x (k (snd (enrollment_consume (xa_before x n) (xa_after x n) a d))) (Suc n)
       (fst (enrollment_consume (xa_before x n) (xa_after x n) a d))"

definition enroll :: "ProductionEnrollmentEngine \<Rightarrow> EnrollAnswers \<Rightarrow> ('i, 'v) SessionWorld \<Rightarrow> EnrollmentJob \<Rightarrow> enroll_run" where
  "enroll engine x w job =
     (if xa_cancelled x then EnrollDone (Inl XF_Cancelled)
      else EnrollReport MP_Preparing (\<lambda>answer. case answer of
          Inl e \<Rightarrow> EnrollDone (Inl e)
        | Inr _ \<Rightarrow>
            (case start_session job of
               Inl _ \<Rightarrow> EnrollDone (Inl XF_InsufficientEvidence)
             | Inr s \<Rightarrow>
                if \<not> xa_free x then EnrollDone (Inl XF_Internal)
                else accumulated_run x (run_session (pe_pipeline engine) (pe_challenge engine) w) 0
                  (accumulator_new s (pe_passive_pad engine) (ec_minimum_sample_interval_micros (ej_config job))))))"

section \<open>Submission\<close>

record EnrollmentRequest =
  xq_job :: EnrollmentJob
  xq_lease :: BiometricResourceLease

record EnrollmentState =
  xs_requests :: "EnrollmentRequest list"
  xs_receiver :: bool
  xs_active :: bool
  xs_resources :: ArbiterState

datatype EnrollmentEngineSubmitError = XS_Busy | XS_ResourceUnavailable | XS_WorkerStopped

fun enrollment_submit_error :: "BiometricResourceError \<Rightarrow> EnrollmentEngineSubmitError" where
  "enrollment_submit_error (BR_Busy _) = XS_Busy"
| "enrollment_submit_error BR_Unavailable = XS_ResourceUnavailable"

definition enrollment_submit ::
  "EnrollmentState \<Rightarrow> EnrollmentJob \<Rightarrow> EnrollmentState \<times> (EnrollmentEngineSubmitError + OperationId)" where
  "enrollment_submit s job =
     (case try_acquire (xs_resources s) (OwnEnrollment (ej_operation_id job)) of
        (a, Inl e) \<Rightarrow> (s\<lparr>xs_resources := a\<rparr>, Inl (enrollment_submit_error e))
      | (a, Inr lease) \<Rightarrow>
         (if xs_active s then (s\<lparr>xs_resources := lease_drop lease a\<rparr>, Inl XS_Busy)
          else if \<not> xs_receiver s \<or> length (xs_requests s) \<ge> ENROLLMENT_REQUEST_QUEUE_CAPACITY
          then (s\<lparr>xs_active := False, xs_resources := lease_drop lease a\<rparr>, Inl XS_WorkerStopped)
          else (s\<lparr>xs_active := True, xs_resources := a,
                  xs_requests := xs_requests s @ [\<lparr>xq_job = job, xq_lease = lease\<rparr>]\<rparr>,
                Inr (ej_operation_id job))))"

section \<open>One job\<close>

record EnrollmentJobRun =
  xr_sent :: "EnrollmentEngineUpdate list"
  xr_progress_count :: nat
  xr_reports :: nat

text \<open>
  The answers of the flags and of the channel to one job. A refused report reads the cancellation flag
  twice; the second argument of \<open>xw_cancelled\<close> numbers the reads.
\<close>

record EnrollmentWorld =
  xw_cancelled :: "nat \<Rightarrow> nat \<Rightarrow> bool"
  xw_connected :: "nat \<Rightarrow> bool"
  xw_received :: "nat \<Rightarrow> nat"
  xw_cancelled_before :: bool
  xw_cancelled_after :: bool
  xw_connected_at_end :: bool

definition enrollment_job_progress ::
  "OperationId \<Rightarrow> EnrollmentWorld \<Rightarrow> ManagementProgress \<Rightarrow> EnrollmentJobRun \<Rightarrow>
   EnrollmentJobRun \<times> (EnrollmentEngineFailure + unit)" where
  "enrollment_job_progress i w code r =
     (let k = xr_reports r; r = r\<lparr>xr_reports := k + 1\<rparr> in
      if xw_cancelled w k 0 \<or> xr_progress_count r \<ge> ENROLLMENT_MAX_PROGRESS_UPDATES
      then (r, Inl (if xw_cancelled w k 1 then XF_Cancelled else XF_Internal))
      else if length (xr_sent r) - xw_received w k \<ge> ENROLLMENT_UPDATE_QUEUE_CAPACITY \<or> \<not> xw_connected w k
      then (r, Inl XF_Internal)
      else (r\<lparr>xr_sent := xr_sent r @ [XuProgress i code], xr_progress_count := xr_progress_count r + 1\<rparr>, Inr ()))"

primrec run_enroll ::
  "enroll_run \<Rightarrow> OperationId \<Rightarrow> EnrollmentWorld \<Rightarrow> EnrollmentJobRun \<Rightarrow>
   EnrollmentJobRun \<times> (EnrollmentEngineFailure + TemplateRecord) option" where
  "run_enroll (EnrollDone result) i w r = (r, Some result)"
| "run_enroll EnrollPanic i w r = (r, None)"
| "run_enroll (EnrollReport code k) i w r =
     (case enrollment_job_progress i w code r of (r', answer) \<Rightarrow> run_enroll (k answer) i w r')"

text \<open>
  The sink of templates is an operation on a state of its own; a record reaches it only for the account of
  the job, valid, and with the job not cancelled.
\<close>

type_synonym 'd EnrollmentTemplateSink = "TemplateRecord \<Rightarrow> 'd \<Rightarrow> 'd \<times> (StorageError + unit)"

definition commit_result ::
  "'d EnrollmentTemplateSink \<Rightarrow> bool \<Rightarrow> u32 \<Rightarrow> EnrollmentEngineFailure + TemplateRecord \<Rightarrow> 'd \<Rightarrow>
   'd \<times> (EnrollmentEngineFailure + unit)" where
  "commit_result sink cancelled uid result d =
     (case result of
        Inl e \<Rightarrow> (d, Inl e)
      | Inr template \<Rightarrow>
          if cancelled then (d, Inl XF_Cancelled)
          else if tr_uid template \<noteq> uid \<or> is_err (record_validate template) then (d, Inl XF_Internal)
          else apsnd (map_err (\<lambda>_. XF_Storage)) (sink template d))"

datatype EnrollmentEngineServiceError = XV_RequestChannelClosed | XV_ResultReceiverClosed

text \<open>
  \<open>run_job\<close>: the state, the state of the sink, the updates sent in order and the answer to the loop; the
  answer \<open>None\<close> is a panic of the engine.
\<close>

definition enrollment_run_job ::
  "(EnrollmentJob \<Rightarrow> enroll_run) \<Rightarrow> 'd EnrollmentTemplateSink \<Rightarrow> nat \<Rightarrow> EnrollmentWorld \<Rightarrow> EnrollmentRequest \<Rightarrow>
   EnrollmentState \<times> 'd \<Rightarrow>
   (EnrollmentState \<times> 'd) \<times> EnrollmentEngineUpdate list \<times> (EnrollmentEngineServiceError + unit) option" where
  "enrollment_run_job engine sink shutdown w request sd =
     (case sd of (s, d) \<Rightarrow>
      let job = (xq_job request)\<lparr>ej_shutdown := Some shutdown\<rparr>;
          i = ej_operation_id job;
          r0 = \<lparr>xr_sent = [], xr_progress_count = 0, xr_reports = 0\<rparr>;
          s' = s\<lparr>xs_resources := lease_drop (xq_lease request) (xs_resources s)\<rparr>
      in case (if xw_cancelled_before w then (r0, Some (Inl XF_Cancelled)) else run_enroll (engine job) i w r0) of
          (r, None) \<Rightarrow> ((s', d), xr_sent r, None)
        | (r, Some result) \<Rightarrow>
            (case commit_result sink (xw_cancelled_after w) (ej_target_uid job) result d of (d', committed) \<Rightarrow>
               ((s'\<lparr>xs_active := False\<rparr>, d'),
                xr_sent r @ (if xw_connected_at_end w then [XuCompleted i committed] else []),
                Some (if xw_connected_at_end w then Inr () else Inl XV_ResultReceiverClosed))))"

record EnrollmentTurn =
  xt_shutdown :: bool
  xt_clients :: "EnrollmentState \<Rightarrow> EnrollmentState"
  xt_connected :: bool
  xt_engine :: "EnrollmentJob \<Rightarrow> enroll_run"
  xt_world :: EnrollmentWorld

definition enrollment_service_stop :: "EnrollmentState \<Rightarrow> EnrollmentState" where
  "enrollment_service_stop s = s\<lparr>xs_receiver := False, xs_requests := [],
     xs_resources := foldl (\<lambda>a q. lease_drop (xq_lease q) a) (xs_resources s) (xs_requests s)\<rparr>"

fun enrollment_service ::
  "'d EnrollmentTemplateSink \<Rightarrow> nat \<Rightarrow> EnrollmentTurn list \<Rightarrow> EnrollmentState \<times> 'd \<Rightarrow>
   (EnrollmentState \<times> 'd) \<times> (EnrollmentEngineServiceError + unit) option option" where
  "enrollment_service sink shutdown [] sd = (sd, None)"
| "enrollment_service sink shutdown (t # ts) (s, d) =
     (if xt_shutdown t then ((enrollment_service_stop s, d), Some (Some (Inr ())))
      else let s1 = xt_clients t s in
        (case xs_requests s1 of
           request # rest \<Rightarrow>
             (case enrollment_run_job (xt_engine t) sink shutdown (xt_world t) request (s1\<lparr>xs_requests := rest\<rparr>, d) of
                (sd2, _, Some (Inr _)) \<Rightarrow> enrollment_service sink shutdown ts sd2
              | ((s2, d2), _, Some (Inl e)) \<Rightarrow> ((enrollment_service_stop s2, d2), Some (Some (Inl e)))
              | ((s2, d2), _, None) \<Rightarrow> ((enrollment_service_stop s2, d2), Some None))
         | [] \<Rightarrow> if xt_connected t then enrollment_service sink shutdown ts (s1, d)
                 else ((enrollment_service_stop s1, d), Some (Some (Inl XV_RequestChannelClosed)))))"

text \<open>The sink over the encrypted store.\<close>

definition save_template :: "key_loader \<Rightarrow> Codec \<Rightarrow> TemplateStore \<Rightarrow> Disk EnrollmentTemplateSink" where
  "save_template load_key cd S template d =
     (case save_with_generation load_key cd S template d of (d', r) \<Rightarrow> (d', try_bind r (\<lambda>_. Inr ())))"

section \<open>The bridge to Manager1\<close>

fun submit_error_text :: "EnrollmentEngineSubmitError \<Rightarrow> string" where
  "submit_error_text XS_Busy = ''enrollment engine is busy''"
| "submit_error_text XS_ResourceUnavailable = ''biometric resources are unavailable''"
| "submit_error_text XS_WorkerStopped = ''enrollment engine worker has stopped''"

text \<open>
  The operation the bridge controls, whether its update handle is still there, and with it the state of the
  worker and the store of cancellation flags.
\<close>

record ControlledOperation =
  cn_operation_id :: OperationId
  cn_cancellation :: EnrollmentCancellation
  cn_handle :: bool

record EnrollmentControllerBridge =
  eb_config :: EnrollmentConfig
  eb_active :: "ControlledOperation option"
  eb_poisoned :: bool
  eb_client :: EnrollmentState
  eb_cells :: "bool list"

definition bridge_new :: "EnrollmentState \<Rightarrow> EnrollmentConfig \<Rightarrow> bool list \<Rightarrow> EnrollmentControllerBridge" where
  "bridge_new client c cells =
     \<lparr>eb_config = c, eb_active = None, eb_poisoned = False, eb_client = client, eb_cells = cells\<rparr>"

definition take_handle ::
  "OperationId \<Rightarrow> EnrollmentControllerBridge \<Rightarrow> EnrollmentControllerBridge \<times> (BackendError + unit)" where
  "take_handle i b =
     (if eb_poisoned b then (b, Inl ''enrollment controller lock is poisoned'')
      else case eb_active b of
          None \<Rightarrow> (b, Inl ''enrollment operation is not active'')
        | Some operation \<Rightarrow>
            if cn_operation_id operation \<noteq> i then (b, Inl ''enrollment operation is not active'')
            else if \<not> cn_handle operation then (b, Inl ''enrollment operation handle was already taken'')
            else (b\<lparr>eb_active := Some (operation\<lparr>cn_handle := False\<rparr>)\<rparr>, Inr ()))"

definition bridge_finish ::
  "OperationId \<Rightarrow> EnrollmentControllerBridge \<Rightarrow> EnrollmentControllerBridge \<times> (BackendError + unit)" where
  "bridge_finish i b =
     (if eb_poisoned b then (b, Inl ''enrollment controller lock is poisoned'')
      else if (case eb_active b of None \<Rightarrow> True | Some operation \<Rightarrow> cn_operation_id operation \<noteq> i)
      then (b, Inl ''enrollment operation is not active'')
      else (b\<lparr>eb_active := None\<rparr>, Inr ()))"

definition bridge_start ::
  "AuthorizedEnrollment \<Rightarrow> OperationId \<Rightarrow> u64 \<Rightarrow> EnrollmentControllerBridge \<Rightarrow>
   EnrollmentControllerBridge \<times> (BackendError + unit)" where
  "bridge_start authorization i issued b =
     (if eb_poisoned b then (b, Inl ''enrollment controller lock is poisoned'')
      else if eb_active b \<noteq> None then (b, Inl ''another enrollment operation is active'')
      else (case cancellation_default (eb_cells b) of (cancellation, cells) \<Rightarrow>
        (case enrollment_submit (eb_client b) (enrollment_job_new i authorization (eb_config b) issued cancellation) of
           (client, Inl e) \<Rightarrow> (b\<lparr>eb_client := client, eb_cells := cells\<rparr>, Inl (submit_error_text e))
         | (client, Inr _) \<Rightarrow>
             (b\<lparr>eb_client := client, eb_cells := cells,
                eb_active := Some \<lparr>cn_operation_id = i, cn_cancellation = cancellation, cn_handle = True\<rparr>\<rparr>, Inr ()))))"

definition bridge_cancel ::
  "OperationId \<Rightarrow> EnrollmentControllerBridge \<Rightarrow> EnrollmentControllerBridge \<times> (BackendError + unit)" where
  "bridge_cancel i b =
     (if eb_poisoned b then (b, Inl ''enrollment controller lock is poisoned'')
      else case eb_active b of
          None \<Rightarrow> (b, Inl ''enrollment operation is not active'')
        | Some operation \<Rightarrow>
            if cn_operation_id operation \<noteq> i then (b, Inl ''enrollment operation is not active'')
            else (b\<lparr>eb_cells := cancellation_cancel (eb_cells b) (cn_cancellation operation)\<rparr>, Inr ()))"

definition bridge_controller :: "EnrollmentControllerBridge EnrollmentOperationController" where
  "bridge_controller = \<lparr>ct_start = bridge_start, ct_cancel = bridge_cancel\<rparr>"

section \<open>The relay\<close>

text \<open>
  One turn of the relay: what \<open>recv\<close> gives (\<open>None\<close> when the worker is gone), what other threads do before
  the coordinator is called and before the bridge is, the clock, and whether the update could be emitted.
\<close>

record RelayTurn =
  rl_update :: "EnrollmentEngineUpdate option"
  rl_others :: "nat \<Rightarrow> ManagementState \<times> EnrollmentControllerBridge \<Rightarrow> ManagementState \<times> EnrollmentControllerBridge"
  rl_now :: u64
  rl_emit :: "BackendError + unit"

fun relayed_result :: "EnrollmentEngineFailure + unit \<Rightarrow> ManagementResult" where
  "relayed_result (Inr _) = MR_Completed"
| "relayed_result (Inl XF_Cancelled) = MR_Cancelled"
| "relayed_result (Inl _) = MR_Failed"

text \<open>The call of the coordinator for one update; \<open>None\<close> is an update of another operation.\<close>

definition relay_call ::
  "u32 \<Rightarrow> OperationId \<Rightarrow> EnrollmentEngineUpdate \<Rightarrow> u64 \<Rightarrow> ManagementState \<Rightarrow>
   (ManagementState \<times> (WorkerError + ManagementUpdate)) option" where
  "relay_call uid i update now s =
     (case update of
        XuProgress j p \<Rightarrow> if j = i then Some (worker_progress s uid i p now) else None
      | XuCompleted j result \<Rightarrow> if j = i then Some (worker_complete s uid i (relayed_result result) now) else None)"

definition relay_finish ::
  "OperationId \<Rightarrow> ManagementState \<times> EnrollmentControllerBridge \<Rightarrow>
   (ManagementState \<times> EnrollmentControllerBridge) \<times> (BackendError + unit)" where
  "relay_finish i sb = (case sb of (s, b) \<Rightarrow> (case bridge_finish i b of (b, r) \<Rightarrow> ((s, b), r)))"

text \<open>
  The loop: the states, the updates emitted, and the result; \<open>None\<close> is a relay still waiting after the
  given turns.
\<close>

fun relay_loop ::
  "u32 \<Rightarrow> OperationId \<Rightarrow> RelayTurn list \<Rightarrow> ManagementState \<times> EnrollmentControllerBridge \<Rightarrow>
   (ManagementState \<times> EnrollmentControllerBridge) \<times> ManagementUpdate list \<times> (BackendError + unit) option" where
  "relay_loop uid i [] sb = (sb, [], None)"
| "relay_loop uid i (t # ts) sb =
     (case rl_others t 0 sb of (s, b) \<Rightarrow>
     (case rl_update t of
        None \<Rightarrow> ((s, b), [], Some (Inl ''enrollment worker update channel closed''))
      | Some update \<Rightarrow>
     (case relay_call uid i update (rl_now t) s of
        None \<Rightarrow> ((s, b), [], Some (Inl ''enrollment worker update is misbound''))
      | Some (s, Inl (WE_Management ME_NoActiveOperation)) \<Rightarrow>
          (case relay_finish i (rl_others t 1 (s, b)) of (sb, r) \<Rightarrow> (sb, [], Some r))
      | Some (s, Inl e) \<Rightarrow> ((s, b), [], Some (Inl (worker_error_text e)))
      | Some (s, Inr public) \<Rightarrow>
          (case rl_emit t of
             Inl e \<Rightarrow> ((s, b), [], Some (Inl e))
           | Inr _ \<Rightarrow>
              (case public of
                 MU_Completed _ _ \<Rightarrow>
                   (case relay_finish i (rl_others t 1 (s, b)) of (sb, r) \<Rightarrow> (sb, [public], Some r))
               | MU_Progress _ _ \<Rightarrow> apsnd (apfst ((#) public)) (relay_loop uid i ts (s, b)))))))"

definition relay ::
  "u32 \<Rightarrow> OperationId \<Rightarrow> RelayTurn list \<Rightarrow> ManagementState \<times> EnrollmentControllerBridge \<Rightarrow>
   (ManagementState \<times> EnrollmentControllerBridge) \<times> ManagementUpdate list \<times> (BackendError + unit) option" where
  "relay uid i turns sb =
     (case sb of (s, b) \<Rightarrow>
      (case take_handle i b of
         (b, Inl e) \<Rightarrow> ((s, b), [], Some (Inl e))
       | (b, Inr _) \<Rightarrow> relay_loop uid i turns (s, b)))"

end
