(* ===== verification/EnrollmentWorker.thy ===== *)
theory EnrollmentWorker
  imports EnrollmentEngine
begin

text \<open>
  What the enrollment worker guarantees: what a job commits, what an enrolled template rests on, how many
  observations a job can use, and what becomes of a cancelled or timed-out operation in the relay.
\<close>

section \<open>Jobs\<close>

fun progress_of :: "OperationId \<Rightarrow> EnrollmentEngineUpdate \<Rightarrow> bool" where
  "progress_of i (XuProgress j _) = (j = i)"
| "progress_of i (XuCompleted _ _) = False"

definition xr_inv :: "OperationId \<Rightarrow> EnrollmentJobRun \<Rightarrow> bool" where
  "xr_inv i r \<longleftrightarrow> list_all (progress_of i) (xr_sent r) \<and> length (xr_sent r) = xr_progress_count r \<and>
     xr_progress_count r \<le> 32"

abbreviation xr_start :: EnrollmentJobRun where
  "xr_start \<equiv> \<lparr>xr_sent = [], xr_progress_count = 0, xr_reports = 0\<rparr>"

lemma xr_start_inv [simp]: "xr_inv i xr_start"
  by (simp add: xr_inv_def)

lemma enrollment_job_progress_inv: "xr_inv i r \<Longrightarrow> xr_inv i (fst (enrollment_job_progress i w c r))"
  by (auto simp: xr_inv_def enrollment_job_progress_def ENROLLMENT_MAX_PROGRESS_UPDATES_def Let_def)

lemma run_enroll_inv: "xr_inv i r \<Longrightarrow> run_enroll e i w r = (r', result) \<Longrightarrow> xr_inv i r'"
proof (induction e arbitrary: r)
  case (EnrollReport c k)
  obtain r1 a where p: "enrollment_job_progress i w c r = (r1, a)" by fastforce
  with enrollment_job_progress_inv [OF EnrollReport.prems(1), of w c] have "xr_inv i r1" by simp
  with EnrollReport.IH [of "k a" r1] EnrollReport.prems(2) p show ?case by (simp add: range_eqI)
qed simp_all

text \<open>What a commit does to the sink.\<close>

definition committed ::
  "'d EnrollmentTemplateSink \<Rightarrow> u32 \<Rightarrow> bool \<Rightarrow> 'd \<Rightarrow> 'd \<Rightarrow> EnrollmentEngineFailure + unit \<Rightarrow> bool" where
  "committed sink uid cancelled d d' result \<longleftrightarrow>
     (case result of
        Inr _ \<Rightarrow> \<not> cancelled \<and> (\<exists>t. tr_uid t = uid \<and> record_validate t = Inr () \<and> sink t d = (d', Inr ()))
      | Inl e \<Rightarrow> d' = d \<or> (e = XF_Storage \<and> \<not> cancelled \<and>
          (\<exists>t f. tr_uid t = uid \<and> record_validate t = Inr () \<and> sink t d = (d', Inl f))))"

lemma not_is_err_unit: "\<not> is_err (x :: 'e + unit) \<longleftrightarrow> x = Inr ()"
  by (cases x) simp_all

lemma commit_result_committed:
  "commit_result sink cancelled uid result d = (d', r) \<Longrightarrow> committed sink uid cancelled d d' r"
  by (cases result; cases "sink (projr result) d")
    (auto simp: commit_result_def committed_def result_simps not_is_err_unit split: if_splits sum.splits)

lemma enrollment_run_job_shape:
  assumes "enrollment_run_job engine sink shutdown w q (s, d) = ((s', d'), sent, outcome)"
  shows "\<exists>us. list_all (progress_of (ej_operation_id (xq_job q))) us \<and> length us \<le> 32 \<and>
    (case outcome of
       None \<Rightarrow> sent = us \<and> d' = d
     | Some answer \<Rightarrow> \<exists>result. committed sink (ej_target_uid (xq_job q)) (xw_cancelled_after w) d d' result \<and>
         sent = us @ (if xw_connected_at_end w then [XuCompleted (ej_operation_id (xq_job q)) result] else []) \<and>
         answer = (if xw_connected_at_end w then Inr () else Inl XV_ResultReceiverClosed))"
proof -
  let ?job = "(xq_job q)\<lparr>ej_shutdown := Some shutdown\<rparr>"
  obtain r result where run: "(if xw_cancelled_before w then (xr_start, Some (Inl XF_Cancelled))
      else run_enroll (engine ?job) (ej_operation_id ?job) w xr_start) = (r, result)" by fastforce
  have "xr_inv (ej_operation_id ?job) r"
    using run run_enroll_inv [OF xr_start_inv, where r' = r] by (auto split: if_splits)
  then have inv: "xr_inv (ej_operation_id (xq_job q)) r" by simp
  show ?thesis
  proof (cases result)
    case None
    with assms have "sent = xr_sent r \<and> d' = d \<and> outcome = None"
      by (simp add: enrollment_run_job_def Let_def run)
    with inv show ?thesis by (auto simp: xr_inv_def)
  next
    case (Some res)
    obtain d1 c where c: "commit_result sink (xw_cancelled_after w) (ej_target_uid (xq_job q)) res d = (d1, c)" by fastforce
    with assms run Some have "d' = d1" "outcome = Some (if xw_connected_at_end w then Inr () else Inl XV_ResultReceiverClosed)"
      "sent = xr_sent r @ (if xw_connected_at_end w then [XuCompleted (ej_operation_id (xq_job q)) c] else [])"
      by (cases "xw_connected_at_end w"; simp add: enrollment_run_job_def Let_def ej_target_uid_def run)+
    with inv commit_result_committed [OF c] show ?thesis by (auto simp: xr_inv_def)
  qed
qed

section \<open>The accumulator\<close>

text \<open>A template made of observations of a kind: those that were accepted, and what is known of them.\<close>

definition enrolled_from ::
  "(DerivedBiometricObservation \<Rightarrow> bool) \<Rightarrow> PassivePadPolicy \<Rightarrow> EnrollmentJob \<Rightarrow> TemplateRecord \<Rightarrow> bool" where
  "enrolled_from Q pad job t \<longleftrightarrow>
     (\<exists>ds. let c = ej_config job; obs = map (enrollment_observation True) ds in
        list_all Q ds \<and> list_all (\<lambda>d. pad_accepts pad (dv_passive_liveness d) = Inr True) ds \<and>
        tr_uid t = ej_target_uid job \<and> record_validate t = Inr () \<and>
        unat (ec_minimum_samples c) \<le> length ds \<and> length ds \<le> unat (ec_maximum_samples c) \<and>
        list_all (admissible c (ej_issued_at_micros job) (ej_issued_at_micros job + ec_duration_micros c)) obs \<and>
        successively (spaced c) obs \<and> sorted_wrt (same_person c) obs \<and>
        list_all (\<lambda>d. fe_compatibility_sha256 (dv_embedding d) = tr_model_compatibility_sha256 t) ds \<and>
        list_ex (\<lambda>a. list_ex (\<lambda>b. fp_le (ec_minimum_yaw_span_degrees c) (fp_sub F32 (dv_yaw_degrees b) (dv_yaw_degrees a))) ds) ds)"

definition accumulator_inv ::
  "(DerivedBiometricObservation \<Rightarrow> bool) \<Rightarrow> PassivePadPolicy \<Rightarrow> EnrollmentJob \<Rightarrow> EnrollmentAccumulator \<Rightarrow>
   DerivedBiometricObservation list \<Rightarrow> bool" where
  "accumulator_inv Q pad job a ds \<longleftrightarrow> ea_passive_pad a = pad \<and>
     list_all Q ds \<and> list_all (\<lambda>d. pad_accepts pad (dv_passive_liveness d) = Inr True) ds \<and>
     (case ea_session a of None \<Rightarrow> True
      | Some s \<Rightarrow> enrollment_inv s (map (enrollment_observation True) ds) \<and> es_config s = ej_config job \<and>
          es_uid s = ej_target_uid job \<and> es_issued_at_micros s = ej_issued_at_micros job \<and>
          es_deadline_micros s = ej_issued_at_micros job + ec_duration_micros (ej_config job) \<and>
          enrollment_config_validate (ej_config job) = Inr ())"

lemma finished_enrolled:
  assumes "enrollment_finish s now = Inr t" and "accumulator_inv Q pad job a ds" and "ea_session a = Some s"
  shows "enrolled_from Q pad job t"
proof -
  let ?obs = "map (enrollment_observation True) ds"
  have inv: "enrollment_inv s ?obs" "es_config s = ej_config job" "es_uid s = ej_target_uid job"
      "es_issued_at_micros s = ej_issued_at_micros job" "enrollment_config_validate (ej_config job) = Inr ()"
      "es_deadline_micros s = ej_issued_at_micros job + ec_duration_micros (ej_config job)"
    using assms(2,3) by (simp_all add: accumulator_inv_def)
  note fin = finish_ok [OF assms(1) inv(1)]
  have digest: "list_all (\<lambda>ob. eo_digest ob = tr_model_compatibility_sha256 t) ?obs"
  proof (cases ?obs)
    case (Cons b bs)
    with inv(1) fin show ?thesis by (auto simp: enrollment_inv_def same_person_def list_all_iff)
  qed simp
  show ?thesis
    unfolding enrolled_from_def Let_def
    by (rule exI [of _ ds])
      (use fin inv digest assms(2) in \<open>auto simp: accumulator_inv_def enrollment_inv_def list_ex_iff list_all_iff
        enrollment_observation_def\<close>)
qed

lemma accumulator_observe_ok:
  assumes inv: "accumulator_inv Q pad job a ds" and Q: "Q d" and run: "accumulator_observe a d = (a', r)"
  shows "(\<exists>ds'. accumulator_inv Q pad job a' ds') \<and> (case r of Inr (Some t) \<Rightarrow> enrolled_from Q pad job t | _ \<Rightarrow> True)"
proof (cases "(a', r) = (a, Inr None) \<or> (\<exists>e. (a', r) = (a, Inl e))")
  case True
  with inv show ?thesis by auto
next
  case False
  obtain live where pad: "pad_accepts (ea_passive_pad a) (dv_passive_liveness d) = Inr live"
    by (cases "pad_accepts (ea_passive_pad a) (dv_passive_liveness d)")
      (use run False in \<open>auto simp: accumulator_observe_def Let_def split: if_splits\<close>)
  obtain active where old: "ea_session a = Some active"
    by (cases "ea_session a") (use run False pad in \<open>auto simp: accumulator_observe_def Let_def split: if_splits\<close>)
  obtain s1 q where new: "enrollment_observe active (enrollment_observation live d) = (s1, q)" by fastforce
  have p: "pad_accepts pad (dv_passive_liveness d) = Inr live" "ea_session a = Some active"
      "enrollment_observe active (enrollment_observation live d) = (s1, q)"
    using pad old new inv by (simp_all add: accumulator_inv_def)
  let ?ob = "enrollment_observation live d"
  have active: "enrollment_inv active (map (enrollment_observation True) ds)" using inv p(2) by (simp add: accumulator_inv_def)
  note step = enrollment_observe_inv [OF p(3) active] observe_frame [OF p(3)]
  show ?thesis
  proof (cases q)
    case (Inl e)
    have refused: "accumulator_inv Q pad job (a\<lparr>ea_session := Some s1\<rparr>) ds"
      using inv p(2) step Inl by (simp add: accumulator_inv_def)
    have "a' = a\<lparr>ea_session := Some s1\<rparr>" "case r of Inr (Some t) \<Rightarrow> False | _ \<Rightarrow> True"
      using run False p Inl inv
      by (auto simp: accumulator_observe_def accumulator_inv_def Let_def split: if_splits EnrollmentError.splits)
    with refused show ?thesis by (auto split: sum.splits option.splits)
  next
    case (Inr u)
    have "enrollment_inv s1 (map (enrollment_observation True) ds @ [?ob])" using step Inr by simp
    moreover from this have "live" by (simp add: enrollment_inv_def admissible_def enrollment_observation_def)
    ultimately have accepted:
      "accumulator_inv Q pad job (a\<lparr>ea_session := Some s1, ea_last_accepted_timestamp := x\<rparr>) (ds @ [d])" for x
      using inv p step Q by (simp add: accumulator_inv_def)
    let ?now = "dv_completed_at_micros d"
    let ?a1 = "a\<lparr>ea_session := Some s1, ea_last_accepted_timestamp := Some ?now\<rparr>"
    have "accumulator_accepted ?a1 s1 ?now = (a', r)"
      using run False p Inr inv by (auto simp: accumulator_observe_def accumulator_inv_def Let_def split: if_splits)
    moreover have "accumulator_inv Q pad job (?a1\<lparr>ea_session := None\<rparr>) (ds @ [d])"
      using accepted [of "Some ?now"] by (simp add: accumulator_inv_def)
    ultimately show ?thesis
      using accepted [of "Some ?now"] finished_enrolled [OF _ accepted [of "Some ?now"], of s1 ?now]
      by (auto simp: accumulator_accepted_def result_simps split: if_splits sum.splits option.splits)
  qed
qed

lemma enrollment_consume_ok:
  assumes "accumulator_inv Q pad job a ds" and "Q d" and "enrollment_consume before after a d = (a', r)"
  shows "(\<exists>ds'. accumulator_inv Q pad job a' ds') \<and> (case r of Inr (Some t) \<Rightarrow> enrolled_from Q pad job t | _ \<Rightarrow> True)"
proof -
  obtain a1 r1 where o: "accumulator_observe a d = (a1, r1)" by fastforce
  from accumulator_observe_ok [OF assms(1,2) o] assms(1,3) o show ?thesis
    by (auto simp: enrollment_consume_def split: if_splits sum.splits option.splits)
qed

lemma accumulated_enrolled:
  assumes "session_ok Q (enrolled_from Q pad job) run" and "accumulator_inv Q pad job a ds"
    and "run_enroll (accumulated_run x run n a) i w r = (r', Some (Inr t))"
  shows "enrolled_from Q pad job t"
  using assms
proof (induction run arbitrary: n a ds r)
  case (SessionDone y)
  then show ?case by (auto simp: result_simps split: sum.splits)
next
  case (SessionReport code k)
  obtain r1 b where p: "enrollment_job_progress i w (enrollment_progress code) r = (r1, b)" by fastforce
  with SessionReport.prems SessionReport.IH [OF rangeI] show ?case by simp
next
  case (SessionObserve d k)
  obtain a1 q where c: "enrollment_consume (xa_before x n) (xa_after x n) a d = (a1, q)" by fastforce
  have "Q d" using SessionObserve.prems(1) by simp
  from enrollment_consume_ok [OF SessionObserve.prems(2) this c] obtain ds' where
    ok: "accumulator_inv Q pad job a1 ds'" "case q of Inr (Some t) \<Rightarrow> enrolled_from Q pad job t | _ \<Rightarrow> True" by blast
  have "session_ok Q (enrolled_from Q pad job) (k q)" using SessionObserve.prems(1) ok(2) by auto
  from SessionObserve.IH [OF rangeI this ok(1)] SessionObserve.prems(3) c show ?case by simp
qed simp

lemma start_session_inv:
  assumes "start_session job = Inr s"
  shows "accumulator_inv Q pad job (accumulator_new s pad interval) []"
proof -
  note start = enrollment_start_inv [OF assms [unfolded start_session_def]]
  then have "es_deadline_micros s = ej_issued_at_micros job + ec_duration_micros (ej_config job)"
    using assms by (auto simp: start_session_def enrollment_start_def result_simps checked_simps)
  with start show ?thesis by (simp add: accumulator_inv_def accumulator_new_def)
qed

lemma enroll_enrolled:
  assumes "run_enroll (enroll engine x w job) i world r = (r', Some (Inr t))"
  shows "enrolled_from (genuine (pe_pipeline engine) (pe_challenge engine) (sw_draw w)) (pe_passive_pad engine) job t"
proof -
  obtain r1 a where p: "enrollment_job_progress i world MP_Preparing r = (r1, a)" by fastforce
  from assms p obtain s where s: "start_session job = Inr s"
      "run_enroll (accumulated_run x (run_session (pe_pipeline engine) (pe_challenge engine) w) 0
         (accumulator_new s (pe_passive_pad engine) (ec_minimum_sample_interval_micros (ej_config job)))) i world r1 =
       (r', Some (Inr t))"
    by (auto simp: enroll_def split: if_splits sum.splits)
  show ?thesis by (rule accumulated_enrolled [OF run_session_ok start_session_inv [OF s(1)] s(2)])
qed

end
