(* ===== verification/ManagerProperties.thy ===== *)
theory ManagerProperties
  imports Manager
begin

text \<open>
  What Manager1 guarantees: who may begin and who may end an operation, the public life of an operation
  under every interleaving of its critical sections, the cleanup after a disconnected owner, the end of
  the service, and the answers of the template state worker.
\<close>

lemma coordinated_answer:
  "coordinated call s = (s', Inr u) \<Longrightarrow> \<not> ms_poisoned s \<and> snd (call (ms_coordinator s)) = Inr u \<and>
     s' = clear_owner_if_terminal u (s\<lparr>ms_coordinator := fst (call (ms_coordinator s))\<rparr>)"
  by (auto simp: coordinated_def split: if_splits prod.splits sum.splits)

lemma begin_locked_ok:
  "begin_locked a now random sender uid s = (s', Inr u) \<longleftrightarrow>
     \<not> ms_poisoned s \<and> mc_active (ms_coordinator s) = None \<and> u = MU_Progress (operation_generate random) MP_Preparing \<and>
     (\<exists>deadline. checked_add now (operation_duration_micros (mc_config (ms_coordinator s))) = Some deadline \<and>
        s' = s\<lparr>ms_coordinator := (ms_coordinator s)\<lparr>mc_active := Some \<lparr>op_id = operation_generate random, op_uid = ae_target_uid a,
            op_deadline_micros = deadline\<rparr>\<rparr>,
          ms_owner := Some \<lparr>oo_sender = sender, oo_target_uid = uid, oo_operation_id = operation_generate random\<rparr>\<rparr>)"
  by (auto simp: begin_locked_def management_start_def Let_def split: option.splits)

lemma begin_impl_ok:
  assumes "begin_enrollment_impl unique w sender uid sc = (sc', Inr (i, p))"
  shows "\<exists>a s c s'. begin_checks unique (mw_backend w) sender uid = Inr a \<and> mw_others w 0 sc = (s, c) \<and>
    begin_locked a (mw_now w 0) (mw_random w) sender uid s = (s', Inr (MU_Progress i p))"
  using assms
  by (auto simp: begin_enrollment_impl_def split: sum.splits prod.splits ManagementUpdate.splits option.splits)

section \<open>Properties\<close>

text \<open>
  C8. Who may begin an enrollment. If \<open>BeginEnrollment\<close> answers an operation, then the sender is a unique
  name of the bus, the bus gave its user as the account both times it was asked, the policy service
  authorized enrollment for this very sender, the grant was issued to a root peer whose executable a rule
  for the enrollment service lists, and the coordinator was free.
\<close>

theorem begin_enrollment_provenance:
  assumes "mw_backend w = system_bus_backend (system_bus_authority unique answers) state (issue_grant unique issuer random)"
    and "begin_enrollment_impl unique w sender uid sc = (sc', Inr (i, p))"
  shows "unique sender \<and> ba_unix_user (answers 0) sender = Inr uid \<and> bus_granted unique answers issuer sender uid \<and>
    \<not> management_is_busy (ms_coordinator (fst (mw_others w 0 sc))) \<and> i = operation_generate (mw_random w) \<and> p = MP_Preparing"
proof -
  from begin_impl_ok [OF assms(2)] obtain a s c s' where
    b: "begin_checks unique (mw_backend w) sender uid = Inr a" "mw_others w 0 sc = (s, c)"
      "begin_locked a (mw_now w 0) (mw_random w) sender uid s = (s', Inr (MU_Progress i p))" by blast
  from system_bus.checks_granted [OF b(1) [unfolded assms(1)]] b(2,3) show ?thesis
    by (auto simp: begin_locked_ok management_is_busy_def system_bus_backend_def system_bus_authority_def
        bus_caller_uid_def unique_sender_def result_simps)
qed

text \<open>
  C20. Who may end an enrollment. A cancellation succeeds only for the connection that owns the operation,
  with its account and identifier; it then closes that operation, as cancelled or as timed out, and frees
  the capacity. A refused cancellation leaves the state as it was.
\<close>

theorem cancellation_by_owner_only:
  "case cancel_locked sender uid i now s of
     (s', Inl e) \<Rightarrow> s' = s
   | (s', Inr u) \<Rightarrow> (\<exists>owner a. ms_owner s = Some owner \<and> oo_sender owner = sender \<and>
       mc_active (ms_coordinator s) = Some a \<and> op_id a = i \<and> op_uid a = uid \<and>
       u = MU_Completed i (if op_deadline_micros a \<le> now then MR_TimedOut else MR_Cancelled)) \<and>
       ms_owner s' = None \<and> \<not> management_is_busy (ms_coordinator s')"
  by (cases "mc_active (ms_coordinator s)")
    (auto simp: cancel_locked_def management_op_defs management_is_busy_def split: option.splits if_splits prod.splits sum.splits)

text \<open>
  C21. The public life of an operation. Whatever threads do, in whatever order, and whoever panics: the
  updates of Manager1 open one operation at a time and close each at most once, and the recorded owner is
  always the one of the active operation.
\<close>

theorem manager_single_terminal:
  assumes "management_new config = Inr m" and "run_ops manager_step (manager_new m) xs = (s, outs)"
  shows "bracketed None (slot_events manager_event outs) \<and> owner_inv s"
proof -
  have start: "manager_owner (manager_new m) = None" "owner_inv (manager_new m)"
    using management_new_ok [OF assms(1)] by (simp_all add: manager_owner_def management_owner_def manager_new_def owner_inv_def)
  moreover have "owner_inv (fst (run_ops manager_step (manager_new m) xs))"
    by (rule run_ops_invariant) (use start manager_step_owner in auto)
  ultimately show ?thesis using manager_slot.run_bracketed [of "manager_new m" xs] assms(2) by simp
qed

text \<open>
  A disconnected owner. When the connection that owns the active operation leaves the bus and the worker
  takes the cancellation, the operation is closed with one terminal update and the capacity is free; the
  departure of any other connection, an arrival, or a well-known name changes nothing.
\<close>

theorem disconnect_releases:
  assumes "owner_inv s" and "\<not> ms_poisoned s" and "\<And>n. mw_others w n = id"
    and "controller_cancel (mw_controller w) = (\<lambda>i c. (f i c, Inr ()))"
  shows "handle_owner_change unique w name had has (s, c) =
    (case ms_owner s of
       Some owner \<Rightarrow>
         (if had \<and> \<not> has \<and> unique name \<and> oo_sender owner = name
          then ((s\<lparr>ms_coordinator := (ms_coordinator s)\<lparr>mc_active := None\<rparr>, ms_owner := None\<rparr>, f (oo_operation_id owner) c),
                Inr (Some (MU_Completed (oo_operation_id owner)
                  (if op_deadline_micros (the (mc_active (ms_coordinator s))) \<le> mw_now w 0 then MR_TimedOut else MR_Cancelled))))
          else ((s, c), Inr None))
     | None \<Rightarrow> ((s, c), Inr None))"
  using assms(1,2)
  by (auto simp: handle_owner_change_def cancel_sender_def assms(3,4) unique_sender_def owner_inv_def coordinated_def
      management_op_defs split: option.splits)

fun terminal_signal :: "Signal \<Rightarrow> bool" where
  "terminal_signal (EnrollmentCompleted _ _) = True"
| "terminal_signal (EnrollmentProgress _ _) = False"

lemma cancel_sender_terminal:
  "cancel_sender w sender sc = (sc', Inr (Some u)) \<Longrightarrow> \<exists>i r. u = MU_Completed i r"
  by (auto simp: cancel_sender_def coordinated_def management_op_defs result_simps
      split: prod.splits option.splits if_splits sum.splits)

lemma manager_loop_sound:
  "manager_loop unique uuid_text inputs sc = (sc', signals, result) \<Longrightarrow>
     list_all terminal_signal signals \<and> (result = Some (Inr ()) \<longrightarrow> SvShutdown \<in> set inputs)"
proof (induction unique uuid_text inputs sc arbitrary: sc' signals result rule: manager_loop.induct)
  case (5 unique uuid_text name had has w rest sc)
  obtain sc1 r where h: "handle_owner_change unique w name had has sc = (sc1, r)" by fastforce
  show ?case
  proof (cases r)
    case (Inl e)
    with 5(3) h show ?thesis by auto
  next
    case (Inr u)
    show ?thesis
    proof (cases u)
      case None
      with 5(3) h Inr 5(1) [OF h [symmetric] Inr None] show ?thesis by auto
    next
      case (Some update)
      have "cancel_sender w name sc = (sc1, Inr (Some update))"
        using h Inr Some by (auto simp: handle_owner_change_def split: if_splits)
      from cancel_sender_terminal [OF this] obtain i a where u: "update = MU_Completed i a" by blast
      show ?thesis
      proof (cases "mw_signal w")
        case (Inl e)
        with 5(3) h Inr Some show ?thesis by auto
      next
        case signalled: (Inr x)
        obtain sc2 ss r2 where l: "manager_loop unique uuid_text rest sc1 = (sc2, ss, r2)" by (metis prod_cases3)
        from 5(2) [OF h [symmetric] Inr Some signalled l] 5(3) h Inr Some signalled l u show ?thesis by auto
      qed
    qed
  qed
qed auto

text \<open>
  The service. It ends well only after a shutdown; an end after its activation gives back the name and
  the object; and the only signals of its own are terminal. Only when the bus fails to answer the request for
  the name does it end with the object still registered.
\<close>

theorem manager_service_sound:
  "case run_manager1_service_until_shutdown unique uuid_text u inputs sc of
     (presence, _, signals, result) \<Rightarrow>
       list_all terminal_signal signals \<and>
       (if result = Some (Inr ()) then SvShutdown \<in> set inputs \<and> su_added u = Inr True else True) \<and>
       (if result = None then presence = \<lparr>bp_registered = True, bp_named = True\<rparr>
        else \<not> bp_named presence \<and> (bp_registered presence = (su_added u = Inr True \<and> is_err (su_name u) \<and>
          is_ok (su_proxy u) \<and> is_ok (su_subscribed u) \<and> is_ok (su_context u))))"
proof -
  obtain sc' signals result where l: "manager_loop unique uuid_text inputs sc = (sc', signals, result)" by (metis prod_cases3)
  note sound = manager_loop_sound [OF l]
  obtain presence r where a: "service_activation u = (presence, r)" by fastforce
  show ?thesis
  proof (cases r)
    case (Inl e)
    with a show ?thesis
      by (auto simp: run_manager1_service_until_shutdown_def service_activation_def result_simps split: sum.splits if_splits)
  next
    case (Inr x)
    with a l sound show ?thesis
      by (auto simp: run_manager1_service_until_shutdown_def service_activation_def result_simps split: sum.splits if_splits)
  qed
qed

section \<open>The template state worker\<close>

text \<open>Queries and turns of the worker in any order; the second component lists the admitted queries.\<close>

datatype source_op = SoQuery u32 nat | SoTurn

fun source_run ::
  "(u32 \<Rightarrow> BackendError + bool) \<Rightarrow> source_op list \<Rightarrow> BoundedEnrollmentStateSource \<Rightarrow>
   BoundedEnrollmentStateSource \<times> (u32 \<times> nat) list" where
  "source_run reader [] s = (s, [])"
| "source_run reader (SoTurn # ops) s = source_run reader ops (state_worker_turn reader s)"
| "source_run reader (SoQuery uid k # ops) s =
     (case state_source_query s uid k of
        (s', Inl _) \<Rightarrow> source_run reader ops s'
      | (s', Inr _) \<Rightarrow> apsnd ((#) (uid, k)) (source_run reader ops s'))"

abbreviation source_answer :: "(u32 \<Rightarrow> BackendError + bool) \<Rightarrow> u32 \<times> nat \<Rightarrow> nat \<times> (BackendError + bool)" where
  "source_answer reader q \<equiv> (snd q, reader (fst q))"

text \<open>What has been answered, and what the queue still holds, are the admitted queries in order.\<close>

definition source_inv ::
  "(u32 \<Rightarrow> BackendError + bool) \<Rightarrow> BoundedEnrollmentStateSource \<Rightarrow> (u32 \<times> nat) list \<Rightarrow> bool" where
  "source_inv reader s admitted \<longleftrightarrow> ss_worker s \<and> length (ss_queue s) \<le> ss_capacity s \<and>
     (\<exists>answered waiting. admitted = answered @ waiting \<and> ss_responses s = map (source_answer reader) answered \<and>
        ss_queue s = map (\<lambda>q. TS_Query (fst q) (snd q)) waiting)"

lemma source_turn_inv: "source_inv reader s admitted \<Longrightarrow> source_inv reader (state_worker_turn reader s) admitted"
proof -
  assume "source_inv reader s admitted"
  then obtain answered waiting where i: "ss_worker s" "length (ss_queue s) \<le> ss_capacity s" "admitted = answered @ waiting"
      "ss_responses s = map (source_answer reader) answered" "ss_queue s = map (\<lambda>q. TS_Query (fst q) (snd q)) waiting"
    by (auto simp: source_inv_def)
  show ?thesis
  proof (cases waiting)
    case Nil
    with i show ?thesis by (auto simp: source_inv_def state_worker_turn_def)
  next
    case (Cons q qs)
    with i have "state_worker_turn reader s = s\<lparr>ss_queue := map (\<lambda>q. TS_Query (fst q) (snd q)) qs,
        ss_responses := map (source_answer reader) (answered @ [q])\<rparr>" "admitted = (answered @ [q]) @ qs"
      by (simp_all add: state_worker_turn_def)
    with i Cons show ?thesis unfolding source_inv_def by (intro conjI exI [of _ "answered @ [q]"] exI [of _ qs]) auto
  qed
qed

lemma source_query_inv:
  assumes "source_inv reader s admitted" and "state_source_query s uid k = (s', Inr r)"
  shows "source_inv reader s' (admitted @ [(uid, k)])"
proof -
  from assms obtain answered waiting where "admitted = answered @ waiting" "ss_responses s = map (source_answer reader) answered"
      "ss_queue s = map (\<lambda>q. TS_Query (fst q) (snd q)) waiting" "length waiting < ss_capacity s" "ss_worker s"
      "s' = s\<lparr>ss_queue := ss_queue s @ [TS_Query uid k]\<rparr>"
    by (auto simp: source_inv_def state_source_query_def split: if_splits)
  then show ?thesis
    unfolding source_inv_def by (intro conjI exI [of _ answered] exI [of _ "waiting @ [(uid, k)]"]) auto
qed

lemma source_run_inv:
  "source_run reader ops s = (t, admitted') \<Longrightarrow> source_inv reader s admitted \<Longrightarrow>
     source_inv reader t (admitted @ admitted') \<and> ss_capacity t = ss_capacity s"
proof (induction reader ops s arbitrary: admitted admitted' rule: source_run.induct)
  case (2 reader ops s)
  have "ss_capacity (state_worker_turn reader s) = ss_capacity s"
    by (simp add: state_worker_turn_def split: list.splits TemplateStateRequest.splits)
  with 2 source_turn_inv show ?case by (metis source_run.simps(2))
next
  case (3 reader uid k ops s)
  obtain s1 r where q: "state_source_query s uid k = (s1, r)" by fastforce
  have cap: "ss_capacity s1 = ss_capacity s" using q by (auto simp: state_source_query_def split: if_splits)
  show ?case
  proof (cases r)
    case (Inl e)
    then have "s1 = s" using q by (auto simp: state_source_query_def split: if_splits)
    with 3(1) [OF q [symmetric] Inl] 3(3,4) q Inl show ?thesis by simp
  next
    case (Inr x)
    obtain t2 more where run: "source_run reader ops s1 = (t2, more)" by fastforce
    with 3(3) q Inr have eq: "t2 = t" "admitted' = (uid, k) # more" by simp_all
    from 3(2) [OF q [symmetric] Inr run [unfolded eq] source_query_inv [OF 3(4) q [unfolded Inr]]] cap eq show ?thesis by simp
  qed
qed simp

lemma worker_drains:
  "template_state_worker reader (map (\<lambda>q. TS_Query (fst q) (snd q)) qs @ [TS_Shutdown]) = map (source_answer reader) qs"
  by (induction qs) simp_all

text \<open>
  Template state queries. Whatever the order of queries and worker turns: the queue stays within its
  capacity, which is at most 64, and once the source is dropped the admitted queries, and no others, have
  been answered, each once, in order, with the state of its own account.
\<close>

theorem state_source_answers:
  assumes "state_source_new capacity spawned = Inr s0" and "source_run reader ops s0 = (s, admitted)"
  shows "ss_responses (state_source_drop reader s) = map (\<lambda>(uid, k). (k, reader uid)) admitted \<and>
    length (ss_queue s) \<le> capacity \<and> capacity \<le> 64"
proof -
  have new: "source_inv reader s0 []" "ss_capacity s0 = capacity" "capacity \<le> 64"
    using assms(1) by (auto simp: state_source_new_def MAX_TEMPLATE_STATE_QUEUE_CAPACITY_def result_simps source_inv_def split: if_splits)
  from source_run_inv [OF assms(2) new(1)] have inv: "source_inv reader s admitted" "ss_capacity s = capacity"
    using new(2) by simp_all
  then obtain answered waiting where "admitted = answered @ waiting" "ss_responses s = map (source_answer reader) answered"
      "ss_queue s = map (\<lambda>q. TS_Query (fst q) (snd q)) waiting" "ss_worker s" "length (ss_queue s) \<le> capacity"
    by (auto simp: source_inv_def)
  then show ?thesis using new(3) by (simp add: state_source_drop_def worker_drains case_prod_beta)
qed

section \<open>Examples\<close>

definition ex_bus :: BusAnswers where
  "ex_bus = \<lparr>ba_proxy = Inr (), ba_unix_user = (\<lambda>_. Inr 1000), ba_authority_proxy = Inr (), ba_check = (\<lambda>_ _ _ _. Inr True)\<rparr>"

definition ex_issuer :: BoundAuthorizationIssuer where
  "ex_issuer = \<lparr>issuer_policy = \<lparr>rules = [\<lparr>rule_service = ServiceName ''faceauth-enroll'', rule_purpose = Polkit,
       rule_caller = RootOnly, rule_executables = [\<lparr>device = 1, inode = 2\<rparr>]\<rparr>]\<rparr>,
     issuer_peer = \<lparr>peer_pid = 7, peer_uid = 0, peer_gid = 0\<rparr>,
     issuer_executable = \<lparr>fingerprint = \<lparr>device = 1, inode = 2\<rparr>\<rparr>,
     issuer_service = ServiceName ''faceauth-enroll'', issuer_purpose = Polkit\<rparr>"

definition ex_manager_coordinator :: ManagementCoordinator where
  "ex_manager_coordinator = \<lparr>mc_config = management_config_default, mc_active = None\<rparr>"

definition ex_manager_world :: "unit ManagerWorld" where
  "ex_manager_world = \<lparr>mw_backend = system_bus_backend (system_bus_authority (\<lambda>s. s = '':1.7'') (\<lambda>_. ex_bus)) (\<lambda>_. Inr False)
       (issue_grant (\<lambda>s. s = '':1.7'') ex_issuer 5),
     mw_controller = None, mw_now = (\<lambda>_. 1000), mw_random = 9, mw_others = (\<lambda>_. id), mw_signal = Inr ()\<rparr>"

lemma ex_manager_coordinator_new: "management_new management_config_default = Inr ex_manager_coordinator"
  by (simp add: management_new_def management_config_validate_def management_config_default_def ex_manager_coordinator_def
      MAX_OPERATION_DURATION_MICROS_def)

lemma ex_begin:
  "snd (begin_enrollment_impl (\<lambda>s. s = '':1.7'') ex_manager_world '':1.7'' 1000 (manager_new ex_manager_coordinator, ())) =
     Inr (operation_generate 9, MP_Preparing)"
  by (simp add: begin_enrollment_impl_def begin_checks_def ex_manager_world_def system_bus_backend_def system_bus_authority_def
      bus_caller_uid_def bus_authorize_enrollment_def unique_sender_def ex_bus_def require_target_def issue_grant_def issue_def
      authorize_def ex_issuer_def enrollment_from_grant_def ENROLLMENT_SERVICE_def begin_locked_def manager_new_def
      ex_manager_coordinator_def management_start_def management_config_default_def checked_add_def Let_def)

theorem begin_enrollment_provenance_witness:
  "bus_granted (\<lambda>s. s = '':1.7'') (\<lambda>_. ex_bus) ex_issuer '':1.7'' 1000"
proof -
  obtain sc' where b: "begin_enrollment_impl (\<lambda>s. s = '':1.7'') ex_manager_world '':1.7'' 1000 (manager_new ex_manager_coordinator, ()) =
      (sc', Inr (operation_generate 9, MP_Preparing))"
    using ex_begin by (metis prod.collapse)
  have "mw_backend ex_manager_world = system_bus_backend (system_bus_authority (\<lambda>s. s = '':1.7'') (\<lambda>_. ex_bus)) (\<lambda>_. Inr False)
      (issue_grant (\<lambda>s. s = '':1.7'') ex_issuer 5)"
    by (simp add: ex_manager_world_def)
  from begin_enrollment_provenance [OF this b] show ?thesis by simp
qed

theorem manager_single_terminal_witness:
  "bracketed None (slot_events manager_event (snd (run_ops manager_step (manager_new ex_manager_coordinator)
     [MoBegin \<lparr>ae_target_uid = 1000\<rparr> 0 9 '':1.7'', MoProgress 1000 (operation_generate 9) MP_HoldStill 5,
      MoCancel '':1.7'' 1000 (operation_generate 9) 6])))"
  using manager_single_terminal [OF ex_manager_coordinator_new, of
      "[MoBegin \<lparr>ae_target_uid = 1000\<rparr> 0 9 '':1.7'', MoProgress 1000 (operation_generate 9) MP_HoldStill 5,
        MoCancel '':1.7'' 1000 (operation_generate 9) 6]"]
  by (metis prod.collapse)

definition ex_owned :: ManagementState where
  "ex_owned = (manager_new ex_manager_coordinator)\<lparr>ms_coordinator := ex_manager_coordinator\<lparr>mc_active :=
       Some \<lparr>op_id = OperationId 9, op_uid = 1000, op_deadline_micros = 50\<rparr>\<rparr>,
     ms_owner := Some \<lparr>oo_sender = '':1.7'', oo_target_uid = 1000, oo_operation_id = OperationId 9\<rparr>\<rparr>"

theorem disconnect_releases_witness:
  "snd (handle_owner_change (\<lambda>s. s = '':1.7'') ex_manager_world '':1.7'' True False (ex_owned, ())) =
     Inr (Some (MU_Completed (OperationId 9) MR_TimedOut))"
proof -
  have "handle_owner_change (\<lambda>s. s = '':1.7'') ex_manager_world '':1.7'' True False (ex_owned, ()) =
    (case ms_owner ex_owned of
       Some owner \<Rightarrow>
         (if True \<and> \<not> False \<and> '':1.7'' = '':1.7'' \<and> oo_sender owner = '':1.7''
          then ((ex_owned\<lparr>ms_coordinator := (ms_coordinator ex_owned)\<lparr>mc_active := None\<rparr>, ms_owner := None\<rparr>, ()),
                Inr (Some (MU_Completed (oo_operation_id owner)
                  (if op_deadline_micros (the (mc_active (ms_coordinator ex_owned))) \<le> mw_now ex_manager_world 0
                   then MR_TimedOut else MR_Cancelled))))
          else ((ex_owned, ()), Inr None))
     | None \<Rightarrow> ((ex_owned, ()), Inr None))"
    by (rule disconnect_releases [where f = "\<lambda>_ _. ()"])
      (simp_all add: ex_owned_def manager_new_def ex_manager_coordinator_def owner_inv_def ex_manager_world_def fun_eq_iff controller_cancel_def)
  then show ?thesis by (simp add: ex_owned_def manager_new_def ex_manager_coordinator_def ex_manager_world_def)
qed

definition ex_source :: BoundedEnrollmentStateSource where
  "ex_source = \<lparr>ss_capacity = 1, ss_queue = [], ss_worker = True, ss_responses = []\<rparr>"

theorem state_source_answers_witness:
  "ss_responses (state_source_drop (\<lambda>uid. Inr (uid = 1000)) (fst (source_run (\<lambda>uid. Inr (uid = 1000))
     [SoQuery 1000 0, SoQuery 1001 1, SoTurn, SoQuery 1002 2] ex_source))) = [(0, Inr True), (2, Inr False)]"
proof -
  have new: "state_source_new 1 (Inr ()) = Inr ex_source"
    by (simp add: state_source_new_def MAX_TEMPLATE_STATE_QUEUE_CAPACITY_def ex_source_def)
  let ?ops = "[SoQuery 1000 0, SoQuery 1001 1, SoTurn, SoQuery 1002 2]"
  obtain s admitted where run: "source_run (\<lambda>uid. Inr (uid = 1000)) ?ops ex_source = (s, admitted)" by fastforce
  then have "admitted = [(1000, 0), (1002, 2)]"
    by (auto simp: ex_source_def state_source_query_def state_worker_turn_def)
  with state_source_answers [OF new run] run show ?thesis by simp
qed

end
