(* ===== verification/EnrollmentProperties.thy ===== *)
theory EnrollmentProperties
  imports EnrollmentWorker ManagerProperties
begin

text \<open>
  The properties of the enrollment worker and of its connection to Manager1: what a job commits, what a
  template rests on, how many observations a job can pay for, the synchronization of the manager and the
  worker when an enrollment begins, and what happens to operations that end early.
\<close>

section \<open>Observations are paid for\<close>

text \<open>
  Each observation of a session is preceded by two reports that were taken and not yet counted: the credit.
  A refused report ends the session.
\<close>

fun session_ended :: "'t session_run \<Rightarrow> bool" where
  "session_ended (SessionDone _) = True"
| "session_ended _ = False"

primrec paid :: "'t session_run \<Rightarrow> nat \<Rightarrow> bool" where
  "paid (SessionDone r) n = True"
| "paid SessionPanic n = True"
| "paid (SessionReport code k) n = (paid (k (Inr ())) (Suc n) \<and> (\<forall>e. session_ended (k (Inl e))))"
| "paid (SessionObserve d k) n = (2 \<le> n \<and> (\<forall>a. paid (k a) (n - 2)))"

lemma paid_report_then [simp]: "paid (report_then code rest) n = paid rest (Suc n)"
  by (simp add: report_then_def)

lemma observe_step_paid:
  assumes "1 \<le> n" and "\<And>st'. paid (next_attempt st') n"
  shows "paid (observe_step p t pair l next_attempt st) n"
proof -
  have "Suc (Suc n - 2) = n" using assms(1) by simp
  with assms show ?thesis by (auto simp: observe_step_def Let_def split: option.splits sum.splits)
qed

lemma session_loop_paid: "1 \<le> n \<Longrightarrow> paid (session_loop p config w left k st :: 't session_run) n"
proof (induction left arbitrary: k st n)
  case (Suc left)
  let ?next = "session_loop p config w left (Suc k) :: _ \<Rightarrow> 't session_run"
  have rest: "paid (?next st') m" if "1 \<le> m" for st' m by (rule Suc.IH [OF that])
  have "paid (observe_step p t pair l ?next st') n" for t pair l st'
    by (rule observe_step_paid [OF Suc.prems rest [OF Suc.prems]])
  then have "paid (challenge_step p config w t pair l ?next st') n" for t pair l st'
    using rest Suc.prems by (auto simp: challenge_step_def Let_def split: prod.splits sum.splits)
  then show ?case
    using rest by (auto simp: Let_def split: prod.splits sum.splits option.splits AttemptFailure.splits)
qed simp

lemma run_session_paid: "paid (run_session p config w) 0"
  using session_loop_paid [of 1] by (auto simp: run_session_def split: sum.splits)

definition sample_count :: "EnrollmentConfig \<Rightarrow> EnrollmentAccumulator \<Rightarrow> nat \<Rightarrow> bool" where
  "sample_count c a m \<longleftrightarrow> (case ea_session a of None \<Rightarrow> True | Some s \<Rightarrow> es_config s = c \<and> length (es_samples s) \<le> m)"

lemma enrollment_observe_count:
  "enrollment_observe s ob = (s', r) \<Longrightarrow> es_config s' = es_config s \<and> length (es_samples s') \<le> Suc (length (es_samples s))"
  by (auto simp: enrollment_observe_def observe_inner_def Let_def split: if_splits sum.splits option.splits prod.splits)

lemma accumulator_accepted_count:
  assumes "accumulator_accepted a s now = (a', r)" and "es_config s = c" and "length (es_samples s) \<le> m" and "ea_session a = Some s"
  shows "sample_count c a' m \<and> (case r of Inr (Some t) \<Rightarrow> unat (ec_minimum_samples c) \<le> m | _ \<Rightarrow> True)"
  using assms
  by (auto simp: accumulator_accepted_def sample_count_def ready_to_finish_def split: if_splits sum.splits option.splits)

lemma consume_count:
  assumes "enrollment_consume before after a d = (a', r)" and count: "sample_count c a m"
  shows "sample_count c a' (Suc m) \<and> (case r of Inr (Some t) \<Rightarrow> unat (ec_minimum_samples c) \<le> Suc m | _ \<Rightarrow> True)"
proof -
  obtain a1 r1 where o: "accumulator_observe a d = (a1, r1)" by fastforce
  have weak: "sample_count c a (Suc m)" using count by (auto simp: sample_count_def split: option.splits)
  have "sample_count c a1 (Suc m) \<and> (case r1 of Inr (Some t) \<Rightarrow> unat (ec_minimum_samples c) \<le> Suc m | _ \<Rightarrow> True)"
  proof (cases "(a1, r1) = (a, Inr None) \<or> (\<exists>e. (a1, r1) = (a, Inl e))")
    case True
    with weak show ?thesis by auto
  next
    case False
    obtain live where pad: "pad_accepts (ea_passive_pad a) (dv_passive_liveness d) = Inr live"
      by (cases "pad_accepts (ea_passive_pad a) (dv_passive_liveness d)")
        (use o False in \<open>auto simp: accumulator_observe_def Let_def split: if_splits\<close>)
    obtain active where old: "ea_session a = Some active"
      by (cases "ea_session a") (use o False pad in \<open>auto simp: accumulator_observe_def Let_def split: if_splits\<close>)
    obtain s1 q where new: "enrollment_observe active (enrollment_observation live d) = (s1, q)" by fastforce
    have s1: "es_config s1 = c" "length (es_samples s1) \<le> Suc m"
      using enrollment_observe_count [OF new] count old by (auto simp: sample_count_def)
    let ?a1 = "a\<lparr>ea_session := Some s1, ea_last_accepted_timestamp := Some (dv_completed_at_micros d)\<rparr>"
    show ?thesis
    proof (cases q)
      case (Inr u)
      then have "accumulator_accepted ?a1 s1 (dv_completed_at_micros d) = (a1, r1)"
        using o False pad old new by (auto simp: accumulator_observe_def Let_def split: if_splits)
      from accumulator_accepted_count [OF this s1] show ?thesis by simp
    next
      case (Inl e)
      then have "a1 = a\<lparr>ea_session := Some s1\<rparr>" "case r1 of Inr (Some t) \<Rightarrow> False | _ \<Rightarrow> True"
        using o False pad old new by (auto simp: accumulator_observe_def Let_def split: if_splits EnrollmentError.splits)
      with s1 show ?thesis by (auto simp: sample_count_def split: sum.splits option.splits)
    qed
  qed
  with assms(1) o weak show ?thesis
    by (auto simp: enrollment_consume_def split: if_splits sum.splits option.splits)
qed

lemma job_progress_count:
  "enrollment_job_progress i w c r = (r', b) \<Longrightarrow>
     xr_progress_count r' = xr_progress_count r + (if b = Inr () then 1 else 0) \<and> (b = Inr () \<longrightarrow> xr_progress_count r < 32)"
  by (auto simp: enrollment_job_progress_def ENROLLMENT_MAX_PROGRESS_UPDATES_def Let_def split: if_splits)

lemma accumulated_samples:
  assumes "session_ok Q (\<lambda>_. unat (ec_minimum_samples c) \<le> 15) run" and "paid run n" and "sample_count c a m"
    and "xr_progress_count r = Suc n + 2 * m" and "xr_progress_count r \<le> 32"
    and "run_enroll (accumulated_run x run k a) i w r = (r', Some (Inr t))"
  shows "unat (ec_minimum_samples c) \<le> 15"
  using assms
proof (induction run arbitrary: n k a m r)
  case (SessionDone y)
  then show ?case by (auto simp: result_simps split: sum.splits)
next
  case (SessionReport code f)
  obtain r1 b where p: "enrollment_job_progress i w (enrollment_progress code) r = (r1, b)" by fastforce
  let ?b = "enrollment_relay_answer (xa_refused_cancelled x) b"
  have run: "run_enroll (accumulated_run x (f ?b) k a) i w r1 = (r', Some (Inr t))" using SessionReport.prems(6) p by simp
  have ok: "session_ok Q (\<lambda>_. unat (ec_minimum_samples c) \<le> 15) (f ?b)" using SessionReport.prems(1) by simp
  note count = job_progress_count [OF p]
  show ?case
  proof (cases b)
    case (Inr u)
    then have "paid (f ?b) (Suc n)" using SessionReport.prems(2) by (simp add: enrollment_relay_answer_def)
    from SessionReport.IH [OF rangeI ok this SessionReport.prems(3) _ _ run] count Inr SessionReport.prems(4)
    show ?thesis by simp
  next
    case (Inl e)
    then have "session_ended (f ?b)" using SessionReport.prems(2) by (simp add: enrollment_relay_answer_def)
    then obtain y where "f ?b = SessionDone y" by (cases "f ?b") auto
    with ok run show ?thesis by (auto simp: result_simps split: sum.splits)
  qed
next
  case (SessionObserve d f)
  obtain a1 q where c: "enrollment_consume (xa_before x k) (xa_after x k) a d = (a1, q)" by fastforce
  have credit: "2 \<le> n" "paid (f q) (n - 2)" using SessionObserve.prems(2) by auto
  note step = consume_count [OF c SessionObserve.prems(3)]
  have "m \<le> 14" using credit(1) SessionObserve.prems(4,5) by simp
  then have "case q of Inr (Some t) \<Rightarrow> unat (ec_minimum_samples c) \<le> 15 | _ \<Rightarrow> True"
    using step by (auto split: sum.splits option.splits)
  then have ok: "session_ok Q (\<lambda>_. unat (ec_minimum_samples c) \<le> 15) (f q)"
    using SessionObserve.prems(1) by simp
  have run: "run_enroll (accumulated_run x (f q) (Suc k) a1) i w r = (r', Some (Inr t))" using SessionObserve.prems(6) c by simp
  from SessionObserve.IH [OF rangeI ok credit(2) conjunct1 [OF step] _ SessionObserve.prems(5) run] credit(1) SessionObserve.prems(4)
  show ?case by simp
qed simp

section \<open>Properties of a job\<close>

text \<open>
  C7. What a job commits. The worker sends at most 32 progress updates of its operation and then, unless the
  engine panics or the receiver is gone, one terminal update. A reported success means that exactly one
  valid record, of the account of the job, has been saved, and that the job was not cancelled when the engine
  returned; without one the sink is as before, unless saving itself failed, which is reported as a storage failure.
\<close>

theorem enrollment_job_commits:
  "case enrollment_run_job engine sink shutdown w q (s, d) of
     ((s', d'), sent, outcome) \<Rightarrow>
       (\<exists>us. list_all (progress_of (ej_operation_id (xq_job q))) us \<and> length us \<le> 32 \<and>
          (case outcome of
             None \<Rightarrow> sent = us \<and> d' = d
           | Some answer \<Rightarrow> \<exists>result. committed sink (ej_target_uid (xq_job q)) (xw_cancelled_after w) d d' result \<and>
               sent = us @ (if xw_connected_at_end w then [XuCompleted (ej_operation_id (xq_job q)) result] else []) \<and>
               answer = (if xw_connected_at_end w then Inr () else Inl XV_ResultReceiverClosed)))"
proof -
  obtain s' d' sent outcome where r: "enrollment_run_job engine sink shutdown w q (s, d) = ((s', d'), sent, outcome)"
    by (metis prod.exhaust)
  from enrollment_run_job_shape [OF r] show ?thesis unfolding r prod.case .
qed

text \<open>
  C6. What an enrolled template rests on. Whatever the cameras, the models and other threads answer: a
  template returned by the production engine is of the account of its job, and rests on observations each
  of which was derived from a fresh pair after a passed challenge, has passing scores of all three passive
  models, and is admissible; they are spaced in time, mutually similar under one model, between the
  configured minimum and maximum in number, and cover the configured range of poses.
\<close>

theorem enrolled_template_provenance:
  "case run_enroll (enroll engine x w job) i world r of
     (_, Some (Inr t)) \<Rightarrow>
       enrolled_from (genuine (pe_pipeline engine) (pe_challenge engine) (sw_draw w)) (pe_passive_pad engine) job t
   | _ \<Rightarrow> True"
  using enroll_enrolled by (auto split: prod.splits option.splits sum.splits)

text \<open>
  C22. How many samples a job can collect. The worker takes 32 reports, one of them before the session and two
  for every observation, so a template never rests on a policy that asks for more than 15 samples: a
  configuration with a minimum of 16, which is valid, can never enroll anybody.
\<close>

theorem enrollment_sample_limit:
  "case run_enroll (enroll engine x w job) i world xr_start of
     (_, Some (Inr t)) \<Rightarrow> unat (ec_minimum_samples (ej_config job)) \<le> 15
   | _ \<Rightarrow> True"
proof -
  have "unat (ec_minimum_samples (ej_config job)) \<le> 15"
    if run: "run_enroll (enroll engine x w job) i world xr_start = (r', Some (Inr t))" for r' t
  proof -
    obtain r1 a where p: "enrollment_job_progress i world MP_Preparing xr_start = (r1, a)" by fastforce
    from run p obtain s where s: "start_session job = Inr s" "a = Inr ()"
        "run_enroll (accumulated_run x (run_session (pe_pipeline engine) (pe_challenge engine) w) 0
           (accumulator_new s (pe_passive_pad engine) (ec_minimum_sample_interval_micros (ej_config job)))) i world r1 =
         (r', Some (Inr t))"
      by (auto simp: enroll_def split: if_splits sum.splits)
    have "sample_count (ej_config job) (accumulator_new s (pe_passive_pad engine) z) 0" for z
      using enrollment_start_inv [OF s(1) [unfolded start_session_def]]
      by (simp add: sample_count_def accumulator_new_def enrollment_inv_def)
    from accumulated_samples [OF run_session_ok run_session_paid this _ _ s(3)] job_progress_count [OF p] s(2)
    show ?thesis by simp
  qed
  then show ?thesis by (auto split: prod.splits option.splits sum.splits)
qed

section \<open>The sink\<close>

text \<open>What a job relies on: a record that was saved is stored.\<close>

locale template_sink =
  fixes save :: "'d EnrollmentTemplateSink" and stored :: "TemplateRecord \<Rightarrow> 'd \<Rightarrow> bool"
  assumes saved: "save t d = (d', Inr ()) \<Longrightarrow> stored t d'"
begin

lemma success_stored:
  assumes "enrollment_run_job engine save shutdown w q (s, d) = ((s', d'), sent, outcome)"
    and "XuCompleted i (Inr ()) \<in> set sent"
  shows "\<exists>t. stored t d' \<and> tr_uid t = ej_target_uid (xq_job q) \<and> record_validate t = Inr () \<and> i = ej_operation_id (xq_job q)"
proof -
  have none: "XuCompleted i (Inr ()) \<notin> set us" if "list_all (progress_of j) us" for us j
    using that by (auto simp: list_all_iff)
  from enrollment_run_job_shape [OF assms(1)] assms(2) none obtain result where
    "committed save (ej_target_uid (xq_job q)) (xw_cancelled_after w) d d' result"
    "XuCompleted i (Inr ()) = XuCompleted (ej_operation_id (xq_job q)) result"
    by (auto split: option.splits if_splits)
  then show ?thesis using saved by (fastforce simp: committed_def)
qed

end

definition store_holds :: "FileKeyProvider \<Rightarrow> Codec \<Rightarrow> TemplateStore \<Rightarrow> TemplateRecord \<Rightarrow> Disk \<Rightarrow> bool" where
  "store_holds P cd S t d \<longleftrightarrow> (\<exists>d0 g. save_with_generation (file_load_key P) cd S t d0 = (d, Inr g))"

interpretation encrypted_sink: template_sink "save_template (file_load_key P) cd S" "store_holds P cd S" for P cd S
proof
  fix t d d'
  assume "save_template (file_load_key P) cd S t d = (d', Inr ())"
  then show "store_holds P cd S t d'"
    by (auto simp: save_template_def store_holds_def result_simps split: prod.splits)
qed

text \<open>
  C19. Success is durable. When a job that commits to the encrypted store has reported success, a later load
  of the account of the job, after any mutations of other accounts, returns the enrolled record: valid, and
  the one that was saved.
\<close>

theorem enrolled_template_loads:
  assumes "codec_faithful cd" and "key_apart (\<lambda>q. q = fkp_path P) S"
    and "enrollment_run_job engine (save_template (file_load_key P) cd S) shutdown w q (s, d) = ((s', d'), sent, outcome)"
    and "XuCompleted i (Inr ()) \<in> set sent"
    and "list_all (\<lambda>m. mutation_uid m \<noteq> ej_target_uid (xq_job q)) ms"
    and "load_with_generation (file_load_key P) cd S (ej_target_uid (xq_job q))
           (run_mutations (file_load_key P) cd S ms d') = (d3, Inr v)"
  shows "i = ej_operation_id (xq_job q) \<and> tr_uid (vt_record v) = ej_target_uid (xq_job q) \<and>
    record_validate (vt_record v) = Inr () \<and> store_holds P cd S (vt_record v) d'"
proof -
  from encrypted_sink.success_stored [OF assms(3,4)] obtain t d0 g where
    t: "save_with_generation (file_load_key P) cd S t d0 = (d', Inr g)" "tr_uid t = ej_target_uid (xq_job q)"
      "record_validate t = Inr ()" "i = ej_operation_id (xq_job q)"
    by (auto simp: store_holds_def)
  have others: "\<forall>m \<in> set ms. mutation_uid m \<noteq> tr_uid t" using assms(5) t(2) by (simp add: list_all_iff)
  from file_key.save_load [OF t(1) assms(1,2) others assms(6) [folded t(2)]] t show ?thesis
    by (auto simp: store_holds_def)
qed

section \<open>The worker and the manager\<close>

text \<open>A controller of operations: which operation it has, and what starting and cancelling do to that.\<close>

locale enrollment_controller =
  fixes ct :: "'c EnrollmentOperationController" and operation :: "'c \<Rightarrow> OperationId option"
  assumes start_ok: "ct_start ct a i issued c = (c', Inr ()) \<Longrightarrow> operation c = None \<and> operation c' = Some i"
    and start_err: "ct_start ct a i issued c = (c', Inl e) \<Longrightarrow> operation c' = operation c"
    and cancelled: "ct_cancel ct i c = (c', r) \<Longrightarrow> operation c' = operation c"
begin

lemma begin_synchronized:
  assumes "mw_controller w = Some ct" and "\<And>n. mw_others w n = id"
    and "begin_enrollment_impl unique w sender uid (s, c) = ((s', c'), r)"
  shows "case r of
      Inr (i, p) \<Rightarrow> manager_owner s = None \<and> operation c = None \<and> manager_owner s' = Some i \<and> operation c' = Some i
    | Inl e \<Rightarrow> manager_owner s' = manager_owner s \<and> operation c' = operation c"
proof (cases "begin_checks unique (mw_backend w) sender uid")
  case (Inl e)
  with assms(3) show ?thesis by (auto simp: begin_enrollment_impl_def)
next
  case (Inr a)
  then have uid: "ae_target_uid a = uid" by (auto simp: begin_checks_def result_simps split: if_splits)
  obtain s1 u where locked: "begin_locked a (mw_now w 0) (mw_random w) sender uid s = (s1, u)" by fastforce
  show ?thesis
  proof (cases u)
    case refused: (Inl e)
    then have "manager_owner s1 = manager_owner s"
      using locked by (auto simp: begin_locked_def management_start_def manager_owner_def management_owner_def Let_def
          split: if_splits option.splits ManagementUpdate.splits)
    with assms Inr locked refused show ?thesis by (auto simp: begin_enrollment_impl_def)
  next
    case opened: (Inr update)
    note ok = locked [unfolded opened begin_locked_ok]
    obtain c1 q where started: "ct_start ct a (operation_generate (mw_random w)) (mw_now w 1) c = (c1, q)" by fastforce
    show ?thesis
    proof (cases q)
      case (Inr x)
      with start_ok [of a "operation_generate (mw_random w)" "mw_now w 1" c c1] started
      have "operation c = None \<and> operation c1 = Some (operation_generate (mw_random w))" by simp
      with ok assms \<open>begin_checks unique (mw_backend w) sender uid = Inr a\<close> locked opened started Inr show ?thesis
        by (auto simp: begin_enrollment_impl_def manager_owner_def management_owner_def)
    next
      case (Inl e)
      with start_err started have "operation c1 = operation c" by simp
      with ok assms \<open>begin_checks unique (mw_backend w) sender uid = Inr a\<close> locked opened started Inl uid show ?thesis
        by (auto simp: begin_enrollment_impl_def manager_owner_def management_owner_def begin_rollback_def
            management_cancel_def management_verify_def management_deadline_reached_def management_take_terminal_def)
    qed
  qed
qed

end

definition bridge_operation :: "EnrollmentControllerBridge \<Rightarrow> OperationId option" where
  "bridge_operation b = map_option cn_operation_id (eb_active b)"

interpretation bridge: enrollment_controller bridge_controller bridge_operation
  by unfold_locales
    (auto simp: bridge_controller_def bridge_start_def bridge_cancel_def bridge_operation_def
      split: if_splits option.splits prod.splits sum.splits)

text \<open>
  Manager1 and the worker agree. When nothing interferes, an enrollment that begins is the operation of
  the manager and of the bridge, and both were free before; one that is refused, at whatever point, leaves
  neither of them with an operation it did not have.
\<close>

theorem begin_enrollment_synchronized:
  assumes "mw_controller w = Some bridge_controller" and "\<And>n. mw_others w n = id"
    and "begin_enrollment_impl unique w sender uid (s, b) = ((s', b'), r)"
  shows "case r of
      Inr (i, p) \<Rightarrow> manager_owner s = None \<and> bridge_operation b = None \<and> manager_owner s' = Some i \<and> bridge_operation b' = Some i
    | Inl e \<Rightarrow> manager_owner s' = manager_owner s \<and> bridge_operation b' = bridge_operation b"
  by (rule bridge.begin_synchronized [OF assms])

section \<open>Operations that end early\<close>

text \<open>
  C23. The cancellation of a stranger. A caller who asks for an account of its own, but with the identifier of
  the operation of another connection, is denied, and the state of Manager1 stays; but the worker has been
  told to cancel already, so the enrollment of the other one is lost. The identifier is in every signal.
\<close>

theorem foreign_cancel_reaches_worker:
  assumes "ab_caller_uid (mw_backend w) 0 sender = Inr uid" and "uuid_parse text = Some u"
    and "mw_controller w = Some bridge_controller" and "\<And>n. mw_others w n = id"
    and "\<not> eb_poisoned b" and "eb_active b = Some victim" and "cn_operation_id victim = OperationId u"
    and "cn_cancellation victim = EnrollmentCancellation n" and "n < length (eb_cells b)"
    and "\<not> ms_poisoned s" and "ms_owner s = Some owner" and "oo_sender owner \<noteq> sender"
  shows "\<exists>b'. cancel_enrollment_impl uuid_parse w sender uid text (s, b) =
      ((s, b'), Inl (FE_AccessDenied ''management operation belongs to another D-Bus sender'')) \<and>
    cancellation_is_cancelled (eb_cells b') (cn_cancellation victim)"
  using assms
  by (simp add: cancel_enrollment_impl_def require_target_def operation_parse_def controller_cancel_def
      bridge_controller_def bridge_cancel_def cancel_locked_def)

text \<open>
  C24. The end of a cancelled worker. The terminal update of a worker that saw its cancellation cannot be
  relayed: the result \<open>Cancelled\<close> is reserved to the coordinator, which refuses it before it looks for the
  operation. The relay fails without an update, the bridge keeps the operation, and every later enrollment
  is refused.
\<close>

theorem cancelled_worker_blocks_bridge:
  assumes "take_handle i b = (b1, Inr ())" and "\<not> ms_poisoned s" and "rl_others t 0 = id"
    and "rl_update t = Some (XuCompleted i (Inl XF_Cancelled))"
  shows "relay uid i (t # ts) (s, b) =
      ((s, b1), [], Some (Inl ''cancelled and timed-out management results are reserved'')) \<and>
    bridge_operation b1 = Some i \<and>
    bridge_start a j issued b1 = (b1, Inl ''another enrollment operation is active'')"
proof -
  have "eb_active b1 \<noteq> None \<and> bridge_operation b1 = Some i \<and> \<not> eb_poisoned b1"
    using assms(1) by (auto simp: take_handle_def bridge_operation_def split: if_splits option.splits)
  moreover have "relay_call uid i (XuCompleted i (Inl XF_Cancelled)) now s = Some (s, Inl (WE_Management ME_ReservedResult))" for now
    using assms(2) by (simp add: relay_call_def worker_complete_def coordinated_def management_complete_def)
  ultimately show ?thesis using assms by (auto simp: relay_def bridge_start_def)
qed


section \<open>Examples\<close>

definition ex_cancellation :: EnrollmentCancellation where
  "ex_cancellation = EnrollmentCancellation 0"

definition ex_job :: "EnrollmentJob" where
  "ex_job = enrollment_job_new (OperationId 9) \<lparr>ae_target_uid = 7\<rparr> ex_enrollment_config 5 ex_cancellation"

definition ex_request :: "EnrollmentRequest" where
  "ex_request = \<lparr>xq_job = ex_job, xq_lease = \<lparr>al_generation = 1, al_owner = OwnEnrollment (OperationId 9)\<rparr>\<rparr>"

definition ex_worker :: EnrollmentState where
  "ex_worker = \<lparr>xs_requests = [], xs_receiver = True, xs_active = False, xs_resources = arbiter_default\<rparr>"

definition ex_enrollment_world :: "bool \<Rightarrow> EnrollmentWorld" where
  "ex_enrollment_world alive = \<lparr>xw_cancelled = (\<lambda>_ _. False), xw_connected = (\<lambda>_. True), xw_received = id,
     xw_cancelled_before = False, xw_cancelled_after = False, xw_connected_at_end = alive\<rparr>"

definition ex_bridge :: "EnrollmentControllerBridge" where
  "ex_bridge = bridge_new ex_worker ex_enrollment_config []"

text \<open>The bridge that controls operation 9, and a manager that \<open>:1.7\<close> owns it in.\<close>

definition ex_busy_bridge :: "bool \<Rightarrow> EnrollmentControllerBridge" where
  "ex_busy_bridge handle = ex_bridge\<lparr>eb_cells := [False],
     eb_active := Some \<lparr>cn_operation_id = OperationId 9, cn_cancellation = ex_cancellation, cn_handle = handle\<rparr>\<rparr>"

definition ex_bridge_world :: "EnrollmentControllerBridge ManagerWorld" where
  "ex_bridge_world = \<lparr>mw_backend = mw_backend ex_manager_world, mw_controller = Some bridge_controller, mw_now = (\<lambda>_. 1000),
     mw_random = 9, mw_others = (\<lambda>_. id), mw_signal = Inr ()\<rparr>"

theorem enrolled_template_loads_witness:
  "store_holds ex_key_provider ex_codec_store ex_store ex_one ex_saved_disk"
proof -
  define s where "s = ex_worker\<lparr>xs_active := True\<rparr>"
  obtain s' d' sent outcome where
    run: "enrollment_run_job (\<lambda>_. EnrollDone (Inr ex_one)) (save_template (file_load_key ex_key_provider) ex_codec_store ex_store)
      0 (ex_enrollment_world True) ex_request (s, ex_store_disk) = ((s', d'), sent, outcome)"
    by (metis prod.exhaust)
  then have d: "d' = ex_saved_disk" "sent = [XuCompleted (OperationId 9) (Inr ())]"
    using ex_saved by (simp_all add: enrollment_run_job_def ex_enrollment_world_def ex_request_def ex_job_def enrollment_job_new_def
        commit_result_def save_template_def ex_one_valid ej_target_uid_def Let_def)
  from enrolled_template_loads [OF ex_codec_faithful ex_apart run, of "OperationId 9" "[]" ex_saved_disk
      "\<lparr>vt_generation = 1, vt_record = ex_one\<rparr>"] d ex_loaded
  show ?thesis by (simp add: ex_request_def ex_job_def enrollment_job_new_def ej_target_uid_def)
qed

theorem begin_enrollment_synchronized_witness:
  "\<exists>sb r. begin_enrollment_impl (\<lambda>s. s = '':1.7'') ex_bridge_world '':1.7'' 1000 (manager_new ex_manager_coordinator, ex_bridge) = (sb, r) \<and>
     manager_owner (fst sb) = Some (operation_generate 9) \<and> bridge_operation (snd sb) = Some (operation_generate 9)"
proof -
  obtain s' b' r where run: "begin_enrollment_impl (\<lambda>s. s = '':1.7'') ex_bridge_world '':1.7'' 1000
      (manager_new ex_manager_coordinator, ex_bridge) = ((s', b'), r)"
    by (metis prod.exhaust)
  then have "r = Inr (operation_generate 9, MP_Preparing)"
    by (auto simp: begin_enrollment_impl_def begin_checks_def ex_bridge_world_def ex_manager_world_def system_bus_backend_def
      system_bus_authority_def bus_caller_uid_def bus_authorize_enrollment_def unique_sender_def ex_bus_def require_target_def
      issue_grant_def issue_def authorize_def ex_issuer_def enrollment_from_grant_def ENROLLMENT_SERVICE_def begin_locked_def
      manager_new_def ex_manager_coordinator_def management_start_def management_config_default_def checked_add_def Let_def
      bridge_controller_def bridge_start_def ex_bridge_def bridge_new_def ex_worker_def cancellation_default_def
      enrollment_submit_def try_acquire_def arbiter_default_def ENROLLMENT_REQUEST_QUEUE_CAPACITY_def enrollment_job_new_def)
  with begin_enrollment_synchronized [OF _ _ run] run show ?thesis by (simp add: ex_bridge_world_def)
qed

definition ex_stranger :: "EnrollmentControllerBridge ManagerWorld" where
  "ex_stranger = ex_bridge_world\<lparr>mw_backend := system_bus_backend (system_bus_authority (\<lambda>s. s = '':1.8'')
     (\<lambda>_. ex_bus\<lparr>ba_unix_user := \<lambda>_. Inr 1001\<rparr>)) (\<lambda>_. Inr False) (issue_grant (\<lambda>s. s = '':1.8'') ex_issuer 5)\<rparr>"

theorem foreign_cancel_reaches_worker_witness:
  "eb_cells (snd (fst (cancel_enrollment_impl (\<lambda>_. Some 9) ex_stranger '':1.8'' 1001 ''9'' (ex_owned, ex_busy_bridge False)))) = [True]"
proof -
  let ?victim = "\<lparr>cn_operation_id = OperationId 9, cn_cancellation = ex_cancellation, cn_handle = False\<rparr>"
  have "\<exists>b'. cancel_enrollment_impl (\<lambda>_. Some 9) ex_stranger '':1.8'' 1001 ''9'' (ex_owned, ex_busy_bridge False) =
      ((ex_owned, b'), Inl (FE_AccessDenied ''management operation belongs to another D-Bus sender'')) \<and>
      cancellation_is_cancelled (eb_cells b') (cn_cancellation ?victim)"
    by (rule foreign_cancel_reaches_worker [where owner = "\<lparr>oo_sender = '':1.7'', oo_target_uid = 1000, oo_operation_id = OperationId 9\<rparr>"])
      (simp_all add: ex_stranger_def ex_bridge_world_def ex_busy_bridge_def ex_bridge_def bridge_new_def ex_owned_def manager_new_def
        system_bus_backend_def system_bus_authority_def bus_caller_uid_def unique_sender_def ex_bus_def ex_cancellation_def)
  then show ?thesis
    by (simp add: cancel_enrollment_impl_def require_target_def operation_parse_def controller_cancel_def bridge_controller_def
        bridge_cancel_def cancel_locked_def ex_stranger_def ex_bridge_world_def ex_busy_bridge_def ex_bridge_def bridge_new_def
        ex_owned_def manager_new_def system_bus_backend_def system_bus_authority_def bus_caller_uid_def unique_sender_def ex_bus_def
        ex_cancellation_def)
qed

definition ex_relay_turn :: "EnrollmentEngineUpdate \<Rightarrow> RelayTurn" where
  "ex_relay_turn u = \<lparr>rl_update = Some u, rl_others = (\<lambda>_. id), rl_now = 60, rl_emit = Inr ()\<rparr>"

lemma ex_taken:
  "take_handle (OperationId 9) (ex_busy_bridge True) = (ex_busy_bridge False, Inr ())"
  by (simp add: take_handle_def ex_busy_bridge_def ex_bridge_def bridge_new_def)

theorem cancelled_worker_blocks_bridge_witness:
  "bridge_operation (snd (fst (relay 1000 (OperationId 9) [ex_relay_turn (XuCompleted (OperationId 9) (Inl XF_Cancelled))]
     (ex_owned, ex_busy_bridge True)))) = Some (OperationId 9)"
proof -
  have "relay 1000 (OperationId 9) [ex_relay_turn (XuCompleted (OperationId 9) (Inl XF_Cancelled))] (ex_owned, ex_busy_bridge True) =
      ((ex_owned, ex_busy_bridge False), [], Some (Inl ''cancelled and timed-out management results are reserved'')) \<and>
    bridge_operation (ex_busy_bridge False) = Some (OperationId 9) \<and>
    bridge_start \<lparr>ae_target_uid = 1000\<rparr> (OperationId 9) 5 (ex_busy_bridge False) =
      (ex_busy_bridge False, Inl ''another enrollment operation is active'')"
    by (rule cancelled_worker_blocks_bridge [OF ex_taken]) (simp_all add: ex_owned_def manager_new_def ex_relay_turn_def)
  then show ?thesis by simp
qed


end
