(* ===== verification/Production.thy ===== *)
theory Production
  imports EnrollmentEngine Camera Boundary Onnx TemplateStore
begin

text \<open>
  The production assembly (\<open>crates/faceauth-daemon/src/production.rs\<close>): the configuration and its
  validation, trust checks on installed files, the readiness report, and the construction of the engines,
  of the template store and of the authentication boundary. A path of the configuration is a string, a
  canonical path a list of components. The answers of the file system, of camera discovery, of V4L2 and
  of the TPM are arguments, as are the JSON decoder and SHA-256.
\<close>

section \<open>Configuration\<close>

definition PRODUCTION_CONFIG_SCHEMA_VERSION :: u16 where
  "PRODUCTION_CONFIG_SCHEMA_VERSION = 4"

definition READINESS_REPORT_SCHEMA_VERSION :: u16 where
  "READINESS_REPORT_SCHEMA_VERSION = 1"

definition MAX_CONFIG_BYTES :: u64 where
  "MAX_CONFIG_BYTES = 1024 * 1024"

definition MAX_MANIFEST_BYTES :: u64 where
  "MAX_MANIFEST_BYTES = 1024 * 1024"

definition MAX_REVIEW_EVIDENCE_BYTES :: u64 where
  "MAX_REVIEW_EVIDENCE_BYTES = 16 * 1024 * 1024"

definition REQUIRED_MODEL_ROLES :: "ModelRole list" where
  "REQUIRED_MODEL_ROLES =
     [RoleFaceDetector, RoleFaceLandmarks, RoleFaceEmbedding, RolePassiveLivenessInfrared,
      RolePassiveLivenessVisible, RolePassiveLivenessFusion]"

record ReviewedEvidence =
  re_path :: string
  re_sha256 :: string

record CameraStreamConfig =
  cx_selector :: CameraSelector
  cx_capture :: CaptureSpec

record ProductionCameraConfig =
  pc_infrared :: CameraStreamConfig
  pc_visible :: CameraStreamConfig
  pc_pairing :: PairingPolicy

definition camera_selectors :: "ProductionCameraConfig \<Rightarrow> CameraPairSelector" where
  "camera_selectors c = \<lparr>cps_infrared = cx_selector (pc_infrared c), cps_visible = cx_selector (pc_visible c)\<rparr>"

record RuntimePolicyConfig =
  rp_library_path :: string
  rp_intra_threads :: nat
  rp_inter_threads :: nat
  rp_max_model_bytes :: u64
  rp_max_run_millis :: u32

definition runtime_of :: "RuntimePolicyConfig \<Rightarrow> RuntimeConfig" where
  "runtime_of c =
     \<lparr>rc_library_path = rp_library_path c, rc_intra_threads = rp_intra_threads c, rc_inter_threads = rp_inter_threads c,
      rc_max_model_bytes = rp_max_model_bytes c, rc_max_run_millis = rp_max_run_millis c\<rparr>"

record ModelInstallation =
  mi_role :: ModelRole
  mi_manifest_path :: string
  mi_artifact_path :: string
  mi_review_evidence :: ReviewedEvidence

record RecognitionCalibration =
  rk_embedding_compatibility_sha256 :: string
  rk_policy :: AuthPolicy
  rk_evidence :: ReviewedEvidence

record QualityCalibration =
  qk_detector_compatibility_sha256 :: string
  qk_landmarks_compatibility_sha256 :: string
  qk_minimum_detection_confidence :: fp
  qk_maximum_detection_iou :: fp
  qk_maximum_detected_faces :: nat
  qk_policy :: QualityConfig
  qk_evidence :: ReviewedEvidence

definition detection_policy :: "QualityCalibration \<Rightarrow> DetectionPolicy" where
  "detection_policy c =
     \<lparr>dp_minimum_confidence = qk_minimum_detection_confidence c, dp_maximum_iou = qk_maximum_detection_iou c,
      dp_maximum_faces = qk_maximum_detected_faces c\<rparr>"

record PassivePadCalibration =
  pk_infrared_compatibility_sha256 :: string
  pk_minimum_infrared_probability :: fp
  pk_visible_compatibility_sha256 :: string
  pk_minimum_visible_probability :: fp
  pk_fusion_compatibility_sha256 :: string
  pk_minimum_fusion_probability :: fp
  pk_evidence :: ReviewedEvidence

record ActiveLivenessCalibration =
  vk_landmarks_compatibility_sha256 :: string
  vk_challenge :: ChallengeConfig
  vk_evidence :: ReviewedEvidence

record EnrollmentCalibration =
  ek_policy :: EnrollmentConfig
  ek_evidence :: ReviewedEvidence

record CalibrationConfig =
  ck_recognition :: RecognitionCalibration
  ck_quality :: QualityCalibration
  ck_passive_pad :: PassivePadCalibration
  ck_active_liveness :: ActiveLivenessCalibration
  ck_enrollment :: EnrollmentCalibration

datatype StorageKeyConfig = KeyTpm string | KeyRootOnlyFile string

record StorageConfig =
  sk_template_directory :: string
  sk_key :: StorageKeyConfig
  sk_recovery_evidence :: ReviewedEvidence

record AuthorizationConfig =
  zk_rules :: "AuthorizationRule list"
  zk_review_evidence :: ReviewedEvidence

record ManagementServiceConfig =
  mk_enabled :: bool
  mk_operation_duration_micros :: u64
  mk_policy_review_evidence :: ReviewedEvidence

record SupervisionPolicyConfig =
  uk_poll_interval_millis :: u64
  uk_shutdown_grace_millis :: u64
  uk_max_services :: nat

definition supervisor_of :: "SupervisionPolicyConfig \<Rightarrow> SupervisorConfig" where
  "supervisor_of c =
     \<lparr>sc_poll_interval = from_millis (unat (uk_poll_interval_millis c)),
      sc_shutdown_grace = from_millis (unat (uk_shutdown_grace_millis c)), sc_max_services = uk_max_services c\<rparr>"

record AuthenticationBoundaryConfig =
  bk_socket_path :: string
  bk_socket_mode :: u32
  bk_max_message_bytes :: nat
  bk_io_timeout_millis :: u64
  bk_transaction_duration_micros :: u64
  bk_password_fallback_mandatory :: bool
  bk_recovery_test_evidence :: ReviewedEvidence

definition boundary_transport :: "AuthenticationBoundaryConfig \<Rightarrow> TransportConfig" where
  "boundary_transport c =
     \<lparr>tc_max_message_bytes = bk_max_message_bytes c, tc_io_timeout = from_millis (unat (bk_io_timeout_millis c))\<rparr>"

record ProductionConfig =
  pf_schema_version :: u16
  pf_cameras :: ProductionCameraConfig
  pf_runtime :: RuntimePolicyConfig
  pf_models :: "ModelInstallation list"
  pf_calibration :: CalibrationConfig
  pf_storage :: StorageConfig
  pf_authorization :: AuthorizationConfig
  pf_management :: ManagementServiceConfig
  pf_supervision :: SupervisionPolicyConfig
  pf_authentication_boundary :: AuthenticationBoundaryConfig

section \<open>Errors\<close>

text \<open>
  A message is a fixed text, or a text followed by the text of another error, which is kept as that error.
  The error of an assembly step that has only one text for all its errors is kept as such.
\<close>

datatype ProductionConfigError =
  PcIo IoError
| PcJson nat
| PcUnsafePath Path
| PcInvalidFileLength Path u64 u64
| PcInvalid Detail
and Detail = Text string | Shown string Cause
and Cause =
  OfIo IoError | OfJson nat | OfCapture CaptureError | OfSelection SelectionError | OfInference InferenceError
| OfModel ModelError | OfPolicy PolicyError | OfQuality QualityError | OfChallenge ChallengeError
| OfEnrollment EnrollmentError | OfAuthorization AuthzPolicyError | OfManagement ManagementError
| OfSupervisor SupervisorError | OfTransport TransportError | OfSession SessionError | OfListener ListenerError
| OfPipeline PipelineError | OfAuthenticationEngine | OfEnrollmentEngine ProductionEnrollmentEngineError
| OfStorage StorageError | OfProduction ProductionConfigError

definition invalid :: "string \<Rightarrow> ProductionConfigError + 'a" where
  "invalid what = Inl (PcInvalid (Text what))"

definition invalid_with :: "string \<Rightarrow> ('e \<Rightarrow> Cause) \<Rightarrow> 'e + 'a \<Rightarrow> ProductionConfigError + 'a" where
  "invalid_with what cause = map_err (\<lambda>e. PcInvalid (Shown what (cause e)))"

section \<open>Validation\<close>

definition is_absolute :: "string \<Rightarrow> bool" where
  "is_absolute path \<longleftrightarrow> path \<noteq> [] \<and> hd path = CHR ''/''"

definition require_absolute :: "string \<Rightarrow> string \<Rightarrow> ProductionConfigError + unit" where
  "require_absolute path label = (if is_absolute path then Inr () else invalid (label @ '' path must be absolute''))"

definition validate_evidence_config :: "ReviewedEvidence \<Rightarrow> ProductionConfigError + unit" where
  "validate_evidence_config e =
     try_bind (require_absolute (re_path e) ''review evidence'') (\<lambda>_.
     if \<not> valid_digest (re_sha256 e) then invalid ''review evidence SHA-256 is invalid'' else Inr ())"

definition valid_usb_id :: "string \<Rightarrow> bool" where
  "valid_usb_id value \<longleftrightarrow> length value = 4 \<and> list_all (\<lambda>c. is_ascii_hexdigit c \<and> \<not> is_ascii_uppercase c) value"

definition validate_camera_selector :: "CameraSelector \<Rightarrow> string \<Rightarrow> ProductionConfigError + unit" where
  "validate_camera_selector s role =
     (if \<not> valid_usb_id (sel_vendor_id s) \<or> \<not> valid_usb_id (sel_product_id s)
      then invalid (role @ '' USB identifiers must be four lowercase hexadecimal bytes'')
      else if (case sel_serial s of None \<Rightarrow> True | Some t \<Rightarrow> t = []) \<and> (case sel_physical_path s of None \<Rightarrow> True | Some t \<Rightarrow> t = [])
      then invalid (role @ '' camera requires a non-empty serial or physical path'')
      else Inr ())"

definition model_step :: "ModelRole list \<Rightarrow> ModelInstallation \<Rightarrow> ProductionConfigError + ModelRole list" where
  "model_step roles m =
     (if mi_role m \<notin> set REQUIRED_MODEL_ROLES \<or> mi_role m \<in> set roles
      then invalid ''model roles must be unique and exactly match the required suite''
      else
        try_bind (require_absolute (mi_manifest_path m) ''model manifest'') (\<lambda>_.
        try_bind (require_absolute (mi_artifact_path m) ''model artifact'') (\<lambda>_.
        try_bind (validate_evidence_config (mi_review_evidence m)) (\<lambda>_. Inr (roles @ [mi_role m])))))"

definition validate_models :: "ModelInstallation list \<Rightarrow> ProductionConfigError + unit" where
  "validate_models models =
     (if length models \<noteq> length REQUIRED_MODEL_ROLES
      then invalid ''the exact six-role production model suite is required''
      else try_bind (try_fold model_step [] models) (\<lambda>roles.
        if \<not> list_all (\<lambda>role. role \<in> set roles) REQUIRED_MODEL_ROLES
        then invalid ''the production model suite is incomplete'' else Inr ()))"

definition validate_recognition :: "RecognitionCalibration \<Rightarrow> ProductionConfigError + unit" where
  "validate_recognition c =
     (if \<not> valid_digest (rk_embedding_compatibility_sha256 c)
      then invalid ''recognition embedding compatibility digest is invalid''
      else
        try_bind (invalid_with ''invalid recognition policy: '' OfPolicy (policy_validate (rk_policy c))) (\<lambda>_.
        if \<not> require_visible (capture (rk_policy c)) \<or> liveness (rk_policy c) \<noteq> PassiveAndActive
           \<or> \<not> password_fallback (rk_policy c)
        then invalid ''production recognition requires IR, visible, active liveness, and password fallback''
        else validate_evidence_config (rk_evidence c)))"

definition validate_quality :: "QualityCalibration \<Rightarrow> ProductionConfigError + unit" where
  "validate_quality c =
     (if \<not> valid_digest (qk_detector_compatibility_sha256 c) \<or> \<not> valid_digest (qk_landmarks_compatibility_sha256 c)
      then invalid ''quality calibration model compatibility digests are invalid''
      else
        try_bind (map_err (\<lambda>_. PcInvalid (Text ''invalid detector calibration'')) (detection_validate (detection_policy c))) (\<lambda>_.
        try_bind (invalid_with ''invalid quality calibration: '' OfQuality (quality_config_validate (qk_policy c))) (\<lambda>_.
        validate_evidence_config (qk_evidence c))))"

definition validate_passive_pad :: "PassivePadCalibration \<Rightarrow> ProductionConfigError + unit" where
  "validate_passive_pad c =
     (if \<not> valid_digest (pk_infrared_compatibility_sha256 c) \<or> \<not> valid_digest (pk_visible_compatibility_sha256 c)
         \<or> \<not> valid_digest (pk_fusion_compatibility_sha256 c)
         \<or> \<not> valid_probability (pk_minimum_infrared_probability c) \<or> \<not> valid_probability (pk_minimum_visible_probability c)
         \<or> \<not> valid_probability (pk_minimum_fusion_probability c)
      then invalid ''passive PAD model identities or calibrated thresholds are invalid''
      else validate_evidence_config (pk_evidence c))"

definition validate_active_liveness :: "ActiveLivenessCalibration \<Rightarrow> ProductionConfigError + unit" where
  "validate_active_liveness c =
     (if \<not> valid_digest (vk_landmarks_compatibility_sha256 c)
      then invalid ''active-liveness landmark compatibility digest is invalid''
      else
        try_bind (invalid_with ''invalid active-liveness calibration: '' OfChallenge (challenge_config_validate (vk_challenge c))) (\<lambda>_.
        validate_evidence_config (vk_evidence c)))"

definition validate_calibration :: "CalibrationConfig \<Rightarrow> ProductionConfigError + unit" where
  "validate_calibration c =
     try_bind (validate_recognition (ck_recognition c)) (\<lambda>_.
     try_bind (validate_quality (ck_quality c)) (\<lambda>_.
     try_bind (validate_passive_pad (ck_passive_pad c)) (\<lambda>_.
     try_bind (validate_active_liveness (ck_active_liveness c)) (\<lambda>_.
     try_bind (invalid_with ''invalid enrollment calibration: '' OfEnrollment
       (enrollment_config_validate (ek_policy (ck_enrollment c)))) (\<lambda>_.
     validate_evidence_config (ek_evidence (ck_enrollment c)))))))"

fun purpose_debug :: "AuthenticationPurpose \<Rightarrow> string" where
  "purpose_debug Test = ''Test''"
| "purpose_debug ScreenUnlock = ''ScreenUnlock''"
| "purpose_debug Login = ''Login''"
| "purpose_debug Sudo = ''Sudo''"
| "purpose_debug Polkit = ''Polkit''"

definition has_purpose :: "AuthorizationRule list \<Rightarrow> unit \<Rightarrow> AuthenticationPurpose \<Rightarrow> ProductionConfigError + unit" where
  "has_purpose rs _ needed =
     (if \<not> list_ex (\<lambda>r. rule_purpose r = needed) rs
      then invalid (''authorization policy has no '' @ purpose_debug needed @ '' boundary'') else Inr ())"

definition validate_required_authorization_rules :: "AuthorizationRule list \<Rightarrow> ProductionConfigError + unit" where
  "validate_required_authorization_rules rs =
     try_bind (try_fold (has_purpose rs) () [ScreenUnlock, Login, Polkit]) (\<lambda>_.
     if \<not> list_ex (\<lambda>r. service_as_str (rule_service r) = ENROLLMENT_SERVICE \<and> rule_purpose r = Polkit \<and> rule_caller r = RootOnly) rs
     then invalid ''authorization policy lacks the exact root faceauth-enroll Polkit rule'' else Inr ())"

definition validate_authentication_boundary :: "AuthenticationBoundaryConfig \<Rightarrow> ProductionConfigError + unit" where
  "validate_authentication_boundary c =
     try_bind (require_absolute (bk_socket_path c) ''authentication socket'') (\<lambda>_.
     if \<not> (bk_socket_mode c = 0x180 \<or> bk_socket_mode c = 0x1B0)
     then invalid ''authentication socket mode must be 0600 or 0660''
     else
       try_bind (invalid_with ''invalid transport policy: '' OfTransport (transport_config_validate (boundary_transport c))) (\<lambda>_.
       try_bind (invalid_with ''invalid session policy: '' OfSession
         (session_config_validate \<lparr>transaction_duration_micros = bk_transaction_duration_micros c\<rparr>)) (\<lambda>_.
       if \<not> bk_password_fallback_mandatory c then invalid ''password fallback must be mandatory''
       else validate_evidence_config (bk_recovery_test_evidence c))))"

definition validate_cameras :: "ProductionCameraConfig \<Rightarrow> ProductionConfigError + unit" where
  "validate_cameras c =
     try_bind (validate_camera_selector (cx_selector (pc_infrared c)) ''infrared'') (\<lambda>_.
     try_bind (validate_camera_selector (cx_selector (pc_visible c)) ''visible'') (\<lambda>_.
     if cx_selector (pc_infrared c) = cx_selector (pc_visible c)
     then invalid ''infrared and visible camera selectors must differ''
     else
       try_bind (invalid_with ''invalid IR capture: '' OfCapture (spec_validate (cx_capture (pc_infrared c)) Infrared)) (\<lambda>_.
       try_bind (invalid_with ''invalid visible capture: '' OfCapture (spec_validate (cx_capture (pc_visible c)) Visible)) (\<lambda>_.
       invalid_with ''invalid camera pairing: '' OfCapture (pairing_validate (pc_pairing c))))))"

fun key_path_validate :: "StorageKeyConfig \<Rightarrow> ProductionConfigError + unit" where
  "key_path_validate (KeyTpm sealed_key_blob) = require_absolute sealed_key_blob ''TPM sealed-key blob''"
| "key_path_validate (KeyRootOnlyFile key_file) = require_absolute key_file ''file-key path''"

definition production_validate :: "ProductionConfig \<Rightarrow> ProductionConfigError + unit" where
  "production_validate c =
     (if pf_schema_version c \<noteq> PRODUCTION_CONFIG_SCHEMA_VERSION
      then invalid (''unsupported schema '' @ decimal (unat (pf_schema_version c)) @ ''; this build supports '' @
             decimal (unat PRODUCTION_CONFIG_SCHEMA_VERSION))
      else
        try_bind (validate_cameras (pf_cameras c)) (\<lambda>_.
        if \<not> is_absolute (rp_library_path (pf_runtime c)) then invalid ''runtime library path must be absolute''
        else
        try_bind (invalid_with ''invalid runtime policy: '' OfInference (runtime_config_validate (runtime_of (pf_runtime c)))) (\<lambda>_.
        try_bind (validate_models (pf_models c)) (\<lambda>_.
        try_bind (validate_calibration (pf_calibration c)) (\<lambda>_.
        try_bind (require_absolute (sk_template_directory (pf_storage c)) ''template directory'') (\<lambda>_.
        try_bind (key_path_validate (sk_key (pf_storage c))) (\<lambda>_.
        try_bind (validate_evidence_config (sk_recovery_evidence (pf_storage c))) (\<lambda>_.
        try_bind (invalid_with ''invalid authorization policy: '' OfAuthorization (policy_new (zk_rules (pf_authorization c)))) (\<lambda>_.
        try_bind (validate_required_authorization_rules (zk_rules (pf_authorization c))) (\<lambda>_.
        try_bind (validate_evidence_config (zk_review_evidence (pf_authorization c))) (\<lambda>_.
        if \<not> mk_enabled (pf_management c) then invalid ''Manager1 must be enabled in production configuration''
        else
        try_bind (invalid_with ''invalid Manager1 policy: '' OfManagement
          (management_config_validate \<lparr>operation_duration_micros = mk_operation_duration_micros (pf_management c)\<rparr>)) (\<lambda>_.
        try_bind (validate_evidence_config (mk_policy_review_evidence (pf_management c))) (\<lambda>_.
        try_bind (invalid_with ''invalid service supervision policy: '' OfSupervisor
          (supervisor_validate (supervisor_of (pf_supervision c)))) (\<lambda>_.
        validate_authentication_boundary (pf_authentication_boundary c)))))))))))))))"

end
