(* ===== verification/Assembly.thy ===== *)
theory Assembly
  imports Production
begin

text \<open>
  What the production assembly asks of the host (\<open>production.rs\<close>): trusted files and reviewed evidence, the
  inspection of cameras, runtime, models, calibration, storage and sockets, and the readiness report.
\<close>

section \<open>Trusted files\<close>

text \<open>
  The host at one moment: resolved paths and their metadata, the answer to \<open>symlink_metadata\<close>, whole
  files, opened files with their own metadata (is it a regular file?) and the chunks they return, device
  nodes (is it a character device?, owner, mode), and the devices known to udev.
\<close>

record Host =
  ho_files :: FileAnswers
  ho_symlink_metadata :: "string \<Rightarrow> IoError + unit"
  ho_read :: "Path \<Rightarrow> IoError + u8 list"
  ho_open :: "Path \<Rightarrow> IoError + (IoError + bool) \<times> (IoError + u8 list) list"
  ho_device :: "Path \<Rightarrow> IoError + bool \<times> u32 \<times> u32"
  ho_udev :: "IoError + UdevDevice list"

text \<open>Code outside the repository: the SPDX parser, SHA-256, and the JSON codec.\<close>

record Libraries =
  li_spdx_valid :: "string \<Rightarrow> bool"
  li_sha256 :: "u8 list \<Rightarrow> u8 list"
  li_manifest_to_json :: "ModelManifest \<Rightarrow> nat + u8 list"
  li_manifest_of_json :: "u8 list \<Rightarrow> nat + ModelManifest"
  li_config_of_json :: "u8 list \<Rightarrow> nat + ProductionConfig"

definition verify_ancestor :: "FileAnswers \<Rightarrow> unit \<Rightarrow> Path \<Rightarrow> ProductionConfigError + unit" where
  "verify_ancestor os _ p =
     try_bind (map_err PcIo (os_metadata os p)) (\<lambda>m.
     if ff_kind m \<noteq> FkDirectory \<or> ff_uid m \<noteq> 0 \<or> writable_by_others (ff_mode m) then Inl (PcUnsafePath p) else Inr ())"

definition verify_ancestors :: "FileAnswers \<Rightarrow> Path \<Rightarrow> ProductionConfigError + unit" where
  "verify_ancestors os p = try_fold (verify_ancestor os) () (tl (ancestors p))"

definition trusted_regular_file :: "FileAnswers \<Rightarrow> string \<Rightarrow> u64 \<Rightarrow> ProductionConfigError + Path" where
  "trusted_regular_file os path maximum_length =
     try_bind (map_err PcIo (os_canonicalize os path)) (\<lambda>p.
     try_bind (map_err PcIo (os_metadata os p)) (\<lambda>m.
     if ff_kind m \<noteq> FkRegular \<or> ff_uid m \<noteq> 0 \<or> writable_by_others (ff_mode m) then Inl (PcUnsafePath p)
     else if ff_len m = 0 \<or> ff_len m > maximum_length then Inl (PcInvalidFileLength p (ff_len m) maximum_length)
     else try_bind (verify_ancestors os p) (\<lambda>_. Inr p)))"

definition trusted_directory :: "FileAnswers \<Rightarrow> string \<Rightarrow> ProductionConfigError + unit" where
  "trusted_directory os path =
     try_bind (map_err PcIo (os_canonicalize os path)) (\<lambda>p.
     try_bind (map_err PcIo (os_metadata os p)) (\<lambda>m.
     if ff_kind m \<noteq> FkDirectory \<or> ff_uid m \<noteq> 0 \<or> writable_by_others (ff_mode m) then Inl (PcUnsafePath p)
     else verify_ancestors os p))"

definition trusted_character_device :: "Host \<Rightarrow> string \<Rightarrow> ProductionConfigError + unit" where
  "trusted_character_device h path =
     try_bind (map_err PcIo (os_canonicalize (ho_files h) path)) (\<lambda>p.
     try_bind (map_err PcIo (ho_device h p)) (\<lambda>(character, uid, mode).
     if \<not> character \<or> uid \<noteq> 0 \<or> mode AND 2 \<noteq> 0 then Inl (PcUnsafePath p)
     else verify_ancestors (ho_files h) p))"

text \<open>The loop that hashes a file: the chunks up to the first empty one, or an error.\<close>

fun hashed_bytes :: "(IoError + u8 list) list \<Rightarrow> IoError + u8 list" where
  "hashed_bytes [] = Inr []"
| "hashed_bytes (Inl e # cs) = Inl e"
| "hashed_bytes (Inr c # cs) = (if c = [] then Inr [] else try_bind (hashed_bytes cs) (\<lambda>rest. Inr (c @ rest)))"

definition text_of :: "('e \<Rightarrow> Cause) \<Rightarrow> 'e + 'a \<Rightarrow> Detail + 'a" where
  "text_of cause = map_err (\<lambda>e. Shown [] (cause e))"

definition verify_reviewed_evidence :: "Libraries \<Rightarrow> Host \<Rightarrow> ReviewedEvidence \<Rightarrow> Detail + unit" where
  "verify_reviewed_evidence L h e =
     try_bind (text_of OfProduction (trusted_regular_file (ho_files h) (re_path e) MAX_REVIEW_EVIDENCE_BYTES)) (\<lambda>p.
     try_bind (text_of OfIo (ho_open h p)) (\<lambda>(_, chunks).
     try_bind (text_of OfIo (hashed_bytes chunks)) (\<lambda>bytes.
     if hex_lower (li_sha256 L bytes) \<noteq> re_sha256 e
     then Inl (Text (''review evidence digest mismatch for '' @ re_path e)) else Inr ())))"

text \<open>\<open>load_production_config\<close> and \<open>from_slice\<close>.\<close>

definition config_from_slice :: "Libraries \<Rightarrow> u8 list \<Rightarrow> ProductionConfigError + ProductionConfig" where
  "config_from_slice L bytes =
     try_bind (map_err PcJson (li_config_of_json L bytes)) (\<lambda>c. try_bind (production_validate c) (\<lambda>_. Inr c))"

definition load_production_config :: "Libraries \<Rightarrow> Host \<Rightarrow> string \<Rightarrow> ProductionConfigError + ProductionConfig" where
  "load_production_config L h path =
     try_bind (trusted_regular_file (ho_files h) path MAX_CONFIG_BYTES) (\<lambda>p.
     try_bind (map_err PcIo (ho_read h p)) (config_from_slice L))"

section \<open>Inspection\<close>

definition inspect_cameras :: "Host \<Rightarrow> ProductionConfig \<Rightarrow> Detail + Detail" where
  "inspect_cameras h c =
     try_bind (text_of OfIo (discover (ho_udev h))) (\<lambda>devices.
     try_bind (text_of OfSelection (resolve_pair devices (camera_selectors (pf_cameras c)))) (\<lambda>_.
     Inr (Text ''configured IR and visible selectors resolve uniquely to distinct capture nodes'')))"

definition inspect_runtime :: "Host \<Rightarrow> ProductionConfig \<Rightarrow> Detail + Detail" where
  "inspect_runtime h c =
     try_bind (text_of OfInference (verify_runtime_installation (ho_files h) (runtime_of (pf_runtime c)))) (\<lambda>_.
     Inr (Text ''ONNX Runtime library and ancestor permissions satisfy trusted-file policy''))"

fun role_debug :: "ModelRole \<Rightarrow> string" where
  "role_debug RoleFaceDetector = ''FaceDetector''"
| "role_debug RoleFaceLandmarks = ''FaceLandmarks''"
| "role_debug RoleFaceEmbedding = ''FaceEmbedding''"
| "role_debug RolePassiveLivenessInfrared = ''PassiveLivenessInfrared''"
| "role_debug RolePassiveLivenessVisible = ''PassiveLivenessVisible''"
| "role_debug RolePassiveLivenessFusion = ''PassiveLivenessFusion''"

text \<open>\<open>ModelManifest::verify_file\<close> and \<open>compatibility_sha256\<close> on this host.\<close>

definition verify_artifact :: "Libraries \<Rightarrow> Host \<Rightarrow> ModelManifest \<Rightarrow> Path \<Rightarrow> ModelError + unit" where
  "verify_artifact L h m p =
     verify_file (li_spdx_valid L) (li_sha256 L) m (try_bind (ho_open h p) (\<lambda>_. Inr ())) (try_bind (ho_open h p) fst)
       (case ho_open h p of Inl _ \<Rightarrow> [] | Inr x \<Rightarrow> snd x)"

definition compatibility_of :: "Libraries \<Rightarrow> ModelManifest \<Rightarrow> ModelError + string" where
  "compatibility_of L = manifest_compatibility (li_spdx_valid L) (li_manifest_to_json L) (li_sha256 L)"

definition inspect_model ::
  "Libraries \<Rightarrow> Host \<Rightarrow> RuntimeConfig \<Rightarrow> (ModelRole \<times> string) list \<Rightarrow> ModelInstallation \<Rightarrow> Detail + (ModelRole \<times> string) list" where
  "inspect_model L h runtime identities i =
     try_bind (verify_reviewed_evidence L h (mi_review_evidence i)) (\<lambda>_.
     try_bind (text_of OfProduction (trusted_regular_file (ho_files h) (mi_manifest_path i) MAX_MANIFEST_BYTES)) (\<lambda>p.
     try_bind (text_of OfIo (ho_read h p)) (\<lambda>bytes.
     try_bind (text_of OfJson (li_manifest_of_json L bytes)) (\<lambda>m.
     try_bind (text_of OfModel (manifest_validate (li_spdx_valid L) m)) (\<lambda>_.
     if mm_role m \<noteq> mi_role i
     then Inl (Text (''manifest role '' @ role_debug (mm_role m) @ '' does not match configured role '' @ role_debug (mi_role i)))
     else
       try_bind (text_of OfInference (verify_model_installation (ho_files h) (verify_artifact L h m) runtime (mi_artifact_path i))) (\<lambda>_.
       try_bind (text_of OfModel (compatibility_of L m)) (\<lambda>compatibility.
       Inr (identities @ [(mi_role i, compatibility)]))))))))"

definition inspect_models :: "Libraries \<Rightarrow> Host \<Rightarrow> ProductionConfig \<Rightarrow> Detail + (ModelRole \<times> string) list" where
  "inspect_models L h c = try_fold (inspect_model L h (runtime_of (pf_runtime c))) [] (pf_models c)"

definition expected_identity :: "(ModelRole \<times> string) list \<Rightarrow> ModelRole \<Rightarrow> Detail + string" where
  "expected_identity identities role =
     map_err (\<lambda>_. Text (''missing '' @ role_debug role @ '' model identity''))
       (try_bind (ok_or (find (\<lambda>i. fst i = role) identities) ()) (\<lambda>i. Inr (snd i)))"

text \<open>The chain of comparisons, which stops at the first difference.\<close>

fun identities_differ :: "(ModelRole \<times> string) list \<Rightarrow> (ModelRole \<times> string) list \<Rightarrow> Detail + bool" where
  "identities_differ identities [] = Inr False"
| "identities_differ identities ((role, digest) # rest) =
     try_bind (expected_identity identities role) (\<lambda>actual.
       if actual \<noteq> digest then Inr True else identities_differ identities rest)"

definition calibrated_identities :: "CalibrationConfig \<Rightarrow> (ModelRole \<times> string) list" where
  "calibrated_identities c =
     [(RoleFaceEmbedding, rk_embedding_compatibility_sha256 (ck_recognition c)),
      (RoleFaceDetector, qk_detector_compatibility_sha256 (ck_quality c)),
      (RoleFaceLandmarks, qk_landmarks_compatibility_sha256 (ck_quality c)),
      (RoleFaceLandmarks, vk_landmarks_compatibility_sha256 (ck_active_liveness c)),
      (RolePassiveLivenessInfrared, pk_infrared_compatibility_sha256 (ck_passive_pad c)),
      (RolePassiveLivenessVisible, pk_visible_compatibility_sha256 (ck_passive_pad c)),
      (RolePassiveLivenessFusion, pk_fusion_compatibility_sha256 (ck_passive_pad c))]"

definition inspect_calibration ::
  "Libraries \<Rightarrow> Host \<Rightarrow> ProductionConfig \<Rightarrow> (ModelRole \<times> string) list option \<Rightarrow> Detail + Detail" where
  "inspect_calibration L h c identities =
     try_bind (ok_or identities (Text ''model identities are unavailable'')) (\<lambda>ids.
     try_bind (identities_differ ids (calibrated_identities (pf_calibration c))) (\<lambda>differ.
     if differ then Inl (Text ''calibration is not bound to the exact installed model contracts'')
     else
       try_bind (try_fold (\<lambda>_. verify_reviewed_evidence L h) ()
         [rk_evidence (ck_recognition (pf_calibration c)), qk_evidence (ck_quality (pf_calibration c)),
          pk_evidence (ck_passive_pad (pf_calibration c)), vk_evidence (ck_active_liveness (pf_calibration c)),
          ek_evidence (ck_enrollment (pf_calibration c))]) (\<lambda>_.
       Inr (Text ''all thresholds are bound to installed model contracts and immutable review evidence''))))"

definition inspect_storage :: "Libraries \<Rightarrow> Host \<Rightarrow> ProductionConfig \<Rightarrow> Detail + Detail" where
  "inspect_storage L h c =
     try_bind (text_of OfProduction (trusted_directory (ho_files h) (sk_template_directory (pf_storage c)))) (\<lambda>_.
     try_bind (verify_reviewed_evidence L h (sk_recovery_evidence (pf_storage c))) (\<lambda>_.
     case sk_key (pf_storage c) of
       KeyRootOnlyFile _ \<Rightarrow> Inl (Text ''root-only file keys are diagnostic-only; production requires TPM binding'')
     | KeyTpm blob \<Rightarrow>
         try_bind (text_of OfProduction (trusted_character_device h ''/dev/tpmrm0'')) (\<lambda>_.
         try_bind (text_of OfProduction (trusted_regular_file (ho_files h) blob MAX_CONFIG_BYTES)) (\<lambda>_.
         Inr (Text ''TPM resource manager, sealed machine key, template directory, and recovery evidence are verified'')))))"

definition inspect_authorization :: "Libraries \<Rightarrow> Host \<Rightarrow> ProductionConfig \<Rightarrow> Detail + Detail" where
  "inspect_authorization L h c =
     try_bind (verify_reviewed_evidence L h (zk_review_evidence (pf_authorization c))) (\<lambda>_.
     Inr (Text ''exact executable-bound screen-unlock, login, and Polkit rules are configured and reviewed''))"

definition inspect_management :: "Libraries \<Rightarrow> Host \<Rightarrow> ProductionConfig \<Rightarrow> Detail + Detail" where
  "inspect_management L h c =
     try_bind (verify_reviewed_evidence L h (mk_policy_review_evidence (pf_management c))) (\<lambda>_.
     Inr (Text (''stable org.faceauth.Manager1 at /org/faceauth/Manager1 and '' @ ENROLLMENT_POLKIT_ACTION @ '' policy are reviewed'')))"

text \<open>\<open>Path::parent\<close> of an absolute path: without its last component and the separators around it.\<close>

definition parent_path :: "string \<Rightarrow> string option" where
  "parent_path path =
     (let trimmed = rev (dropWhile (\<lambda>c. c = CHR ''/'') (rev path)) in
      if trimmed = [] then None
      else let up = rev (dropWhile (\<lambda>c. c = CHR ''/'') (dropWhile (\<lambda>c. c \<noteq> CHR ''/'') (rev trimmed))) in
        Some (if up = [] \<and> is_absolute path then ''/'' else up))"

definition inspect_authentication_boundary :: "Libraries \<Rightarrow> Host \<Rightarrow> ProductionConfig \<Rightarrow> Detail + Detail" where
  "inspect_authentication_boundary L h c =
     try_bind (ok_or (parent_path (bk_socket_path (pf_authentication_boundary c))) (Text ''authentication socket has no parent'')) (\<lambda>parent.
     try_bind (text_of OfProduction (trusted_directory (ho_files h) parent)) (\<lambda>_.
     case ho_symlink_metadata h (bk_socket_path (pf_authentication_boundary c)) of
       Inr _ \<Rightarrow> Inl (Text ''authentication socket path already exists; stale entries are never replaced'')
     | Inl e \<Rightarrow>
         if e \<noteq> IoNotFound then Inl (Shown [] (OfIo e))
         else
           try_bind (verify_reviewed_evidence L h (bk_recovery_test_evidence (pf_authentication_boundary c))) (\<lambda>_.
           Inr (Text ''root-owned socket boundary and isolated password-recovery evidence are verified''))))"

section \<open>The readiness report\<close>

datatype ReadinessGateKind =
  GateConfiguration | GateCameras | GateRuntime | GateModels | GateCalibration | GateStorage | GateAuthorization
| GateManagement | GateAuthenticationBoundary | GateServiceComposition

record ReadinessGate =
  gt_gate :: ReadinessGateKind
  gt_ready :: bool
  gt_detail :: Detail

record ReadinessReport =
  rr_schema_version :: u16
  rr_production_ready :: bool
  rr_gates :: "ReadinessGate list"

definition report_new :: "ReadinessGate list \<Rightarrow> ReadinessReport" where
  "report_new gates =
     \<lparr>rr_schema_version = READINESS_REPORT_SCHEMA_VERSION, rr_production_ready = list_all gt_ready gates, rr_gates = gates\<rparr>"

definition blocking_gates :: "ReadinessReport \<Rightarrow> ReadinessGateKind list" where
  "blocking_gates r = map gt_gate (filter (\<lambda>g. \<not> gt_ready g) (rr_gates r))"

definition ready_gate :: "ReadinessGateKind \<Rightarrow> Detail \<Rightarrow> ReadinessGate" where
  "ready_gate k detail = \<lparr>gt_gate = k, gt_ready = True, gt_detail = detail\<rparr>"

definition blocked_gate :: "ReadinessGateKind \<Rightarrow> Detail \<Rightarrow> ReadinessGate" where
  "blocked_gate k detail = \<lparr>gt_gate = k, gt_ready = False, gt_detail = detail\<rparr>"

definition result_gate :: "ReadinessGateKind \<Rightarrow> Detail + Detail \<Rightarrow> ReadinessGate" where
  "result_gate k r = (case r of Inr detail \<Rightarrow> ready_gate k detail | Inl detail \<Rightarrow> blocked_gate k detail)"

definition composition_gate :: ReadinessGate where
  "composition_gate = blocked_gate GateServiceComposition
     (Text ''full supervised capture/inference/authentication/enrollment composition is not implemented'')"

definition invalid_configuration_report :: "Detail \<Rightarrow> ReadinessReport" where
  "invalid_configuration_report detail =
     report_new (blocked_gate GateConfiguration detail #
       map (\<lambda>k. blocked_gate k (Text ''not evaluated because configuration is not trusted and valid''))
         [GateCameras, GateRuntime, GateModels, GateCalibration, GateStorage, GateAuthorization, GateManagement,
          GateAuthenticationBoundary] @
       [composition_gate])"

text \<open>Each gate asks the host at its own moment.\<close>

definition inspect_production_readiness ::
  "Libraries \<Rightarrow> (ReadinessGateKind \<Rightarrow> Host) \<Rightarrow> ProductionConfig \<Rightarrow> ReadinessReport" where
  "inspect_production_readiness L h c =
     (case production_validate c of
        Inl e \<Rightarrow> invalid_configuration_report (Shown [] (OfProduction e))
      | Inr _ \<Rightarrow>
        (let models = inspect_models L (h GateModels) c in
         report_new
           [ready_gate GateConfiguration (Text ''configuration schema and invariants are valid''),
            result_gate GateCameras (inspect_cameras (h GateCameras) c),
            result_gate GateRuntime (inspect_runtime (h GateRuntime) c),
            result_gate GateModels (try_bind models (\<lambda>_.
              Inr (Text ''all required manifests, artifacts, and model reviews are verified''))),
            result_gate GateCalibration (inspect_calibration L (h GateCalibration) c
              (case models of Inl _ \<Rightarrow> None | Inr ids \<Rightarrow> Some ids)),
            result_gate GateStorage (inspect_storage L (h GateStorage) c),
            result_gate GateAuthorization (inspect_authorization L (h GateAuthorization) c),
            result_gate GateManagement (inspect_management L (h GateManagement) c),
            result_gate GateAuthenticationBoundary (inspect_authentication_boundary L (h GateAuthenticationBoundary) c),
            composition_gate]))"

definition readiness_from_config_path ::
  "Libraries \<Rightarrow> (ReadinessGateKind \<Rightarrow> Host) \<Rightarrow> string \<Rightarrow> ReadinessReport" where
  "readiness_from_config_path L h path =
     (case load_production_config L (h GateConfiguration) path of
        Inr c \<Rightarrow> inspect_production_readiness L h c
      | Inl e \<Rightarrow> invalid_configuration_report (Shown [] (OfProduction e)))"

end
