(* ===== verification/Composition.thy ===== *)
theory Composition
  imports Assembly
begin

text \<open>
  What the production assembly builds: the authentication and the enrollment engine over one pipeline, the
  template store, the authentication boundary, and the supervised composition with the handler of its
  listener.
\<close>

section \<open>The biometric engines\<close>

text \<open>
  The host while the engines are built: when the models and the calibration are inspected and when the
  \<open>n\<close>-th model is loaded, the devices of discovery, the answers of V4L2 to \<open>open\<close>, and those of the \<open>ort\<close>
  crate for the \<open>n\<close>-th model.
\<close>

record BuildWorld =
  pw_inspection :: Host
  pw_calibration :: Host
  pw_udev :: "IoError + UdevDevice list"
  pw_open :: "CaptureModality \<Rightarrow> string list \<Rightarrow> CaptureSpec \<Rightarrow> CaptureError + unit"
  pw_load :: "nat \<Rightarrow> Host"
  pw_init :: "nat \<Rightarrow> nat + bool"
  pw_commit :: "nat \<Rightarrow> Path \<Rightarrow> nat + Graph"

definition load_model ::
  "Libraries \<Rightarrow> BuildWorld \<Rightarrow> RuntimeConfig \<Rightarrow> nat \<Rightarrow> ModelInstallation \<Rightarrow> RuntimeState \<Rightarrow>
   RuntimeState \<times> (ProductionConfigError + ModelRole \<times> OnnxSession)" where
  "load_model L w runtime n i s =
     (let h = pw_load w n in
      case try_bind (trusted_regular_file (ho_files h) (mi_manifest_path i) MAX_MANIFEST_BYTES) (\<lambda>p.
           try_bind (map_err PcIo (ho_read h p)) (\<lambda>bytes.
           try_bind (map_err PcJson (li_manifest_of_json L bytes)) (\<lambda>m.
           if mm_role m \<noteq> mi_role i then invalid ''configured model role differs from its manifest role'' else Inr m))) of
        Inl e \<Rightarrow> (s, Inl e)
      | Inr m \<Rightarrow>
          (case onnx_load (ho_files h) (verify_artifact L h m) (compatibility_of L m) (pw_init w n) (pw_commit w n)
                  runtime m (mi_artifact_path i) s of
             (s', Inl e) \<Rightarrow> (s', Inl (PcInvalid (Shown ''model load failed: '' (OfInference e))))
           | (s', Inr session) \<Rightarrow> (s', Inr (mi_role i, session))))"

fun load_models ::
  "Libraries \<Rightarrow> BuildWorld \<Rightarrow> RuntimeConfig \<Rightarrow> nat \<Rightarrow> ModelInstallation list \<Rightarrow> RuntimeState \<Rightarrow>
   RuntimeState \<times> (ProductionConfigError + (ModelRole \<times> OnnxSession) list)" where
  "load_models L w runtime n [] s = (s, Inr [])"
| "load_models L w runtime n (i # is) s =
     (case load_model L w runtime n i s of
        (s', Inl e) \<Rightarrow> (s', Inl e)
      | (s', Inr x) \<Rightarrow> apsnd (\<lambda>r. try_bind r (\<lambda>xs. Inr (x # xs))) (load_models L w runtime (Suc n) is s'))"

text \<open>\<open>Iterator::position\<close> and \<open>Vec::swap_remove\<close>.\<close>

fun position :: "('a \<Rightarrow> bool) \<Rightarrow> 'a list \<Rightarrow> nat option" where
  "position p [] = None"
| "position p (x # xs) = (if p x then Some 0 else map_option Suc (position p xs))"

definition swap_remove :: "nat \<Rightarrow> 'a list \<Rightarrow> 'a \<times> 'a list" where
  "swap_remove n xs = (xs ! n, butlast (xs[n := last xs]))"

definition take_session ::
  "ModelRole \<Rightarrow> (ModelRole \<times> OnnxSession) list \<Rightarrow> ProductionConfigError + OnnxSession \<times> (ModelRole \<times> OnnxSession) list" where
  "take_session role sessions =
     try_bind (ok_or (position (\<lambda>x. fst x = role) sessions) (PcInvalid (Text (''missing '' @ role_debug role @ '' session'')))) (\<lambda>n.
     (case swap_remove n sessions of (x, rest) \<Rightarrow> Inr (snd x, rest)))"

definition validate_loaded_calibration ::
  "ProductionConfig \<Rightarrow> OnnxSession \<Rightarrow> OnnxSession \<Rightarrow> OnnxSession \<Rightarrow> OnnxSession \<Rightarrow> OnnxSession \<Rightarrow> OnnxSession \<Rightarrow>
   ProductionConfigError + unit" where
  "validate_loaded_calibration c detector landmarks embedding passive_infrared passive_visible passive_fusion =
     (let k = pf_calibration c in
      if on_compatibility_sha256 detector \<noteq> qk_detector_compatibility_sha256 (ck_quality k)
         \<or> on_compatibility_sha256 landmarks \<noteq> qk_landmarks_compatibility_sha256 (ck_quality k)
         \<or> on_compatibility_sha256 landmarks \<noteq> vk_landmarks_compatibility_sha256 (ck_active_liveness k)
         \<or> on_compatibility_sha256 embedding \<noteq> rk_embedding_compatibility_sha256 (ck_recognition k)
         \<or> on_compatibility_sha256 passive_infrared \<noteq> pk_infrared_compatibility_sha256 (ck_passive_pad k)
         \<or> on_compatibility_sha256 passive_visible \<noteq> pk_visible_compatibility_sha256 (ck_passive_pad k)
         \<or> on_compatibility_sha256 passive_fusion \<noteq> pk_fusion_compatibility_sha256 (ck_passive_pad k)
      then invalid ''loaded model compatibility identities differ from calibration''
      else Inr ())"

definition passive_pad_policy :: "PassivePadCalibration \<Rightarrow> PassivePadPolicy" where
  "passive_pad_policy c =
     \<lparr>pp_infrared_compatibility_sha256 = pk_infrared_compatibility_sha256 c,
      pp_minimum_infrared_probability = pk_minimum_infrared_probability c,
      pp_visible_compatibility_sha256 = pk_visible_compatibility_sha256 c,
      pp_minimum_visible_probability = pk_minimum_visible_probability c,
      pp_fusion = Some (pk_fusion_compatibility_sha256 c, pk_minimum_fusion_probability c)\<rparr>"

text \<open>\<open>ProductionAuthenticationEngine\<close> and its \<open>from_shared\<close>.\<close>

record ProductionAuthenticationEngine =
  pa_pipeline :: Pipeline
  pa_challenge :: ChallengeConfig

definition authentication_engine_from_shared ::
  "Pipeline \<Rightarrow> ChallengeConfig \<Rightarrow> unit + ProductionAuthenticationEngine" where
  "authentication_engine_from_shared p challenge =
     try_bind (map_err (\<lambda>_. ()) (challenge_config_validate challenge)) (\<lambda>_.
     Inr \<lparr>pa_pipeline = p, pa_challenge = challenge\<rparr>)"

record ProductionBiometricEngines =
  bg_authentication :: ProductionAuthenticationEngine
  bg_enrollment :: ProductionEnrollmentEngine

text \<open>The part of the construction after the cameras are open and the sessions loaded.\<close>

definition assemble_engines ::
  "ProductionConfig \<Rightarrow> (ModelRole \<times> OnnxSession) list \<Rightarrow> ProductionConfigError + ProductionBiometricEngines" where
  "assemble_engines c sessions =
     (let k = pf_calibration c in
      try_bind (take_session RoleFaceDetector sessions) (\<lambda>(detector, sessions).
      try_bind (take_session RoleFaceLandmarks sessions) (\<lambda>(landmarks, sessions).
      try_bind (take_session RoleFaceEmbedding sessions) (\<lambda>(embedding, sessions).
      try_bind (take_session RolePassiveLivenessInfrared sessions) (\<lambda>(passive_infrared, sessions).
      try_bind (take_session RolePassiveLivenessVisible sessions) (\<lambda>(passive_visible, sessions).
      try_bind (take_session RolePassiveLivenessFusion sessions) (\<lambda>(passive_fusion, sessions).
      try_bind (validate_loaded_calibration c detector landmarks embedding passive_infrared passive_visible passive_fusion) (\<lambda>_.
      try_bind (invalid_with ''observation pipeline assembly failed: '' OfPipeline (pipeline_new
        \<lparr>pn_detector = detector, pn_landmarks = landmarks, pn_embedding = embedding, pn_passive_infrared = passive_infrared,
         pn_passive_visible = passive_visible, pn_passive_fusion = passive_fusion, pn_pairing = pc_pairing (pf_cameras c),
         pn_detection = detection_policy (ck_quality k), pn_quality = qk_policy (ck_quality k)\<rparr>)) (\<lambda>pipeline.
      try_bind (invalid_with ''authentication engine assembly failed: '' (\<lambda>_. OfAuthenticationEngine)
        (authentication_engine_from_shared pipeline (vk_challenge (ck_active_liveness k)))) (\<lambda>authentication.
      try_bind (invalid_with ''enrollment engine assembly failed: '' OfEnrollmentEngine
        (enrollment_engine_from_shared pipeline (vk_challenge (ck_active_liveness k)) (passive_pad_policy (ck_passive_pad k)))) (\<lambda>enrollment.
      Inr \<lparr>bg_authentication = authentication, bg_enrollment = enrollment\<rparr>)))))))))))"

text \<open>The checks before any model is loaded; the cameras are open after them.\<close>

definition prepare_engines :: "Libraries \<Rightarrow> BuildWorld \<Rightarrow> ProductionConfig \<Rightarrow> ProductionConfigError + unit" where
  "prepare_engines L w c =
     try_bind (production_validate c) (\<lambda>_.
     try_bind (map_err PcInvalid (inspect_models L (pw_inspection w) c)) (\<lambda>identities.
     try_bind (map_err PcInvalid (inspect_calibration L (pw_calibration w) c (Some identities))) (\<lambda>_.
     try_bind (invalid_with ''camera discovery failed: '' OfIo (discover (pw_udev w))) (\<lambda>devices.
     try_bind (invalid_with ''camera selection failed: '' OfSelection (resolve_pair devices (camera_selectors (pf_cameras c)))) (\<lambda>resolved.
     try_bind (invalid_with ''IR camera open failed: '' OfCapture
       (pw_open w Infrared (cd_node (rcp_infrared resolved)) (cx_capture (pc_infrared (pf_cameras c))))) (\<lambda>_.
     invalid_with ''visible camera open failed: '' OfCapture
       (pw_open w Visible (cd_node (rcp_visible resolved)) (cx_capture (pc_visible (pf_cameras c))))))))))"

definition build_production_biometric_engines ::
  "Libraries \<Rightarrow> BuildWorld \<Rightarrow> ProductionConfig \<Rightarrow> RuntimeState \<Rightarrow>
   RuntimeState \<times> (ProductionConfigError + ProductionBiometricEngines)" where
  "build_production_biometric_engines L w c s =
     (case prepare_engines L w c of
        Inl e \<Rightarrow> (s, Inl e)
      | Inr _ \<Rightarrow>
          (case load_models L w (runtime_of (pf_runtime c)) 0 (pf_models c) s of
             (s', r) \<Rightarrow> (s', try_bind r (assemble_engines c))))"

definition build_production_authentication_engine ::
  "Libraries \<Rightarrow> BuildWorld \<Rightarrow> ProductionConfig \<Rightarrow> RuntimeState \<Rightarrow>
   RuntimeState \<times> (ProductionConfigError + ProductionAuthenticationEngine)" where
  "build_production_authentication_engine L w c s =
     apsnd (\<lambda>r. try_bind r (\<lambda>engines. Inr (bg_authentication engines))) (build_production_biometric_engines L w c s)"

section \<open>The template store and the boundary\<close>

text \<open>\<open>Path::components\<close> of an absolute path.\<close>

fun components_of :: "string \<Rightarrow> string \<Rightarrow> string list" where
  "components_of current [] = (if current = [] \<or> current = ''.'' then [] else [current])"
| "components_of current (c # cs) =
     (if c = CHR ''/'' then (if current = [] \<or> current = ''.'' then [] else [current]) @ components_of [] cs
      else components_of (current @ [c]) cs)"

definition path_components :: "string \<Rightarrow> Path" where
  "path_components = components_of []"

text \<open>\<open>self_test\<close> is the answer of the TPM provider for the sealed blob, which the store keeps.\<close>

definition build_production_template_store ::
  "Libraries \<Rightarrow> Host \<Rightarrow> (string \<Rightarrow> StorageError + unit) \<Rightarrow> ProductionConfig \<Rightarrow>
   ProductionConfigError + string \<times> TemplateStore" where
  "build_production_template_store L h self_test c =
     try_bind (production_validate c) (\<lambda>_.
     try_bind (map_err PcInvalid (inspect_storage L h c)) (\<lambda>_.
     case sk_key (pf_storage c) of
       KeyRootOnlyFile _ \<Rightarrow> invalid ''production template storage requires a TPM key''
     | KeyTpm blob \<Rightarrow>
         try_bind (invalid_with ''TPM key self-test failed: '' OfStorage (self_test blob)) (\<lambda>_.
         Inr (blob, template_store_new (path_components (sk_template_directory (pf_storage c)))))))"

record ProductionAuthenticationBoundary =
  ub_listener :: SecureListener
  ub_transport :: TransportConfig
  ub_authorization :: AuthorizationPolicy
  ub_sessions :: SessionConfig

text \<open>A listener that is dropped removes its own socket; \<open>faults\<close> are the answers to that.\<close>

definition build_production_authentication_boundary ::
  "Libraries \<Rightarrow> Host \<Rightarrow> Host \<Rightarrow> bind_world \<Rightarrow> IoError option \<times> IoError option \<Rightarrow> ProductionConfig \<Rightarrow> Filesystem \<Rightarrow>
   Filesystem \<times> (ProductionConfigError + ProductionAuthenticationBoundary)" where
  "build_production_authentication_boundary L h h' w faults c fs =
     (let b = pf_authentication_boundary c in
      case try_bind (production_validate c) (\<lambda>_.
           try_bind (map_err PcInvalid (inspect_authorization L h c)) (\<lambda>_.
           map_err PcInvalid (inspect_authentication_boundary L h' c))) of
        Inl e \<Rightarrow> (fs, Inl e)
      | Inr _ \<Rightarrow>
          (case bind_root_owned w fs (path_components (bk_socket_path b)) (bk_socket_mode b) of
             (fs', Inl e) \<Rightarrow> (fs', Inl (PcInvalid (Shown ''authentication socket bind failed: '' (OfListener e))))
           | (fs', Inr listener) \<Rightarrow>
               (case policy_new (zk_rules (pf_authorization c)) of
                  Inl e \<Rightarrow> (listener_drop faults fs' listener, Inl (PcInvalid (Shown ''authorization assembly failed: '' (OfAuthorization e))))
                | Inr policy \<Rightarrow>
                    (fs', Inr \<lparr>ub_listener = listener, ub_transport = boundary_transport b, ub_authorization = policy,
                       ub_sessions = \<lparr>transaction_duration_micros = bk_transaction_duration_micros b\<rparr>\<rparr>))))"

section \<open>The supervised composition\<close>

text \<open>
  The handler of a connection: the token of the connection may fail, and whatever error its coordination
  ends with is stored, replacing an earlier one, and the shutdown of the daemon is requested. The error is
  kept as such instead of its text.
\<close>

record ListenerHandler =
  lh_fatal :: "(SessionError + BoundaryError) option"
  lh_requested :: bool

definition handle_connection :: "SessionError + (BoundaryError + Response) \<Rightarrow> ListenerHandler \<Rightarrow> ListenerHandler" where
  "handle_connection result s =
     (case result of
        Inl e \<Rightarrow> s\<lparr>lh_fatal := Some (Inl e), lh_requested := True\<rparr>
      | Inr (Inl e) \<Rightarrow> s\<lparr>lh_fatal := Some (Inr e), lh_requested := True\<rparr>
      | Inr (Inr _) \<Rightarrow> s)"

datatype ListenerFailure = LfSession SessionError | LfTransport TransportError | LfConnection "SessionError + BoundaryError"

text \<open>
  The listener task: the session manager, the accept loop with the answers of the token (which other
  services request, too), and at its end the stored error. \<open>connections\<close> are the results of the streams
  it handled, in order.
\<close>

definition listener_task ::
  "SessionConfig \<Rightarrow> TransportConfig \<Rightarrow> IoError + unit \<Rightarrow> (bool \<times> (IoError + Incoming)) list \<Rightarrow>
   IoError option \<times> IoError option \<Rightarrow> (PeerStream list \<Rightarrow> (SessionError + (BoundaryError + Response)) list) \<Rightarrow>
   Filesystem \<Rightarrow> SecureListener \<Rightarrow> (Filesystem \<times> ListenerHandler \<times> (ListenerFailure + unit)) option" where
  "listener_task sessions transport nonblocking answers faults connections fs listener =
     (case session_new sessions of
        Inl e \<Rightarrow> Some (listener_drop faults fs listener, \<lparr>lh_fatal = None, lh_requested = False\<rparr>, Inl (LfSession e))
      | Inr _ \<Rightarrow>
          map_option (\<lambda>(fs', report, handled).
            let s = fold handle_connection (connections handled) \<lparr>lh_fatal = None, lh_requested = False\<rparr> in
            (fs', s, try_bind (map_err LfTransport report) (\<lambda>_.
               case lh_fatal s of None \<Rightarrow> Inr () | Some e \<Rightarrow> Inl (LfConnection e))))
          (run_supervised_authentication_listener transport accept_config_default nonblocking answers faults fs listener))"

datatype ProductionAuthenticationRunError = Construction ProductionConfigError | Supervision SupervisorError

text \<open>
  The composition: the supervisor with its two services, and its run over the given turns. The two threads
  are answers to their creation; what their tasks do to the file system after that is \<open>listener_task\<close>.
\<close>

definition supervised_services ::
  "ProductionConfig \<Rightarrow> IoError + unit \<Rightarrow> IoError + unit \<Rightarrow> SupervisorError + ServiceSupervisor" where
  "supervised_services c engine_thread listener_thread =
     try_bind (supervisor_new (supervisor_of (pf_supervision c))) (\<lambda>s.
     case supervisor_spawn s ''authentication-engine'' engine_thread of
       (s, Inl e) \<Rightarrow> Inl e
     | (s, Inr _) \<Rightarrow>
        (case supervisor_spawn s ''authentication-listener'' listener_thread of
           (s, Inl e) \<Rightarrow> Inl e
         | (s, Inr _) \<Rightarrow> Inr s))"

record CompositionWorld =
  cw_build :: BuildWorld
  cw_storage :: Host
  cw_self_test :: "string \<Rightarrow> StorageError + unit"
  cw_authorization :: Host
  cw_boundary :: Host
  cw_bind :: bind_world
  cw_drop :: "IoError option \<times> IoError option"
  cw_engine_thread :: "IoError + unit"
  cw_listener_thread :: "IoError + unit"

definition run_production_authentication_composition ::
  "Libraries \<Rightarrow> CompositionWorld \<Rightarrow> Turn list \<Rightarrow> ProductionConfig \<Rightarrow> RuntimeState \<times> Filesystem \<Rightarrow>
   (RuntimeState \<times> Filesystem) \<times> (ProductionAuthenticationRunError + SupervisorReport) option" where
  "run_production_authentication_composition L w turns c sf =
     (case sf of (s, fs) \<Rightarrow>
     (case build_production_authentication_engine L (cw_build w) c s of
        (s, Inl e) \<Rightarrow> ((s, fs), Some (Inl (Construction e)))
      | (s, Inr engine) \<Rightarrow>
     (case build_production_template_store L (cw_storage w) (cw_self_test w) c of
        Inl e \<Rightarrow> ((s, fs), Some (Inl (Construction e)))
      | Inr templates \<Rightarrow>
     (case build_production_authentication_boundary L (cw_authorization w) (cw_boundary w) (cw_bind w) (cw_drop w) c fs of
        (fs, Inl e) \<Rightarrow> ((s, fs), Some (Inl (Construction e)))
      | (fs, Inr boundary) \<Rightarrow>
     (case supervised_services c (cw_engine_thread w) (cw_listener_thread w) of
        Inl e \<Rightarrow> ((s, listener_drop (cw_drop w) fs (ub_listener boundary)), Some (Inl (Supervision e)))
      | Inr supervisor \<Rightarrow> ((s, fs), map_option (map_err Supervision) (fst (run_until supervisor turns))))))))"

end
