(* ===== verification/AssemblyProperties.thy ===== *)
theory AssemblyProperties
  imports Composition
begin

text \<open>
  What the production assembly guarantees: a validated configuration is complete and admits every policy, the
  engines rest on trusted files bound to their calibration, no report is ever ready, and what ends the service.
\<close>

section \<open>Validated configurations\<close>

lemma invalid_with_ok [simp]: "invalid_with what cause r = Inr x \<longleftrightarrow> r = Inr x"
  by (simp add: invalid_with_def map_err_Inr)

lemma invalid_not_ok [simp]: "invalid what \<noteq> Inr x" "(Inr x = invalid what) = False"
  by (simp_all add: invalid_def)

lemma model_steps_ok:
  "try_fold model_step roles ms = Inr roles' \<Longrightarrow> roles' = roles @ map mi_role ms \<and>
     (distinct roles \<longrightarrow> distinct (roles @ map mi_role ms))"
proof (induction ms arbitrary: roles)
  case (Cons m ms)
  then obtain r where r: "model_step roles m = Inr r" "try_fold model_step r ms = Inr roles'" by (auto simp: result_simps)
  then have "r = roles @ [mi_role m]" "mi_role m \<notin> set roles" by (auto simp: model_step_def result_simps split: if_splits)
  with Cons.IH [OF r(2)] show ?case by auto
qed simp

lemma role_cases: "set REQUIRED_MODEL_ROLES = UNIV"
  by (auto simp: REQUIRED_MODEL_ROLES_def) (metis ModelRole.exhaust)

lemma validate_models_ok:
  "validate_models ms = Inr u \<Longrightarrow> distinct (map mi_role ms) \<and> set (map mi_role ms) = UNIV"
  using model_steps_ok [of "[]" ms] by (auto simp: validate_models_def result_simps list_all_iff role_cases split: if_splits)

text \<open>The parts of a validated configuration, each with what its own check says.\<close>

definition admitted_policies :: "ProductionConfig \<Rightarrow> bool" where
  "admitted_policies c \<longleftrightarrow>
     runtime_config_validate (runtime_of (pf_runtime c)) = Inr () \<and>
     pairing_validate (pc_pairing (pf_cameras c)) = Inr () \<and>
     detection_validate (detection_policy (ck_quality (pf_calibration c))) = Inr () \<and>
     quality_config_validate (qk_policy (ck_quality (pf_calibration c))) = Inr () \<and>
     pad_validate (passive_pad_policy (ck_passive_pad (pf_calibration c))) = Inr () \<and>
     challenge_config_validate (vk_challenge (ck_active_liveness (pf_calibration c))) = Inr () \<and>
     enrollment_config_validate (ek_policy (ck_enrollment (pf_calibration c))) = Inr () \<and>
     policy_validate (rk_policy (ck_recognition (pf_calibration c))) = Inr ()"

definition admitted_services :: "ProductionConfig \<Rightarrow> bool" where
  "admitted_services c \<longleftrightarrow>
     is_ok (policy_new (zk_rules (pf_authorization c))) \<and>
     is_ok (management_new \<lparr>operation_duration_micros = mk_operation_duration_micros (pf_management c)\<rparr>) \<and>
     is_ok (session_new \<lparr>transaction_duration_micros = bk_transaction_duration_micros (pf_authentication_boundary c)\<rparr>) \<and>
     transport_config_validate (boundary_transport (pf_authentication_boundary c)) = Inr () \<and>
     is_ok (supervisor_new (supervisor_of (pf_supervision c)))"

lemma validate_calibration_ok:
  assumes "validate_calibration k = Inr ()"
  shows "policy_validate (rk_policy (ck_recognition k)) = Inr () \<and> require_visible (capture (rk_policy (ck_recognition k))) \<and>
      liveness (rk_policy (ck_recognition k)) = PassiveAndActive \<and> password_fallback (rk_policy (ck_recognition k))"
    and "detection_validate (detection_policy (ck_quality k)) = Inr () \<and> quality_config_validate (qk_policy (ck_quality k)) = Inr ()"
    and "pad_validate (passive_pad_policy (ck_passive_pad k)) = Inr ()"
    and "challenge_config_validate (vk_challenge (ck_active_liveness k)) = Inr ()"
    and "enrollment_config_validate (ek_policy (ck_enrollment k)) = Inr ()"
proof -
  from assms have parts: "validate_recognition (ck_recognition k) = Inr ()" "validate_quality (ck_quality k) = Inr ()"
    "validate_passive_pad (ck_passive_pad k) = Inr ()" "validate_active_liveness (ck_active_liveness k) = Inr ()"
    "enrollment_config_validate (ek_policy (ck_enrollment k)) = Inr ()"
    by (auto simp: validate_calibration_def try_bind_Inr)
  from parts(1) show "policy_validate (rk_policy (ck_recognition k)) = Inr () \<and> require_visible (capture (rk_policy (ck_recognition k))) \<and>
      liveness (rk_policy (ck_recognition k)) = PassiveAndActive \<and> password_fallback (rk_policy (ck_recognition k))"
    by (auto simp: validate_recognition_def try_bind_Inr split: if_splits)
  from parts(2) show "detection_validate (detection_policy (ck_quality k)) = Inr () \<and>
      quality_config_validate (qk_policy (ck_quality k)) = Inr ()"
    by (auto simp: validate_quality_def try_bind_Inr map_err_Inr split: if_splits)
  from parts(3) show "pad_validate (passive_pad_policy (ck_passive_pad k)) = Inr ()"
    by (auto simp: validate_passive_pad_def pad_validate_def passive_pad_policy_def Let_def split: if_splits)
  from parts(4) show "challenge_config_validate (vk_challenge (ck_active_liveness k)) = Inr ()"
    by (auto simp: validate_active_liveness_def try_bind_Inr split: if_splits)
  show "enrollment_config_validate (ek_policy (ck_enrollment k)) = Inr ()" by (rule parts(5))
qed

lemma production_validate_ok:
  assumes "production_validate c = Inr ()"
  shows "pf_schema_version c = 4" "validate_cameras (pf_cameras c) = Inr ()"
    "runtime_config_validate (runtime_of (pf_runtime c)) = Inr ()" "validate_models (pf_models c) = Inr ()"
    "validate_calibration (pf_calibration c) = Inr ()" "is_ok (policy_new (zk_rules (pf_authorization c)))"
    "validate_required_authorization_rules (zk_rules (pf_authorization c)) = Inr ()" "mk_enabled (pf_management c)"
    "management_config_validate \<lparr>operation_duration_micros = mk_operation_duration_micros (pf_management c)\<rparr> = Inr ()"
    "supervisor_validate (supervisor_of (pf_supervision c)) = Inr ()"
    "validate_authentication_boundary (pf_authentication_boundary c) = Inr ()"
  using assms
  by (auto simp: production_validate_def PRODUCTION_CONFIG_SCHEMA_VERSION_def try_bind_Inr split: if_splits)


section \<open>Trusted files\<close>

lemma trusted_regular_file_ok:
  assumes "trusted_regular_file os path n = Inr p"
  shows "os_canonicalize os path = Inr p \<and> root_controlled os p \<and>
    (\<exists>f. os_metadata os p = Inr f \<and> 0 < ff_len f \<and> ff_len f \<le> n)"
proof -
  obtain f where f: "os_canonicalize os path = Inr p" "os_metadata os p = Inr f" "ff_kind f = FkRegular" "ff_uid f = 0"
      "\<not> writable_by_others (ff_mode f)" "ff_len f \<noteq> 0" "ff_len f \<le> n"
    and up: "try_fold (verify_ancestor os) () (tl (ancestors p)) = Inr ()"
    using assms by (auto simp: trusted_regular_file_def verify_ancestors_def try_bind_Inr map_err_Inr split: if_splits)
  have "(\<lambda>_. verify_ancestor os ()) = verify_ancestor os" by (simp add: fun_eq_iff)
  with up have each: "try_fold (\<lambda>_. verify_ancestor os ()) () (tl (ancestors p)) = Inr ()" by simp
  have "\<exists>g. os_metadata os q = Inr g \<and> ff_kind g = FkDirectory \<and> ff_uid g = 0 \<and> \<not> writable_by_others (ff_mode g)"
    if "q \<in> set (tl (ancestors p))" for q
    using try_fold_each [OF each that] by (auto simp: verify_ancestor_def try_bind_Inr map_err_Inr split: if_splits)
  with f show ?thesis by (auto simp: root_controlled_def word_neq_0_conv)
qed

lemma text_of_ok [simp]: "text_of cause r = Inr x \<longleftrightarrow> r = Inr x"
  by (simp add: text_of_def map_err_Inr)

definition evidence_reviewed :: "Libraries \<Rightarrow> Host \<Rightarrow> ReviewedEvidence \<Rightarrow> bool" where
  "evidence_reviewed L h e \<longleftrightarrow>
     (\<exists>p regular chunks bytes. os_canonicalize (ho_files h) (re_path e) = Inr p \<and> root_controlled (ho_files h) p \<and>
        ho_open h p = Inr (regular, chunks) \<and> hashed_bytes chunks = Inr bytes \<and> hex_lower (li_sha256 L bytes) = re_sha256 e)"

lemma verify_reviewed_evidence_ok: "verify_reviewed_evidence L h e = Inr u \<Longrightarrow> evidence_reviewed L h e"
  by (auto simp: verify_reviewed_evidence_def evidence_reviewed_def try_bind_Inr split: if_splits
      dest!: trusted_regular_file_ok)

section \<open>The engines\<close>

definition model_installed ::
  "Libraries \<Rightarrow> Host \<Rightarrow> (Path \<Rightarrow> nat + Graph) \<Rightarrow> ModelInstallation \<Rightarrow> OnnxSession \<Rightarrow> bool" where
  "model_installed L h commit i x \<longleftrightarrow>
     (let m = on_manifest x in
      mm_role m = mi_role i \<and> manifest_validate (li_spdx_valid L) m = Inr () \<and>
      compatibility_of L m = Inr (on_compatibility_sha256 x) \<and> graph_matches m (on_graph x) \<and>
      (\<exists>p bytes. os_canonicalize (ho_files h) (mi_manifest_path i) = Inr p \<and> root_controlled (ho_files h) p \<and>
         ho_read h p = Inr bytes \<and> li_manifest_of_json L bytes = Inr m) \<and>
      (\<exists>p regular chunks bytes. os_canonicalize (ho_files h) (mi_artifact_path i) = Inr p \<and> root_controlled (ho_files h) p \<and>
         ho_open h p = Inr (regular, chunks) \<and> read_chunks chunks [] = Inr bytes \<and>
         hex_lower (li_sha256 L bytes) = mm_sha256 m \<and> commit p = Inr (on_graph x)))"

lemma verify_artifact_ok:
  assumes "verify_artifact L h m p = Inr ()"
  shows "\<exists>regular chunks bytes. ho_open h p = Inr (regular, chunks) \<and> read_chunks chunks [] = Inr bytes \<and>
    hex_lower (li_sha256 L bytes) = mm_sha256 m"
proof -
  obtain x where "ho_open h p = Inr x"
    using assms by (auto simp: verify_artifact_def verify_file_def try_bind_Inr map_err_Inr)
  with verify_file_ok [OF assms [unfolded verify_artifact_def]] show ?thesis by (cases x) auto
qed

lemma onnx_load_verified:
  assumes "onnx_load os verify compatibility init commit c m model s0 = (s1, Inr x)"
  shows "\<exists>p. os_canonicalize os model = Inr p \<and> verify p = Inr ()"
proof -
  let ?pre = "try_bind (runtime_config_validate c) (\<lambda>_. try_bind (map_err IE_Io (os_canonicalize os model)) (\<lambda>p.
      try_bind (verify_trusted_file os p (Some (rc_max_model_bytes c))) (\<lambda>_. try_bind (map_err IE_Model (verify p)) (\<lambda>_. Inr p))))"
  obtain p where "?pre = Inr p" using assms by (cases ?pre) (simp_all add: onnx_load_def)
  then show ?thesis by (auto simp only: try_bind_Inr map_err_Inr sum.inject unit_eq)
qed

lemma load_model_parts:
  assumes "load_model L w runtime n i s = (s', Inr rx)"
  shows "\<exists>p bytes m x. trusted_regular_file (ho_files (pw_load w n)) (mi_manifest_path i) MAX_MANIFEST_BYTES = Inr p \<and>
    ho_read (pw_load w n) p = Inr bytes \<and> li_manifest_of_json L bytes = Inr m \<and> mm_role m = mi_role i \<and> rx = (mi_role i, x) \<and>
    onnx_load (ho_files (pw_load w n)) (verify_artifact L (pw_load w n) m) (compatibility_of L m) (pw_init w n) (pw_commit w n)
      runtime m (mi_artifact_path i) s = (s', Inr x)"
proof -
  let ?h = "pw_load w n"
  let ?pre = "try_bind (trusted_regular_file (ho_files ?h) (mi_manifest_path i) MAX_MANIFEST_BYTES) (\<lambda>p.
           try_bind (map_err PcIo (ho_read ?h p)) (\<lambda>bytes.
           try_bind (map_err PcJson (li_manifest_of_json L bytes)) (\<lambda>m.
           if mm_role m \<noteq> mi_role i then invalid ''configured model role differs from its manifest role'' else Inr m)))"
  obtain m where pre: "?pre = Inr m" using assms by (cases ?pre) (simp_all add: load_model_def Let_def)
  then obtain p bytes where m: "trusted_regular_file (ho_files ?h) (mi_manifest_path i) MAX_MANIFEST_BYTES = Inr p"
      "ho_read ?h p = Inr bytes" "li_manifest_of_json L bytes = Inr m" "mm_role m = mi_role i"
    by (auto simp: try_bind_Inr map_err_Inr split: if_splits)
  obtain s1 q where load: "onnx_load (ho_files ?h) (verify_artifact L ?h m) (compatibility_of L m) (pw_init w n) (pw_commit w n)
      runtime m (mi_artifact_path i) s = (s1, q)" by fastforce
  note step = assms [unfolded load_model_def Let_def pre sum.case load prod.case]
  then obtain x where "q = Inr x" "s1 = s'" "rx = (mi_role i, x)" by (cases q) simp_all
  with m load show ?thesis by blast
qed

lemma load_model_ok:
  assumes "load_model L w runtime n i s = (s', Inr rx)"
  shows "fst rx = mi_role i \<and> model_installed L (pw_load w n) (pw_commit w n) i (snd rx)"
proof -
  let ?h = "pw_load w n"
  from load_model_parts [OF assms] obtain p bytes m x where
    m: "trusted_regular_file (ho_files ?h) (mi_manifest_path i) MAX_MANIFEST_BYTES = Inr p" "ho_read ?h p = Inr bytes"
      "li_manifest_of_json L bytes = Inr m" "mm_role m = mi_role i" "rx = (mi_role i, x)"
    and load: "onnx_load (ho_files ?h) (verify_artifact L ?h m) (compatibility_of L m) (pw_init w n) (pw_commit w n)
      runtime m (mi_artifact_path i) s = (s', Inr x)" by blast
  note trusted = loaded_session_trusted [OF load [unfolded verify_artifact_def [abs_def] compatibility_of_def]]
  from onnx_load_verified [OF load] verify_artifact_ok obtain q regular chunks b where
    q: "os_canonicalize (ho_files ?h) (mi_artifact_path i) = Inr q" "ho_open ?h q = Inr (regular, chunks)"
      "read_chunks chunks [] = Inr b" "hex_lower (li_sha256 L b) = mm_sha256 m" by blast
  from trusted q(1) have "root_controlled (ho_files ?h) q" "pw_commit w n q = Inr (on_graph x)" "on_manifest x = m"
      "manifest_validate (li_spdx_valid L) m = Inr ()" "graph_matches m (on_graph x)"
      "compatibility_of L m = Inr (on_compatibility_sha256 x)"
    by (auto simp: compatibility_of_def)
  with m q trusted_regular_file_ok [OF m(1)] show ?thesis
    unfolding model_installed_def Let_def by auto
qed

lemma load_models_ok:
  "load_models L w runtime n is s = (s', Inr xs) \<Longrightarrow> x \<in> set xs \<Longrightarrow>
     \<exists>k < length is. fst x = mi_role (is ! k) \<and> model_installed L (pw_load w (n + k)) (pw_commit w (n + k)) (is ! k) (snd x)"
proof (induction "is" arbitrary: n s xs)
  case (Cons i "is")
  obtain s1 q where one: "load_model L w runtime n i s = (s1, q)" by fastforce
  obtain s2 r where more: "load_models L w runtime (Suc n) is s1 = (s2, r)" by fastforce
  from Cons.prems(1) one more obtain y ys where q: "q = Inr y" "r = Inr ys" "xs = y # ys" "s2 = s'"
    by (cases q; cases r) auto
  show ?case
  proof (cases "x = y")
    case True
    with load_model_ok [OF one [unfolded q(1)]] show ?thesis by (intro exI [of _ 0]) simp
  next
    case False
    with Cons.prems(2) q(3) have "x \<in> set ys" by simp
    from Cons.IH [OF more [unfolded q(2,4)] this] obtain k where "k < length is" "fst x = mi_role (is ! k)"
      "model_installed L (pw_load w (Suc n + k)) (pw_commit w (Suc n + k)) (is ! k) (snd x)" by blast
    then show ?thesis by (intro exI [of _ "Suc k"]) simp
  qed
qed simp

lemma position_ok: "position p xs = Some n \<Longrightarrow> n < length xs \<and> p (xs ! n)"
  by (induction xs arbitrary: n) (auto split: if_splits)

lemma take_session_ok:
  assumes "take_session role xs = Inr (x, rest)"
  shows "(role, x) \<in> set xs \<and> set rest \<subseteq> set xs"
proof -
  obtain n where n: "position (\<lambda>x. fst x = role) xs = Some n" "x = snd (xs ! n)" "rest = butlast (xs[n := last xs])"
    using assms by (auto simp: take_session_def swap_remove_def try_bind_Inr ok_or_Inr)
  from position_ok [OF n(1)] have "n < length xs" "xs ! n = (role, x)" using n(2) by (auto simp: prod_eq_iff)
  moreover have "set (butlast (xs[n := last xs])) \<subseteq> set xs"
  proof
    fix y assume "y \<in> set (butlast (xs[n := last xs]))"
    then have "y \<in> insert (last xs) (set xs)" using set_update_subset_insert [of xs n "last xs"] by (blast dest: in_set_butlastD)
    with \<open>n < length xs\<close> show "y \<in> set xs" by (auto intro: last_in_set)
  qed
  ultimately show ?thesis using n(3) by (metis nth_mem)
qed

definition pipeline_sessions :: "Pipeline \<Rightarrow> (ModelRole \<times> OnnxSession) list" where
  "pipeline_sessions p =
     [(RoleFaceEmbedding, pn_embedding p), (RoleFaceDetector, pn_detector p), (RoleFaceLandmarks, pn_landmarks p),
      (RoleFaceLandmarks, pn_landmarks p), (RolePassiveLivenessInfrared, pn_passive_infrared p),
      (RolePassiveLivenessVisible, pn_passive_visible p), (RolePassiveLivenessFusion, pn_passive_fusion p)]"

text \<open>
  Engines that are bound to their configuration: they share one admitted pipeline, with its policies; the
  session of each role is the installed model of that role, of the compatibility identity that was calibrated.
\<close>

definition engines_bound :: "Libraries \<Rightarrow> BuildWorld \<Rightarrow> ProductionConfig \<Rightarrow> ProductionBiometricEngines \<Rightarrow> bool" where
  "engines_bound L w c e \<longleftrightarrow>
     (let p = pa_pipeline (bg_authentication e); k = pf_calibration c in
      pipeline_new p = Inr p \<and> pn_pairing p = pc_pairing (pf_cameras c) \<and>
      pn_detection p = detection_policy (ck_quality k) \<and> pn_quality p = qk_policy (ck_quality k) \<and>
      pa_challenge (bg_authentication e) = vk_challenge (ck_active_liveness k) \<and>
      challenge_config_validate (vk_challenge (ck_active_liveness k)) = Inr () \<and>
      bg_enrollment e = \<lparr>pe_pipeline = p, pe_challenge = vk_challenge (ck_active_liveness k),
        pe_passive_pad = passive_pad_policy (ck_passive_pad k)\<rparr> \<and>
      map (\<lambda>(role, s). (role, on_compatibility_sha256 s)) (pipeline_sessions p) = calibrated_identities k \<and>
      (\<forall>(role, s) \<in> set (pipeline_sessions p). session_role s = role \<and>
         (\<exists>n < length (pf_models c). mi_role (pf_models c ! n) = role \<and>
            model_installed L (pw_load w n) (pw_commit w n) (pf_models c ! n) s)))"

lemma pipeline_new_same: "pipeline_new q = Inr p \<Longrightarrow> p = q"
  by (auto simp: pipeline_new_def try_bind_Inr)

lemma try_bind_InrE: "try_bind r f = Inr x \<Longrightarrow> (\<And>a. r = Inr a \<Longrightarrow> f a = Inr x \<Longrightarrow> P) \<Longrightarrow> P"
  by (auto simp: try_bind_Inr)

lemma try_bind_pairE:
  "try_bind r (\<lambda>(a, b). f a b) = Inr x \<Longrightarrow> (\<And>a b. r = Inr (a, b) \<Longrightarrow> f a b = Inr x \<Longrightarrow> P) \<Longrightarrow> P"
  by (auto simp: try_bind_Inr)

lemma assemble_engines_ok:
  assumes "assemble_engines c sessions = Inr e"
  shows "\<exists>p. e = \<lparr>bg_authentication = \<lparr>pa_pipeline = p, pa_challenge = vk_challenge (ck_active_liveness (pf_calibration c))\<rparr>,
      bg_enrollment = \<lparr>pe_pipeline = p, pe_challenge = vk_challenge (ck_active_liveness (pf_calibration c)),
        pe_passive_pad = passive_pad_policy (ck_passive_pad (pf_calibration c))\<rparr>\<rparr> \<and>
    pipeline_new p = Inr p \<and> pn_pairing p = pc_pairing (pf_cameras c) \<and>
    pn_detection p = detection_policy (ck_quality (pf_calibration c)) \<and> pn_quality p = qk_policy (ck_quality (pf_calibration c)) \<and>
    challenge_config_validate (vk_challenge (ck_active_liveness (pf_calibration c))) = Inr () \<and>
    set (pipeline_sessions p) \<subseteq> set sessions \<and>
    map (\<lambda>(role, s). (role, on_compatibility_sha256 s)) (pipeline_sessions p) = calibrated_identities (pf_calibration c)"
proof -
  let ?k = "pf_calibration c"
  obtain d s1 l s2 b s3 i s4 v s5 f s6 p au en u where
    took: "take_session RoleFaceDetector sessions = Inr (d, s1)" "take_session RoleFaceLandmarks s1 = Inr (l, s2)"
      "take_session RoleFaceEmbedding s2 = Inr (b, s3)" "take_session RolePassiveLivenessInfrared s3 = Inr (i, s4)"
      "take_session RolePassiveLivenessVisible s4 = Inr (v, s5)" "take_session RolePassiveLivenessFusion s5 = Inr (f, s6)"
    and loaded: "validate_loaded_calibration c d l b i v f = Inr (u :: unit)"
    and rest: "invalid_with ''observation pipeline assembly failed: '' OfPipeline (pipeline_new
        \<lparr>pn_detector = d, pn_landmarks = l, pn_embedding = b, pn_passive_infrared = i,
         pn_passive_visible = v, pn_passive_fusion = f, pn_pairing = pc_pairing (pf_cameras c),
         pn_detection = detection_policy (ck_quality ?k), pn_quality = qk_policy (ck_quality ?k)\<rparr>) = Inr p"
      "invalid_with ''authentication engine assembly failed: '' (\<lambda>_. OfAuthenticationEngine)
        (authentication_engine_from_shared p (vk_challenge (ck_active_liveness ?k))) = Inr au"
      "invalid_with ''enrollment engine assembly failed: '' OfEnrollmentEngine
        (enrollment_engine_from_shared p (vk_challenge (ck_active_liveness ?k)) (passive_pad_policy (ck_passive_pad ?k))) = Inr en"
      "(Inr \<lparr>bg_authentication = au, bg_enrollment = en\<rparr> :: ProductionConfigError + ProductionBiometricEngines) = Inr e"
    using assms unfolding assemble_engines_def Let_def by (elim try_bind_pairE try_bind_InrE) (rule that, assumption+)
  let ?p = "\<lparr>pn_detector = d, pn_landmarks = l, pn_embedding = b, pn_passive_infrared = i,
         pn_passive_visible = v, pn_passive_fusion = f, pn_pairing = pc_pairing (pf_cameras c),
         pn_detection = detection_policy (ck_quality ?k), pn_quality = qk_policy (ck_quality ?k)\<rparr>"
  from rest have built: "pipeline_new ?p = Inr ?p" "challenge_config_validate (vk_challenge (ck_active_liveness ?k)) = Inr ()"
      "e = \<lparr>bg_authentication = \<lparr>pa_pipeline = ?p, pa_challenge = vk_challenge (ck_active_liveness ?k)\<rparr>,
        bg_enrollment = \<lparr>pe_pipeline = ?p, pe_challenge = vk_challenge (ck_active_liveness ?k),
          pe_passive_pad = passive_pad_policy (ck_passive_pad ?k)\<rparr>\<rparr>"
    by (auto simp: try_bind_Inr map_err_Inr authentication_engine_from_shared_def enrollment_engine_from_shared_def
        dest: pipeline_new_same)
  have "set (pipeline_sessions ?p) \<subseteq> set sessions"
    using took [THEN take_session_ok] by (simp add: pipeline_sessions_def) blast
  moreover have "map (\<lambda>(role, s). (role, on_compatibility_sha256 s)) (pipeline_sessions ?p) = calibrated_identities ?k"
    using loaded by (simp add: validate_loaded_calibration_def pipeline_sessions_def calibrated_identities_def Let_def split: if_splits)
  ultimately show ?thesis using built by (intro exI [of _ ?p]) simp
qed

lemma built_engines_bound:
  assumes built: "build_production_biometric_engines L w c s = (s', Inr e)"
  shows "production_validate c = Inr () \<and> engines_bound L w c e"
proof -
  from built have prepared: "prepare_engines L w c = Inr ()"
    by (auto simp: build_production_biometric_engines_def split: sum.splits)
  obtain s1 r where loading: "load_models L w (runtime_of (pf_runtime c)) 0 (pf_models c) s = (s1, r)" by fastforce
  with built prepared obtain sessions where sessions: "r = Inr sessions" "assemble_engines c sessions = Inr e"
    by (auto simp: build_production_biometric_engines_def try_bind_Inr)
  from assemble_engines_ok [OF sessions(2)] obtain p where
    e: "e = \<lparr>bg_authentication = \<lparr>pa_pipeline = p, pa_challenge = vk_challenge (ck_active_liveness (pf_calibration c))\<rparr>,
      bg_enrollment = \<lparr>pe_pipeline = p, pe_challenge = vk_challenge (ck_active_liveness (pf_calibration c)),
        pe_passive_pad = passive_pad_policy (ck_passive_pad (pf_calibration c))\<rparr>\<rparr>"
    and p: "pipeline_new p = Inr p" "pn_pairing p = pc_pairing (pf_cameras c)"
      "pn_detection p = detection_policy (ck_quality (pf_calibration c))" "pn_quality p = qk_policy (ck_quality (pf_calibration c))"
      "challenge_config_validate (vk_challenge (ck_active_liveness (pf_calibration c))) = Inr ()"
      "map (\<lambda>(role, s). (role, on_compatibility_sha256 s)) (pipeline_sessions p) = calibrated_identities (pf_calibration c)"
    and sub: "set (pipeline_sessions p) \<subseteq> set sessions"
    by blast
  have each: "session_role s = role \<and> (\<exists>n < length (pf_models c). mi_role (pf_models c ! n) = role \<and>
      model_installed L (pw_load w n) (pw_commit w n) (pf_models c ! n) s)" if x: "(role, s) \<in> set (pipeline_sessions p)" for role s
  proof -
    from load_models_ok [OF loading [unfolded sessions(1)], of "(role, s)"] sub x obtain n where
      "n < length (pf_models c)" "role = mi_role (pf_models c ! n)"
      "model_installed L (pw_load w n) (pw_commit w n) (pf_models c ! n) s" by auto
    then show ?thesis by (auto simp: model_installed_def session_role_def Let_def)
  qed
  from prepared have "production_validate c = Inr ()" by (auto simp: prepare_engines_def try_bind_Inr)
  with e p each show ?thesis by (auto simp: engines_bound_def Let_def)
qed


text \<open>
  The passive policy of the production engines always decides. The scores of an observation that their
  pipeline derived are those of the three calibrated models, so the configured policy never refuses them as
  evidence, and it accepts exactly when each reaches its own calibrated minimum.
\<close>

theorem calibrated_pad_decides:
  "case build_production_biometric_engines L w c s of
     (_, Inr e) \<Rightarrow>
       (case derive_observation pair l (pa_pipeline (bg_authentication e)) t of
          Some (Inr d) \<Rightarrow> \<exists>i v f. dv_passive_liveness d = [i, v, f] \<and>
            pad_accepts (pe_passive_pad (bg_enrollment e)) (dv_passive_liveness d) =
              Inr (fp_le (pk_minimum_infrared_probability (ck_passive_pad (pf_calibration c))) (pl_probability i) \<and>
                   fp_le (pk_minimum_visible_probability (ck_passive_pad (pf_calibration c))) (pl_probability v) \<and>
                   fp_le (pk_minimum_fusion_probability (ck_passive_pad (pf_calibration c))) (pl_probability f))
        | _ \<Rightarrow> True)
   | _ \<Rightarrow> True"
proof -
  have "\<exists>i v f. dv_passive_liveness d = [i, v, f] \<and> pad_accepts (pe_passive_pad (bg_enrollment e)) (dv_passive_liveness d) =
      Inr (fp_le (pk_minimum_infrared_probability (ck_passive_pad (pf_calibration c))) (pl_probability i) \<and>
           fp_le (pk_minimum_visible_probability (ck_passive_pad (pf_calibration c))) (pl_probability v) \<and>
           fp_le (pk_minimum_fusion_probability (ck_passive_pad (pf_calibration c))) (pl_probability f))"
    if built: "build_production_biometric_engines L w c s = (s', Inr e)"
      and d: "derive_observation pair l (pa_pipeline (bg_authentication e)) t = Some (Inr d)" for s' e d
  proof -
    let ?p = "pa_pipeline (bg_authentication e)" and ?k = "ck_passive_pad (pf_calibration c)"
    from built_engines_bound [OF built] have valid: "production_validate c = Inr ()" and bound: "engines_bound L w c e" by simp_all
    from bound have p: "pipeline_new ?p = Inr ?p" "pe_passive_pad (bg_enrollment e) = passive_pad_policy ?k"
      "on_compatibility_sha256 (pn_passive_infrared ?p) = pk_infrared_compatibility_sha256 ?k"
      "on_compatibility_sha256 (pn_passive_visible ?p) = pk_visible_compatibility_sha256 ?k"
      "on_compatibility_sha256 (pn_passive_fusion ?p) = pk_fusion_compatibility_sha256 ?k"
      by (auto simp: engines_bound_def Let_def pipeline_sessions_def calibrated_identities_def)
    have pad: "pad_validate (passive_pad_policy ?k) = Inr ()"
      using validate_calibration_ok(3) [OF production_validate_ok(5) [OF valid]] .
    then have probabilities: "valid_probability (pk_minimum_infrared_probability ?k)"
      "valid_probability (pk_minimum_visible_probability ?k)" "valid_probability (pk_minimum_fusion_probability ?k)"
      by (auto simp: pad_validate_def passive_pad_policy_def Let_def split: if_splits)
    from derived_observation_contents [where pair = pair and l = l and p = ?p and t = t] d p have
      "map (\<lambda>s. (pl_role s, pl_compatibility_sha256 s)) (dv_passive_liveness d) =
        [(RolePassiveLivenessInfrared, pk_infrared_compatibility_sha256 ?k),
         (RolePassiveLivenessVisible, pk_visible_compatibility_sha256 ?k),
         (RolePassiveLivenessFusion, pk_fusion_compatibility_sha256 ?k)]" by simp
    then obtain i v f where scores: "dv_passive_liveness d = [i, v, f]"
      "pl_role i = RolePassiveLivenessInfrared" "pl_compatibility_sha256 i = pk_infrared_compatibility_sha256 ?k"
      "pl_role v = RolePassiveLivenessVisible" "pl_compatibility_sha256 v = pk_visible_compatibility_sha256 ?k"
      "pl_role f = RolePassiveLivenessFusion" "pl_compatibility_sha256 f = pk_fusion_compatibility_sha256 ?k"
      by (auto simp: map_eq_Cons_conv)
    have passes: "liveness_passes x m = Inr (fp_le m (pl_probability x))" if "valid_probability m" for x m
      using that by (simp add: liveness_passes_ok)
    show ?thesis
      using scores p(2) pad probabilities
      by (auto simp: pad_accepts_def passive_pad_policy_def exact_pad_score_def passes)
  qed
  then show ?thesis by (auto split: prod.splits sum.splits option.splits)
qed

section \<open>Readiness\<close>

text \<open>What a gate that is ready has established, on the host of its own moment.\<close>

definition model_reviewed :: "Libraries \<Rightarrow> Host \<Rightarrow> ModelInstallation \<Rightarrow> bool" where
  "model_reviewed L h i \<longleftrightarrow> evidence_reviewed L h (mi_review_evidence i) \<and>
     (\<exists>p bytes m q regular chunks artifact. os_canonicalize (ho_files h) (mi_manifest_path i) = Inr p \<and>
        root_controlled (ho_files h) p \<and> ho_read h p = Inr bytes \<and> li_manifest_of_json L bytes = Inr m \<and>
        manifest_validate (li_spdx_valid L) m = Inr () \<and> mm_role m = mi_role i \<and>
        os_canonicalize (ho_files h) (mi_artifact_path i) = Inr q \<and> root_controlled (ho_files h) q \<and>
        ho_open h q = Inr (regular, chunks) \<and> read_chunks chunks [] = Inr artifact \<and>
        hex_lower (li_sha256 L artifact) = mm_sha256 m)"

fun gate_established :: "Libraries \<Rightarrow> (ReadinessGateKind \<Rightarrow> Host) \<Rightarrow> ProductionConfig \<Rightarrow> ReadinessGateKind \<Rightarrow> bool" where
  "gate_established L h c GateConfiguration = (production_validate c = Inr ())"
| "gate_established L h c GateCameras =
     (\<exists>devices pair. discover (ho_udev (h GateCameras)) = Inr devices \<and>
        resolve_pair devices (camera_selectors (pf_cameras c)) = Inr pair)"
| "gate_established L h c GateRuntime =
     (\<exists>p. os_canonicalize (ho_files (h GateRuntime)) (rp_library_path (pf_runtime c)) = Inr p \<and>
        root_controlled (ho_files (h GateRuntime)) p)"
| "gate_established L h c GateModels = (\<forall>i \<in> set (pf_models c). model_reviewed L (h GateModels) i)"
| "gate_established L h c GateCalibration =
     ((\<exists>ids. inspect_models L (h GateModels) c = Inr ids \<and>
         identities_differ ids (calibrated_identities (pf_calibration c)) = Inr False) \<and>
      evidence_reviewed L (h GateCalibration) (rk_evidence (ck_recognition (pf_calibration c))) \<and>
      evidence_reviewed L (h GateCalibration) (qk_evidence (ck_quality (pf_calibration c))) \<and>
      evidence_reviewed L (h GateCalibration) (pk_evidence (ck_passive_pad (pf_calibration c))) \<and>
      evidence_reviewed L (h GateCalibration) (vk_evidence (ck_active_liveness (pf_calibration c))) \<and>
      evidence_reviewed L (h GateCalibration) (ek_evidence (ck_enrollment (pf_calibration c))))"
| "gate_established L h c GateStorage =
     (evidence_reviewed L (h GateStorage) (sk_recovery_evidence (pf_storage c)) \<and>
      (\<exists>blob p. sk_key (pf_storage c) = KeyTpm blob \<and> os_canonicalize (ho_files (h GateStorage)) blob = Inr p \<and>
         root_controlled (ho_files (h GateStorage)) p))"
| "gate_established L h c GateAuthorization =
     evidence_reviewed L (h GateAuthorization) (zk_review_evidence (pf_authorization c))"
| "gate_established L h c GateManagement =
     evidence_reviewed L (h GateManagement) (mk_policy_review_evidence (pf_management c))"
| "gate_established L h c GateAuthenticationBoundary =
     (ho_symlink_metadata (h GateAuthenticationBoundary) (bk_socket_path (pf_authentication_boundary c)) = Inl IoNotFound \<and>
      evidence_reviewed L (h GateAuthenticationBoundary) (bk_recovery_test_evidence (pf_authentication_boundary c)))"
| "gate_established L h c GateServiceComposition = False"

definition gate_sound :: "Libraries \<Rightarrow> (ReadinessGateKind \<Rightarrow> Host) \<Rightarrow> ProductionConfig \<Rightarrow> ReadinessGate \<Rightarrow> bool" where
  "gate_sound L h c g \<longleftrightarrow> (gt_ready g \<longrightarrow> gate_established L h c (gt_gate g))"

lemma result_gate_sound:
  "(\<And>detail. r = Inr detail \<Longrightarrow> gate_established L h c k) \<Longrightarrow> gate_sound L h c (result_gate k r)"
  by (cases r) (simp_all add: gate_sound_def result_gate_def ready_gate_def blocked_gate_def)

lemma gate_simps [simp]:
  "gt_gate (result_gate k r) = k" "gt_gate (ready_gate k d) = k" "gt_gate (blocked_gate k d) = k"
  "gt_ready (ready_gate k d)" "\<not> gt_ready (blocked_gate k d)" "gt_gate composition_gate = GateServiceComposition"
  "\<not> gt_ready composition_gate"
  by (simp_all add: result_gate_def ready_gate_def blocked_gate_def composition_gate_def split: sum.splits)

lemma verify_model_installation_ok:
  assumes "verify_model_installation os verify c path = Inr ()"
  shows "\<exists>p. os_canonicalize os path = Inr p \<and> root_controlled os p \<and> verify p = Inr ()"
  using assms verify_trusted_file_ok(1)
  by (auto simp: verify_model_installation_def try_bind_Inr map_err_Inr)

lemma inspect_model_ok:
  assumes "inspect_model L h runtime ids i = Inr ids'"
  shows "model_reviewed L h i"
proof -
  obtain p bytes m where
    m: "verify_reviewed_evidence L h (mi_review_evidence i) = Inr ()"
      "trusted_regular_file (ho_files h) (mi_manifest_path i) MAX_MANIFEST_BYTES = Inr p" "ho_read h p = Inr bytes"
      "li_manifest_of_json L bytes = Inr m" "manifest_validate (li_spdx_valid L) m = Inr ()" "mm_role m = mi_role i"
      "verify_model_installation (ho_files h) (verify_artifact L h m) runtime (mi_artifact_path i) = Inr ()"
    using assms by (auto simp: inspect_model_def try_bind_Inr split: if_splits)
  from verify_model_installation_ok [OF m(7)] verify_artifact_ok obtain q regular chunks artifact where
    "os_canonicalize (ho_files h) (mi_artifact_path i) = Inr q" "root_controlled (ho_files h) q"
    "ho_open h q = Inr (regular, chunks)" "read_chunks chunks [] = Inr artifact" "hex_lower (li_sha256 L artifact) = mm_sha256 m"
    by blast
  with m verify_reviewed_evidence_ok [OF m(1)] trusted_regular_file_ok [OF m(2)] show ?thesis
    by (auto simp: model_reviewed_def)
qed

lemma inspect_models_ok:
  "try_fold (inspect_model L h runtime) ids ms = Inr ids' \<Longrightarrow> i \<in> set ms \<Longrightarrow> model_reviewed L h i"
  by (induction ms arbitrary: ids) (auto simp: try_bind_Inr dest: inspect_model_ok)

lemma inspect_calibration_ok:
  assumes "inspect_calibration L h' c (case inspect_models L (h GateModels) c of Inl _ \<Rightarrow> None | Inr ids \<Rightarrow> Some ids) = Inr d"
    and "h' = h GateCalibration"
  shows "gate_established L h c GateCalibration"
proof -
  let ?k = "pf_calibration c"
  obtain ids where ids: "inspect_models L (h GateModels) c = Inr ids"
      "identities_differ ids (calibrated_identities ?k) = Inr False"
    and reviews: "try_fold (\<lambda>_. verify_reviewed_evidence L h') () [rk_evidence (ck_recognition ?k), qk_evidence (ck_quality ?k),
      pk_evidence (ck_passive_pad ?k), vk_evidence (ck_active_liveness ?k), ek_evidence (ck_enrollment ?k)] = Inr ()"
    using assms(1) by (auto simp: inspect_calibration_def try_bind_Inr ok_or_Inr split: if_splits sum.splits)
  show ?thesis using ids try_fold_each [OF reviews, THEN verify_reviewed_evidence_ok] assms(2) by simp
qed

lemma readiness_gates_sound:
  "list_all (gate_sound L h c) (rr_gates (inspect_production_readiness L h c))"
proof (cases "production_validate c")
  case (Inl e)
  then show ?thesis
    by (simp add: inspect_production_readiness_def invalid_configuration_report_def report_new_def gate_sound_def)
next
  case (Inr u)
  have "gate_sound L h c (ready_gate GateConfiguration d)" for d using Inr by (simp add: gate_sound_def)
  moreover have "gate_sound L h c (result_gate GateCameras (inspect_cameras (h GateCameras) c))"
    by (rule result_gate_sound) (auto simp: inspect_cameras_def try_bind_Inr)
  moreover have "gate_sound L h c (result_gate GateRuntime (inspect_runtime (h GateRuntime) c))"
    by (rule result_gate_sound)
      (auto simp: inspect_runtime_def verify_runtime_installation_def runtime_of_def try_bind_Inr map_err_Inr
        dest: verify_trusted_file_ok(1))
  moreover have "gate_sound L h c (result_gate GateModels (try_bind (inspect_models L (h GateModels) c) f))" for f
    by (rule result_gate_sound) (auto simp: inspect_models_def try_bind_Inr dest: inspect_models_ok)
  moreover have "gate_sound L h c (result_gate GateCalibration (inspect_calibration L (h GateCalibration) c
      (case inspect_models L (h GateModels) c of Inl _ \<Rightarrow> None | Inr ids \<Rightarrow> Some ids)))"
    by (rule result_gate_sound) (erule inspect_calibration_ok, rule refl)
  moreover have "gate_sound L h c (result_gate GateStorage (inspect_storage L (h GateStorage) c))"
    by (rule result_gate_sound)
      (auto simp: inspect_storage_def try_bind_Inr split: StorageKeyConfig.splits
        dest!: verify_reviewed_evidence_ok trusted_regular_file_ok)
  moreover have "gate_sound L h c (result_gate GateAuthorization (inspect_authorization L (h GateAuthorization) c))"
    by (rule result_gate_sound) (auto simp: inspect_authorization_def try_bind_Inr dest: verify_reviewed_evidence_ok)
  moreover have "gate_sound L h c (result_gate GateManagement (inspect_management L (h GateManagement) c))"
    by (rule result_gate_sound) (auto simp: inspect_management_def try_bind_Inr dest: verify_reviewed_evidence_ok)
  moreover have "gate_sound L h c (result_gate GateAuthenticationBoundary
      (inspect_authentication_boundary L (h GateAuthenticationBoundary) c))"
    by (rule result_gate_sound)
      (auto simp: inspect_authentication_boundary_def try_bind_Inr split: sum.splits if_splits dest: verify_reviewed_evidence_ok)
  moreover have "gate_sound L h c composition_gate" by (simp add: gate_sound_def)
  ultimately show ?thesis using Inr by (simp add: inspect_production_readiness_def report_new_def Let_def)
qed

lemma composition_blocks:
  "composition_gate \<in> set gates \<Longrightarrow>
     \<not> rr_production_ready (report_new gates) \<and> GateServiceComposition \<in> set (blocking_gates (report_new gates))"
  by (auto simp: report_new_def blocking_gates_def list_all_iff image_iff intro!: bexI [of _ composition_gate])


section \<open>The end of the listener\<close>

definition connection_failed :: "SessionError + (BoundaryError + Response) \<Rightarrow> bool" where
  "connection_failed result = (case result of Inr (Inr _) \<Rightarrow> False | _ \<Rightarrow> True)"

lemma handle_connections:
  "lh_requested (fold handle_connection rs s) = (lh_requested s \<or> (\<exists>r \<in> set rs. connection_failed r)) \<and>
   (lh_fatal (fold handle_connection rs s) = None) = (lh_fatal s = None \<and> (\<forall>r \<in> set rs. \<not> connection_failed r))"
  by (induction rs arbitrary: s) (auto simp: handle_connection_def connection_failed_def split: sum.splits)

lemma silent_client:
  assumes "length (bs_input (ps_stream stream)) < 4"
  shows "fst (snd (coordinate_authentication_connection w load policy conn a drain ts e (d, b, stream))) =
    Some (Inl (BE_Transport (TE_Io (bs_input_end (ps_stream stream)))))"
  using assms by (simp add: coordinate_authentication_connection_def handle_one_def read_message_def read_exact_def)

lemma failed_service_stops:
  assumes "on_event e joined now r = Inr r'" and "ev_outcome e = SoFailed detail"
  shows "ru_requested r' \<and> ru_failure r' \<noteq> None"
  using assms
  by (auto simp: on_event_def event_failure_def record_failure_def begin_shutdown_def Let_def split: if_splits)

text \<open>
  C25. One client stops the daemon. When the accept loop has handled a client that sent less than the header of
  a request, and then left, the listener task requests the shutdown of every service and ends with an error; the
  supervisor takes that for a failed service, and its run is over.
\<close>

theorem silent_client_stops_daemon:
  assumes "session_new sessions = Inr m"
    and "run_accept_loop transport accept_config_default nonblocking answers = Some (report, handled)"
    and "stream \<in> set handled" and "length (bs_input (ps_stream stream)) < 4"
    and "connections handled = map (\<lambda>c. Inr (the (fst (snd (coordinate_authentication_connection w load policy (conn c) (a c)
           (drain c) (ts c) (e c) (d c, b c, c)))))) handled"
  shows "\<exists>fs' s failure. listener_task sessions transport nonblocking answers faults connections fs l = Some (fs', s, Inl failure) \<and>
    lh_requested s \<and>
    (case on_event \<lparr>ev_index = n, ev_outcome = service_outcome (Some (Inl detail))\<rparr> joined now r of
       Inr r' \<Rightarrow> ru_requested r' \<and> ru_failure r' \<noteq> None
     | Inl _ \<Rightarrow> True)"
proof -
  let ?s = "fold handle_connection (connections handled) \<lparr>lh_fatal = None, lh_requested = False\<rparr>"
  from assms(3) have "\<exists>x \<in> set (connections handled). connection_failed x"
    unfolding assms(5) by (auto simp: connection_failed_def silent_client [OF assms(4)] intro!: bexI [of _ stream])
  with handle_connections [of "connections handled" "\<lparr>lh_fatal = None, lh_requested = False\<rparr>"]
  have "lh_requested ?s" "lh_fatal ?s \<noteq> None" by auto
  then have "\<exists>fs' failure. listener_task sessions transport nonblocking answers faults connections fs l = Some (fs', ?s, Inl failure)"
    using assms(1,2) by (cases report) (auto simp: listener_task_def run_supervised_authentication_listener_def Let_def)
  with \<open>lh_requested ?s\<close> show ?thesis
    by (auto split: sum.splits dest: failed_service_stops)
qed

section \<open>The composition\<close>

lemma supervised_services_ok:
  assumes "supervised_services c t1 t2 = Inr s"
  shows "supervisor_inv s \<and> \<not> su_requested s \<and>
    map sv_name (su_services s) = [''authentication-engine'', ''authentication-listener'']"
proof -
  obtain s0 where s0: "supervisor_new (supervisor_of (pf_supervision c)) = Inr s0"
    using assms by (auto simp: supervised_services_def try_bind_Inr)
  obtain s1 q1 where one: "supervisor_spawn s0 ''authentication-engine'' t1 = (s1, q1)" by fastforce
  obtain s2 q2 where two: "supervisor_spawn s1 ''authentication-listener'' t2 = (s2, q2)" by fastforce
  from assms s0 one two obtain u v where q: "q1 = Inr u" "q2 = Inr v" "s = s2"
    by (cases q1; cases q2) (auto simp: supervised_services_def)
  have "supervisor_inv s0" "su_services s0 = []"
    using s0 by (auto simp: supervisor_new_def try_bind_Inr supervisor_inv_def supervisor_validate_def in_range_def split: if_splits)
  then have inv: "supervisor_inv s2" using spawn_inv one two by (metis fst_conv)
  have "su_services s2 = su_services s0 @ [\<lparr>sv_name = ''authentication-engine'', sv_has_handle = True, sv_stopped = False\<rparr>] @
      [\<lparr>sv_name = ''authentication-listener'', sv_has_handle = True, sv_stopped = False\<rparr>] \<and> \<not> su_requested s2"
    using one [unfolded q(1) spawn_ok] two [unfolded q(2) spawn_ok] by auto
  with inv q(3) \<open>su_services s0 = []\<close> show ?thesis by simp
qed

lemma template_store_ok:
  assumes "build_production_template_store L h self_test c = Inr x"
  shows "\<exists>blob. sk_key (pf_storage c) = KeyTpm blob \<and> self_test blob = Inr ()"
  using assms by (auto simp: build_production_template_store_def try_bind_Inr split: StorageKeyConfig.splits)

lemma authentication_boundary_ok:
  assumes "build_production_authentication_boundary L h h' w faults c fs = (fs', Inr b)"
  shows "\<exists>fs''. bind_root_owned w fs (path_components (bk_socket_path (pf_authentication_boundary c)))
      (bk_socket_mode (pf_authentication_boundary c)) = (fs', Inr (ub_listener b))"
  using assms
  by (auto simp: build_production_authentication_boundary_def Let_def split: sum.splits prod.splits)

text \<open>
  C10. What has run. When the composition ends well, its engines were bound to the configuration, the key was that of
  the TPM, which passed its test, and the socket was bound in a secure directory of root at a path that was free; somebody
  asked for the shutdown, and both services, which ended only after that, have stopped.
\<close>

theorem production_service_sound:
  "case run_production_authentication_composition L w turns c (s, fs) of
     ((s', fs'), Some (Inr report)) \<Rightarrow>
       (\<exists>rt e. build_production_biometric_engines L (cw_build w) c s = (rt, Inr e) \<and> engines_bound L (cw_build w) c e) \<and>
       (\<exists>blob. sk_key (pf_storage c) = KeyTpm blob \<and> cw_self_test w blob = Inr ()) \<and>
       (let path = path_components (bk_socket_path (pf_authentication_boundary c)) in
          fs path = None \<and> (\<exists>d. fs (butlast path) = Some d \<and> secure_directory 0 d) \<and> (\<exists>e. fs' path = Some e \<and> fe_kind e = FkSocket)) \<and>
       sr_services_stopped report = 2 \<and> list_ex shutdown_asked turns \<and>
       set (sr_completion_order report) = {''authentication-engine'', ''authentication-listener''}
   | _ \<Rightarrow> True"
proof -
  let ?path = "path_components (bk_socket_path (pf_authentication_boundary c))"
  have "(\<exists>rt e. build_production_biometric_engines L (cw_build w) c s = (rt, Inr e) \<and> engines_bound L (cw_build w) c e) \<and>
       (\<exists>blob. sk_key (pf_storage c) = KeyTpm blob \<and> cw_self_test w blob = Inr ()) \<and>
       (fs ?path = None \<and> (\<exists>d. fs (butlast ?path) = Some d \<and> secure_directory 0 d) \<and> (\<exists>e. fs' ?path = Some e \<and> fe_kind e = FkSocket)) \<and>
       sr_services_stopped report = 2 \<and> list_ex shutdown_asked turns \<and>
       set (sr_completion_order report) = {''authentication-engine'', ''authentication-listener''}"
    if run: "run_production_authentication_composition L w turns c (s, fs) = ((s', fs'), Some (Inr report))" for s' fs' report
  proof -
    obtain rt r1 where b1: "build_production_authentication_engine L (cw_build w) c s = (rt, r1)" by fastforce
    obtain fs1 r3 where b3: "build_production_authentication_boundary L (cw_authorization w) (cw_boundary w) (cw_bind w) (cw_drop w) c fs
        = (fs1, r3)" by fastforce
    note steps = run [unfolded run_production_authentication_composition_def b1 b3 prod.case]
    obtain engine where r1: "r1 = Inr engine" using steps by (cases r1) simp_all
    obtain templates where r2: "build_production_template_store L (cw_storage w) (cw_self_test w) c = Inr templates"
      using steps r1 by (cases "build_production_template_store L (cw_storage w) (cw_self_test w) c") simp_all
    obtain boundary where r3: "r3 = Inr boundary" using steps r1 r2 by (cases r3) simp_all
    obtain supervisor where r4: "supervised_services c (cw_engine_thread w) (cw_listener_thread w) = Inr supervisor"
      using steps r1 r2 r3 by (cases "supervised_services c (cw_engine_thread w) (cw_listener_thread w)") simp_all
    from steps r1 r2 r3 r4 have
      built: "r1 = Inr engine" "build_production_template_store L (cw_storage w) (cw_self_test w) c = Inr templates"
        "r3 = Inr boundary" "supervised_services c (cw_engine_thread w) (cw_listener_thread w) = Inr supervisor" "fs1 = fs'"
      and ended: "map_option (map_err Supervision) (fst (run_until supervisor turns)) = Some (Inr report)"
      by simp_all
    from b1 built(1) obtain e where e: "build_production_biometric_engines L (cw_build w) c s = (rt, Inr e)"
      by (auto simp: build_production_authentication_engine_def try_bind_Inr apsnd_def map_prod_def split: prod.splits)
    from authentication_boundary_ok [OF b3 [unfolded built(3)]] built(5)
    have bound: "bind_owned (cw_bind w) fs ?path (bk_socket_mode (pf_authentication_boundary c)) 0 = (fs', Inr (ub_listener boundary))"
      by (auto simp: bind_root_owned_def)
    from ended obtain q where until: "run_until supervisor turns = (Some (Inr report), q)"
      by (cases "run_until supervisor turns") (auto simp: map_err_Inr)
    note services = supervised_services_ok [OF built(4)]
    from services have names: "map sv_name (su_services supervisor) = [''authentication-engine'', ''authentication-listener'']" by simp
    have two: "length (su_services supervisor) = 2" using arg_cong [OF names, of length] by simp
    have both: "set (map sv_name (su_services supervisor)) = {''authentication-engine'', ''authentication-listener''}"
      unfolding names by simp
    from supervision_report [OF _ _ until] services two both
    have "sr_services_stopped report = 2 \<and> list_ex shutdown_asked turns \<and>
        set (sr_completion_order report) = {''authentication-engine'', ''authentication-listener''}"
      by (auto simp: list_ex_iff dest: in_set_takeD)
    with e built_engines_bound [OF e] template_store_ok [OF built(2)] bind_owned_secure [OF bound] show ?thesis
      by (auto simp: socket_of_def)
  qed
  then show ?thesis by (auto simp: Let_def split: prod.splits option.splits sum.splits)
qed

section \<open>Examples\<close>

definition ex_review :: ReviewedEvidence where
  "ex_review = \<lparr>re_path = ''/reviews/a'', re_sha256 = replicate 64 (CHR ''a'')\<rparr>"

definition ex_stream :: "string \<Rightarrow> PixelFormat \<Rightarrow> CameraStreamConfig" where
  "ex_stream product_id fmt =
     \<lparr>cx_selector = \<lparr>sel_vendor_id = ''04f2'', sel_product_id = product_id, sel_serial = None, sel_physical_path = Some ''pci''\<rparr>,
      cx_capture = \<lparr>sp_width = 640, sp_height = 480, sp_pixel_format = fmt, sp_frames_per_second = 30, sp_buffer_count = 4,
        sp_warmup_frames = 3, sp_frame_timeout_millis = 250, sp_max_frame_bytes = 614400\<rparr>\<rparr>"

definition ex_production_rule :: "string \<Rightarrow> AuthenticationPurpose \<Rightarrow> AuthorizationRule" where
  "ex_production_rule name p =
     \<lparr>rule_service = ServiceName name, rule_purpose = p, rule_caller = RootOnly, rule_executables = [\<lparr>device = 1, inode = 2\<rparr>]\<rparr>"

definition ex_calibration :: CalibrationConfig where
  "ex_calibration =
     \<lparr>ck_recognition = \<lparr>rk_embedding_compatibility_sha256 = replicate 64 (CHR ''b''),
        rk_policy = \<lparr>capture = \<lparr>require_infrared = True, require_visible = True, max_pair_skew_micros = 100000\<rparr>,
          liveness = PassiveAndActive, minimum_similarity = Finite (3/4), minimum_quality = Finite (3/4),
          password_fallback = True\<rparr>, rk_evidence = ex_review\<rparr>,
      ck_quality = \<lparr>qk_detector_compatibility_sha256 = replicate 64 (CHR ''1''),
        qk_landmarks_compatibility_sha256 = replicate 64 (CHR ''f''), qk_minimum_detection_confidence = Finite (3/4),
        qk_maximum_detection_iou = Finite (1/2), qk_maximum_detected_faces = 4, qk_policy = ex_config, qk_evidence = ex_review\<rparr>,
      ck_passive_pad = \<lparr>pk_infrared_compatibility_sha256 = replicate 64 (CHR ''c''), pk_minimum_infrared_probability = Finite (3/4),
        pk_visible_compatibility_sha256 = replicate 64 (CHR ''d''), pk_minimum_visible_probability = Finite (3/4),
        pk_fusion_compatibility_sha256 = replicate 64 (CHR ''e''), pk_minimum_fusion_probability = Finite (3/4),
        pk_evidence = ex_review\<rparr>,
      ck_active_liveness = \<lparr>vk_landmarks_compatibility_sha256 = replicate 64 (CHR ''f''), vk_challenge = ex_challenge,
        vk_evidence = ex_review\<rparr>,
      ck_enrollment = \<lparr>ek_policy = ex_enrollment_config, ek_evidence = ex_review\<rparr>\<rparr>"

definition ex_production :: ProductionConfig where
  "ex_production =
     \<lparr>pf_schema_version = 4,
      pf_cameras = \<lparr>pc_infrared = ex_stream ''b769'' Gray8, pc_visible = ex_stream ''b768'' Yuyv,
        pc_pairing = \<lparr>pp_max_skew_micros = 100000, pp_max_replacements = 4\<rparr>\<rparr>,
      pf_runtime = \<lparr>rp_library_path = ''/usr/lib/libonnxruntime.so'', rp_intra_threads = 2, rp_inter_threads = 1,
        rp_max_model_bytes = 1024, rp_max_run_millis = 1000\<rparr>,
      pf_models = map (\<lambda>role. \<lparr>mi_role = role, mi_manifest_path = ''/m'', mi_artifact_path = ''/a'', mi_review_evidence = ex_review\<rparr>)
        REQUIRED_MODEL_ROLES,
      pf_calibration = ex_calibration,
      pf_storage = \<lparr>sk_template_directory = ''/t'', sk_key = KeyTpm ''/k'', sk_recovery_evidence = ex_review\<rparr>,
      pf_authorization = \<lparr>zk_rules = [ex_production_rule ''faceauth-locker'' ScreenUnlock, ex_production_rule ''faceauth-login'' Login,
        ex_production_rule ''faceauth-enroll'' Polkit], zk_review_evidence = ex_review\<rparr>,
      pf_management = \<lparr>mk_enabled = True, mk_operation_duration_micros = 120000000, mk_policy_review_evidence = ex_review\<rparr>,
      pf_supervision = \<lparr>uk_poll_interval_millis = 25, uk_shutdown_grace_millis = 5000, uk_max_services = 4\<rparr>,
      pf_authentication_boundary = \<lparr>bk_socket_path = ''/run/faceauth/auth.sock'', bk_socket_mode = 0x1B0,
        bk_max_message_bytes = 16384, bk_io_timeout_millis = 2000, bk_transaction_duration_micros = 15000000,
        bk_password_fallback_mandatory = True, bk_recovery_test_evidence = ex_review\<rparr>\<rparr>"

lemma ex_digits [simp]: "c \<in> set ''1abcdef'' \<Longrightarrow> valid_digest (replicate 64 c)"
  by (auto simp: valid_digest_def list_all_iff list_ex_iff is_ascii_hexdigit_def is_ascii_uppercase_def)

lemma ex_review_valid [simp]: "validate_evidence_config ex_review = Inr ()"
  by (simp add: validate_evidence_config_def ex_review_def require_absolute_def is_absolute_def)

lemma ex_calibration_valid: "validate_calibration ex_calibration = Inr ()"
proof -
  have challenge: "challenge_config_validate ex_challenge = Inr ()" by code_simp
  have enrollment: "enrollment_config_validate ex_enrollment_config = Inr ()" by code_simp
  have "validate_recognition (ck_recognition ex_calibration) = Inr ()"
    by (simp add: validate_recognition_def ex_calibration_def invalid_with_def policy_validate_def capture_validate_def
        validate_unit_score_def fp_in_def)
  moreover have "validate_quality (ck_quality ex_calibration) = Inr ()"
    by (simp add: validate_quality_def ex_calibration_def ex_config_valid invalid_with_def detection_validate_def detection_policy_def
        fp_in_def in_range_def)
  moreover have "validate_passive_pad (ck_passive_pad ex_calibration) = Inr ()"
    by (simp add: validate_passive_pad_def ex_calibration_def valid_probability_def fp_in_def)
  moreover have "validate_active_liveness (ck_active_liveness ex_calibration) = Inr ()"
    by (simp add: validate_active_liveness_def ex_calibration_def challenge invalid_with_def)
  ultimately show ?thesis by (simp add: validate_calibration_def invalid_with_def ex_calibration_def enrollment)
qed

lemma ex_cameras_valid: "validate_cameras (pf_cameras ex_production) = Inr ()"
proof -
  have "valid_usb_id ''04f2''" "valid_usb_id ''b769''" "valid_usb_id ''b768''" by code_simp+
  then show ?thesis
    by (simp add: validate_cameras_def ex_production_def ex_stream_def validate_camera_selector_def invalid_with_def
        spec_validate_def pairing_validate_def in_range_def)
qed

lemma ex_models_valid: "validate_models (pf_models ex_production) = Inr ()"
  by (simp add: validate_models_def ex_production_def REQUIRED_MODEL_ROLES_def model_step_def require_absolute_def is_absolute_def)

lemma ex_rules_valid:
  "policy_new (zk_rules (pf_authorization ex_production)) = Inr \<lparr>rules = zk_rules (pf_authorization ex_production)\<rparr>"
  "validate_required_authorization_rules (zk_rules (pf_authorization ex_production)) = Inr ()"
  by code_simp+

lemma ex_boundary_valid: "validate_authentication_boundary (pf_authentication_boundary ex_production) = Inr ()"
  by (simp add: validate_authentication_boundary_def ex_production_def require_absolute_def is_absolute_def boundary_transport_def
      transport_config_validate_def in_range_def ABSOLUTE_MAX_MESSAGE_BYTES_def from_millis_def from_secs_def invalid_with_def
      session_config_validate_def MAX_TRANSACTION_DURATION_MICROS_def)

lemma ex_production_valid: "production_validate ex_production = Inr ()"
proof -
  have "runtime_config_validate (runtime_of (pf_runtime ex_production)) = Inr ()"
    by (simp add: ex_production_def runtime_of_def runtime_config_validate_def in_range_def ABSOLUTE_MAX_MODEL_BYTES_def
        ABSOLUTE_MAX_RUN_MILLIS_def)
  moreover have "supervisor_validate (supervisor_of (pf_supervision ex_production)) = Inr ()"
    by (simp add: ex_production_def supervisor_of_def supervisor_validate_def in_range_def from_millis_def from_secs_def
        ABSOLUTE_MAX_SERVICES_def)
  moreover have "management_config_validate \<lparr>operation_duration_micros = 120000000\<rparr> = Inr ()"
    by (simp add: management_config_validate_def MAX_OPERATION_DURATION_MICROS_def)
  ultimately show ?thesis
    using ex_cameras_valid ex_models_valid ex_calibration_valid ex_rules_valid ex_boundary_valid
    by (simp add: production_validate_def PRODUCTION_CONFIG_SCHEMA_VERSION_def invalid_with_def require_absolute_def is_absolute_def
        ex_production_def)
qed


definition ex_silent :: "(bool \<times> (IoError + Incoming)) list" where
  "ex_silent = [(False, Inr ex_incoming), (True, Inl IoWouldBlock)]"

lemma ex_incoming_accepted:
  "run_accept_loop transport_config_default accept_config_default (Inr ()) ex_silent =
     Some (Inr \<lparr>ar_accepted_connections = 1, ar_initialization_failures = 0\<rparr>, [Transport.ex_peer []])"
  by (simp add: run_accept_loop_def transport_config_validate_def transport_config_default_def in_range_def
      accept_config_validate_def accept_config_default_def ex_silent_def ex_incoming_def Transport.ex_peer_def try_accept_def connect_def
      from_millis_def from_secs_def DEFAULT_MAX_MESSAGE_BYTES_def ABSOLUTE_MAX_MESSAGE_BYTES_def)


theorem silent_client_stops_daemon_witness:
  "\<exists>fs' s failure. listener_task \<lparr>transaction_duration_micros = 15000000\<rparr> transport_config_default (Inr ()) ex_silent (None, None)
     (\<lambda>_. [Inr (Inl (BE_Transport (TE_Io IoTimedOut)))]) ex_fs ex_listener = Some (fs', s, Inl failure) \<and> lh_requested s"
proof -
  have new: "session_new \<lparr>transaction_duration_micros = 15000000\<rparr> =
      Inr \<lparr>sm_config = \<lparr>transaction_duration_micros = 15000000\<rparr>, sm_active = None, sm_cells = []\<rparr>"
    by (simp add: session_new_def session_config_validate_def MAX_TRANSACTION_DURATION_MICROS_def)
  have silent: "length (bs_input (ps_stream (Transport.ex_peer []))) < 4" by (simp add: Transport.ex_peer_def)
  let ?w = ex_wire and ?load = ex_load and ?p = ex_connection_policy and ?e = ex_engine_state and ?d = ex_store_disk
    and ?b = ex_service and ?a = ex_admission
  have "(\<lambda>_ :: PeerStream list. [Inr (Inl (BE_Transport (TE_Io IoTimedOut)))]) [Transport.ex_peer []] =
      map (\<lambda>c. Inr (the (fst (snd (coordinate_authentication_connection ?w ?load ?p (ConnectionToken []) ?a (\<lambda>_. EaTimeout) [] ?e (?d, ?b, c))))))
        [Transport.ex_peer []]"
    by (simp add: silent_client [OF silent]) (simp add: Transport.ex_peer_def)
  from silent_client_stops_daemon [OF new ex_incoming_accepted list.set_intros(1) silent this] show ?thesis by blast
qed

end
