(* ===== verification/PamModule.thy ===== *)
theory PamModule
  imports Transport
begin

text \<open>
  The PAM module (\<open>crates/pam-faceauth/src/lib.rs\<close>): the two entry points, the items it asks libpam for, the
  lookup of the account, the connection to the daemon and the exchange of one authentication request. The
  answers of libpam, libc, the kernel and the clock are arguments, as are the codec of serde_json and the random
  bytes of the uuid crate, whose absence is a panic.
\<close>

definition PAM_SUCCESS :: int where
  "PAM_SUCCESS = 0"

definition PAM_IGNORE :: int where
  "PAM_IGNORE = 25"

definition PAM_SERVICE :: int where
  "PAM_SERVICE = 1"

definition TEST_SERVICE :: string where
  "TEST_SERVICE = ''faceauth-test''"

definition SOCKET_PATH :: string where
  "SOCKET_PATH = ''/run/faceauth/auth.sock''"

definition MAX_RESPONSES :: nat where
  "MAX_RESPONSES = 64"

definition MAX_TRANSACTION_DURATION :: Duration where
  "MAX_TRANSACTION_DURATION = from_secs 20"

definition MAX_USERNAME_BYTES :: nat where
  "MAX_USERNAME_BYTES = 256"

definition PASSWD_BUFFER_BYTES :: nat where
  "PASSWD_BUFFER_BYTES = 16 * 1024"

datatype PamOutcome = PamAccepted | PamIgnored

definition outcome_code :: "PamOutcome \<Rightarrow> int" where
  "outcome_code outcome = (case outcome of PamAccepted \<Rightarrow> PAM_SUCCESS | PamIgnored \<Rightarrow> PAM_IGNORE)"

text \<open>
  The world of one call: what libpam answers for an item and for the user, a status and, unless the pointer is
  null, the memory behind it; what \<open>getpwnam_r\<close> answers with a buffer of some size; the socket at a path; the random
  bytes; and the time since the request was written, before each read.
\<close>

record PamWorld =
  pm_item :: "int \<Rightarrow> int \<times> string option"
  pm_user :: "int \<times> string option"
  pm_passwd :: "nat \<Rightarrow> string \<Rightarrow> int \<times> u32 option"
  pm_connect :: "string \<Rightarrow> IoError + Incoming"
  pm_random :: "128 word option"
  pm_elapsed :: "nat \<Rightarrow> Duration"

section \<open>Items and accounts\<close>

text \<open>\<open>str::from_utf8\<close>: well-formed sequences of one to four bytes.\<close>

definition utf8_continuation :: "nat \<Rightarrow> bool" where
  "utf8_continuation b \<longleftrightarrow> 0x80 \<le> b \<and> b \<le> 0xBF"

fun utf8_valid :: "nat list \<Rightarrow> bool" where
  "utf8_valid [] = True"
| "utf8_valid (a # bs) =
     (if a < 0x80 then utf8_valid bs
      else if 0xC2 \<le> a \<and> a \<le> 0xDF
      then (case bs of b # cs \<Rightarrow> utf8_continuation b \<and> utf8_valid cs | _ \<Rightarrow> False)
      else if 0xE0 \<le> a \<and> a \<le> 0xEF
      then (case bs of b # c # cs \<Rightarrow>
              utf8_continuation b \<and> (a = 0xE0 \<longrightarrow> 0xA0 \<le> b) \<and> (a = 0xED \<longrightarrow> b \<le> 0x9F) \<and> utf8_continuation c \<and> utf8_valid cs
            | _ \<Rightarrow> False)
      else if 0xF0 \<le> a \<and> a \<le> 0xF4
      then (case bs of b # c # d # cs \<Rightarrow>
              utf8_continuation b \<and> (a = 0xF0 \<longrightarrow> 0x90 \<le> b) \<and> (a = 0xF4 \<longrightarrow> b \<le> 0x8F) \<and>
              utf8_continuation c \<and> utf8_continuation d \<and> utf8_valid cs
            | _ \<Rightarrow> False)
      else False)"

definition bounded_c_string :: "string \<Rightarrow> string option" where
  "bounded_c_string memory =
     (let bytes = takeWhile (\<lambda>c. c \<noteq> CHR 0x00) memory in
      if bytes = [] \<or> length bytes > MAX_USERNAME_BYTES then None
      else if utf8_valid (map of_char bytes) then Some bytes else None)"

definition pam_service :: "PamWorld \<Rightarrow> string option" where
  "pam_service w =
     (case pm_item w PAM_SERVICE of (status, item) \<Rightarrow>
        if status \<noteq> PAM_SUCCESS then None else Option.bind item bounded_c_string)"

definition pam_username :: "PamWorld \<Rightarrow> string option" where
  "pam_username w =
     (case pm_user w of (status, user) \<Rightarrow>
        if status \<noteq> PAM_SUCCESS then None else Option.bind user bounded_c_string)"

definition resolve_uid :: "PamWorld \<Rightarrow> string \<Rightarrow> u32 option" where
  "resolve_uid w username =
     (if CHR 0x00 \<in> set username \<or> length username > MAX_USERNAME_BYTES then None
      else (case pm_passwd w PASSWD_BUFFER_BYTES username of (status, result) \<Rightarrow> if status = 0 then result else None))"

section \<open>The exchange\<close>

text \<open>\<open>n\<close> iterations of the loop are left, \<open>i\<close> have been made.\<close>

fun exchange_loop ::
  "(u8 list \<Rightarrow> nat + Response Envelope) \<Rightarrow> (nat \<Rightarrow> Duration) \<Rightarrow> TransactionId \<Rightarrow> nat \<Rightarrow> nat \<Rightarrow> PeerStream \<Rightarrow>
   PeerStream \<times> PamOutcome" where
  "exchange_loop decode elapsed tid i 0 peer = (peer, PamIgnored)"
| "exchange_loop decode elapsed tid i (Suc n) peer =
     (if elapsed i \<ge> MAX_TRANSACTION_DURATION then (peer, PamIgnored)
      else (case read_message decode peer of
          (peer', Inl _) \<Rightarrow> (peer', PamIgnored)
        | (peer', Inr envelope) \<Rightarrow>
            (case message envelope of
               Started u \<Rightarrow> if u = tid then exchange_loop decode elapsed tid (Suc i) n peer' else (peer', PamIgnored)
             | Progress u _ \<Rightarrow> if u = tid then exchange_loop decode elapsed tid (Suc i) n peer' else (peer', PamIgnored)
             | Completed u decision \<Rightarrow>
                 if u = tid then (peer', if decision = DC_Accepted then PamAccepted else PamIgnored) else (peer', PamIgnored)
             | Rejected _ _ \<Rightarrow> (peer', PamIgnored))))"

definition exchange ::
  "(Request Envelope \<Rightarrow> nat + u8 list) \<Rightarrow> (u8 list \<Rightarrow> nat + Response Envelope) \<Rightarrow> (nat \<Rightarrow> Duration) \<Rightarrow>
   PeerStream \<Rightarrow> Request \<Rightarrow> PeerStream \<times> PamOutcome" where
  "exchange encode decode elapsed peer request =
     (case request of
        Cancel _ \<Rightarrow> (peer, PamIgnored)
      | Authenticate cx \<Rightarrow>
          (case write_message encode peer request of
             (peer', Inl _) \<Rightarrow> (peer', PamIgnored)
           | (peer', Inr _) \<Rightarrow> exchange_loop decode elapsed (transaction_id cx) 0 MAX_RESPONSES peer'))"

section \<open>The entry points\<close>

text \<open>
  The part before the exchange. A \<open>Left\<close> is an early end: \<open>Some\<close> outcome that is returned, or a panic.
\<close>

definition pam_request :: "PamWorld \<Rightarrow> bool \<Rightarrow> int \<Rightarrow> PamOutcome option + PeerStream \<times> Request" where
  "pam_request w null argc =
     (let ignored = Some PamIgnored in
      if null \<or> argc \<noteq> 0 then Inl ignored
      else
        try_bind (ok_or (pam_service w) ignored) (\<lambda>name.
        if name \<noteq> TEST_SERVICE then Inl ignored
        else
          try_bind (ok_or (pam_username w) ignored) (\<lambda>username.
          try_bind (ok_or (resolve_uid w username) ignored) (\<lambda>uid.
          try_bind (map_err (\<lambda>_. ignored) (pm_connect w SOCKET_PATH)) (\<lambda>stream.
          try_bind (map_err (\<lambda>_. ignored) (connect stream transport_config_default)) (\<lambda>peer.
          if peer_uid (ps_peer peer) \<noteq> 0 then Inl ignored
          else
            try_bind (map_err (\<lambda>_. ignored) (service_parse name)) (\<lambda>parsed.
            try_bind (ok_or (pm_random w) None) (\<lambda>random.
            Inr (peer, Authenticate \<lparr>transaction_id = transaction_generate random, target_uid = uid, service = parsed,
              purpose = Test\<rparr>)))))))))"

definition pam_authenticate ::
  "(Request Envelope \<Rightarrow> nat + u8 list) \<Rightarrow> (u8 list \<Rightarrow> nat + Response Envelope) \<Rightarrow> PamWorld \<Rightarrow> bool \<Rightarrow> int \<Rightarrow> PamOutcome option" where
  "pam_authenticate encode decode w null argc =
     (case pam_request w null argc of
        Inl ended \<Rightarrow> ended
      | Inr (peer, request) \<Rightarrow> Some (snd (exchange encode decode (pm_elapsed w) peer request)))"

text \<open>\<open>catch_unwind\<close> turns a panic into the outcome that leaves the password.\<close>

definition pam_sm_authenticate ::
  "(Request Envelope \<Rightarrow> nat + u8 list) \<Rightarrow> (u8 list \<Rightarrow> nat + Response Envelope) \<Rightarrow> PamWorld \<Rightarrow> bool \<Rightarrow> int \<Rightarrow> int" where
  "pam_sm_authenticate encode decode w null argc =
     outcome_code (case pam_authenticate encode decode w null argc of None \<Rightarrow> PamIgnored | Some outcome \<Rightarrow> outcome)"

definition pam_sm_setcred :: "bool \<Rightarrow> int \<Rightarrow> int" where
  "pam_sm_setcred null argc = PAM_SUCCESS"

end
