(* ===== verification/PamProperties.thy ===== *)
theory PamProperties
  imports PamModule Boundary
begin

text \<open>
  What the PAM module guarantees: exactly which runs let a login pass, that every other one leaves the
  password, and what stands behind a login that passed when the daemon at the other end is the one of
  this repository.
\<close>

section \<open>Success and fallback\<close>

text \<open>What the loop skips: the start and the progress of its own transaction.\<close>

definition own_progress :: "TransactionId \<Rightarrow> Response \<Rightarrow> bool" where
  "own_progress tid r = (case r of Started u \<Rightarrow> u = tid | Progress u _ \<Rightarrow> u = tid | _ \<Rightarrow> False)"

text \<open>
  The responses that were read, the times before each of them, and the verdict: only progress of the own
  transaction, then its acceptance, all begun in time.
\<close>

definition accepting_responses :: "TransactionId \<Rightarrow> Duration list \<Rightarrow> Response list \<Rightarrow> bool" where
  "accepting_responses tid clock rs \<longleftrightarrow>
     rs \<noteq> [] \<and> list_all (own_progress tid) (butlast rs) \<and> last rs = Completed tid DC_Accepted \<and>
     list_all (\<lambda>t. t < MAX_TRANSACTION_DURATION) clock"

lemma accepting_Cons:
  "accepting_responses tid (t # ts) (r # rs) \<longleftrightarrow>
     t < MAX_TRANSACTION_DURATION \<and>
     (if rs = [] then r = Completed tid DC_Accepted \<and> list_all (\<lambda>t. t < MAX_TRANSACTION_DURATION) ts
      else own_progress tid r \<and> accepting_responses tid ts rs)"
  by (auto simp: accepting_responses_def)

lemma read_messages_length: "read_messages decode n p = (q, Inr envs) \<Longrightarrow> length envs = n"
  by (induction n arbitrary: p envs) (auto split: prod.splits sum.splits)

lemma exchange_loop_accepts:
  "snd (exchange_loop decode elapsed tid i n p) = PamAccepted \<longleftrightarrow>
     (\<exists>k q envs. k < n \<and> read_messages decode (Suc k) p = (q, Inr envs) \<and>
        accepting_responses tid (map elapsed [i..<Suc (i + k)]) (map message envs))"
proof (induction n arbitrary: i p)
  case 0
  then show ?case by simp
next
  case (Suc n)
  let ?ok = "\<lambda>i k p. \<exists>q envs. read_messages decode (Suc k) p = (q, Inr envs) \<and>
        accepting_responses tid (map elapsed [i..<Suc (i + k)]) (map message envs)"
  have split: "(\<exists>k q envs. k < Suc n \<and> read_messages decode (Suc k) p = (q, Inr envs) \<and>
        accepting_responses tid (map elapsed [i..<Suc (i + k)]) (map message envs)) \<longleftrightarrow>
      ?ok i 0 p \<or> (\<exists>k < n. ?ok i (Suc k) p)"
    by (auto simp: less_Suc_eq_0_disj simp del: read_messages.simps)
  show ?case
  proof (cases "read_message decode p")
    case (Pair p' r)
    show ?thesis
    proof (cases r)
      case (Inl e)
      with Pair show ?thesis by auto
    next
      case (Inr env)
      have first: "?ok i 0 p \<longleftrightarrow> elapsed i < MAX_TRANSACTION_DURATION \<and> message env = Completed tid DC_Accepted"
        using Pair Inr by (auto simp: accepting_responses_def)
      have later: "?ok i (Suc k) p \<longleftrightarrow>
          elapsed i < MAX_TRANSACTION_DURATION \<and> own_progress tid (message env) \<and> ?ok (Suc i) k p'" for k
      proof -
        have ticks: "map elapsed [i..<Suc (i + Suc k)] = elapsed i # map elapsed [Suc i..<Suc (Suc i + k)]"
          using upt_conv_Cons [of i "Suc (i + Suc k)"] by (simp del: upt_Suc)
        have "?ok i (Suc k) p \<longleftrightarrow> (\<exists>q envs. read_messages decode (Suc k) p' = (q, Inr envs) \<and>
            accepting_responses tid (map elapsed [i..<Suc (i + Suc k)]) (message env # map message envs))"
          using Pair Inr by (subst read_messages.simps(2)) (auto split: prod.splits sum.splits)
        also have "\<dots> \<longleftrightarrow> elapsed i < MAX_TRANSACTION_DURATION \<and> own_progress tid (message env) \<and> ?ok (Suc i) k p'"
          unfolding ticks accepting_Cons
          by (auto simp del: read_messages.simps simp: accepting_responses_def dest: read_messages_length)
        finally show ?thesis .
      qed
      show ?thesis unfolding split first later
        using Pair Inr Suc.IH [of "Suc i" p']
        by (auto simp: own_progress_def simp del: read_messages.simps upt_Suc split: Response.splits if_splits)
    qed
  qed
qed

text \<open>
  The streams of the module have the default timeout of the transport, so a daemon that is silent for these two
  seconds, before its verdict, ends the exchange: the next header is not complete.
\<close>

lemma silence_ends_exchange:
  "length (input_of p) < 4 \<Longrightarrow> snd (exchange_loop decode elapsed tid i n p) = PamIgnored"
  by (cases n) (auto simp: read_message_def read_exact_def)

text \<open>
  The runs that let the login pass: the service of the test, a user with an account, a connection to a daemon of root,
  a request that was written, and the responses above among the first 64.
\<close>

definition pam_accepts ::
  "(Request Envelope \<Rightarrow> nat + u8 list) \<Rightarrow> (u8 list \<Rightarrow> nat + Response Envelope) \<Rightarrow> PamWorld \<Rightarrow> bool \<Rightarrow> int \<Rightarrow> bool" where
  "pam_accepts encode decode w null argc \<longleftrightarrow>
     \<not> null \<and> argc = 0 \<and> pam_service w = Some TEST_SERVICE \<and>
     (\<exists>username uid stream peer random p k q envs.
        pam_username w = Some username \<and> resolve_uid w username = Some uid \<and>
        pm_connect w SOCKET_PATH = Inr stream \<and> connect stream transport_config_default = Inr peer \<and>
        peer_uid (ps_peer peer) = 0 \<and> pm_random w = Some random \<and>
        write_message encode peer (Authenticate \<lparr>transaction_id = transaction_generate random, target_uid = uid,
          service = ServiceName TEST_SERVICE, purpose = Test\<rparr>) = (p, Inr ()) \<and>
        k < 64 \<and> read_messages decode (Suc k) p = (q, Inr envs) \<and>
        accepting_responses (transaction_generate random) (map (pm_elapsed w) [0..<Suc k]) (map message envs))"

lemma test_service [simp]: "service_parse TEST_SERVICE = Inr (ServiceName TEST_SERVICE)"
  by code_simp

lemma pam_request_ok:
  "pam_request w null argc = Inr (peer, request) \<longleftrightarrow>
     \<not> null \<and> argc = 0 \<and> pam_service w = Some TEST_SERVICE \<and>
     (\<exists>username uid stream random.
        pam_username w = Some username \<and> resolve_uid w username = Some uid \<and>
        pm_connect w SOCKET_PATH = Inr stream \<and> connect stream transport_config_default = Inr peer \<and>
        peer_uid (ps_peer peer) = 0 \<and> pm_random w = Some random \<and>
        request = Authenticate \<lparr>transaction_id = transaction_generate random, target_uid = uid,
          service = ServiceName TEST_SERVICE, purpose = Test\<rparr>)"
  by (auto simp: pam_request_def result_simps Let_def split: if_splits)

lemma exchange_accepts:
  "snd (exchange encode decode elapsed peer (Authenticate cx)) = PamAccepted \<longleftrightarrow>
     (\<exists>p k q envs. write_message encode peer (Authenticate cx) = (p, Inr ()) \<and> k < 64 \<and>
        read_messages decode (Suc k) p = (q, Inr envs) \<and>
        accepting_responses (transaction_id cx) (map elapsed [0..<Suc k]) (map message envs))"
proof (cases "write_message encode peer (Authenticate cx)")
  case (Pair p r)
  then show ?thesis
    by (cases r) (simp_all add: exchange_def exchange_loop_accepts MAX_RESPONSES_def del: read_messages.simps upt_Suc)
qed

text \<open>
  C3. Exactly which calls let a login pass. The entry point returns success for the accepting runs above and
  \<open>PAM_IGNORE\<close>, which leaves the password, for every other call: a null handle, an argument, a foreign service, a
  malformed item, an unknown user, a daemon that is not root, a failed write or read, a response of another
  transaction, a rejection, a late or missing verdict, and a panic.
\<close>

theorem pam_outcome_exact:
  "pam_sm_authenticate encode decode w null argc = (if pam_accepts encode decode w null argc then 0 else 25)"
proof (cases "pam_request w null argc")
  case (Inl ended)
  then have "ended \<noteq> Some PamAccepted"
    by (auto simp: pam_request_def Let_def result_simps split: if_splits)
  moreover have "\<not> pam_accepts encode decode w null argc"
  proof
    assume "pam_accepts encode decode w null argc"
    then have "\<exists>peer request. pam_request w null argc = Inr (peer, request)"
      unfolding pam_accepts_def pam_request_ok by blast
    with Inl show False by simp
  qed
  ultimately show ?thesis using Inl
    by (cases ended) (auto simp: pam_sm_authenticate_def pam_authenticate_def outcome_code_def PAM_IGNORE_def
        split: PamOutcome.splits)
next
  case (Inr x)
  obtain peer request where x: "x = (peer, request)" by fastforce
  from Inr x obtain username uid stream random where ok: "\<not> null" "argc = 0" "pam_service w = Some TEST_SERVICE"
      "pam_username w = Some username" "resolve_uid w username = Some uid" "pm_connect w SOCKET_PATH = Inr stream"
      "connect stream transport_config_default = Inr peer" "peer_uid (ps_peer peer) = 0" "pm_random w = Some random"
    and request: "request = Authenticate \<lparr>transaction_id = transaction_generate random, target_uid = uid,
      service = ServiceName TEST_SERVICE, purpose = Test\<rparr>"
    by (auto simp: pam_request_ok)
  have "pam_accepts encode decode w null argc \<longleftrightarrow>
      snd (exchange encode decode (pm_elapsed w) peer request) = PamAccepted"
    unfolding request exchange_accepts by (simp add: pam_accepts_def ok del: read_messages.simps upt_Suc)
  with Inr x show ?thesis
    by (auto simp: pam_sm_authenticate_def pam_authenticate_def outcome_code_def PAM_IGNORE_def PAM_SUCCESS_def
        split: PamOutcome.splits)
qed

section \<open>From the login to the template\<close>

lemma frame_take:
  assumes "take m (frame a @ xs) = frame payload @ rest" "length a < 2 ^ 32" "length payload < 2 ^ 32"
  shows "payload = a \<and> rest = take (m - length (frame a)) xs"
proof -
  let ?h = "be_bytes 4 (length a)" and ?g = "be_bytes 4 (length payload)"
  have eq: "take m (?h @ a @ xs) = ?g @ payload @ rest" using assms(1) by (simp add: frame_def)
  have "length (take m (?h @ a @ xs)) \<ge> 4" unfolding eq by simp
  then have m: "4 \<le> m" by simp
  have "take 4 (take m (?h @ a @ xs)) = ?g" unfolding eq by simp
  then have same_header: "?h = ?g" using m by simp
  moreover have "length a < 256 ^ 4" "length payload < 256 ^ 4" using assms(2,3) by simp_all
  ultimately have len: "length payload = length a" by (metis of_be_be_bytes)
  from eq m have after: "take (m - 4) (a @ xs) = payload @ rest" using same_header by simp
  have "length (take (m - 4) (a @ xs)) \<ge> length a" unfolding after using len by simp
  then have more: "length a \<le> m - 4" by simp
  have "take (length a) (take (m - 4) (a @ xs)) = payload" unfolding after using len by simp
  with more have same: "payload = a" by simp
  with after more show ?thesis by (simp add: frame_def)
qed

text \<open>What is read from the front of a sequence of sent frames is the front of the sequence of messages.\<close>

lemma read_sent:
  assumes "read_messages decode n p = (q, Inr envs)" and "input_of p = take m (concat (map frame payloads))"
    and "list_all2 (\<lambda>r a. encode (envelope_current r) = Inr a \<and> length a < 2 ^ 32) rs payloads"
    and codec: "\<And>r a. encode (envelope_current r) = Inr a \<Longrightarrow> decode a = Inr (envelope_current r)"
  shows "n \<le> length rs \<and> map message envs = take n rs"
  using assms(1-3)
proof (induction n arbitrary: p m envs payloads rs)
  case 0
  then show ?case by simp
next
  case (Suc n)
  then obtain env p' es where first: "read_message decode p = (p', Inr env)"
    and later: "read_messages decode n p' = (q, Inr es)" and envs: "envs = env # es"
    by (auto split: prod.splits sum.splits)
  from read_message_ok [OF first] obtain payload rest where
    r: "input_of p = frame payload @ rest" "length payload < 2 ^ 32" "decode payload = Inr env" "p' = with_input p rest" by blast
  have "frame payload \<noteq> []" by (metis append_is_Nil_conv frame_def length_be_bytes list.size(3) zero_neq_numeral)
  with r(1) Suc.prems(2) have "payloads \<noteq> []" by auto
  then obtain a as where as: "payloads = a # as" by (cases payloads) auto
  with Suc.prems(3) obtain x xs where rs: "rs = x # xs" and x: "encode (envelope_current x) = Inr a" "length a < 2 ^ 32"
    and xs: "list_all2 (\<lambda>r a. encode (envelope_current r) = Inr a \<and> length a < 2 ^ 32) xs as"
    by (auto simp: list_all2_Cons2)
  have "take m (frame a @ concat (map frame as)) = frame payload @ rest" using r(1) Suc.prems(2) as by simp
  from frame_take [OF this x(2) r(2)] have "payload = a" "rest = take (m - length (frame a)) (concat (map frame as))" by simp_all
  with Suc.IH [OF later _ xs, of "m - length (frame a)"] r(3,4) codec [OF x(1)] envs rs \<open>payload = a\<close> show ?case
    by (auto simp: envelope_current_def)
qed

lemma exchange_loop_output: "output_of (fst (exchange_loop decode elapsed tid i n p)) = output_of p"
  by (induction n arbitrary: i p)
     (auto dest: read_message_output split: prod.splits sum.splits Response.splits)

lemma write_message_input: "write_message encode p m = (p', r) \<Longrightarrow> input_of p' = input_of p"
  by (auto simp: write_message_def write_all_def with_stream_def Let_def split: sum.splits if_splits prod.splits option.splits)

text \<open>The verdict is the last response of a connection, whichever of its prefixes has arrived.\<close>

lemma accepted_last:
  assumes "accepting_responses tid clock (take n rs)" and "n \<le> length rs"
    and "rs = [r] \<or> (\<exists>u is. rs = Started u # is @ [r] \<and> list_all (interim u) is)"
  shows "r = Completed tid DC_Accepted"
proof -
  from assms(1) have verdict: "last (take n rs) = Completed tid DC_Accepted" "take n rs \<noteq> []"
    by (simp_all add: accepting_responses_def)
  then have "Completed tid DC_Accepted \<in> set rs" by (metis in_set_takeD last_in_set)
  with assms(3) show ?thesis by (auto simp: list_all_iff interim_def dest!: bspec)
qed

text \<open>
  C2. From the login to the template. The PAM module and the daemon are at the ends of one connection: the daemon has
  received what the module wrote, the module what the daemon has sent so far, and the codecs decode what they
  encode. If the exchange accepts, the daemon's one terminal response was the acceptance of that transaction: it
  had granted the request of the module, the store returned a template of the account of the request, and
  the engine delivered evidence of that transaction which the evaluation accepted against that template.
\<close>

theorem pam_success_end_to_end:
  assumes "exchange encode decode elapsed peer (Authenticate cx) = (peer', PamAccepted)"
    and "coordinate_authentication_connection w (load_template load_key cd S) policy conn ad drain ts e (d, b, s) =
      (e', Some (Inr r), d', b', s')"
    and "output_of peer = []" "input_of s = output_of peer'" "output_of s = []" "input_of peer = take m (output_of s')"
    and request_codec: "\<And>m a. encode (envelope_current m) = Inr a \<Longrightarrow> wi_decode w a = Inr (envelope_current m)"
    and response_codec: "\<And>m a. wi_encode w (envelope_current m) = Inr a \<Longrightarrow> decode a = Inr (envelope_current m)"
  shows "r = Completed (transaction_id cx) DC_Accepted \<and>
    (\<exists>grant ev template decision.
       peer_grant (bd_authorization b) (ps_peer s) (ad_probe ad) cx = Inr grant \<and>
       EaUpdate (UpCompleted (transaction_id cx) (Inr ev)) \<in> ct_engine ` set ts \<and> de_transaction_id ev = transaction_id cx \<and>
       load_template load_key cd S (target_uid cx) d = (d', Inr template) \<and> tr_uid template = target_uid cx \<and>
       evaluate_authentication (cp_authentication policy) (cp_passive_pad policy) template (evidence_observation ev) = Inr decision \<and>
       accepted decision)"
proof -
  have "snd (exchange encode decode elapsed peer (Authenticate cx)) = PamAccepted" using assms(1) by simp
  then obtain p k q envs where p: "write_message encode peer (Authenticate cx) = (p, Inr ())"
      "read_messages decode (Suc k) p = (q, Inr envs)"
      "accepting_responses (transaction_id cx) (map elapsed [0..<Suc k]) (map message envs)"
    unfolding exchange_accepts by blast
  obtain rs where sent: "delivered w s s' rs" and rs: "rs = [r] \<or> (\<exists>u is. rs = Started u # is @ [r] \<and> list_all (interim u) is)"
    using connection_frames [OF assms(2)] by blast
  then obtain payloads where payloads: "list_all2 (\<lambda>r a. wi_encode w (envelope_current r) = Inr a \<and> length a < 2 ^ 32) rs payloads"
      "output_of s' = concat (map frame payloads)" using assms(5) by (auto simp: delivered_def)
  have "input_of p = take m (concat (map frame payloads))"
    using write_message_input [OF p(1)] assms(6) payloads(2) by simp
  from read_sent [OF p(2) this payloads(1) response_codec] p(3) rs
  have r: "r = Completed (transaction_id cx) DC_Accepted" by (metis accepted_last)
  from encrypted_source.connection_accepted [OF assms(2) [unfolded r]] obtain payload rest env cx' grant ev template decision where
    d: "input_of s = frame payload @ rest" "wi_decode w payload = Inr env" "message env = Authenticate cx'"
      "peer_grant (bd_authorization b) (ps_peer s) (ad_probe ad) cx' = Inr grant"
      "EaUpdate (UpCompleted (transaction_id cx) (Inr ev)) \<in> ct_engine ` set ts" "de_transaction_id ev = transaction_id cx"
      "load_template load_key cd S (grant_target_uid grant) d = (d', Inr template)" "tr_uid template = grant_target_uid grant"
      "evaluate_authentication (cp_authentication policy) (cp_passive_pad policy) template (evidence_observation ev) = Inr decision"
      "accepted decision" by blast
  have "output_of peer' = output_of p"
    using exchange_loop_output [of decode elapsed "transaction_id cx" 0 MAX_RESPONSES p] assms(1) p(1) by (simp add: exchange_def)
  with write_message_ok [OF p(1)] assms(3,4) obtain written where
    written: "encode (envelope_current (Authenticate cx)) = Inr written" "length written < 2 ^ 32" "input_of s = frame written"
    by auto
  have "length (frame written) = length (frame payload @ rest)" using d(1) written(3) by simp
  then have "length payload < 2 ^ 32" using written(2) by (simp add: frame_def)
  moreover have "take (length (frame written)) (frame written @ []) = frame payload @ rest" using d(1) written(3) by simp
  ultimately have "payload = written" using frame_take written(2) by blast
  with request_codec [OF written(1)] d(2,3) have cx: "cx' = cx" by (auto simp: envelope_current_def)
  have "grant_target_uid grant = target_uid cx"
    using d(4) unfolding cx by (auto simp: peer_grant_def result_simps authorize_def split: option.splits if_splits)
  with r d cx show ?thesis by auto
qed

section \<open>Examples\<close>

text \<open>A module whose request is the one of the daemon's example, over a codec of the three messages.\<close>

definition ex_request_codec :: "Request Envelope \<Rightarrow> nat + u8 list" where
  "ex_request_codec env = (if env = envelope_current (Authenticate ex_context) then Inr [7] else Inl 0)"

definition ex_response_codec :: "u8 list \<Rightarrow> nat + Response Envelope" where
  "ex_response_codec bytes =
     (if bytes = [9] then Inr (envelope_current (Started (TransactionId 1)))
      else if bytes = [8] then Inr (envelope_current (Completed (TransactionId 1) DC_Accepted)) else Inl 0)"

definition ex_module :: "u8 list \<Rightarrow> u8 list \<Rightarrow> PeerStream" where
  "ex_module unread written = ex_stream\<lparr>ps_stream := \<lparr>bs_input = unread, bs_input_end = IoTimedOut, bs_output = written,
     bs_output_fault = None\<rparr>\<rparr>"

lemma ex_module_reads:
  "ex_response_codec [n] = Inr (envelope_current r) \<Longrightarrow>
     read_message ex_response_codec (ex_module (frame [n] @ rest) written) = (ex_module rest written, Inr (envelope_current r))"
  using read_message_frame [of "[n]" "ex_module [] written" ex_response_codec "envelope_current r" rest]
  by (simp add: ex_module_def ex_stream_def with_input_def with_stream_def transport_config_default_def
      DEFAULT_MAX_MESSAGE_BYTES_def envelope_current_def)

lemma ex_exchange:
  "exchange ex_request_codec ex_response_codec (\<lambda>_. 0) (ex_module (frame [9] @ frame [8]) []) (Authenticate ex_context) =
     (ex_module [] (frame [7]), PamAccepted)"
proof -
  have written: "write_message ex_request_codec (ex_module (frame [9] @ frame [8]) []) (Authenticate ex_context) =
      (ex_module (frame [9] @ frame [8]) (frame [7]), Inr ())"
    by (simp add: write_message_def ex_request_codec_def ex_module_def ex_stream_def transport_config_default_def
        DEFAULT_MAX_MESSAGE_BYTES_def write_all_def with_stream_def frame_def Let_def)
  have "read_message ex_response_codec (ex_module (frame [9] @ frame [8]) (frame [7])) =
      (ex_module (frame [8]) (frame [7]), Inr (envelope_current (Started (TransactionId 1))))"
    by (rule ex_module_reads) (simp add: ex_response_codec_def)
  moreover have "read_message ex_response_codec (ex_module (frame [8]) (frame [7])) =
      (ex_module [] (frame [7]), Inr (envelope_current (Completed (TransactionId 1) DC_Accepted)))"
    using ex_module_reads [of 8 "Completed (TransactionId 1) DC_Accepted" "[]" "frame [7]"] by (simp add: ex_response_codec_def)
  moreover have "0 < MAX_TRANSACTION_DURATION" by (simp add: MAX_TRANSACTION_DURATION_def from_secs_def)
  ultimately have "exchange_loop ex_response_codec (\<lambda>_. 0) (TransactionId 1) 0 (Suc (Suc n)) (ex_module (frame [9] @ frame [8]) (frame [7])) =
      (ex_module [] (frame [7]), PamAccepted)" for n
    by (simp add: envelope_current_def)
  from this [of 62] written show ?thesis by (simp add: exchange_def MAX_RESPONSES_def ex_context_def)
qed

theorem pam_success_end_to_end_witness:
  "\<exists>ev template decision. ex_load 1000 ex_enrolled_disk = (ex_enrolled_disk, Inr template) \<and> tr_uid template = 1000 \<and>
     EaUpdate (UpCompleted (TransactionId 1) (Inr ev)) \<in> ct_engine ` set [ex_late_turn] \<and>
     evaluate_authentication ex_auth_policy ex_pad template (evidence_observation ev) = Inr decision \<and> accepted decision"
proof -
  obtain e' b' where run: "coordinate_authentication_connection ex_wire ex_load ex_connection_policy (ConnectionToken [])
      ex_admission (\<lambda>_. EaTimeout) [ex_late_turn] ex_engine_state (ex_enrolled_disk, ex_service, ex_stream) =
    (e', Some (Inr (Completed (TransactionId 1) DC_Accepted)), ex_enrolled_disk, b', ex_sent (frame [9] @ frame [8]))"
    using ex_connection_run by blast
  have ends: "output_of (ex_module (frame [9] @ frame [8]) []) = []" "input_of ex_stream = output_of (ex_module [] (frame [7]))"
      "output_of ex_stream = []"
      "input_of (ex_module (frame [9] @ frame [8]) []) = take 10 (output_of (ex_sent (frame [9] @ frame [8])))"
    by (simp_all add: ex_module_def ex_stream_def ex_sent_def frame_def)
  have codec: "ex_request_codec (envelope_current m) = Inr a \<Longrightarrow> wi_decode ex_wire a = Inr (envelope_current m)" for m a
    by (auto simp: ex_request_codec_def ex_wire_def split: if_splits)
  have codec': "wi_encode ex_wire (envelope_current m) = Inr a \<Longrightarrow> ex_response_codec a = Inr (envelope_current m)" for m a
    by (auto simp: ex_response_codec_def ex_wire_def envelope_current_def split: if_splits)
  from pam_success_end_to_end [OF ex_exchange run ends codec codec'] show ?thesis
    by (auto simp: ex_connection_policy_def ex_context_def)
qed

end
