(* ===== verification/Spec2Isabelle.thy ===== *)
theory Spec2Isabelle
  imports CorePolicy Session Management Liveness Presence Camera Capture UiModel Transport Quality TemplateStore Onnx Boundary Provenance Enrollment EnrollmentProperties AssemblyProperties PamProperties
begin

text \<open>
  A model of faceauth-rs, the face authentication service of a Linux desktop, translated from its Rust crates
  under \<open>src/crates/\<close>, with the theorems that make its parts and their composition correct.

  \<^bold>\<open>The program.\<close> A PAM module (\<open>pam-faceauth\<close>) sends one framed request over a root-owned socket. The daemon
  accepts the connection (\<open>faceauth-transport\<close>), establishes which executable is at the other end and asks its
  policy for a grant (\<open>faceauth-authz\<close>), opens the only transaction there can be (\<open>faceauth-session\<close>) and submits
  a job to the only worker (\<open>faceauth-daemon\<close>, \<open>engine.rs\<close>), which holds a lease of the cameras and models
  (\<open>resource.rs\<close>). The production pipeline (\<open>observation.rs\<close>) captures fresh pairs of an infrared and a visible
  frame (\<open>faceauth-camera\<close>, \<open>faceauth-capture\<close>), assesses them (\<open>faceauth-quality\<close>), runs six models
  (\<open>faceauth-model\<close>, \<open>faceauth-inference\<close>) and drives a randomized challenge (\<open>faceauth-liveness\<close>). Its evidence is
  evaluated against the encrypted template of the granted account (\<open>faceauth-storage\<close>) under the policy of
  \<open>faceauth-core\<close> (\<open>lib.rs\<close> of the daemon), and one terminal response goes back. Enrollment is the second way in:
  Manager1 on the system bus (\<open>faceauth-management\<close>, \<open>faceauth-management-dbus\<close>) opens an operation, a second worker
  (\<open>enrollment_engine.rs\<close>) accumulates observations of the same pipeline (\<open>faceauth-enrollment\<close>) and saves a template.
  \<open>production.rs\<close> validates the configuration, reports readiness and assembles all of it under the supervisor of
  \<open>supervision.rs\<close>; \<open>faceauth-ui-model\<close> and \<open>faceauth-presence\<close> are what desktop clients see.

  \<^bold>\<open>How the model reads.\<close> A struct is a record, an enum a datatype, \<open>u8\<close> to \<open>u64\<close> are words that wrap where the
  code wraps, \<open>usize\<close> is \<open>nat\<close>, a string its list of bytes, a \<open>Result\<close> a sum with the error on the left
  (\<open>try_bind\<close> is the question mark). \<open>f32\<close> and \<open>f64\<close> are the executable IEEE formats of theory \<open>Ieee\<close>. A computation
  that could panic returns an option, or the theorem excludes the panic. Everything executes. What lies outside
  the program is an argument: the JSON codec, UUIDs, SPDX, SHA-256 and authenticated encryption; the answers of the
  kernel, of V4L2, of udev, of the ONNX runtime, of the TPM, of the bus, of PolicyKit, of libpam and of the clock;
  and what other threads do between two critical sections. A codec or cipher appears in a theorem only with the law
  that it decodes what it encoded, or is authentic, as a hypothesis.

  \<^bold>\<open>Theories.\<close>
  \<^item> Foundations: \<open>Prelude\<close> (results, ranges, digits, saturating words, shared hints), \<open>Bytes\<close> (encodings and
    streams), \<open>Ieee\<close> and \<open>Sqrt\<close> (floating point), \<open>OneShot\<close> (the locale of a slot for one operation).
  \<^item> Messages and callers: \<open>Protocol\<close>, \<open>Authz\<close>, \<open>Transport\<close> (framing, accept loop, listener), \<open>PamModule\<close>.
  \<^item> Transactions: \<open>Session\<close>, \<open>Management\<close> and \<open>UiModel\<close>, each an interpretation of \<open>OneShot\<close>; \<open>Presence\<close>.
  \<^item> Observation: \<open>CorePolicy\<close>, \<open>Camera\<close>, \<open>Capture\<close>, \<open>Calibration\<close> and \<open>Quality\<close>, \<open>Liveness\<close>, \<open>Manifest\<close>,
    \<open>Biometrics\<close> (adapters of model outputs), \<open>Preprocess\<close> (input tensors), \<open>Onnx\<close> (sessions of the runtime).
  \<^item> Templates: \<open>Disk\<close> (system calls that may fail), \<open>Keys\<close> (the locale of a key provider and the key file),
    \<open>Storage\<close> (records and the encrypted store), \<open>TemplateStore\<close> (its refinement and round trip).
  \<^item> Daemon: \<open>Evaluation\<close>, \<open>Resource\<close>, \<open>Supervision\<close>, \<open>Engine\<close>, \<open>Boundary\<close>, \<open>Observation\<close> and \<open>Provenance\<close>.
  \<^item> Enrollment: \<open>Enrollment\<close>, \<open>Manager\<close> and \<open>ManagerProperties\<close>, \<open>EnrollmentEngine\<close>, \<open>EnrollmentWorker\<close> and
    \<open>EnrollmentProperties\<close>.
  \<^item> Assembly: \<open>Production\<close> (configuration), \<open>Assembly\<close> (trusted files, readiness), \<open>Composition\<close> (engines, store,
    boundary, supervised services), \<open>AssemblyProperties\<close>; \<open>PamProperties\<close> closes the circle from the PAM module through
    the daemon and back.

  \<^bold>\<open>What the theorems show.\<close>
  \<^item> Acceptance: the PAM module succeeds only on an acceptance of its own transaction, and if the daemon is at the other
    end this acceptance rests on a grant, on an authentic template of the account, and on evidence of the very
    transaction that the evaluation accepts (\<open>pam_success_end_to_end\<close>, \<open>accepted_only_with_evidence\<close>); the evaluation
    is characterized exactly, and evidence comes from one fresh pair after a passed challenge.
  \<^item> Enrollment: a saved template rests on live, spaced, mutually similar observations of its own account; who may begin
    and who may cancel; what a job commits; and that what it saved loads again.
  \<^item> Protocols: at most one terminal response or update on every interleaving; a connection ends with its job; at most
    one job holds the hardware; no wake-up of the shutdown is lost; the supervisor ends within its grace period.
  \<^item> Storage: every mutation, failing ones included, refines a transition on the payload of one account; no ABA; keys
    come only from secured files and never change.
  \<^item> Assembly: what a validated configuration guarantees; engines run only reviewed artifacts with the calibrated
    identities; no readiness report is ever ready; the composition ends well only after a requested shutdown.
  \<^item> Numerics: scores stay in range under rounding; resizing and assessment neither panic nor read out of bounds;
    suppression equals its reference; a passed challenge has its evidence.
  \<^item> Behaviour that surprises is stated as it is: the theorems of kind error in \<open>EnrollmentProperties\<close>, \<open>Provenance\<close> and
    \<open>AssemblyProperties\<close>, each with its scenario as a witness.

  \<^bold>\<open>Interfaces.\<close> \<open>oneshot_slot\<close> (four interpretations), \<open>calibration\<close> (the three score calibrations), \<open>key_provider\<close>
  (the key file), \<open>authentic_source\<close> (the encrypted store as the evaluation sees it), \<open>template_sink\<close> (the same store as
  the enrollment worker sees it), \<open>authorization_backend\<close> (the system bus) and \<open>enrollment_controller\<close> (the bridge).
  Clients are proved once inside these locales.

  \<^bold>\<open>Loops and bounds.\<close> No definition has artificial fuel. Loops of the code run over the list of what they meet (answers of
  the listener, turns of the supervisor, attempts of a capture, chunks of a file), so a result of \<open>None\<close> is a loop that
  outlives its list; the liveness and termination theorems give the length after which there is a result (a job sends at
  most 32 updates and one terminal one, so 33 suffice for a connection; a shutdown request and one turn past the grace
  period suffice for the supervisor). Counted loops keep the constants of the code (\<open>MAX_RESPONSES\<close>, \<open>MAX_PROGRESS_UPDATES\<close>,
  the read budget of a pair, the observations of a challenge). The only recursion that is not structural, the retry of a
  key file that was created meanwhile, has a termination proof.

  \<^bold>\<open>Assumptions.\<close> Panics while a mutex is held are modelled where the code handles poisoning (arbiter, presence, bridge);
  the locks of the shutdown signal are taken not to be poisoned. The two zeros of IEEE are one value. Arithmetic that
  overflows is a panic in preprocessing, and the theorems exclude it. The inner components of a path are not symbolic
  links after they were checked. A message that contains the text of another error holds that error instead of its text.

  \<^bold>\<open>Not modelled.\<close> The command line (argument parsing and printing), the KDE clients (C++ and QML), packaging, scripts and
  documents; of the machine keys the commands to the TPM (the container of its sealed blob is modelled), because
  their results are those of a device; generated code of serde, zbus and thiserror; the ioctl layer of V4L2 below the
  frame checks; and the wall clock behind timeouts, which appear as the answers they produce.
\<close>

end
